(* ===== verification/Go_Prelude.thy ===== *)
theory Go_Prelude
  imports Main
begin

text \<open>
  Shared ground of the development: the part of Go's run-time types and of its standard
  library that the modelled packages use, and the generic lemmas and contracts that
  the component theories share.

  A Go string is a sequence of bytes; it is modelled by Isabelle's \<^typ>\<open>string\<close>, a list of
  8-bit characters, so \<open>len\<close> counts bytes. An instant (\<open>time.Time\<close>, always in UTC in the
  modelled code) is an \<^typ>\<open>int\<close> counting nanoseconds from the zero time, which is \<open>0\<close>; a
  \<open>time.Duration\<close> and an \<open>int\<close> are 64-bit values, written as \<^typ>\<open>int\<close> with the
  wrap-around \<open>wrap64\<close> wherever the code computes with them.
\<close>

named_theorems go_defs "unfolding equations of the Go standard library operations"
named_theorems step_defs "unfolding equations of the operations of a component"

section \<open>Integers, instants, contexts\<close>

type_synonym instant = int
type_synonym duration = int

abbreviation (input) zero_time :: instant where
  "zero_time \<equiv> 0"

definition wrap64 :: "int \<Rightarrow> int" where
  "wrap64 x = (x + 2 ^ 63) mod 2 ^ 64 - 2 ^ 63"

lemma wrap64_id [simp]: "- (2 ^ 63) \<le> x \<Longrightarrow> x < 2 ^ 63 \<Longrightarrow> wrap64 x = x"
  by (simp add: wrap64_def)

lemma wrap64_range: "- (2 ^ 63) \<le> wrap64 x \<and> wrap64 x < 2 ^ 63"
  using pos_mod_bound [of "2 ^ 64 :: int" "x + 2 ^ 63"]
    pos_mod_sign [of "2 ^ 64 :: int" "x + 2 ^ 63"]
  by (simp add: wrap64_def)

text \<open>The state of a \<open>context.Context\<close> when an operation looks at it.\<close>

datatype ctx_error = Context_Canceled | Deadline_Exceeded

type_synonym ctx = "ctx_error option"

section \<open>Byte strings\<close>

definition HasPrefix :: "string \<Rightarrow> string \<Rightarrow> bool" where
  [go_defs]: "HasPrefix s p \<longleftrightarrow> take (length p) s = p"

definition TrimPrefix :: "string \<Rightarrow> string \<Rightarrow> string" where
  [go_defs]: "TrimPrefix s p = (if HasPrefix s p then drop (length p) s else s)"

definition HasSuffix :: "string \<Rightarrow> string \<Rightarrow> bool" where
  [go_defs]: "HasSuffix s p \<longleftrightarrow> HasPrefix (rev s) (rev p)"

definition TrimSuffix :: "string \<Rightarrow> string \<Rightarrow> string" where
  [go_defs]: "TrimSuffix s p = (if HasSuffix s p then take (length s - length p) s else s)"

text \<open>\<open>strings.ContainsAny\<close> with an ASCII character set.\<close>

definition ContainsAny :: "string \<Rightarrow> string \<Rightarrow> bool" where
  [go_defs]: "ContainsAny s chars \<longleftrightarrow> list_ex (\<lambda>c. List.member chars c) s"

text \<open>The set \<open>"\x00\r\n"\<close> that identifiers may not hold.\<close>

definition nul_cr_lf :: string where
  "nul_cr_lf = [CHR 0x00, CHR 0x0D, CHR 0x0A]"

text \<open>\<open>strings.Split\<close> and \<open>strings.SplitN\<close> with a one-byte separator.\<close>

fun Split :: "char \<Rightarrow> string \<Rightarrow> string list" where
  "Split c [] = [[]]"
| "Split c (x # xs) =
     (if x = c then [] # Split c xs
      else (case Split c xs of [] \<Rightarrow> [[x]] | y # ys \<Rightarrow> (x # y) # ys))"

fun cut :: "char \<Rightarrow> string \<Rightarrow> (string \<times> string) option" where
  "cut c [] = None"
| "cut c (x # xs) =
     (if x = c then Some ([], xs)
      else (case cut c xs of None \<Rightarrow> None | Some (a, b) \<Rightarrow> Some (x # a, b)))"

fun SplitN :: "nat \<Rightarrow> char \<Rightarrow> string \<Rightarrow> string list" where
  "SplitN 0 c s = []"
| "SplitN (Suc 0) c s = [s]"
| "SplitN (Suc (Suc n)) c s =
     (case cut c s of None \<Rightarrow> [s] | Some (a, b) \<Rightarrow> a # SplitN (Suc n) c b)"

lemma HasPrefix_append [simp]: "HasPrefix (p @ s) p"
  by (simp add: HasPrefix_def)

lemma TrimPrefix_append [simp]: "TrimPrefix (p @ s) p = s"
  by (simp add: TrimPrefix_def)

lemma HasPrefix_iff: "HasPrefix s p \<longleftrightarrow> (\<exists>t. s = p @ t)"
  by (metis HasPrefix_append HasPrefix_def append_take_drop_id)

lemma ContainsAny_append [simp]:
  "ContainsAny (s @ t) cs \<longleftrightarrow> ContainsAny s cs \<or> ContainsAny t cs"
  by (simp add: ContainsAny_def)

lemma Split_ne [simp]: "Split c s \<noteq> []"
  by (cases s) (auto split: list.splits)

lemma Split_fresh: "c \<notin> set s \<Longrightarrow> Split c s = [s]"
  by (induction s) auto

lemma Split_append_sep: "c \<notin> set s \<Longrightarrow> Split c (s @ c # t) = s # Split c t"
  by (induction s) auto

lemma cut_fresh: "c \<notin> set s \<Longrightarrow> cut c (s @ c # t) = Some (s, t)"
  by (induction s) auto

section \<open>White space\<close>

text \<open>
  \<open>strings.TrimSpace\<close> strips the runes of \<open>unicode.IsSpace\<close>. Each is given by its UTF-8
  encoding; no encoding is a proper prefix or suffix of another, so stripping encodings from
  both ends strips exactly those runes.
\<close>

definition space_runes :: "string list" where
  "space_runes =
    [[CHR 0x20], [CHR 0x09], [CHR 0x0A], [CHR 0x0B], [CHR 0x0C], [CHR 0x0D],
     [CHR 0xC2, CHR 0x85], [CHR 0xC2, CHR 0xA0], [CHR 0xE1, CHR 0x9A, CHR 0x80]]
    @ map (\<lambda>b. [CHR 0xE2, CHR 0x80, b])
        [CHR 0x80, CHR 0x81, CHR 0x82, CHR 0x83, CHR 0x84, CHR 0x85, CHR 0x86, CHR 0x87,
         CHR 0x88, CHR 0x89, CHR 0x8A, CHR 0xA8, CHR 0xA9, CHR 0xAF]
    @ [[CHR 0xE2, CHR 0x81, CHR 0x9F], [CHR 0xE3, CHR 0x80, CHR 0x80]]"

definition first_prefix :: "string list \<Rightarrow> string \<Rightarrow> string option" where
  "first_prefix ws s = find (\<lambda>w. w \<noteq> [] \<and> HasPrefix s w) ws"

lemma first_prefix_Some:
  "first_prefix ws s = Some w \<Longrightarrow> w \<in> set ws \<and> w \<noteq> [] \<and> HasPrefix s w"
  by (auto simp: first_prefix_def find_Some_iff)

lemma first_prefix_None:
  "first_prefix ws s = None \<longleftrightarrow> (\<forall>w \<in> set ws. w \<noteq> [] \<longrightarrow> \<not> HasPrefix s w)"
  by (auto simp: first_prefix_def find_None_iff)

function strip_left :: "string list \<Rightarrow> string \<Rightarrow> string" where
  "strip_left ws s =
     (case first_prefix ws s of None \<Rightarrow> s | Some w \<Rightarrow> strip_left ws (drop (length w) s))"
  by pat_completeness auto
termination
proof (relation "measure (\<lambda>(ws, s). length s)", goal_cases)
  case 1
  show ?case by simp
next
  case (2 ws s w)
  then have "w \<noteq> []" and "HasPrefix s w"
    using first_prefix_Some by blast+
  then show ?case by (auto simp: HasPrefix_iff)
qed

declare strip_left.simps [simp del]

definition TrimSpace :: "string \<Rightarrow> string" where
  "TrimSpace s = rev (strip_left (map rev space_runes) (rev (strip_left space_runes s)))"

lemma strip_left_clean: "first_prefix ws (strip_left ws s) = None"
proof (induction ws s rule: strip_left.induct)
  case (1 ws s)
  then show ?case
    by (cases "first_prefix ws s") (simp_all add: strip_left.simps [of ws s])
qed

lemma strip_left_id: "first_prefix ws s = None \<Longrightarrow> strip_left ws s = s"
  by (simp add: strip_left.simps)

lemma strip_left_suffix: "\<exists>t. s = t @ strip_left ws s"
proof (induction ws s rule: strip_left.induct)
  case (1 ws s)
  show ?case
  proof (cases "first_prefix ws s")
    case None
    then show ?thesis by (simp add: strip_left_id)
  next
    case (Some w)
    with "1" obtain t where "drop (length w) s = t @ strip_left ws (drop (length w) s)"
      by blast
    then have "s = (take (length w) s @ t) @ strip_left ws s"
      using Some by (metis append.assoc append_take_drop_id option.simps(5) strip_left.simps)
    then show ?thesis by blast
  qed
qed

lemma TrimSpace_prefix: "\<exists>t. strip_left space_runes s = TrimSpace s @ t"
proof -
  obtain t where "rev (strip_left space_runes s) =
      t @ strip_left (map rev space_runes) (rev (strip_left space_runes s))"
    using strip_left_suffix by blast
  then have "strip_left space_runes s = TrimSpace s @ rev t"
    unfolding TrimSpace_def by (metis rev_append rev_rev_ident)
  then show ?thesis by blast
qed

lemma TrimSpace_idem [simp]: "TrimSpace (TrimSpace s) = TrimSpace s"
proof -
  obtain t where t: "strip_left space_runes s = TrimSpace s @ t"
    using TrimSpace_prefix by blast
  have "first_prefix space_runes (strip_left space_runes s) = None"
    by (rule strip_left_clean)
  then have "first_prefix space_runes (TrimSpace s) = None"
    unfolding first_prefix_None t by (auto simp: HasPrefix_iff)
  moreover have "first_prefix (map rev space_runes) (rev (TrimSpace s)) = None"
    unfolding TrimSpace_def by (simp add: strip_left_clean)
  ultimately show ?thesis
    by (simp add: TrimSpace_def [of "TrimSpace s"] strip_left_id)
qed

lemma TrimSpace_length: "length (TrimSpace s) \<le> length s"
proof -
  have "length (TrimSpace s) \<le> length (strip_left space_runes s)"
    using TrimSpace_prefix [of s] by (metis le_add1 length_append)
  also have "\<dots> \<le> length s"
    using strip_left_suffix [of s space_runes] by (metis le_add2 length_append)
  finally show ?thesis .
qed

section \<open>State machines\<close>

text \<open>
  Every stateful component is a step function on a state and an event; its safety
  properties are invariants, and an invariant kept by a step is kept by a run. Mutex
  protected operations are atomic, so a run over a list of events is any interleaving of
  the calls of concurrent goroutines.
\<close>

locale invariant_machine =
  fixes step :: "'e \<Rightarrow> 's \<Rightarrow> 's"
    and inv :: "'s \<Rightarrow> bool"
  assumes inv_step: "inv s \<Longrightarrow> inv (step e s)"
begin

lemma inv_run: "inv s \<Longrightarrow> inv (fold step es s)"
  by (induction es arbitrary: s) (auto intro: inv_step)

lemma inv_reached: "inv s \<Longrightarrow> es = es1 @ es2 \<Longrightarrow> inv (fold step es1 s)"
  by (rule inv_run)

end

text \<open>A quantity that every step keeps, or only lets grow, is kept by a run.\<close>

locale monotone_machine =
  fixes step :: "'e \<Rightarrow> 's \<Rightarrow> 's"
    and rel :: "'s \<Rightarrow> 's \<Rightarrow> bool"
  assumes rel_refl: "rel s s"
    and rel_trans: "rel s t \<Longrightarrow> rel t u \<Longrightarrow> rel s u"
    and rel_step: "rel s (step e s)"
begin

lemma rel_run: "rel s (fold step es s)"
proof (induction es arbitrary: s)
  case Nil
  show ?case by (simp add: rel_refl)
next
  case (Cons e es)
  show ?case using rel_trans [OF rel_step Cons.IH] by simp
qed

end

section \<open>Lists\<close>

fun index_of :: "('a \<Rightarrow> bool) \<Rightarrow> 'a list \<Rightarrow> nat option" where
  "index_of P [] = None"
| "index_of P (x # xs) = (if P x then Some 0 else map_option Suc (index_of P xs))"

lemma index_of_Some:
  "index_of P xs = Some i \<Longrightarrow> i < length xs \<and> P (xs ! i) \<and> (\<forall>j < i. \<not> P (xs ! j))"
proof (induction xs arbitrary: i)
  case Nil
  then show ?case by simp
next
  case (Cons x xs)
  then show ?case
    by (fastforce split: if_splits simp: nth_Cons' less_Suc_eq_0_disj)
qed

lemma index_of_None: "index_of P xs = None \<longleftrightarrow> (\<forall>x \<in> set xs. \<not> P x)"
  by (induction xs) auto

lemma map_list_update_same:
  "i < length xs \<Longrightarrow> f y = f (xs ! i) \<Longrightarrow> map f (xs[i := y]) = map f xs"
  by (metis list_update_id map_update nth_map)

end
