(* ===== verification/Vim_Mode.thy ===== *)
theory Vim_Mode
  imports Go_Prelude
begin

text \<open>
  The Vim input mode of the terminal client (\<open>internal/vim\<close>): a state machine that turns key
  presses into editing actions (\<open>types.go\<close>, \<open>transitions.go\<close>). \<open>HandleKey\<close> and the handlers of
  the pending commands return a textual action, which \<open>ActionForKey\<close> turns into a structured one.
  Every handler of the source returns a nil error, so the model returns the action alone.
  The command pointer of the source is never shared, so it is modelled by its value.
\<close>

section \<open>Types\<close>

datatype mode = ModeInsert | ModeNormal | ModeVisual | ModeOther string

type_synonym operator = string
type_synonym find_type = string
type_synonym text_obj_scope = string

abbreviation OperatorDelete :: operator where "OperatorDelete \<equiv> ''delete''"
abbreviation OperatorChange :: operator where "OperatorChange \<equiv> ''change''"
abbreviation OperatorYank :: operator where "OperatorYank \<equiv> ''yank''"

abbreviation TextObjScopeInner :: text_obj_scope where "TextObjScopeInner \<equiv> ''inner''"
abbreviation TextObjScopeAround :: text_obj_scope where "TextObjScopeAround \<equiv> ''around''"

datatype action_kind =
    ActionNone | ActionInsert | ActionSetMode | ActionMove | ActionOperator | ActionDelete
  | ActionUndo | ActionRedo | ActionRepeat | ActionFind | ActionPaste | ActionReplace

record action =
  a_kind :: action_kind
  a_mode :: mode
  a_from_mode :: mode
  a_text :: string
  a_motion :: string
  a_operator :: operator
  a_count :: int
  a_find :: find_type
  a_scope :: text_obj_scope

text \<open>
  The \<open>Type\<close> strings of a command; \<open>"operatorG"\<close> is written by the operator handler and read
  by no handler.
\<close>

datatype command_type =
    CIdle | CCount | COperator | COperatorCount | CFind | COperatorFind | COperatorTextObj
  | CG | CReplace | CIndent | COperatorG | COther string

record command_state =
  c_type :: command_type
  c_op :: operator
  c_count :: int
  c_digits :: string
  c_find :: find_type
  c_scope :: text_obj_scope
  c_dir :: string

record vim_state =
  vs_mode :: mode
  vs_command :: "command_state option"
  vs_inserted :: string

record find_info =
  fi_type :: find_type
  fi_char :: string

record recorded_change =
  rc_type :: string
  rc_text :: string
  rc_op :: operator
  rc_motion :: string
  rc_count :: int
  rc_obj_type :: string
  rc_scope :: text_obj_scope
  rc_find :: find_type
  rc_char :: string
  rc_dir :: string
  rc_direction :: string

record persistent_state =
  ps_last_change :: "recorded_change option"
  ps_last_find :: "find_info option"
  ps_register :: string
  ps_register_is_linewise :: bool

record transition =
  t_state :: vim_state
  t_persistent :: persistent_state

section \<open>Factories and key classes\<close>

definition NewVimState :: vim_state where
  "NewVimState = \<lparr>vs_mode = ModeInsert, vs_command = None, vs_inserted = []\<rparr>"

definition NewPersistentState :: persistent_state where
  "NewPersistentState = \<lparr>ps_last_change = None, ps_last_find = None, ps_register = [],
     ps_register_is_linewise = False\<rparr>"

text \<open>A \<open>CommandState\<close> literal with only its type, and a \<open>RecordedChange\<close> literal.\<close>

definition empty_command :: "command_type \<Rightarrow> command_state" where
  "empty_command ty = \<lparr>c_type = ty, c_op = [], c_count = 0, c_digits = [], c_find = [],
     c_scope = [], c_dir = []\<rparr>"

definition NewCommandState :: command_state where
  "NewCommandState = empty_command CIdle"

definition empty_change :: "string \<Rightarrow> recorded_change" where
  "empty_change ty = \<lparr>rc_type = ty, rc_text = [], rc_op = [], rc_motion = [], rc_count = 0,
     rc_obj_type = [], rc_scope = [], rc_find = [], rc_char = [], rc_dir = [],
     rc_direction = []\<rparr>"

definition NewTransition :: "vim_state \<Rightarrow> persistent_state \<Rightarrow> transition" where
  "NewTransition s p = \<lparr>t_state = s, t_persistent = p\<rparr>"

definition operator_keys :: "string \<rightharpoonup> operator" where
  "operator_keys = [''d'' \<mapsto> OperatorDelete, ''c'' \<mapsto> OperatorChange, ''y'' \<mapsto> OperatorYank]"

definition IsOperatorKey :: "string \<Rightarrow> bool" where
  "IsOperatorKey key \<longleftrightarrow> operator_keys key \<noteq> None"

definition GetOperator :: "string \<Rightarrow> operator" where
  "GetOperator key = (case operator_keys key of None \<Rightarrow> [] | Some op \<Rightarrow> op)"

definition IsSimpleMotion :: "string \<Rightarrow> bool" where
  "IsSimpleMotion key \<longleftrightarrow>
     List.member [''h'', ''l'', ''j'', ''k'', ''w'', ''b'', ''e'', ''W'', ''B'', ''E'',
       ''0'', ''^'', ''$'', ''G'', ''gg''] key"

definition IsFindKey :: "string \<Rightarrow> bool" where
  "IsFindKey key \<longleftrightarrow> List.member [''f'', ''F'', ''t'', ''T''] key"

definition IsTextObjScopeKey :: "string \<Rightarrow> bool" where
  "IsTextObjScopeKey key \<longleftrightarrow> List.member [''i'', ''a''] key"

definition GetTextObjScope :: "string \<Rightarrow> text_obj_scope" where
  "GetTextObjScope key =
     (if key = ''i'' then TextObjScopeInner else if key = ''a'' then TextObjScopeAround else [])"

definition IsTextObjType :: "string \<Rightarrow> bool" where
  "IsTextObjType key \<longleftrightarrow>
     List.member [''w'', ''W'', [CHR 0x22], [CHR 0x27], [CHR 0x60], ''('', '')'', ''b'', ''['', '']'',
       ''{'', ''}'', ''B'', ''<'', ''>''] key"

definition MaxVimCount :: int where
  "MaxVimCount = 10000"

definition digit_byte :: "char \<Rightarrow> bool" where
  "digit_byte ch \<longleftrightarrow> (48::nat) \<le> of_char ch \<and> (of_char ch :: nat) \<le> 57"

definition isDigit :: "string \<Rightarrow> bool" where
  "isDigit s = (case s of [ch] \<Rightarrow> digit_byte ch | _ \<Rightarrow> False)"

text \<open>
  \<open>parseCount\<close> ranges over runes; the bytes of a rune outside ASCII are no digits, so it
  counts the same digits over bytes. The accumulator is a 64-bit \<open>int\<close>.
\<close>

definition parseCount :: "string \<Rightarrow> int" where
  "parseCount s =
     foldl (\<lambda>count ch. if digit_byte ch then wrap64 (count * 10 + (of_char ch - 48)) else count) 0 s"

definition actionCount :: "command_state option \<Rightarrow> int" where
  "actionCount command =
     (case command of
        None \<Rightarrow> 1
      | Some c \<Rightarrow>
          if c_type c = CCount then min MaxVimCount (parseCount (c_digits c))
          else if c_count c > 0 then c_count c else 1)"

section \<open>Insert and visual mode\<close>

abbreviation is_escape :: "string \<Rightarrow> bool" where
  "is_escape key \<equiv> key = ''<Esc>'' \<or> key = [CHR 0x1B]"

abbreviation with_mode :: "transition \<Rightarrow> mode \<Rightarrow> transition" where
  "with_mode t m \<equiv> t\<lparr>t_state := (t_state t)\<lparr>vs_mode := m\<rparr>\<rparr>"

abbreviation with_command :: "transition \<Rightarrow> command_state \<Rightarrow> transition" where
  "with_command t c \<equiv> t\<lparr>t_state := (t_state t)\<lparr>vs_command := Some c\<rparr>\<rparr>"

abbreviation with_inserted :: "transition \<Rightarrow> string \<Rightarrow> transition" where
  "with_inserted t s \<equiv> t\<lparr>t_state := (t_state t)\<lparr>vs_inserted := s\<rparr>\<rparr>"

abbreviation with_change :: "transition \<Rightarrow> recorded_change \<Rightarrow> transition" where
  "with_change t ch \<equiv> t\<lparr>t_persistent := (t_persistent t)\<lparr>ps_last_change := Some ch\<rparr>\<rparr>"

abbreviation with_find :: "transition \<Rightarrow> find_info \<Rightarrow> transition" where
  "with_find t f \<equiv> t\<lparr>t_persistent := (t_persistent t)\<lparr>ps_last_find := Some f\<rparr>\<rparr>"

definition handleInsertKey :: "transition \<Rightarrow> string \<Rightarrow> transition \<times> string" where
  "handleInsertKey t key =
     (if is_escape key then
        (let inserted = vs_inserted (t_state t);
             t1 = (if inserted \<noteq> []
                   then with_change t ((empty_change ''insert'')\<lparr>rc_text := inserted\<rparr>) else t)
         in (with_inserted (with_command (with_mode t1 ModeNormal) NewCommandState) [],
             ''mode:normal''))
      else (with_inserted t (vs_inserted (t_state t) @ key), ''insert:'' @ key))"

definition handleVisualKey :: "transition \<Rightarrow> string \<Rightarrow> transition \<times> string" where
  "handleVisualKey t key =
     (if is_escape key then
        (with_command (with_mode t ModeNormal) NewCommandState, ''mode:normal'')
      else if IsSimpleMotion key then (t, ''motion:'' @ key)
      else if IsOperatorKey key then
        (let op = GetOperator key;
             t1 = (if op = OperatorChange then with_mode t ModeInsert else with_mode t ModeNormal)
         in (with_change t1 ((empty_change ''operator'')
               \<lparr>rc_op := op, rc_motion := ''selection'', rc_count := 1\<rparr>), op @ '':selection''))
      else (t, []))"

section \<open>Normal mode\<close>

definition handleIdleKey :: "transition \<Rightarrow> string \<Rightarrow> transition \<times> string" where
  "handleIdleKey t key =
     (if key = ''i'' then (with_inserted (with_mode t ModeInsert) [], ''mode:insert'')
      else if key = ''I'' then (with_inserted (with_mode t ModeInsert) [], ''mode:insert:start'')
      else if key = ''A'' then (with_inserted (with_mode t ModeInsert) [], ''mode:insert:end'')
      else if key = ''o'' then
        (with_change (with_inserted (with_mode t ModeInsert) [])
           ((empty_change ''openLine'')\<lparr>rc_direction := ''below''\<rparr>), ''insert:line_below'')
      else if key = ''O'' then
        (with_change (with_inserted (with_mode t ModeInsert) [])
           ((empty_change ''openLine'')\<lparr>rc_direction := ''above''\<rparr>), ''insert:line_above'')
      else if IsOperatorKey key then
        (with_command t ((empty_command COperator)\<lparr>c_op := GetOperator key, c_count := 1\<rparr>), [])
      else if key = ''v'' \<or> key = ''V'' then (with_mode t ModeVisual, ''mode:visual'')
      else if isDigit key \<and> key \<noteq> ''0'' then
        (with_command t ((empty_command CCount)\<lparr>c_digits := key\<rparr>), [])
      else if IsFindKey key then
        (with_command t ((empty_command CFind)\<lparr>c_find := key, c_count := 1\<rparr>), [])
      else if key = ''g'' then (with_command t ((empty_command CG)\<lparr>c_count := 1\<rparr>), [])
      else if key = ''r'' then (with_command t ((empty_command CReplace)\<lparr>c_count := 1\<rparr>), [])
      else if key = ''>'' \<or> key = ''<'' then
        (with_command t ((empty_command CIndent)\<lparr>c_dir := key, c_count := 1\<rparr>), [])
      else if IsSimpleMotion key then (t, ''motion:'' @ key)
      else if key = ''x'' then
        (with_change t ((empty_change ''x'')\<lparr>rc_count := 1\<rparr>), ''delete:char'')
      else if key = ''~'' then
        (with_change t ((empty_change ''toggleCase'')\<lparr>rc_count := 1\<rparr>), ''toggle:case'')
      else if key = ''J'' then
        (with_change t ((empty_change ''join'')\<lparr>rc_count := 1\<rparr>), ''join:lines'')
      else if key = ''.'' then
        (if ps_last_change (t_persistent t) \<noteq> None then (t, ''repeat'') else (t, []))
      else if key = ''p'' then (t, ''paste:after'')
      else if key = ''P'' then (t, ''paste:before'')
      else if key = ''u'' then (t, ''undo'')
      else if key = [CHR 0x12] then (t, ''redo'')
      else (t, []))"

text \<open>In the handlers below \<open>cmd\<close> is \<open>t.state.Command\<close>, which is not nil there.\<close>

definition handleCountKey :: "transition \<Rightarrow> command_state \<Rightarrow> string \<Rightarrow> transition \<times> string" where
  "handleCountKey t cmd key =
     (if isDigit key then
        (let cmd1 = cmd\<lparr>c_digits := c_digits cmd @ key\<rparr>;
             cmd2 = (if length (c_digits cmd1) > 4 then cmd1\<lparr>c_type := CIdle\<rparr> else cmd1)
         in (with_command t cmd2, []))
      else
        (let count0 = parseCount (c_digits cmd);
             count = (if count0 > MaxVimCount then MaxVimCount else count0)
         in if IsOperatorKey key then
              (with_command t (cmd\<lparr>c_type := COperator, c_op := GetOperator key, c_count := count,
                 c_digits := []\<rparr>), [])
            else if IsFindKey key then
              (with_command t (cmd\<lparr>c_type := CFind, c_find := key, c_count := count,
                 c_digits := []\<rparr>), [])
            else if key = ''g'' then
              (with_command t (cmd\<lparr>c_type := CG, c_count := count, c_digits := []\<rparr>), [])
            else if IsSimpleMotion key then
              (with_command t (cmd\<lparr>c_type := CIdle\<rparr>), ''motion:'' @ key)
            else (with_command t (cmd\<lparr>c_type := CIdle\<rparr>), [])))"

definition handleOperatorKey :: "transition \<Rightarrow> command_state \<Rightarrow> string \<Rightarrow> transition \<times> string" where
  "handleOperatorKey t cmd key =
     (if IsOperatorKey key \<and> GetOperator key = c_op cmd then
        (with_command (with_change t ((empty_change ''operator'')
           \<lparr>rc_op := c_op cmd, rc_motion := ''line'', rc_count := c_count cmd\<rparr>))
           (cmd\<lparr>c_type := CIdle\<rparr>), c_op cmd @ '':line'')
      else if isDigit key then
        (with_command t (cmd\<lparr>c_type := COperatorCount, c_digits := key\<rparr>), [])
      else if IsFindKey key then
        (with_command t (cmd\<lparr>c_type := COperatorFind, c_find := key\<rparr>), [])
      else if IsTextObjScopeKey key then
        (with_command t (cmd\<lparr>c_type := COperatorTextObj, c_scope := GetTextObjScope key\<rparr>), [])
      else if IsSimpleMotion key then
        (with_command (with_change t ((empty_change ''operator'')
           \<lparr>rc_op := c_op cmd, rc_motion := key, rc_count := c_count cmd\<rparr>))
           (cmd\<lparr>c_type := CIdle\<rparr>), c_op cmd @ '':'' @ key)
      else if key = ''g'' then (with_command t (cmd\<lparr>c_type := COperatorG\<rparr>), [])
      else (with_command t (cmd\<lparr>c_type := CIdle\<rparr>), []))"

definition handleOperatorCountKey ::
    "transition \<Rightarrow> command_state \<Rightarrow> string \<Rightarrow> transition \<times> string" where
  "handleOperatorCountKey t cmd key =
     (if isDigit key then
        (let cmd1 = cmd\<lparr>c_digits := c_digits cmd @ key\<rparr>;
             cmd2 = (if length (c_digits cmd1) > 4 then cmd1\<lparr>c_type := CIdle\<rparr> else cmd1)
         in (with_command t cmd2, []))
      else
        (let count = parseCount (c_digits cmd);
             total0 = wrap64 (c_count cmd * count);
             total = (if total0 > MaxVimCount then MaxVimCount else total0)
         in if IsSimpleMotion key then
              (with_command (with_change t ((empty_change ''operator'')
                 \<lparr>rc_op := c_op cmd, rc_motion := key, rc_count := total\<rparr>))
                 (cmd\<lparr>c_type := CIdle\<rparr>), c_op cmd @ '':'' @ key)
            else (with_command t (cmd\<lparr>c_type := CIdle\<rparr>), [])))"

definition handleFindKey :: "transition \<Rightarrow> command_state \<Rightarrow> string \<Rightarrow> transition \<times> string" where
  "handleFindKey t cmd key =
     (with_command (with_find t \<lparr>fi_type = c_find cmd, fi_char = key\<rparr>) (cmd\<lparr>c_type := CIdle\<rparr>),
      ''find:'' @ c_find cmd @ '':'' @ key)"

definition handleOperatorFindKey ::
    "transition \<Rightarrow> command_state \<Rightarrow> string \<Rightarrow> transition \<times> string" where
  "handleOperatorFindKey t cmd key =
     (with_command (with_change (with_find t \<lparr>fi_type = c_find cmd, fi_char = key\<rparr>)
        ((empty_change ''operatorFind'')\<lparr>rc_op := c_op cmd, rc_find := c_find cmd, rc_char := key,
           rc_count := c_count cmd\<rparr>)) (cmd\<lparr>c_type := CIdle\<rparr>),
      c_op cmd @ '':find:'' @ c_find cmd @ '':'' @ key)"

definition handleOperatorTextObjKey ::
    "transition \<Rightarrow> command_state \<Rightarrow> string \<Rightarrow> transition \<times> string" where
  "handleOperatorTextObjKey t cmd key =
     (if IsTextObjType key then
        (with_command (with_change t ((empty_change ''operatorTextObj'')
           \<lparr>rc_op := c_op cmd, rc_obj_type := key, rc_scope := c_scope cmd,
              rc_count := c_count cmd\<rparr>)) (cmd\<lparr>c_type := CIdle\<rparr>),
         c_op cmd @ '':textobj:'' @ key)
      else (with_command t (cmd\<lparr>c_type := CIdle\<rparr>), []))"

definition handleGKey :: "transition \<Rightarrow> command_state \<Rightarrow> string \<Rightarrow> transition \<times> string" where
  "handleGKey t cmd key =
     (if key = ''g'' then (with_command t (cmd\<lparr>c_type := CIdle\<rparr>), ''goto:first_line'')
      else (with_command t (cmd\<lparr>c_type := CIdle\<rparr>), []))"

definition handleReplaceKey :: "transition \<Rightarrow> command_state \<Rightarrow> string \<Rightarrow> transition \<times> string" where
  "handleReplaceKey t cmd key =
     (with_command (with_change t ((empty_change ''replace'')
        \<lparr>rc_char := key, rc_count := c_count cmd\<rparr>)) (cmd\<lparr>c_type := CIdle\<rparr>), ''replace:'' @ key)"

definition handleIndentKey :: "transition \<Rightarrow> command_state \<Rightarrow> string \<Rightarrow> transition \<times> string" where
  "handleIndentKey t cmd key =
     (if key = c_dir cmd then
        (with_command (with_change t ((empty_change ''indent'')
           \<lparr>rc_dir := c_dir cmd, rc_count := c_count cmd\<rparr>)) (cmd\<lparr>c_type := CIdle\<rparr>),
         ''indent:'' @ c_dir cmd)
      else (with_command t (cmd\<lparr>c_type := CIdle\<rparr>), []))"

definition handleNormalKey :: "transition \<Rightarrow> string \<Rightarrow> transition \<times> string" where
  "handleNormalKey t key =
     (let cmd = (case vs_command (t_state t) of None \<Rightarrow> NewCommandState | Some c \<Rightarrow> c);
          t = with_command t cmd
      in case c_type cmd of
           CIdle \<Rightarrow> handleIdleKey t key
         | CCount \<Rightarrow> handleCountKey t cmd key
         | COperator \<Rightarrow> handleOperatorKey t cmd key
         | COperatorCount \<Rightarrow> handleOperatorCountKey t cmd key
         | CFind \<Rightarrow> handleFindKey t cmd key
         | COperatorFind \<Rightarrow> handleOperatorFindKey t cmd key
         | COperatorTextObj \<Rightarrow> handleOperatorTextObjKey t cmd key
         | CG \<Rightarrow> handleGKey t cmd key
         | CReplace \<Rightarrow> handleReplaceKey t cmd key
         | CIndent \<Rightarrow> handleIndentKey t cmd key
         | COperatorG \<Rightarrow> (t, [])
         | COther ty \<Rightarrow> (t, []))"

definition HandleKey :: "transition \<Rightarrow> string \<Rightarrow> transition \<times> string" where
  "HandleKey t key =
     (case vs_mode (t_state t) of
        ModeInsert \<Rightarrow> handleInsertKey t key
      | ModeNormal \<Rightarrow> handleNormalKey t key
      | ModeVisual \<Rightarrow> handleVisualKey t key
      | ModeOther m \<Rightarrow> (t, []))"

lemmas handler_defs =
  handleInsertKey_def handleVisualKey_def handleIdleKey_def handleCountKey_def
  handleOperatorKey_def handleOperatorCountKey_def handleFindKey_def handleOperatorFindKey_def
  handleOperatorTextObjKey_def handleGKey_def handleReplaceKey_def handleIndentKey_def

lemmas key_class_defs =
  IsOperatorKey_def GetOperator_def operator_keys_def IsSimpleMotion_def IsFindKey_def
  IsTextObjScopeKey_def GetTextObjScope_def IsTextObjType_def isDigit_def digit_byte_def

section \<open>Structured actions\<close>

text \<open>
  The switch of \<open>ActionForKey\<close> on the textual action, first match first. The state is needed
  for the new mode, the recorded change and the insert mode a change enters.
\<close>

definition operator_action ::
    "transition \<Rightarrow> command_state option \<Rightarrow> string \<Rightarrow> action \<Rightarrow> transition \<times> action" where
  "operator_action t commandBefore legacy action =
     (let parts = Split (CHR '':'') legacy;
          a1 = action\<lparr>a_kind := ActionOperator, a_operator := parts ! 0\<rparr>;
          a2 = (if length parts = 2 then a1\<lparr>a_motion := parts ! 1\<rparr>
                else if length parts \<ge> 4 \<and> parts ! 1 = ''find'' then
                  a1\<lparr>a_motion := ''find'', a_find := parts ! 2, a_text := parts ! 3\<rparr>
                else if length parts \<ge> 3 \<and> parts ! 1 = ''textobj'' then
                  a1\<lparr>a_motion := ''textobj'', a_text := parts ! 2\<rparr>
                else a1);
          a3 = (case commandBefore of None \<Rightarrow> a2 | Some c \<Rightarrow> a2\<lparr>a_scope := c_scope c\<rparr>);
          a4 = (case ps_last_change (t_persistent t) of
                  None \<Rightarrow> a3
                | Some lc \<Rightarrow>
                    if rc_op lc = a_operator a3 \<and> rc_count lc > 0
                    then a3\<lparr>a_count := rc_count lc\<rparr> else a3)
      in if a_operator a4 = OperatorChange then (with_inserted (with_mode t ModeInsert) [], a4)
         else (t, a4))"

definition ActionForKey :: "transition \<Rightarrow> string \<Rightarrow> transition \<times> action" where
  "ActionForKey t0 key =
     (let modeBefore = vs_mode (t_state t0);
          insertedBefore = vs_inserted (t_state t0);
          commandBefore = vs_command (t_state t0);
          (t, legacy) = HandleKey t0 key;
          count0 = actionCount commandBefore;
          action = \<lparr>a_kind = ActionNone, a_mode = ModeOther [], a_from_mode = modeBefore,
            a_text = [], a_motion = [], a_operator = [],
            a_count = (if count0 = 0 then 1 else count0), a_find = [], a_scope = []\<rparr>
      in if HasPrefix legacy ''insert:'' then
           (t, action\<lparr>a_kind := ActionInsert, a_text := TrimPrefix legacy ''insert:''\<rparr>)
         else if HasPrefix legacy ''mode:'' then
           (let position = TrimPrefix legacy ''mode:'';
                a1 = action\<lparr>a_kind := ActionSetMode, a_mode := vs_mode (t_state t)\<rparr>;
                a2 = (if position = ''insert:start'' \<or> position = ''insert:end''
                      then a1\<lparr>a_motion := TrimPrefix position ''insert:''\<rparr> else a1);
                a3 = (if modeBefore = ModeInsert \<and> vs_mode (t_state t) = ModeNormal
                      then a2\<lparr>a_text := insertedBefore\<rparr> else a2)
            in (t, a3))
         else if HasPrefix legacy ''motion:'' then
           (t, action\<lparr>a_kind := ActionMove, a_motion := TrimPrefix legacy ''motion:''\<rparr>)
         else if legacy = ''delete:char'' then
           (t, action\<lparr>a_kind := ActionDelete, a_motion := ''char''\<rparr>)
         else if legacy = ''undo'' then (t, action\<lparr>a_kind := ActionUndo\<rparr>)
         else if legacy = ''redo'' then (t, action\<lparr>a_kind := ActionRedo\<rparr>)
         else if legacy = ''repeat'' then (t, action\<lparr>a_kind := ActionRepeat\<rparr>)
         else if HasPrefix legacy ''find:'' then
           (let parts = SplitN 3 (CHR '':'') legacy
            in if length parts = 3
               then (t, action\<lparr>a_kind := ActionFind, a_find := parts ! 1, a_text := parts ! 2\<rparr>)
               else (t, action))
         else if HasPrefix legacy ''paste:'' then
           (t, action\<lparr>a_kind := ActionPaste, a_motion := TrimPrefix legacy ''paste:''\<rparr>)
         else if HasPrefix legacy ''replace:'' then
           (t, action\<lparr>a_kind := ActionReplace, a_text := TrimPrefix legacy ''replace:''\<rparr>)
         else if HasPrefix legacy ''delete:'' \<or> HasPrefix legacy ''change:''
              \<or> HasPrefix legacy ''yank:'' then
           operator_action t commandBefore legacy action
         else (t, action))"

text \<open>A sequence of key presses, with the actions it emits.\<close>

fun type_keys :: "transition \<Rightarrow> string list \<Rightarrow> transition \<times> action list" where
  "type_keys t [] = (t, [])"
| "type_keys t (key # keys) =
     (let (t1, a) = ActionForKey t key; (t2, as) = type_keys t1 keys in (t2, a # as))"

definition press :: "string \<Rightarrow> transition \<Rightarrow> transition" where
  "press key t = fst (ActionForKey t key)"

lemma fst_type_keys: "fst (type_keys t keys) = fold press keys t"
  by (induction keys arbitrary: t) (simp_all add: press_def case_prod_unfold Let_def)

lemma type_keys_append:
  "type_keys t (ks @ ls) =
     (let (t1, as) = type_keys t ks; (t2, bs) = type_keys t1 ls in (t2, as @ bs))"
  by (induction ks arbitrary: t) (simp_all add: case_prod_unfold Let_def)

definition start_vim :: transition where
  "start_vim = NewTransition NewVimState NewPersistentState"

section \<open>Counts\<close>

definition digits_ok :: "string \<Rightarrow> bool" where
  "digits_ok s \<longleftrightarrow> s \<noteq> [] \<and> length s \<le> 4 \<and> list_all digit_byte s"

text \<open>The number a digit string denotes, without the wrap-around of the code.\<close>

definition decimal :: "string \<Rightarrow> int" where
  "decimal s = foldl (\<lambda>n ch. n * 10 + (of_char ch - 48)) 0 s"

lemma digit_value: "digit_byte ch \<Longrightarrow> 0 \<le> (of_char ch :: int) - 48 \<and> (of_char ch :: int) - 48 \<le> 9"
proof -
  assume "digit_byte ch"
  moreover have "(of_char ch :: int) = int (of_char ch)" by (rule of_nat_of_char [symmetric])
  ultimately show ?thesis unfolding digit_byte_def by linarith
qed

lemma parse_from:
  assumes "list_all digit_byte s" and "0 \<le> n" and "n < 10 ^ k" and "k + length s \<le> 18"
  defines "p \<equiv> foldl (\<lambda>count ch. if digit_byte ch then wrap64 (count * 10 + (of_char ch - 48))
      else count) n s"
  shows "p = foldl (\<lambda>m ch. m * 10 + (of_char ch - 48)) n s \<and> n \<le> p \<and> p < 10 ^ (k + length s)"
  using assms(1-4) unfolding p_def
proof (induction s arbitrary: n k)
  case Nil
  then show ?case by simp
next
  case (Cons ch s)
  let ?n = "n * 10 + (of_char ch - 48) :: int"
  have d: "0 \<le> (of_char ch :: int) - 48 \<and> (of_char ch :: int) - 48 \<le> 9"
    using Cons.prems(1) digit_value [of ch] by simp
  have lt: "?n < 10 ^ Suc k"
    using d Cons.prems(3) by simp
  have "(10 :: int) ^ Suc k \<le> 10 ^ 18"
    using Cons.prems(4) by (intro power_increasing) simp_all
  then have "?n < 2 ^ 63" and "- (2 ^ 63) \<le> ?n"
    using lt d Cons.prems(2) by simp_all
  then have w: "wrap64 ?n = ?n" by simp
  have "0 \<le> ?n" and "n \<le> ?n" using d Cons.prems(2) by simp_all
  with Cons.IH [of ?n "Suc k"] lt w Cons.prems show ?case by force
qed

lemma parseCount_decimal:
  "list_all digit_byte s \<Longrightarrow> length s \<le> 18 \<Longrightarrow> parseCount s = decimal s"
  using parse_from [of s 0 0] by (simp add: parseCount_def decimal_def)

lemma parseCount_bounds: "digits_ok s \<Longrightarrow> 0 \<le> parseCount s \<and> parseCount s < 10000"
proof -
  assume a: "digits_ok s"
  then have "0 \<le> parseCount s \<and> parseCount s < 10 ^ length s"
    using parse_from [of s 0 0] by (simp add: parseCount_def digits_ok_def)
  moreover have "(10 :: int) ^ length s \<le> 10 ^ 4"
    using a by (intro power_increasing) (simp_all add: digits_ok_def)
  ultimately show ?thesis by simp
qed

lemma parseCount_pos:
  assumes "digits_ok s" and "hd s \<noteq> CHR ''0''"
  shows "1 \<le> parseCount s"
proof -
  obtain ch r where s: "s = ch # r" using assms(1) by (cases s) (auto simp: digits_ok_def)
  have "ch \<noteq> CHR ''0''" and "digit_byte ch" using assms s by (simp_all add: digits_ok_def)
  then have "(of_char ch :: int) \<noteq> of_char (CHR ''0'')" by (simp only: of_char_eq_iff not_False_eq_True)
  then have d: "1 \<le> (of_char ch :: int) - 48 \<and> (of_char ch :: int) - 48 < 10"
    using digit_value [OF \<open>digit_byte ch\<close>] by simp
  then have "wrap64 (of_char ch - 48) = of_char ch - 48" by simp
  then show ?thesis
    using parse_from [of r "of_char ch - 48" 1] assms(1) s d
    by (simp add: digits_ok_def parseCount_def)
qed

section \<open>The invariant\<close>

definition operators :: "operator set" where
  "operators = {OperatorDelete, OperatorChange, OperatorYank}"

definition command_ok :: "command_state \<Rightarrow> bool" where
  "command_ok c \<longleftrightarrow>
     0 \<le> c_count c \<and> c_count c \<le> MaxVimCount
   \<and> (c_type c = CCount \<longrightarrow> digits_ok (c_digits c) \<and> hd (c_digits c) \<noteq> CHR ''0'')
   \<and> (c_type c = COperatorCount \<longrightarrow> digits_ok (c_digits c))
   \<and> (c_type c \<in> {COperator, COperatorCount, COperatorFind, COperatorTextObj, COperatorG}
        \<longrightarrow> c_op c \<in> operators \<and> 1 \<le> c_count c)
   \<and> (c_type c \<in> {CFind, COperatorFind} \<longrightarrow> IsFindKey (c_find c))
   \<and> (\<forall>ty. c_type c \<noteq> COther ty)"

definition vim_ok :: "transition \<Rightarrow> bool" where
  "vim_ok t \<longleftrightarrow>
     vs_mode (t_state t) \<in> {ModeInsert, ModeNormal, ModeVisual}
   \<and> (\<forall>c. vs_command (t_state t) = Some c \<longrightarrow> command_ok c)
   \<and> (\<forall>lc. ps_last_change (t_persistent t) = Some lc \<longrightarrow>
        0 \<le> rc_count lc \<and> rc_count lc \<le> MaxVimCount)"

lemma GetOperator_operators: "IsOperatorKey key \<Longrightarrow> GetOperator key \<in> operators"
  by (auto simp: IsOperatorKey_def GetOperator_def operator_keys_def operators_def
      split: if_splits)

lemma command_ok_new [simp]: "command_ok NewCommandState"
  by (simp add: command_ok_def NewCommandState_def empty_command_def MaxVimCount_def)

lemma vim_ok_start: "vim_ok start_vim"
  by (simp add: vim_ok_def start_vim_def NewTransition_def NewVimState_def NewPersistentState_def)

lemma digits_ok_append:
  "digits_ok s \<Longrightarrow> isDigit key \<Longrightarrow> length (s @ key) \<le> 4 \<Longrightarrow>
     digits_ok (s @ key) \<and> hd (s @ key) = hd s"
  by (auto simp: digits_ok_def isDigit_def split: list.splits)

lemma digits_ok_single: "isDigit key \<Longrightarrow> digits_ok key"
  by (auto simp: digits_ok_def isDigit_def split: list.splits)

lemma isDigit_not_zero: "isDigit key \<Longrightarrow> key \<noteq> ''0'' \<Longrightarrow> hd key \<noteq> CHR ''0''"
  by (auto simp: isDigit_def split: list.splits)

lemma vim_ok_idle: "vim_ok t \<Longrightarrow> vim_ok (fst (handleIdleKey t key))"
  by (auto simp: handleIdleKey_def vim_ok_def command_ok_def empty_command_def empty_change_def
      MaxVimCount_def GetOperator_operators digits_ok_single isDigit_not_zero)

lemma vim_ok_insert: "vim_ok t \<Longrightarrow> vim_ok (fst (handleInsertKey t key))"
  by (auto simp: handleInsertKey_def vim_ok_def empty_change_def MaxVimCount_def Let_def)

lemma vim_ok_visual: "vim_ok t \<Longrightarrow> vim_ok (fst (handleVisualKey t key))"
  by (auto simp: handleVisualKey_def vim_ok_def empty_change_def MaxVimCount_def Let_def)

lemma command_ok_idle: "command_ok c \<Longrightarrow> command_ok (c\<lparr>c_type := CIdle\<rparr>)"
  by (simp add: command_ok_def)

lemma vim_ok_count:
  "vim_ok t \<Longrightarrow> command_ok c \<Longrightarrow> c_type c = CCount \<Longrightarrow> vim_ok (fst (handleCountKey t c key))"
  using parseCount_bounds [of "c_digits c"] parseCount_pos [of "c_digits c"]
  by (auto simp: handleCountKey_def vim_ok_def command_ok_def MaxVimCount_def Let_def
      GetOperator_operators digits_ok_append)

lemma vim_ok_operator:
  "vim_ok t \<Longrightarrow> command_ok c \<Longrightarrow> c_type c = COperator \<Longrightarrow> vim_ok (fst (handleOperatorKey t c key))"
  by (auto simp: handleOperatorKey_def vim_ok_def command_ok_def MaxVimCount_def Let_def
      digits_ok_single empty_change_def)

text \<open>The product of the two counts stays far below the 64-bit range, so it does not wrap.\<close>

lemma total_count_exact:
  assumes "command_ok c" and "c_type c = COperatorCount"
  shows "wrap64 (c_count c * parseCount (c_digits c)) = c_count c * parseCount (c_digits c)
     \<and> 0 \<le> c_count c * parseCount (c_digits c)"
proof -
  have "0 \<le> parseCount (c_digits c)" and "parseCount (c_digits c) \<le> 10000"
    and "0 \<le> c_count c" and "c_count c \<le> 10000"
    using assms parseCount_bounds [of "c_digits c"]
    by (simp_all add: command_ok_def MaxVimCount_def)
  then have "0 \<le> c_count c * parseCount (c_digits c)"
    and "c_count c * parseCount (c_digits c) \<le> 10000 * 10000"
    by (simp, intro mult_mono) simp_all
  then show ?thesis by simp
qed

lemma vim_ok_operator_count:
  "vim_ok t \<Longrightarrow> command_ok c \<Longrightarrow> c_type c = COperatorCount \<Longrightarrow>
     vim_ok (fst (handleOperatorCountKey t c key))"
  using total_count_exact [of c]
  by (auto simp: handleOperatorCountKey_def vim_ok_def command_ok_def MaxVimCount_def Let_def
      digits_ok_append empty_change_def)

lemma vim_ok_single:
  assumes "vim_ok t" and "command_ok c"
  shows "vim_ok (fst (handleFindKey t c key))"
    and "vim_ok (fst (handleOperatorFindKey t c key))"
    and "vim_ok (fst (handleOperatorTextObjKey t c key))"
    and "vim_ok (fst (handleGKey t c key))"
    and "vim_ok (fst (handleReplaceKey t c key))"
    and "vim_ok (fst (handleIndentKey t c key))"
  using assms
  by (auto simp: handler_defs vim_ok_def command_ok_def empty_change_def)

lemma vim_ok_normal: "vim_ok t \<Longrightarrow> vim_ok (fst (handleNormalKey t key))"
proof -
  assume ok: "vim_ok t"
  define c where "c = (case vs_command (t_state t) of None \<Rightarrow> NewCommandState | Some c \<Rightarrow> c)"
  have c: "command_ok c" using ok by (auto simp: vim_ok_def c_def split: option.splits)
  have t: "vim_ok (with_command t c)" using ok c by (simp add: vim_ok_def)
  show ?thesis
    unfolding handleNormalKey_def c_def [symmetric] Let_def using c t
    by (auto split: command_type.splits
        simp: vim_ok_idle vim_ok_count vim_ok_operator vim_ok_operator_count vim_ok_single)
qed

lemma vim_ok_HandleKey: "vim_ok t \<Longrightarrow> vim_ok (fst (HandleKey t key))"
  by (auto simp: HandleKey_def vim_ok_insert vim_ok_normal vim_ok_visual split: mode.splits)

lemma vim_ok_operator_action: "vim_ok t \<Longrightarrow> vim_ok (fst (operator_action t cb legacy a))"
  by (auto simp: operator_action_def Let_def vim_ok_def split: option.splits)

lemma vim_ok_ActionForKey: "vim_ok t \<Longrightarrow> vim_ok (fst (ActionForKey t key))"
  using vim_ok_HandleKey [of t key]
  by (cases "HandleKey t key") (simp add: ActionForKey_def Let_def vim_ok_operator_action)

interpretation vim: invariant_machine press vim_ok
  by unfold_locales (simp add: press_def vim_ok_ActionForKey)

end
