(* ===== verification/Vim_Properties.thy ===== *)
theory Vim_Properties
  imports Vim_Mode
begin

text \<open>
  What the Vim state machine guarantees, and where it does not do what its keys mean: counted
  motions and operators, the insert session, the effect of escape, and the faults of the
  \<open>operatorG\<close> state, of stale counts and of the open-line keys.
\<close>

section \<open>Digits and single key presses\<close>

lemma digit_byte_cases: "digit_byte c \<longleftrightarrow> c \<in> set ''0123456789''"
proof
  assume "digit_byte c"
  then have "(of_char c :: nat) \<in> set [48..<58]"
    unfolding set_upt by (simp add: digit_byte_def)
  then have "c \<in> char_of ` set [48..<58 :: nat]" by (metis char_of_char image_eqI)
  moreover have "map char_of [48..<58 :: nat] = ''0123456789''" by code_simp
  ultimately show "c \<in> set ''0123456789''" by (metis list.set_map)
qed (auto simp: digit_byte_def)

lemma digit_key: "digit_byte d \<Longrightarrow> isDigit [d]"
  by (simp add: isDigit_def)

lemma digit_key_class:
  assumes "isDigit key"
  shows "\<not> IsOperatorKey key \<and> \<not> IsFindKey key \<and> \<not> IsTextObjScopeKey key
     \<and> \<not> is_escape key \<and> key \<notin> set [''i'', ''I'', ''A'', ''o'', ''O'', ''v'', ''V'', ''g'', ''r'', ''>'', ''<'']"
proof -
  obtain d where "key = [d]" and "d \<in> set ''0123456789''"
    using assms by (auto simp: isDigit_def digit_byte_cases split: list.splits)
  then show ?thesis
    by (auto simp: IsOperatorKey_def operator_keys_def IsFindKey_def IsTextObjScopeKey_def)
qed

text \<open>What a key press does once the textual action is known.\<close>

lemma ActionForKey_silent:
  "HandleKey t key = (t', []) \<Longrightarrow> ActionForKey t key =
     (t', \<lparr>a_kind = ActionNone, a_mode = ModeOther [], a_from_mode = vs_mode (t_state t),
        a_text = [], a_motion = [], a_operator = [],
        a_count = (let n = actionCount (vs_command (t_state t)) in if n = 0 then 1 else n),
        a_find = [], a_scope = []\<rparr>)"
  by (simp add: ActionForKey_def HasPrefix_def Let_def)

lemma ActionForKey_insert:
  "HandleKey t key = (t', ''insert:'' @ s) \<Longrightarrow> ActionForKey t key =
     (t', \<lparr>a_kind = ActionInsert, a_mode = ModeOther [], a_from_mode = vs_mode (t_state t),
        a_text = s, a_motion = [], a_operator = [],
        a_count = (let n = actionCount (vs_command (t_state t)) in if n = 0 then 1 else n),
        a_find = [], a_scope = []\<rparr>)"
  unfolding ActionForKey_def Let_def by (simp only: prod.case HasPrefix_append TrimPrefix_append if_True) simp

lemma ActionForKey_motion:
  "HandleKey t key = (t', ''motion:'' @ m) \<Longrightarrow> ActionForKey t key =
     (t', \<lparr>a_kind = ActionMove, a_mode = ModeOther [], a_from_mode = vs_mode (t_state t),
        a_text = [], a_motion = m, a_operator = [],
        a_count = (let n = actionCount (vs_command (t_state t)) in if n = 0 then 1 else n),
        a_find = [], a_scope = []\<rparr>)"
  by (simp add: ActionForKey_def HasPrefix_def TrimPrefix_def Let_def)

lemma type_keys_snoc:
  "type_keys t (ks @ [k]) =
     (fst (ActionForKey (fold press ks t) k),
      snd (type_keys t ks) @ [snd (ActionForKey (fold press ks t) k)])"
  by (simp add: type_keys_append Let_def case_prod_unfold fst_type_keys)

definition at_rest :: "transition \<Rightarrow> bool" where
  "at_rest t \<longleftrightarrow> vs_mode (t_state t) = ModeNormal
     \<and> (\<forall>c. vs_command (t_state t) = Some c \<longrightarrow> c_type c = CIdle)"

definition digit_keys :: "string \<Rightarrow> string list" where
  "digit_keys ds = map (\<lambda>d. [d]) ds"

lemma HandleKey_rest:
  assumes "at_rest t"
  shows "HandleKey t key = handleIdleKey (with_command t
     (case vs_command (t_state t) of None \<Rightarrow> NewCommandState | Some c \<Rightarrow> c)) key"
  using assms
  by (simp add: at_rest_def HandleKey_def handleNormalKey_def Let_def NewCommandState_def
      empty_command_def split: option.splits)

lemma rest_digit:
  assumes "at_rest t" and "digit_byte d" and "d \<noteq> CHR ''0''"
  shows "press [d] t = with_command t ((empty_command CCount)\<lparr>c_digits := [d]\<rparr>)"
proof -
  have "HandleKey t [d] = (with_command t ((empty_command CCount)\<lparr>c_digits := [d]\<rparr>), [])"
    using digit_key_class [OF digit_key [OF assms(2)]] digit_key [OF assms(2)] assms(3)
    by (simp add: HandleKey_rest [OF assms(1)] handleIdleKey_def)
  then show ?thesis by (simp add: press_def ActionForKey_silent)
qed

lemma more_digits:
  assumes "vs_mode (t_state t) = ModeNormal" and "c_type c \<in> {CCount, COperatorCount}"
    and "list_all digit_byte ds" and "length (c_digits c @ ds) \<le> 4"
  shows "fold press (digit_keys ds) (with_command t c) =
     with_command t (c\<lparr>c_digits := c_digits c @ ds\<rparr>)"
  using assms(2-4)
proof (induction ds arbitrary: c)
  case Nil
  then show ?case by (simp add: digit_keys_def)
next
  case (Cons d ds)
  have "HandleKey (with_command t c) [d] = (with_command t (c\<lparr>c_digits := c_digits c @ [d]\<rparr>), [])"
    using Cons.prems assms(1)
    by (auto simp: HandleKey_def handleNormalKey_def handleCountKey_def handleOperatorCountKey_def
        digit_key Let_def)
  then have "press [d] (with_command t c) = with_command t (c\<lparr>c_digits := c_digits c @ [d]\<rparr>)"
    by (simp add: press_def ActionForKey_silent)
  then show ?case
    using Cons.IH [of "c\<lparr>c_digits := c_digits c @ [d]\<rparr>"] Cons.prems
    by (simp add: digit_keys_def)
qed

lemma type_count:
  assumes "at_rest t" and "digits_ok ds" and "hd ds \<noteq> CHR ''0''"
  shows "fold press (digit_keys ds) t = with_command t ((empty_command CCount)\<lparr>c_digits := ds\<rparr>)"
proof -
  obtain d ds' where ds: "ds = d # ds'" using assms(2) by (cases ds) (auto simp: digits_ok_def)
  have d: "press [d] t = with_command t ((empty_command CCount)\<lparr>c_digits := [d]\<rparr>)"
    using assms by (intro rest_digit) (simp_all add: digits_ok_def ds)
  show ?thesis
    using more_digits [of t "(empty_command CCount)\<lparr>c_digits := [d]\<rparr>" ds'] assms
    by (simp add: digit_keys_def ds d digits_ok_def at_rest_def empty_command_def)
qed

lemma motion_key_class:
  assumes "IsSimpleMotion m"
  shows "\<not> IsOperatorKey m \<and> \<not> IsFindKey m \<and> \<not> IsTextObjScopeKey m \<and> m \<noteq> ''g''
     \<and> (isDigit m \<longrightarrow> m = ''0'')"
proof -
  have "m \<in> set [''h'', ''l'', ''j'', ''k'', ''w'', ''b'', ''e'', ''W'', ''B'', ''E'',
       ''0'', ''^'', ''$'', ''G'', ''gg'']"
    using assms by (simp add: IsSimpleMotion_def)
  then show ?thesis
    unfolding set_simps insert_iff empty_iff
    by (elim disjE FalseE) (simp_all add: IsOperatorKey_def operator_keys_def IsFindKey_def
      IsTextObjScopeKey_def isDigit_def digit_byte_def)
qed

text \<open>In normal mode with no pending command, typing a decimal count of one to four
  digits and then a motion emits one movement by that motion whose count is the number typed.\<close>

theorem counted_motion:
  assumes "at_rest t" and "digits_ok ds" and "hd ds \<noteq> CHR ''0''"
    and "IsSimpleMotion m" and "m \<noteq> ''0''"
  defines "a \<equiv> last (snd (type_keys t (digit_keys ds @ [m])))"
  shows "a_kind a = ActionMove \<and> a_motion a = m \<and> a_count a = decimal ds"
proof -
  let ?c = "(empty_command CCount)\<lparr>c_digits := ds\<rparr>"
  have m: "\<not> isDigit m \<and> \<not> IsOperatorKey m \<and> \<not> IsFindKey m \<and> m \<noteq> ''g''"
    using assms(5) motion_key_class [OF assms(4)] by blast
  have "HandleKey (with_command t ?c) m = (with_command t (?c\<lparr>c_type := CIdle\<rparr>), ''motion:'' @ m)"
    using m assms(1,4)
    by (simp add: HandleKey_def handleNormalKey_def handleCountKey_def at_rest_def empty_command_def Let_def)
  from ActionForKey_motion [OF this] parseCount_pos [OF assms(2,3)] parseCount_bounds [OF assms(2)]
  show ?thesis
    using assms(2) unfolding a_def
    by (simp add: type_keys_snoc type_count [OF assms(1-3)] actionCount_def empty_command_def
        MaxVimCount_def min_def Let_def parseCount_decimal digits_ok_def)
qed

section \<open>Properties\<close>

lemma action_count_range:
  assumes "vim_ok t"
  shows "1 \<le> a_count (snd (ActionForKey t key)) \<and> a_count (snd (ActionForKey t key)) \<le> MaxVimCount"
proof -
  obtain t' legacy where h: "HandleKey t key = (t', legacy)" by fastforce
  have ok': "vim_ok t'" using vim_ok_HandleKey [OF assms, of key] h by simp
  have n: "1 \<le> actionCount (vs_command (t_state t)) \<and> actionCount (vs_command (t_state t)) \<le> MaxVimCount"
    using assms parseCount_pos
    by (auto simp: actionCount_def vim_ok_def command_ok_def MaxVimCount_def split: option.splits)
  have op: "1 \<le> a_count (snd (operator_action t' cb legacy a)) \<and>
      a_count (snd (operator_action t' cb legacy a)) \<le> MaxVimCount"
    if "1 \<le> a_count a \<and> a_count a \<le> MaxVimCount" for cb a
    using that ok' by (auto simp: operator_action_def Let_def vim_ok_def split: option.splits)
  show ?thesis
    using n by (simp add: ActionForKey_def h Let_def op)
qed

text \<open>Whatever keys are typed from the start, every emitted action has a count
  between 1 and \<open>MaxVimCount\<close>: counts never overflow, never become zero or negative.\<close>

theorem action_counts_bounded:
  "list_all (\<lambda>a. 1 \<le> a_count a \<and> a_count a \<le> MaxVimCount) (snd (type_keys start_vim keys))"
proof -
  have "list_all (\<lambda>a. 1 \<le> a_count a \<and> a_count a \<le> MaxVimCount) (snd (type_keys t keys))"
    if "vim_ok t" for t
    using that
  proof (induction keys arbitrary: t)
    case Nil
    then show ?case by simp
  next
    case (Cons k ks)
    then show ?case
      using action_count_range [of t k] vim_ok_ActionForKey [of t k]
      by (simp add: case_prod_unfold Let_def)
  qed
  then show ?thesis by (simp add: vim_ok_start)
qed

lemma insert_press:
  assumes "vs_mode (t_state t) = ModeInsert" and "\<not> is_escape k"
  shows "press k t = with_inserted t (vs_inserted (t_state t) @ k)"
proof -
  have "HandleKey t k = (with_inserted t (vs_inserted (t_state t) @ k), ''insert:'' @ k)"
    using assms by (simp add: HandleKey_def handleInsertKey_def)
  from ActionForKey_insert [OF this] show ?thesis by (simp add: press_def)
qed

lemma insert_presses:
  "vs_mode (t_state t) = ModeInsert \<Longrightarrow> list_all (\<lambda>k. \<not> is_escape k) ks \<Longrightarrow>
     fold press ks t = with_inserted t (vs_inserted (t_state t) @ concat ks)"
  by (induction ks arbitrary: t) (simp_all add: insert_press)

text \<open>An insert session that ends with escape leaves insert mode with no pending
  command, records exactly the typed text as the change to repeat and hands it to the frontend.\<close>

theorem insert_session:
  assumes "vs_mode (t_state t) = ModeInsert" and "vs_inserted (t_state t) = []"
    and "list_all (\<lambda>k. \<not> is_escape k) ks" and "concat ks \<noteq> []"
  shows "fst (type_keys t (ks @ [''<Esc>''])) =
     \<lparr>t_state = \<lparr>vs_mode = ModeNormal, vs_command = Some NewCommandState, vs_inserted = []\<rparr>,
      t_persistent = (t_persistent t)
        \<lparr>ps_last_change := Some ((empty_change ''insert'')\<lparr>rc_text := concat ks\<rparr>)\<rparr>\<rparr>
   \<and> a_text (last (snd (type_keys t (ks @ [''<Esc>''])))) = concat ks"
proof -
  let ?u = "with_inserted t (concat ks)"
  let ?v = "\<lparr>t_state = \<lparr>vs_mode = ModeNormal, vs_command = Some NewCommandState, vs_inserted = []\<rparr>,
      t_persistent = (t_persistent t)
        \<lparr>ps_last_change := Some ((empty_change ''insert'')\<lparr>rc_text := concat ks\<rparr>)\<rparr>\<rparr>"
  have u: "fold press ks t = ?u"
    using assms by (simp add: insert_presses)
  have "HandleKey ?u ''<Esc>'' = (?v, ''mode:normal'')"
    using assms by (simp add: HandleKey_def handleInsertKey_def Let_def)
  then show ?thesis
    using assms(1) by (simp add: type_keys_snoc u ActionForKey_def Let_def HasPrefix_def TrimPrefix_def)
qed

text \<open>An operator with the counts before and after it.\<close>

lemma operator_words:
  "op \<in> operators \<Longrightarrow> CHR '':'' \<notin> set op"
  by (auto simp: operators_def)

lemma ActionForKey_operator:
  assumes "HandleKey t key = (t', op @ CHR '':'' # m)" and "op \<in> operators" and "CHR '':'' \<notin> set m"
    and "op @ CHR '':'' # m \<noteq> ''delete:char''"
    and "ps_last_change (t_persistent t') = Some lc" and "rc_op lc = op" and "0 < rc_count lc"
  shows "a_kind (snd (ActionForKey t key)) = ActionOperator
     \<and> a_operator (snd (ActionForKey t key)) = op
     \<and> a_motion (snd (ActionForKey t key)) = m
     \<and> a_count (snd (ActionForKey t key)) = rc_count lc"
proof -
  have parts: "Split (CHR '':'') (op @ CHR '':'' # m) = [op, m]"
    using assms(2,3) by (simp add: Split_append_sep operator_words Split_fresh)
  have action: "a_kind (snd (operator_action t' cb (op @ CHR '':'' # m) a)) = ActionOperator
     \<and> a_operator (snd (operator_action t' cb (op @ CHR '':'' # m) a)) = op
     \<and> a_motion (snd (operator_action t' cb (op @ CHR '':'' # m) a)) = m
     \<and> a_count (snd (operator_action t' cb (op @ CHR '':'' # m) a)) = rc_count lc" for cb a
    using assms(5-7) by (simp add: operator_action_def parts Let_def split: option.splits)
  from assms(2) consider "op = ''delete''" | "op = ''change''" | "op = ''yank''"
    by (auto simp: operators_def)
  then show ?thesis
    by cases (use assms(1,4) action in \<open>simp_all add: ActionForKey_def HasPrefix_def Let_def\<close>)
qed

lemma count_then_operator:
  assumes "at_rest t" and "digits_ok ds" and "hd ds \<noteq> CHR ''0''" and "IsOperatorKey k"
  shows "fold press (digit_keys ds @ [k]) t = with_command t
     ((empty_command COperator)\<lparr>c_op := GetOperator k, c_count := decimal ds\<rparr>)"
proof -
  let ?c = "(empty_command CCount)\<lparr>c_digits := ds\<rparr>"
  let ?d = "(empty_command COperator)\<lparr>c_op := GetOperator k, c_count := decimal ds\<rparr>"
  have n: "parseCount ds = decimal ds" and "decimal ds < 10000"
    using assms(2) parseCount_bounds [OF assms(2)] by (simp_all add: parseCount_decimal digits_ok_def)
  moreover have "\<not> isDigit k" using digit_key_class assms(4) by blast
  ultimately have "HandleKey (with_command t ?c) k = (with_command t ?d, [])"
    using assms(1,4)
    by (simp add: HandleKey_def handleNormalKey_def handleCountKey_def at_rest_def
        empty_command_def MaxVimCount_def Let_def)
  then show ?thesis
    by (simp add: type_count [OF assms(1-3)] press_def ActionForKey_silent)
qed

lemma operator_then_count:
  assumes "vs_mode (t_state t) = ModeNormal" and "c_type c = COperator" and "c_digits c = []"
    and "digits_ok es"
  shows "fold press (digit_keys es) (with_command t c) =
     with_command t (c\<lparr>c_type := COperatorCount, c_digits := es\<rparr>)"
proof -
  obtain e es' where es: "es = e # es'" using assms(4) by (cases es) (auto simp: digits_ok_def)
  let ?c = "c\<lparr>c_type := COperatorCount, c_digits := [e]\<rparr>"
  have "isDigit [e]" using assms(4) es by (simp add: digits_ok_def digit_key)
  then have "HandleKey (with_command t c) [e] = (with_command t ?c, [])"
    using digit_key_class [of "[e]"] assms(1,2)
    by (simp add: HandleKey_def handleNormalKey_def handleOperatorKey_def Let_def)
  then have "press [e] (with_command t c) = with_command t ?c"
    by (simp add: press_def ActionForKey_silent)
  then show ?thesis
    using more_digits [of t ?c es'] assms by (simp add: es digit_keys_def digits_ok_def)
qed

text \<open>The counts typed before and after an operator multiply, capped at
  \<open>MaxVimCount\<close>, and reach the emitted operator action together with the operator and motion.\<close>

theorem operator_counts_multiply:
  assumes "at_rest t" and "digits_ok ds" and "hd ds \<noteq> CHR ''0''"
    and "IsOperatorKey k" and "digits_ok es" and "0 < decimal es"
    and "IsSimpleMotion m" and "m \<noteq> ''0''"
  defines "r \<equiv> type_keys t (digit_keys ds @ [k] @ digit_keys es @ [m])"
  shows "a_kind (last (snd r)) = ActionOperator
     \<and> a_operator (last (snd r)) = GetOperator k
     \<and> a_motion (last (snd r)) = m
     \<and> a_count (last (snd r)) = min MaxVimCount (decimal ds * decimal es)"
proof -
  let ?c = "(empty_command COperator)\<lparr>c_op := GetOperator k, c_count := decimal ds,
     c_type := COperatorCount, c_digits := es\<rparr>"
  let ?n = "min MaxVimCount (decimal ds * decimal es)"
  let ?lc = "(empty_change ''operator'')\<lparr>rc_op := GetOperator k, rc_motion := m, rc_count := ?n\<rparr>"
  let ?t = "with_command (with_change t ?lc) (?c\<lparr>c_type := CIdle\<rparr>)"
  have norm: "vs_mode (t_state t) = ModeNormal" using assms(1) by (simp add: at_rest_def)
  have n: "parseCount ds = decimal ds" "1 \<le> decimal ds" "decimal ds \<le> 10000"
    "parseCount es = decimal es"
    using assms(2,5) parseCount_bounds [OF assms(2)] parseCount_pos [OF assms(2,3)]
    by (simp_all add: parseCount_decimal digits_ok_def)
  have pre: "fold press (digit_keys ds @ [k] @ digit_keys es) t = with_command t ?c"
    using count_then_operator [OF assms(1-4)] assms(5) norm
    by (simp add: operator_then_count empty_command_def)
  have "command_ok ?c"
    using n GetOperator_operators [OF assms(4)] assms(5)
    by (simp add: command_ok_def empty_command_def MaxVimCount_def)
  from total_count_exact [OF this] have w: "wrap64 (decimal ds * decimal es) = decimal ds * decimal es"
    by (simp add: n)
  have "\<not> isDigit m" using motion_key_class [OF assms(7)] assms(8) by blast
  then have h: "HandleKey (with_command t ?c) m = (?t, GetOperator k @ CHR '':'' # m)"
    using norm assms(7)
    by (simp add: HandleKey_def handleNormalKey_def handleOperatorCountKey_def empty_command_def
        n w min_def MaxVimCount_def Let_def)
  have colon: "CHR '':'' \<notin> set m" and char: "GetOperator k @ CHR '':'' # m \<noteq> ''delete:char''"
    using assms(7) by (auto simp: IsSimpleMotion_def GetOperator_def operator_keys_def)
  have pos: "0 < ?n" using n assms(6) by (simp add: MaxVimCount_def)
  show ?thesis
    unfolding r_def using pre pos
      ActionForKey_operator [OF h GetOperator_operators [OF assms(4)] colon char, of ?lc]
    by (simp add: type_keys_snoc [of t "digit_keys ds @ k # digit_keys es", simplified])
qed

text \<open>Escape abandons every pending command of a reachable normal-mode state,
  except the state after an operator and \<open>g\<close>, and the character argument of an operator's find.\<close>

theorem escape_resets_pending:
  assumes "vim_ok t" and "vs_mode (t_state t) = ModeNormal" and "vs_command (t_state t) = Some c"
    and "c_type c \<notin> {COperatorG, COperatorFind}"
  shows "at_rest (press ''<Esc>'' t)"
proof -
  obtain t' legacy where h: "HandleKey t ''<Esc>'' = (t', legacy)" by fastforce
  have c: "command_ok c" using assms(1,3) by (simp add: vim_ok_def)
  have esc: "\<not> isDigit ''<Esc>''" "\<not> IsOperatorKey ''<Esc>''" "\<not> IsFindKey ''<Esc>''"
    "\<not> IsSimpleMotion ''<Esc>''" "\<not> IsTextObjScopeKey ''<Esc>''" "\<not> IsTextObjType ''<Esc>''"
    by (simp_all add: isDigit_def IsOperatorKey_def operator_keys_def IsFindKey_def
        IsSimpleMotion_def IsTextObjScopeKey_def IsTextObjType_def)
  have "at_rest t' \<and> \<not> HasPrefix legacy ''delete:'' \<and> \<not> HasPrefix legacy ''change:''
     \<and> \<not> HasPrefix legacy ''yank:''"
    using h assms(2-4) c esc
    by (cases "c_type c")
      (auto simp: HandleKey_def handleNormalKey_def handler_defs at_rest_def Let_def HasPrefix_def
        command_ok_def split: if_splits)
  then show ?thesis
    by (simp add: press_def ActionForKey_def h Let_def)
qed

lemma operator_g_press:
  assumes "vs_mode (t_state t) = ModeNormal" and "vs_command (t_state t) = Some c"
    and "c_type c = COperatorG"
  shows "fst (ActionForKey t key) = t \<and> a_kind (snd (ActionForKey t key)) = ActionNone"
proof -
  have "with_command t c = t" using assms(2) by (cases t; cases "t_state t") simp
  then have "HandleKey t key = (t, [])"
    using assms by (simp add: HandleKey_def handleNormalKey_def Let_def)
  then show ?thesis by (simp add: ActionForKey_silent)
qed

lemma operator_g_keys:
  assumes "vs_mode (t_state t) = ModeNormal" and "vs_command (t_state t) = Some c"
    and "c_type c = COperatorG"
  shows "fst (type_keys t keys) = t \<and> list_all (\<lambda>a. a_kind a = ActionNone) (snd (type_keys t keys))"
  using operator_g_press [OF assms]
  by (induction keys) (simp_all add: case_prod_unfold Let_def)

text \<open>The state reached by \<open>d g\<close> after leaving insert mode.\<close>

definition after_dg :: transition where
  "after_dg = fst (type_keys start_vim [''<Esc>'', ''d'', ''g''])"

lemmas vim_eval =
  start_vim_def NewTransition_def NewVimState_def NewPersistentState_def press_def ActionForKey_def
  HandleKey_def handleNormalKey_def handler_defs key_class_defs HasPrefix_def TrimPrefix_def
  NewCommandState_def empty_command_def empty_change_def Let_def operator_action_def

text \<open>After an operator and \<open>g\<close> the machine is stuck: no handler reads the command
  type \<open>operatorG\<close>, so every further key, escape included, is ignored in normal mode for ever.\<close>

theorem operator_g_absorbs:
  "vs_mode (t_state after_dg) = ModeNormal
   \<and> fst (type_keys after_dg keys) = after_dg
   \<and> list_all (\<lambda>a. a_kind a = ActionNone) (snd (type_keys after_dg keys))"
proof -
  have m: "vs_mode (t_state after_dg) = ModeNormal"
    and c: "vs_command (t_state after_dg) =
      Some ((empty_command COperatorG)\<lparr>c_op := OperatorDelete, c_count := 1\<rparr>)"
    by (simp_all add: after_dg_def vim_eval)
  show ?thesis using m operator_g_keys [OF m c] by (simp add: empty_command_def)
qed

lemma press_no_change:
  assumes "HandleKey t key = (t', op @ CHR '':'' # m)" and "op \<in> operators"
    and "op \<noteq> OperatorChange"
  shows "press key t = t'"
proof -
  have "Split (CHR '':'') (op @ CHR '':'' # m) = op # Split (CHR '':'') m"
    using assms(2) by (simp add: Split_append_sep operator_words)
  then have "fst (operator_action t' cb (op @ CHR '':'' # m) a) = t'" for cb a
    using assms(3) by (simp add: operator_action_def Let_def split: option.splits)
  then show ?thesis by (simp add: press_def ActionForKey_def assms(1) Let_def)
qed

text \<open>A count survives the command it was typed for: after a counted line-wise delete
  or yank, a plain motion moves by the old count instead of once.\<close>

theorem stale_count:
  assumes "at_rest t" and "digits_ok ds" and "hd ds \<noteq> CHR ''0''"
    and "k \<in> {''d'', ''y''}" and "IsSimpleMotion m" and "m \<noteq> ''0''"
  defines "a \<equiv> last (snd (type_keys t (digit_keys ds @ [k, k, m])))"
  shows "a_kind a = ActionMove \<and> a_motion a = m \<and> a_count a = decimal ds"
proof -
  let ?c = "(empty_command COperator)\<lparr>c_op := GetOperator k, c_count := decimal ds\<rparr>"
  let ?lc = "(empty_change ''operator'')\<lparr>rc_op := GetOperator k, rc_motion := ''line'',
     rc_count := decimal ds\<rparr>"
  let ?t = "with_command (with_change t ?lc) (?c\<lparr>c_type := CIdle\<rparr>)"
  have k: "IsOperatorKey k" "GetOperator k \<noteq> OperatorChange"
    using assms(4) by (auto simp: key_class_defs)
  have pos: "1 \<le> decimal ds"
    using parseCount_pos [OF assms(2,3)] assms(2) by (simp add: parseCount_decimal digits_ok_def)
  have pre: "fold press (digit_keys ds @ [k]) t = with_command t ?c"
    by (rule count_then_operator [OF assms(1-3) k(1)])
  have h: "HandleKey (with_command t ?c) k = (?t, GetOperator k @ '':line'')"
    using assms(1) k(1)
    by (simp add: HandleKey_def handleNormalKey_def handleOperatorKey_def at_rest_def
        empty_command_def)
  have "press k (with_command t ?c) = ?t"
    by (rule press_no_change [OF _ GetOperator_operators [OF k(1)] k(2), of _ _ _ "''line''"])
      (simp add: h)
  with pre have pre2: "fold press (digit_keys ds @ [k, k]) t = ?t" by simp
  have "\<not> isDigit m" and "\<not> IsOperatorKey m" and "\<not> IsFindKey m"
    using motion_key_class [OF assms(5)] assms(6) by blast+
  moreover have "m \<notin> set [''i'', ''I'', ''A'', ''o'', ''O'', ''v'', ''V'', ''g'', ''r'', ''>'', ''<'']"
    using assms(5) by (auto simp: IsSimpleMotion_def)
  ultimately have "HandleKey ?t m = (?t, ''motion:'' @ m)"
    using assms(1,5)
    by (simp add: HandleKey_def handleNormalKey_def handleIdleKey_def at_rest_def empty_command_def)
  from ActionForKey_motion [OF this] show ?thesis
    unfolding a_def using pos pre2 type_keys_snoc [of t "digit_keys ds @ [k, k]" m]
    by (simp add: actionCount_def empty_command_def)
qed

text \<open>Opening a line with \<open>o\<close> or \<open>O\<close> emits an insertion of the internal marker text
  instead of a line break, since the textual action has the prefix of inserted text.\<close>

theorem open_line_inserts_marker:
  "map (\<lambda>a. (a_kind a, a_text a)) (snd (type_keys start_vim [''<Esc>'', ''o''])) =
     [(ActionSetMode, []), (ActionInsert, ''line_below'')]
   \<and> map (\<lambda>a. (a_kind a, a_text a)) (snd (type_keys start_vim [''<Esc>'', ''O''])) =
     [(ActionSetMode, []), (ActionInsert, ''line_above'')]"
  by (simp add: vim_eval)


section \<open>Witnesses\<close>

definition rested :: transition where
  "rested = press ''<Esc>'' start_vim"

lemma rested_value:
  "rested = \<lparr>t_state = \<lparr>vs_mode = ModeNormal, vs_command = Some NewCommandState, vs_inserted = []\<rparr>,
     t_persistent = NewPersistentState\<rparr>"
  by (simp add: rested_def vim_eval)

lemma at_rest_rested: "at_rest rested"
  by (simp add: rested_value at_rest_def NewCommandState_def empty_command_def)

lemma example_digits: "digits_ok ''12''" "decimal ''12'' = 12" "digits_ok ''3''" "decimal ''3'' = 3"
  by (simp_all add: digits_ok_def decimal_def digit_byte_def)

lemma example_keys: "IsSimpleMotion ''w''" "IsOperatorKey ''d''" "GetOperator ''d'' = OperatorDelete"
  by (simp_all add: key_class_defs)

theorem counted_motion_witness:
  "a_count (last (snd (type_keys rested (digit_keys ''12'' @ [''w''])))) = 12"
  using counted_motion [of rested "''12''" "''w''"]
  by (simp add: at_rest_rested example_digits example_keys)

theorem insert_session_witness:
  "a_text (last (snd (type_keys start_vim ([''a'', ''b''] @ [''<Esc>''])))) = ''ab''"
  using insert_session [of start_vim "[''a'', ''b'']"]
  by (simp add: start_vim_def NewTransition_def NewVimState_def)

theorem operator_counts_multiply_witness:
  "a_count (last (snd (type_keys rested (digit_keys ''12'' @ [''d''] @ digit_keys ''3'' @ [''w''])))) = 36"
  using operator_counts_multiply [of rested "''12''" "''d''" "''3''" "''w''"]
  by (simp add: at_rest_rested example_digits example_keys MaxVimCount_def)

theorem escape_resets_pending_witness:
  "at_rest (press ''<Esc>'' (press ''d'' rested))"
proof (rule escape_resets_pending)
  show "vim_ok (press ''d'' rested)"
    using vim.inv_run [OF vim_ok_start, of "[''<Esc>'', ''d'']"] by (simp add: rested_def)
  show "vs_mode (t_state (press ''d'' rested)) = ModeNormal"
    by (simp add: rested_value vim_eval)
  show "vs_command (t_state (press ''d'' rested)) =
      Some ((empty_command COperator)\<lparr>c_op := OperatorDelete, c_count := 1\<rparr>)"
    by (simp add: rested_value vim_eval)
qed (simp add: empty_command_def)

theorem stale_count_witness:
  "a_count (last (snd (type_keys rested (digit_keys ''3'' @ [''d'', ''d'', ''w''])))) = 3"
  using stale_count [of rested "''3''" "''d''" "''w''"]
  by (simp add: at_rest_rested example_digits example_keys)

end
