(* ===== verification/Lru_Cache.thy ===== *)
theory Lru_Cache
  imports Go_Prelude "HOL-Library.Multiset"
begin

text \<open>
  The least-recently-used cache of \<open>internal/utils/lru_cache.go\<close>. The source keeps a
  doubly linked list of entries (\<open>container/list\<close>) and a map from keys to the list's elements,
  which alias the entries: an element handle is a number here, \<open>lru_entries\<close> is the store the
  handles point into, \<open>lru_order\<close> is the list of handles from front to back. Each operation
  holds the cache's lock, so operations are atomic.
\<close>

section \<open>The cache\<close>

record ('k, 'v) lru_cache =
  lru_capacity :: int
  lru_items :: "'k \<rightharpoonup> nat"
  lru_order :: "nat list"
  lru_entries :: "nat \<rightharpoonup> 'k \<times> 'v"
  lru_next :: nat

definition NewLRUCache :: "int \<Rightarrow> ('k, 'v) lru_cache" where
  "NewLRUCache capacity = \<lparr>lru_capacity = capacity, lru_items = Map.empty, lru_order = [],
     lru_entries = Map.empty, lru_next = 0\<rparr>"

definition move_to_front :: "nat \<Rightarrow> nat list \<Rightarrow> nat list" where
  "move_to_front e xs = e # remove1 e xs"

definition entry_at :: "('k, 'v) lru_cache \<Rightarrow> nat \<Rightarrow> 'k \<times> 'v" where
  "entry_at c e = the (lru_entries c e)"

definition lru_Get :: "'k \<Rightarrow> ('k, 'v) lru_cache \<Rightarrow> ('k, 'v) lru_cache \<times> 'v option" where
  "lru_Get key c =
     (case lru_items c key of
        Some elem \<Rightarrow> (c\<lparr>lru_order := move_to_front elem (lru_order c)\<rparr>, Some (snd (entry_at c elem)))
      | None \<Rightarrow> (c, None))"

definition lru_Peek :: "'k \<Rightarrow> ('k, 'v) lru_cache \<Rightarrow> 'v option" where
  "lru_Peek key c =
     (case lru_items c key of Some elem \<Rightarrow> Some (snd (entry_at c elem)) | None \<Rightarrow> None)"

definition lru_evict :: "('k, 'v) lru_cache \<Rightarrow> ('k, 'v) lru_cache" where
  "lru_evict c =
     (if int (length (lru_order c)) > lru_capacity c \<and> lru_order c \<noteq> [] then
        (let oldest = last (lru_order c)
         in c\<lparr>lru_order := butlast (lru_order c),
              lru_items := (lru_items c)(fst (entry_at c oldest) := None)\<rparr>)
      else c)"

definition lru_Set :: "'k \<Rightarrow> 'v \<Rightarrow> ('k, 'v) lru_cache \<Rightarrow> ('k, 'v) lru_cache" where
  "lru_Set key val c =
     (case lru_items c key of
        Some elem \<Rightarrow>
          c\<lparr>lru_order := move_to_front elem (lru_order c),
            lru_entries := (lru_entries c)(elem \<mapsto> (fst (entry_at c elem), val))\<rparr>
      | None \<Rightarrow>
          (let elem = lru_next c
           in lru_evict (c\<lparr>lru_order := elem # lru_order c,
                lru_entries := (lru_entries c)(elem \<mapsto> (key, val)),
                lru_items := (lru_items c)(key \<mapsto> elem), lru_next := Suc elem\<rparr>)))"

definition lru_Delete :: "'k \<Rightarrow> ('k, 'v) lru_cache \<Rightarrow> ('k, 'v) lru_cache \<times> bool" where
  "lru_Delete key c =
     (case lru_items c key of
        Some elem \<Rightarrow>
          (c\<lparr>lru_order := remove1 elem (lru_order c), lru_items := (lru_items c)(key := None)\<rparr>, True)
      | None \<Rightarrow> (c, False))"

definition lru_Has :: "'k \<Rightarrow> ('k, 'v) lru_cache \<Rightarrow> bool" where
  "lru_Has key c \<longleftrightarrow> lru_items c key \<noteq> None"

definition lru_Clear :: "('k, 'v) lru_cache \<Rightarrow> ('k, 'v) lru_cache" where
  "lru_Clear c = c\<lparr>lru_items := Map.empty, lru_order := []\<rparr>"

definition lru_Size :: "('k, 'v) lru_cache \<Rightarrow> nat" where
  "lru_Size c = length (lru_order c)"

section \<open>The contract: an association list in order of recency\<close>

definition spec_get :: "'k \<Rightarrow> ('k \<times> 'v) list \<Rightarrow> ('k \<times> 'v) list \<times> 'v option" where
  "spec_get key xs =
     (case map_of xs key of
        Some v \<Rightarrow> ((key, v) # filter (\<lambda>p. fst p \<noteq> key) xs, Some v)
      | None \<Rightarrow> (xs, None))"

definition spec_set :: "int \<Rightarrow> 'k \<Rightarrow> 'v \<Rightarrow> ('k \<times> 'v) list \<Rightarrow> ('k \<times> 'v) list" where
  "spec_set capacity key val xs =
     (let ys = (key, val) # filter (\<lambda>p. fst p \<noteq> key) xs
      in if map_of xs key = None \<and> int (length ys) > capacity then butlast ys else ys)"

definition spec_delete :: "'k \<Rightarrow> ('k \<times> 'v) list \<Rightarrow> ('k \<times> 'v) list \<times> bool" where
  "spec_delete key xs = (filter (\<lambda>p. fst p \<noteq> key) xs, map_of xs key \<noteq> None)"

definition lru_abs :: "('k, 'v) lru_cache \<Rightarrow> ('k \<times> 'v) list" where
  "lru_abs c = map (entry_at c) (lru_order c)"

definition lru_ok :: "('k, 'v) lru_cache \<Rightarrow> bool" where
  "lru_ok c \<longleftrightarrow> distinct (lru_order c)
     \<and> (\<forall>e \<in> set (lru_order c). e < lru_next c \<and> lru_items c (fst (entry_at c e)) = Some e)
     \<and> (\<forall>k e. lru_items c k = Some e \<longrightarrow> e \<in> set (lru_order c) \<and> fst (entry_at c e) = k)
     \<and> int (length (lru_order c)) \<le> max 0 (lru_capacity c)"

lemma lru_okI:
  assumes "distinct (lru_order c)"
    and "\<And>e. e \<in> set (lru_order c) \<Longrightarrow> e < lru_next c \<and> lru_items c (fst (entry_at c e)) = Some e"
    and "\<And>k e. lru_items c k = Some e \<Longrightarrow> e \<in> set (lru_order c) \<and> fst (entry_at c e) = k"
    and "int (length (lru_order c)) \<le> max 0 (lru_capacity c)"
  shows "lru_ok c"
  using assms unfolding lru_ok_def by blast

lemma lru_okD:
  assumes "lru_ok c"
  shows "distinct (lru_order c)" and "e \<in> set (lru_order c) \<Longrightarrow> e < lru_next c"
    and "int (length (lru_order c)) \<le> max 0 (lru_capacity c)"
  using assms unfolding lru_ok_def by blast+

lemma lru_ok_new: "lru_ok (NewLRUCache capacity)" and lru_abs_new: "lru_abs (NewLRUCache capacity) = []"
  by (simp_all add: lru_ok_def lru_abs_def NewLRUCache_def)

lemma lru_ok_item:
  "lru_ok c \<Longrightarrow> lru_items c k = Some e \<Longrightarrow> e \<in> set (lru_order c) \<and> fst (entry_at c e) = k"
  by (simp add: lru_ok_def)

lemma lru_ok_elem:
  "lru_ok c \<Longrightarrow> e \<in> set (lru_order c) \<Longrightarrow> lru_items c (fst (entry_at c e)) = Some e"
  by (simp add: lru_ok_def)

lemma lru_keys_inj: "lru_ok c \<Longrightarrow> inj_on (\<lambda>e. fst (entry_at c e)) (set (lru_order c))"
  by (rule inj_onI) (metis lru_ok_elem option.inject)

lemma lru_abs_keys: "lru_ok c \<Longrightarrow> distinct (map fst (lru_abs c))"
  using lru_keys_inj [of c] by (simp add: lru_abs_def distinct_map lru_ok_def comp_def)

lemma map_of_lru_abs: "lru_ok c \<Longrightarrow> map_of (lru_abs c) k = lru_Peek k c"
proof -
  assume ok: "lru_ok c"
  show ?thesis
  proof (cases "lru_items c k")
    case None
    then have "k \<notin> fst ` set (lru_abs c)"
      using lru_ok_elem [OF ok] by (auto simp: lru_abs_def)
    then show ?thesis using None by (simp add: lru_Peek_def map_of_eq_None_iff)
  next
    case (Some e)
    with lru_ok_item [OF ok Some] have "(k, snd (entry_at c e)) \<in> set (lru_abs c)"
      by (auto simp: lru_abs_def image_iff prod_eq_iff)
    then show ?thesis using Some lru_abs_keys [OF ok] by (simp add: lru_Peek_def)
  qed
qed

text \<open>Removing a handle removes exactly the entries with its key.\<close>

lemma filter_key_remove1:
  assumes "lru_ok c" and "lru_items c k = Some e"
  shows "filter (\<lambda>p. fst p \<noteq> k) (lru_abs c) = map (entry_at c) (remove1 e (lru_order c))"
proof -
  have d: "distinct (lru_order c)" using assms(1) by (simp add: lru_ok_def)
  have "fst (entry_at c x) \<noteq> k \<longleftrightarrow> e \<noteq> x" if "x \<in> set (lru_order c)" for x
    using that assms lru_ok_elem lru_ok_item by (metis option.inject)
  then have "filter (\<lambda>x. fst (entry_at c x) \<noteq> k) (lru_order c) = filter (\<lambda>x. e \<noteq> x) (lru_order c)"
    by (intro filter_cong) simp_all
  then show ?thesis using d by (simp add: lru_abs_def filter_map comp_def distinct_remove1_removeAll
      removeAll_filter_not_eq)
qed

lemma filter_key_absent:
  "lru_ok c \<Longrightarrow> lru_items c k = None \<Longrightarrow> filter (\<lambda>p. fst p \<noteq> k) (lru_abs c) = lru_abs c"
  by (rule filter_True) (auto simp: lru_abs_def dest: lru_ok_elem)

lemma move_to_front_props:
  assumes "distinct xs" and "e \<in> set xs"
  shows "distinct (move_to_front e xs)" and "set (move_to_front e xs) = set xs"
    and "length (move_to_front e xs) = length xs"
proof -
  have "mset (move_to_front e xs) = mset xs"
    using assms(2) by (simp add: move_to_front_def)
  then show "distinct (move_to_front e xs)" "set (move_to_front e xs) = set xs"
    "length (move_to_front e xs) = length xs"
    using assms(1) by (metis mset_eq_imp_distinct_iff, metis mset_eq_setD, metis mset_eq_length)
qed

lemma entry_at_frame [simp]:
  "entry_at (c\<lparr>lru_order := xs\<rparr>) = entry_at c"
  "entry_at (c\<lparr>lru_items := m\<rparr>) = entry_at c"
  "entry_at (c\<lparr>lru_next := n\<rparr>) = entry_at c"
  "entry_at (c\<lparr>lru_entries := h\<rparr>) x = the (h x)"
  by (auto simp: entry_at_def fun_eq_iff)

section \<open>Each operation refines its contract\<close>

lemma lru_Get_refines:
  assumes "lru_ok c"
  shows "lru_ok (fst (lru_Get k c)) \<and> lru_abs (fst (lru_Get k c)) = fst (spec_get k (lru_abs c))
     \<and> snd (lru_Get k c) = snd (spec_get k (lru_abs c))"
proof (cases "lru_items c k")
  case None
  then show ?thesis
    using assms by (simp add: lru_Get_def spec_get_def map_of_lru_abs lru_Peek_def)
next
  case (Some e)
  have e: "e \<in> set (lru_order c)" "fst (entry_at c e) = k" using lru_ok_item [OF assms Some] by auto
  have ok: "lru_ok (c\<lparr>lru_order := move_to_front e (lru_order c)\<rparr>)"
    using lru_okD [OF assms] e(1) lru_ok_elem [OF assms] lru_ok_item [OF assms]
    by (intro lru_okI) (auto simp: move_to_front_props)
  then show ?thesis
    using assms Some e filter_key_remove1 [OF assms Some]
    by (simp add: lru_Get_def spec_get_def map_of_lru_abs lru_Peek_def)
      (simp add: lru_abs_def move_to_front_def prod_eq_iff)
qed

lemma lru_Delete_refines:
  assumes "lru_ok c"
  shows "lru_ok (fst (lru_Delete k c)) \<and> lru_abs (fst (lru_Delete k c)) = fst (spec_delete k (lru_abs c))
     \<and> snd (lru_Delete k c) = snd (spec_delete k (lru_abs c))"
proof (cases "lru_items c k")
  case None
  then show ?thesis
    using assms filter_key_absent [OF assms None]
    by (simp add: lru_Delete_def spec_delete_def map_of_lru_abs lru_Peek_def)
next
  case (Some e)
  have e: "e \<in> set (lru_order c)" "fst (entry_at c e) = k" using lru_ok_item [OF assms Some] by auto
  have other: "fst (entry_at c x) \<noteq> k" if "x \<in> set (lru_order c)" and "x \<noteq> e" for x
    using that lru_ok_elem [OF assms] Some by fastforce
  have same: "lru_items c ka = Some e \<longleftrightarrow> ka = k" for ka
    using Some lru_ok_item [OF assms] e(2) by metis
  have "int (length (remove1 e (lru_order c))) \<le> max 0 (lru_capacity c)"
    using lru_okD(3) [OF assms] e(1) by (simp add: length_remove1)
  then have "lru_ok (c\<lparr>lru_order := remove1 e (lru_order c), lru_items := (lru_items c)(k := None)\<rparr>)"
    using lru_okD [OF assms] lru_ok_elem [OF assms] lru_ok_item [OF assms] other same
    by (intro lru_okI) (auto split: if_splits)
  then have "lru_ok (fst (lru_Delete k c))" using Some by (simp add: lru_Delete_def)
  then show ?thesis
    using assms Some filter_key_remove1 [OF assms Some]
    by (simp add: lru_Delete_def spec_delete_def map_of_lru_abs lru_Peek_def)
      (simp add: lru_abs_def)
qed

lemma lru_evict_refines:
  assumes "distinct (lru_order c)"
    and elem: "\<And>e. e \<in> set (lru_order c) \<Longrightarrow> e < lru_next c \<and> lru_items c (fst (entry_at c e)) = Some e"
    and item: "\<And>k e. lru_items c k = Some e \<Longrightarrow> e \<in> set (lru_order c) \<and> fst (entry_at c e) = k"
    and len: "int (length (lru_order c)) \<le> max 0 (lru_capacity c) + 1"
  shows "lru_ok (lru_evict c) \<and> lru_abs (lru_evict c) =
     (if int (length (lru_abs c)) > lru_capacity c then butlast (lru_abs c) else lru_abs c)"
proof (cases "int (length (lru_order c)) > lru_capacity c \<and> lru_order c \<noteq> []")
  case True
  then obtain xs e where o: "lru_order c = xs @ [e]" by (metis append_butlast_last_id)
  have ev: "lru_evict c = c\<lparr>lru_order := xs, lru_items := (lru_items c)(fst (entry_at c e) := None)\<rparr>"
    using True by (simp add: lru_evict_def o)
  have key: "fst (entry_at c x) \<noteq> fst (entry_at c e)" if "x \<in> set xs" for x
  proof
    assume eq: "fst (entry_at c x) = fst (entry_at c e)"
    have "Some x = Some e" using elem [of x] elem [of e] that unfolding eq by (simp add: o)
    then show False using that assms(1) by (simp add: o)
  qed
  have "lru_ok (lru_evict c)"
  proof (rule lru_okI)
    fix x assume "x \<in> set (lru_order (lru_evict c))"
    then show "x < lru_next (lru_evict c) \<and>
        lru_items (lru_evict c) (fst (entry_at (lru_evict c) x)) = Some x"
      using elem [of x] key by (simp add: ev o)
  next
    fix k x assume "lru_items (lru_evict c) k = Some x"
    then have "k \<noteq> fst (entry_at c e)" and "lru_items c k = Some x"
      by (auto simp: ev split: if_splits)
    then show "x \<in> set (lru_order (lru_evict c)) \<and> fst (entry_at (lru_evict c) x) = k"
      using item [of k x] by (auto simp: ev o)
  qed (use assms(1) len True in \<open>auto simp: ev o\<close>)
  then show ?thesis
    using True by (simp add: ev lru_abs_def o)
next
  case False
  then have "lru_evict c = c" and "int (length (lru_order c)) \<le> max 0 (lru_capacity c)"
    by (auto simp: lru_evict_def)
  then show ?thesis
    using assms False by (auto intro: lru_okI simp: lru_abs_def)
qed

lemma lru_Set_refines:
  assumes "lru_ok c"
  shows "lru_ok (lru_Set k v c)
     \<and> lru_abs (lru_Set k v c) = spec_set (lru_capacity c) k v (lru_abs c)"
proof (cases "lru_items c k")
  case (Some e)
  have e: "e \<in> set (lru_order c)" "fst (entry_at c e) = k" using lru_ok_item [OF assms Some] by auto
  have at: "entry_at (lru_Set k v c) x = (if x = e then (k, v) else entry_at c x)" for x
    using Some e by (simp add: lru_Set_def entry_at_def)
  have set': "lru_order (lru_Set k v c) = move_to_front e (lru_order c)"
    "lru_items (lru_Set k v c) = lru_items c" "lru_next (lru_Set k v c) = lru_next c"
    "lru_capacity (lru_Set k v c) = lru_capacity c"
    using Some by (simp_all add: lru_Set_def)
  have key: "fst (entry_at (lru_Set k v c) x) = fst (entry_at c x)" for x
    using e(2) by (simp add: at)
  have "lru_ok (lru_Set k v c)"
    using lru_okD [OF assms] lru_ok_elem [OF assms] lru_ok_item [OF assms] e(1)
    by (intro lru_okI) (simp_all add: set' key move_to_front_props)
  moreover have "map (entry_at (lru_Set k v c)) (remove1 e (lru_order c)) =
      map (entry_at c) (remove1 e (lru_order c))"
    using lru_okD(1) [OF assms] by (intro map_cong) (simp_all add: at)
  ultimately show ?thesis
    using Some filter_key_remove1 [OF assms Some]
    by (simp add: spec_set_def map_of_lru_abs [OF assms] lru_Peek_def)
      (simp add: lru_abs_def set' at move_to_front_def)
next
  case None
  let ?n = "lru_next c"
  let ?c = "c\<lparr>lru_order := ?n # lru_order c, lru_entries := (lru_entries c)(?n \<mapsto> (k, v)),
     lru_items := (lru_items c)(k \<mapsto> ?n), lru_next := Suc ?n\<rparr>"
  have at: "entry_at ?c x = (if x = ?n then (k, v) else entry_at c x)" for x
    by (simp add: entry_at_def)
  have fresh: "?n \<notin> set (lru_order c)" using assms by (auto simp: lru_ok_def)
  have keys: "e \<in> set (lru_order c) \<Longrightarrow> fst (entry_at c e) \<noteq> k" for e
    using lru_ok_elem [OF assms] None by force
  have abs: "lru_abs ?c = (k, v) # lru_abs c"
    unfolding lru_abs_def using fresh by (auto simp: at simp del: entry_at_frame)
  have "lru_ok (lru_evict ?c) \<and> lru_abs (lru_evict ?c) =
     (if int (length (lru_abs ?c)) > lru_capacity ?c then butlast (lru_abs ?c) else lru_abs ?c)"
  proof (rule lru_evict_refines)
    show "distinct (lru_order ?c)" using fresh lru_okD(1) [OF assms] by simp
    show "int (length (lru_order ?c)) \<le> max 0 (lru_capacity ?c) + 1"
      using lru_okD(3) [OF assms] by simp
    fix e assume e: "e \<in> set (lru_order ?c)"
    show "e < lru_next ?c \<and> lru_items ?c (fst (entry_at ?c e)) = Some e"
    proof (cases "e = ?n")
      case True
      then show ?thesis unfolding at by simp
    next
      case False
      then have "e \<in> set (lru_order c)" using e by simp
      then show ?thesis
        using False keys lru_okD(2) [OF assms, of e] lru_ok_elem [OF assms, of e] unfolding at by simp
    qed
  next
    fix k' e assume "lru_items ?c k' = Some e"
    then consider "k' = k" "e = ?n" | "k' \<noteq> k" "lru_items c k' = Some e"
      by (auto split: if_splits)
    then show "e \<in> set (lru_order ?c) \<and> fst (entry_at ?c e) = k'"
      using lru_ok_item [OF assms, of k' e] fresh unfolding at by cases auto
  qed
  then show ?thesis
    using assms None filter_key_absent [OF assms None] abs
    by (simp add: lru_Set_def spec_set_def map_of_lru_abs lru_Peek_def Let_def)
qed

lemma lru_capacity_const [simp]:
  "lru_capacity (lru_Set k v c) = lru_capacity c"
  "lru_capacity (fst (lru_Get k c)) = lru_capacity c"
  "lru_capacity (fst (lru_Delete k c)) = lru_capacity c"
  "lru_capacity (lru_Clear c) = lru_capacity c"
  by (simp_all add: lru_Set_def lru_Get_def lru_Delete_def lru_Clear_def lru_evict_def Let_def
      split: option.splits)

section \<open>Traces\<close>

datatype ('k, 'v) cache_op =
  OpGet 'k | OpPeek 'k | OpSet 'k 'v | OpDelete 'k | OpHas 'k | OpClear | OpSize

datatype 'v cache_result = RValue "'v option" | RBool bool | RSize nat | RUnit

fun lru_step :: "('k, 'v) cache_op \<Rightarrow> ('k, 'v) lru_cache \<Rightarrow> ('k, 'v) lru_cache \<times> 'v cache_result" where
  "lru_step (OpGet k) c = (fst (lru_Get k c), RValue (snd (lru_Get k c)))"
| "lru_step (OpPeek k) c = (c, RValue (lru_Peek k c))"
| "lru_step (OpSet k v) c = (lru_Set k v c, RUnit)"
| "lru_step (OpDelete k) c = (fst (lru_Delete k c), RBool (snd (lru_Delete k c)))"
| "lru_step (OpHas k) c = (c, RBool (lru_Has k c))"
| "lru_step OpClear c = (lru_Clear c, RUnit)"
| "lru_step OpSize c = (c, RSize (lru_Size c))"

fun spec_step :: "int \<Rightarrow> ('k, 'v) cache_op \<Rightarrow> ('k \<times> 'v) list \<Rightarrow> ('k \<times> 'v) list \<times> 'v cache_result" where
  "spec_step cap (OpGet k) xs = (fst (spec_get k xs), RValue (snd (spec_get k xs)))"
| "spec_step cap (OpPeek k) xs = (xs, RValue (map_of xs k))"
| "spec_step cap (OpSet k v) xs = (spec_set cap k v xs, RUnit)"
| "spec_step cap (OpDelete k) xs = (fst (spec_delete k xs), RBool (snd (spec_delete k xs)))"
| "spec_step cap (OpHas k) xs = (xs, RBool (map_of xs k \<noteq> None))"
| "spec_step cap OpClear xs = ([], RUnit)"
| "spec_step cap OpSize xs = (xs, RSize (length xs))"

fun run_ops :: "('o \<Rightarrow> 's \<Rightarrow> 's \<times> 'r) \<Rightarrow> 's \<Rightarrow> 'o list \<Rightarrow> 's \<times> 'r list" where
  "run_ops step s [] = (s, [])"
| "run_ops step s (x # xs) =
     (let (s1, r) = step x s; (s2, rs) = run_ops step s1 xs in (s2, r # rs))"

lemma lru_step_refines:
  assumes "lru_ok c"
  shows "lru_ok (fst (lru_step x c))
     \<and> lru_abs (fst (lru_step x c)) = fst (spec_step (lru_capacity c) x (lru_abs c))
     \<and> snd (lru_step x c) = snd (spec_step (lru_capacity c) x (lru_abs c))
     \<and> lru_capacity (fst (lru_step x c)) = lru_capacity c"
proof (cases x)
  case OpClear
  then show ?thesis by (simp add: lru_Clear_def lru_ok_def lru_abs_def)
next
  case (OpHas k)
  then show ?thesis
    using assms by (simp add: map_of_lru_abs lru_Has_def lru_Peek_def split: option.splits)
next
  case OpSize
  then show ?thesis using assms by (simp add: lru_Size_def lru_abs_def)
qed (use assms lru_Get_refines lru_Set_refines lru_Delete_refines in
      \<open>simp_all add: map_of_lru_abs\<close>)

lemma run_ops_refines:
  "lru_ok c \<Longrightarrow> lru_ok (fst (run_ops lru_step c ops))
     \<and> snd (run_ops lru_step c ops) = snd (run_ops (spec_step (lru_capacity c)) (lru_abs c) ops)
     \<and> lru_capacity (fst (run_ops lru_step c ops)) = lru_capacity c"
proof (induction ops arbitrary: c)
  case Nil
  then show ?case by simp
next
  case (Cons x ops)
  then show ?case
    using lru_step_refines [OF Cons.prems, of x] Cons.IH [of "fst (lru_step x c)"]
    by (simp add: case_prod_unfold Let_def)
qed

text \<open>Every trace of cache operations on a new cache returns exactly what the contract
  returns: an association list in order of recency that drops its last entry when an insertion
  exceeds the capacity. The linked list, the map and the aliased entries never disagree.\<close>

theorem lru_trace_refines:
  "snd (run_ops lru_step (NewLRUCache capacity) ops) =
     snd (run_ops (spec_step capacity) [] ops)"
  using run_ops_refines [OF lru_ok_new, of capacity ops]
  by (simp add: lru_abs_new) (simp add: NewLRUCache_def)

text \<open>No trace of operations makes the cache hold more entries than its capacity, and none
  at all when the capacity is not positive.\<close>

theorem lru_size_bounded:
  "int (lru_Size (fst (run_ops lru_step (NewLRUCache capacity) ops))) \<le> max 0 capacity"
proof -
  let ?c = "fst (run_ops lru_step (NewLRUCache capacity) ops)"
  have "lru_ok ?c" and "lru_capacity ?c = lru_capacity (NewLRUCache capacity :: ('a, 'b) lru_cache)"
    using run_ops_refines [OF lru_ok_new, of capacity ops] by blast+
  then show ?thesis by (simp add: lru_ok_def lru_Size_def) (simp add: NewLRUCache_def)
qed

section \<open>The cache interface and memoisation\<close>

text \<open>
  What a client of \<open>CacheInterface\<close> may rely on: a lookup returns the contents and does not
  change them, a store adds at most the given entry and may forget others.
\<close>

locale cache =
  fixes get :: "'k \<Rightarrow> 'c \<Rightarrow> 'c \<times> 'v option"
    and put :: "'k \<Rightarrow> 'v \<Rightarrow> 'c \<Rightarrow> 'c"
    and contents :: "'c \<Rightarrow> 'k \<rightharpoonup> 'v"
    and ok :: "'c \<Rightarrow> bool"
  assumes get_value: "ok c \<Longrightarrow> snd (get k c) = contents c k"
    and get_contents: "ok c \<Longrightarrow> contents (fst (get k c)) = contents c"
    and put_contents: "ok c \<Longrightarrow> contents (put k v c) \<subseteq>\<^sub>m (contents c)(k \<mapsto> v)"
    and get_ok: "ok c \<Longrightarrow> ok (fst (get k c))"
    and put_ok: "ok c \<Longrightarrow> ok (put k v c)"

text \<open>The closure returned by \<open>MemoizeWithLRU\<close>, over the cache's two operations.\<close>

definition memoize ::
    "('k \<Rightarrow> 'c \<Rightarrow> 'c \<times> 'v option) \<Rightarrow> ('k \<Rightarrow> 'v \<Rightarrow> 'c \<Rightarrow> 'c) \<Rightarrow> ('k \<Rightarrow> 'v) \<Rightarrow> 'k \<Rightarrow> 'c \<Rightarrow> 'c \<times> 'v" where
  "memoize get put fn key c =
     (case get key c of
        (c1, Some val) \<Rightarrow> (c1, val)
      | (c1, None) \<Rightarrow> (let result = fn key in (put key result c1, result)))"

context cache begin

definition agrees :: "('k \<Rightarrow> 'v) \<Rightarrow> 'c \<Rightarrow> bool" where
  "agrees fn c \<longleftrightarrow> ok c \<and> (\<forall>k v. contents c k = Some v \<longrightarrow> v = fn k)"

lemma memoize_correct:
  assumes "agrees fn c"
  shows "snd (memoize get put fn k c) = fn k \<and> agrees fn (fst (memoize get put fn k c))"
proof (cases "snd (get k c)")
  case None
  moreover have "agrees fn (put k (fn k) (fst (get k c)))"
    unfolding agrees_def
  proof (intro conjI allI impI)
    have ok: "ok c" using assms by (simp add: agrees_def)
    show "ok (put k (fn k) (fst (get k c)))" using ok by (intro put_ok get_ok)
    fix k' v assume "contents (put k (fn k) (fst (get k c))) k' = Some v"
    then have "((contents c)(k \<mapsto> fn k)) k' = Some v"
      using put_contents [OF get_ok [OF ok], of k "fn k" k] get_contents [OF ok, of k]
      by (metis domI map_le_def)
    then show "v = fn k'" using assms by (auto simp: agrees_def split: if_splits)
  qed
  ultimately show ?thesis by (simp add: memoize_def Let_def case_prod_unfold)
next
  case (Some v)
  then have "memoize get put fn k c = (fst (get k c), v)"
    by (simp add: memoize_def case_prod_unfold)
  then show ?thesis
    using assms Some get_value [of c k] get_contents [of c k] get_ok [of c k]
    by (simp add: agrees_def)
qed

lemma memoize_run:
  "agrees fn c \<Longrightarrow> snd (run_ops (memoize get put fn) c ks) = map fn ks"
proof (induction ks arbitrary: c)
  case Nil
  then show ?case by simp
next
  case (Cons k ks)
  then show ?case using memoize_correct [OF Cons.prems, of k] by (simp add: case_prod_unfold Let_def)
qed

end

lemma map_of_filter_ne: "map_of (filter (\<lambda>p. fst p \<noteq> k) xs) = (map_of xs)(k := None)"
  by (induction xs) auto

lemma spec_get_contents: "map_of (fst (spec_get k xs)) = map_of xs"
  by (auto simp: spec_get_def map_of_filter_ne split: option.splits)

lemma map_of_butlast: "map_of (butlast xs) \<subseteq>\<^sub>m map_of xs"
proof (cases xs rule: rev_cases)
  case (snoc ys y)
  then show ?thesis by (auto simp: map_le_def map_add_def split: option.splits)
qed simp

lemma spec_set_contents: "map_of (spec_set cap k v xs) \<subseteq>\<^sub>m (map_of xs)(k \<mapsto> v)"
proof -
  have "map_of ((k, v) # filter (\<lambda>p. fst p \<noteq> k) xs) = (map_of xs)(k \<mapsto> v)"
    by (simp add: map_of_filter_ne)
  then show ?thesis
    using map_of_butlast [of "(k, v) # filter (\<lambda>p. fst p \<noteq> k) xs"]
    by (simp add: spec_set_def Let_def del: butlast.simps map_of.simps)
qed

interpretation lru: cache lru_Get lru_Set "\<lambda>c. map_of (lru_abs c)" lru_ok
proof (unfold_locales, goal_cases)
  case (1 c k)
  then show ?case
    unfolding map_of_lru_abs [OF 1] by (cases "lru_items c k") (simp_all add: lru_Get_def lru_Peek_def)
next
  case (2 c k)
  then show ?case using lru_Get_refines [of c k] by (simp add: spec_get_contents)
next
  case (3 c k v)
  then show ?case using lru_Set_refines [of c k v] by (simp add: spec_set_contents)
next
  case (4 c k)
  then show ?case using lru_Get_refines [of c k] by simp
next
  case (5 c k v)
  then show ?case using lru_Set_refines [of c k v] by simp
qed

definition MemoizeWithLRU :: "('k \<Rightarrow> 'v) \<Rightarrow> 'k \<Rightarrow> ('k, 'v) lru_cache \<Rightarrow> ('k, 'v) lru_cache \<times> 'v" where
  "MemoizeWithLRU fn = memoize lru_Get lru_Set fn"

text \<open>The memoised function returns what the function returns, for every sequence of keys,
  whatever the capacity evicts in between.\<close>

theorem memoize_transparent:
  "snd (run_ops (MemoizeWithLRU fn) (NewLRUCache capacity) ks) = map fn ks"
proof -
  have "lru.agrees fn (NewLRUCache capacity)"
    by (simp add: lru.agrees_def lru_ok_new lru_abs_new)
  then show ?thesis unfolding MemoizeWithLRU_def by (rule lru.memoize_run)
qed

end
