(* ===== verification/Go_Regexp.thy ===== *)
theory Go_Regexp
  imports Go_Prelude
begin

text \<open>
  The part of Go's \<open>unicode/utf8\<close> and \<open>regexp\<close> packages that the permission rules rely on: decoding
  a string into runes, and compiling and matching regular expressions built from anchors, literal
  runes, escaped punctuation, \<open>.\<close> and \<open>.*\<close>.
\<close>

section \<open>Runes\<close>

abbreviation code :: "char \<Rightarrow> nat" where
  "code c \<equiv> of_char c"

definition within :: "nat \<Rightarrow> nat \<Rightarrow> char \<Rightarrow> bool" where
  "within lo hi c \<longleftrightarrow> lo \<le> code c \<and> code c \<le> hi"

text \<open>
  \<open>utf8.DecodeRune\<close> on a non-empty string: the first rune and its width, or \<open>None\<close> for an invalid
  encoding (overlong forms, surrogates and values above U+10FFFF are invalid).
\<close>

definition decode_rune :: "string \<Rightarrow> (nat \<times> nat) option" where
  "decode_rune s =
     (case s of [] \<Rightarrow> None
      | c # r \<Rightarrow>
        (let b = code c in
         if b < 0x80 then Some (b, 1)
         else if 0xC2 \<le> b \<and> b \<le> 0xDF then
           (case r of
              c1 # _ \<Rightarrow> if within 0x80 0xBF c1 then Some ((b - 0xC0) * 0x40 + (code c1 - 0x80), 2) else None
            | _ \<Rightarrow> None)
         else if 0xE0 \<le> b \<and> b \<le> 0xEF then
           (case r of
              c1 # c2 # _ \<Rightarrow>
                if within (if b = 0xE0 then 0xA0 else 0x80) (if b = 0xED then 0x9F else 0xBF) c1
                   \<and> within 0x80 0xBF c2
                then Some ((b - 0xE0) * 0x1000 + (code c1 - 0x80) * 0x40 + (code c2 - 0x80), 3) else None
            | _ \<Rightarrow> None)
         else if 0xF0 \<le> b \<and> b \<le> 0xF4 then
           (case r of
              c1 # c2 # c3 # _ \<Rightarrow>
                if within (if b = 0xF0 then 0x90 else 0x80) (if b = 0xF4 then 0x8F else 0xBF) c1
                   \<and> within 0x80 0xBF c2 \<and> within 0x80 0xBF c3
                then Some ((b - 0xF0) * 0x40000 + (code c1 - 0x80) * 0x1000
                       + (code c2 - 0x80) * 0x40 + (code c3 - 0x80), 4) else None
            | _ \<Rightarrow> None)
         else None))"

text \<open>A string as its runes; \<open>None\<close> stands for a byte that starts no valid encoding.\<close>

function decode :: "string \<Rightarrow> nat option list" where
  "decode [] = []"
| "decode (c # r) =
     (case decode_rune (c # r) of
        None \<Rightarrow> None # decode r
      | Some (v, n) \<Rightarrow> Some v # decode (drop (n - 1) r))"
  by pat_completeness auto
termination by (relation "measure length") (auto simp: less_Suc_eq_le)

definition valid_utf8 :: "string \<Rightarrow> bool" where
  "valid_utf8 s \<longleftrightarrow> list_all (\<lambda>r. r \<noteq> None) (decode s)"

text \<open>Ranging over a string yields U+FFFD for each invalid byte.\<close>

definition runes :: "string \<Rightarrow> nat list" where
  "runes s = map (\<lambda>r. case r of None \<Rightarrow> 0xFFFD | Some v \<Rightarrow> v) (decode s)"

lemma decode_rune_ascii [simp]: "code c < 0x80 \<Longrightarrow> decode_rune (c # r) = Some (code c, 1)"
  by (simp add: decode_rune_def Let_def)

lemma decode_ascii: "code c < 0x80 \<Longrightarrow> decode (c # r) = Some (code c) # decode r"
  by simp

text \<open>The bytes of a multi-byte encoding are all above the ASCII range.\<close>

lemma decode_rune_cases:
  assumes "decode_rune s = Some (v, n)"
  obtains c r where "s = c # r" and "code c < 0x80" and "v = code c" and "n = 1"
  | c bs r where "s = (c # bs) @ r" and "0x80 \<le> code c" and "list_all (\<lambda>d. 0x80 \<le> code d) bs"
    and "n = Suc (length bs)" and "0x80 \<le> v" and "\<And>r'. decode_rune ((c # bs) @ r') = Some (v, n)"
proof -
  obtain c r where s: "s = c # r" using assms by (cases s) (simp_all add: decode_rune_def)
  show ?thesis
  proof (cases "code c < 0x80")
    case True
    then show ?thesis using that(1) s assms by simp
  next
    case False
    consider (two) "0xC2 \<le> code c" "code c \<le> 0xDF" | (three) "0xE0 \<le> code c" "code c \<le> 0xEF"
      | (four) "0xF0 \<le> code c" "code c \<le> 0xF4"
      using assms s False by (simp add: decode_rune_def Let_def split: if_splits)
    then show ?thesis
    proof cases
      case two
      obtain c1 r1 where r: "r = c1 # r1" "within 0x80 0xBF c1"
        and v: "v = (code c - 0xC0) * 0x40 + (code c1 - 0x80)" "n = 2"
        using assms s two by (auto simp: decode_rune_def Let_def split: list.splits if_splits)
      have "2 * 0x40 \<le> (code c - 0xC0) * 0x40" using two by (intro mult_le_mono1) simp
      then have "0x80 \<le> v" using v by simp
      then show ?thesis
        using s r v two by (intro that(2) [of c "[c1]" r1])
          (simp_all add: decode_rune_def Let_def within_def)
    next
      case three
      let ?lo = "if code c = 0xE0 then 0xA0 else 0x80 :: nat" and ?hi = "if code c = 0xED then 0x9F else 0xBF :: nat"
      obtain c1 c2 r1 where r: "r = c1 # c2 # r1" "within ?lo ?hi c1" "within 0x80 0xBF c2"
        and v: "v = (code c - 0xE0) * 0x1000 + (code c1 - 0x80) * 0x40 + (code c2 - 0x80)" "n = 3"
        using assms s three by (simp add: decode_rune_def Let_def split: list.splits if_split_asm)
      have "0x80 \<le> v"
      proof (cases "code c = 0xE0")
        case True
        then have "0x20 * 0x40 \<le> (code c1 - 0x80) * 0x40"
          using r(2) True by (intro mult_le_mono1) (simp add: within_def, arith)
        then show ?thesis using v by simp
      next
        case False
        then have "1 * 0x1000 \<le> (code c - 0xE0) * 0x1000" using three by (intro mult_le_mono1) simp
        then show ?thesis using v by simp
      qed
      moreover have "0x80 \<le> code c1" using r(2) by (simp add: within_def split: if_split_asm)
      ultimately show ?thesis
        using s r v three by (intro that(2) [of c "[c1, c2]" r1])
          (simp_all add: decode_rune_def Let_def within_def)
    next
      case four
      let ?lo = "if code c = 0xF0 then 0x90 else 0x80 :: nat" and ?hi = "if code c = 0xF4 then 0x8F else 0xBF :: nat"
      obtain c1 c2 c3 r1 where r: "r = c1 # c2 # c3 # r1" "within ?lo ?hi c1" "within 0x80 0xBF c2" "within 0x80 0xBF c3"
        and v: "v = (code c - 0xF0) * 0x40000 + (code c1 - 0x80) * 0x1000
                  + (code c2 - 0x80) * 0x40 + (code c3 - 0x80)" "n = 4"
        using assms s four by (simp add: decode_rune_def Let_def split: list.splits if_split_asm)
      have "0x80 \<le> v"
      proof (cases "code c = 0xF0")
        case True
        then have "0x10 * 0x1000 \<le> (code c1 - 0x80) * 0x1000"
          using r(2) True by (intro mult_le_mono1) (simp add: within_def, arith)
        then show ?thesis using v by simp
      next
        case False
        then have "1 * 0x40000 \<le> (code c - 0xF0) * 0x40000" using four by (intro mult_le_mono1) simp
        then show ?thesis using v by simp
      qed
      moreover have "0x80 \<le> code c1" using r(2) by (simp add: within_def split: if_split_asm)
      ultimately show ?thesis
        using s r v four by (intro that(2) [of c "[c1, c2, c3]" r1])
          (simp_all add: decode_rune_def Let_def within_def)
    qed
  qed
qed

section \<open>Regular expressions\<close>

datatype single = Any | Lit nat

datatype node = NBegin | NEnd | NOne single | NStar single

type_synonym regex = "node list"

abbreviation rune_of :: "char \<Rightarrow> nat option" where
  "rune_of c \<equiv> Some (code c)"

definition regex_meta :: "nat list" where
  "regex_meta = map code ''.+()[]{}^$|*?'' @ [0x5C]"

definition backslash :: char where
  "backslash = CHR 0x5C"

text \<open>
  Compilation reads one item after the other. \<open>None\<close> is a compile error, on which
  \<open>regexp.MustCompile\<close> panics. Operators outside the fragment are not given a meaning here; the
  expressions the program builds never contain them.
\<close>

fun compile_items :: "nat option list \<Rightarrow> regex option" where
  "compile_items [] = Some []"
| "compile_items (None # rest) = None"
| "compile_items [Some c] =
     (if c = code CHR ''$'' then Some [NEnd] else if c = code CHR ''^'' then Some [NBegin]
      else if c = code CHR ''.'' then Some [NOne Any]
      else if c \<in> set regex_meta then None else Some [NOne (Lit c)])"
| "compile_items (Some c # d # rest) =
     (if c = code backslash then
        (case d of
           None \<Rightarrow> None
         | Some v \<Rightarrow> if v \<in> set regex_meta
             then map_option ((#) (NOne (Lit v))) (compile_items rest) else None)
      else if c = code CHR ''.'' then
        (if d = rune_of CHR ''*'' then map_option ((#) (NStar Any)) (compile_items rest)
         else map_option ((#) (NOne Any)) (compile_items (d # rest)))
      else if c = code CHR ''^'' then map_option ((#) NBegin) (compile_items (d # rest))
      else if c = code CHR ''$'' then map_option ((#) NEnd) (compile_items (d # rest))
      else if c \<in> set regex_meta then None
      else map_option ((#) (NOne (Lit c))) (compile_items (d # rest)))"

definition regex_compile :: "string \<Rightarrow> regex option" where
  "regex_compile s = compile_items (decode s)"

fun single_match :: "single \<Rightarrow> nat \<Rightarrow> bool" where
  "single_match Any r = (r \<noteq> 10)"
| "single_match (Lit c) r = (r = c)"

text \<open>\<open>at_start\<close> holds as long as no rune precedes the position.\<close>

fun match_from :: "regex \<Rightarrow> bool \<Rightarrow> nat list \<Rightarrow> bool" where
  "match_from [] at_start s = True"
| "match_from (NBegin # ns) at_start s = (at_start \<and> match_from ns at_start s)"
| "match_from (NEnd # ns) at_start s = (s = [] \<and> match_from ns at_start s)"
| "match_from (NOne x # ns) at_start s =
     (case s of [] \<Rightarrow> False | r # s' \<Rightarrow> single_match x r \<and> match_from ns False s')"
| "match_from (NStar x # ns) at_start [] = match_from ns at_start []"
| "match_from (NStar x # ns) at_start (r # s) =
     (match_from ns at_start (r # s) \<or> (single_match x r \<and> match_from (NStar x # ns) False s))"

fun match_later :: "regex \<Rightarrow> nat list \<Rightarrow> bool" where
  "match_later ns [] = False"
| "match_later ns (r # s) = (match_from ns False s \<or> match_later ns s)"

definition MatchString :: "regex \<Rightarrow> string \<Rightarrow> bool" where
  "MatchString re s = (match_from re True (runes s) \<or> match_later re (runes s))"

lemma match_later_Begin [simp]: "\<not> match_later (NBegin # ns) s"
  by (induction s) simp_all

lemma MatchString_Begin: "MatchString (NBegin # ns) s = match_from ns True (runes s)"
  by (simp add: MatchString_def)

end
