(* ===== verification/Go_Json.thy ===== *)
theory Go_Json
  imports Go_Regexp
begin

text \<open>
  The part of \<open>encoding/json\<close> the program relies on: \<open>json.Valid\<close>, by the byte scanner of Go's standard
  library, a state machine with a stack of the open objects and arrays; and what marshalling a value
  and unmarshalling it again does to a string and to a \<open>json.RawMessage\<close>.
\<close>

datatype js_state =
    BeginValue | BeginValueOrEmpty | BeginString | BeginStringOrEmpty | EndValue | EndTop
  | InString | InStringEsc | InStringEscU nat | Neg | Digits1 | Digits0 | Dot | Dot0 | Exp
  | ExpSign | Exp0 | Literal string | ScanError

datatype js_parse = ParseObjectKey | ParseObjectValue | ParseArrayValue

record js_scanner =
  js_st :: js_state
  js_stack :: "js_parse list"
  js_end_top :: bool

definition js_reset :: js_scanner where
  "js_reset = \<lparr>js_st = BeginValue, js_stack = [], js_end_top = False\<rparr>"

definition js_space :: "char \<Rightarrow> bool" where
  "js_space c \<longleftrightarrow> List.member [CHR 0x20, CHR 0x09, CHR 0x0D, CHR 0x0A] c"

definition js_digit :: "char \<Rightarrow> bool" where
  "js_digit c \<longleftrightarrow> List.member ''0123456789'' c"

definition js_hex :: "char \<Rightarrow> bool" where
  "js_hex c \<longleftrightarrow> List.member ''0123456789abcdefABCDEF'' c"

definition max_nesting_depth :: nat where
  "max_nesting_depth = 10000"

abbreviation goto :: "js_state \<Rightarrow> js_scanner \<Rightarrow> js_scanner" where
  "goto st s \<equiv> s\<lparr>js_st := st\<rparr>"

definition js_push :: "js_parse \<Rightarrow> js_state \<Rightarrow> js_scanner \<Rightarrow> js_scanner" where
  "js_push p st s =
     (if length (js_stack s) + 1 \<le> max_nesting_depth
      then s\<lparr>js_st := st, js_stack := p # js_stack s\<rparr> else goto ScanError s)"

definition js_pop :: "js_scanner \<Rightarrow> js_scanner" where
  "js_pop s =
     (if tl (js_stack s) = [] then s\<lparr>js_st := EndTop, js_stack := [], js_end_top := True\<rparr>
      else s\<lparr>js_st := EndValue, js_stack := tl (js_stack s)\<rparr>)"

definition js_end_top_step :: "char \<Rightarrow> js_scanner \<Rightarrow> js_scanner" where
  "js_end_top_step c s = (if js_space c then s else goto ScanError s)"

definition js_end_value :: "char \<Rightarrow> js_scanner \<Rightarrow> js_scanner" where
  "js_end_value c s =
     (case js_stack s of
        [] \<Rightarrow> js_end_top_step c (s\<lparr>js_st := EndTop, js_end_top := True\<rparr>)
      | p # ps \<Rightarrow>
          if js_space c then goto EndValue s
          else (case p of
              ParseObjectKey \<Rightarrow>
                if c = CHR '':'' then s\<lparr>js_st := BeginValue, js_stack := ParseObjectValue # ps\<rparr>
                else goto ScanError s
            | ParseObjectValue \<Rightarrow>
                if c = CHR '','' then s\<lparr>js_st := BeginString, js_stack := ParseObjectKey # ps\<rparr>
                else if c = CHR ''}'' then js_pop s else goto ScanError s
            | ParseArrayValue \<Rightarrow>
                if c = CHR '','' then goto BeginValue s
                else if c = CHR '']'' then js_pop s else goto ScanError s))"

definition js_begin_value :: "char \<Rightarrow> js_scanner \<Rightarrow> js_scanner" where
  "js_begin_value c s =
     (if js_space c then s
      else if c = CHR ''{'' then js_push ParseObjectKey BeginStringOrEmpty s
      else if c = CHR ''['' then js_push ParseArrayValue BeginValueOrEmpty s
      else if c = CHR 0x22 then goto InString s
      else if c = CHR ''-'' then goto Neg s
      else if c = CHR ''0'' then goto Digits0 s
      else if c = CHR ''t'' then goto (Literal ''rue'') s
      else if c = CHR ''f'' then goto (Literal ''alse'') s
      else if c = CHR ''n'' then goto (Literal ''ull'') s
      else if js_digit c then goto Digits1 s
      else goto ScanError s)"

definition js_begin_string :: "char \<Rightarrow> js_scanner \<Rightarrow> js_scanner" where
  "js_begin_string c s =
     (if js_space c then s else if c = CHR 0x22 then goto InString s else goto ScanError s)"

definition js_after_zero :: "char \<Rightarrow> js_scanner \<Rightarrow> js_scanner" where
  "js_after_zero c s =
     (if c = CHR ''.'' then goto Dot s
      else if c = CHR ''e'' \<or> c = CHR ''E'' then goto Exp s else js_end_value c s)"

definition js_exp_sign :: "char \<Rightarrow> js_scanner \<Rightarrow> js_scanner" where
  "js_exp_sign c s = (if js_digit c then goto Exp0 s else goto ScanError s)"

definition js_step :: "js_scanner \<Rightarrow> char \<Rightarrow> js_scanner" where
  "js_step s c =
     (case js_st s of
        BeginValue \<Rightarrow> js_begin_value c s
      | BeginValueOrEmpty \<Rightarrow>
          if js_space c then s else if c = CHR '']'' then js_end_value c s else js_begin_value c s
      | BeginString \<Rightarrow> js_begin_string c s
      | BeginStringOrEmpty \<Rightarrow>
          if js_space c then s
          else if c = CHR ''}'' then
            js_end_value c (s\<lparr>js_stack := ParseObjectValue # tl (js_stack s)\<rparr>)
          else js_begin_string c s
      | EndValue \<Rightarrow> js_end_value c s
      | EndTop \<Rightarrow> js_end_top_step c s
      | InString \<Rightarrow>
          if c = CHR 0x22 then goto EndValue s
          else if c = CHR 0x5C then goto InStringEsc s
          else if (of_char c :: nat) < 32 then goto ScanError s else s
      | InStringEsc \<Rightarrow>
          if List.member [CHR ''b'', CHR ''f'', CHR ''n'', CHR ''r'', CHR ''t'', CHR 0x5C, CHR ''/'', CHR 0x22] c
          then goto InString s
          else if c = CHR ''u'' then goto (InStringEscU 4) s else goto ScanError s
      | InStringEscU n \<Rightarrow>
          if js_hex c then (if n \<le> 1 then goto InString s else goto (InStringEscU (n - 1)) s)
          else goto ScanError s
      | Neg \<Rightarrow>
          if c = CHR ''0'' then goto Digits0 s else if js_digit c then goto Digits1 s
          else goto ScanError s
      | Digits1 \<Rightarrow> if js_digit c then s else js_after_zero c s
      | Digits0 \<Rightarrow> js_after_zero c s
      | Dot \<Rightarrow> if js_digit c then goto Dot0 s else goto ScanError s
      | Dot0 \<Rightarrow>
          if js_digit c then s else if c = CHR ''e'' \<or> c = CHR ''E'' then goto Exp s
          else js_end_value c s
      | Exp \<Rightarrow>
          if c = CHR ''+'' \<or> c = CHR ''-'' then goto ExpSign s else js_exp_sign c s
      | ExpSign \<Rightarrow> js_exp_sign c s
      | Exp0 \<Rightarrow> if js_digit c then s else js_end_value c s
      | Literal w \<Rightarrow>
          (case w of
             [] \<Rightarrow> goto ScanError s
           | [x] \<Rightarrow> if c = x then goto EndValue s else goto ScanError s
           | x # rest \<Rightarrow> if c = x then goto (Literal rest) s else goto ScanError s)
      | ScanError \<Rightarrow> s)"

definition js_eof :: "js_scanner \<Rightarrow> bool" where
  "js_eof s \<longleftrightarrow>
     js_st s \<noteq> ScanError
   \<and> (js_end_top s
      \<or> (let s' = js_step s (CHR 0x20) in js_end_top s' \<and> js_st s' \<noteq> ScanError))"

definition json_valid :: "string \<Rightarrow> bool" where
  "json_valid data \<longleftrightarrow> js_eof (foldl js_step js_reset data)"

lemmas js_defs =
  js_step_def js_reset_def js_begin_value_def js_begin_string_def js_end_value_def
  js_end_top_step_def js_push_def js_pop_def js_after_zero_def js_exp_sign_def js_space_def
  js_digit_def js_hex_def js_eof_def max_nesting_depth_def

lemma js_step_error: "js_st s = ScanError \<Longrightarrow> js_step s c = s"
  by (simp add: js_step_def)

lemma js_foldl_error: "js_st s = ScanError \<Longrightarrow> foldl js_step s data = s"
  by (induction data) (simp_all add: js_step_error)

lemma json_valid_empty_object: "json_valid ''{}''"
  by (simp add: json_valid_def js_defs)

lemma json_invalid_empty: "\<not> json_valid []"
  by (simp add: json_valid_def js_defs)

lemma json_valid_example:
  "json_valid ([CHR ''{'', CHR 0x22, CHR ''a'', CHR 0x22] @ '': [1, -2.5e3, true]}'')"
  by (simp add: json_valid_def js_defs)

lemma json_invalid_example: "\<not> json_valid ''[1,]''" "\<not> json_valid ''01''" "\<not> json_valid ''{} {}''"
  by (simp_all add: json_valid_def js_defs)

section \<open>Writing and reading back\<close>

text \<open>
  Marshalling writes each invalid byte of a string as the escape of U+FFFD; reading the text back
  yields that rune's encoding. All other runes come back as they were.
\<close>

function json_text :: "string \<Rightarrow> string" where
  "json_text [] = []"
| "json_text (c # r) =
     (case decode_rune (c # r) of
        None \<Rightarrow> [CHR 0xEF, CHR 0xBF, CHR 0xBD] @ json_text r
      | Some (v, n) \<Rightarrow> c # take (n - 1) r @ json_text (drop (n - 1) r))"
  by pat_completeness auto
termination by (relation "measure length") (auto simp: less_Suc_eq_le)

lemma json_text_valid: "valid_utf8 s \<Longrightarrow> json_text s = s"
proof (induction s rule: json_text.induct)
  case (2 c r)
  then show ?case by (auto simp: valid_utf8_def split: option.splits prod.splits)
qed simp

lemma json_text_ascii: "list_all (\<lambda>c. code c < 0x80) s \<Longrightarrow> json_text s = s"
  by (induction s) simp_all

declare json_text.simps(2) [simp del]

lemma json_text_Nil_iff [simp]: "json_text s = [] \<longleftrightarrow> s = []"
  by (cases s) (auto simp: json_text.simps(2) split: option.splits prod.splits)

text \<open>
  A raw message is written compactly: white space outside strings is dropped, and the bytes
  \<open><\<close>, \<open>>\<close> and \<open>&\<close> and the runes U+2028 and U+2029 are escaped. It is read back as it was written.
  The scanner's state tells strings from the rest; \<open>skip\<close> counts bytes already covered by an escape.
\<close>

definition json_escape :: "char \<Rightarrow> string option" where
  "json_escape c =
     (if c = CHR ''<'' then Some (CHR 0x5C # ''u003c'')
      else if c = CHR ''>'' then Some (CHR 0x5C # ''u003e'')
      else if c = CHR ''&'' then Some (CHR 0x5C # ''u0026'')
      else None)"

fun compact_from :: "js_scanner \<Rightarrow> nat \<Rightarrow> string \<Rightarrow> string" where
  "compact_from s skip [] = []"
| "compact_from s (Suc skip) (c # r) = compact_from (js_step s c) skip r"
| "compact_from s 0 (c # r) =
     (case json_escape c of
        Some e \<Rightarrow> e @ compact_from (js_step s c) 0 r
      | None \<Rightarrow>
          if c = CHR 0xE2 \<and> take 2 r = [CHR 0x80, CHR 0xA8]
          then (CHR 0x5C # ''u2028'') @ compact_from (js_step s c) 2 r
          else if c = CHR 0xE2 \<and> take 2 r = [CHR 0x80, CHR 0xA9]
          then (CHR 0x5C # ''u2029'') @ compact_from (js_step s c) 2 r
          else if js_space c \<and> js_st s \<noteq> InString then compact_from (js_step s c) 0 r
          else c # compact_from (js_step s c) 0 r)"

definition json_compact :: "string \<Rightarrow> string" where
  "json_compact data = compact_from js_reset 0 data"

text \<open>A string as \<open>json.Marshal\<close> writes it.\<close>

definition json_hex_digit :: "nat \<Rightarrow> char" where
  "json_hex_digit n = ''0123456789abcdef'' ! n"

definition quoted_rune :: "nat \<Rightarrow> string \<Rightarrow> string" where
  "quoted_rune v bytes =
     (let esc = (\<lambda>t. CHR 0x5C # t) in
      if v = 0x22 then esc [CHR 0x22] else if v = 0x5C then esc [CHR 0x5C]
      else if v = 0x08 then esc ''b'' else if v = 0x0C then esc ''f'' else if v = 0x0A then esc ''n''
      else if v = 0x0D then esc ''r'' else if v = 0x09 then esc ''t''
      else if v < 0x20 \<or> v = 0x3C \<or> v = 0x3E \<or> v = 0x26
      then esc (''u00'' @ [json_hex_digit (v div 16), json_hex_digit (v mod 16)])
      else if v = 0x2028 then esc ''u2028'' else if v = 0x2029 then esc ''u2029''
      else bytes)"

function quoted_text :: "string \<Rightarrow> string" where
  "quoted_text [] = []"
| "quoted_text (c # r) =
     (case decode_rune (c # r) of
        None \<Rightarrow> (CHR 0x5C # ''ufffd'') @ quoted_text r
      | Some (v, n) \<Rightarrow> quoted_rune v (c # take (n - 1) r) @ quoted_text (drop (n - 1) r))"
  by pat_completeness auto
termination by (relation "measure length") (auto simp: less_Suc_eq_le)

definition json_quote :: "string \<Rightarrow> string" where
  "json_quote s = [CHR 0x22] @ quoted_text s @ [CHR 0x22]"

text \<open>An integer in decimal.\<close>

fun digits :: "nat \<Rightarrow> string" where
  "digits n = (if n < 10 then [char_of (48 + n)] else digits (n div 10) @ [char_of (48 + n mod 10)])"

declare digits.simps [simp del]

definition int_text :: "int \<Rightarrow> string" where
  "int_text i = (if i < 0 then CHR ''-'' # digits (nat (- i)) else digits (nat i))"

text \<open>A string of \<open>n\<close> angle brackets is valid JSON and takes six times the space when written.\<close>

definition brackets :: "nat \<Rightarrow> string" where
  "brackets n = CHR 0x22 # replicate n (CHR ''<'') @ [CHR 0x22]"

lemma string_step_bracket: "js_st s = InString \<Longrightarrow> js_step s (CHR ''<'') = s"
  by (cases s) (simp add: js_step_def)

lemma brackets_scan: "js_st s = InString \<Longrightarrow> foldl js_step s (replicate n (CHR ''<'') @ t) = foldl js_step s t"
  by (induction n) (simp_all add: string_step_bracket)

lemma brackets_compact:
  "js_st s = InString \<Longrightarrow>
     length (compact_from s 0 (replicate n (CHR ''<'') @ t)) = 6 * n + length (compact_from s 0 t)"
  by (induction n) (simp_all add: string_step_bracket json_escape_def)

lemma open_quote: "js_step js_reset (CHR 0x22) = goto InString js_reset"
  by (simp add: js_defs)

lemma brackets_valid: "json_valid (brackets n)"
proof -
  have "foldl js_step js_reset (brackets n) = js_step (goto InString js_reset) (CHR 0x22)"
    using brackets_scan [of "goto InString js_reset" n "[CHR 0x22]"] by (simp add: brackets_def open_quote)
  then show ?thesis by (simp add: json_valid_def js_defs)
qed

lemma brackets_stored: "length (json_compact (brackets n)) = 6 * n + 2"
  by (simp add: json_compact_def brackets_def json_escape_def brackets_compact js_space_def open_quote)

lemma compact_example: "json_compact [CHR 0x22, CHR 0x20, CHR 0x22] = [CHR 0x22, CHR 0x20, CHR 0x22]"
  by (simp add: json_compact_def js_defs json_escape_def)

end
