(* ===== verification/Task_Queue.thy ===== *)
theory Task_Queue
  imports Go_Prelude Go_Json
begin

text \<open>
  The durable task queue (\<open>internal/tasks/queue.go\<close>): idempotent enqueueing, leases with an
  expiry, retries with exponential backoff, cancellation, cleanup of finished items, and a state
  file that is rewritten before a change becomes visible. Every operation holds the queue's mutex,
  so an operation is one atomic step. What the environment decides is an argument: the context, the
  instant the clock shows, the generated identifier, the outcome of writing the state file.
\<close>

section \<open>Data\<close>

datatype queue_status =
    QueuePending | QueueLeased | QueueCompleted | QueueCancelled | QueueDead | QueueOther string

record queue_item =
  qi_id :: string
  qi_key :: string
  qi_payload :: string
  qi_status :: queue_status
  qi_attempts :: int
  qi_available :: instant
  qi_lease_owner :: string
  qi_lease_until :: instant
  qi_last_error :: string
  qi_created :: instant
  qi_updated :: instant

record queue_options =
  qo_capacity :: int
  qo_max_attempts :: int
  qo_lease_duration :: duration
  qo_base_backoff :: duration
  qo_max_backoff :: duration
  qo_jitter :: "(duration \<Rightarrow> duration) option"

datatype queue_error =
    QueueCtx ctx_error | ErrQueueClosed | ErrQueueEmpty | ErrQueueFull | ErrQueueItem
  | ErrQueueLeaseLost | InvalidKey | InvalidPayload | InvalidWorker | NegativeCleanup
  | IdFailed string | PersistFailed string
  | PathRequired | DirectoryFailed string | ReadFailed string | FileTooLarge | DecodeFailed string
  | UnsupportedVersion int | InvalidItem | DuplicateId string | DuplicateKey | InvalidStatus string

text \<open>\<open>q_disk\<close> is the decoded state file: \<open>None\<close> when it does not exist.\<close>

record queue =
  q_options :: queue_options
  q_items :: "queue_item list"
  q_closed :: bool
  q_disk :: "queue_item list option"

definition maxQueuePayload :: nat where
  "maxQueuePayload = 1048576"

definition maxQueueFileBytes :: nat where
  "maxQueueFileBytes = 16777216"

definition queueStateVersion :: int where
  "queueStateVersion = 1"

abbreviation second :: duration where
  "second \<equiv> 1000000000"

definition contextError :: "ctx \<Rightarrow> queue_error option" where
  [step_defs]: "contextError c = map_option QueueCtx c"

text \<open>\<open>default_jitter\<close> is \<open>queueJitter\<close>, below.\<close>

definition normalizeQueueOptions ::
    "(duration \<Rightarrow> duration) \<Rightarrow> queue_options \<Rightarrow> queue_options" where
  "normalizeQueueOptions default_jitter o1 =
     (let o2 = (if qo_capacity o1 \<le> 0 then o1\<lparr>qo_capacity := 128\<rparr> else o1);
          o3 = (if qo_max_attempts o2 \<le> 0 then o2\<lparr>qo_max_attempts := 3\<rparr> else o2);
          o4 = (if qo_lease_duration o3 \<le> 0 then o3\<lparr>qo_lease_duration := 5 * 60 * second\<rparr> else o3);
          o5 = (if qo_base_backoff o4 \<le> 0 then o4\<lparr>qo_base_backoff := second\<rparr> else o4);
          o6 = (if qo_max_backoff o5 \<le> 0 then o5\<lparr>qo_max_backoff := 60 * second\<rparr> else o5)
      in if qo_jitter o6 = None then o6\<lparr>qo_jitter := Some default_jitter\<rparr> else o6)"

text \<open>\<open>rand\<close> answers \<open>rand.Int\<close> for a bound: a value below it, or \<open>None\<close> for an error.\<close>

definition queueJitter :: "(int \<Rightarrow> int option) \<Rightarrow> duration \<Rightarrow> duration" where
  "queueJitter rand delay =
     (let maximum = delay div 4
      in if maximum \<le> 0 then 0 else (case rand (maximum + 1) of None \<Rightarrow> 0 | Some v \<Rightarrow> v))"

definition nonNegativeDuration :: "duration \<Rightarrow> duration" where
  "nonNegativeDuration d = (if d < 0 then 0 else d)"

definition boundedQueueError :: "string option \<Rightarrow> string" where
  "boundedQueueError err =
     (case err of None \<Rightarrow> []
      | Some e \<Rightarrow> (let message = TrimSpace e
                  in if length message > 1024 then take 1024 message else message))"

section \<open>Writing the state file\<close>

text \<open>What writing an item as JSON and reading it back yields.\<close>

definition stored_item :: "queue_item \<Rightarrow> queue_item" where
  "stored_item i =
     i\<lparr>qi_id := json_text (qi_id i), qi_key := json_text (qi_key i),
       qi_payload := json_compact (qi_payload i), qi_lease_owner := json_text (qi_lease_owner i),
       qi_last_error := json_text (qi_last_error i)\<rparr>"

definition encoded :: "queue_item list \<Rightarrow> queue_item list" where
  "encoded items = map stored_item items"

text \<open>The bytes \<open>json.Marshal\<close> writes for the state, where \<open>fmt\<close> is the RFC 3339 format of instants and
  \<open>null\<close>, for a queue that never had an item, is written like an empty list.\<close>

fun status_text :: "queue_status \<Rightarrow> string" where
  "status_text QueuePending = ''pending''"
| "status_text QueueLeased = ''leased''"
| "status_text QueueCompleted = ''completed''"
| "status_text QueueCancelled = ''cancelled''"
| "status_text QueueDead = ''dead''"
| "status_text (QueueOther s) = s"

definition json_field :: "string \<Rightarrow> string \<Rightarrow> string" where
  "json_field name text = json_quote name @ '':'' @ text"

definition omit_if_empty :: "string \<Rightarrow> string \<Rightarrow> string" where
  "omit_if_empty name text = (if text = [] then [] else '','' @ json_field name (json_quote text))"

definition item_json :: "(instant \<Rightarrow> string) \<Rightarrow> queue_item \<Rightarrow> string" where
  "item_json fmt i =
     ''{'' @ json_field ''id'' (json_quote (qi_id i))
     @ '','' @ json_field ''idempotency_key'' (json_quote (qi_key i))
     @ '','' @ json_field ''payload'' (json_compact (qi_payload i))
     @ '','' @ json_field ''status'' (json_quote (status_text (qi_status i)))
     @ '','' @ json_field ''attempts'' (int_text (qi_attempts i))
     @ '','' @ json_field ''available_at'' (json_quote (fmt (qi_available i)))
     @ omit_if_empty ''lease_owner'' (qi_lease_owner i)
     @ '','' @ json_field ''lease_until'' (json_quote (fmt (qi_lease_until i)))
     @ omit_if_empty ''last_error'' (qi_last_error i)
     @ '','' @ json_field ''created_at'' (json_quote (fmt (qi_created i)))
     @ '','' @ json_field ''updated_at'' (json_quote (fmt (qi_updated i))) @ ''}''"

fun comma_separated :: "string list \<Rightarrow> string" where
  "comma_separated [] = []"
| "comma_separated [t] = t"
| "comma_separated (t # ts) = t @ '','' @ comma_separated ts"

definition state_json :: "(instant \<Rightarrow> string) \<Rightarrow> queue_item list \<Rightarrow> string" where
  "state_json fmt items =
     ''{'' @ json_field ''version'' (int_text queueStateVersion)
     @ '','' @ json_field ''items'' (''['' @ comma_separated (map (item_json fmt) items) @ '']'') @ ''}''"

text \<open>
  \<open>persistLocked\<close> writes a temporary file and renames it over the state file; \<open>io\<close> is \<open>None\<close> when
  that works and the error of the failing step otherwise. A rename replaces the file as a whole or
  not at all. Encoding never fails, since every payload in the queue is valid JSON.
\<close>

definition persistLocked :: "string option \<Rightarrow> queue \<Rightarrow> queue \<times> queue_error option" where
  "persistLocked io q =
     (case io of
        None \<Rightarrow> (q\<lparr>q_disk := Some (encoded (q_items q))\<rparr>, None)
      | Some e \<Rightarrow> (q, Some (PersistFailed e)))"

text \<open>
  The pattern of every mutation of the queue: keep the previous items, install the new ones,
  persist, and restore the previous items when persisting fails.
\<close>

definition commit ::
    "('s \<Rightarrow> 's \<times> 'e option) \<Rightarrow> ('m \<Rightarrow> 's \<Rightarrow> 's) \<Rightarrow> ('s \<Rightarrow> 'm) \<Rightarrow> 'm \<Rightarrow> 's \<Rightarrow> 's \<times> 'e option" where
  "commit persist set_mem mem new s =
     (let previous = mem s;
          (s1, err) = persist (set_mem new s)
      in case err of None \<Rightarrow> (s1, None) | Some e \<Rightarrow> (set_mem previous s1, Some e))"

locale write_through =
  fixes persist :: "'s \<Rightarrow> 's \<times> 'e option"
    and set_mem :: "'m \<Rightarrow> 's \<Rightarrow> 's"
    and mem :: "'s \<Rightarrow> 'm"
    and stored :: "'m \<Rightarrow> 's \<Rightarrow> bool"
  assumes mem_set: "mem (set_mem m s) = m"
    and set_back: "set_mem (mem s) (set_mem m s) = s"
    and persist_ok: "snd (persist s) = None \<Longrightarrow> mem (fst (persist s)) = mem s \<and> stored (mem s) (fst (persist s))"
    and persist_fail: "snd (persist s) \<noteq> None \<Longrightarrow> fst (persist s) = s"
begin

lemma commit_fail:
  "snd (commit persist set_mem mem new s) \<noteq> None \<Longrightarrow> fst (commit persist set_mem mem new s) = s"
  using persist_fail [of "set_mem new s"]
  by (auto simp: commit_def set_back Let_def split: option.splits prod.splits)

lemma commit_ok:
  "snd (commit persist set_mem mem new s) = None \<Longrightarrow>
     mem (fst (commit persist set_mem mem new s)) = new
   \<and> stored new (fst (commit persist set_mem mem new s))"
  using persist_ok [of "set_mem new s"]
  by (auto simp: commit_def mem_set Let_def split: option.splits prod.splits)

lemma commit_stored:
  assumes "stored (mem s) s"
  shows "stored (mem (fst (commit persist set_mem mem new s))) (fst (commit persist set_mem mem new s))"
  using assms commit_fail [of new s] commit_ok [of new s]
  by (cases "snd (commit persist set_mem mem new s)") auto

end

definition set_items :: "queue_item list \<Rightarrow> queue \<Rightarrow> queue" where
  "set_items items q = q\<lparr>q_items := items\<rparr>"

definition stored_items :: "queue_item list \<Rightarrow> queue \<Rightarrow> bool" where
  "stored_items items q \<longleftrightarrow>
     q_disk q = Some (encoded items) \<or> (q_disk q = None \<and> items = [])"

interpretation persisted: write_through "persistLocked io" set_items q_items stored_items for io
  by unfold_locales
    (cases io; simp add: persistLocked_def set_items_def stored_items_def)+

abbreviation commit_items ::
    "string option \<Rightarrow> queue_item list \<Rightarrow> queue \<Rightarrow> queue \<times> queue_error option" where
  "commit_items io new q \<equiv> commit (persistLocked io) set_items q_items new q"

section \<open>Operations\<close>

definition Enqueue ::
    "ctx \<Rightarrow> string + string \<Rightarrow> instant \<Rightarrow> string option \<Rightarrow> string \<Rightarrow> string \<Rightarrow> queue
     \<Rightarrow> queue \<times> (queue_error + queue_item \<times> bool)" where
  "Enqueue c generated now io idempotencyKey payload q =
     (case contextError c of Some e \<Rightarrow> (q, Inl e)
      | None \<Rightarrow>
        (let key = TrimSpace idempotencyKey
         in if key = [] \<or> length key > 256 \<or> ContainsAny key nul_cr_lf then (q, Inl InvalidKey)
            else if length payload > maxQueuePayload \<or> \<not> json_valid payload
            then (q, Inl InvalidPayload)
            else if q_closed q then (q, Inl ErrQueueClosed)
            else (case find (\<lambda>item. qi_key item = key) (q_items q) of
                Some item \<Rightarrow> (q, Inr (item, False))
              | None \<Rightarrow>
                if int (length (filter (\<lambda>item. qi_status item = QueuePending \<or> qi_status item = QueueLeased)
                     (q_items q))) \<ge> qo_capacity (q_options q)
                then (q, Inl ErrQueueFull)
                else (case generated of
                    Inl e \<Rightarrow> (q, Inl (IdFailed e))
                  | Inr ident \<Rightarrow>
                    (let item = \<lparr>qi_id = ident, qi_key = key, qi_payload = payload,
                           qi_status = QueuePending, qi_attempts = 0, qi_available = now,
                           qi_lease_owner = [], qi_lease_until = 0, qi_last_error = [],
                           qi_created = now, qi_updated = now\<rparr>
                     in (case commit_items io (q_items q @ [item]) q of
                           (q', Some e) \<Rightarrow> (q', Inl e)
                         | (q', None) \<Rightarrow> (q', Inr (item, True))))))))"

definition reconcile_item :: "queue_options \<Rightarrow> instant \<Rightarrow> queue_item \<Rightarrow> queue_item" where
  "reconcile_item opts now item =
     (if qi_status item \<noteq> QueueLeased \<or> qi_lease_until item > now then item
      else
        (let i = item\<lparr>qi_lease_owner := [], qi_lease_until := 0, qi_updated := now\<rparr>
         in if qi_attempts i \<ge> qo_max_attempts opts
            then i\<lparr>qi_status := QueueDead, qi_available := 0,
                   qi_last_error := ''worker lease expired after final attempt''\<rparr>
            else i\<lparr>qi_status := QueuePending, qi_available := now,
                   qi_last_error := ''worker lease expired''\<rparr>))"

definition lease_expired :: "instant \<Rightarrow> queue_item \<Rightarrow> bool" where
  "lease_expired now item \<longleftrightarrow> qi_status item = QueueLeased \<and> \<not> qi_lease_until item > now"

definition reconcileLocked :: "queue_options \<Rightarrow> instant \<Rightarrow> queue_item list \<Rightarrow> queue_item list \<times> nat" where
  "reconcileLocked opts now items =
     (map (reconcile_item opts now) items, length (filter (lease_expired now) items))"

text \<open>The selection loop of \<open>Claim\<close>: \<open>best\<close> is the candidate index with its item.\<close>

definition claimable :: "instant \<Rightarrow> queue_item \<Rightarrow> bool" where
  "claimable now item \<longleftrightarrow> \<not> (qi_status item \<noteq> QueuePending \<or> qi_available item > now)"

definition claim_before :: "queue_item \<Rightarrow> queue_item \<Rightarrow> bool" where
  "claim_before item best \<longleftrightarrow>
     qi_available item < qi_available best
   \<or> (qi_available item = qi_available best \<and> qi_created item < qi_created best)"

fun claim_scan ::
    "instant \<Rightarrow> nat \<Rightarrow> (nat \<times> queue_item) option \<Rightarrow> queue_item list \<Rightarrow> (nat \<times> queue_item) option" where
  "claim_scan now i best [] = best"
| "claim_scan now i best (item # rest) =
     claim_scan now (Suc i)
       (if \<not> claimable now item then best
        else (case best of
            None \<Rightarrow> Some (i, item)
          | Some (j, b) \<Rightarrow> if claim_before item b then Some (i, item) else best)) rest"

definition leased_item :: "queue_options \<Rightarrow> instant \<Rightarrow> string \<Rightarrow> queue_item \<Rightarrow> queue_item" where
  "leased_item opts now worker item =
     item\<lparr>qi_status := QueueLeased, qi_attempts := wrap64 (qi_attempts item + 1),
          qi_lease_owner := worker, qi_lease_until := now + qo_lease_duration opts,
          qi_updated := now\<rparr>"

definition Claim ::
    "ctx \<Rightarrow> instant \<Rightarrow> string option \<Rightarrow> string \<Rightarrow> queue \<Rightarrow> queue \<times> (queue_error + queue_item)" where
  "Claim c now io workerID q =
     (case contextError c of Some e \<Rightarrow> (q, Inl e)
      | None \<Rightarrow>
        (let worker = TrimSpace workerID
         in if worker = [] \<or> length worker > 128 \<or> ContainsAny worker nul_cr_lf
            then (q, Inl InvalidWorker)
            else if q_closed q then (q, Inl ErrQueueClosed)
            else
              (let items = fst (reconcileLocked (q_options q) now (q_items q))
               in (case claim_scan now 0 None items of
                     None \<Rightarrow> (q, Inl ErrQueueEmpty)
                   | Some (index, item) \<Rightarrow>
                     (let leased = leased_item (q_options q) now worker item
                      in (case commit_items io (items[index := leased]) q of
                            (q', Some e) \<Rightarrow> (q', Inl e)
                          | (q', None) \<Rightarrow> (q', Inr leased)))))))"

definition terminal :: "queue_status \<Rightarrow> bool" where
  "terminal s \<longleftrightarrow> s = QueueCompleted \<or> s = QueueCancelled \<or> s = QueueDead"

definition cancelled_item :: "instant \<Rightarrow> queue_item \<Rightarrow> queue_item" where
  "cancelled_item now item =
     item\<lparr>qi_status := QueueCancelled, qi_lease_owner := [], qi_lease_until := 0,
          qi_available := 0, qi_last_error := ''cancelled'', qi_updated := now\<rparr>"

definition CancelByKey ::
    "ctx \<Rightarrow> instant \<Rightarrow> string option \<Rightarrow> string \<Rightarrow> queue \<Rightarrow> queue \<times> (queue_error + queue_item)" where
  "CancelByKey c now io idempotencyKey q =
     (case contextError c of Some e \<Rightarrow> (q, Inl e)
      | None \<Rightarrow>
        if q_closed q then (q, Inl ErrQueueClosed)
        else (case index_of (\<lambda>item. qi_key item = idempotencyKey) (q_items q) of
            None \<Rightarrow> (q, Inl ErrQueueItem)
          | Some index \<Rightarrow>
            (let item = q_items q ! index
             in if terminal (qi_status item) then (q, Inr item)
                else (case commit_items io ((q_items q)[index := cancelled_item now item]) q of
                    (q', Some e) \<Rightarrow> (q', Inl e)
                  | (q', None) \<Rightarrow> (q', Inr (cancelled_item now item))))))"

text \<open>
  \<open>mutateLease\<close> applies \<open>mutate\<close> to the leased item of the worker. It also returns the mutated
  item, which the closure of \<open>Fail\<close> captures even when persisting fails.
\<close>

definition mutateLease ::
    "ctx \<Rightarrow> string option \<Rightarrow> string \<Rightarrow> string \<Rightarrow> (queue_item \<Rightarrow> queue_item) \<Rightarrow> queue
     \<Rightarrow> queue \<times> queue_item option \<times> queue_error option" where
  "mutateLease c io itemID workerID mutate q =
     (case contextError c of Some e \<Rightarrow> (q, None, Some e)
      | None \<Rightarrow>
        if q_closed q then (q, None, Some ErrQueueClosed)
        else (case index_of (\<lambda>item. qi_id item = itemID) (q_items q) of
            None \<Rightarrow> (q, None, Some ErrQueueItem)
          | Some index \<Rightarrow>
            (let item = q_items q ! index
             in if qi_status item \<noteq> QueueLeased \<or> qi_lease_owner item \<noteq> workerID
                then (q, None, Some ErrQueueLeaseLost)
                else (case commit_items io ((q_items q)[index := mutate item]) q of
                    (q', err) \<Rightarrow> (q', Some (mutate item), err)))))"

definition completed_item :: "instant \<Rightarrow> string option \<Rightarrow> queue_item \<Rightarrow> queue_item" where
  "completed_item now cause item =
     item\<lparr>qi_status := QueueCompleted, qi_last_error := boundedQueueError cause,
          qi_lease_owner := [], qi_lease_until := 0, qi_available := 0, qi_updated := now\<rparr>"

definition Complete ::
    "ctx \<Rightarrow> instant \<Rightarrow> string option \<Rightarrow> string \<Rightarrow> string \<Rightarrow> queue \<Rightarrow> queue \<times> queue_error option" where
  "Complete c now io itemID workerID q =
     (case mutateLease c io itemID workerID (completed_item now None) q of (q', _, err) \<Rightarrow> (q', err))"

text \<open>The loop of \<open>retryDelay\<close>; \<open>n\<close> is the number of iterations the counter still allows.\<close>

fun retry_loop :: "duration \<Rightarrow> nat \<Rightarrow> duration \<Rightarrow> duration" where
  "retry_loop maxBackoff 0 delay = (if delay > maxBackoff then maxBackoff else delay)"
| "retry_loop maxBackoff (Suc n) delay =
     (if delay < maxBackoff then
        (if delay > maxBackoff div 2 then maxBackoff
         else retry_loop maxBackoff n (wrap64 (delay * 2)))
      else (if delay > maxBackoff then maxBackoff else delay))"

definition retryDelay :: "queue_options \<Rightarrow> int \<Rightarrow> duration" where
  "retryDelay opts attempt =
     retry_loop (qo_max_backoff opts) (nat (attempt - 1)) (qo_base_backoff opts)"

definition jitter :: "queue_options \<Rightarrow> duration \<Rightarrow> duration" where
  "jitter opts d = (case qo_jitter opts of None \<Rightarrow> 0 | Some f \<Rightarrow> f d)"

definition failed_item :: "queue_options \<Rightarrow> instant \<Rightarrow> string option \<Rightarrow> queue_item \<Rightarrow> queue_item" where
  "failed_item opts now cause item =
     (let i = item\<lparr>qi_last_error := boundedQueueError cause, qi_lease_owner := [],
                   qi_lease_until := 0, qi_updated := now\<rparr>
      in if qi_attempts i \<ge> qo_max_attempts opts
         then i\<lparr>qi_status := QueueDead, qi_available := 0\<rparr>
         else
           (let delay = retryDelay opts (qi_attempts i)
            in i\<lparr>qi_status := QueuePending,
                 qi_available := now + wrap64 (delay + nonNegativeDuration (jitter opts delay))\<rparr>))"

definition Fail ::
    "ctx \<Rightarrow> instant \<Rightarrow> string option \<Rightarrow> string \<Rightarrow> string \<Rightarrow> string option \<Rightarrow> queue
     \<Rightarrow> queue \<times> queue_item option \<times> queue_error option" where
  "Fail c now io itemID workerID cause q =
     mutateLease c io itemID workerID (failed_item (q_options q) now cause) q"

definition Reconcile ::
    "ctx \<Rightarrow> instant \<Rightarrow> string option \<Rightarrow> queue \<Rightarrow> queue \<times> (queue_error + nat)" where
  "Reconcile c now io q =
     (case contextError c of Some e \<Rightarrow> (q, Inl e)
      | None \<Rightarrow>
        if q_closed q then (q, Inl ErrQueueClosed)
        else (case reconcileLocked (q_options q) now (q_items q) of (items, recovered) \<Rightarrow>
            if recovered = 0 then (q, Inr 0)
            else (case commit_items io items q of
                (q', Some e) \<Rightarrow> (q', Inl e)
              | (q', None) \<Rightarrow> (q', Inr recovered))))"

definition CleanupTerminal ::
    "ctx \<Rightarrow> instant \<Rightarrow> string option \<Rightarrow> duration \<Rightarrow> queue \<Rightarrow> queue \<times> (queue_error + nat)" where
  "CleanupTerminal c now io olderThan q =
     (case contextError c of Some e \<Rightarrow> (q, Inl e)
      | None \<Rightarrow>
        if olderThan < 0 then (q, Inl NegativeCleanup)
        else if q_closed q then (q, Inl ErrQueueClosed)
        else
          (let cutoff = now - olderThan;
               drops = (\<lambda>item. terminal (qi_status item) \<and> \<not> qi_updated item > cutoff);
               kept = filter (\<lambda>item. \<not> drops item) (q_items q);
               removed = length (filter drops (q_items q))
           in if removed = 0 then (q, Inr 0)
              else (case commit_items io kept q of
                  (q', Some e) \<Rightarrow> (q', Inl e)
                | (q', None) \<Rightarrow> (q', Inr removed))))"

text \<open>\<open>sort.SliceStable\<close> by creation is the stable \<open>sort_key\<close>.\<close>

definition Snapshot :: "queue \<Rightarrow> queue_item list" where
  "Snapshot q = sort_key qi_created (q_items q)"

definition Close :: "string option \<Rightarrow> queue \<Rightarrow> queue \<times> queue_error option" where
  "Close io q =
     (if q_closed q then (q, None)
      else (case persistLocked io q of
          (q', Some e) \<Rightarrow> (q', Some e)
        | (q', None) \<Rightarrow> (q'\<lparr>q_closed := True\<rparr>, None)))"

section \<open>Opening the state file\<close>

text \<open>What \<open>os.ReadFile\<close> finds: a file of so many bytes decodes to a version and items, or not.\<close>

datatype queue_file =
    FileMissing | FileUnreadable string
  | FileBytes nat "string + int \<times> queue_item list"

fun validate_from :: "string set \<Rightarrow> string set \<Rightarrow> queue_item list \<Rightarrow> queue_error option" where
  "validate_from seenIDs seenKeys [] = None"
| "validate_from seenIDs seenKeys (item # rest) =
     (if qi_id item = [] \<or> qi_key item = [] \<or> length (qi_payload item) > maxQueuePayload
         \<or> \<not> json_valid (qi_payload item) then Some InvalidItem
      else if qi_id item \<in> seenIDs then Some (DuplicateId (qi_id item))
      else if qi_key item \<in> seenKeys then Some DuplicateKey
      else (case qi_status item of
          QueueOther s \<Rightarrow> Some (InvalidStatus s)
        | _ \<Rightarrow> validate_from (insert (qi_id item) seenIDs) (insert (qi_key item) seenKeys) rest))"

definition validateQueueItems :: "queue_item list \<Rightarrow> queue_error option" where
  "validateQueueItems items = validate_from {} {} items"

definition OpenQueue ::
    "(duration \<Rightarrow> duration) \<Rightarrow> string option \<Rightarrow> queue_file \<Rightarrow> string \<Rightarrow> queue_options
     \<Rightarrow> queue_error + queue" where
  "OpenQueue default_jitter mkdir file path options =
     (if TrimSpace path = [] then Inl PathRequired
      else
        (let opts = normalizeQueueOptions default_jitter options;
             queue = \<lparr>q_options = opts, q_items = [], q_closed = False, q_disk = None\<rparr>
         in (case mkdir of
               Some e \<Rightarrow> Inl (DirectoryFailed e)
             | None \<Rightarrow>
               (case file of
                  FileMissing \<Rightarrow> Inr queue
                | FileUnreadable e \<Rightarrow> Inl (ReadFailed e)
                | FileBytes n state \<Rightarrow>
                    if n > maxQueueFileBytes then Inl FileTooLarge
                    else (case state of
                        Inl e \<Rightarrow> Inl (DecodeFailed e)
                      | Inr (version, items) \<Rightarrow>
                          if version \<noteq> queueStateVersion then Inl (UnsupportedVersion version)
                          else (case validateQueueItems items of
                              Some e \<Rightarrow> Inl e
                            | None \<Rightarrow> Inr (queue\<lparr>q_items := items, q_disk := Some items\<rparr>)))))))"

section \<open>Runs\<close>

datatype queue_op =
    OpEnqueue ctx "string + string" instant "string option" string string
  | OpClaim ctx instant "string option" string
  | OpComplete ctx instant "string option" string string
  | OpFail ctx instant "string option" string string "string option"
  | OpCancel ctx instant "string option" string
  | OpReconcile ctx instant "string option"
  | OpCleanup ctx instant "string option" duration
  | OpClose "string option"

fun queue_step :: "queue_op \<Rightarrow> queue \<Rightarrow> queue" where
  "queue_step (OpEnqueue c g now io key payload) q = fst (Enqueue c g now io key payload q)"
| "queue_step (OpClaim c now io worker) q = fst (Claim c now io worker q)"
| "queue_step (OpComplete c now io item worker) q = fst (Complete c now io item worker q)"
| "queue_step (OpFail c now io item worker cause) q = fst (Fail c now io item worker cause q)"
| "queue_step (OpCancel c now io key) q = fst (CancelByKey c now io key q)"
| "queue_step (OpReconcile c now io) q = fst (Reconcile c now io q)"
| "queue_step (OpCleanup c now io olderThan) q = fst (CleanupTerminal c now io olderThan q)"
| "queue_step (OpClose io) q = fst (Close io q)"

end
