(* ===== verification/Queue_Properties.thy ===== *)
theory Queue_Properties
  imports Task_Queue "HOL-Library.Product_Lexorder"
begin

text \<open>
  What the task queue guarantees: its invariant over every interleaving of operations, that
  memory and state file agree, which item a claim takes, that leases are exclusive and finished
  items final, the closed form of the retry delay, and that reopening restores the items of a state file
  within the limit that \<open>OpenQueue\<close> sets to it.
\<close>

section \<open>Commits\<close>

lemma commit_items_eq:
  "commit_items io new q =
     (case io of None \<Rightarrow> (q\<lparr>q_items := new, q_disk := Some (encoded new)\<rparr>, None)
      | Some e \<Rightarrow> (q, Some (PersistFailed e)))"
  by (simp add: commit_def persistLocked_def set_items_def split: option.splits)

lemma commit_items_simps [simp]:
  "commit_items None new q = (q\<lparr>q_items := new, q_disk := Some (encoded new)\<rparr>, None)"
  "commit_items (Some e) new q = (q, Some (PersistFailed e))"
  by (simp_all add: commit_items_eq)

section \<open>The invariant\<close>

definition live :: "queue_item \<Rightarrow> bool" where
  "live i \<longleftrightarrow> qi_status i = QueuePending \<or> qi_status i = QueueLeased"

definition item_ok :: "queue_options \<Rightarrow> queue_item \<Rightarrow> bool" where
  "item_ok opts i \<longleftrightarrow>
     qi_key i \<noteq> [] \<and> length (qi_payload i) \<le> maxQueuePayload \<and> json_valid (qi_payload i)
   \<and> 0 \<le> qi_attempts i \<and> qi_attempts i \<le> qo_max_attempts opts
   \<and> (qi_status i = QueuePending \<longrightarrow> qi_attempts i < qo_max_attempts opts)
   \<and> (qi_status i = QueueLeased \<longrightarrow> 1 \<le> qi_attempts i)
   \<and> (qi_status i = QueueLeased \<longleftrightarrow> qi_lease_owner i \<noteq> [])
   \<and> (terminal (qi_status i) \<longrightarrow> qi_available i = 0)
   \<and> (live i \<or> terminal (qi_status i))"

definition options_ok :: "queue_options \<Rightarrow> bool" where
  "options_ok o1 \<longleftrightarrow> 0 < qo_capacity o1 \<and> 0 < qo_max_attempts o1 \<and> qo_max_attempts o1 < 2 ^ 63
     \<and> 0 < qo_lease_duration o1 \<and> 0 < qo_base_backoff o1 \<and> qo_base_backoff o1 < 2 ^ 63
     \<and> 0 < qo_max_backoff o1 \<and> qo_max_backoff o1 < 2 ^ 63 \<and> qo_jitter o1 \<noteq> None"

definition queue_ok :: "queue \<Rightarrow> bool" where
  "queue_ok q \<longleftrightarrow> options_ok (q_options q)
     \<and> list_all (item_ok (q_options q)) (q_items q)
     \<and> distinct (map qi_key (q_items q))
     \<and> int (length (filter live (q_items q))) \<le> qo_capacity (q_options q)"

lemma queue_okI:
  assumes "options_ok (q_options q)" and "list_all (item_ok (q_options q)) (q_items q)"
    and "distinct (map qi_key (q_items q))"
    and "int (length (filter live (q_items q))) \<le> qo_capacity (q_options q)"
  shows "queue_ok q"
  using assms by (simp add: queue_ok_def)

lemma queue_okD:
  assumes "queue_ok q"
  shows "options_ok (q_options q)" and "list_all (item_ok (q_options q)) (q_items q)"
    and "distinct (map qi_key (q_items q))"
    and "int (length (filter live (q_items q))) \<le> qo_capacity (q_options q)"
  using assms by (simp_all add: queue_ok_def)

text \<open>An item transformation that keeps the key and never revives an item.\<close>

definition tame :: "queue_options \<Rightarrow> (queue_item \<Rightarrow> queue_item) \<Rightarrow> queue_item \<Rightarrow> bool" where
  "tame opts f i \<longleftrightarrow> qi_key (f i) = qi_key i \<and> (live (f i) \<longrightarrow> live i)
     \<and> (item_ok opts i \<longrightarrow> item_ok opts (f i))"

lemma filter_length_mono:
  assumes "\<And>x. x \<in> set xs \<Longrightarrow> P (f x) \<Longrightarrow> P x"
  shows "length (filter P (map f xs)) \<le> length (filter P xs)"
  using assms by (induction xs) auto

lemma filter_length_update:
  assumes "i < length xs" and "P y \<Longrightarrow> P (xs ! i)"
  shows "length (filter P (xs[i := y])) \<le> length (filter P xs)"
  using assms
proof (induction xs arbitrary: i)
  case (Cons x xs)
  then show ?case by (cases i) auto
qed simp

lemma queue_ok_map:
  assumes "queue_ok q" and "\<And>i. i \<in> set (q_items q) \<Longrightarrow> tame (q_options q) f i"
  shows "queue_ok (q\<lparr>q_items := map f (q_items q), q_disk := d\<rparr>)"
proof (rule queue_okI)
  let ?items = "map f (q_items q)"
  have keys: "map qi_key ?items = map qi_key (q_items q)"
    using assms(2) by (simp add: tame_def comp_def)
  show "distinct (map qi_key (q_items (q\<lparr>q_items := ?items, q_disk := d\<rparr>)))"
    using queue_okD(3) [OF assms(1)] keys by (simp del: map_map)
  have "length (filter live ?items) \<le> length (filter live (q_items q))"
    using assms(2) by (intro filter_length_mono) (simp add: tame_def)
  then show "int (length (filter live (q_items (q\<lparr>q_items := ?items, q_disk := d\<rparr>))))
      \<le> qo_capacity (q_options (q\<lparr>q_items := ?items, q_disk := d\<rparr>))"
    using queue_okD(4) [OF assms(1)] by simp
qed (use queue_okD [OF assms(1)] assms(2) in \<open>auto simp: list_all_iff tame_def\<close>)

lemma queue_ok_update:
  assumes "queue_ok q" and "i < length (q_items q)" and "tame (q_options q) f (q_items q ! i)"
  shows "queue_ok (q\<lparr>q_items := (q_items q)[i := f (q_items q ! i)], q_disk := d\<rparr>)"
proof (rule queue_okI)
  let ?items = "(q_items q)[i := f (q_items q ! i)]"
  have keys: "map qi_key ?items = map qi_key (q_items q)"
    using assms(2,3) by (intro map_list_update_same) (simp_all add: tame_def)
  show "distinct (map qi_key (q_items (q\<lparr>q_items := ?items, q_disk := d\<rparr>)))"
    using queue_okD(3) [OF assms(1)] keys by simp
  have "length (filter live ?items) \<le> length (filter live (q_items q))"
    using assms(2,3) by (intro filter_length_update) (simp_all add: tame_def)
  then show "int (length (filter live (q_items (q\<lparr>q_items := ?items, q_disk := d\<rparr>))))
      \<le> qo_capacity (q_options (q\<lparr>q_items := ?items, q_disk := d\<rparr>))"
    using queue_okD(4) [OF assms(1)] by simp
  have "item_ok (q_options q) (q_items q ! i)"
    using queue_okD(2) [OF assms(1)] assms(2) by (simp add: list_all_length)
  then show "list_all (item_ok (q_options (q\<lparr>q_items := ?items, q_disk := d\<rparr>)))
      (q_items (q\<lparr>q_items := ?items, q_disk := d\<rparr>))"
    using queue_okD(2) [OF assms(1)] assms(2,3)
    by (auto simp: list_all_length nth_list_update tame_def)
qed (use queue_okD [OF assms(1)] in simp)

section \<open>The item transformations are tame\<close>

lemmas item_change_defs =
  reconcile_item_def leased_item_def cancelled_item_def completed_item_def failed_item_def Let_def

lemma tame_reconcile: "options_ok opts \<Longrightarrow> tame opts (reconcile_item opts now) i"
  by (auto simp: tame_def reconcile_item_def Let_def live_def item_ok_def terminal_def)

lemma tame_cancelled: "live i \<Longrightarrow> tame opts (cancelled_item now) i"
  by (auto simp: tame_def cancelled_item_def live_def item_ok_def terminal_def)

lemma tame_completed: "tame opts (completed_item now cause) i"
  by (auto simp: tame_def completed_item_def live_def item_ok_def terminal_def)

lemma tame_failed: "live i \<Longrightarrow> options_ok opts \<Longrightarrow> tame opts (failed_item opts now cause) i"
  by (auto simp: tame_def failed_item_def Let_def live_def item_ok_def terminal_def)

lemma tame_leased:
  "options_ok opts \<Longrightarrow> worker \<noteq> [] \<Longrightarrow> qi_status i = QueuePending \<Longrightarrow>
     tame opts (leased_item opts now worker) i"
  by (auto simp: tame_def leased_item_def live_def item_ok_def terminal_def options_ok_def)

section \<open>Selecting an item\<close>

definition rank :: "queue_item \<Rightarrow> instant \<times> instant" where
  "rank i = (qi_available i, qi_created i)"

lemma claim_before_rank: "claim_before x y \<longleftrightarrow> rank x < rank y"
  by (auto simp: claim_before_def rank_def less_prod_def)

lemma claim_scan_None:
  "claim_scan now i best items = None \<longleftrightarrow> best = None \<and> (\<forall>x \<in> set items. \<not> claimable now x)"
  by (induction items arbitrary: i best) (auto split: option.splits)

lemma claim_scan_Some:
  assumes "claim_scan now i best items = Some (j, it)"
  shows "(best = Some (j, it)
      \<or> (i \<le> j \<and> j < i + length items \<and> it = items ! (j - i) \<and> claimable now it
         \<and> (\<forall>jb b. best = Some (jb, b) \<longrightarrow> rank it < rank b)))
    \<and> (\<forall>x \<in> set items. claimable now x \<longrightarrow> rank it \<le> rank x)"
  using assms
proof (induction items arbitrary: i best)
  case Nil
  then show ?case by simp
next
  case (Cons x xs)
  let ?best = "if \<not> claimable now x then best
      else (case best of None \<Rightarrow> Some (i, x)
            | Some (j, b) \<Rightarrow> if claim_before x b then Some (i, x) else best)"
  have eq: "claim_scan now (Suc i) ?best xs = Some (j, it)" using Cons.prems by simp
  note IH = Cons.IH [OF eq]
  have "(?best = best \<and> (claimable now x \<longrightarrow> (\<exists>jb b. best = Some (jb, b) \<and> rank b \<le> rank x)))
      \<or> (?best = Some (i, x) \<and> claimable now x \<and> (\<forall>jb b. best = Some (jb, b) \<longrightarrow> rank x < rank b))"
    by (cases best) (auto simp: claim_before_rank not_less split: if_splits)
  then consider "?best = best" "claimable now x \<longrightarrow> (\<exists>jb b. best = Some (jb, b) \<and> rank b \<le> rank x)"
    | "?best = Some (i, x)" "claimable now x" "\<forall>jb b. best = Some (jb, b) \<longrightarrow> rank x < rank b"
    by blast
  then show ?case
  proof cases
    case 1
    show ?thesis
    proof (cases "best = Some (j, it)")
      case True
      with 1 IH show ?thesis by auto
    next
      case False
      with IH 1 have c: "Suc i \<le> j" "j < Suc i + length xs" "it = xs ! (j - Suc i)" "claimable now it"
        "\<forall>jb b. best = Some (jb, b) \<longrightarrow> rank it < rank b" by auto
      have "(x # xs) ! (j - i) = xs ! (j - Suc i)"
        using c(1) by (simp add: nth_Cons' )
      moreover have "claimable now x \<longrightarrow> rank it \<le> rank x"
        using 1(2) c(5) by (metis less_le_trans order_less_imp_le)
      ultimately show ?thesis using c IH by auto
    qed
  next
    case 2
    have le: "rank it \<le> rank x" using IH 2 by (auto intro: less_imp_le)
    show ?thesis
    proof (cases "it = x \<and> j = i")
      case True
      with 2 IH show ?thesis by auto
    next
      case False
      with IH 2 have c: "Suc i \<le> j" "j < Suc i + length xs" "it = xs ! (j - Suc i)" "claimable now it"
        "rank it < rank x" by auto
      have "(x # xs) ! (j - i) = xs ! (j - Suc i)" using c(1) by (simp add: nth_Cons')
      moreover have "\<forall>jb b. best = Some (jb, b) \<longrightarrow> rank it < rank b"
        using 2(3) c(5) by (metis less_trans)
      ultimately show ?thesis using c IH le by auto
    qed
  qed
qed

lemma Claim_cases:
  obtains "fst (Claim c now io worker q) = q" and "\<And>it. snd (Claim c now io worker q) \<noteq> Inr it"
  | j i where "claim_scan now 0 None (map (reconcile_item (q_options q) now) (q_items q)) = Some (j, i)"
    and "TrimSpace worker \<noteq> []"
    and "fst (Claim c now io worker q) =
      q\<lparr>q_items := (map (reconcile_item (q_options q) now) (q_items q))
          [j := leased_item (q_options q) now (TrimSpace worker) i],
        q_disk := Some (encoded ((map (reconcile_item (q_options q) now) (q_items q))
          [j := leased_item (q_options q) now (TrimSpace worker) i]))\<rparr>"
    and "snd (Claim c now io worker q) = Inr (leased_item (q_options q) now (TrimSpace worker) i)"
proof -
  let ?s = "claim_scan now 0 None (map (reconcile_item (q_options q) now) (q_items q))"
  let ?w = "TrimSpace worker"
  let ?bad = "?w = [] \<or> length ?w > 128 \<or> ContainsAny ?w nul_cr_lf"
  have "(\<exists>j i. c = None \<and> \<not> ?bad \<and> \<not> q_closed q \<and> ?s = Some (j, i) \<and> io = None)
      \<or> (fst (Claim c now io worker q) = q \<and> (\<forall>it. snd (Claim c now io worker q) \<noteq> Inr it))"
    by (cases c; cases io; cases ?s)
      (auto simp: Claim_def contextError_def reconcileLocked_def Let_def)
  then show ?thesis
  proof (elim disjE exE conjE)
    fix j i
    assume "c = None" "\<not> ?bad" "\<not> q_closed q" "?s = Some (j, i)" "io = None"
    then show ?thesis
      by (intro that(2) [of j i]) (simp_all add: Claim_def contextError_def reconcileLocked_def Let_def)
  qed (rule that(1), simp_all)
qed

text \<open>A successful claim takes an item that is pending and due, after expired leases are
  reclaimed, and that no other due item precedes by availability and then creation; it becomes
  leased to the worker, and the state file holds the new items.\<close>

theorem claim_earliest:
  assumes "Claim c now io worker q = (q', Inr it)"
  defines "items \<equiv> map (reconcile_item (q_options q) now) (q_items q)"
  shows "\<exists>j < length items.
     claimable now (items ! j)
   \<and> list_all (\<lambda>x. claimable now x \<longrightarrow> rank (items ! j) \<le> rank x) items
   \<and> it = leased_item (q_options q) now (TrimSpace worker) (items ! j)
   \<and> q_items q' = items[j := it] \<and> q_disk q' = Some (encoded (q_items q'))"
proof -
  have snd: "snd (Claim c now io worker q) = Inr it" and fst: "fst (Claim c now io worker q) = q'"
    using assms(1) by simp_all
  obtain j i where scan: "claim_scan now 0 None items = Some (j, i)"
    and it: "it = leased_item (q_options q) now (TrimSpace worker) i"
    and q': "q' = q\<lparr>q_items := items[j := it], q_disk := Some (encoded (items[j := it]))\<rparr>"
  proof (cases rule: Claim_cases [of c now io worker q])
    case 1
    then show ?thesis using snd by blast
  next
    case (2 j i)
    then show ?thesis using that [of j i] snd fst unfolding items_def by simp
  qed
  from claim_scan_Some [OF scan] it q' show ?thesis by (auto simp: list_all_iff)
qed

section \<open>Every operation keeps the invariant\<close>

lemma index_of_items:
  "index_of P (q_items q) = Some j \<Longrightarrow> j < length (q_items q) \<and> P (q_items q ! j)"
  using index_of_Some [of P "q_items q" j] by blast

text \<open>The item \<open>Enqueue\<close> appends.\<close>

definition new_item :: "string \<Rightarrow> instant \<Rightarrow> string \<Rightarrow> string \<Rightarrow> queue_item" where
  "new_item ident now key payload = \<lparr>qi_id = ident, qi_key = key, qi_payload = payload,
     qi_status = QueuePending, qi_attempts = 0, qi_available = now, qi_lease_owner = [],
     qi_lease_until = 0, qi_last_error = [], qi_created = now, qi_updated = now\<rparr>"

lemma Enqueue_cases:
  obtains "fst (Enqueue c g now io key payload q) = q"
    and "\<And>it. snd (Enqueue c g now io key payload q) \<noteq> Inr (it, True)"
    and "\<And>r. snd (Enqueue c g now io key payload q) = Inr r \<Longrightarrow>
      find (\<lambda>item. qi_key item = TrimSpace key) (q_items q) \<noteq> None"
  | ident where "c = None" and "\<not> q_closed q" and "TrimSpace key \<noteq> []"
    and "length payload \<le> maxQueuePayload" and "json_valid payload"
    and "find (\<lambda>item. qi_key item = TrimSpace key) (q_items q) = None"
    and "int (length (filter live (q_items q))) < qo_capacity (q_options q)"
    and "fst (Enqueue c g now io key payload q) =
      q\<lparr>q_items := q_items q @ [new_item ident now (TrimSpace key) payload],
        q_disk := Some (encoded (q_items q @ [new_item ident now (TrimSpace key) payload]))\<rparr>"
    and "snd (Enqueue c g now io key payload q) = Inr (new_item ident now (TrimSpace key) payload, True)"
    and "length (TrimSpace key) \<le> 256" and "\<not> ContainsAny (TrimSpace key) nul_cr_lf"
proof -
  let ?k = "TrimSpace key"
  let ?f = "find (\<lambda>item. qi_key item = ?k) (q_items q)"
  let ?n = "int (length (filter (\<lambda>item. qi_status item = QueuePending \<or> qi_status item = QueueLeased) (q_items q)))"
  let ?bad = "?k = [] \<or> length ?k > 256 \<or> ContainsAny ?k nul_cr_lf"
  let ?badp = "length payload > maxQueuePayload \<or> \<not> json_valid payload"
  have live: "live = (\<lambda>item. qi_status item = QueuePending \<or> qi_status item = QueueLeased)"
    by (simp add: live_def fun_eq_iff)
  have "(\<exists>ident. c = None \<and> \<not> ?bad \<and> \<not> ?badp \<and> \<not> q_closed q \<and> ?f = None
      \<and> \<not> qo_capacity (q_options q) \<le> ?n \<and> g = Inr ident \<and> io = None)
      \<or> (fst (Enqueue c g now io key payload q) = q
         \<and> (\<forall>it. snd (Enqueue c g now io key payload q) \<noteq> Inr (it, True))
         \<and> (\<forall>r. snd (Enqueue c g now io key payload q) = Inr r \<longrightarrow> ?f \<noteq> None))"
  proof (cases "c = None \<and> \<not> ?bad \<and> \<not> ?badp \<and> \<not> q_closed q")
    case False
    then show ?thesis by (cases c) (auto simp: Enqueue_def contextError_def Let_def)
  next
    case True
    then show ?thesis
      by (cases ?f; cases "qo_capacity (q_options q) \<le> ?n"; cases g; cases io)
        (simp_all add: Enqueue_def contextError_def Let_def)
  qed
  then show ?thesis
  proof (elim disjE exE conjE)
    fix ident
    assume "c = None" "\<not> ?bad" "\<not> ?badp" "\<not> q_closed q" "?f = None"
      "\<not> qo_capacity (q_options q) \<le> ?n" "g = Inr ident" "io = None"
    then show ?thesis
      by (intro that(2) [of ident]) (simp_all add: Enqueue_def contextError_def Let_def new_item_def live)
  qed (rule that(1), simp_all)
qed

lemma queue_ok_Enqueue: "queue_ok q \<Longrightarrow> queue_ok (fst (Enqueue c g now io key payload q))"
proof (cases rule: Enqueue_cases [of c g now io key payload q])
  case (2 ident)
  assume ok: "queue_ok q"
  let ?it = "new_item ident now (TrimSpace key) payload"
  have "item_ok (q_options q) ?it"
    using 2 queue_okD(1) [OF ok]
    by (simp add: item_ok_def new_item_def live_def terminal_def options_ok_def)
  moreover have "qi_key ?it \<notin> qi_key ` set (q_items q)"
    using 2(6) by (auto simp: new_item_def find_None_iff)
  ultimately show ?thesis
    unfolding 2(8) using queue_okD [OF ok] 2(7) by (intro queue_okI) auto
qed simp

lemma queue_ok_Claim: "queue_ok q \<Longrightarrow> queue_ok (fst (Claim c now io worker q))"
proof -
  assume ok: "queue_ok q"
  let ?items = "map (reconcile_item (q_options q) now) (q_items q)"
  show ?thesis
  proof (cases rule: Claim_cases [of c now io worker q])
    case 1
    then show ?thesis using ok by simp
  next
    case (2 j i)
    from claim_scan_Some [OF 2(1)] have j: "j < length ?items" "i = ?items ! j" "claimable now i"
      by auto
    let ?q = "q\<lparr>q_items := ?items, q_disk := q_disk q\<rparr>"
    have "queue_ok ?q"
      using ok tame_reconcile queue_okD(1) [OF ok] by (intro queue_ok_map) auto
    then have "queue_ok (?q\<lparr>q_items := (q_items ?q)[j := leased_item (q_options q) now (TrimSpace worker) (q_items ?q ! j)],
        q_disk := Some (encoded (?items[j := leased_item (q_options q) now (TrimSpace worker) i]))\<rparr>)"
      using j tame_leased [OF queue_okD(1) [OF ok] 2(2), of i now]
      by (intro queue_ok_update) (simp_all add: claimable_def)
    then show ?thesis using 2(3) j by simp
  qed
qed

lemma mutateLease_cases:
  obtains "fst (mutateLease c io ident worker f q) = q"
    and "snd (snd (mutateLease c io ident worker f q)) \<noteq> None"
  | j where "index_of (\<lambda>item. qi_id item = ident) (q_items q) = Some j"
    and "qi_status (q_items q ! j) = QueueLeased" and "qi_lease_owner (q_items q ! j) = worker"
    and "fst (mutateLease c io ident worker f q) =
      q\<lparr>q_items := (q_items q)[j := f (q_items q ! j)], q_disk := Some (encoded ((q_items q)[j := f (q_items q ! j)]))\<rparr>"
    and "snd (mutateLease c io ident worker f q) = (Some (f (q_items q ! j)), None)"
proof -
  let ?i = "index_of (\<lambda>item. qi_id item = ident) (q_items q)"
  have "(\<exists>j. c = None \<and> \<not> q_closed q \<and> ?i = Some j \<and> qi_status (q_items q ! j) = QueueLeased
      \<and> qi_lease_owner (q_items q ! j) = worker \<and> io = None)
      \<or> (fst (mutateLease c io ident worker f q) = q
         \<and> snd (snd (mutateLease c io ident worker f q)) \<noteq> None)"
    by (cases c; cases io; cases ?i) (auto simp: mutateLease_def contextError_def Let_def)
  then show ?thesis
  proof (elim disjE exE conjE)
    fix j
    assume "c = None" "\<not> q_closed q" "?i = Some j" "qi_status (q_items q ! j) = QueueLeased"
      "qi_lease_owner (q_items q ! j) = worker" "io = None"
    then show ?thesis
      by (intro that(2) [of j]) (simp_all add: mutateLease_def contextError_def Let_def)
  qed (rule that(1), simp_all)
qed

lemma queue_ok_mutateLease:
  assumes "queue_ok q" and "\<And>i. qi_status i = QueueLeased \<Longrightarrow> tame (q_options q) f i"
  shows "queue_ok (fst (mutateLease c io ident worker f q))"
proof (cases rule: mutateLease_cases [of c io ident worker f q])
  case 1
  then show ?thesis using assms by simp
next
  case (2 j)
  then show ?thesis using index_of_items [OF 2(1)] assms by (simp add: queue_ok_update)
qed

lemma CancelByKey_cases:
  obtains "fst (CancelByKey c now io key q) = q"
  | j where "index_of (\<lambda>item. qi_key item = key) (q_items q) = Some j"
    and "\<not> terminal (qi_status (q_items q ! j))"
    and "fst (CancelByKey c now io key q) = q\<lparr>q_items := (q_items q)[j := cancelled_item now (q_items q ! j)],
      q_disk := Some (encoded ((q_items q)[j := cancelled_item now (q_items q ! j)]))\<rparr>"
proof -
  let ?i = "index_of (\<lambda>item. qi_key item = key) (q_items q)"
  have "(\<exists>j. c = None \<and> \<not> q_closed q \<and> ?i = Some j \<and> \<not> terminal (qi_status (q_items q ! j)) \<and> io = None)
      \<or> fst (CancelByKey c now io key q) = q"
    by (cases c; cases io; cases ?i) (auto simp: CancelByKey_def contextError_def Let_def)
  then show ?thesis
  proof (elim disjE exE conjE)
    fix j
    assume "c = None" "\<not> q_closed q" "?i = Some j" "\<not> terminal (qi_status (q_items q ! j))" "io = None"
    then show ?thesis
      by (intro that(2) [of j]) (simp_all add: CancelByKey_def contextError_def Let_def)
  qed (rule that(1))
qed

lemma queue_ok_CancelByKey: "queue_ok q \<Longrightarrow> queue_ok (fst (CancelByKey c now io key q))"
proof -
  assume ok: "queue_ok q"
  show ?thesis
  proof (cases rule: CancelByKey_cases [of c now io key q])
    case 1
    then show ?thesis using ok by simp
  next
    case (2 j)
    have j: "j < length (q_items q)" using index_of_items [OF 2(1)] by simp
    then have "live (q_items q ! j)"
      using queue_okD(2) [OF ok] 2(2) by (auto simp: list_all_length item_ok_def)
    then show ?thesis unfolding 2(3) using ok j by (intro queue_ok_update tame_cancelled)
  qed
qed

lemma queue_ok_Reconcile: "queue_ok q \<Longrightarrow> queue_ok (fst (Reconcile c now io q))"
proof -
  assume ok: "queue_ok q"
  have "queue_ok (q\<lparr>q_items := map (reconcile_item (q_options q) now) (q_items q), q_disk := d\<rparr>)" for d
    using ok tame_reconcile queue_okD(1) [OF ok] by (intro queue_ok_map) auto
  then show ?thesis
    using ok by (cases io) (auto simp: Reconcile_def reconcileLocked_def split: option.splits)
qed

lemma queue_ok_filter:
  assumes "queue_ok q"
  shows "queue_ok (q\<lparr>q_items := filter P (q_items q), q_disk := d\<rparr>)"
proof (rule queue_okI)
  have "length (filter live (filter P xs)) \<le> length (filter live xs)" for xs
    by (induction xs) auto
  note this [of "q_items q"]
  then show "int (length (filter live (q_items (q\<lparr>q_items := filter P (q_items q), q_disk := d\<rparr>))))
      \<le> qo_capacity (q_options (q\<lparr>q_items := filter P (q_items q), q_disk := d\<rparr>))"
    using queue_okD(4) [OF assms] by simp
qed (use queue_okD [OF assms] in \<open>auto simp: list_all_iff distinct_map_filter\<close>)

lemma queue_ok_step: "queue_ok q \<Longrightarrow> queue_ok (queue_step x q)"
proof (cases x)
  case (OpComplete c now io item worker)
  assume "queue_ok q"
  then show ?thesis
    using OpComplete by (simp add: Complete_def queue_ok_mutateLease tame_completed split: prod.splits)
      (metis fst_conv queue_ok_mutateLease tame_completed)
next
  case (OpFail c now io item worker cause)
  assume "queue_ok q"
  then show ?thesis
    using OpFail queue_okD(1) [of q]
    by (simp add: Fail_def queue_ok_mutateLease tame_failed live_def)
next
  case (OpCleanup c now io olderThan)
  assume ok: "queue_ok q"
  then show ?thesis
    using OpCleanup by (cases io) (auto simp: CleanupTerminal_def Let_def queue_ok_filter split: option.splits)
next
  case (OpClose io)
  assume ok: "queue_ok q"
  then show ?thesis
    using OpClose by (cases io) (auto simp: Close_def persistLocked_def queue_ok_def)
qed (simp_all add: queue_ok_Enqueue queue_ok_Claim queue_ok_CancelByKey queue_ok_Reconcile)

interpretation queue_machine: invariant_machine queue_step queue_ok
  by unfold_locales (rule queue_ok_step)

text \<open>The option fields are Go integers and durations, so they lie in the 64-bit range.\<close>

definition options_in_range :: "queue_options \<Rightarrow> bool" where
  "options_in_range o1 \<longleftrightarrow> qo_max_attempts o1 < 2 ^ 63 \<and> qo_base_backoff o1 < 2 ^ 63
     \<and> qo_max_backoff o1 < 2 ^ 63"

lemma options_ok_normalize: "options_in_range opts \<Longrightarrow> options_ok (normalizeQueueOptions dj opts)"
  by (simp add: options_ok_def normalizeQueueOptions_def options_in_range_def Let_def)

lemma queue_ok_open:
  assumes "OpenQueue dj mk FileMissing path opts = Inr q" and "options_in_range opts"
  shows "queue_ok q" and "q_items q = []" and "q_options q = normalizeQueueOptions dj opts"
    and "q_disk q = None"
  using assms(1) options_ok_normalize [OF assms(2), of dj]
  by (auto simp: OpenQueue_def Let_def queue_ok_def options_ok_def split: if_splits option.splits)

text \<open>C2: Starting from a new queue and after any interleaving of operations, successful or not, no
  idempotency key occurs twice, no item has been handed out more often than the maximum number of
  attempts, and the pending and leased items never exceed the capacity.\<close>

theorem queue_invariant:
  fixes ops :: "queue_op list"
  assumes "OpenQueue dj mk FileMissing path opts = Inr q0" and "options_in_range opts"
  defines "q \<equiv> fold queue_step ops q0"
  shows "distinct (map qi_key (q_items q))
     \<and> list_all (\<lambda>i. 0 \<le> qi_attempts i \<and> qi_attempts i \<le> qo_max_attempts (q_options q)) (q_items q)
     \<and> int (length (filter live (q_items q))) \<le> qo_capacity (q_options q)"
proof -
  have ok: "queue_ok q"
    unfolding q_def by (rule queue_machine.inv_run [OF queue_ok_open(1) [OF assms(1,2)]])
  show ?thesis
    using queue_okD [OF ok] by (auto simp: list_all_iff item_ok_def)
qed

section \<open>Memory and state file\<close>

definition durable :: "queue \<Rightarrow> bool" where
  "durable q \<longleftrightarrow> stored_items (q_items q) q"

lemma durable_commit [simp]:
  "durable (q\<lparr>q_items := items, q_disk := Some (encoded items)\<rparr>)"
  "durable (q\<lparr>q_closed := b\<rparr>) \<longleftrightarrow> durable q"
  by (simp_all add: durable_def stored_items_def)

lemma durable_mutateLease: "durable q \<Longrightarrow> durable (fst (mutateLease c io ident worker f q))"
  by (cases rule: mutateLease_cases [of c io ident worker f q]) simp_all

lemma fst_Complete:
  "fst (Complete c now io ident worker q) = fst (mutateLease c io ident worker (completed_item now None) q)"
  "snd (Complete c now io ident worker q) =
     snd (snd (mutateLease c io ident worker (completed_item now None) q))"
  by (simp_all add: Complete_def split: prod.splits)

lemma durable_step: "durable q \<Longrightarrow> durable (queue_step x q)"
proof (cases x)
  case (OpEnqueue c g now io key payload)
  assume "durable q"
  then show ?thesis
    unfolding OpEnqueue by (cases rule: Enqueue_cases [of c g now io key payload q]) simp_all
next
  case (OpClaim c now io worker)
  assume "durable q"
  then show ?thesis
    unfolding OpClaim by (cases rule: Claim_cases [of c now io worker q]) simp_all
next
  case (OpCancel c now io key)
  assume "durable q"
  then show ?thesis
    unfolding OpCancel by (cases rule: CancelByKey_cases [of c now io key q]) simp_all
next
  case (OpReconcile c now io)
  assume "durable q"
  then show ?thesis
    unfolding OpReconcile
    by (cases io; cases c) (simp_all add: Reconcile_def reconcileLocked_def contextError_def)
next
  case (OpCleanup c now io olderThan)
  assume "durable q"
  then show ?thesis
    unfolding OpCleanup by (cases io; cases c) (simp_all add: CleanupTerminal_def contextError_def Let_def)
next
  case (OpClose io)
  assume "durable q"
  then show ?thesis
    unfolding OpClose by (cases io) (auto simp: Close_def persistLocked_def durable_def stored_items_def)
qed (simp_all add: durable_mutateLease fst_Complete Fail_def)

interpretation queue_durable: invariant_machine queue_step durable
  by unfold_locales (rule durable_step)

text \<open>Write-through: after any run from a new queue, whatever writes fail on the way, the state
  file holds exactly the JSON form of the items in memory (or there are none and no file).\<close>

theorem state_file_current:
  fixes ops :: "queue_op list"
  assumes "OpenQueue dj mk FileMissing path opts = Inr q0"
  defines "q \<equiv> fold queue_step ops q0"
  shows "q_disk q = Some (encoded (q_items q)) \<or> (q_disk q = None \<and> q_items q = [])"
proof -
  have "durable q0"
    using assms(1)
    by (auto simp: OpenQueue_def durable_def stored_items_def Let_def split: if_splits option.splits)
  then have "durable q" unfolding q_def by (rule queue_durable.inv_run)
  then show ?thesis by (simp add: durable_def stored_items_def)
qed

fun op_io :: "queue_op \<Rightarrow> string option" where
  "op_io (OpEnqueue c g now io key payload) = io"
| "op_io (OpClaim c now io worker) = io"
| "op_io (OpComplete c now io item worker) = io"
| "op_io (OpFail c now io item worker cause) = io"
| "op_io (OpCancel c now io key) = io"
| "op_io (OpReconcile c now io) = io"
| "op_io (OpCleanup c now io olderThan) = io"
| "op_io (OpClose io) = io"

lemma mutateLease_write_failure: "fst (mutateLease c (Some e) ident worker f q) = q"
  by (simp add: mutateLease_def Let_def split: option.splits)

text \<open>An operation whose write of the state file fails changes nothing at all: not the items,
  not the file, not whether the queue is closed.\<close>

theorem write_failure_changes_nothing:
  assumes "op_io x = Some e"
  shows "queue_step x q = q"
proof (cases x)
  case (OpEnqueue c g now io key payload)
  then show ?thesis
    using assms by (simp add: Enqueue_def Let_def split: option.splits sum.splits)
next
  case (OpClaim c now io worker)
  then show ?thesis
    using assms by (simp add: Claim_def reconcileLocked_def Let_def split: option.splits)
next
  case (OpCancel c now io key)
  then show ?thesis using assms by (simp add: CancelByKey_def Let_def split: option.splits)
next
  case (OpReconcile c now io)
  then show ?thesis using assms by (simp add: Reconcile_def reconcileLocked_def split: option.splits)
next
  case (OpCleanup c now io olderThan)
  then show ?thesis using assms by (simp add: CleanupTerminal_def Let_def split: option.splits)
next
  case (OpClose io)
  then show ?thesis using assms by (simp add: Close_def persistLocked_def)
qed (use assms in \<open>simp_all add: fst_Complete Fail_def mutateLease_write_failure\<close>)

section \<open>Leases and finished items\<close>

lemma index_of_update:
  "index_of P xs = Some j \<Longrightarrow> P y \<Longrightarrow> index_of P (xs[j := y]) = Some j"
  by (induction xs arbitrary: j) (auto split: if_splits)

text \<open>Only the worker that holds an item's lease can complete it, and completing it changes that
  item alone; any further attempt to complete it, by any worker, fails.\<close>

theorem complete_once:
  assumes "Complete c now io ident worker q = (q1, None)"
  shows "(\<exists>j. index_of (\<lambda>i. qi_id i = ident) (q_items q) = Some j
       \<and> qi_status (q_items q ! j) = QueueLeased \<and> qi_lease_owner (q_items q ! j) = worker
       \<and> q_items q1 = (q_items q)[j := completed_item now None (q_items q ! j)])
     \<and> snd (Complete c' now' io' ident worker' q1) \<noteq> None"
proof -
  have res: "fst (mutateLease c io ident worker (completed_item now None) q) = q1"
    "snd (snd (mutateLease c io ident worker (completed_item now None) q)) = None"
    using assms fst_Complete [of c now io ident worker q] by simp_all
  show ?thesis
  proof (cases rule: mutateLease_cases [of c io ident worker "completed_item now None" q])
    case 1
    then show ?thesis using res by simp
  next
    case (2 j)
    let ?it = "completed_item now None (q_items q ! j)"
    have q1: "q_items q1 = (q_items q)[j := ?it]" using 2(4) res by auto
    have j: "j < length (q_items q)" "qi_id (q_items q ! j) = ident"
      using index_of_items [OF 2(1)] by simp_all
    have "index_of (\<lambda>i. qi_id i = ident) (q_items q1) = Some j"
      unfolding q1 using 2(1) j(2) by (intro index_of_update) (simp_all add: completed_item_def)
    moreover have "qi_status (q_items q1 ! j) = QueueCompleted"
      unfolding q1 using j(1) by (simp add: completed_item_def)
    ultimately have "snd (snd (mutateLease c' io' ident worker' (completed_item now' None) q1)) \<noteq> None"
      by (cases c') (simp_all add: mutateLease_def contextError_def Let_def)
    then show ?thesis using 2(1-3) q1 by (simp add: fst_Complete)
  qed
qed

lemma kept_update: "x \<in> set xs \<Longrightarrow> x \<noteq> xs ! j \<Longrightarrow> x \<in> set (xs[j := y])"
  by (metis in_set_conv_nth length_list_update nth_list_update_neq)

fun is_cleanup :: "queue_op \<Rightarrow> bool" where
  "is_cleanup (OpCleanup c now io olderThan) = True"
| "is_cleanup _ = False"

lemma terminal_mutateLease:
  assumes "x \<in> set (q_items q)" and "terminal (qi_status x)"
  shows "x \<in> set (q_items (fst (mutateLease c io ident worker f q)))"
proof (cases rule: mutateLease_cases [of c io ident worker f q])
  case 1
  then show ?thesis using assms by simp
next
  case (2 j)
  then have "x \<noteq> q_items q ! j" using assms(2) by (auto simp: terminal_def)
  then show ?thesis using assms 2(4) by (simp add: kept_update)
qed

lemma terminal_reconcile: "terminal (qi_status x) \<Longrightarrow> reconcile_item opts now x = x"
  by (auto simp: reconcile_item_def terminal_def)

lemma terminal_reconciled:
  "x \<in> set items \<Longrightarrow> terminal (qi_status x) \<Longrightarrow> x \<in> set (map (reconcile_item opts now) items)"
  using terminal_reconcile [of x opts now] by (metis image_eqI set_map)

lemma terminal_Claim:
  assumes "x \<in> set (q_items q)" and "terminal (qi_status x)"
  shows "x \<in> set (q_items (fst (Claim c now io worker q)))"
proof (cases rule: Claim_cases [of c now io worker q])
  case 1
  then show ?thesis using assms by simp
next
  case (2 j i)
  let ?items = "map (reconcile_item (q_options q) now) (q_items q)"
  have "x \<in> set ?items" using assms by (rule terminal_reconciled)
  moreover have "x \<noteq> ?items ! j"
    using claim_scan_Some [OF 2(1)] assms(2) by (auto simp: claimable_def terminal_def)
  ultimately show ?thesis unfolding 2(3) by (simp add: kept_update)
qed

lemma terminal_step:
  assumes "x \<in> set (q_items q)" and "terminal (qi_status x)" and "\<not> is_cleanup op"
  shows "x \<in> set (q_items (queue_step op q))"
proof (cases op)
  case (OpEnqueue c g now io key payload)
  then show ?thesis
    using assms by (cases rule: Enqueue_cases [of c g now io key payload q]) simp_all
next
  case (OpCancel c now io key)
  then show ?thesis
  proof (cases rule: CancelByKey_cases [of c now io key q])
    case (2 j)
    then have "x \<noteq> q_items q ! j" using assms(2) by auto
    then show ?thesis using assms(1) 2(3) OpCancel by (simp add: kept_update)
  qed (use assms OpCancel in simp)
next
  case (OpReconcile c now io)
  have "x \<in> set (map (reconcile_item (q_options q) now) (q_items q))"
    using assms(1,2) by (rule terminal_reconciled)
  then show ?thesis
    using OpReconcile assms(1)
    by (cases io; cases c) (simp_all add: Reconcile_def reconcileLocked_def contextError_def)
next
  case (OpClose io)
  then show ?thesis using assms by (cases io) (simp_all add: Close_def persistLocked_def)
qed (use assms terminal_mutateLease terminal_Claim in \<open>simp_all add: fst_Complete Fail_def\<close>)

text \<open>A completed, cancelled or dead item is final: no run of operations other than a cleanup
  changes or removes it.\<close>

theorem terminal_items_final:
  assumes "x \<in> set (q_items q)" and "terminal (qi_status x)" and "list_all (\<lambda>op. \<not> is_cleanup op) ops"
  shows "x \<in> set (q_items (fold queue_step ops q))"
  using assms
proof (induction ops arbitrary: q)
  case Nil
  then show ?case by simp
next
  case (Cons op ops)
  then show ?case using terminal_step [of x q op] by simp
qed

section \<open>Retries\<close>

lemma retry_loop_closed:
  assumes "0 < d" and "0 < m" and "m < 2 ^ 63"
  shows "retry_loop m n d = min m (d * 2 ^ n)"
  using assms
proof (induction n arbitrary: d)
  case 0
  then show ?case by simp
next
  case (Suc n)
  have "(1::int) \<le> 2 ^ n" by simp
  then have "d * 2 * 1 \<le> d * 2 * 2 ^ n" using Suc.prems(1) by (intro mult_left_mono) simp_all
  then have grow: "2 * d \<le> d * 2 ^ Suc n" by (simp add: ac_simps)
  consider "d \<ge> m" | "d < m" "d > m div 2" | "d \<le> m div 2" "d < m"
    using Suc.prems(2) by linarith
  then show ?case
  proof cases
    case 1
    then have "m \<le> d * 2 ^ Suc n" using grow Suc.prems by linarith
    then show ?thesis using 1 by (simp add: min_absorb1 del: power_Suc)
  next
    case 2
    then have "m \<le> d * 2 ^ Suc n" using grow by linarith
    then show ?thesis using 2 by (simp add: min_absorb1 del: power_Suc)
  next
    case 3
    then have "wrap64 (d * 2) = d * 2" using Suc.prems by (intro wrap64_id) auto
    then show ?thesis using 3 Suc by (simp add: mult.assoc)
  qed
qed

text \<open>The delay before the retry that follows attempt \<open>n\<close> is the base backoff doubled for every earlier
  attempt, up to the maximum backoff; no duration overflows on the way.\<close>

theorem retry_delay_closed_form:
  assumes "options_ok opts" and "1 \<le> n"
  shows "retryDelay opts n = min (qo_max_backoff opts) (qo_base_backoff opts * 2 ^ nat (n - 1))"
  using assms by (simp add: retryDelay_def retry_loop_closed options_ok_def)

lemma queueJitter_bounds:
  assumes "\<And>m v. rand m = Some v \<Longrightarrow> 0 \<le> v \<and> v < m" and "0 \<le> d"
  shows "0 \<le> queueJitter rand d \<and> queueJitter rand d \<le> d div 4"
  using assms(1) [of "d div 4 + 1"] assms(2) by (auto simp: queueJitter_def Let_def split: option.splits)

text \<open>A failed item either is dead, when its last attempt is used up, or becomes pending again no earlier
  than the backoff of its attempt and at most a quarter of it later.\<close>

theorem retry_window:
  fixes i :: queue_item and now :: instant and cause :: "string option"
  assumes "options_ok opts" and "qo_max_backoff opts \<le> 2 ^ 62"
    and "qo_jitter opts = Some (queueJitter rand)"
    and "\<And>m v. rand m = Some v \<Longrightarrow> 0 \<le> v \<and> v < m"
    and "1 \<le> qi_attempts i"
  defines "r \<equiv> failed_item opts now cause i" and "d \<equiv> retryDelay opts (qi_attempts i)"
  shows "if qi_attempts i \<ge> qo_max_attempts opts then qi_status r = QueueDead
     else qi_status r = QueuePending \<and> now + d \<le> qi_available r \<and> qi_available r \<le> now + d + d div 4"
proof -
  have "d = min (qo_max_backoff opts) (qo_base_backoff opts * 2 ^ nat (qi_attempts i - 1))"
    unfolding d_def using assms(1,5) retry_loop_closed
    by (simp add: retryDelay_def options_ok_def)
  then have d: "0 < d" "d \<le> 2 ^ 62" using assms(1,2) by (auto simp: options_ok_def)
  from queueJitter_bounds [of rand d, OF assms(4)] d
  have j: "0 \<le> queueJitter rand d" "queueJitter rand d \<le> d div 4" by auto
  then have "wrap64 (d + queueJitter rand d) = d + queueJitter rand d"
    using d by (intro wrap64_id) auto
  then show ?thesis
    unfolding r_def using j assms(3)
    by (simp add: failed_item_def Let_def jitter_def nonNegativeDuration_def flip: d_def)
qed

section \<open>Idempotency\<close>

definition has_key :: "string \<Rightarrow> queue \<Rightarrow> bool" where
  "has_key k q \<longleftrightarrow> k \<in> set (map qi_key (q_items q))"

lemma keys_item_change [simp]:
  "qi_key (reconcile_item opts now i) = qi_key i"
  "qi_key (leased_item opts now worker i) = qi_key i"
  "qi_key (cancelled_item now i) = qi_key i"
  "qi_key (completed_item now cause i) = qi_key i"
  "qi_key (failed_item opts now cause i) = qi_key i"
  "qi_id (reconcile_item opts now i) = qi_id i"
  "qi_id (leased_item opts now worker i) = qi_id i"
  "qi_id (cancelled_item now i) = qi_id i"
  "qi_id (completed_item now cause i) = qi_id i"
  "qi_id (failed_item opts now cause i) = qi_id i"
  by (simp_all add: item_change_defs)

text \<open>
  What a step does to the keys and the identifiers of the items: nothing, an item more at the end
  (an enqueue), or some items fewer (a cleanup).
\<close>

definition ident_key :: "queue_item \<Rightarrow> string \<times> string" where
  "ident_key i = (qi_id i, qi_key i)"

lemma ident_key_changes [simp]:
  "ident_key (reconcile_item opts now i) = ident_key i"
  "ident_key (leased_item opts now worker i) = ident_key i"
  "ident_key (cancelled_item now i) = ident_key i"
  "ident_key (completed_item now cause i) = ident_key i"
  "ident_key (failed_item opts now cause i) = ident_key i"
  by (simp_all add: ident_key_def item_change_defs)

abbreviation ident_keys :: "queue \<Rightarrow> (string \<times> string) list" where
  "ident_keys q \<equiv> map ident_key (q_items q)"

lemma ident_keys_mutateLease:
  assumes "\<And>i. ident_key (f i) = ident_key i"
  shows "ident_keys (fst (mutateLease c io ident worker f q)) = ident_keys q"
proof (cases rule: mutateLease_cases [of c io ident worker f q])
  case (2 j)
  then show ?thesis using index_of_items [OF 2(1)] assms by (simp add: map_list_update_same)
qed simp

lemma ident_keys_Claim: "ident_keys (fst (Claim c now io worker q)) = ident_keys q"
proof (cases rule: Claim_cases [of c now io worker q])
  case (2 j i)
  from claim_scan_Some [OF 2(1)] have "j < length (q_items q)"
    "i = map (reconcile_item (q_options q) now) (q_items q) ! j" by auto
  then show ?thesis unfolding 2(3) by (simp add: map_list_update_same comp_def)
qed simp

lemma ident_keys_CancelByKey: "ident_keys (fst (CancelByKey c now io key q)) = ident_keys q"
proof (cases rule: CancelByKey_cases [of c now io key q])
  case (2 j)
  then show ?thesis using index_of_items [OF 2(1)] by (simp add: map_list_update_same)
qed simp

lemma ident_keys_Reconcile: "ident_keys (fst (Reconcile c now io q)) = ident_keys q"
  by (cases c; cases io) (simp_all add: Reconcile_def reconcileLocked_def contextError_def comp_def)

lemma ident_keys_step:
  obtains "ident_keys (queue_step x q) = ident_keys q"
  | c ident now io key payload where "x = OpEnqueue c (Inr ident) now io key payload"
    and "ident_keys (queue_step x q) = ident_keys q @ [(ident, TrimSpace key)]"
  | P where "is_cleanup x" and "q_items (queue_step x q) = filter P (q_items q)"
proof (cases x)
  case (OpEnqueue c g now io key payload)
  show ?thesis
  proof (cases rule: Enqueue_cases [of c g now io key payload q])
    case 1
    then show ?thesis using OpEnqueue that(1) by simp
  next
    case (2 ident)
    from 2(9) have "g = Inr ident"
      by (auto simp: Enqueue_def Let_def new_item_def split: option.splits sum.splits if_splits prod.splits)
    then show ?thesis
      using OpEnqueue 2(8) that(2) by (simp add: ident_key_def new_item_def)
  qed
next
  case (OpCleanup c now io olderThan)
  have "\<exists>P. q_items (fst (CleanupTerminal c now io olderThan q)) = filter P (q_items q)"
  proof (cases "fst (CleanupTerminal c now io olderThan q) = q")
    case True
    then have "q_items (fst (CleanupTerminal c now io olderThan q)) = filter (\<lambda>_. True) (q_items q)"
      by simp
    then show ?thesis by blast
  next
    case False
    then show ?thesis
      by (cases c; cases io) (auto simp: CleanupTerminal_def contextError_def Let_def split: if_splits)
  qed
  then show ?thesis using OpCleanup that(3) by auto
next
  case (OpClose io)
  then show ?thesis by (intro that(1)) (cases io; simp add: Close_def persistLocked_def)
qed (use that(1) in \<open>simp_all add: ident_keys_mutateLease ident_keys_Claim ident_keys_CancelByKey
      ident_keys_Reconcile fst_Complete Fail_def\<close>)

lemma has_key_ident_keys: "k \<in> qi_key ` set (q_items q) \<longleftrightarrow> k \<in> snd ` set (ident_keys q)"
  by (force simp: ident_key_def)

lemma key_step:
  assumes "k \<in> qi_key ` set (q_items q)" and "\<not> is_cleanup x"
  shows "k \<in> qi_key ` set (q_items (queue_step x q))"
  using assms(1) unfolding has_key_ident_keys
  by (cases rule: ident_keys_step [of x q]) (use assms(2) in auto)

lemma key_run:
  "k \<in> qi_key ` set (q_items q) \<Longrightarrow> list_all (\<lambda>x. \<not> is_cleanup x) ops \<Longrightarrow>
     k \<in> qi_key ` set (q_items (fold queue_step ops q))"
  by (induction ops arbitrary: q) (simp_all add: key_step)

lemma Enqueue_known_key:
  assumes "TrimSpace key \<in> qi_key ` set (q_items q)"
  shows "fst (Enqueue c g now io key payload q) = q"
    and "snd (Enqueue c g now io key payload q) = Inr (it, b) \<Longrightarrow> \<not> b \<and> it \<in> set (q_items q) \<and> qi_key it = TrimSpace key"
proof -
  obtain i where f: "find (\<lambda>item. qi_key item = TrimSpace key) (q_items q) = Some i"
    using assms by (cases "find (\<lambda>item. qi_key item = TrimSpace key) (q_items q)")
      (auto simp: find_None_iff image_iff)
  then have i: "i \<in> set (q_items q)" "qi_key i = TrimSpace key" by (auto simp: find_Some_iff)
  show "fst (Enqueue c g now io key payload q) = q"
    using f by (cases c) (simp_all add: Enqueue_def contextError_def Let_def)
  show "snd (Enqueue c g now io key payload q) = Inr (it, b) \<Longrightarrow> \<not> b \<and> it \<in> set (q_items q) \<and> qi_key it = TrimSpace key"
    using f i by (cases c) (auto simp: Enqueue_def contextError_def Let_def split: if_splits)
qed

lemma Enqueue_key:
  assumes "snd (Enqueue c g now io key payload q) = Inr (it, b)"
  shows "TrimSpace key \<in> qi_key ` set (q_items (fst (Enqueue c g now io key payload q)))"
proof (cases "TrimSpace key \<in> qi_key ` set (q_items q)")
  case True
  then show ?thesis using Enqueue_known_key(1) by simp
next
  case False
  then have f: "find (\<lambda>item. qi_key item = TrimSpace key) (q_items q) = None"
    by (auto simp: find_None_iff image_iff)
  show ?thesis
  proof (cases rule: Enqueue_cases [of c g now io key payload q])
    case 1
    then show ?thesis using assms f by blast
  qed (simp add: new_item_def)
qed

text \<open>Once an enqueue has succeeded, an enqueue with the same key (up to surrounding spaces) at any later
  time, unless a cleanup ran, changes nothing and never creates a second item: if it succeeds it
  returns the item the queue already holds for that key.\<close>

theorem enqueue_idempotent:
  fixes ops :: "queue_op list"
  assumes "Enqueue c g now io key payload q = (q1, Inr (it, b))"
    and "list_all (\<lambda>x. \<not> is_cleanup x) ops" and "TrimSpace key' = TrimSpace key"
  defines "q2 \<equiv> fold queue_step ops q1"
  shows "fst (Enqueue c' g' now' io' key' payload' q2) = q2
     \<and> list_all (\<lambda>r. \<forall>it' b'. r = Inr (it', b') \<longrightarrow> \<not> b' \<and> it' \<in> set (q_items q2) \<and> qi_key it' = TrimSpace key)
         [snd (Enqueue c' g' now' io' key' payload' q2)]"
proof -
  have "TrimSpace key \<in> qi_key ` set (q_items q1)"
    using Enqueue_key [of c g now io key payload q it b] assms(1) by simp
  then have "TrimSpace key' \<in> qi_key ` set (q_items q2)"
    unfolding q2_def assms(3) using assms(2) by (rule key_run)
  note known = Enqueue_known_key [OF this]
  show ?thesis using known(1) known(2) assms(3) by (auto dest!: known(2))
qed

section \<open>Reopening\<close>

lemma validate_from_None:
  assumes "distinct (map qi_id items)" and "distinct (map qi_key items)"
    and "qi_id ` set items \<inter> ids = {}" and "qi_key ` set items \<inter> keys = {}"
    and "list_all (item_ok opts) items" and "list_all (\<lambda>i. qi_id i \<noteq> []) items"
  shows "validate_from ids keys items = None"
  using assms
proof (induction items arbitrary: ids keys)
  case (Cons i items)
  from Cons.prems have i: "item_ok opts i" "qi_id i \<noteq> []" by simp_all
  have st: "\<not> (\<exists>s. qi_status i = QueueOther s)"
    using i(1) by (auto simp: item_ok_def live_def terminal_def)
  have "validate_from (insert (qi_id i) ids) (insert (qi_key i) keys) items = None"
    using Cons.prems by (intro Cons.IH) auto
  then show ?case
    using i(1,2) st Cons.prems by (auto simp: item_ok_def split: queue_status.splits)
qed simp

fun op_ids :: "queue_op \<Rightarrow> string list" where
  "op_ids (OpEnqueue c (Inr ident) now io key payload) = [ident]"
| "op_ids _ = []"

definition generated_ids :: "queue_op list \<Rightarrow> string list" where
  "generated_ids ops = concat (map op_ids ops)"

lemma ids_step:
  assumes "distinct (map fst (ident_keys q) @ generated_ids (x # ops))"
    and "[] \<notin> set (map fst (ident_keys q) @ generated_ids (x # ops))"
  shows "distinct (map fst (ident_keys (queue_step x q)) @ generated_ids ops)"
    and "[] \<notin> set (map fst (ident_keys (queue_step x q)) @ generated_ids ops)"
proof -
  have gen: "generated_ids (x # ops) = op_ids x @ generated_ids ops" by (simp add: generated_ids_def)
  show "distinct (map fst (ident_keys (queue_step x q)) @ generated_ids ops)"
    by (cases rule: ident_keys_step [of x q])
      (use assms gen in \<open>auto simp: distinct_map_filter\<close>)
  show "[] \<notin> set (map fst (ident_keys (queue_step x q)) @ generated_ids ops)"
    by (cases rule: ident_keys_step [of x q])
      (use assms gen in auto)
qed

lemma ids_run:
  assumes "distinct (map fst (ident_keys q) @ generated_ids ops)"
    and "[] \<notin> set (map fst (ident_keys q) @ generated_ids ops)"
  shows "distinct (map fst (ident_keys (fold queue_step ops q)))
    \<and> [] \<notin> set (map fst (ident_keys (fold queue_step ops q)))"
  using assms
proof (induction ops arbitrary: q)
  case (Cons x ops)
  from ids_step [OF Cons.prems] show ?case using Cons.IH [of "queue_step x q"] by simp
qed simp

text \<open>
  Items that JSON leaves as they are: valid UTF-8 strings and a payload written compactly without
  characters that get escaped. The operations that put only such values into the queue are clean.
\<close>

definition item_clean :: "queue_item \<Rightarrow> bool" where
  "item_clean i \<longleftrightarrow> json_text (qi_id i) = qi_id i \<and> json_text (qi_key i) = qi_key i
     \<and> json_compact (qi_payload i) = qi_payload i
     \<and> json_text (qi_lease_owner i) = qi_lease_owner i \<and> json_text (qi_last_error i) = qi_last_error i"

fun op_clean :: "queue_op \<Rightarrow> bool" where
  "op_clean (OpEnqueue c g now io key payload) =
     (valid_utf8 (TrimSpace key) \<and> json_compact payload = payload
      \<and> (case g of Inl e \<Rightarrow> True | Inr ident \<Rightarrow> valid_utf8 ident))"
| "op_clean (OpClaim c now io worker) = valid_utf8 (TrimSpace worker)"
| "op_clean (OpFail c now io item worker cause) = valid_utf8 (boundedQueueError cause)"
| "op_clean _ = True"

lemma encoded_clean: "list_all item_clean items \<Longrightarrow> encoded items = items"
  unfolding encoded_def
  by (rule map_idI) (auto simp: list_all_iff item_clean_def stored_item_def)

lemma clean_texts [simp]:
  "json_text ''worker lease expired after final attempt'' = ''worker lease expired after final attempt''"
  "json_text ''worker lease expired'' = ''worker lease expired''" "json_text ''cancelled'' = ''cancelled''"
  by (rule json_text_ascii, simp)+

lemma clean_changes:
  "item_clean i \<Longrightarrow> item_clean (reconcile_item opts now i)"
  "item_clean i \<Longrightarrow> valid_utf8 worker \<Longrightarrow> item_clean (leased_item opts now worker i)"
  "item_clean i \<Longrightarrow> item_clean (cancelled_item now i)"
  "item_clean i \<Longrightarrow> item_clean (completed_item now None i)"
  "item_clean i \<Longrightarrow> valid_utf8 (boundedQueueError cause) \<Longrightarrow> item_clean (failed_item opts now cause i)"
  by (simp_all add: item_clean_def item_change_defs json_text_valid boundedQueueError_def Let_def)

lemma clean_mutateLease:
  assumes "list_all item_clean (q_items q)" and "\<And>i. item_clean i \<Longrightarrow> item_clean (f i)"
  shows "list_all item_clean (q_items (fst (mutateLease c io ident worker f q)))"
proof (cases rule: mutateLease_cases [of c io ident worker f q])
  case (2 j)
  then show ?thesis using index_of_items [OF 2(1)] assms by (simp add: list_all_length nth_list_update)
qed (use assms in simp)

lemma clean_Claim:
  assumes "list_all item_clean (q_items q)" and "valid_utf8 (TrimSpace worker)"
  shows "list_all item_clean (q_items (fst (Claim c now io worker q)))"
proof (cases rule: Claim_cases [of c now io worker q])
  case (2 j i)
  from claim_scan_Some [OF 2(1)] have "j < length (q_items q)"
    "i = map (reconcile_item (q_options q) now) (q_items q) ! j" by auto
  then show ?thesis unfolding 2(3)
    using assms by (auto simp: list_all_length nth_list_update clean_changes)
qed (use assms in simp)

lemma clean_CancelByKey:
  assumes "list_all item_clean (q_items q)"
  shows "list_all item_clean (q_items (fst (CancelByKey c now io key q)))"
proof (cases rule: CancelByKey_cases [of c now io key q])
  case (2 j)
  then show ?thesis using index_of_items [OF 2(1)] assms
    by (auto simp: list_all_length nth_list_update clean_changes)
qed (use assms in simp)

lemma clean_step:
  assumes "list_all item_clean (q_items q)" and "op_clean x"
  shows "list_all item_clean (q_items (queue_step x q))"
proof (cases x)
  case (OpEnqueue c g now io key payload)
  show ?thesis
  proof (cases rule: Enqueue_cases [of c g now io key payload q])
    case 1
    then show ?thesis using OpEnqueue assms by simp
  next
    case (2 ident)
    from 2(9) have "g = Inr ident"
      by (auto simp: Enqueue_def Let_def new_item_def split: option.splits sum.splits if_splits prod.splits)
    then have "item_clean (new_item ident now (TrimSpace key) payload)"
      using assms(2) OpEnqueue by (simp add: item_clean_def new_item_def json_text_valid)
    then show ?thesis using 2(8) assms(1) OpEnqueue by simp
  qed
next
  case (OpReconcile c now io)
  then show ?thesis using assms(1)
    by (cases c; cases io)
      (auto simp: Reconcile_def reconcileLocked_def contextError_def list_all_iff clean_changes)
next
  case (OpCleanup c now io olderThan)
  then show ?thesis using assms(1)
    by (cases c; cases io) (auto simp: CleanupTerminal_def contextError_def Let_def list_all_iff)
next
  case (OpClose io)
  then show ?thesis using assms(1) by (cases io) (simp_all add: Close_def persistLocked_def)
qed (use assms in \<open>simp_all add: clean_mutateLease clean_Claim clean_CancelByKey clean_changes fst_Complete Fail_def\<close>)

lemma clean_run:
  "list_all item_clean (q_items q) \<Longrightarrow> list_all op_clean ops \<Longrightarrow>
     list_all item_clean (q_items (fold queue_step ops q))"
  by (induction ops arbitrary: q) (simp_all add: clean_step)

text \<open>The state file of a queue whose items JSON leaves as they are, as \<open>os.ReadFile\<close> finds it: the bytes
  \<open>state_json\<close> writes, which decode to the items written.\<close>

definition reopened :: "(instant \<Rightarrow> string) \<Rightarrow> queue \<Rightarrow> queue_file" where
  "reopened fmt q =
     (case q_disk q of
        None \<Rightarrow> FileMissing
      | Some items \<Rightarrow> FileBytes (length (state_json fmt items)) (Inr (queueStateVersion, items)))"

text \<open>A byte of a string takes at most six bytes of the file.\<close>

lemma length_quoted_text: "length (quoted_text s) \<le> 6 * length s"
proof (induction s rule: quoted_text.induct)
  case (2 c r)
  have rune: "length (quoted_rune v b) \<le> max 6 (length b)" for v b
    by (auto simp: quoted_rune_def Let_def)
  show ?case
  proof (cases "decode_rune (c # r)")
    case (Some p)
    obtain v n where p: "p = (v, n)" by fastforce
    have "length (quoted_text (drop (n - 1) r)) \<le> 6 * length (drop (n - 1) r)"
      using 2 Some p by simp
    moreover have "length (quoted_rune v (c # take (n - 1) r)) \<le> 6 + 6 * length (take (n - 1) r)"
      using rune [of v "c # take (n - 1) r"] by simp
    ultimately show ?thesis using Some p by simp
  qed (use 2 in simp)
qed simp

text \<open>The payloads alone are a lower bound of the size of the file.\<close>

lemma length_item_json: "length (json_compact (qi_payload i)) \<le> length (item_json fmt i)"
  by (simp add: item_json_def json_field_def)

lemma length_comma_separated: "sum_list (map length ts) \<le> length (comma_separated ts)"
  by (induction ts rule: comma_separated.induct) auto

lemma state_json_payloads:
  "(\<Sum>i \<leftarrow> items. length (json_compact (qi_payload i))) \<le> length (state_json fmt items)"
proof -
  have "(\<Sum>i \<leftarrow> items. length (json_compact (qi_payload i))) \<le> (\<Sum>i \<leftarrow> items. length (item_json fmt i))"
    by (intro sum_list_mono) (rule length_item_json)
  also have "\<dots> \<le> length (comma_separated (map (item_json fmt) items))"
    using length_comma_separated [of "map (item_json fmt) items"] by (simp add: comp_def)
  also have "\<dots> \<le> length (state_json fmt items)"
    by (simp add: state_json_def json_field_def)
  finally show ?thesis .
qed


section \<open>A concrete queue\<close>

definition sample_options :: queue_options where
  "sample_options = \<lparr>qo_capacity = 2, qo_max_attempts = 2, qo_lease_duration = 10,
     qo_base_backoff = 4, qo_max_backoff = 16, qo_jitter = Some (queueJitter (\<lambda>m. Some (m - 1)))\<rparr>"

definition sample_empty :: queue where
  "sample_empty = \<lparr>q_options = sample_options, q_items = [], q_closed = False, q_disk = None\<rparr>"

definition sample_pending :: queue_item where
  "sample_pending = new_item ''a'' 5 ''k'' ''{}''"

definition sample_leased :: queue_item where
  "sample_leased = leased_item sample_options 6 ''w'' sample_pending"

definition sample_with :: "queue_item \<Rightarrow> queue" where
  "sample_with i = sample_empty\<lparr>q_items := [i], q_disk := Some (encoded [i])\<rparr>"

definition sample_ops :: "queue_op list" where
  "sample_ops = [OpEnqueue None (Inr ''a'') 5 None ''k'' ''{}'', OpClaim None 6 None ''w'',
     OpFail None 7 (Some ''disk full'') ''a'' ''w'' None, OpFail None 8 None ''a'' ''w'' None,
     OpEnqueue None (Inr ''b'') 9 None ''k2'' ''[1]'', OpClaim None 20 None ''w2'']"

lemma sample_trim [simp]:
  "TrimSpace ''k'' = ''k''" "TrimSpace ''w'' = ''w''" "TrimSpace ''/q'' = ''/q''"
  "TrimSpace '' k'' = ''k''"
  by code_simp+

lemma sample_json [simp]: "json_valid ''{}''"
  by code_simp

lemma sample_clean [simp]: "\<not> ContainsAny ''k'' nul_cr_lf" "\<not> ContainsAny ''w'' nul_cr_lf"
  by code_simp+

lemma sample_options_ok: "options_ok sample_options" "options_in_range sample_options"
  by (simp_all add: options_ok_def options_in_range_def sample_options_def)

lemma sample_open: "OpenQueue dj None FileMissing ''/q'' sample_options = Inr sample_empty"
  by (simp add: OpenQueue_def normalizeQueueOptions_def sample_options_def sample_empty_def Let_def)

lemma sample_claim:
  "Claim None 6 None ''w'' (sample_with sample_pending) = (sample_with sample_leased, Inr sample_leased)"
  by (simp add: Claim_def contextError_def sample_with_def sample_empty_def reconcileLocked_def
      reconcile_item_def sample_pending_def new_item_def claimable_def sample_leased_def Let_def)

lemma sample_complete:
  "Complete None 8 None ''a'' ''w'' (sample_with sample_leased) =
     (sample_with (completed_item 8 None sample_leased), None)"
  by (simp add: Complete_def mutateLease_def contextError_def sample_with_def sample_empty_def
      sample_leased_def leased_item_def sample_pending_def new_item_def Let_def)

lemma sample_enqueue:
  "Enqueue None (Inr ''a'') 5 None ''k'' ''{}'' sample_empty =
     (sample_with sample_pending, Inr (sample_pending, True))"
  by (simp add: Enqueue_def contextError_def sample_with_def sample_empty_def sample_pending_def
      new_item_def sample_options_def maxQueuePayload_def Let_def)

theorem claim_earliest_witness:
  "\<exists>it. Claim None 6 None ''w'' (sample_with sample_pending) = (sample_with it, Inr it)
     \<and> q_items (sample_with it) = [sample_pending][0 := it]
     \<and> it = leased_item sample_options 6 ''w'' sample_pending"
proof -
  have items: "map (reconcile_item sample_options 6) [sample_pending] = [sample_pending]"
    by (simp add: reconcile_item_def sample_pending_def new_item_def)
  show ?thesis
    using claim_earliest [OF sample_claim] sample_claim items
    by (auto simp: sample_with_def sample_empty_def)
qed

theorem queue_invariant_witness:
  "int (length (filter live (q_items (fold queue_step sample_ops sample_empty)))) \<le> 
     qo_capacity (q_options (fold queue_step sample_ops sample_empty))"
  using queue_invariant [OF sample_open [of "\<lambda>_. 0"] sample_options_ok(2), of sample_ops] by simp

theorem state_file_current_witness:
  "q_disk (fold queue_step sample_ops sample_empty) =
     Some (encoded (q_items (fold queue_step sample_ops sample_empty)))
   \<or> q_items (fold queue_step sample_ops sample_empty) = []"
  using state_file_current [OF sample_open [of "\<lambda>_. 0"], of sample_ops] by blast

theorem write_failure_witness:
  "queue_step (OpClaim None 6 (Some ''disk full'') ''w'') (sample_with sample_pending) = sample_with sample_pending"
  by (rule write_failure_changes_nothing) simp

theorem complete_once_witness:
  "snd (Complete None 8 None ''a'' ''w'' (sample_with sample_leased)) = None
   \<and> snd (Complete None 9 None ''a'' ''w'' (sample_with (completed_item 8 None sample_leased))) \<noteq> None"
  using complete_once [OF sample_complete, of None 9 None "''w''"] sample_complete by simp

theorem terminal_items_witness:
  "completed_item 8 None sample_leased \<in>
     set (q_items (fold queue_step sample_ops (sample_with (completed_item 8 None sample_leased))))"
  by (rule terminal_items_final)
    (simp_all add: sample_with_def completed_item_def terminal_def sample_ops_def)

theorem retry_delay_witness: "retryDelay sample_options 2 = 8 \<and> retryDelay sample_options 9 = 16"
  using retry_delay_closed_form [OF sample_options_ok(1), of 2]
    retry_delay_closed_form [OF sample_options_ok(1), of 9]
  by (simp add: sample_options_def)

theorem retry_window_witness:
  "qi_status (failed_item sample_options 8 None sample_leased) = QueuePending
   \<and> qi_available (failed_item sample_options 8 None sample_leased) \<in> {12..13}"
proof -
  have "qo_jitter sample_options = Some (queueJitter (\<lambda>m. if 0 < m then Some (m - 1) else None))"
    by (auto simp: sample_options_def queueJitter_def Let_def fun_eq_iff)
  note window = retry_window [OF sample_options_ok(1) _ this, of sample_leased 8 None]
  have rand: "0 \<le> v \<and> v < m" if "(if 0 < m then Some (m - 1) else None) = Some v" for m v :: int
    using that by (auto split: if_splits)
  have "qi_attempts sample_leased = 1"
    by (simp add: sample_leased_def leased_item_def sample_pending_def new_item_def wrap64_def)
  moreover have "retryDelay sample_options 1 = 4"
    by (simp add: retryDelay_def sample_options_def)
  ultimately show ?thesis
    using window [OF _ rand] by (simp add: sample_options_def)
qed

lemma sample_stored:
  "length (state_json (\<lambda>_. ''2026-01-01T00:00:00Z'') [sample_pending]) \<le> maxQueueFileBytes"
proof -
  have payload: "json_compact ''{}'' = ''{}''" by code_simp
  have "length (json_quote s) \<le> 6 * length s + 2" for s
    using length_quoted_text [of s] by (simp add: json_quote_def)
  note quote = this [of "''id''"] this [of "''a''"] this [of "''idempotency_key''"] this [of "''k''"]
    this [of "''payload''"] this [of "''status''"] this [of "''pending''"] this [of "''attempts''"]
    this [of "''available_at''"] this [of "''lease_until''"] this [of "''created_at''"]
    this [of "''updated_at''"] this [of "''2026-01-01T00:00:00Z''"] this [of "''version''"] this [of "''items''"]
  show ?thesis
    using quote
    by (simp add: state_json_def item_json_def json_field_def omit_if_empty_def sample_pending_def new_item_def
        payload int_text_def digits.simps queueStateVersion_def maxQueueFileBytes_def)
qed


theorem enqueue_idempotent_witness:
  "fst (Enqueue None (Inr ''b'') 9 None '' k'' ''{}'' (fold queue_step sample_ops (sample_with sample_pending)))
     = fold queue_step sample_ops (sample_with sample_pending)"
  using enqueue_idempotent [OF sample_enqueue, of sample_ops "'' k''" None "Inr ''b''" 9 None "''{}''"]
  by (simp add: sample_ops_def)

section \<open>State files the queue refuses\<close>

text \<open>Nothing bounds what the queue writes: items whose payloads exceed 16 MB together, seventeen finished
  items of one megabyte, say, are written to a file that \<open>OpenQueue\<close> refuses.\<close>

theorem large_state_refused:
  assumes "maxQueueFileBytes < (\<Sum>i \<leftarrow> items. length (json_compact (qi_payload i)))"
    and "q_disk q = Some items" and "TrimSpace path \<noteq> []"
  shows "OpenQueue dj None (reopened fmt q) path opts = Inl FileTooLarge"
  using assms state_json_payloads [of items fmt] by (simp add: OpenQueue_def Let_def reopened_def)

text \<open>
  Escaping can make a payload longer than the limit that opening the file checks again: a payload of
  200002 bytes is accepted and written, and the file it is in cannot be opened any more.
\<close>

theorem accepted_payload_refused:
  assumes "n \<le> maxQueueFileBytes"
  shows "\<exists>it q items. Enqueue None (Inr ''a'') 5 None ''k'' (brackets 200000) sample_empty = (q, Inr (it, True))
     \<and> q_disk q = Some items
     \<and> OpenQueue dj None (FileBytes n (Inr (queueStateVersion, items))) ''/q'' sample_options = Inl InvalidItem"
proof -
  have len: "length (brackets 200000) = 200002" by (simp add: brackets_def)
  let ?it = "new_item ''a'' 5 ''k'' (brackets 200000)"
  let ?q = "sample_with ?it"
  have "Enqueue None (Inr ''a'') 5 None ''k'' (brackets 200000) sample_empty = (?q, Inr (?it, True))"
    by (simp add: Enqueue_def contextError_def sample_with_def sample_empty_def new_item_def
        sample_options_def maxQueuePayload_def Let_def len brackets_valid)
  moreover have "validateQueueItems (encoded [?it]) = Some InvalidItem"
    using brackets_stored [of 200000]
    by (simp add: validateQueueItems_def encoded_def stored_item_def new_item_def maxQueuePayload_def)
  then have "OpenQueue dj None (FileBytes n (Inr (queueStateVersion, encoded [?it]))) ''/q'' sample_options
      = Inl InvalidItem"
    using assms by (simp add: OpenQueue_def Let_def)
  moreover have "q_disk ?q = Some (encoded [?it])" by (simp add: sample_with_def)
  ultimately show ?thesis by blast
qed

text \<open>
  Two keys that are not valid UTF-8 are different in memory and the same in the file, which then
  cannot be opened.
\<close>

theorem colliding_keys_refused:
  assumes "n \<le> maxQueueFileBytes"
  shows "\<exists>items. q_disk (fold queue_step
       [OpEnqueue None (Inr ''a'') 5 None [CHR 0xFE] ''{}'', OpEnqueue None (Inr ''b'') 6 None [CHR 0xFF] ''{}'']
       sample_empty) = Some items
     \<and> OpenQueue dj None (FileBytes n (Inr (queueStateVersion, items))) ''/q'' sample_options = Inl DuplicateKey"
proof -
  have trim: "TrimSpace [CHR 0xFE] = [CHR 0xFE]" "TrimSpace [CHR 0xFF] = [CHR 0xFF]"
    "\<not> ContainsAny [CHR 0xFE] nul_cr_lf" "\<not> ContainsAny [CHR 0xFF] nul_cr_lf"
    "json_text [CHR 0xFE] = json_text [CHR 0xFF]" "json_text ''a'' = ''a''" "json_text ''b'' = ''b''"
    "json_compact ''{}'' = ''{}''"
    by code_simp+
  have "json_text [CHR 0xFF] \<noteq> []" by simp
  then show ?thesis
    using assms
    by (simp add: Enqueue_def contextError_def sample_empty_def sample_options_def maxQueuePayload_def
        Let_def trim OpenQueue_def validateQueueItems_def encoded_def stored_item_def)
qed

end
