(* ===== verification/Queue_Worker.thy ===== *)
theory Queue_Worker
  imports Queue_Properties
begin

text \<open>
  The worker loop of the task queue (\<open>QueueWorker\<close> in \<open>internal/tasks/queue.go\<close>), and the bound on
  how often one item reaches a handler.
\<close>

section \<open>The worker\<close>

record queue_worker =
  qw_id :: string
  qw_poll_interval :: duration

definition NewQueueWorker :: "bool \<Rightarrow> bool \<Rightarrow> string \<Rightarrow> duration \<Rightarrow> queue_worker option" where
  "NewQueueWorker queue_nil handler_nil ident poll =
     (let ident' = TrimSpace ident
      in if queue_nil \<or> handler_nil \<or> ident' = [] then None
         else Some \<lparr>qw_id = ident', qw_poll_interval = (if poll \<le> 0 then 100000000 else poll)\<rparr>)"

text \<open>
  One iteration of \<open>run\<close>. What the environment contributes to it: whether the stop channel or the
  context is ready in the first \<open>select\<close>, context, clock and write outcome of the claim, which case
  of the second \<open>select\<close> fires while the queue is empty, the handler's answer, the operations
  other clients of the queue perform while the handler runs, and clock and write outcome of the
  final report.
\<close>

datatype worker_wait = WaitStopped | WaitCancelled | WaitTimer

record worker_round =
  wr_stopped :: bool
  wr_cancelled :: bool
  wr_ctx :: ctx
  wr_claim_now :: instant
  wr_claim_io :: "string option"
  wr_wait :: worker_wait
  wr_handler :: "queue_item \<Rightarrow> string option"
  wr_others :: "queue_op list"
  wr_done_now :: instant
  wr_done_io :: "string option"

text \<open>The result is the queue, the item passed to the handler, and whether \<open>run\<close> goes on.\<close>

definition run_round :: "queue_worker \<Rightarrow> worker_round \<Rightarrow> queue \<Rightarrow> queue \<times> queue_item option \<times> bool" where
  "run_round w r q =
     (if wr_stopped r \<or> wr_cancelled r then (q, None, False)
      else (case Claim (wr_ctx r) (wr_claim_now r) (wr_claim_io r) (qw_id w) q of
          (q1, Inl ErrQueueEmpty) \<Rightarrow> (q1, None, wr_wait r = WaitTimer)
        | (q1, Inl e) \<Rightarrow> (q1, None, False)
        | (q1, Inr item) \<Rightarrow>
            (let q2 = fold queue_step (wr_others r) q1
             in (case wr_handler r item of
                   Some cause \<Rightarrow>
                     (fst (Fail None (wr_done_now r) (wr_done_io r) (qi_id item) (qw_id w) (Some cause) q2),
                      Some item, True)
                 | None \<Rightarrow>
                     (fst (Complete None (wr_done_now r) (wr_done_io r) (qi_id item) (qw_id w) q2),
                      Some item, True)))))"

fun run_rounds :: "queue_worker \<Rightarrow> worker_round list \<Rightarrow> queue \<Rightarrow> queue \<times> queue_item list" where
  "run_rounds w [] q = (q, [])"
| "run_rounds w (r # rs) q =
     (case run_round w r q of (q1, handled, go_on) \<Rightarrow>
        (let (q2, more) = (if go_on then run_rounds w rs q1 else (q1, []))
         in (q2, (case handled of None \<Rightarrow> more | Some i \<Rightarrow> i # more))))"

definition run_worker ::
    "queue_worker \<Rightarrow> instant \<Rightarrow> string option \<Rightarrow> worker_round list \<Rightarrow> queue \<Rightarrow> queue \<times> queue_item list" where
  "run_worker w now io rs q = run_rounds w rs (fst (Reconcile None now io q))"

section \<open>How often an item is handed out\<close>

text \<open>The items successful claims of a run return, in order.\<close>

fun claimed_by :: "queue_op \<Rightarrow> queue \<Rightarrow> queue_item list" where
  "claimed_by (OpClaim c now io worker) q =
     (case snd (Claim c now io worker q) of Inl e \<Rightarrow> [] | Inr i \<Rightarrow> [i])"
| "claimed_by _ q = []"

fun claimed :: "queue_op list \<Rightarrow> queue \<Rightarrow> queue_item list" where
  "claimed [] q = []"
| "claimed (x # ops) q = claimed_by x q @ claimed ops (queue_step x q)"

definition handed_out :: "string \<Rightarrow> queue_item list \<Rightarrow> nat" where
  "handed_out ident items = length (filter (\<lambda>i. qi_id i = ident) items)"

text \<open>The claims an item has left: the attempts it has not used.\<close>

definition left :: "queue_options \<Rightarrow> string \<Rightarrow> queue_item \<Rightarrow> nat" where
  "left opts ident i = (if qi_id i = ident then nat (qo_max_attempts opts - qi_attempts i) else 0)"

definition budget :: "string \<Rightarrow> queue \<Rightarrow> nat" where
  "budget ident q = sum_list (map (left (q_options q) ident) (q_items q))"

lemma handed_out_simps [simp]:
  "handed_out ident [] = 0"
  "handed_out ident (xs @ ys) = handed_out ident xs + handed_out ident ys"
  "handed_out ident (i # xs) = (if qi_id i = ident then 1 else 0) + handed_out ident xs"
  by (simp_all add: handed_out_def)

lemma left_changes [simp]:
  "left opts ident (reconcile_item o1 now i) = left opts ident i"
  "left opts ident (cancelled_item now i) = left opts ident i"
  "left opts ident (completed_item now cause i) = left opts ident i"
  "left opts ident (failed_item o1 now cause i) = left opts ident i"
  by (simp_all add: left_def item_change_defs)

lemma left_leased:
  assumes "item_ok opts i" and "qi_status i = QueuePending" and "options_ok opts"
  shows "(if qi_id i = ident then 1 else 0) + left opts ident (leased_item opts now worker i) = left opts ident i"
proof -
  have "0 \<le> qi_attempts i" "qi_attempts i < qo_max_attempts opts" "qo_max_attempts opts < 2 ^ 63"
    using assms by (simp_all add: item_ok_def options_ok_def)
  then show ?thesis by (auto simp: left_def leased_item_def)
qed

lemma sum_list_filter_le: "sum_list (map f (filter P xs)) \<le> (sum_list (map f xs) :: nat)"
  by (induction xs) auto

lemma sum_list_map_update:
  assumes "j < length xs" and "a + f y = f (xs ! j)"
  shows "a + sum_list (map f (xs[j := y])) = (sum_list (map f xs) :: nat)"
  using assms
proof (induction xs arbitrary: j)
  case (Cons x xs)
  then show ?case by (cases j) auto
qed simp

lemma budget_mutateLease:
  assumes "\<And>o1 i. left o1 ident (f i) = left o1 ident i"
  shows "budget ident (fst (mutateLease c io itemID worker f q)) = budget ident q"
proof (cases rule: mutateLease_cases [of c io itemID worker f q])
  case (2 j)
  have "0 + sum_list (map (left (q_options q) ident) ((q_items q)[j := f (q_items q ! j)]))
      = sum_list (map (left (q_options q) ident) (q_items q))"
    using index_of_items [OF 2(1)] assms by (intro sum_list_map_update) simp_all
  then show ?thesis unfolding 2(4) by (simp add: budget_def)
qed simp

lemma budget_Claim:
  assumes "queue_ok q"
  shows "handed_out ident (claimed_by (OpClaim c now io worker) q) + budget ident (fst (Claim c now io worker q))
    = budget ident q"
proof (cases rule: Claim_cases [of c now io worker q])
  case 1
  then show ?thesis by (cases "snd (Claim c now io worker q)") auto
next
  case (2 j i)
  let ?o = "q_options q" and ?w = "TrimSpace worker"
  let ?items = "map (reconcile_item ?o now) (q_items q)"
  from claim_scan_Some [OF 2(1)] have j: "j < length ?items" "i = ?items ! j" "claimable now i"
    by auto
  have "item_ok ?o i"
    using j queue_okD(1,2) [OF assms] tame_reconcile [of ?o now "q_items q ! j"]
    by (auto simp: tame_def list_all_length)
  then have "(if qi_id i = ident then 1 else 0) + left ?o ident (leased_item ?o now ?w i) = left ?o ident (?items ! j)"
    using j(2,3) queue_okD(1) [OF assms] left_leased [of ?o i ident now ?w] by (simp add: claimable_def)
  from sum_list_map_update [OF j(1) this]
  show ?thesis unfolding budget_def 2(3) using 2(4) by (simp add: comp_def)
qed

lemma budget_step:
  assumes "queue_ok q"
  shows "handed_out ident (claimed_by x q) + budget ident (queue_step x q)
    \<le> budget ident q + nat (qo_max_attempts (q_options q)) * count_list (op_ids x) ident"
proof (cases x)
  case (OpEnqueue c g now io key payload)
  show ?thesis
  proof (cases rule: Enqueue_cases [of c g now io key payload q])
    case (2 i)
    have "g = Inr i"
      using 2(9) by (auto simp: Enqueue_def Let_def new_item_def split: option.splits sum.splits if_splits prod.splits)
    then show ?thesis
      unfolding OpEnqueue using 2(8) by (simp add: budget_def left_def new_item_def)
  qed (simp add: OpEnqueue)
next
  case (OpClaim c now io worker)
  then show ?thesis using budget_Claim [OF assms, of ident c now io worker] by simp
next
  case (OpCancel c now io key)
  show ?thesis
  proof (cases rule: CancelByKey_cases [of c now io key q])
    case (2 j)
    have "0 + sum_list (map (left (q_options q) ident) ((q_items q)[j := cancelled_item now (q_items q ! j)]))
        = sum_list (map (left (q_options q) ident) (q_items q))"
      using index_of_items [OF 2(1)] by (intro sum_list_map_update) simp_all
    then show ?thesis unfolding OpCancel using 2(3) by (simp add: budget_def)
  qed (simp add: OpCancel)
next
  case (OpReconcile c now io)
  then show ?thesis
    by (cases c; cases io)
      (simp_all add: Reconcile_def reconcileLocked_def contextError_def budget_def comp_def)
next
  case (OpCleanup c now io olderThan)
  then show ?thesis
    by (cases c; cases io)
      (simp_all add: CleanupTerminal_def contextError_def budget_def Let_def sum_list_filter_le)
next
  case (OpClose io)
  then show ?thesis by (cases io) (simp_all add: Close_def persistLocked_def budget_def)
qed (simp_all add: fst_Complete Fail_def budget_mutateLease)

lemma options_mutateLease [simp]: "q_options (fst (mutateLease c io ident worker f q)) = q_options q"
  by (cases rule: mutateLease_cases [of c io ident worker f q]) simp_all

lemma options_step [simp]: "q_options (queue_step x q) = q_options q"
proof (cases x)
  case (OpEnqueue c g now io key payload)
  then show ?thesis by (cases rule: Enqueue_cases [of c g now io key payload q]) simp_all
next
  case (OpClaim c now io worker)
  then show ?thesis by (cases rule: Claim_cases [of c now io worker q]) simp_all
next
  case (OpCancel c now io key)
  then show ?thesis by (cases rule: CancelByKey_cases [of c now io key q]) simp_all
next
  case (OpReconcile c now io)
  then show ?thesis
    by (cases c; cases io) (simp_all add: Reconcile_def reconcileLocked_def contextError_def)
next
  case (OpCleanup c now io olderThan)
  then show ?thesis
    by (cases c; cases io) (simp_all add: CleanupTerminal_def contextError_def Let_def)
next
  case (OpClose io)
  then show ?thesis by (cases io) (simp_all add: Close_def persistLocked_def)
qed (simp_all add: fst_Complete Fail_def)

lemma generated_ids_Cons [simp]:
  "generated_ids (x # ops) = op_ids x @ generated_ids ops" "generated_ids [] = []"
  by (simp_all add: generated_ids_def)

lemma budget_run:
  assumes "queue_ok q"
  shows "handed_out ident (claimed ops q)
    \<le> budget ident q + nat (qo_max_attempts (q_options q)) * count_list (generated_ids ops) ident"
  using assms
proof (induction ops arbitrary: q)
  case (Cons x ops)
  from Cons.IH [OF queue_ok_step [OF Cons.prems], of x] budget_step [OF Cons.prems, of ident x]
  show ?case by (simp add: algebra_simps)
qed simp

lemma count_list_distinct_le: "distinct xs \<Longrightarrow> count_list xs x \<le> 1"
  by (induction xs) (auto simp: count_notin)

text \<open>C1: Bounded delivery: from a new queue, whatever clients and workers do and in whichever order,
  no item is handed out more often than the maximum number of attempts.\<close>

theorem bounded_delivery:
  fixes ops :: "queue_op list"
  assumes "OpenQueue dj mk FileMissing path opts = Inr q0" and "options_in_range opts"
    and "distinct (generated_ids ops)"
  shows "int (handed_out ident (claimed ops q0)) \<le> qo_max_attempts (q_options q0)"
proof -
  note q0 = queue_ok_open [OF assms(1,2)]
  have "handed_out ident (claimed ops q0) \<le> nat (qo_max_attempts (q_options q0)) * count_list (generated_ids ops) ident"
    using budget_run [OF q0(1), of ident ops] q0(2) by (simp add: budget_def)
  also have "\<dots> \<le> nat (qo_max_attempts (q_options q0)) * 1"
    using assms(3) by (intro mult_le_mono2 count_list_distinct_le)
  finally have "handed_out ident (claimed ops q0) \<le> nat (qo_max_attempts (q_options q0))" by simp
  moreover have "0 < qo_max_attempts (q_options q0)" using queue_okD(1) [OF q0(1)] by (simp add: options_ok_def)
  ultimately show ?thesis by arith
qed

section \<open>The worker as a client of the queue\<close>

lemma claimed_append: "claimed (xs @ ys) q = claimed xs q @ claimed ys (fold queue_step xs q)"
  by (induction xs arbitrary: q) simp_all

text \<open>An iteration of the worker is a run of queue operations that claims what it handles.\<close>

lemma run_round_ops:
  obtains ops where "fst (run_round w r q) = fold queue_step ops q"
    and "set (generated_ids ops) \<subseteq> set (generated_ids (wr_others r))"
    and "distinct (generated_ids (wr_others r)) \<Longrightarrow> distinct (generated_ids ops)"
    and "handed_out ident (case fst (snd (run_round w r q)) of None \<Rightarrow> [] | Some i \<Rightarrow> [i])
      \<le> handed_out ident (claimed ops q)"
proof -
  let ?claim = "OpClaim (wr_ctx r) (wr_claim_now r) (wr_claim_io r) (qw_id w)"
  obtain q1 res where claim: "Claim (wr_ctx r) (wr_claim_now r) (wr_claim_io r) (qw_id w) q = (q1, res)"
    by fastforce
  show ?thesis
  proof (cases "wr_stopped r \<or> wr_cancelled r")
    case True
    then show ?thesis by (intro that [of "[]"]) (simp_all add: run_round_def)
  next
    case running: False
    show ?thesis
    proof (cases res)
      case (Inl e)
      have "fst (run_round w r q) = q1 \<and> fst (snd (run_round w r q)) = None"
        using running claim Inl by (cases e) (simp_all add: run_round_def)
      then show ?thesis using claim by (intro that [of "[?claim]"]) simp_all
    next
      case (Inr i)
      let ?report = "case wr_handler r i of
          None \<Rightarrow> OpComplete None (wr_done_now r) (wr_done_io r) (qi_id i) (qw_id w)
        | Some e \<Rightarrow> OpFail None (wr_done_now r) (wr_done_io r) (qi_id i) (qw_id w) (Some e)"
      have "op_ids ?report = []" by (simp split: option.splits)
      then have "generated_ids (?claim # wr_others r @ [?report]) = generated_ids (wr_others r)"
        by (simp add: generated_ids_def)
      moreover have "run_round w r q = (fold queue_step (?claim # wr_others r @ [?report]) q, Some i, True)"
        using running claim Inr by (simp add: run_round_def Let_def split: option.splits)
      ultimately show ?thesis
        using claim Inr by (intro that [of "?claim # wr_others r @ [?report]"]) simp_all
    qed
  qed
qed

lemma run_rounds_ops:
  assumes "distinct (generated_ids (concat (map wr_others rs)))"
  shows "\<exists>ops. fst (run_rounds w rs q) = fold queue_step ops q
    \<and> set (generated_ids ops) \<subseteq> set (generated_ids (concat (map wr_others rs)))
    \<and> distinct (generated_ids ops)
    \<and> handed_out ident (snd (run_rounds w rs q)) \<le> handed_out ident (claimed ops q)"
  using assms
proof (induction rs arbitrary: q)
  case Nil
  then show ?case by (intro exI [of _ "[]"]) simp
next
  case (Cons r rs)
  obtain q1 h g where r: "run_round w r q = (q1, h, g)" by (metis prod_cases3)
  obtain ops1 where o1: "q1 = fold queue_step ops1 q"
    "set (generated_ids ops1) \<subseteq> set (generated_ids (wr_others r))" "distinct (generated_ids ops1)"
    "handed_out ident (case h of None \<Rightarrow> [] | Some i \<Rightarrow> [i]) \<le> handed_out ident (claimed ops1 q)"
    using run_round_ops [of w r q ident] Cons.prems r by (auto simp: generated_ids_def)
  have split: "generated_ids (xs @ ys) = generated_ids xs @ generated_ids ys" for xs ys
    by (simp add: generated_ids_def)
  obtain ops2 where o2: "fst (run_rounds w rs q1) = fold queue_step ops2 q1"
    "set (generated_ids ops2) \<subseteq> set (generated_ids (concat (map wr_others rs)))" "distinct (generated_ids ops2)"
    "handed_out ident (snd (run_rounds w rs q1)) \<le> handed_out ident (claimed ops2 q1)"
    using Cons.IH [of q1] Cons.prems by (auto simp: split)
  show ?case
  proof (cases g)
    case True
    then show ?thesis
      using r o1 o2 Cons.prems
      by (intro exI [of _ "ops1 @ ops2"])
        (auto simp: split claimed_append Let_def split: prod.splits option.splits)
  next
    case False
    then show ?thesis
      using r o1 by (intro exI [of _ ops1]) (auto simp: split Let_def split: option.splits)
  qed
qed

text \<open>A worker, with other clients adding, claiming and finishing items while its handler runs, calls the
  handler for one item at most the maximum number of attempts times.\<close>

theorem handler_calls_bounded:
  assumes "OpenQueue dj mk FileMissing path opts = Inr q0" and "options_in_range opts"
    and "distinct (generated_ids (before @ concat (map wr_others rs)))"
  shows "int (handed_out ident (snd (run_worker w now io rs (fold queue_step before q0))))
     \<le> qo_max_attempts (q_options q0)"
proof -
  have split: "generated_ids (xs @ ys) = generated_ids xs @ generated_ids ys" for xs ys
    by (simp add: generated_ids_def)
  let ?start = "before @ [OpReconcile None now io]"
  obtain ops where ops: "set (generated_ids ops) \<subseteq> set (generated_ids (concat (map wr_others rs)))"
    "distinct (generated_ids ops)"
    "handed_out ident (snd (run_rounds w rs (fold queue_step ?start q0)))
      \<le> handed_out ident (claimed ops (fold queue_step ?start q0))"
    using run_rounds_ops [of rs w "fold queue_step ?start q0" ident] assms(3) by (auto simp: split)
  note q0 = queue_ok_open [OF assms(1,2)]
  have "distinct (generated_ids (?start @ ops))"
    using assms(3) ops(1,2) by (auto simp: split)
  then have count: "count_list (generated_ids (?start @ ops)) ident \<le> 1"
    by (rule count_list_distinct_le)
  have "handed_out ident (claimed (?start @ ops) q0)
      \<le> nat (qo_max_attempts (q_options q0)) * count_list (generated_ids (?start @ ops)) ident"
    using budget_run [OF q0(1), of ident "?start @ ops"] q0(2) by (simp add: budget_def)
  also have "\<dots> \<le> nat (qo_max_attempts (q_options q0)) * 1"
    using count by (rule mult_le_mono2)
  finally have "handed_out ident (claimed ops (fold queue_step ?start q0)) \<le> nat (qo_max_attempts (q_options q0))"
    by (simp add: claimed_append)
  then have "handed_out ident (snd (run_worker w now io rs (fold queue_step before q0)))
      \<le> nat (qo_max_attempts (q_options q0))"
    using ops(3) by (simp add: run_worker_def)
  moreover have "0 < qo_max_attempts (q_options q0)" using queue_okD(1) [OF q0(1)] by (simp add: options_ok_def)
  ultimately show ?thesis by arith
qed

lemma index_of_distinct:
  "distinct (map f xs) \<Longrightarrow> j < length xs \<Longrightarrow> index_of (\<lambda>x. f x = f (xs ! j)) xs = Some j"
proof (induction xs arbitrary: j)
  case (Cons x xs)
  have "f x \<noteq> f (xs ! k)" if "k < length xs" for k
    using Cons.prems(1) nth_mem [OF that] by (metis distinct.simps(2) image_eqI list.set_map list.simps(9))
  then show ?case using Cons by (cases j) auto
qed simp

text \<open>When the handler of a claimed item returns and the queue can be written, the item is completed if
  the handler succeeded and retried or dead with the handler's error if it failed, nothing else
  changes, and the worker goes on.\<close>

theorem worker_reports_outcome:
  assumes "NewQueueWorker False False ident poll = Some w"
    and "Claim (wr_ctx r) (wr_claim_now r) (wr_claim_io r) (qw_id w) q = (q1, Inr item)"
    and "\<not> wr_stopped r" and "\<not> wr_cancelled r" and "wr_others r = []" and "wr_done_io r = None"
    and "distinct (map qi_id (q_items q))" and "\<not> q_closed q"
  shows "\<exists>q2 j. run_round w r q = (q2, Some item, True) \<and> q_items q1 ! j = item
     \<and> q_items q2 = (q_items q1)[j :=
          (case wr_handler r item of
             None \<Rightarrow> completed_item (wr_done_now r) None item
           | Some e \<Rightarrow> failed_item (q_options q) (wr_done_now r) (Some e) item)]"
proof -
  have trim: "TrimSpace (qw_id w) = qw_id w"
    using assms(1) by (auto simp: NewQueueWorker_def Let_def TrimSpace_idem split: if_splits)
  let ?items = "map (reconcile_item (q_options q) (wr_claim_now r)) (q_items q)"
  obtain j i where j: "j < length ?items" "i = ?items ! j"
    and item: "item = leased_item (q_options q) (wr_claim_now r) (qw_id w) i"
    and q1: "q1 = q\<lparr>q_items := ?items[j := item], q_disk := Some (encoded (?items[j := item]))\<rparr>"
  proof (cases rule: Claim_cases [of "wr_ctx r" "wr_claim_now r" "wr_claim_io r" "qw_id w" q])
    case 1
    then show ?thesis using assms(2) by auto
  next
    case (2 j i)
    from claim_scan_Some [OF 2(1)] have "j < length ?items" "i = ?items ! j" by auto
    then show ?thesis using that [of j i] 2 assms(2) trim by simp
  qed
  have nth: "q_items q1 ! j = item" "j < length (q_items q1)" using j(1) q1 by simp_all
  have "map qi_id (q_items q1) = map qi_id (q_items q)"
    unfolding q1 using j item by (simp add: map_list_update_same comp_def)
  then have idx: "index_of (\<lambda>i. qi_id i = qi_id item) (q_items q1) = Some j"
    using index_of_distinct [of qi_id "q_items q1" j] assms(7) nth by simp
  have lease: "qi_status item = QueueLeased" "qi_lease_owner item = qw_id w"
    using item by (simp_all add: leased_item_def)
  have open_q: "\<not> q_closed q1" "q_options q1 = q_options q" using q1 assms(8) by simp_all
  show ?thesis
  proof (cases "wr_handler r item")
    case None
    then have "run_round w r q = (q1\<lparr>q_items := (q_items q1)[j := completed_item (wr_done_now r) None item],
        q_disk := Some (encoded ((q_items q1)[j := completed_item (wr_done_now r) None item]))\<rparr>, Some item, True)"
      using assms(2-6) idx nth lease open_q
      by (simp add: run_round_def Complete_def mutateLease_def contextError_def Let_def)
    then show ?thesis using None nth(1) by auto
  next
    case (Some e)
    let ?failed = "failed_item (q_options q) (wr_done_now r) (Some e) item"
    have "run_round w r q = (q1\<lparr>q_items := (q_items q1)[j := ?failed],
        q_disk := Some (encoded ((q_items q1)[j := ?failed]))\<rparr>, Some item, True)"
      using Some assms(2-6) idx nth lease open_q
      by (simp add: run_round_def Fail_def mutateLease_def contextError_def Let_def)
    then show ?thesis using Some nth(1) by auto
  qed
qed

section \<open>Concrete runs\<close>

definition sample_worker :: queue_worker where
  "sample_worker = \<lparr>qw_id = ''w'', qw_poll_interval = 100000000\<rparr>"

definition sample_round :: "(queue_item \<Rightarrow> string option) \<Rightarrow> worker_round" where
  "sample_round h = \<lparr>wr_stopped = False, wr_cancelled = False, wr_ctx = None, wr_claim_now = 6,
     wr_claim_io = None, wr_wait = WaitTimer, wr_handler = h, wr_others = [], wr_done_now = 8,
     wr_done_io = None\<rparr>"

theorem bounded_delivery_witness:
  "int (handed_out ''a'' (claimed sample_ops sample_empty)) \<le> 2"
  using bounded_delivery [OF sample_open [of "\<lambda>_. 0"] sample_options_ok(2), of sample_ops "''a''"]
  by (simp add: sample_ops_def sample_empty_def sample_options_def)

theorem handler_calls_bounded_witness:
  "int (handed_out ''a'' (snd (run_worker sample_worker 1 None [sample_round (\<lambda>_. None), sample_round (\<lambda>_. None)]
     (fold queue_step sample_ops sample_empty)))) \<le> 2"
  using handler_calls_bounded [OF sample_open [of "\<lambda>_. 0"] sample_options_ok(2), of sample_ops
      "[sample_round (\<lambda>_. None), sample_round (\<lambda>_. None)]" "''a''" sample_worker 1 None]
  by (simp add: sample_ops_def sample_empty_def sample_options_def sample_round_def)

theorem worker_reports_witness:
  "\<exists>q2. run_round sample_worker (sample_round (\<lambda>_. None)) (sample_with sample_pending)
     = (q2, Some sample_leased, True)"
proof -
  let ?r = "sample_round (\<lambda>_. None)"
  have worker: "NewQueueWorker False False ''w'' 0 = Some sample_worker"
    by (simp add: NewQueueWorker_def sample_worker_def)
  have claim: "Claim (wr_ctx ?r) (wr_claim_now ?r) (wr_claim_io ?r) (qw_id sample_worker)
      (sample_with sample_pending) = (sample_with sample_leased, Inr sample_leased)"
    using sample_claim by (simp add: sample_round_def sample_worker_def)
  from worker_reports_outcome [OF worker claim] show ?thesis
    by (auto simp: sample_round_def sample_with_def sample_empty_def)
qed

end
