(* ===== verification/Permission_Manager.thy ===== *)
theory Permission_Manager
  imports Go_Regexp
begin

text \<open>
  The rule-based permission manager (\<open>internal/permissions/manager.go\<close>): rules per source, wildcard
  patterns compiled to regular expressions through a cache, parsing and formatting of rules, and
  updates. A pattern that is not valid UTF-8 makes \<open>regexp.MustCompile\<close> panic; a panic is the
  result \<open>None\<close>.
\<close>

section \<open>Data\<close>

datatype permission_behavior =
    PermissionBehaviorAllow | PermissionBehaviorDeny | PermissionBehaviorAsk
  | PermissionBehaviorPassthrough | PermissionBehaviorOther string

datatype rule_source =
    SourceUserSettings | SourceProjectSettings | SourceLocalSettings | SourceFlagSettings
  | SourcePolicySettings | SourceCliArg | SourceCommand | SourceSession | SourceOther string

record rule_value =
  rv_tool :: string
  rv_content :: string

record permission_rule =
  pr_source :: rule_source
  pr_behavior :: permission_behavior
  pr_value :: rule_value

record permission_result =
  res_behavior :: permission_behavior
  res_message :: string
  res_rule :: "permission_rule option"

definition IsAllowed :: "permission_result \<Rightarrow> bool" where
  "IsAllowed r \<longleftrightarrow> res_behavior r = PermissionBehaviorAllow"

definition IsDenied :: "permission_result \<Rightarrow> bool" where
  "IsDenied r \<longleftrightarrow> res_behavior r = PermissionBehaviorDeny"

definition NeedsPrompt :: "permission_result \<Rightarrow> bool" where
  "NeedsPrompt r \<longleftrightarrow>
     res_behavior r = PermissionBehaviorAsk \<or> res_behavior r = PermissionBehaviorPassthrough"

type_synonym pattern_cache = "string \<rightharpoonup> regex"

record manager =
  m_rules :: "rule_source \<rightharpoonup> permission_rule list"
  m_cache :: pattern_cache

definition NewManager :: manager where
  "NewManager = \<lparr>m_rules = Map.empty, m_cache = Map.empty\<rparr>"

text \<open>Reading an absent key of a Go map yields the zero value, here the empty slice.\<close>

definition rules_of :: "manager \<Rightarrow> rule_source \<Rightarrow> permission_rule list" where
  "rules_of m source = (case m_rules m source of None \<Rightarrow> [] | Some rs \<Rightarrow> rs)"

definition AddRule :: "rule_source \<Rightarrow> permission_rule \<Rightarrow> manager \<Rightarrow> manager" where
  "AddRule source rule m = m\<lparr>m_rules := (m_rules m)(source \<mapsto> rules_of m source @ [rule])\<rparr>"

definition RemoveRule :: "rule_source \<Rightarrow> rule_value \<Rightarrow> manager \<Rightarrow> manager" where
  "RemoveRule source v m =
     m\<lparr>m_rules := (m_rules m)(source \<mapsto>
        filter (\<lambda>r. rv_tool (pr_value r) \<noteq> rv_tool v \<or> rv_content (pr_value r) \<noteq> rv_content v)
          (rules_of m source))\<rparr>"

definition GetRules :: "rule_source \<Rightarrow> manager \<Rightarrow> permission_rule list" where
  "GetRules source m = rules_of m source"

definition ClearRules :: "rule_source \<Rightarrow> manager \<Rightarrow> manager" where
  "ClearRules source m = m\<lparr>m_rules := (m_rules m)(source := None)\<rparr>"

section \<open>Matching\<close>

definition meta_bytes :: string where
  "meta_bytes = ''.+()[]{}^$|'' @ [backslash]"

definition wild_byte :: "char \<Rightarrow> string" where
  "wild_byte ch =
     (if ch = CHR ''*'' then ''.*''
      else if ch = CHR ''?'' then ''.''
      else if ch \<in> set meta_bytes then [backslash, ch]
      else [ch])"

definition wildcardToRegex :: "string \<Rightarrow> string" where
  "wildcardToRegex pattern = concat (map wild_byte pattern)"

definition matchPattern :: "string \<Rightarrow> string \<Rightarrow> pattern_cache \<Rightarrow> pattern_cache \<times> bool option" where
  "matchPattern pattern s cache =
     (case cache pattern of
        Some re \<Rightarrow> (cache, Some (MatchString re s))
      | None \<Rightarrow>
          (case regex_compile (''^'' @ wildcardToRegex pattern @ ''$'') of
             None \<Rightarrow> (cache, None)
           | Some re \<Rightarrow> (cache(pattern \<mapsto> re), Some (MatchString re s))))"

definition matchToolName :: "string \<Rightarrow> string \<Rightarrow> bool" where
  "matchToolName pattern toolName =
     (if pattern = toolName then True
      else if CHR ''('' \<in> set pattern then hd (Split CHR ''('' pattern) = toolName
      else False)"

definition matchesRule ::
    "rule_value \<Rightarrow> string \<Rightarrow> string \<Rightarrow> pattern_cache \<Rightarrow> pattern_cache \<times> bool option" where
  "matchesRule v toolName ruleContent cache =
     (if \<not> matchToolName (rv_tool v) toolName then (cache, Some False)
      else if rv_content v = [] then (cache, Some True)
      else if ruleContent = [] then (cache, Some False)
      else matchPattern (rv_content v) ruleContent cache)"

fun find_in_rules ::
    "permission_behavior \<Rightarrow> string \<Rightarrow> string \<Rightarrow> permission_rule list \<Rightarrow> pattern_cache
     \<Rightarrow> pattern_cache \<times> permission_rule option option" where
  "find_in_rules behavior toolName ruleContent [] cache = (cache, Some None)"
| "find_in_rules behavior toolName ruleContent (rule # rest) cache =
     (if pr_behavior rule \<noteq> behavior then find_in_rules behavior toolName ruleContent rest cache
      else (case matchesRule (pr_value rule) toolName ruleContent cache of
          (cache', None) \<Rightarrow> (cache', None)
        | (cache', Some True) \<Rightarrow> (cache', Some (Some rule))
        | (cache', Some False) \<Rightarrow> find_in_rules behavior toolName ruleContent rest cache'))"

fun find_in_sources ::
    "rule_source list \<Rightarrow> permission_behavior \<Rightarrow> string \<Rightarrow> string \<Rightarrow> (rule_source \<Rightarrow> permission_rule list)
     \<Rightarrow> pattern_cache \<Rightarrow> pattern_cache \<times> permission_rule option option" where
  "find_in_sources [] behavior toolName ruleContent rules cache = (cache, Some None)"
| "find_in_sources (source # sources) behavior toolName ruleContent rules cache =
     (case find_in_rules behavior toolName ruleContent (rules source) cache of
        (cache', Some None) \<Rightarrow> find_in_sources sources behavior toolName ruleContent rules cache'
      | found \<Rightarrow> found)"

definition rule_result :: "permission_rule \<Rightarrow> permission_result" where
  "rule_result rule = \<lparr>res_behavior = pr_behavior rule, res_message = [], res_rule = Some rule\<rparr>"

definition findMatchingRule ::
    "rule_source list \<Rightarrow> permission_behavior \<Rightarrow> string \<Rightarrow> string \<Rightarrow> manager
     \<Rightarrow> pattern_cache \<Rightarrow> pattern_cache \<times> permission_result option option" where
  "findMatchingRule sources behavior toolName ruleContent m cache =
     (case find_in_sources sources behavior toolName ruleContent (rules_of m) cache of
        (cache', r) \<Rightarrow> (cache', map_option (map_option rule_result) r))"

definition priority_order :: "rule_source list" where
  "priority_order = [SourcePolicySettings, SourceFlagSettings, SourceCliArg, SourceProjectSettings,
     SourceLocalSettings, SourceUserSettings, SourceCommand, SourceSession]"

text \<open>The behaviours are tried one after the other, denials first.\<close>

fun first_behavior ::
    "permission_behavior list \<Rightarrow> string \<Rightarrow> string \<Rightarrow> manager
     \<Rightarrow> pattern_cache \<Rightarrow> pattern_cache \<times> permission_result option option" where
  "first_behavior [] toolName ruleContent m cache = (cache, Some None)"
| "first_behavior (b # bs) toolName ruleContent m cache =
     (case findMatchingRule priority_order b toolName ruleContent m cache of
        (cache', Some None) \<Rightarrow> first_behavior bs toolName ruleContent m cache'
      | found \<Rightarrow> found)"

definition CheckPermission ::
    "ctx \<Rightarrow> string \<Rightarrow> string \<Rightarrow> manager \<Rightarrow> manager \<times> permission_result option" where
  "CheckPermission c toolName ruleContent m =
     (if c \<noteq> None then
        (m, Some \<lparr>res_behavior = PermissionBehaviorDeny, res_message = ''Permission check canceled'',
                  res_rule = None\<rparr>)
      else
        (case first_behavior [PermissionBehaviorDeny, PermissionBehaviorAllow, PermissionBehaviorAsk,
               PermissionBehaviorPassthrough] toolName ruleContent m (m_cache m) of
           (cache', None) \<Rightarrow> (m\<lparr>m_cache := cache'\<rparr>, None)
         | (cache', Some (Some r)) \<Rightarrow> (m\<lparr>m_cache := cache'\<rparr>, Some r)
         | (cache', Some None) \<Rightarrow>
             (m\<lparr>m_cache := cache'\<rparr>,
              Some \<lparr>res_behavior = PermissionBehaviorAsk,
                    res_message = ''Permission required for '' @ toolName, res_rule = None\<rparr>)))"

section \<open>Parsing, modes and updates\<close>

definition ParseRuleValue :: "string \<Rightarrow> rule_value" where
  "ParseRuleValue s =
     (if CHR ''('' \<notin> set s then \<lparr>rv_tool = s, rv_content = []\<rparr>
      else
        (let parts = SplitN 2 CHR ''('' s;
             toolName = parts ! 0;
             content = TrimSuffix (parts ! 1) '')''
         in \<lparr>rv_tool = toolName, rv_content = content\<rparr>))"

definition FormatRuleValue :: "rule_value \<Rightarrow> string" where
  "FormatRuleValue v =
     (if rv_content v = [] then rv_tool v else rv_tool v @ ''('' @ rv_content v @ '')'')"

datatype permission_mode =
    PermissionModeUnset | PermissionModeDefault | PermissionModeAccept | PermissionModePlan
  | PermissionModeAcceptEdits | PermissionModeBypass | PermissionModeOther string

definition GetModeBehavior :: "permission_mode \<Rightarrow> permission_behavior" where
  "GetModeBehavior mode =
     (case mode of
        PermissionModeAccept \<Rightarrow> PermissionBehaviorAllow
      | PermissionModeAcceptEdits \<Rightarrow> PermissionBehaviorAllow
      | PermissionModeBypass \<Rightarrow> PermissionBehaviorAllow
      | PermissionModePlan \<Rightarrow> PermissionBehaviorAsk
      | _ \<Rightarrow> PermissionBehaviorAsk)"

datatype destination = DestinationUser | DestinationProject | DestinationLocal | DestinationOther string

record permission_update =
  pu_destination :: destination
  pu_operation :: string
  pu_rules :: "rule_value list"
  pu_behavior :: permission_behavior

datatype update_error = UnknownDestination string | UnknownOperation string

definition update_source :: "destination \<Rightarrow> string + rule_source" where
  "update_source d =
     (case d of DestinationUser \<Rightarrow> Inr SourceUserSettings
      | DestinationProject \<Rightarrow> Inr SourceProjectSettings
      | DestinationLocal \<Rightarrow> Inr SourceLocalSettings
      | DestinationOther s \<Rightarrow> Inl s)"

definition add_all :: "rule_source \<Rightarrow> permission_behavior \<Rightarrow> rule_value list \<Rightarrow> manager \<Rightarrow> manager" where
  "add_all source behavior vs m =
     fold (\<lambda>v. AddRule source \<lparr>pr_source = source, pr_behavior = behavior, pr_value = v\<rparr>) vs m"

definition Apply :: "permission_update \<Rightarrow> manager \<Rightarrow> manager \<times> update_error option" where
  "Apply u m =
     (case update_source (pu_destination u) of
        Inl s \<Rightarrow> (m, Some (UnknownDestination s))
      | Inr source \<Rightarrow>
          if pu_operation u = ''add'' then (add_all source (pu_behavior u) (pu_rules u) m, None)
          else if pu_operation u = ''remove'' then (fold (RemoveRule source) (pu_rules u) m, None)
          else if pu_operation u = ''replace''
          then (add_all source (pu_behavior u) (pu_rules u) (ClearRules source m), None)
          else (m, Some (UnknownOperation (pu_operation u))))"

end
