(* ===== verification/Permission_Properties.thy ===== *)
theory Permission_Properties
  imports Permission_Manager
begin

text \<open>
  What the permission manager guarantees: wildcard patterns mean what a glob means, with every other
  character literal, a check decides by the first applicable rule of the strongest behaviour, the
  cache never changes a decision, and rules survive formatting and parsing.
\<close>

section \<open>Wildcards\<close>

abbreviation star :: nat where "star \<equiv> code CHR ''*''"
abbreviation question :: nat where "question \<equiv> code CHR ''?''"

text \<open>The intended meaning of a pattern: a star is any text within a line, a question mark is any rune
  within a line, every other rune is itself.\<close>

fun glob :: "nat list \<Rightarrow> nat list \<Rightarrow> bool" where
  "glob [] s = (s = [])"
| "glob (p # ps) [] = (p = star \<and> glob ps [])"
| "glob (p # ps) (r # s) =
     (if p = star then glob ps (r # s) \<or> (r \<noteq> 10 \<and> glob (p # ps) s)
      else if p = question then r \<noteq> 10 \<and> glob ps s
      else r = p \<and> glob ps s)"

definition glob_match :: "string \<Rightarrow> string \<Rightarrow> bool" where
  "glob_match pattern s = glob (runes pattern) (runes s)"

definition meta_runes :: "nat list" where
  "meta_runes = map code meta_bytes"

definition wild_rune :: "nat option \<Rightarrow> nat option list" where
  "wild_rune r =
     (case r of None \<Rightarrow> [None]
      | Some v \<Rightarrow>
        if v = star then [rune_of CHR ''.'', Some star]
        else if v = question then [rune_of CHR ''.'']
        else if v \<in> set meta_runes then [rune_of backslash, Some v]
        else [Some v])"

definition glob_node :: "nat \<Rightarrow> node" where
  "glob_node v = (if v = star then NStar Any else if v = question then NOne Any else NOne (Lit v))"

lemma meta_runes_eq: "meta_runes = [46, 43, 40, 41, 91, 93, 123, 125, 94, 36, 124, 92]"
  by code_simp

lemma regex_meta_eq: "set regex_meta = insert 42 (insert 63 (set meta_runes))"
  by (simp add: meta_runes_eq) (simp add: regex_meta_def insert_commute)

lemma meta_code: "c \<in> set meta_bytes \<longleftrightarrow> code c \<in> set meta_runes"
  by (auto simp: meta_runes_def)

lemma code_wild [simp]: "code c = 42 \<longleftrightarrow> c = CHR ''*''" "code c = 63 \<longleftrightarrow> c = CHR ''?''"
  using of_char_eq_iff [of c "CHR ''*''"] of_char_eq_iff [of c "CHR ''?''"] by auto

lemma high_literal [simp]: "0x80 \<le> code c \<Longrightarrow> wild_byte c = [c]"
  by (auto simp: wild_byte_def meta_code meta_runes_eq)

lemma wild_high: "list_all (\<lambda>d. 0x80 \<le> code d) bs \<Longrightarrow> wildcardToRegex (bs @ r) = bs @ wildcardToRegex r"
  by (induction bs) (simp_all add: wildcardToRegex_def)

lemma wild_Cons: "wildcardToRegex (c # r) = wild_byte c @ wildcardToRegex r"
  by (simp add: wildcardToRegex_def)

lemma wild_byte_hd: "\<exists>d ds. wild_byte c = d # ds \<and> (code d < 0x80 \<or> d = c \<and> ds = [])"
  by (auto simp: wild_byte_def backslash_def)

text \<open>The translation neither completes nor breaks a multi-byte encoding.\<close>

lemma wild_high_prefix:
  assumes "list_all (\<lambda>d. 0x80 \<le> code d) bs" and "wildcardToRegex r @ ''$'' = bs @ r'"
  shows "\<exists>r3. r = bs @ r3"
  using assms
proof (induction bs arbitrary: r)
  case (Cons b bs)
  show ?case
  proof (cases r)
    case Nil
    then show ?thesis using Cons.prems by (auto simp: wildcardToRegex_def)
  next
    case (Cons d r1)
    obtain e ds where e: "wild_byte d = e # ds" "code e < 0x80 \<or> e = d \<and> ds = []"
      using wild_byte_hd by blast
    then have "e = b" using Cons.prems Cons by (simp add: wild_Cons)
    then have "d = b" "ds = []" using e Cons.prems by auto
    then show ?thesis using Cons.IH [of r1] Cons.prems Cons e by (simp add: wild_Cons)
  qed
qed simp

lemma decode_wild:
  "decode (wildcardToRegex p @ ''$'') = concat (map wild_rune (decode p)) @ [rune_of CHR ''$'']"
proof (induction p rule: decode.induct)
  case 1
  then show ?case by (simp add: wildcardToRegex_def)
next
  case (2 c r)
  show ?case
  proof (cases "code c < 0x80")
    case True
    have "decode (wild_byte c @ X) = wild_rune (Some (code c)) @ decode X" for X
      using True by (auto simp: wild_byte_def wild_rune_def backslash_def meta_code)
    then show ?thesis using 2(2) [of "(code c, 1)" "code c" 1] True by (simp add: wild_Cons)
  next
    case False
    then have wild: "wildcardToRegex (c # r) = c # wildcardToRegex r" by (simp add: wild_Cons)
    show ?thesis
    proof (cases "decode_rune (c # r)")
      case None
      have "decode_rune (c # wildcardToRegex r @ ''$'') = None"
      proof (rule ccontr)
        assume "decode_rune (c # wildcardToRegex r @ ''$'') \<noteq> None"
        then obtain v n where some: "decode_rune (c # wildcardToRegex r @ ''$'') = Some (v, n)" by auto
        then show False
        proof (cases rule: decode_rune_cases)
          case (2 c' bs r')
          then obtain r3 where "r = bs @ r3" using wild_high_prefix [of bs r r'] by auto
          then show False using 2 None by auto
        qed (use False in auto)
      qed
      moreover have "wild_rune None = [None]" by (simp add: wild_rune_def)
      ultimately show ?thesis using 2(1) None wild by simp
    next
      case (Some vn)
      obtain v n where vn: "vn = (v, n)" by fastforce
      from Some have dr: "decode_rune (c # r) = Some (v, n)" unfolding vn .
      then show ?thesis
      proof (cases rule: decode_rune_cases)
        case two: (2 c' bs r')
        then have r: "r = bs @ r'" "n = Suc (length bs)" by auto
        have "decode_rune (c # wildcardToRegex r @ ''$'') = Some (v, n)"
          using two r by (simp add: wild_high)
        moreover have "wild_rune (Some v) = [Some v]"
          using \<open>0x80 \<le> v\<close> by (auto simp: wild_rune_def meta_runes_eq)
        ultimately show ?thesis using 2(2) [OF Some vn [symmetric]] wild dr r two by (simp add: wild_high)
      qed (use False in auto)
    qed
  qed
qed

lemma compile_wild:
  "compile_items (concat (map wild_rune ds) @ [rune_of CHR ''$'']) =
     (if list_all (\<lambda>d. d \<noteq> None) ds then Some (map (\<lambda>d. glob_node (the d)) ds @ [NEnd]) else None)"
proof (induction ds)
  case (Cons d ds)
  define rest where "rest = concat (map wild_rune ds) @ [rune_of CHR ''$'']"
  obtain e es where rest_eq: "rest = e # es" by (cases rest) (simp_all add: rest_def)
  have e: "e \<noteq> rune_of CHR ''*''"
    using rest_eq by (cases ds) (auto simp: rest_def wild_rune_def backslash_def split: option.splits if_splits)
  have "compile_items (wild_rune d @ rest) =
      (case d of None \<Rightarrow> None | Some v \<Rightarrow> map_option ((#) (glob_node v)) (compile_items rest))"
    using e by (cases d)
     (auto simp: wild_rune_def rest_eq glob_node_def backslash_def regex_meta_eq meta_runes_eq)
  moreover have "concat (map wild_rune (d # ds)) @ [rune_of CHR ''$''] = wild_rune d @ rest"
    unfolding rest_def by simp
  moreover have "compile_items rest =
      (if list_all (\<lambda>d. d \<noteq> None) ds then Some (map (\<lambda>d. glob_node (the d)) ds @ [NEnd]) else None)"
    unfolding rest_def by (rule Cons.IH)
  ultimately show ?case by (cases d) simp_all
qed simp

lemma match_glob: "match_from (map glob_node ps @ [NEnd]) b s = glob ps s"
proof (induction ps s arbitrary: b rule: glob.induct)
  case (2 p ps)
  then show ?case by (auto simp: glob_node_def)
next
  case (3 p ps r s)
  then show ?case by (auto simp: glob_node_def)
qed simp

definition pattern_regex :: "string \<Rightarrow> regex option" where
  "pattern_regex p = regex_compile (''^'' @ wildcardToRegex p @ ''$'')"

lemma pattern_regex_eq:
  "pattern_regex p = (if valid_utf8 p then Some (NBegin # map glob_node (runes p) @ [NEnd]) else None)"
proof -
  let ?ds = "decode p"
  let ?rest = "concat (map wild_rune ?ds) @ [rune_of CHR ''$'']"
  obtain d ds where rest: "?rest = d # ds" by (cases ?rest) simp_all
  have "compile_items (rune_of CHR ''^'' # ?rest) = map_option ((#) NBegin) (compile_items ?rest)"
    unfolding rest by (simp add: backslash_def)
  moreover have "decode (''^'' @ wildcardToRegex p @ ''$'') = rune_of CHR ''^'' # ?rest"
    by (simp add: decode_wild)
  moreover have "list_all (\<lambda>d. d \<noteq> None) ?ds \<Longrightarrow> map (\<lambda>d. glob_node (the d)) ?ds = map glob_node (runes p)"
    by (auto simp: runes_def list_all_iff)
  ultimately show ?thesis
    using compile_wild [of ?ds] by (simp add: pattern_regex_def regex_compile_def valid_utf8_def)
qed

definition cache_ok :: "pattern_cache \<Rightarrow> bool" where
  "cache_ok c \<longleftrightarrow> (\<forall>p re. c p = Some re \<longrightarrow> pattern_regex p = Some re)"

lemma cache_ok_empty [simp]: "cache_ok Map.empty"
  by (simp add: cache_ok_def)

lemma matchPattern_cases:
  assumes "cache_ok cache"
  shows "cache_ok (fst (matchPattern p s cache))"
    and "snd (matchPattern p s cache) = (if valid_utf8 p then Some (glob_match p s) else None)"
proof -
  have glob: "MatchString (NBegin # map glob_node (runes p) @ [NEnd]) s = glob_match p s"
    by (simp add: MatchString_Begin match_glob glob_match_def)
  show "cache_ok (fst (matchPattern p s cache))"
    using assms by (auto simp: matchPattern_def cache_ok_def pattern_regex_def split: option.splits)
  show "snd (matchPattern p s cache) = (if valid_utf8 p then Some (glob_match p s) else None)"
    using assms glob pattern_regex_eq [of p]
    by (cases "cache p") (auto simp: matchPattern_def cache_ok_def pattern_regex_def split: if_splits)
qed


section \<open>Checks\<close>

definition rule_applies :: "string \<Rightarrow> string \<Rightarrow> permission_rule \<Rightarrow> bool" where
  "rule_applies toolName ruleContent rule \<longleftrightarrow>
     matchToolName (rv_tool (pr_value rule)) toolName
   \<and> (rv_content (pr_value rule) = []
      \<or> (ruleContent \<noteq> [] \<and> glob_match (rv_content (pr_value rule)) ruleContent))"

definition decides :: "permission_behavior \<Rightarrow> string \<Rightarrow> string \<Rightarrow> permission_rule \<Rightarrow> bool" where
  "decides b toolName ruleContent rule \<longleftrightarrow> pr_behavior rule = b \<and> rule_applies toolName ruleContent rule"

definition ranked_rules :: "manager \<Rightarrow> permission_rule list" where
  "ranked_rules m = concat (map (rules_of m) priority_order)"

definition behavior_order :: "permission_behavior list" where
  "behavior_order = [PermissionBehaviorDeny, PermissionBehaviorAllow, PermissionBehaviorAsk,
     PermissionBehaviorPassthrough]"

text \<open>The decision without caches and regular expressions.\<close>

definition permission_spec :: "string \<Rightarrow> string \<Rightarrow> permission_rule list \<Rightarrow> permission_result" where
  "permission_spec toolName ruleContent rules =
     (case List.map_filter (\<lambda>b. find (decides b toolName ruleContent) rules) behavior_order of
        rule # _ \<Rightarrow> rule_result rule
      | [] \<Rightarrow> \<lparr>res_behavior = PermissionBehaviorAsk,
               res_message = ''Permission required for '' @ toolName, res_rule = None\<rparr>)"

definition patterns_valid :: "manager \<Rightarrow> bool" where
  "patterns_valid m \<longleftrightarrow> list_all (\<lambda>r. valid_utf8 (rv_content (pr_value r))) (ranked_rules m)"

text \<open>
  A computation with the cache that finds the value \<open>v\<close> or, only if \<open>valid\<close> fails, panics.
\<close>

definition finds :: "bool \<Rightarrow> 'a \<Rightarrow> pattern_cache \<times> 'a option \<Rightarrow> bool" where
  "finds valid v out \<longleftrightarrow> cache_ok (fst out) \<and> (snd out = Some v \<or> (snd out = None \<and> \<not> valid))"

lemma finds_matchesRule:
  assumes "cache_ok cache"
  shows "finds (valid_utf8 (rv_content (pr_value rule))) (rule_applies t c rule)
     (matchesRule (pr_value rule) t c cache)"
  using assms matchPattern_cases [OF assms, of "rv_content (pr_value rule)" c]
  by (auto simp: finds_def matchesRule_def rule_applies_def)

lemma finds_in_rules:
  assumes "cache_ok cache"
  shows "finds (list_all (\<lambda>r. valid_utf8 (rv_content (pr_value r))) rules)
     (find (decides b t c) rules) (find_in_rules b t c rules cache)"
  using assms
proof (induction rules arbitrary: cache)
  case (Cons rule rest)
  obtain cache' res where m: "matchesRule (pr_value rule) t c cache = (cache', res)" by fastforce
  have f: "cache_ok cache'" "res = Some (rule_applies t c rule)
      \<or> (res = None \<and> \<not> valid_utf8 (rv_content (pr_value rule)))"
    using finds_matchesRule [OF Cons.prems, of rule t c] unfolding m finds_def by simp_all
  have step: "find_in_rules b t c (rule # rest) cache =
      (if pr_behavior rule \<noteq> b then find_in_rules b t c rest cache
       else case res of None \<Rightarrow> (cache', None) | Some True \<Rightarrow> (cache', Some (Some rule))
         | Some False \<Rightarrow> find_in_rules b t c rest cache')"
    using m by (simp split: option.splits bool.splits)
  show ?case
  proof (cases "pr_behavior rule = b")
    case True
    show ?thesis
      using f Cons.IH [OF f(1)] True unfolding step
      by (cases res) (auto simp: decides_def finds_def split: bool.splits)
  next
    case False
    then show ?thesis
      using Cons.IH [OF Cons.prems] unfolding step by (auto simp: decides_def finds_def)
  qed
qed (simp add: finds_def)

lemma find_append: "find P (xs @ ys) = (case find P xs of None \<Rightarrow> find P ys | Some x \<Rightarrow> Some x)"
  by (induction xs) auto

lemma finds_in_sources:
  assumes "cache_ok cache"
  shows "finds (list_all (\<lambda>r. valid_utf8 (rv_content (pr_value r))) (concat (map rules sources)))
     (find (decides b t c) (concat (map rules sources))) (find_in_sources sources b t c rules cache)"
  using assms
proof (induction sources arbitrary: cache)
  case (Cons source sources)
  obtain cache' res where m: "find_in_rules b t c (rules source) cache = (cache', res)" by fastforce
  have f: "cache_ok cache'" "res = Some (find (decides b t c) (rules source))
      \<or> (res = None \<and> \<not> list_all (\<lambda>r. valid_utf8 (rv_content (pr_value r))) (rules source))"
    using finds_in_rules [OF Cons.prems, of "rules source" b t c] unfolding m finds_def by simp_all
  then show ?case
    using Cons.IH [OF f(1)] m
    by (auto simp: finds_def find_append split: option.splits)
qed (simp add: finds_def)

lemma finds_first_behavior:
  assumes "cache_ok cache"
  shows "finds (patterns_valid m)
     (case List.map_filter (\<lambda>b. find (decides b t c) (ranked_rules m)) bs of
        [] \<Rightarrow> None | rule # _ \<Rightarrow> Some (rule_result rule))
     (first_behavior bs t c m cache)"
  using assms
proof (induction bs arbitrary: cache)
  case (Cons b bs)
  obtain cache' res where m: "find_in_sources priority_order b t c (rules_of m) cache = (cache', res)"
    by fastforce
  have f: "cache_ok cache'" "res = Some (find (decides b t c) (ranked_rules m))
      \<or> (res = None \<and> \<not> patterns_valid m)"
    using finds_in_sources [OF Cons.prems, of "rules_of m" priority_order b t c] unfolding m finds_def
    by (simp_all add: ranked_rules_def patterns_valid_def)
  then show ?case
    using Cons.IH [OF f(1)] m
    by (auto simp: finds_def findMatchingRule_def List.map_filter_simps split: option.splits)
qed (simp add: finds_def List.map_filter_simps)

definition manager_ok :: "manager \<Rightarrow> bool" where
  "manager_ok m \<longleftrightarrow> cache_ok (m_cache m)"

lemma CheckPermission_spec:
  assumes "manager_ok m"
  shows "manager_ok (fst (CheckPermission c t content m))"
    and "m_rules (fst (CheckPermission c t content m)) = m_rules m"
    and "snd (CheckPermission None t content m) = Some (permission_spec t content (ranked_rules m))
      \<or> (snd (CheckPermission None t content m) = None \<and> \<not> patterns_valid m)"
proof -
  obtain cache' res where m: "first_behavior behavior_order t content m (m_cache m) = (cache', res)"
    by fastforce
  have f: "cache_ok cache'" "res = Some (case List.map_filter (\<lambda>b. find (decides b t content) (ranked_rules m)) behavior_order of
        [] \<Rightarrow> None | rule # _ \<Rightarrow> Some (rule_result rule)) \<or> (res = None \<and> \<not> patterns_valid m)"
    using finds_first_behavior [of "m_cache m" m t content behavior_order] assms
    unfolding m finds_def by (simp_all add: manager_ok_def)
  have check: "CheckPermission None t content m =
      (m\<lparr>m_cache := cache'\<rparr>, case res of None \<Rightarrow> None | Some (Some r) \<Rightarrow> Some r
         | Some None \<Rightarrow> Some \<lparr>res_behavior = PermissionBehaviorAsk,
             res_message = ''Permission required for '' @ t, res_rule = None\<rparr>)"
    using m by (simp add: CheckPermission_def behavior_order_def split: option.splits)
  show "manager_ok (fst (CheckPermission c t content m))"
    using check f(1) assms by (cases c) (simp_all add: manager_ok_def, simp add: CheckPermission_def)
  show "m_rules (fst (CheckPermission c t content m)) = m_rules m"
    using check by (cases c) (simp_all, simp add: CheckPermission_def)
  show "snd (CheckPermission None t content m) = Some (permission_spec t content (ranked_rules m))
      \<or> (snd (CheckPermission None t content m) = None \<and> \<not> patterns_valid m)"
    unfolding check using f(2)
    by (auto simp: permission_spec_def split: list.splits)
qed

section \<open>Runs\<close>

datatype manager_op =
    OpAddRule rule_source permission_rule
  | OpRemoveRule rule_source rule_value
  | OpClearRules rule_source
  | OpApply permission_update
  | OpCheck ctx string string

fun manager_step :: "manager_op \<Rightarrow> manager \<Rightarrow> manager" where
  "manager_step (OpAddRule source rule) m = AddRule source rule m"
| "manager_step (OpRemoveRule source v) m = RemoveRule source v m"
| "manager_step (OpClearRules source) m = ClearRules source m"
| "manager_step (OpApply u) m = fst (Apply u m)"
| "manager_step (OpCheck c toolName content) m = fst (CheckPermission c toolName content m)"

lemma cache_updates [simp]:
  "m_cache (AddRule source rule m) = m_cache m"
  "m_cache (RemoveRule source v m) = m_cache m"
  "m_cache (ClearRules source m) = m_cache m"
  by (simp_all add: AddRule_def RemoveRule_def ClearRules_def)

lemma cache_fold [simp]:
  "m_cache (add_all source b vs m) = m_cache m"
  "m_cache (fold (RemoveRule source) vs m) = m_cache m"
  by (induction vs arbitrary: m) (simp_all add: add_all_def)

lemma cache_Apply [simp]: "m_cache (fst (Apply u m)) = m_cache m"
  by (simp add: Apply_def split: sum.splits)

interpretation manager_machine: invariant_machine manager_step manager_ok
proof unfold_locales
  fix m x
  assume "manager_ok m"
  then show "manager_ok (manager_step x m)"
    using CheckPermission_spec(1) by (cases x) (simp_all add: manager_ok_def)
qed

text \<open>After any history of rule changes and checks, a check returns what the rules say: the first
  applicable rule in priority order among the denials, else among the approvals, else among the
  questions, else a question. The cache of compiled patterns never changes a decision, and a check
  fails to return only when some pattern is not valid UTF-8.\<close>

theorem check_permission_spec:
  fixes history :: "manager_op list"
  defines "m \<equiv> fold manager_step history NewManager"
  shows "snd (CheckPermission None toolName content m) =
       Some (permission_spec toolName content (ranked_rules m))
     \<or> (snd (CheckPermission None toolName content m) = None \<and> \<not> patterns_valid m)"
proof -
  have "manager_ok NewManager" by (simp add: manager_ok_def NewManager_def)
  then have "manager_ok m" unfolding m_def by (rule manager_machine.inv_run)
  then show ?thesis by (rule CheckPermission_spec(3))
qed

lemma permission_spec_behavior:
  "res_behavior (permission_spec t c rules) =
    (if list_ex (decides PermissionBehaviorDeny t c) rules then PermissionBehaviorDeny
     else if list_ex (decides PermissionBehaviorAllow t c) rules then PermissionBehaviorAllow
     else if list_ex (decides PermissionBehaviorAsk t c) rules then PermissionBehaviorAsk
     else if list_ex (decides PermissionBehaviorPassthrough t c) rules then PermissionBehaviorPassthrough
     else PermissionBehaviorAsk)"
proof -
  have ex: "list_ex P xs \<longleftrightarrow> find P xs \<noteq> None" for P and xs :: "permission_rule list"
    by (induction xs) auto
  have behavior: "find (decides b t c) rules = Some r \<Longrightarrow> pr_behavior r = b" for b r
    by (auto simp: find_Some_iff decides_def)
  show ?thesis
    unfolding ex permission_spec_def behavior_order_def
    by (auto simp: List.map_filter_simps rule_result_def behavior split: option.splits)
qed

text \<open>A denial cannot be overruled: whatever other rules any source holds, a check is allowed only if
  an approval applies and no denial does.\<close>

theorem allowed_iff_rules:
  fixes history :: "manager_op list"
  assumes "snd (CheckPermission None toolName content (fold manager_step history NewManager)) = Some r"
  defines "rules \<equiv> ranked_rules (fold manager_step history NewManager)"
  shows "(IsAllowed r \<longleftrightarrow>
       list_ex (decides PermissionBehaviorAllow toolName content) rules
     \<and> \<not> list_ex (decides PermissionBehaviorDeny toolName content) rules)
   \<and> (IsDenied r \<longleftrightarrow> list_ex (decides PermissionBehaviorDeny toolName content) rules)"
proof -
  have "manager_ok NewManager" by (simp add: manager_ok_def NewManager_def)
  then have "manager_ok (fold manager_step history NewManager)" by (rule manager_machine.inv_run)
  from CheckPermission_spec(3) [OF this, of toolName content] assms
  have "r = permission_spec toolName content rules" by auto
  then show ?thesis
    by (simp_all add: IsAllowed_def IsDenied_def permission_spec_behavior)
qed


section \<open>What a pattern covers\<close>

lemma decode_append: "valid_utf8 p \<Longrightarrow> decode (p @ t) = decode p @ decode t"
proof (induction p rule: decode.induct)
  case (2 c r)
  then obtain v n where dr: "decode_rune (c # r) = Some (v, n)"
    by (cases "decode_rune (c # r)") (auto simp: valid_utf8_def)
  then show ?case
  proof (cases rule: decode_rune_cases)
    case (1 c' r')
    then show ?thesis using 2(2) [OF dr refl] 2(3) dr by (simp add: valid_utf8_def)
  next
    case two: (2 c' bs r')
    have "decode_rune ((c # bs) @ r' @ t) = Some (v, n)" using two by (metis list.inject append_Cons)
    then show ?thesis using 2(2) [OF dr refl] 2(3) two dr by (simp add: valid_utf8_def)
  qed
qed (simp add: valid_utf8_def)

lemma glob_literal_star:
  assumes "star \<notin> set ps" and "question \<notin> set ps"
  shows "glob (ps @ [star]) s \<longleftrightarrow> (\<exists>t. s = ps @ t \<and> 10 \<notin> set t)"
  using assms
proof (induction ps arbitrary: s)
  case Nil
  have "glob [star] s \<longleftrightarrow> 10 \<notin> set s" by (induction s) auto
  then show ?case by simp
next
  case (Cons p ps)
  then show ?case by (cases s) auto
qed

text \<open>A rule content that is literal text followed by a star covers exactly the strings that begin with
  that text and have no line break after it; metacharacters of regular expressions are literal.\<close>

theorem prefix_pattern_spec:
  assumes "valid_utf8 p" and "CHR ''*'' \<notin> set p" and "CHR ''?'' \<notin> set p" and "cache_ok cache"
  shows "snd (matchPattern (p @ ''*'') s cache) = Some (\<exists>t. runes s = runes p @ t \<and> 10 \<notin> set t)"
proof -
  have ascii: "v \<notin> code ` set p \<Longrightarrow> v < 0x80 \<Longrightarrow> v \<notin> set (runes p)" for v
    using assms(1)
  proof (induction p rule: decode.induct)
    case (2 c r)
    then obtain w n where dr: "decode_rune (c # r) = Some (w, n)"
      by (cases "decode_rune (c # r)") (auto simp: valid_utf8_def)
    then show ?case
    proof (cases rule: decode_rune_cases)
      case (1 c' r')
      then show ?thesis using 2(2) [OF dr refl] 2(3-) dr by (simp add: valid_utf8_def runes_def)
    next
      case two: (2 c' bs r')
      then show ?thesis using 2(2) [OF dr refl] 2(3-) dr
        by (simp add: valid_utf8_def runes_def image_Un)
    qed
  qed (simp add: runes_def)
  have "star \<notin> code ` set p" "question \<notin> code ` set p"
    using assms(2,3) by auto
  then have wild: "star \<notin> set (runes p)" "question \<notin> set (runes p)"
    using ascii [of star] ascii [of question] by simp_all
  have "decode (p @ ''*'') = decode p @ [Some star]" using decode_append [OF assms(1), of "''*''"] by simp
  then have "valid_utf8 (p @ ''*'')" "runes (p @ ''*'') = runes p @ [star]"
    using assms(1) by (simp_all add: valid_utf8_def runes_def)
  then show ?thesis
    using matchPattern_cases(2) [OF assms(4), of "p @ ''*''" s] glob_literal_star [OF wild]
    by (simp add: glob_match_def)
qed

lemma glob_newline: "10 \<notin> set ps \<Longrightarrow> 10 \<in> set s \<Longrightarrow> \<not> glob ps s"
  by (induction ps s rule: glob.induct) (auto split: if_splits)

text \<open>No rule whose content has no line break of its own applies to a text with a line break. So a command
  that contains one evades every such denial: if all denials that name the tool have such a content,
  a check of the command never denies.\<close>

theorem newline_evades_denials:
  fixes history :: "manager_op list"
  assumes "10 \<in> set (runes content)"
  defines "m \<equiv> fold manager_step history NewManager"
  assumes "list_all (\<lambda>r. pr_behavior r = PermissionBehaviorDeny \<longrightarrow>
      rv_content (pr_value r) \<noteq> [] \<and> 10 \<notin> set (runes (rv_content (pr_value r)))) (ranked_rules m)"
    and "snd (CheckPermission None toolName content m) = Some r"
  shows "\<not> IsDenied r"
proof -
  have "manager_ok NewManager" by (simp add: manager_ok_def NewManager_def)
  then have "manager_ok m" unfolding m_def by (rule manager_machine.inv_run)
  from CheckPermission_spec(3) [OF this, of toolName content] assms(4)
  have "r = permission_spec toolName content (ranked_rules m)" by auto
  moreover have "\<not> list_ex (decides PermissionBehaviorDeny toolName content) (ranked_rules m)"
    using assms(1,3) glob_newline
    by (auto simp: list_all_iff list_ex_iff decides_def rule_applies_def glob_match_def)
  ultimately show ?thesis by (simp add: IsDenied_def permission_spec_behavior)
qed

section \<open>Rule values and updates\<close>

text \<open>Formatting a rule value and parsing it again gives the value back, for every content, when the tool
  name has no opening parenthesis.\<close>

theorem rule_value_roundtrip:
  assumes "CHR ''('' \<notin> set (rv_tool v)"
  shows "ParseRuleValue (FormatRuleValue v) = v"
proof (cases "rv_content v = []")
  case True
  then show ?thesis using assms by (simp add: ParseRuleValue_def FormatRuleValue_def)
next
  case False
  have "TrimSuffix (rv_content v @ '')'') '')'' = rv_content v"
    by (simp add: TrimSuffix_def HasSuffix_def HasPrefix_def)
  then show ?thesis
    using assms False
    by (simp add: ParseRuleValue_def FormatRuleValue_def cut_fresh numeral_2_eq_2 Let_def)
qed

lemma rules_add_all:
  "rules_of (add_all source b vs m) source' = rules_of m source' @
     (if source' = source then map (\<lambda>v. \<lparr>pr_source = source, pr_behavior = b, pr_value = v\<rparr>) vs else [])"
  by (induction vs arbitrary: m) (simp_all add: add_all_def rules_of_def AddRule_def split: option.splits)

lemma rules_remove_all:
  "rules_of (fold (RemoveRule source) vs m) source' =
     (if source' = source then filter (\<lambda>r. pr_value r \<notin> set vs) (rules_of m source') else rules_of m source')"
proof (induction vs arbitrary: m)
  case Nil
  then show ?case by simp
next
  case (Cons v vs)
  have eq: "(rv_tool (pr_value r) \<noteq> rv_tool v \<or> rv_content (pr_value r) \<noteq> rv_content v) = (pr_value r \<noteq> v)" for r
    by auto
  have "rules_of (RemoveRule source v m) source' =
      (if source' = source then filter (\<lambda>r. pr_value r \<noteq> v) (rules_of m source') else rules_of m source')"
    unfolding RemoveRule_def eq by (simp add: rules_of_def)
  then show ?case using Cons.IH [of "RemoveRule source v m"] by (auto intro: filter_cong)
qed

text \<open>An update touches one source only. Adding appends its rules, removing drops exactly the rules with
  one of its values, replacing leaves exactly its rules; an unknown destination or operation is an
  error and changes nothing.\<close>

theorem apply_update_spec:
  "case update_source (pu_destination u) of
     Inl s \<Rightarrow> Apply u m = (m, Some (UnknownDestination s))
   | Inr source \<Rightarrow>
      (let rules = map (\<lambda>v. \<lparr>pr_source = source, pr_behavior = pu_behavior u, pr_value = v\<rparr>) (pu_rules u);
           m' = fst (Apply u m)
       in if pu_operation u \<notin> {''add'', ''remove'', ''replace''}
          then Apply u m = (m, Some (UnknownOperation (pu_operation u)))
          else snd (Apply u m) = None
            \<and> GetRules source' m' =
              (if source' \<noteq> source then GetRules source' m
               else if pu_operation u = ''add'' then GetRules source m @ rules
               else if pu_operation u = ''remove''
                 then filter (\<lambda>r. pr_value r \<notin> set (pu_rules u)) (GetRules source m)
               else rules))"
proof (cases "update_source (pu_destination u)")
  case (Inr source)
  have "rules_of (ClearRules source m) source' = (if source' = source then [] else rules_of m source')"
    by (simp add: ClearRules_def rules_of_def)
  then show ?thesis
    using Inr by (simp add: Apply_def GetRules_def Let_def rules_add_all rules_remove_all)
qed (simp add: Apply_def)

section \<open>Concrete checks\<close>

definition sample_history :: "manager_op list" where
  "sample_history =
     [OpApply \<lparr>pu_destination = DestinationUser, pu_operation = ''add'',
        pu_rules = [ParseRuleValue ''Bash''], pu_behavior = PermissionBehaviorAllow\<rparr>,
      OpAddRule SourceProjectSettings \<lparr>pr_source = SourceProjectSettings,
        pr_behavior = PermissionBehaviorDeny, pr_value = ParseRuleValue ''Bash(rm *)''\<rparr>,
      OpCheck None ''Bash'' ''rm -rf x'']"

definition sample_denied :: permission_result where
  "sample_denied = rule_result \<lparr>pr_source = SourceProjectSettings,
     pr_behavior = PermissionBehaviorDeny, pr_value = \<lparr>rv_tool = ''Bash'', rv_content = ''rm *''\<rparr>\<rparr>"

definition sample_allowed :: permission_result where
  "sample_allowed = rule_result \<lparr>pr_source = SourceUserSettings,
     pr_behavior = PermissionBehaviorAllow, pr_value = \<lparr>rv_tool = ''Bash'', rv_content = []\<rparr>\<rparr>"

definition two_lines :: string where
  "two_lines = ''rm -rf x'' @ [CHR 0x0A] @ ''ls''"

lemma sample_parse [simp]:
  "ParseRuleValue ''Bash'' = \<lparr>rv_tool = ''Bash'', rv_content = []\<rparr>"
  "ParseRuleValue ''Bash(rm *)'' = \<lparr>rv_tool = ''Bash'', rv_content = ''rm *''\<rparr>"
  by code_simp+

lemma sample_globs [simp]:
  "glob_match ''rm *'' ''rm -rf x''" "\<not> glob_match ''rm *'' two_lines" "valid_utf8 ''rm *''" "valid_utf8 []"
  by (simp_all add: glob_match_def runes_def two_lines_def valid_utf8_def)

lemma sample_rules:
  "ranked_rules (fold manager_step sample_history NewManager) =
     [\<lparr>pr_source = SourceProjectSettings, pr_behavior = PermissionBehaviorDeny,
       pr_value = \<lparr>rv_tool = ''Bash'', rv_content = ''rm *''\<rparr>\<rparr>,
      \<lparr>pr_source = SourceUserSettings, pr_behavior = PermissionBehaviorAllow,
       pr_value = \<lparr>rv_tool = ''Bash'', rv_content = []\<rparr>\<rparr>]"
proof -
  have "m_rules (fold manager_step sample_history NewManager) =
      m_rules (fold manager_step (butlast sample_history) NewManager)"
    using CheckPermission_spec(2) [of "fold manager_step (butlast sample_history) NewManager"]
    by (simp add: sample_history_def manager_ok_def NewManager_def)
  then show ?thesis
    by (simp add: ranked_rules_def priority_order_def rules_of_def sample_history_def NewManager_def
        AddRule_def add_all_def Apply_def update_source_def)
qed

lemma sample_checks:
  "snd (CheckPermission None ''Bash'' ''rm -rf x'' (fold manager_step sample_history NewManager)) = Some sample_denied"
  "snd (CheckPermission None ''Bash'' two_lines (fold manager_step sample_history NewManager)) = Some sample_allowed"
proof -
  have "manager_ok NewManager" by (simp add: manager_ok_def NewManager_def)
  then have ok: "manager_ok (fold manager_step sample_history NewManager)" by (rule manager_machine.inv_run)
  have valid: "patterns_valid (fold manager_step sample_history NewManager)"
    by (simp add: patterns_valid_def sample_rules)
  note spec = CheckPermission_spec(3) [OF ok] and defs = permission_spec_def sample_rules behavior_order_def
    List.map_filter_simps decides_def rule_applies_def matchToolName_def
  show "snd (CheckPermission None ''Bash'' ''rm -rf x'' (fold manager_step sample_history NewManager)) = Some sample_denied"
    using spec [of "''Bash''" "''rm -rf x''"] valid by (simp add: defs sample_denied_def)
  show "snd (CheckPermission None ''Bash'' two_lines (fold manager_step sample_history NewManager)) = Some sample_allowed"
    using spec [of "''Bash''" two_lines] valid by (simp add: defs sample_allowed_def)
qed

theorem allowed_iff_rules_witness:
  "IsDenied sample_denied \<and> \<not> IsAllowed sample_denied
   \<and> list_ex (decides PermissionBehaviorDeny ''Bash'' ''rm -rf x'')
       (ranked_rules (fold manager_step sample_history NewManager))"
  using allowed_iff_rules [OF sample_checks(1)]
  by (simp add: sample_denied_def IsDenied_def IsAllowed_def rule_result_def)

theorem prefix_pattern_witness:
  "snd (matchPattern ''git *'' ''git log'' Map.empty) = Some True"
proof -
  have "runes ''git log'' = runes ''git '' @ map code ''log'' \<and> 10 \<notin> set (map code ''log'')"
    by (simp add: runes_def)
  moreover have "valid_utf8 ''git ''" by (simp add: valid_utf8_def)
  ultimately show ?thesis
    using prefix_pattern_spec [of "''git ''" Map.empty "''git log''"] by auto
qed

theorem newline_evades_witness: "\<not> IsDenied sample_allowed"
proof (rule newline_evades_denials [OF _ _ sample_checks(2)])
  show "10 \<in> set (runes two_lines)" by (simp add: runes_def two_lines_def)
  show "list_all (\<lambda>r. pr_behavior r = PermissionBehaviorDeny \<longrightarrow>
      rv_content (pr_value r) \<noteq> [] \<and> 10 \<notin> set (runes (rv_content (pr_value r))))
    (ranked_rules (fold manager_step sample_history NewManager))"
    by (simp add: sample_rules runes_def)
qed

theorem rule_value_roundtrip_witness:
  "ParseRuleValue (FormatRuleValue \<lparr>rv_tool = ''Bash'', rv_content = ''f(x) && g()''\<rparr>)
     = \<lparr>rv_tool = ''Bash'', rv_content = ''f(x) && g()''\<rparr>"
  by (rule rule_value_roundtrip) simp

end
