(* ===== verification/Go_Path.thy ===== *)
theory Go_Path
  imports Go_Prelude
begin

text \<open>
  Lexical operations of Go's \<open>path/filepath\<close> package on Unix: \<open>Clean\<close>, \<open>Join\<close>, \<open>Dir\<close>, \<open>Base\<close>, \<open>IsAbs\<close>
  and \<open>Rel\<close>, and what they do to absolute clean paths, which are lists of proper elements.
\<close>

section \<open>Operations\<close>

abbreviation slash :: char where "slash \<equiv> CHR ''/''"

fun join_slash :: "string list \<Rightarrow> string" where
  "join_slash [] = []"
| "join_slash [x] = x"
| "join_slash (x # y # ys) = x @ slash # join_slash (y # ys)"

definition IsAbs :: "string \<Rightarrow> bool" where
  "IsAbs p \<longleftrightarrow> HasPrefix p ''/''"

text \<open>One element of \<open>Clean\<close>; the stack holds the elements kept so far, last first.\<close>

definition clean_step :: "bool \<Rightarrow> string \<Rightarrow> string list \<Rightarrow> string list" where
  "clean_step rooted x stack =
     (if x = [] \<or> x = ''.'' then stack
      else if x = ''..'' then
        (case stack of
           [] \<Rightarrow> if rooted then [] else [''..'']
         | kept # rest \<Rightarrow> if kept = ''..'' then ''..'' # stack else rest)
      else x # stack)"

definition clean_elements :: "bool \<Rightarrow> string list \<Rightarrow> string list" where
  "clean_elements rooted xs = rev (fold (clean_step rooted) xs [])"

definition Clean :: "string \<Rightarrow> string" where
  "Clean p =
     (if p = [] then ''.''
      else
        (let rooted = IsAbs p;
             body = join_slash (clean_elements rooted (Split slash p))
         in if rooted then slash # body else if body = [] then ''.'' else body))"

fun Join :: "string list \<Rightarrow> string" where
  "Join [] = []"
| "Join (x # xs) = (if x \<noteq> [] then Clean (join_slash (x # xs)) else Join xs)"

text \<open>The path up to and with its last slash, and the text after it.\<close>

definition through_last_slash :: "string \<Rightarrow> string" where
  "through_last_slash p = rev (dropWhile (\<lambda>c. c \<noteq> slash) (rev p))"

definition after_last_slash :: "string \<Rightarrow> string" where
  "after_last_slash p = rev (takeWhile (\<lambda>c. c \<noteq> slash) (rev p))"

definition Dir :: "string \<Rightarrow> string" where
  "Dir p = Clean (through_last_slash p)"

definition Base :: "string \<Rightarrow> string" where
  "Base p =
     (if p = [] then ''.''
      else
        (let q = rev (dropWhile (\<lambda>c. c = slash) (rev p));
             b = after_last_slash q
         in if b = [] then ''/'' else b))"

text \<open>The elements of a cleaned path, without the root.\<close>

definition elements :: "string \<Rightarrow> string list" where
  "elements p = filter (\<lambda>x. x \<noteq> [] \<and> x \<noteq> ''.'') (Split slash p)"

fun strip_common :: "string list \<Rightarrow> string list \<Rightarrow> string list \<times> string list" where
  "strip_common (b # bs) (t # ts) = (if b = t then strip_common bs ts else (b # bs, t # ts))"
| "strip_common bs ts = (bs, ts)"

text \<open>\<open>Rel\<close>: \<open>None\<close> when the target cannot be made relative to the base.\<close>

definition Rel :: "string \<Rightarrow> string \<Rightarrow> string option" where
  "Rel basepath targpath =
     (let base = Clean basepath; targ = Clean targpath
      in if targ = base then Some ''.''
         else if IsAbs base \<noteq> IsAbs targ then None
         else (case strip_common (elements base) (elements targ) of
             ([], ts) \<Rightarrow> Some (join_slash ts)
           | (b # bs, ts) \<Rightarrow>
               if b = ''..'' then None
               else Some (join_slash (replicate (Suc (length bs)) ''..'' @ ts))))"

section \<open>Absolute clean paths\<close>

definition proper :: "string \<Rightarrow> bool" where
  "proper x \<longleftrightarrow> x \<noteq> [] \<and> slash \<notin> set x \<and> x \<noteq> ''.'' \<and> x \<noteq> ''..''"

definition abs_path :: "string list \<Rightarrow> string" where
  "abs_path xs = slash # join_slash xs"

lemma properD: "proper x \<Longrightarrow> x \<noteq> [] \<and> x \<noteq> ''.'' \<and> x \<noteq> ''..'' \<and> slash \<notin> set x"
  by (simp add: proper_def)

lemma Split_join_slash:
  "list_all (\<lambda>x. slash \<notin> set x) xs \<Longrightarrow> xs \<noteq> [] \<Longrightarrow> Split slash (join_slash xs) = xs"
  by (induction xs rule: join_slash.induct) (simp_all add: Split_fresh Split_append_sep)

lemma Split_no_sep: "list_all (\<lambda>x. c \<notin> set x) (Split c p)"
  by (induction p) (auto split: list.splits)

lemma clean_step_proper:
  "list_all proper stack \<Longrightarrow> slash \<notin> set x \<Longrightarrow> list_all proper (clean_step True x stack)"
  by (auto simp: clean_step_def proper_def split: list.splits)

lemma clean_elements_proper:
  "list_all (\<lambda>x. slash \<notin> set x) xs \<Longrightarrow> list_all proper (clean_elements True xs)"
proof -
  have "list_all proper stack \<Longrightarrow> list_all (\<lambda>x. slash \<notin> set x) xs \<Longrightarrow>
      list_all proper (fold (clean_step True) xs stack)" for stack
    by (induction xs arbitrary: stack) (simp_all add: clean_step_proper)
  from this [of "[]"] show "list_all (\<lambda>x. slash \<notin> set x) xs \<Longrightarrow> list_all proper (clean_elements True xs)"
    by (simp add: clean_elements_def)
qed

lemma clean_elements_id: "list_all proper xs \<Longrightarrow> clean_elements True xs = xs"
proof -
  have "list_all proper xs \<Longrightarrow> fold (clean_step True) xs stack = rev xs @ stack" for stack
    by (induction xs arbitrary: stack) (auto simp: clean_step_def proper_def)
  then show "list_all proper xs \<Longrightarrow> clean_elements True xs = xs"
    by (simp add: clean_elements_def)
qed

lemma IsAbs_Cons [simp]: "IsAbs (slash # p)"
  by (simp add: IsAbs_def HasPrefix_def)

lemma IsAbs_iff: "IsAbs p \<longleftrightarrow> (\<exists>q. p = slash # q)"
  by (auto simp: IsAbs_def HasPrefix_iff)

lemma Clean_abs:
  assumes "IsAbs p"
  obtains xs where "list_all proper xs" and "Clean p = abs_path xs"
proof -
  have "Clean p = abs_path (clean_elements True (Split slash p))"
    using assms by (auto simp: Clean_def abs_path_def IsAbs_iff)
  then show ?thesis using that clean_elements_proper [OF Split_no_sep] by blast
qed

lemma clean_elements_skip: "clean_elements True ([] # xs) = clean_elements True xs"
  by (simp add: clean_elements_def clean_step_def)

lemma Clean_slash: "Clean (slash # p) = abs_path (clean_elements True (Split slash p))"
  by (simp add: Clean_def abs_path_def clean_elements_skip)

lemma Clean_abs_path [simp]: "list_all proper xs \<Longrightarrow> Clean (abs_path xs) = abs_path xs"
proof (cases "xs = []")
  case True
  show ?thesis unfolding True by code_simp
next
  case False
  assume "list_all proper xs"
  moreover from this have "Split slash (join_slash xs) = xs"
    using False by (intro Split_join_slash) (auto simp: list_all_iff proper_def)
  ultimately show ?thesis by (simp add: abs_path_def Clean_slash clean_elements_id)
qed

lemma join_slash_snoc:
  "xs \<noteq> [] \<Longrightarrow> join_slash (xs @ [x]) = join_slash xs @ slash # x"
  by (induction xs rule: join_slash.induct) (auto simp: neq_Nil_conv)

lemma abs_path_snoc:
  "abs_path (xs @ [x]) = (if xs = [] then slash # x else abs_path xs @ slash # x)"
  by (simp add: abs_path_def join_slash_snoc)

lemma Dir_abs_path:
  assumes "list_all proper (xs @ [x])"
  shows "Dir (abs_path (xs @ [x])) = abs_path xs"
proof -
  have x: "slash \<notin> set x" using assms by (simp add: proper_def)
  have drop: "dropWhile (\<lambda>c. c \<noteq> slash) (rev x @ slash # r) = slash # r" for r
    using x by (subst dropWhile_append2) auto
  show ?thesis
  proof (cases "xs = []")
    case True
    then show ?thesis using drop [of "[]"]
      by (simp add: Dir_def through_last_slash_def abs_path_snoc) (simp add: abs_path_def Clean_slash clean_elements_def clean_step_def)
  next
    case False
    have "through_last_slash (abs_path (xs @ [x])) = slash # join_slash (xs @ [[]])"
      using False drop [of "rev (abs_path xs)"]
      by (simp add: through_last_slash_def abs_path_snoc join_slash_snoc) (simp add: abs_path_def)
    moreover have "Split slash (join_slash (xs @ [[]])) = xs @ [[]]"
      using assms by (intro Split_join_slash) (auto simp: list_all_iff proper_def)
    moreover have "clean_elements True (xs @ [[]]) = clean_elements True xs"
      by (simp add: clean_elements_def clean_step_def)
    ultimately show ?thesis using assms by (simp add: Dir_def Clean_slash clean_elements_id)
  qed
qed

lemma Dir_root [simp]: "Dir ''/'' = ''/''"
  by code_simp

lemma Base_abs_path:
  assumes "proper x"
  shows "Base (abs_path (xs @ [x])) = x"
proof -
  obtain y c where y: "x = y @ [c]" using assms by (cases x rule: rev_cases) (auto simp: proper_def)
  have c: "c \<noteq> slash" "slash \<notin> set x" using assms y by (auto simp: proper_def)
  have tw: "takeWhile (\<lambda>c. c \<noteq> slash) (rev x @ slash # r) = rev x" for r
    using c by (subst takeWhile_append2) auto
  obtain p where p: "abs_path (xs @ [x]) = p @ slash # x"
    using abs_path_snoc [of xs x] by (metis append_Nil)
  have "rev (dropWhile (\<lambda>c. c = slash) (rev (p @ slash # x))) = p @ slash # x"
    using c by (simp add: y)
  then show ?thesis
    unfolding p using tw assms by (simp add: Base_def after_last_slash_def Let_def proper_def)
qed

lemma Join_abs_path:
  assumes "list_all proper xs" and "proper x"
  shows "Join [abs_path xs, x] = abs_path (xs @ [x])"
proof -
  have x: "Split slash x = [x]" using assms(2) by (simp add: Split_fresh proper_def)
  have "Join [abs_path xs, x] = Clean (abs_path xs @ slash # x)"
    by (simp add: abs_path_def)
  also have "\<dots> = abs_path (xs @ [x])"
  proof (cases "xs = []")
    case True
    then show ?thesis
      using assms x by (simp add: abs_path_def Clean_slash clean_elements_skip clean_elements_id)
  next
    case False
    then show ?thesis using assms Clean_abs_path [of "xs @ [x]"] by (simp add: abs_path_snoc)
  qed
  finally show ?thesis .
qed

lemma elements_abs_path:
  assumes "list_all proper xs"
  shows "elements (abs_path xs) = xs"
proof (cases "xs = []")
  case True
  show ?thesis unfolding True by code_simp
next
  case False
  have "Split slash (join_slash xs) = xs"
    using assms False by (intro Split_join_slash) (auto simp: list_all_iff proper_def)
  then show ?thesis
    using assms by (simp add: elements_def abs_path_def filter_id_conv list_all_iff proper_def)
qed

lemma abs_path_inject:
  "list_all proper xs \<Longrightarrow> list_all proper ys \<Longrightarrow> abs_path xs = abs_path ys \<longleftrightarrow> xs = ys"
  by (metis elements_abs_path)

lemma IsAbs_abs_path [simp]: "IsAbs (abs_path xs)"
  by (simp add: abs_path_def)

lemma strip_common_prefix: "strip_common bs ts = ([], rest) \<Longrightarrow> ts = bs @ rest"
  by (induction bs ts rule: strip_common.induct) (auto split: if_splits)

text \<open>
  The escape test of \<open>ResolvePath\<close>: between absolute clean paths, the relative path starts with \<open>..\<close>
  unless the target lies below the base.
\<close>

lemma Rel_abs_path:
  assumes "list_all proper bs" and "list_all proper ts"
  shows "Rel (abs_path bs) (abs_path ts) =
    Some (if bs = ts then ''.''
      else (case strip_common bs ts of
          ([], rest) \<Rightarrow> join_slash rest
        | (b # bs', rest) \<Rightarrow> join_slash (replicate (Suc (length bs')) ''..'' @ rest)))"
proof -
  have "b \<noteq> ''..''" if "strip_common bs ts = (b # bs', rest)" for b bs' rest
  proof -
    have "set (fst (strip_common bs ts)) \<subseteq> set bs"
      by (induction bs ts rule: strip_common.induct) auto
    then have "proper b" using that assms(1) by (auto simp: list_all_iff)
    then show ?thesis by (simp add: proper_def)
  qed
  then show ?thesis
    using assms
    by (auto simp: Rel_def abs_path_inject elements_abs_path split: list.splits prod.splits)
qed

end
