(* ===== verification/Permission_Path.thy ===== *)
theory Permission_Path
  imports Go_Path "HOL-Library.Sublist"
begin

text \<open>
  The workspace boundary (\<open>internal/permissions/path.go\<close>): a requested path is resolved through its
  deepest existing ancestor, with symbolic links followed, and rejected when the result lies outside
  the workspace. The operating system's answers (\<open>os.Getwd\<close>, \<open>os.Lstat\<close>, \<open>filepath.EvalSymlinks\<close>) are
  a parameter of the model.
\<close>

section \<open>Resolving\<close>

datatype lstat_answer = Exists | NotExist | LstatError string

record os_view =
  os_getwd :: "string + string"
  os_lstat :: "string \<Rightarrow> lstat_answer"
  os_eval_links :: "string \<Rightarrow> string + string"

datatype path_error =
    WorkspaceRequired | ResolveWorkspace string | WorkspaceLinks string | PathEmpty
  | ResolveFailed string | InspectFailed string | NoExistingAncestor | PathLinks string
  | CompareFailed | PathEscapes

definition Abs :: "os_view \<Rightarrow> string \<Rightarrow> string + string" where
  "Abs os p =
     (if IsAbs p then Inr (Clean p)
      else (case os_getwd os of Inl e \<Rightarrow> Inl e | Inr wd \<Rightarrow> Inr (Join [wd, p])))"

text \<open>The loop that walks up to an existing ancestor; \<open>None\<close> is a loop that does not return.\<close>

partial_function (option) existing_ancestor ::
    "os_view \<Rightarrow> string \<Rightarrow> string list \<Rightarrow> (path_error + string \<times> string list) option" where
  "existing_ancestor os existing missing =
     (case os_lstat os existing of
        Exists \<Rightarrow> Some (Inr (existing, missing))
      | LstatError e \<Rightarrow> Some (Inl (InspectFailed e))
      | NotExist \<Rightarrow>
          if Dir existing = existing then Some (Inl NoExistingAncestor)
          else existing_ancestor os (Dir existing) (missing @ [Base existing]))"

definition resolvePath :: "os_view \<Rightarrow> string \<Rightarrow> string \<Rightarrow> (path_error + string) option" where
  "resolvePath os workspace requestedPath =
     (if TrimSpace requestedPath = [] then Some (Inl PathEmpty)
      else
        (let path = (if IsAbs requestedPath then requestedPath else Join [workspace, requestedPath])
         in (case Abs os path of
               Inl e \<Rightarrow> Some (Inl (ResolveFailed e))
             | Inr absolute \<Rightarrow>
                 (case existing_ancestor os (Clean absolute) [] of
                    None \<Rightarrow> None
                  | Some (Inl e) \<Rightarrow> Some (Inl e)
                  | Some (Inr (existing, missing)) \<Rightarrow>
                      (case os_eval_links os existing of
                         Inl e \<Rightarrow> Some (Inl (PathLinks e))
                       | Inr resolved \<Rightarrow>
                           Some (Inr (Clean (fold (\<lambda>x r. Join [r, x]) (rev missing) resolved))))))))"

definition ResolvePath :: "os_view \<Rightarrow> string \<Rightarrow> string \<Rightarrow> (path_error + string) option" where
  "ResolvePath os workspace requestedPath =
     (if TrimSpace workspace = [] then Some (Inl WorkspaceRequired)
      else (case Abs os workspace of
          Inl e \<Rightarrow> Some (Inl (ResolveWorkspace e))
        | Inr root0 \<Rightarrow>
          (case os_eval_links os root0 of
             Inl e \<Rightarrow> Some (Inl (WorkspaceLinks e))
           | Inr root \<Rightarrow>
             (case resolvePath os root requestedPath of
                None \<Rightarrow> None
              | Some (Inl e) \<Rightarrow> Some (Inl e)
              | Some (Inr resolved) \<Rightarrow>
                  (case Rel root resolved of
                     None \<Rightarrow> Some (Inl CompareFailed)
                   | Some relative \<Rightarrow>
                       if relative = ''..'' \<or> HasPrefix relative ''../'' \<or> IsAbs relative
                       then Some (Inl PathEscapes)
                       else Some (Inr resolved))))))"

fun check_paths :: "os_view \<Rightarrow> string \<Rightarrow> string list \<Rightarrow> path_error option option" where
  "check_paths os workspace [] = Some None"
| "check_paths os workspace (p # ps) =
     (case ResolvePath os workspace p of
        None \<Rightarrow> None
      | Some (Inl e) \<Rightarrow> Some (Some e)
      | Some (Inr _) \<Rightarrow> check_paths os workspace ps)"

text \<open>The outer \<open>option\<close> is termination, the inner one the error.\<close>

definition validateRequestPaths :: "os_view \<Rightarrow> string \<Rightarrow> string list \<Rightarrow> path_error option option" where
  "validateRequestPaths os workspace paths =
     (if paths = [] then Some None
      else if TrimSpace workspace = [] then Some (Some WorkspaceRequired)
      else check_paths os workspace paths)"

section \<open>What the operating system promises\<close>

text \<open>
  The working directory is absolute, and \<open>EvalSymlinks\<close> maps an absolute path to an absolute clean one,
  as their documentation says.
\<close>

definition os_ok :: "os_view \<Rightarrow> bool" where
  "os_ok os \<longleftrightarrow>
     (\<forall>wd. os_getwd os = Inr wd \<longrightarrow> IsAbs wd)
   \<and> (\<forall>p r. IsAbs p \<longrightarrow> os_eval_links os p = Inr r \<longrightarrow> IsAbs r \<and> Clean r = r)"

lemma os_links:
  assumes "os_ok os" and "os_eval_links os (abs_path xs) = Inr r"
  obtains rs where "list_all proper rs" and "r = abs_path rs"
proof -
  have "IsAbs r \<and> Clean r = r"
    using assms IsAbs_abs_path [of xs] unfolding os_ok_def by blast
  then show ?thesis using Clean_abs [of r] that by metis
qed

lemma IsAbs_Join: "IsAbs p \<Longrightarrow> Join [p, q] = Clean (p @ slash # q) \<and> IsAbs (p @ slash # q)"
  by (auto simp: IsAbs_iff)

lemma Abs_clean:
  assumes "os_ok os" and "Abs os p = Inr a"
  obtains xs where "list_all proper xs" and "a = abs_path xs"
proof -
  have "\<exists>q. IsAbs q \<and> a = Clean q"
    using assms IsAbs_Join by (auto simp: Abs_def os_ok_def split: if_splits sum.splits)
  then show ?thesis using Clean_abs that by metis
qed

section \<open>The walk to an existing ancestor\<close>

text \<open>It returns after at most one step per element, with the missing elements last first.\<close>

lemma existing_ancestor_spec:
  assumes "list_all proper xs"
  shows "\<exists>res. existing_ancestor os (abs_path xs) acc = Some res
     \<and> (\<forall>e m. res = Inr (e, m) \<longrightarrow>
         (\<exists>ys zs. xs = ys @ zs \<and> e = abs_path ys \<and> m = acc @ rev zs \<and> os_lstat os e = Exists
            \<and> (\<forall>k. length ys < k \<longrightarrow> k \<le> length xs \<longrightarrow> os_lstat os (abs_path (take k xs)) = NotExist)))"
  using assms
proof (induction xs arbitrary: acc rule: rev_induct)
  case Nil
  have "Dir (abs_path []) = abs_path []" by (simp add: abs_path_def)
  then show ?case
    by (subst existing_ancestor.simps) (auto simp: abs_path_def split: lstat_answer.splits)
next
  case (snoc x xs)
  have dir: "Dir (abs_path (xs @ [x])) = abs_path xs" and base: "Base (abs_path (xs @ [x])) = x"
    using Dir_abs_path [OF snoc.prems] Base_abs_path [of x xs] snoc.prems by simp_all
  have ne: "abs_path xs \<noteq> abs_path (xs @ [x])"
    using abs_path_inject [of xs "xs @ [x]"] snoc.prems by simp
  show ?case
  proof (cases "os_lstat os (abs_path (xs @ [x]))")
    case Exists
    then show ?thesis by (subst existing_ancestor.simps) auto
  next
    case (LstatError e)
    then show ?thesis by (subst existing_ancestor.simps) auto
  next
    case NotExist
    then have step: "existing_ancestor os (abs_path (xs @ [x])) acc =
        existing_ancestor os (abs_path xs) (acc @ [x])"
      using ne by (subst existing_ancestor.simps) (simp add: dir base)
    obtain res where res: "existing_ancestor os (abs_path xs) (acc @ [x]) = Some res"
      and spec: "\<And>e m. res = Inr (e, m) \<Longrightarrow> \<exists>ys zs. xs = ys @ zs \<and> e = abs_path ys
         \<and> m = (acc @ [x]) @ rev zs \<and> os_lstat os e = Exists
         \<and> (\<forall>k. length ys < k \<longrightarrow> k \<le> length xs \<longrightarrow> os_lstat os (abs_path (take k xs)) = NotExist)"
      using snoc.IH [of "acc @ [x]"] snoc.prems by auto
    have "\<exists>ys zs. xs @ [x] = ys @ zs \<and> e = abs_path ys \<and> m = acc @ rev zs \<and> os_lstat os e = Exists
        \<and> (\<forall>k. length ys < k \<longrightarrow> k \<le> length (xs @ [x]) \<longrightarrow> os_lstat os (abs_path (take k (xs @ [x]))) = NotExist)"
      if out: "res = Inr (e, m)" for e m
    proof -
      obtain ys zs where yz: "xs = ys @ zs" "e = abs_path ys" "m = (acc @ [x]) @ rev zs" "os_lstat os e = Exists"
        and missing: "\<And>k. length ys < k \<Longrightarrow> k \<le> length xs \<Longrightarrow> os_lstat os (abs_path (take k xs)) = NotExist"
        using spec [OF out] by blast
      have "os_lstat os (abs_path (take k (xs @ [x]))) = NotExist"
        if "length ys < k" and "k \<le> length (xs @ [x])" for k
        using that missing [of k] NotExist by (cases "k = length (xs @ [x])") auto
      then show ?thesis using yz by (intro exI [of _ ys] exI [of _ "zs @ [x]"]) simp
    qed
    then show ?thesis unfolding step using res by blast
  qed
qed

lemma fold_Join:
  "list_all proper es \<Longrightarrow> list_all proper zs \<Longrightarrow>
     fold (\<lambda>x r. Join [r, x]) zs (abs_path es) = abs_path (es @ zs)"
  by (induction zs arbitrary: es) (simp_all add: Join_abs_path del: Join.simps)

text \<open>
  What \<open>resolvePath\<close> returns: the deepest existing ancestor \<open>ys\<close> of the path with links resolved to
  \<open>es\<close>, and below it the missing elements \<open>zs\<close>.
\<close>

definition resolved_as ::
    "os_view \<Rightarrow> string list \<Rightarrow> string list \<Rightarrow> string list \<Rightarrow> string \<Rightarrow> bool" where
  "resolved_as os ys zs es r \<longleftrightarrow>
     list_all proper (ys @ zs) \<and> list_all proper es \<and> r = abs_path (es @ zs)
   \<and> os_lstat os (abs_path ys) = Exists \<and> os_eval_links os (abs_path ys) = Inr (abs_path es)
   \<and> (\<forall>k. length ys < k \<longrightarrow> k \<le> length (ys @ zs) \<longrightarrow>
        os_lstat os (abs_path (take k (ys @ zs))) = NotExist)"

lemma resolvePath_spec:
  assumes "os_ok os" and "IsAbs root"
  shows "\<exists>res. resolvePath os root p = Some res
     \<and> (\<forall>r. res = Inr r \<longrightarrow> (\<exists>ys zs es. resolved_as os ys zs es r))"
proof (cases "TrimSpace p = []")
  case True
  then show ?thesis by (simp add: resolvePath_def)
next
  case False
  let ?path = "if IsAbs p then p else Join [root, p]"
  show ?thesis
  proof (cases "Abs os ?path")
    case (Inl e)
    then show ?thesis using False by (simp add: resolvePath_def Let_def)
  next
    case (Inr a)
    obtain xs where xs: "list_all proper xs" "a = abs_path xs" using Abs_clean [OF assms(1) Inr] .
    obtain res where res: "existing_ancestor os (abs_path xs) [] = Some res"
      and spec: "\<And>e m. res = Inr (e, m) \<Longrightarrow> \<exists>ys zs. xs = ys @ zs \<and> e = abs_path ys \<and> m = rev zs
         \<and> os_lstat os e = Exists
         \<and> (\<forall>k. length ys < k \<longrightarrow> k \<le> length xs \<longrightarrow> os_lstat os (abs_path (take k xs)) = NotExist)"
      using existing_ancestor_spec [OF xs(1), of os "[]"] by auto
    show ?thesis
    proof (cases res)
      case (Inl e)
      then show ?thesis using False \<open>Abs os ?path = Inr a\<close> xs res by (simp add: resolvePath_def Let_def)
    next
      case (Inr em)
      obtain e m where em: "em = (e, m)" by fastforce
      from spec [of e m] Inr em obtain ys zs where yz: "xs = ys @ zs" "e = abs_path ys" "m = rev zs"
        "os_lstat os e = Exists"
        "\<forall>k. length ys < k \<longrightarrow> k \<le> length xs \<longrightarrow> os_lstat os (abs_path (take k xs)) = NotExist"
        by blast
      have step: "resolvePath os root p = (case os_eval_links os (abs_path ys) of
          Inl e \<Rightarrow> Some (Inl (PathLinks e))
        | Inr resolved \<Rightarrow> Some (Inr (Clean (fold (\<lambda>x r. Join [r, x]) zs resolved))))"
        using False \<open>Abs os ?path = Inr a\<close> xs res Inr em yz
        by (simp add: resolvePath_def Let_def split: sum.split del: Join.simps)
      show ?thesis
      proof (cases "os_eval_links os (abs_path ys)")
        case (Inl e)
        then show ?thesis unfolding step by simp
      next
        case (Inr l)
        obtain es where es: "list_all proper es" "l = abs_path es" using os_links [OF assms(1) Inr] .
        have zs: "list_all proper zs" using xs(1) yz(1) by simp
        have "resolvePath os root p = Some (Inr (abs_path (es @ zs)))"
          unfolding step using Inr es zs by (simp add: fold_Join del: Join.simps)
        moreover have "resolved_as os ys zs es (abs_path (es @ zs))"
          using yz Inr es xs by (simp add: resolved_as_def)
        ultimately show ?thesis by blast
      qed
    qed
  qed
qed

section \<open>The boundary\<close>

lemma join_slash_proper:
  assumes "list_all proper (x # xs)"
  shows "join_slash (x # xs) \<noteq> ''..'' \<and> \<not> HasPrefix (join_slash (x # xs)) ''../''
     \<and> \<not> IsAbs (join_slash (x # xs))"
proof -
  have x: "x \<noteq> []" "slash \<notin> set x" "x \<noteq> ''..''" using assms by (simp_all add: proper_def)
  obtain t where j: "join_slash (x # xs) = x @ t" and t: "t = [] \<or> (\<exists>u. t = slash # u)"
    by (cases xs) auto
  have all: "\<And>c. c \<in> set x \<Longrightarrow> c \<noteq> slash" using x(2) by blast
  have tw: "takeWhile (\<lambda>c. c \<noteq> slash) (x @ t) = x"
    using t
  proof
    assume "t = []"
    then show ?thesis using all by (simp add: takeWhile_eq_all_conv)
  next
    assume "\<exists>u. t = slash # u"
    then show ?thesis using takeWhile_append2 [of x "\<lambda>c. c \<noteq> slash"] all by auto
  qed
  have "x @ t \<noteq> ''..''" using tw x(3) by auto
  moreover have "\<not> HasPrefix (x @ t) ''../''"
  proof
    assume "HasPrefix (x @ t) ''../''"
    then obtain u where "x @ t = ''../'' @ u" unfolding HasPrefix_iff by blast
    then have "takeWhile (\<lambda>c. c \<noteq> slash) (x @ t) = ''..''" by simp
    then show False using tw x(3) by simp
  qed
  moreover have "\<not> IsAbs (x @ t)" using x(1,2) by (cases x) (auto simp: IsAbs_iff)
  ultimately show ?thesis unfolding j by simp
qed

lemma join_slash_dots: "join_slash (''..'' # xs) = ''..'' \<or> HasPrefix (join_slash (''..'' # xs)) ''../''"
  by (cases xs) (simp_all add: HasPrefix_def)

lemma strip_common_complete: "strip_common bs (bs @ rest) = ([], rest)"
  by (induction bs) simp_all

lemma escape_test:
  assumes "list_all proper bs" and "list_all proper ts"
  shows "\<exists>relative. Rel (abs_path bs) (abs_path ts) = Some relative
     \<and> ((relative = ''..'' \<or> HasPrefix relative ''../'' \<or> IsAbs relative) \<longleftrightarrow> \<not> prefix bs ts)"
proof (cases "bs = ts")
  case True
  then show ?thesis using Rel_abs_path [OF assms] by (simp add: HasPrefix_def IsAbs_def)
next
  case False
  obtain us rest where sc: "strip_common bs ts = (us, rest)" by fastforce
  show ?thesis
  proof (cases us)
    case Nil
    then have ts: "ts = bs @ rest" using strip_common_prefix sc by simp
    then obtain x xs where rest: "rest = x # xs" using False by (cases rest) auto
    have "list_all proper (x # xs)" using assms(2) ts rest by simp
    from join_slash_proper [OF this] show ?thesis
      using Rel_abs_path [OF assms] False sc Nil ts rest by simp
  next
    case (Cons b us')
    then have "\<not> prefix bs ts" using sc strip_common_complete by (auto simp: prefix_def)
    moreover have "Rel (abs_path bs) (abs_path ts) = Some (join_slash (''..'' # replicate (length us') ''..'' @ rest))"
      using Rel_abs_path [OF assms] False sc Cons by simp
    ultimately show ?thesis using join_slash_dots by auto
  qed
qed

text \<open>The path as seen from the workspace: the test by the relative path is exactly containment.\<close>

lemma ResolvePath_eq:
  assumes "os_ok os" and "TrimSpace workspace \<noteq> []"
    and "Abs os workspace = Inr root0" and "os_eval_links os root0 = Inr root"
  obtains res where "resolvePath os root p = Some res"
    and "\<And>r. res = Inr r \<Longrightarrow> \<exists>ys zs es. resolved_as os ys zs es r"
    and "ResolvePath os workspace p = Some (case res of Inl e \<Rightarrow> Inl e
      | Inr r \<Rightarrow> if prefix (elements root) (elements r) then Inr r else Inl PathEscapes)"
proof -
  obtain ws where ws: "root0 = abs_path ws" using Abs_clean [OF assms(1,3)] by metis
  obtain bs where bs: "list_all proper bs" "root = abs_path bs"
    using os_links [OF assms(1) assms(4) [unfolded ws]] .
  obtain res where res: "resolvePath os root p = Some res" and
    spec: "\<And>r. res = Inr r \<Longrightarrow> \<exists>ys zs es. resolved_as os ys zs es r"
    using resolvePath_spec [OF assms(1), of root p] bs(2) IsAbs_abs_path by blast
  show ?thesis
  proof (cases res)
    case (Inl e)
    then show ?thesis using assms res spec by (intro that [of res]) (simp_all add: ResolvePath_def)
  next
    case (Inr r)
    obtain ys zs es where r: "resolved_as os ys zs es r" using spec [OF Inr] by blast
    then have ts: "list_all proper (es @ zs)" "r = abs_path (es @ zs)" by (simp_all add: resolved_as_def)
    obtain relative where rel: "Rel root r = Some relative"
      and esc: "(relative = ''..'' \<or> HasPrefix relative ''../'' \<or> IsAbs relative) \<longleftrightarrow> \<not> prefix bs (es @ zs)"
      using escape_test [OF bs(1) ts(1)] unfolding bs(2) ts(2) by blast
    have el: "elements root = bs" "elements r = es @ zs" using bs ts elements_abs_path by simp_all
    show ?thesis
      using assms(2-4) res Inr rel esc el spec by (intro that [of res]) (simp_all add: ResolvePath_def)
  qed
qed

text \<open>An accepted path, and the resolved workspace it lies in.\<close>

definition below_workspace :: "os_view \<Rightarrow> string \<Rightarrow> string \<Rightarrow> bool" where
  "below_workspace os workspace r \<longleftrightarrow>
     (\<exists>root0 root ys zs es. Abs os workspace = Inr root0 \<and> os_eval_links os root0 = Inr root
        \<and> resolved_as os ys zs es r \<and> prefix (elements root) (elements r))"

lemma ResolvePath_cases:
  assumes "os_ok os"
  obtains e where "ResolvePath os workspace p = Some (Inl e)"
  | r where "ResolvePath os workspace p = Some (Inr r)" and "below_workspace os workspace r"
proof (cases "TrimSpace workspace = [] \<or> (\<exists>e. Abs os workspace = Inl e)
    \<or> (\<exists>root0 e. Abs os workspace = Inr root0 \<and> os_eval_links os root0 = Inl e)")
  case True
  then show ?thesis
    by (elim disjE exE conjE) (cases "TrimSpace workspace = []"; rule that(1), simp add: ResolvePath_def)+
next
  case False
  then obtain root0 root where roots: "TrimSpace workspace \<noteq> []" "Abs os workspace = Inr root0"
    "os_eval_links os root0 = Inr root"
    by (cases "Abs os workspace") (auto, metis sum.exhaust)
  obtain res where "resolvePath os root p = Some res"
    and spec: "\<And>r. res = Inr r \<Longrightarrow> \<exists>ys zs es. resolved_as os ys zs es r"
    and eq: "ResolvePath os workspace p = Some (case res of Inl e \<Rightarrow> Inl e
      | Inr r \<Rightarrow> if prefix (elements root) (elements r) then Inr r else Inl PathEscapes)"
    using ResolvePath_eq [OF assms roots] by blast
  show ?thesis
  proof (cases res)
    case (Inl e)
    then show ?thesis using that(1) eq by simp
  next
    case (Inr r)
    show ?thesis
    proof (cases "prefix (elements root) (elements r)")
      case True
      then have "below_workspace os workspace r"
        using spec [OF Inr] roots by (auto simp: below_workspace_def)
      then show ?thesis using that(2) eq Inr True by simp
    next
      case False
      then show ?thesis using that(1) eq Inr by simp
    qed
  qed
qed

text \<open>C5: Resolving a path always returns. It accepts exactly the paths whose resolution, with all symbolic
  links of the deepest existing ancestor followed, extends the resolved workspace element by element;
  the elements that do not exist yet are appended unchanged.\<close>

theorem resolve_path_exact:
  assumes "os_ok os" and "TrimSpace workspace \<noteq> []"
    and "Abs os workspace = Inr root0" and "os_eval_links os root0 = Inr root"
  shows "\<exists>res. resolvePath os root p = Some res
     \<and> (case res of
          Inl e \<Rightarrow> ResolvePath os workspace p = Some (Inl e)
        | Inr r \<Rightarrow> (\<exists>ys zs es. resolved_as os ys zs es r)
            \<and> ResolvePath os workspace p =
               Some (if prefix (elements root) (elements r) then Inr r else Inl PathEscapes))"
proof -
  obtain res where "resolvePath os root p = Some res"
    and "\<And>r. res = Inr r \<Longrightarrow> \<exists>ys zs es. resolved_as os ys zs es r"
    and "ResolvePath os workspace p = Some (case res of Inl e \<Rightarrow> Inl e
      | Inr r \<Rightarrow> if prefix (elements root) (elements r) then Inr r else Inl PathEscapes)"
    using ResolvePath_eq [OF assms] by blast
  then show ?thesis by (cases res) auto
qed

text \<open>A view of an operating system with a workspace \<open>/w\<close> and a link in it that leads outside.\<close>

definition sample_os :: os_view where
  "sample_os = \<lparr>os_getwd = Inr ''/w'',
     os_lstat = (\<lambda>p. if p \<in> {''/'', ''/w'', ''/w/out'', ''/etc''} then Exists else NotExist),
     os_eval_links = (\<lambda>p. Inr (if p = ''/w/out'' then ''/etc'' else Clean p))\<rparr>"

lemma Clean_idem: "IsAbs p \<Longrightarrow> Clean (Clean p) = Clean p \<and> IsAbs (Clean p)"
  using Clean_abs [of p] by (metis Clean_abs_path IsAbs_abs_path)

lemma sample_os_ok: "os_ok sample_os"
proof -
  have etc: "Clean ''/etc'' = ''/etc''" by code_simp
  show ?thesis
    by (auto simp: os_ok_def sample_os_def Clean_idem etc split: if_splits)
qed

lemma sample_abs: "TrimSpace ''/w'' \<noteq> []" "Abs sample_os ''/w'' = Inr ''/w''" "os_eval_links sample_os ''/w'' = Inr ''/w''"
proof -
  have "TrimSpace ''/w'' = ''/w''" "Clean ''/w'' = ''/w''" "IsAbs ''/w''" by code_simp+
  then show "TrimSpace ''/w'' \<noteq> []" "Abs sample_os ''/w'' = Inr ''/w''" "os_eval_links sample_os ''/w'' = Inr ''/w''"
    by (simp_all add: Abs_def sample_os_def)
qed

text \<open>A link in the workspace that leads outside is refused.\<close>

theorem resolve_path_exact_witness:
  "ResolvePath sample_os ''/w'' ''out/x'' = Some (Inl PathEscapes)"
proof -
  have clean: "Clean ''/etc'' = ''/etc''" "Clean ''/etc/x'' = ''/etc/x''" "Clean ''/w/out/x'' = ''/w/out/x''"
    and ops: "TrimSpace ''out/x'' = ''out/x''" "\<not> IsAbs ''out/x''" "IsAbs ''/w/out/x''"
      "Join [''/w'', ''out/x''] = ''/w/out/x''"
      "Dir ''/w/out/x'' = ''/w/out''" "Base ''/w/out/x'' = ''x''" "Join [''/etc'', ''x''] = ''/etc/x''"
    and el: "elements ''/w'' = [''w'']" "elements ''/etc/x'' = [''etc'', ''x'']"
    by code_simp+
  have "existing_ancestor sample_os ''/w/out/x'' [] = Some (Inr (''/w/out'', [''x'']))"
    by (subst existing_ancestor.simps) (simp add: sample_os_def ops, subst existing_ancestor.simps, simp)
  then have "resolvePath sample_os ''/w'' ''out/x'' = Some (Inr ''/etc/x'')"
    by (simp add: resolvePath_def Abs_def ops clean sample_os_def Let_def del: Join.simps)
  then show ?thesis
    using resolve_path_exact [OF sample_os_ok sample_abs, of "''out/x''"] el by simp
qed

end
