(* ===== verification/Permission_Broker.thy ===== *)
theory Permission_Broker
  imports Permission_Manager Permission_Path "HOL-Library.List_Lexorder" "HOL-Library.Char_ord"
begin

text \<open>
  The permission broker (\<open>internal/permissions/broker.go\<close>, \<open>policy.go\<close>, \<open>trust.go\<close>): explicit rules, session
  approvals, the defaults of the modes, confirmation by the user, and children whose decisions are
  intersected with those of their ancestors. A broker is modelled with its chain of ancestors, the
  broker itself first. The user's answer, the file system and the audit sink are arguments.
\<close>

section \<open>Data\<close>

text \<open>The empty source, mode and action strings are the zero values of the Go types.\<close>

abbreviation ActionRead :: string where "ActionRead \<equiv> ''read''"
abbreviation ActionWrite :: string where "ActionWrite \<equiv> ''write''"
abbreviation ActionExecute :: string where "ActionExecute \<equiv> ''execute''"
abbreviation ActionDelete :: string where "ActionDelete \<equiv> ''delete''"
abbreviation ActionNetwork :: string where "ActionNetwork \<equiv> ''network''"

record rule =
  r_id :: string
  r_source :: rule_source
  r_behavior :: permission_behavior
  r_tool :: string
  r_action :: string
  r_allowed_tools :: "string list"

record request =
  rq_tool :: string
  rq_action :: string
  rq_workspace :: string
  rq_command :: string
  rq_paths :: "string list"
  rq_network :: "string list"

record decision =
  d_behavior :: permission_behavior
  d_reason :: string
  d_rule_id :: string
  d_remember :: bool

record broker =
  b_mode :: permission_mode
  b_rules :: "rule list"
  b_confirmer :: bool
  b_headless :: bool
  b_audit :: bool
  b_session :: "(string \<times> string) set"

record audit_record =
  ar_time :: instant
  ar_tool :: string
  ar_action :: string
  ar_behavior :: permission_behavior
  ar_reason :: string
  ar_rule_id :: string
  ar_path_count :: nat
  ar_network_count :: nat

datatype broker_error =
    BrokerCtx ctx_error | ConfirmFailed string | AuditFailed string
  | UnsupportedMode permission_mode | BypassNeedsCli | RuleIdRequired
  | UnsupportedBehavior string | ProjectExpands string
  | UnsupportedTrust string | InvalidTool string

section \<open>Policies\<close>

definition effective_mode :: "permission_mode \<Rightarrow> permission_mode" where
  "effective_mode mode = (if mode = PermissionModeUnset then PermissionModeDefault else mode)"

fun validate_rules :: "rule list \<Rightarrow> broker_error option" where
  "validate_rules [] = None"
| "validate_rules (rule # rest) =
     (if r_id rule = [] then Some RuleIdRequired
      else if r_behavior rule \<notin> {PermissionBehaviorAllow, PermissionBehaviorDeny, PermissionBehaviorAsk}
      then Some (UnsupportedBehavior (r_id rule))
      else if r_source rule = SourceProjectSettings \<and> r_behavior rule = PermissionBehaviorAllow
      then Some (ProjectExpands (r_id rule))
      else validate_rules rest)"

definition validatePolicy :: "permission_mode \<Rightarrow> rule_source \<Rightarrow> rule list \<Rightarrow> broker_error option" where
  "validatePolicy mode0 modeSource rules =
     (let mode = effective_mode mode0
      in if mode \<notin> {PermissionModeDefault, PermissionModePlan, PermissionModeAcceptEdits, PermissionModeBypass}
         then Some (UnsupportedMode mode)
         else if mode = PermissionModeBypass \<and> modeSource \<noteq> SourceCliArg then Some BypassNeedsCli
         else validate_rules rules)"

definition containsTool :: "string list \<Rightarrow> string \<Rightarrow> bool" where
  "containsTool values tool = list_ex (\<lambda>v. v = tool) values"

definition ruleMatches :: "rule \<Rightarrow> request \<Rightarrow> bool" where
  "ruleMatches rule request =
     (if r_allowed_tools rule \<noteq> [] \<and> containsTool (r_allowed_tools rule) (rq_tool request) then False
      else (r_tool rule = [] \<or> r_tool rule = rq_tool request)
         \<and> (r_action rule = [] \<or> r_action rule = rq_action request))"

definition make_decision :: "permission_behavior \<Rightarrow> string \<Rightarrow> string \<Rightarrow> decision" where
  "make_decision b reason ident =
     \<lparr>d_behavior = b, d_reason = reason, d_rule_id = ident, d_remember = False\<rparr>"

definition modeDefault :: "permission_mode \<Rightarrow> string \<Rightarrow> decision" where
  "modeDefault mode action =
     (case mode of
        PermissionModePlan \<Rightarrow>
          if action = ActionRead
          then make_decision PermissionBehaviorAllow ''plan mode permits workspace reads'' []
          else make_decision PermissionBehaviorDeny ''plan mode denies state-changing actions'' []
      | PermissionModeAcceptEdits \<Rightarrow>
          if action = ActionRead \<or> action = ActionWrite
          then make_decision PermissionBehaviorAllow ''accept-edits mode permits workspace reads and writes'' []
          else make_decision PermissionBehaviorAsk ''accept-edits mode requires confirmation for this action'' []
      | PermissionModeBypass \<Rightarrow> make_decision PermissionBehaviorAllow ''explicit CLI bypass mode'' []
      | _ \<Rightarrow>
          if action = ActionRead
          then make_decision PermissionBehaviorAllow ''default mode permits workspace reads'' []
          else make_decision PermissionBehaviorAsk ''default mode requires confirmation'' [])"

section \<open>Brokers\<close>

text \<open>A broker and its ancestors; \<open>parents\<close> is empty when the parent is nil.\<close>

definition NewBroker ::
    "permission_mode \<Rightarrow> rule_source \<Rightarrow> rule list \<Rightarrow> bool \<Rightarrow> bool \<Rightarrow> bool \<Rightarrow> broker list
     \<Rightarrow> broker_error + broker list" where
  "NewBroker mode modeSource rules confirmer headless audit parents =
     (case validatePolicy (effective_mode mode) modeSource rules of
        Some e \<Rightarrow> Inl e
      | None \<Rightarrow>
          Inr (\<lparr>b_mode = effective_mode mode, b_rules = rules, b_confirmer = confirmer,
                b_headless = headless, b_audit = audit, b_session = {}\<rparr> # parents))"

definition Child ::
    "broker list \<Rightarrow> permission_mode \<Rightarrow> rule_source \<Rightarrow> rule list \<Rightarrow> broker_error + broker list" where
  "Child chain mode source rules =
     (let broker = hd chain
      in NewBroker mode source rules (b_confirmer broker) (b_headless broker) (b_audit broker) chain)"

definition validateRequest :: "request \<Rightarrow> bool" where
  "validateRequest request \<longleftrightarrow>
     rq_tool request \<noteq> []
   \<and> \<not> (rq_command request \<noteq> [] \<and> rq_action request \<noteq> ActionExecute)
   \<and> \<not> (rq_network request \<noteq> [] \<and> rq_action request \<noteq> ActionNetwork \<and> rq_action request \<noteq> ActionExecute)
   \<and> rq_action request \<in> {ActionRead, ActionWrite, ActionExecute, ActionDelete, ActionNetwork}"

definition first_rule :: "permission_behavior \<Rightarrow> rule list \<Rightarrow> request \<Rightarrow> rule option" where
  "first_rule b rules request = find (\<lambda>rule. r_behavior rule = b \<and> ruleMatches rule request) rules"

definition localDecision :: "broker \<Rightarrow> request \<Rightarrow> decision" where
  "localDecision broker request =
     (case first_rule PermissionBehaviorDeny (b_rules broker) request of
        Some rule \<Rightarrow> make_decision PermissionBehaviorDeny ''request denied by explicit rule'' (r_id rule)
      | None \<Rightarrow>
        (case first_rule PermissionBehaviorAllow (b_rules broker) request of
           Some rule \<Rightarrow> make_decision PermissionBehaviorAllow ''request allowed by explicit rule'' (r_id rule)
         | None \<Rightarrow>
           if (rq_tool request, rq_action request) \<in> b_session broker
           then make_decision PermissionBehaviorAllow ''request allowed by session approval'' ''session-approval''
           else (case first_rule PermissionBehaviorAsk (b_rules broker) request of
               Some rule \<Rightarrow> make_decision PermissionBehaviorAsk ''explicit rule requires confirmation'' (r_id rule)
             | None \<Rightarrow> modeDefault (b_mode broker) (rq_action request))))"

text \<open>\<open>answer\<close> is what the confirmer returns for this request: an error or a decision.\<close>

definition confirm :: "string + decision \<Rightarrow> request \<Rightarrow> broker \<Rightarrow> broker \<times> (broker_error + decision)" where
  "confirm answer request broker =
     (if b_headless broker \<or> \<not> b_confirmer broker
      then (broker, Inr (make_decision PermissionBehaviorDeny
        (''confirmation is unavailable in headless mode; configure a reviewed user permission rule ''
          @ ''or explicitly use --permission-mode bypass'') []))
      else (case answer of
          Inl e \<Rightarrow> (broker, Inl (ConfirmFailed e))
        | Inr d \<Rightarrow>
            if d_behavior d = PermissionBehaviorAllow
            then ((if d_remember d
                   then broker\<lparr>b_session := insert (rq_tool request, rq_action request) (b_session broker)\<rparr>
                   else broker),
                  Inr ((make_decision PermissionBehaviorAllow ''request confirmed by user'' [])
                         \<lparr>d_remember := d_remember d\<rparr>))
            else (broker, Inr (make_decision PermissionBehaviorDeny ''request was not confirmed'' []))))"

definition behaviorRank :: "permission_behavior \<Rightarrow> nat" where
  "behaviorRank b =
     (case b of PermissionBehaviorDeny \<Rightarrow> 2
      | PermissionBehaviorAsk \<Rightarrow> 1
      | PermissionBehaviorPassthrough \<Rightarrow> 1
      | _ \<Rightarrow> 0)"

text \<open>
  \<open>decide\<close> with the result of \<open>validateRequestPaths\<close> as the argument \<open>paths_ok\<close>, which every broker of
  the chain computes from the same request; the answers are those of the confirmers, in the order
  of the chain.
\<close>

fun decide_chain ::
    "bool \<Rightarrow> request \<Rightarrow> (string + decision) list \<Rightarrow> broker list \<Rightarrow> broker list \<times> (broker_error + decision)" where
  "decide_chain paths_ok request answers [] =
     ([], Inr (make_decision PermissionBehaviorAllow [] []))"
| "decide_chain paths_ok request answers (broker # parents) =
     (if \<not> validateRequest request
      then (broker # parents,
            Inr (make_decision PermissionBehaviorDeny ''permission request is invalid'' ''invalid-request''))
      else if \<not> paths_ok
      then (broker # parents,
            Inr (make_decision PermissionBehaviorDeny ''filesystem request is outside the workspace''
                   ''workspace-boundary''))
      else
        (let local = localDecision broker request;
             (broker', result) =
               (if d_behavior local = PermissionBehaviorAsk
                then (case answers of
                    [] \<Rightarrow> confirm (Inl ''no answer'') request broker
                  | answer # _ \<Rightarrow> confirm answer request broker)
                else (broker, Inr local))
         in (case result of
               Inl e \<Rightarrow> (broker' # parents, Inl e)
             | Inr decision \<Rightarrow>
                 if parents = [] \<or> d_behavior decision = PermissionBehaviorDeny
                 then (broker' # parents, Inr decision)
                 else (case decide_chain paths_ok request (tl answers) parents of
                     (parents', Inl e) \<Rightarrow> (broker' # parents', Inl e)
                   | (parents', Inr parentDecision) \<Rightarrow>
                       if behaviorRank (d_behavior parentDecision) > behaviorRank (d_behavior decision)
                       then (broker' # parents', Inr parentDecision)
                       else (broker' # parents', Inr decision)))))"

text \<open>\<open>None\<close> only if resolving a path does not return.\<close>

definition decide ::
    "os_view \<Rightarrow> request \<Rightarrow> (string + decision) list \<Rightarrow> broker list
     \<Rightarrow> (broker list \<times> (broker_error + decision)) option" where
  "decide os request answers chain =
     map_option (\<lambda>err. decide_chain (err = None) request answers chain)
       (validateRequestPaths os (rq_workspace request) (rq_paths request))"

definition audit_of :: "instant \<Rightarrow> request \<Rightarrow> decision \<Rightarrow> audit_record" where
  "audit_of now request decision =
     \<lparr>ar_time = now, ar_tool = rq_tool request, ar_action = rq_action request,
      ar_behavior = d_behavior decision, ar_reason = d_reason decision,
      ar_rule_id = d_rule_id decision, ar_path_count = length (rq_paths request),
      ar_network_count = length (rq_network request)\<rparr>"

text \<open>\<open>sink\<close> is the audit sink: \<open>None\<close> when it accepts the record, an error otherwise.\<close>

definition record_decision ::
    "(audit_record \<Rightarrow> string option) \<Rightarrow> instant \<Rightarrow> request \<Rightarrow> decision \<Rightarrow> broker \<Rightarrow> string option" where
  "record_decision sink now request decision broker =
     (if \<not> b_audit broker then None else sink (audit_of now request decision))"

definition Decide ::
    "os_view \<Rightarrow> (audit_record \<Rightarrow> string option) \<Rightarrow> ctx \<Rightarrow> instant \<Rightarrow> request \<Rightarrow> (string + decision) list
     \<Rightarrow> broker list \<Rightarrow> (broker list \<times> (broker_error + decision)) option" where
  "Decide os sink c now request answers chain =
     (case c of Some e \<Rightarrow> Some (chain, Inl (BrokerCtx e))
      | None \<Rightarrow>
        (case decide os request answers chain of
           None \<Rightarrow> None
         | Some (chain', Inl e) \<Rightarrow> Some (chain', Inl e)
         | Some (chain', Inr decision) \<Rightarrow>
             (case record_decision sink now request decision (hd chain') of
                Some e \<Rightarrow> Some (chain', Inl (AuditFailed e))
              | None \<Rightarrow> Some (chain', Inr decision))))"

section \<open>Enterprise trust\<close>

datatype trust_level = TrustUnset | TrustTrusted | TrustSuggested | TrustManaged | TrustOther string

definition tool_name_ok :: "string \<Rightarrow> bool" where
  "tool_name_ok v \<longleftrightarrow>
     \<not> (v = [] \<or> length v > 128 \<or> ContainsAny v [CHR 0x20, CHR 0x09, CHR 0x0D, CHR 0x0A])"

text \<open>The keys of the Go map, sorted as \<open>sort.Strings\<close> sorts them, by bytes.\<close>

definition normalizeToolSet :: "string list \<Rightarrow> broker_error + string list" where
  "normalizeToolSet values =
     (case find (\<lambda>v. \<not> tool_name_ok v) (map TrimSpace values) of
        Some v \<Rightarrow> Inl (InvalidTool v)
      | None \<Rightarrow> Inr (sort (remdups (map TrimSpace values))))"

definition deny_rule :: "string \<Rightarrow> rule" where
  "deny_rule tool =
     \<lparr>r_id = ''managed-deny-'' @ tool, r_source = SourcePolicySettings,
      r_behavior = PermissionBehaviorDeny, r_tool = (if tool = ''*'' then [] else tool),
      r_action = [], r_allowed_tools = []\<rparr>"

definition TrustRules :: "trust_level \<Rightarrow> string list \<Rightarrow> string list \<Rightarrow> broker_error + rule list" where
  "TrustRules level allowedTools deniedTools =
     (case level of
        TrustOther s \<Rightarrow> Inl (UnsupportedTrust s)
      | _ \<Rightarrow>
        (case normalizeToolSet allowedTools of
           Inl e \<Rightarrow> Inl e
         | Inr allowed \<Rightarrow>
           (case normalizeToolSet deniedTools of
              Inl e \<Rightarrow> Inl e
            | Inr denied \<Rightarrow>
                Inr (map deny_rule denied
                  @ (if level = TrustManaged \<and> allowed \<noteq> [] \<and> \<not> containsTool allowed ''*''
                     then [\<lparr>r_id = ''managed-allowlist-boundary'', r_source = SourcePolicySettings,
                            r_behavior = PermissionBehaviorDeny, r_tool = [], r_action = [],
                            r_allowed_tools = allowed\<rparr>]
                     else [])))))"

end
