(* ===== verification/Broker_Properties.thy ===== *)
theory Broker_Properties
  imports Permission_Broker
begin

text \<open>
  What the permission broker guarantees: a request is allowed exactly when every broker of the chain
  approves it, so what \<open>Child\<close> makes never exceeds any of its ancestors and denials are final; enterprise bounds hold
  in every mode; allowed paths lie in the workspace; no decision leaves without its audit record.
\<close>

section \<open>Restrictiveness\<close>

text \<open>Behaviours are ordered by how much they restrict.\<close>

instantiation permission_behavior :: preorder
begin

definition less_eq_permission_behavior :: "permission_behavior \<Rightarrow> permission_behavior \<Rightarrow> bool" where
  "a \<le> b \<longleftrightarrow> behaviorRank a \<le> behaviorRank b"

definition less_permission_behavior :: "permission_behavior \<Rightarrow> permission_behavior \<Rightarrow> bool" where
  "a < b \<longleftrightarrow> behaviorRank a < behaviorRank b"

instance
  by standard (auto simp: less_eq_permission_behavior_def less_permission_behavior_def)

end

lemmas restrict_defs = less_eq_permission_behavior_def less_permission_behavior_def behaviorRank_def

lemma deny_greatest [simp]: "b \<le> PermissionBehaviorDeny"
  by (cases b) (simp_all add: restrict_defs)

lemma less_deny [simp]: "\<not> PermissionBehaviorDeny < b" "PermissionBehaviorAllow < PermissionBehaviorDeny"
  by (cases b) (simp_all add: restrict_defs)

section \<open>One broker\<close>

lemma make_decision_simps [simp]:
  "d_behavior (make_decision b reason ident) = b"
  "d_rule_id (make_decision b reason ident) = ident"
  "d_remember (make_decision b reason ident) = False"
  by (simp_all add: make_decision_def)

lemma modeDefault_behavior:
  "d_behavior (modeDefault mode action)
     \<in> {PermissionBehaviorAllow, PermissionBehaviorDeny, PermissionBehaviorAsk}"
  by (simp add: modeDefault_def split: permission_mode.splits)

lemma localDecision_behavior:
  "d_behavior (localDecision broker request)
     \<in> {PermissionBehaviorAllow, PermissionBehaviorDeny, PermissionBehaviorAsk}"
  using modeDefault_behavior by (simp add: localDecision_def split: option.splits)

definition answer_at :: "nat \<Rightarrow> (string + decision) list \<Rightarrow> string + decision" where
  "answer_at k answers = (if k < length answers then answers ! k else Inl ''no answer'')"

definition confirms :: "string + decision \<Rightarrow> broker \<Rightarrow> bool" where
  "confirms answer broker \<longleftrightarrow> \<not> b_headless broker \<and> b_confirmer broker
     \<and> (case answer of Inl e \<Rightarrow> False | Inr d \<Rightarrow> d_behavior d = PermissionBehaviorAllow)"

text \<open>A broker approves by itself or because the user confirms.\<close>

definition approves :: "string + decision \<Rightarrow> request \<Rightarrow> broker \<Rightarrow> bool" where
  "approves answer request broker \<longleftrightarrow>
     d_behavior (localDecision broker request) = PermissionBehaviorAllow
   \<or> (d_behavior (localDecision broker request) = PermissionBehaviorAsk \<and> confirms answer broker)"

definition own :: "string + decision \<Rightarrow> request \<Rightarrow> broker \<Rightarrow> broker \<times> (broker_error + decision)" where
  "own answer request broker =
     (if d_behavior (localDecision broker request) = PermissionBehaviorAsk
      then confirm answer request broker else (broker, Inr (localDecision broker request)))"

lemma own_cases:
  obtains e where "snd (own answer request broker) = Inl e" and "\<not> approves answer request broker"
  | d where "snd (own answer request broker) = Inr d" and "d_behavior d = PermissionBehaviorAllow"
      and "approves answer request broker"
  | d where "snd (own answer request broker) = Inr d" and "d_behavior d = PermissionBehaviorDeny"
      and "\<not> approves answer request broker"
proof -
  have "(\<exists>e. snd (own answer request broker) = Inl e \<and> \<not> approves answer request broker)
      \<or> (\<exists>d. snd (own answer request broker) = Inr d
          \<and> d_behavior d = (if approves answer request broker then PermissionBehaviorAllow
              else PermissionBehaviorDeny))"
    using localDecision_behavior [of broker request]
    by (cases answer) (auto simp: own_def confirm_def approves_def confirms_def)
  then show ?thesis using that by (auto split: if_splits)
qed

lemma decide_chain_Cons:
  "decide_chain True request answers (broker # parents) =
     (if \<not> validateRequest request
      then (broker # parents,
            Inr (make_decision PermissionBehaviorDeny ''permission request is invalid'' ''invalid-request''))
      else (case own (answer_at 0 answers) request broker of
          (broker', Inl e) \<Rightarrow> (broker' # parents, Inl e)
        | (broker', Inr decision) \<Rightarrow>
            if parents = [] \<or> d_behavior decision = PermissionBehaviorDeny
            then (broker' # parents, Inr decision)
            else (case decide_chain True request (tl answers) parents of
                (parents', Inl e) \<Rightarrow> (broker' # parents', Inl e)
              | (parents', Inr pd) \<Rightarrow>
                  (broker' # parents', Inr (if d_behavior decision < d_behavior pd then pd else decision)))))"
proof -
  have "(case answers of [] \<Rightarrow> confirm (Inl ''no answer'') request broker
        | answer # _ \<Rightarrow> confirm answer request broker) = confirm (answer_at 0 answers) request broker"
    by (cases answers) (simp_all add: answer_at_def)
  then show ?thesis
    by (simp add: own_def Let_def less_permission_behavior_def split: prod.split sum.split)
qed

lemma decide_chain_bad_paths:
  "chain \<noteq> [] \<Longrightarrow> \<exists>d. snd (decide_chain False request answers chain) = Inr d
     \<and> d_behavior d = PermissionBehaviorDeny"
  by (cases chain) simp_all

declare decide_chain.simps [simp del]

lemma answer_at_tl [simp]: "answer_at k (tl answers) = answer_at (Suc k) answers"
  by (cases answers) (simp_all add: answer_at_def)

section \<open>The chain\<close>

text \<open>All brokers of the chain approve, each with its answer.\<close>

fun all_approve :: "(string + decision) list \<Rightarrow> request \<Rightarrow> broker list \<Rightarrow> bool" where
  "all_approve answers request [] = True"
| "all_approve answers request (broker # parents) =
     (approves (answer_at 0 answers) request broker \<and> all_approve (tl answers) request parents)"

definition allowed :: "broker_error + decision \<Rightarrow> bool" where
  "allowed r \<longleftrightarrow> (case r of Inl e \<Rightarrow> False | Inr d \<Rightarrow> d_behavior d = PermissionBehaviorAllow)"

definition denied :: "broker_error + decision \<Rightarrow> bool" where
  "denied r \<longleftrightarrow> (case r of Inl e \<Rightarrow> False | Inr d \<Rightarrow> d_behavior d = PermissionBehaviorDeny)"

lemma allowed_simps [simp]:
  "\<not> allowed (Inl e)" "allowed (Inr d) \<longleftrightarrow> d_behavior d = PermissionBehaviorAllow"
  "\<not> denied (Inl e)" "denied (Inr d) \<longleftrightarrow> d_behavior d = PermissionBehaviorDeny"
  by (simp_all add: allowed_def denied_def)

lemma decide_chain_result:
  assumes "chain \<noteq> []"
  shows "(allowed (snd (decide_chain True request answers chain)) \<longleftrightarrow>
      validateRequest request \<and> all_approve answers request chain)
    \<and> (allowed (snd (decide_chain True request answers chain))
       \<or> denied (snd (decide_chain True request answers chain))
       \<or> (\<exists>e. snd (decide_chain True request answers chain) = Inl e))"
  using assms
proof (induction chain arbitrary: answers)
  case (Cons broker parents)
  show ?case
  proof (cases "validateRequest request")
    case valid: True
    show ?thesis
    proof (cases rule: own_cases [of "answer_at 0 answers" request broker])
      case (1 e)
      then show ?thesis using valid
        by (cases "own (answer_at 0 answers) request broker") (simp add: decide_chain_Cons)
    next
      case (2 d)
      then obtain broker' where own: "own (answer_at 0 answers) request broker = (broker', Inr d)"
        by (metis prod.collapse)
      show ?thesis
      proof (cases "parents = []")
        case True
        then show ?thesis using 2 valid own by (simp add: decide_chain_Cons)
      next
        case False
        obtain parents' pres where par: "decide_chain True request (tl answers) parents = (parents', pres)"
          by fastforce
        have IH: "(allowed pres \<longleftrightarrow> all_approve (tl answers) request parents)
            \<and> (allowed pres \<or> denied pres \<or> (\<exists>e. pres = Inl e))"
          using Cons.IH [OF False, of "tl answers"] valid unfolding par by auto
        then show ?thesis
          using 2 valid own par False by (cases pres) (auto simp: decide_chain_Cons)
      qed
    next
      case (3 d)
      then show ?thesis using valid
        by (cases "own (answer_at 0 answers) request broker") (simp add: decide_chain_Cons)
    qed
  qed (simp add: decide_chain_Cons)
qed simp

lemma decide_allowed:
  assumes "chain \<noteq> []"
  shows "allowed (snd (decide_chain paths_ok request answers chain)) \<longleftrightarrow>
      validateRequest request \<and> paths_ok \<and> all_approve answers request chain"
    and "\<not> allowed (snd (decide_chain paths_ok request answers chain)) \<Longrightarrow>
      denied (snd (decide_chain paths_ok request answers chain))
      \<or> (\<exists>e. snd (decide_chain paths_ok request answers chain) = Inl e)"
  using decide_chain_result [OF assms, of request answers]
    decide_chain_bad_paths [OF assms, of request answers]
  by (cases paths_ok; auto)+

text \<open>A broker with its ancestors allows a request exactly when the request is valid, its paths lie in
  the workspace and every broker of the chain approves it, by its own rules and mode or because the
  user confirms; every decision it returns is an approval or a denial.\<close>

theorem decide_allowed_iff:
  fixes paths_ok :: bool and request :: request and answers :: "(string + decision) list"
  assumes "chain \<noteq> []"
  defines "r \<equiv> snd (decide_chain paths_ok request answers chain)"
  shows "(allowed r \<longleftrightarrow> validateRequest request \<and> paths_ok \<and> all_approve answers request chain)
     \<and> (allowed r \<or> denied r \<or> (\<exists>e. r = Inl e))"
  using decide_allowed [OF assms(1), of paths_ok request answers] unfolding r_def by blast

lemma Decide_Inr:
  assumes "Decide os sink c now request answers chain = Some (chain', Inr d)"
  shows "\<exists>err. validateRequestPaths os (rq_workspace request) (rq_paths request) = Some err
    \<and> decide_chain (err = None) request answers chain = (chain', Inr d)
    \<and> record_decision sink now request d (hd chain') = None"
  using assms
  by (auto simp: Decide_def decide_def split: option.splits sum.splits prod.splits)

lemma Decide_state:
  assumes "Decide os sink c now request answers chain = Some (chain', r)"
  shows "\<exists>ok. chain' = chain \<or> chain' = fst (decide_chain ok request answers chain)"
proof (cases c)
  case None
  show ?thesis
  proof (cases "validateRequestPaths os (rq_workspace request) (rq_paths request)")
    case (Some err)
    obtain ch res where dc: "decide_chain (err = None) request answers chain = (ch, res)" by fastforce
    have "chain' = ch"
      using assms None Some dc by (auto simp: Decide_def decide_def split: sum.splits option.splits)
    then show ?thesis using dc by (metis fst_conv)
  qed (use assms None in \<open>simp add: Decide_def decide_def\<close>)
qed (use assms in \<open>auto simp: Decide_def\<close>)

text \<open>The decisions made through a chain one after another, each in the state the one before left.\<close>

fun decisions ::
    "os_view \<Rightarrow> (audit_record \<Rightarrow> string option)
     \<Rightarrow> (ctx \<times> instant \<times> request \<times> (string + decision) list) list \<Rightarrow> broker list \<Rightarrow> broker list option" where
  "decisions os sink [] chain = Some chain"
| "decisions os sink ((c, now, request, answers) # rest) chain =
     (case Decide os sink c now request answers chain of
        None \<Rightarrow> None
      | Some (chain', _) \<Rightarrow> decisions os sink rest chain')"

lemma own_policy:
  "own answer request broker = (broker', r) \<Longrightarrow> b_rules broker' = b_rules broker \<and> b_mode broker' = b_mode broker"
  by (auto simp: own_def confirm_def split: if_splits sum.splits)

lemma decide_chain_policy:
  "map b_rules (fst (decide_chain ok request answers chain)) = map b_rules chain
   \<and> map b_mode (fst (decide_chain ok request answers chain)) = map b_mode chain"
proof (cases ok)
  case True
  have "map b_rules (fst (decide_chain True request answers chain)) = map b_rules chain
      \<and> map b_mode (fst (decide_chain True request answers chain)) = map b_mode chain"
  proof (induction chain arbitrary: answers)
    case (Cons broker parents)
    obtain broker' r where own: "own (answer_at 0 answers) request broker = (broker', r)" by fastforce
    obtain parents' q where par: "decide_chain True request (tl answers) parents = (parents', q)" by fastforce
    show ?case
      using Cons.IH [of "tl answers"] own_policy [OF own]
      by (auto simp: decide_chain_Cons own par split: sum.split)
  qed (simp add: decide_chain.simps)
  then show ?thesis using True by simp
next
  case False
  then show ?thesis by (cases chain) (simp_all add: decide_chain.simps)
qed

lemma decisions_policy:
  "decisions os sink steps chain = Some chain1 \<Longrightarrow>
     map b_rules chain1 = map b_rules chain \<and> map b_mode chain1 = map b_mode chain"
proof (induction os sink steps chain rule: decisions.induct)
  case (2 os sink c now request answers rest chain)
  then obtain chain' r where D: "Decide os sink c now request answers chain = Some (chain', r)"
    and rest: "decisions os sink rest chain' = Some chain1"
    by (auto split: option.splits)
  have "map b_rules chain' = map b_rules chain \<and> map b_mode chain' = map b_mode chain"
    using Decide_state [OF D] decide_chain_policy [of _ request answers chain] by auto
  then show ?case using "2.IH" [OF D refl rest] by simp
qed simp

lemma all_approve_drop: "all_approve answers request chain \<Longrightarrow> all_approve (drop k answers) request (drop k chain)"
proof (induction chain arbitrary: answers k)
  case (Cons broker parents)
  show ?case
  proof (cases k)
    case (Suc n)
    then show ?thesis using Cons.IH [of "tl answers" n] Cons.prems by (simp add: drop_Suc)
  qed (use Cons.prems in simp)
qed simp

lemma Child_Inr:
  "Child parents mode source rules = Inr chain \<Longrightarrow> \<exists>child. chain = child # parents"
  by (auto simp: Child_def NewBroker_def Let_def split: option.splits)

text \<open>C6: A child never exceeds any of its ancestors: whatever was decided through it before, when a broker
  that Child created allows a request, each ancestor of it, the creator and every broker above, still
  has its rules and its mode and, deciding the same request with the same answers of the user, allows
  it as well.\<close>

theorem child_never_exceeds:
  assumes "Child parents mode source rules = Inr chain" and "parents \<noteq> []"
    and "decisions os sink earlier chain = Some chain1"
    and "Decide os sink c now request answers chain1 = Some (chain', Inr d)"
    and "d_behavior d = PermissionBehaviorAllow"
  shows "map b_rules (tl chain1) = map b_rules parents \<and> map b_mode (tl chain1) = map b_mode parents
     \<and> (\<forall>k < length parents. \<exists>ancestors' pd.
          decide os request (drop (Suc k) answers) (drop k (tl chain1)) = Some (ancestors', Inr pd)
          \<and> d_behavior pd = PermissionBehaviorAllow)"
proof -
  obtain child0 where "chain = child0 # parents" using Child_Inr [OF assms(1)] by blast
  then have policy: "map b_rules chain1 = b_rules child0 # map b_rules parents"
      "map b_mode chain1 = b_mode child0 # map b_mode parents"
    using decisions_policy [OF assms(3)] by simp_all
  then have ne: "chain1 \<noteq> []" and len: "length (tl chain1) = length parents"
    by (auto dest: map_eq_Cons_D map_eq_imp_length_eq)
  obtain err :: "path_error option" where err: "validateRequestPaths os (rq_workspace request) (rq_paths request) = Some err"
    and dc: "decide_chain (err = None) request answers chain1 = (chain', Inr d)"
    using Decide_Inr [OF assms(4)] by blast
  have ok: "validateRequest request \<and> err = None \<and> all_approve answers request chain1"
    using decide_allowed [OF ne, of "err = None" request answers] dc assms(5) by simp
  have "\<exists>ancestors' pd. decide os request (drop (Suc k) answers) (drop k (tl chain1)) = Some (ancestors', Inr pd)
      \<and> d_behavior pd = PermissionBehaviorAllow" if k: "k < length parents" for k
  proof -
    have "all_approve (drop (Suc k) answers) request (drop k (tl chain1))"
      using all_approve_drop [of answers request chain1 "Suc k"] ok by (simp add: drop_Suc)
    moreover have "drop k (tl chain1) \<noteq> []" using k len by simp
    ultimately have "allowed (snd (decide_chain (err = None) request (drop (Suc k) answers) (drop k (tl chain1))))"
      using decide_allowed ok by blast
    then show ?thesis
      using err by (cases "decide_chain (err = None) request (drop (Suc k) answers) (drop k (tl chain1))")
        (auto simp: decide_def allowed_def split: sum.splits)
  qed
  then show ?thesis using policy by (auto simp: map_tl)
qed

lemma approves_no_deny:
  "approves answer request broker \<Longrightarrow> first_rule PermissionBehaviorDeny (b_rules broker) request = None"
  by (auto simp: approves_def localDecision_def split: option.splits)

lemma all_approve_member:
  "all_approve answers request chain \<Longrightarrow> broker \<in> set chain \<Longrightarrow>
     first_rule PermissionBehaviorDeny (b_rules broker) request = None"
  by (induction chain arbitrary: answers) (auto dest: approves_no_deny)

lemma deny_rule_blocks:
  assumes "broker \<in> set chain" and "rule \<in> set (b_rules broker)"
    and "r_behavior rule = PermissionBehaviorDeny" and "ruleMatches rule request"
  shows "\<not> all_approve answers request chain"
proof -
  have "first_rule PermissionBehaviorDeny (b_rules broker) request \<noteq> None"
    using assms(2-4) by (auto simp: first_rule_def find_None_iff)
  then show ?thesis using all_approve_member [OF _ assms(1)] by auto
qed

lemma denial_denies:
  assumes "broker \<in> set chain" and "rule \<in> set (b_rules broker)"
    and "r_behavior rule = PermissionBehaviorDeny" and "ruleMatches rule request"
    and "Decide os sink c now request answers chain = Some (chain', Inr d)"
  shows "d_behavior d = PermissionBehaviorDeny"
proof -
  have ne: "chain \<noteq> []" using assms(1) by auto
  obtain err :: "path_error option" where dc: "decide_chain (err = None) request answers chain = (chain', Inr d)"
    using Decide_Inr [OF assms(5)] by blast
  show ?thesis
    using deny_rule_blocks [OF assms(1-4), of answers]
      decide_allowed [OF ne, of "err = None" request answers] dc by auto
qed

text \<open>C3: A matching denial of any broker of the chain is final: no mode, session approval, other rule or
  answer of the user makes the request allowed.\<close>

theorem deny_rule_final:
  assumes "broker \<in> set chain" and "rule \<in> set (b_rules broker)"
    and "r_behavior rule = PermissionBehaviorDeny" and "ruleMatches rule request"
    and "Decide os sink c now request answers chain = Some (chain', Inr d)"
  shows "d_behavior d = PermissionBehaviorDeny"
  using denial_denies [OF assms] .

section \<open>Enterprise bounds\<close>

lemma find_None_all: "find P xs = None \<longleftrightarrow> list_all (\<lambda>x. \<not> P x) xs"
  by (auto simp: find_None_iff list_all_iff)

lemma deny_rule_behavior [simp]: "r_behavior (deny_rule t) = PermissionBehaviorDeny"
  by (simp add: deny_rule_def)

lemma normalizeToolSet_set: "normalizeToolSet values = Inr vs \<Longrightarrow> set vs = TrimSpace ` set values"
  by (auto simp: normalizeToolSet_def split: option.splits)

text \<open>A broker whose rules include the rules of a managed trust level allows only tools of its allowlist and
  none of its denied tools, in every mode, bypass included, and whatever the user answers.\<close>

theorem managed_trust_bounds:
  assumes "TrustRules TrustManaged allowedTools deniedTools = Inr rules"
    and "broker \<in> set chain" and "set rules \<subseteq> set (b_rules broker)"
    and "Decide os sink c now request answers chain = Some (chain', Inr d)"
    and "d_behavior d = PermissionBehaviorAllow"
  shows "rq_tool request \<notin> TrimSpace ` set deniedTools \<and> ''*'' \<notin> TrimSpace ` set deniedTools
     \<and> (allowedTools = [] \<or> ''*'' \<in> TrimSpace ` set allowedTools
        \<or> rq_tool request \<in> TrimSpace ` set allowedTools)"
proof -
  obtain as ds where as: "normalizeToolSet allowedTools = Inr as" and ds: "normalizeToolSet deniedTools = Inr ds"
    using assms(1) by (auto simp: TrustRules_def split: sum.splits)
  note sets = normalizeToolSet_set [OF as] normalizeToolSet_set [OF ds]
  have ne: "chain \<noteq> []" using assms(2) by auto
  obtain err :: "path_error option" where dc: "decide_chain (err = None) request answers chain = (chain', Inr d)"
    using Decide_Inr [OF assms(4)] by blast
  then have "all_approve answers request chain"
    using decide_allowed [OF ne, of "err = None" request answers] assms(5) by simp
  then have no: "\<not> ruleMatches rule request" if "rule \<in> set rules" "r_behavior rule = PermissionBehaviorDeny" for rule
    using deny_rule_blocks [OF assms(2) _ that(2)] assms(3) that(1) by blast
  have deny: "\<not> ruleMatches (deny_rule t) request" if "t \<in> set ds" for t
    using no [of "deny_rule t"] that assms(1) as ds by (auto simp: TrustRules_def)
  have "rq_tool request \<notin> set ds"
    using deny [of "rq_tool request"]
    by (cases "rq_tool request = ''*''") (auto simp: deny_rule_def ruleMatches_def)
  moreover have "''*'' \<notin> set ds"
    using deny [of "''*''"] by (auto simp: deny_rule_def ruleMatches_def)
  moreover have "rq_tool request \<in> set as" if ne: "as \<noteq> []" and star: "''*'' \<notin> set as"
  proof -
    let ?rule = "\<lparr>r_id = ''managed-allowlist-boundary'', r_source = SourcePolicySettings,
        r_behavior = PermissionBehaviorDeny, r_tool = [], r_action = [], r_allowed_tools = as\<rparr>"
    have "?rule \<in> set rules"
      using assms(1) as ds ne star by (auto simp: TrustRules_def containsTool_def list_ex_iff)
    then have "\<not> ruleMatches ?rule request" using no by simp
    then have "containsTool as (rq_tool request)"
      by (simp add: ruleMatches_def split: if_splits)
    then show ?thesis by (simp add: containsTool_def list_ex_iff)
  qed
  moreover have "as = [] \<longleftrightarrow> allowedTools = []"
    using sets(1) by (metis empty_set image_is_empty set_empty)
  ultimately show ?thesis using sets by auto
qed


section \<open>Workspace and audit\<close>

lemma check_paths_accepts:
  "check_paths os workspace paths = Some None \<Longrightarrow> p \<in> set paths \<Longrightarrow>
     \<exists>r. ResolvePath os workspace p = Some (Inr r)"
  by (induction paths) (auto split: option.splits sum.splits)

lemma check_paths_returns: "os_ok os \<Longrightarrow> check_paths os workspace paths \<noteq> None"
proof (induction paths)
  case (Cons p ps)
  then show ?case by (cases rule: ResolvePath_cases [OF Cons.prems, of workspace p]) simp_all
qed simp

text \<open>C4: A decision is always reached, and an allowed request touches the file system only below the
  workspace: every path it names resolves to a path below the resolved workspace.\<close>

theorem allowed_paths_contained:
  assumes "os_ok os" and "chain \<noteq> []"
  shows "\<exists>chain' r. Decide os sink c now request answers chain = Some (chain', r)
     \<and> (allowed r \<longrightarrow> list_all (\<lambda>p. \<exists>resolved.
           ResolvePath os (rq_workspace request) p = Some (Inr resolved)
         \<and> below_workspace os (rq_workspace request) resolved) (rq_paths request))"
proof -
  have "\<exists>err. validateRequestPaths os (rq_workspace request) (rq_paths request) = Some err"
    using check_paths_returns [OF assms(1), of "rq_workspace request" "rq_paths request"]
    by (auto simp: validateRequestPaths_def)
  then obtain err :: "path_error option" where err: "validateRequestPaths os (rq_workspace request) (rq_paths request) = Some err" ..
  then have "\<exists>x. Decide os sink c now request answers chain = Some x"
    by (auto simp: Decide_def decide_def split: option.split sum.split prod.split)
  then obtain chain' r where D: "Decide os sink c now request answers chain = Some (chain', r)" by auto
  have "\<exists>resolved. ResolvePath os (rq_workspace request) p = Some (Inr resolved)
      \<and> below_workspace os (rq_workspace request) resolved"
    if al: "allowed r" and p: "p \<in> set (rq_paths request)" for p
  proof -
    obtain d where d: "r = Inr d" using al by (cases r) auto
    obtain err :: "path_error option" where err: "validateRequestPaths os (rq_workspace request) (rq_paths request) = Some err"
      and dc: "decide_chain (err = None) request answers chain = (chain', Inr d)"
      using Decide_Inr [OF D [unfolded d]] by blast
    have "err = None"
      using decide_allowed [OF assms(2), of "err = None" request answers] dc al d by simp
    then obtain resolved where res: "ResolvePath os (rq_workspace request) p = Some (Inr resolved)"
      using err p check_paths_accepts [of os "rq_workspace request" "rq_paths request" p]
      by (auto simp: validateRequestPaths_def split: if_splits)
    moreover have "below_workspace os (rq_workspace request) resolved"
      using res by (cases rule: ResolvePath_cases [OF assms(1), of "rq_workspace request" p]) simp_all
    ultimately show ?thesis by blast
  qed
  then show ?thesis using D by (auto simp: list_all_iff)
qed

lemma confirm_audit [simp]:
  "b_audit (fst (confirm answer request broker)) = b_audit broker"
  "b_rules (fst (confirm answer request broker)) = b_rules broker"
  "b_mode (fst (confirm answer request broker)) = b_mode broker"
  by (simp_all add: confirm_def split: sum.splits)

lemma own_frame [simp]:
  "b_audit (fst (own answer request broker)) = b_audit broker"
  "b_rules (fst (own answer request broker)) = b_rules broker"
  "b_mode (fst (own answer request broker)) = b_mode broker"
  by (simp_all add: own_def)

lemma decide_chain_head:
  "hd (fst (decide_chain True request answers (broker # parents)))
     = (if validateRequest request then fst (own (answer_at 0 answers) request broker) else broker)"
  by (auto simp: decide_chain_Cons split: prod.splits sum.splits)

lemma decide_chain_head_bad: "fst (decide_chain False request answers (broker # parents)) = broker # parents"
  by (simp add: decide_chain.simps)

text \<open>A broker with an audit sink fails closed: a decision is returned only if the sink has accepted a
  record that names the tool, the action, the decision and the rule behind it.\<close>

theorem decisions_are_audited:
  assumes "Decide os sink c now request answers (broker # parents) = Some (chain', Inr d)"
    and "b_audit broker"
  shows "\<exists>entry. sink entry = None \<and> ar_tool entry = rq_tool request
     \<and> ar_action entry = rq_action request \<and> ar_behavior entry = d_behavior d
     \<and> ar_rule_id entry = d_rule_id d"
proof -
  obtain err :: "path_error option" where dc: "decide_chain (err = None) request answers (broker # parents) = (chain', Inr d)"
    and accepted: "record_decision sink now request d (hd chain') = None"
    using Decide_Inr [OF assms(1)] by blast
  have "b_audit (hd chain')"
    using assms(2) dc decide_chain_head [of request answers broker parents]
      decide_chain_head_bad [of request answers broker parents]
    by (cases "err = None") (auto split: if_splits)
  then have "sink (audit_of now request d) = None" using accepted by (simp add: record_decision_def)
  then show ?thesis by (intro exI [of _ "audit_of now request d"]) (simp add: audit_of_def)
qed

section \<open>Session approvals\<close>

text \<open>Deciding changes a broker in one way only: it remembers tool and action of the request, and it does
  so only when its own decision is to ask, it is not headless, and the user allowed the request and
  asked to remember it.\<close>

theorem session_grows_by_confirmation:
  assumes "Decide os sink c now request answers (broker # parents) = Some (chain', r)"
  shows "hd chain' = broker
     \<or> (\<exists>a. hd chain' = broker\<lparr>b_session := insert (rq_tool request, rq_action request) (b_session broker)\<rparr>
         \<and> d_behavior (localDecision broker request) = PermissionBehaviorAsk
         \<and> \<not> b_headless broker
         \<and> answer_at 0 answers = Inr a \<and> d_behavior a = PermissionBehaviorAllow \<and> d_remember a)"
proof -
  have own: "fst (own (answer_at 0 answers) request broker) = broker
     \<or> (\<exists>a. fst (own (answer_at 0 answers) request broker)
            = broker\<lparr>b_session := insert (rq_tool request, rq_action request) (b_session broker)\<rparr>
         \<and> d_behavior (localDecision broker request) = PermissionBehaviorAsk
         \<and> \<not> b_headless broker
         \<and> answer_at 0 answers = Inr a \<and> d_behavior a = PermissionBehaviorAllow \<and> d_remember a)"
    by (auto simp: own_def confirm_def split: sum.splits)
  obtain ok where "chain' = broker # parents
      \<or> chain' = fst (decide_chain ok request answers (broker # parents))"
    using Decide_state [OF assms] by blast
  then have "hd chain' = broker \<or> hd chain' = fst (own (answer_at 0 answers) request broker)"
    using decide_chain_head [of request answers broker parents]
      decide_chain_head_bad [of request answers broker parents]
    by (cases ok) (auto split: if_splits)
  then show ?thesis using own by auto
qed

section \<open>Adding rules\<close>

lemma find_add:
  "list_all (\<lambda>x. \<not> P x) extra \<Longrightarrow> find P (xs @ extra @ ys) = find P (xs @ ys)"
  by (induction xs) (induction extra, auto)

lemma first_rule_add:
  assumes "list_all (\<lambda>rule. r_behavior rule = PermissionBehaviorDeny) extra"
  shows "b \<noteq> PermissionBehaviorDeny \<Longrightarrow> first_rule b (xs @ extra @ ys) request = first_rule b (xs @ ys) request"
    and "first_rule PermissionBehaviorDeny (xs @ extra @ ys) request = None \<Longrightarrow>
      first_rule PermissionBehaviorDeny (xs @ ys) request = None"
  using assms unfolding first_rule_def
  by (auto intro!: find_add simp: list_all_iff find_None_iff)

text \<open>Denials can only reduce what is allowed, wherever they are inserted: whatever the broker allows with
  them it allows without them.\<close>

theorem denials_only_reduce:
  assumes "b_rules broker = xs @ extra @ ys"
    and "list_all (\<lambda>rule. r_behavior rule = PermissionBehaviorDeny) extra"
    and "allowed (snd (decide_chain paths_ok request answers (broker # parents)))"
  shows "allowed (snd (decide_chain paths_ok request answers (broker\<lparr>b_rules := xs @ ys\<rparr> # parents)))"
proof -
  let ?b = "broker\<lparr>b_rules := xs @ ys\<rparr>"
  have with_extra: "validateRequest request" "paths_ok" "approves (answer_at 0 answers) request broker"
    "all_approve (tl answers) request parents"
    using decide_allowed [of "broker # parents" paths_ok request answers] assms(3) by simp_all
  have no_deny: "first_rule PermissionBehaviorDeny (b_rules broker) request = None"
    using with_extra(3) by (rule approves_no_deny)
  then have "localDecision ?b request = localDecision broker request"
    using first_rule_add(1) [OF assms(2), of PermissionBehaviorAllow xs ys request]
      first_rule_add(1) [OF assms(2), of PermissionBehaviorAsk xs ys request]
      first_rule_add(2) [OF assms(2), of xs ys request] assms(1)
    by (simp add: localDecision_def split: option.split)
  then have "approves (answer_at 0 answers) request ?b"
    using with_extra(3) by (simp add: approves_def confirms_def)
  then show ?thesis
    using decide_allowed [of "?b # parents" paths_ok request answers] with_extra by simp
qed

definition plan_write :: request where
  "plan_write = \<lparr>rq_tool = ''Edit'', rq_action = ActionWrite, rq_workspace = [], rq_command = [],
     rq_paths = [], rq_network = []\<rparr>"

definition project_ask :: rule where
  "project_ask = \<lparr>r_id = ''ask-edit'', r_source = SourceProjectSettings, r_behavior = PermissionBehaviorAsk,
     r_tool = ''Edit'', r_action = [], r_allowed_tools = []\<rparr>"

definition yes :: decision where
  "yes = make_decision PermissionBehaviorAllow [] []"

definition broker_in :: "permission_mode \<Rightarrow> rule list \<Rightarrow> broker" where
  "broker_in mode rules = \<lparr>b_mode = mode, b_rules = rules, b_confirmer = True, b_headless = False,
     b_audit = False, b_session = {}\<rparr>"

text \<open>The policy says that project rules may only reduce permissions, but in plan mode a project rule that
  asks widens them: without it a write is denied whatever the user says, with it, a policy that
  \<open>validatePolicy\<close> accepts, the user can allow the write.\<close>

theorem project_ask_widens_plan_mode:
  "validatePolicy PermissionModePlan SourceCliArg [project_ask] = None
   \<and> r_source project_ask = SourceProjectSettings
   \<and> \<not> allowed (snd (decide_chain True plan_write answers [broker_in PermissionModePlan []]))
   \<and> allowed (snd (decide_chain True plan_write [Inr yes] [broker_in PermissionModePlan [project_ask]]))"
proof -
  have valid: "validateRequest plan_write" by (simp add: validateRequest_def plan_write_def)
  have "\<not> approves a plan_write (broker_in PermissionModePlan [])" for a
    by (simp add: approves_def localDecision_def first_rule_def broker_in_def modeDefault_def plan_write_def)
  moreover have "approves (Inr yes) plan_write (broker_in PermissionModePlan [project_ask])"
    by (simp add: approves_def localDecision_def first_rule_def broker_in_def plan_write_def
        project_ask_def ruleMatches_def confirms_def yes_def)
  moreover have "validatePolicy PermissionModePlan SourceCliArg [project_ask] = None"
    by (simp add: validatePolicy_def effective_mode_def project_ask_def)
  ultimately show ?thesis
    using valid decide_allowed [of "[broker_in PermissionModePlan []]" True plan_write answers]
      decide_allowed [of "[broker_in PermissionModePlan [project_ask]]" True plan_write "[Inr yes]"]
    by (simp add: answer_at_def project_ask_def)
qed


section \<open>Concrete decisions\<close>

definition edit_request :: request where
  "edit_request = \<lparr>rq_tool = ''Edit'', rq_action = ActionExecute, rq_workspace = ''/w'', rq_command = ''ls'',
     rq_paths = [], rq_network = []\<rparr>"

definition deny_edit :: rule where
  "deny_edit = \<lparr>r_id = ''no-edit'', r_source = SourceProjectSettings, r_behavior = PermissionBehaviorDeny,
     r_tool = ''Edit'', r_action = [], r_allowed_tools = []\<rparr>"

definition remembered :: decision where
  "remembered = yes\<lparr>d_remember := True\<rparr>"

definition audited :: "broker \<Rightarrow> broker" where
  "audited b = b\<lparr>b_audit := True\<rparr>"

lemmas sample_broker_defs = Decide_def decide_def validateRequestPaths_def edit_request_def record_decision_def
  decide_chain.simps localDecision_def first_rule_def broker_in_def modeDefault_def validateRequest_def
  confirm_def remembered_def yes_def make_decision_def deny_edit_def ruleMatches_def behaviorRank_def

definition user_decision :: decision where
  "user_decision = \<lparr>d_behavior = PermissionBehaviorAllow, d_reason = ''request confirmed by user'',
     d_rule_id = [], d_remember = True\<rparr>"

text \<open>A subagent in default mode below a broker that accepts edits: the user is asked twice.\<close>

lemma sample_child:
  "Decide sample_os (\<lambda>_. None) None 0 edit_request [Inr remembered, Inr remembered]
      [broker_in PermissionModeDefault [], broker_in PermissionModeAcceptEdits []] =
    Some ([(broker_in PermissionModeDefault [])\<lparr>b_session := {(''Edit'', ActionExecute)}\<rparr>,
           (broker_in PermissionModeAcceptEdits [])\<lparr>b_session := {(''Edit'', ActionExecute)}\<rparr>],
      Inr user_decision)"
  by (simp add: sample_broker_defs user_decision_def)

lemma sample_denial:
  "\<exists>d. Decide sample_os (\<lambda>_. None) None 0 edit_request [Inr remembered]
      [audited (broker_in PermissionModeBypass []), broker_in PermissionModeBypass [deny_edit]] =
    Some ([audited (broker_in PermissionModeBypass []), broker_in PermissionModeBypass [deny_edit]], Inr d)"
  by (simp add: sample_broker_defs audited_def)

theorem decide_allowed_iff_witness:
  "allowed (snd (decide_chain True edit_request [Inr yes] [broker_in PermissionModeDefault []]))"
  using decide_allowed_iff [of "[broker_in PermissionModeDefault []]" True edit_request "[Inr yes]"]
  by (simp add: approves_def confirms_def answer_at_def localDecision_def first_rule_def broker_in_def
      modeDefault_def edit_request_def validateRequest_def yes_def)

theorem child_never_exceeds_witness:
  "\<exists>ancestors' pd. decide sample_os edit_request [Inr remembered]
      [broker_in PermissionModeAcceptEdits []] = Some (ancestors', Inr pd)
     \<and> d_behavior pd = PermissionBehaviorAllow"
proof -
  have child: "Child [broker_in PermissionModeAcceptEdits []] PermissionModeDefault SourceCliArg [] =
      Inr [broker_in PermissionModeDefault [], broker_in PermissionModeAcceptEdits []]"
    by (simp add: Child_def NewBroker_def validatePolicy_def effective_mode_def broker_in_def)
  show ?thesis
    using child_never_exceeds [OF child _ decisions.simps(1) sample_child] by (simp add: user_decision_def)
qed

theorem deny_rule_final_witness:
  "\<exists>d. Decide sample_os (\<lambda>_. None) None 0 edit_request [Inr remembered]
      [audited (broker_in PermissionModeBypass []), broker_in PermissionModeBypass [deny_edit]] =
    Some ([audited (broker_in PermissionModeBypass []), broker_in PermissionModeBypass [deny_edit]], Inr d)
   \<and> d_behavior d = PermissionBehaviorDeny"
proof -
  obtain d where d: "Decide sample_os (\<lambda>_. None) None 0 edit_request [Inr remembered]
      [audited (broker_in PermissionModeBypass []), broker_in PermissionModeBypass [deny_edit]] =
    Some ([audited (broker_in PermissionModeBypass []), broker_in PermissionModeBypass [deny_edit]], Inr d)"
    using sample_denial by blast
  have "d_behavior d = PermissionBehaviorDeny"
    by (rule deny_rule_final [OF _ _ _ _ d, of "broker_in PermissionModeBypass [deny_edit]" deny_edit])
      (simp_all add: broker_in_def deny_edit_def ruleMatches_def edit_request_def)
  then show ?thesis using d by blast
qed

theorem decisions_are_audited_witness:
  "\<exists>entry :: audit_record. ar_tool entry = ''Edit'' \<and> ar_action entry = ActionExecute"
proof -
  obtain d where d: "Decide sample_os (\<lambda>_. None) None 0 edit_request [Inr remembered]
      [audited (broker_in PermissionModeBypass []), broker_in PermissionModeBypass [deny_edit]] =
    Some ([audited (broker_in PermissionModeBypass []), broker_in PermissionModeBypass [deny_edit]], Inr d)"
    using sample_denial by blast
  have "\<exists>entry :: audit_record. ar_tool entry = rq_tool edit_request \<and> ar_action entry = rq_action edit_request"
    using decisions_are_audited [OF d] unfolding audited_def by simp blast
  then show ?thesis by (simp add: edit_request_def)
qed

lemma sample_trust:
  "TrustRules TrustManaged ['' Edit ''] [''Bash''] =
     Inr [deny_rule ''Bash'', \<lparr>r_id = ''managed-allowlist-boundary'', r_source = SourcePolicySettings,
       r_behavior = PermissionBehaviorDeny, r_tool = [], r_action = [], r_allowed_tools = [''Edit'']\<rparr>]"
proof -
  have trim: "TrimSpace '' Edit '' = ''Edit''" "TrimSpace ''Bash'' = ''Bash''"
    "tool_name_ok ''Edit''" "tool_name_ok ''Bash''" by code_simp+
  then show ?thesis by (simp add: TrustRules_def normalizeToolSet_def containsTool_def)
qed

definition managed_broker :: broker where
  "managed_broker = broker_in PermissionModeBypass
     [deny_rule ''Bash'', \<lparr>r_id = ''managed-allowlist-boundary'', r_source = SourcePolicySettings,
       r_behavior = PermissionBehaviorDeny, r_tool = [], r_action = [], r_allowed_tools = [''Edit'']\<rparr>]"

theorem managed_trust_bounds_witness:
  "rq_tool edit_request \<in> TrimSpace ` {'' Edit ''}"
proof -
  have "\<exists>d. Decide sample_os (\<lambda>_. None) None 0 edit_request [] [managed_broker] = Some ([managed_broker], Inr d)
      \<and> d_behavior d = PermissionBehaviorAllow"
    by (simp add: sample_broker_defs managed_broker_def deny_rule_def containsTool_def)
  then obtain d where d: "Decide sample_os (\<lambda>_. None) None 0 edit_request [] [managed_broker] = Some ([managed_broker], Inr d)"
    "d_behavior d = PermissionBehaviorAllow" by blast
  have "''*'' \<noteq> TrimSpace '' Edit ''" by code_simp
  then show ?thesis
    using managed_trust_bounds [OF sample_trust _ _ d(1) d(2), of managed_broker]
    by (simp add: managed_broker_def broker_in_def)
qed

theorem allowed_paths_contained_witness:
  "\<exists>chain' r. Decide sample_os (\<lambda>_. None) None 0 edit_request [] [broker_in PermissionModeBypass []] = Some (chain', r)"
  using allowed_paths_contained [OF sample_os_ok, of "[broker_in PermissionModeBypass []]"] by blast

theorem session_grows_witness:
  "\<exists>a. answer_at 0 [Inr remembered, Inr remembered] = Inr a \<and> d_remember a"
  using session_grows_by_confirmation [OF sample_child]
  by (auto simp: broker_in_def)

theorem denials_only_reduce_witness:
  "allowed (snd (decide_chain True edit_request [] [(managed_broker)\<lparr>b_rules := []\<rparr>]))"
proof -
  have "allowed (snd (decide_chain True edit_request [] [managed_broker]))"
    by (simp add: sample_broker_defs managed_broker_def deny_rule_def containsTool_def)
  then show ?thesis
    using denials_only_reduce [of managed_broker "[]" "b_rules managed_broker" "[]" True edit_request "[]" "[]"]
    by (simp add: managed_broker_def broker_in_def deny_rule_def)
qed

end
