(* ===== verification/Authorization.thy ===== *)
theory Authorization
  imports Go_Prelude "HOL-Library.AList" "HOL-Library.Word" "HOL-Library.List_Lexorder"
    "HOL-Library.Char_ord" "HOL-Library.Product_Lexorder"
begin

text \<open>
  Organization membership and authorization (\<open>internal/authorization/policy.go\<close>, \<open>snapshot.go\<close>): members,
  invitations, sessions with step-up and emergency access, and a hash chain of decisions. Every
  operation holds the policy's mutex and is one step; the instant its clock shows is an argument.
  SHA-256 with hexadecimal output, the RFC 3339 format of instants and the redaction of secrets are
  the parameters \<open>H\<close>, \<open>fmt\<close> and \<open>redact\<close>.
\<close>

section \<open>Data\<close>

datatype role =
    RoleOwner | RoleAdmin | RoleOperator | RoleApprover | RoleAuditor | RoleViewer | RoleOther string

type_synonym capability = string

abbreviation CapabilityTaskCreate :: capability where "CapabilityTaskCreate \<equiv> ''task.create''"
abbreviation CapabilityScopeConfirm :: capability where "CapabilityScopeConfirm \<equiv> ''scope.confirm''"
abbreviation CapabilityApproval :: capability where "CapabilityApproval \<equiv> ''approval.respond''"
abbreviation CapabilityControlTake :: capability where "CapabilityControlTake \<equiv> ''control.take''"
abbreviation CapabilityEvidenceRead :: capability where "CapabilityEvidenceRead \<equiv> ''evidence.read''"
abbreviation CapabilityReportExport :: capability where "CapabilityReportExport \<equiv> ''report.export''"
abbreviation CapabilityAdministration :: capability where
  "CapabilityAdministration \<equiv> ''organization.admin''"
abbreviation CapabilityEmergencyAccess :: capability where
  "CapabilityEmergencyAccess \<equiv> ''emergency.access.grant''"

datatype auth_error =
    ErrTenantDenied | ErrMembershipRevoked | ErrCapabilityDenied | ErrInvitationMissing
  | ErrInvitationExpired | ErrInvitationUsed | ErrInvitationPrincipalMismatch | ErrSessionMissing
  | ErrSessionRevoked | ErrSessionExpired | ErrStepUpRequired | ErrInvalidRole | ErrAuditTampered
  | ErrEmergencyAccessInvalid | ErrRevisionConflict

definition error_text :: "auth_error \<Rightarrow> string" where
  "error_text e =
     (case e of
        ErrTenantDenied \<Rightarrow> ''tenant_access_denied''
      | ErrMembershipRevoked \<Rightarrow> ''membership_revoked''
      | ErrCapabilityDenied \<Rightarrow> ''capability_denied''
      | ErrInvitationMissing \<Rightarrow> ''invitation_missing''
      | ErrInvitationExpired \<Rightarrow> ''invitation_expired''
      | ErrInvitationUsed \<Rightarrow> ''invitation_used''
      | ErrInvitationPrincipalMismatch \<Rightarrow> ''invitation_principal_mismatch''
      | ErrSessionMissing \<Rightarrow> ''session_missing''
      | ErrSessionRevoked \<Rightarrow> ''session_revoked''
      | ErrSessionExpired \<Rightarrow> ''session_expired''
      | ErrStepUpRequired \<Rightarrow> ''step_up_required''
      | ErrInvalidRole \<Rightarrow> ''invalid_role''
      | ErrAuditTampered \<Rightarrow> ''audit_tampered''
      | ErrEmergencyAccessInvalid \<Rightarrow> ''emergency_access_invalid''
      | ErrRevisionConflict \<Rightarrow> ''revision_conflict'')"

record member =
  mb_tenant :: string
  mb_principal :: string
  mb_external_id :: string
  mb_display_name :: string
  mb_role :: role
  mb_active :: bool
  mb_provisioned :: instant
  mb_updated :: instant
  mb_revision :: "64 word"

definition zero_member :: member where
  "zero_member = \<lparr>mb_tenant = [], mb_principal = [], mb_external_id = [], mb_display_name = [],
     mb_role = RoleOther [], mb_active = False, mb_provisioned = zero_time, mb_updated = zero_time,
     mb_revision = 0\<rparr>"

record auth_request =
  au_tenant :: string
  au_principal :: string
  au_session :: string
  au_capability :: capability

record invitation =
  iv_id :: string
  iv_tenant :: string
  iv_principal :: string
  iv_role :: role
  iv_expires :: instant
  iv_accepted :: bool

record session =
  se_id :: string
  se_tenant :: string
  se_principal :: string
  se_expires :: instant
  se_step_up :: instant
  se_emergency :: instant
  se_emergency_reason :: string
  se_revoked :: bool

record auth_decision =
  de_at :: instant
  de_tenant :: string
  de_principal :: string
  de_capability :: capability
  de_allowed :: bool
  de_reason :: string
  de_previous :: string
  de_hash :: string

text \<open>The Go maps are association lists with distinct keys.\<close>

record policy =
  po_members :: "(string \<times> member) list"
  po_invitations :: "(string \<times> invitation) list"
  po_sessions :: "(string \<times> session) list"
  po_decisions :: "auth_decision list"

definition nul :: string where "nul = [CHR 0x00]"

text \<open>\<open>tenant + "\x00" + principal\<close>\<close>

definition member_key :: "string \<Rightarrow> string \<Rightarrow> string" where
  "member_key tenant user = tenant @ nul @ user"

definition put_member :: "string \<Rightarrow> member \<Rightarrow> policy \<Rightarrow> policy" where
  "put_member key m p = p\<lparr>po_members := AList.update key m (po_members p)\<rparr>"

definition get_member :: "string \<Rightarrow> policy \<Rightarrow> member option" where
  "get_member key p = map_of (po_members p) key"

definition put_invitation :: "string \<Rightarrow> invitation \<Rightarrow> policy \<Rightarrow> policy" where
  "put_invitation key i p = p\<lparr>po_invitations := AList.update key i (po_invitations p)\<rparr>"

definition get_invitation :: "string \<Rightarrow> policy \<Rightarrow> invitation option" where
  "get_invitation key p = map_of (po_invitations p) key"

definition put_session :: "string \<Rightarrow> session \<Rightarrow> policy \<Rightarrow> policy" where
  "put_session key s p = p\<lparr>po_sessions := AList.update key s (po_sessions p)\<rparr>"

definition get_session :: "string \<Rightarrow> policy \<Rightarrow> session option" where
  "get_session key p = map_of (po_sessions p) key"

definition empty_policy :: policy where
  "empty_policy = \<lparr>po_members = [], po_invitations = [], po_sessions = [], po_decisions = []\<rparr>"

definition NewPolicy :: "member list \<Rightarrow> policy" where
  "NewPolicy members =
     fold (\<lambda>m. put_member (member_key (mb_tenant m) (mb_principal m)) m) members empty_policy"

section \<open>Roles\<close>

definition isHighRisk :: "capability \<Rightarrow> bool" where
  "isHighRisk c \<longleftrightarrow> c = CapabilityApproval \<or> c = CapabilityReportExport
     \<or> c = CapabilityAdministration \<or> c = CapabilityEmergencyAccess"

definition validRole :: "role \<Rightarrow> bool" where
  "validRole r = (case r of RoleOther s \<Rightarrow> False | _ \<Rightarrow> True)"

definition roleAllows :: "role \<Rightarrow> capability \<Rightarrow> bool" where
  "roleAllows r c =
     (case r of
        RoleOwner \<Rightarrow> True
      | RoleAdmin \<Rightarrow> True
      | RoleOperator \<Rightarrow> c = CapabilityTaskCreate \<or> c = CapabilityScopeConfirm \<or> c = CapabilityEvidenceRead
      | RoleApprover \<Rightarrow> c = CapabilityApproval \<or> c = CapabilityEvidenceRead
      | RoleAuditor \<Rightarrow> c = CapabilityEvidenceRead \<or> c = CapabilityReportExport
      | RoleViewer \<Rightarrow> c = CapabilityEvidenceRead
      | RoleOther s \<Rightarrow> False)"

section \<open>The decision log\<close>

definition bool_text :: "bool \<Rightarrow> string" where
  "bool_text b = (if b then ''true'' else ''false'')"

definition decision_material :: "(instant \<Rightarrow> string) \<Rightarrow> auth_decision \<Rightarrow> string" where
  "decision_material fmt d =
     fmt (de_at d) @ nul @ de_tenant d @ nul @ de_principal d @ nul @ de_capability d @ nul
     @ bool_text (de_allowed d) @ nul @ de_reason d @ nul @ de_previous d"

definition decisionHash :: "(string \<Rightarrow> string) \<Rightarrow> (instant \<Rightarrow> string) \<Rightarrow> auth_decision \<Rightarrow> string" where
  "decisionHash H fmt d = H (decision_material fmt d)"

definition appendDecisionLocked ::
    "(string \<Rightarrow> string) \<Rightarrow> (instant \<Rightarrow> string) \<Rightarrow> auth_decision \<Rightarrow> policy \<Rightarrow> policy" where
  "appendDecisionLocked H fmt d p =
     (let d1 = (if po_decisions p \<noteq> [] then d\<lparr>de_previous := de_hash (last (po_decisions p))\<rparr> else d);
          d2 = d1\<lparr>de_hash := decisionHash H fmt d1\<rparr>
      in p\<lparr>po_decisions := po_decisions p @ [d2]\<rparr>)"

fun verify_from ::
    "(string \<Rightarrow> string) \<Rightarrow> (instant \<Rightarrow> string) \<Rightarrow> string \<Rightarrow> auth_decision list \<Rightarrow> auth_error option" where
  "verify_from H fmt previous [] = None"
| "verify_from H fmt previous (d # ds) =
     (if de_previous d \<noteq> previous \<or> de_hash d \<noteq> decisionHash H fmt d then Some ErrAuditTampered
      else verify_from H fmt (de_hash d) ds)"

definition VerifyDecisions ::
    "(string \<Rightarrow> string) \<Rightarrow> (instant \<Rightarrow> string) \<Rightarrow> auth_decision list \<Rightarrow> auth_error option" where
  "VerifyDecisions H fmt ds = verify_from H fmt [] ds"

definition new_decision ::
    "instant \<Rightarrow> string \<Rightarrow> string \<Rightarrow> capability \<Rightarrow> bool \<Rightarrow> string \<Rightarrow> auth_decision" where
  "new_decision now tenant user c allowed reason =
     \<lparr>de_at = now, de_tenant = tenant, de_principal = user, de_capability = c,
      de_allowed = allowed, de_reason = reason, de_previous = [], de_hash = []\<rparr>"

section \<open>Invitations\<close>

definition Invite :: "instant \<Rightarrow> invitation \<Rightarrow> policy \<Rightarrow> policy \<times> auth_error option" where
  "Invite now i p =
     (if iv_id i = [] \<or> iv_tenant i = [] \<or> iv_principal i = [] \<or> \<not> iv_expires i > now
      then (p, Some ErrInvitationExpired)
      else if \<not> validRole (iv_role i) then (p, Some ErrInvalidRole)
      else if get_invitation (iv_id i) p \<noteq> None then (p, Some ErrInvitationUsed)
      else (put_invitation (iv_id i) i p, None))"

definition acceptInvitationLocked ::
    "instant \<Rightarrow> string \<Rightarrow> string \<Rightarrow> string \<Rightarrow> policy \<Rightarrow> policy \<times> auth_error option" where
  "acceptInvitationLocked now ident tenant user p =
     (case get_invitation ident p of
        None \<Rightarrow> (p, Some ErrInvitationMissing)
      | Some i \<Rightarrow>
          if tenant \<noteq> [] \<and> iv_tenant i \<noteq> tenant then (p, Some ErrTenantDenied)
          else if user \<noteq> [] \<and> iv_principal i \<noteq> user then (p, Some ErrInvitationPrincipalMismatch)
          else if iv_accepted i then (p, Some ErrInvitationUsed)
          else if \<not> iv_expires i > now then (p, Some ErrInvitationExpired)
          else
            (put_invitation ident (i\<lparr>iv_accepted := True\<rparr>)
               (put_member (member_key (iv_tenant i) (iv_principal i)) (zero_member\<lparr>mb_tenant := iv_tenant i, mb_principal := iv_principal i,
                  mb_role := iv_role i, mb_active := True\<rparr>) p), None))"

definition AcceptInvitation :: "instant \<Rightarrow> string \<Rightarrow> policy \<Rightarrow> policy \<times> auth_error option" where
  "AcceptInvitation now ident p = acceptInvitationLocked now ident [] [] p"

definition AcceptInvitationFor ::
    "instant \<Rightarrow> auth_request \<Rightarrow> string \<Rightarrow> policy \<Rightarrow> policy \<times> auth_error option" where
  "AcceptInvitationFor now actor ident p =
     (if au_tenant actor = [] \<or> au_principal actor = [] then (p, Some ErrTenantDenied)
      else acceptInvitationLocked now ident (au_tenant actor) (au_principal actor) p)"

section \<open>Sessions\<close>

definition RegisterSession :: "instant \<Rightarrow> session \<Rightarrow> policy \<Rightarrow> policy \<times> auth_error option" where
  "RegisterSession now s p =
     (if se_id s = [] \<or> se_tenant s = [] \<or> se_principal s = [] then (p, Some ErrSessionMissing)
      else if \<not> se_expires s > now then (p, Some ErrSessionExpired)
      else (put_session (se_id s) (s\<lparr>se_revoked := False\<rparr>) p, None))"

definition RevokeSession :: "string \<Rightarrow> policy \<Rightarrow> policy \<times> auth_error option" where
  "RevokeSession ident p =
     (case get_session ident p of
        None \<Rightarrow> (p, Some ErrSessionMissing)
      | Some s \<Rightarrow> (put_session ident (s\<lparr>se_revoked := True\<rparr>) p, None))"

definition ElevateSession :: "instant \<Rightarrow> string \<Rightarrow> instant \<Rightarrow> policy \<Rightarrow> policy \<times> auth_error option" where
  "ElevateSession now ident until p =
     (case get_session ident p of
        None \<Rightarrow> (p, Some ErrSessionMissing)
      | Some s \<Rightarrow>
          if se_revoked s then (p, Some ErrSessionRevoked)
          else if \<not> until > now \<or> \<not> se_expires s > until then (p, Some ErrSessionExpired)
          else (put_session ident (s\<lparr>se_step_up := until\<rparr>) p, None))"

section \<open>Authorization\<close>

text \<open>Reading an absent session yields the zero session, whose instants are zero.\<close>

definition session_error :: "instant \<Rightarrow> auth_request \<Rightarrow> policy \<Rightarrow> auth_error option" where
  "session_error now r p =
     (if au_session r = [] then None
      else (case get_session (au_session r) p of
          None \<Rightarrow> Some ErrSessionMissing
        | Some s \<Rightarrow>
            if se_revoked s then Some ErrSessionRevoked
            else if \<not> se_expires s > now then Some ErrSessionExpired
            else if se_tenant s \<noteq> au_tenant r \<or> se_principal s \<noteq> au_principal r
            then Some ErrTenantDenied
            else None))"

definition stepped_up :: "instant \<Rightarrow> string \<Rightarrow> policy \<Rightarrow> bool" where
  "stepped_up now ident p =
     (case get_session ident p of
        None \<Rightarrow> zero_time > now
      | Some s \<Rightarrow> se_step_up s > now \<or> se_emergency s > now)"

definition authorize_error :: "instant \<Rightarrow> auth_request \<Rightarrow> policy \<Rightarrow> auth_error option" where
  "authorize_error now r p =
     (case session_error now r p of
        Some e \<Rightarrow> Some e
      | None \<Rightarrow>
        (case get_member (member_key (au_tenant r) (au_principal r)) p of
           None \<Rightarrow> Some ErrTenantDenied
         | Some m \<Rightarrow>
             if \<not> mb_active m then Some ErrMembershipRevoked
             else if \<not> roleAllows (mb_role m) (au_capability r) then Some ErrCapabilityDenied
             else if isHighRisk (au_capability r) \<and> (au_session r = [] \<or> \<not> stepped_up now (au_session r) p)
             then Some ErrStepUpRequired
             else None))"

definition Authorize ::
    "(string \<Rightarrow> string) \<Rightarrow> (instant \<Rightarrow> string) \<Rightarrow> instant \<Rightarrow> auth_request \<Rightarrow> policy
     \<Rightarrow> policy \<times> auth_error option" where
  "Authorize H fmt now r p =
     (let err = authorize_error now r p;
          d = new_decision now (au_tenant r) (au_principal r) (au_capability r) (err = None)
                (case err of None \<Rightarrow> [] | Some e \<Rightarrow> error_text e)
      in (appendDecisionLocked H fmt d p, err))"

section \<open>Emergency access\<close>

definition minute :: duration where "minute = 60 * 1000000000"

text \<open>
  The mutex is released between the authorization and the rest, so the rest runs on the policy
  \<open>between\<close> leaves, at the instant \<open>now2\<close>.
\<close>

definition grant_emergency ::
    "(string \<Rightarrow> string) \<Rightarrow> (instant \<Rightarrow> string) \<Rightarrow> (string \<Rightarrow> string) \<Rightarrow> instant \<Rightarrow> auth_request \<Rightarrow> string
     \<Rightarrow> string \<Rightarrow> instant \<Rightarrow> policy \<Rightarrow> policy \<times> auth_error option" where
  "grant_emergency H fmt redact now actor ident reason0 until p =
     (let reason = redact (TrimSpace reason0)
      in if length reason < 8 \<or> length reason > 256 \<or> ContainsAny reason nul_cr_lf
            \<or> \<not> until > now \<or> until > now + 30 * minute
         then (p, Some ErrEmergencyAccessInvalid)
         else (case get_session ident p of
             None \<Rightarrow> (p, Some ErrSessionMissing)
           | Some s \<Rightarrow>
               if se_tenant s \<noteq> au_tenant actor then (p, Some ErrTenantDenied)
               else if se_revoked s then (p, Some ErrSessionRevoked)
               else if \<not> se_expires s > until then (p, Some ErrSessionExpired)
               else
                 (appendDecisionLocked H fmt
                    (new_decision now (se_tenant s) (se_principal s) CapabilityEmergencyAccess True
                       (''emergency access granted: '' @ reason))
                    (put_session ident (s\<lparr>se_emergency := until, se_emergency_reason := reason\<rparr>) p), None)))"

definition GrantEmergencyAccess ::
    "(string \<Rightarrow> string) \<Rightarrow> (instant \<Rightarrow> string) \<Rightarrow> (string \<Rightarrow> string) \<Rightarrow> instant \<Rightarrow> instant \<Rightarrow> (policy \<Rightarrow> policy)
     \<Rightarrow> auth_request \<Rightarrow> string \<Rightarrow> string \<Rightarrow> instant \<Rightarrow> policy \<Rightarrow> policy \<times> auth_error option" where
  "GrantEmergencyAccess H fmt redact now now2 between actor0 ident reason until p =
     (let actor = actor0\<lparr>au_capability := CapabilityEmergencyAccess\<rparr>
      in (case Authorize H fmt now actor p of
            (p1, Some e) \<Rightarrow> (p1, Some e)
          | (p1, None) \<Rightarrow> grant_emergency H fmt redact now2 actor ident reason until (between p1)))"

definition revoke_emergency ::
    "(string \<Rightarrow> string) \<Rightarrow> (instant \<Rightarrow> string) \<Rightarrow> instant \<Rightarrow> auth_request \<Rightarrow> string \<Rightarrow> policy
     \<Rightarrow> policy \<times> auth_error option" where
  "revoke_emergency H fmt now actor ident p =
     (case get_session ident p of
        None \<Rightarrow> (p, Some ErrSessionMissing)
      | Some s \<Rightarrow>
          if se_tenant s \<noteq> au_tenant actor then (p, Some ErrTenantDenied)
          else
            (appendDecisionLocked H fmt
               (new_decision now (se_tenant s) (se_principal s) CapabilityEmergencyAccess False
                  ''emergency access revoked'')
               (put_session ident (s\<lparr>se_emergency := zero_time, se_emergency_reason := []\<rparr>) p), None))"

definition RevokeEmergencyAccess ::
    "(string \<Rightarrow> string) \<Rightarrow> (instant \<Rightarrow> string) \<Rightarrow> instant \<Rightarrow> instant \<Rightarrow> (policy \<Rightarrow> policy) \<Rightarrow> auth_request
     \<Rightarrow> string \<Rightarrow> policy \<Rightarrow> policy \<times> auth_error option" where
  "RevokeEmergencyAccess H fmt now now2 between actor0 ident p =
     (let actor = actor0\<lparr>au_capability := CapabilityEmergencyAccess\<rparr>
      in (case Authorize H fmt now actor p of
            (p1, Some e) \<Rightarrow> (p1, Some e)
          | (p1, None) \<Rightarrow> revoke_emergency H fmt now2 actor ident (between p1)))"

section \<open>Members\<close>

definition RevokeMember :: "string \<Rightarrow> string \<Rightarrow> policy \<Rightarrow> policy \<times> auth_error option" where
  "RevokeMember tenant user p =
     (case get_member (member_key tenant user) p of
        None \<Rightarrow> (p, Some ErrTenantDenied)
      | Some m \<Rightarrow>
          (put_member (member_key tenant user) (m\<lparr>mb_active := False\<rparr>) p, None))"

definition validProvisionText :: "string \<Rightarrow> bool" where
  "validProvisionText v0 \<longleftrightarrow>
     (let v = TrimSpace v0 in v \<noteq> [] \<and> length v \<le> 256 \<and> \<not> ContainsAny v nul_cr_lf)"

definition provisionMember ::
    "(string \<Rightarrow> string) \<Rightarrow> (instant \<Rightarrow> string) \<Rightarrow> instant \<Rightarrow> string \<Rightarrow> string \<Rightarrow> string \<Rightarrow> string \<Rightarrow> string
     \<Rightarrow> role \<Rightarrow> bool \<Rightarrow> 64 word option \<Rightarrow> policy \<Rightarrow> policy \<times> (auth_error + member)" where
  "provisionMember H fmt now tenant actor user externalID displayName r active expected p =
     (if \<not> validProvisionText tenant \<or> \<not> validProvisionText actor \<or> \<not> validProvisionText user
         \<or> \<not> validRole r \<or> ContainsAny (externalID @ displayName) nul_cr_lf
         \<or> length externalID > 256 \<or> length displayName > 256
      then (p, Inl ErrTenantDenied)
      else
        (let found = get_member (member_key tenant user) p;
             previous = (case found of None \<Rightarrow> zero_member | Some m \<Rightarrow> m)
         in if (case expected of None \<Rightarrow> False | Some e \<Rightarrow> found = None \<or> mb_revision previous \<noteq> e)
            then (p, Inl ErrRevisionConflict)
            else
              (let created = (if mb_provisioned previous = zero_time then now else mb_provisioned previous);
                   m = \<lparr>mb_tenant = tenant, mb_principal = user, mb_external_id = externalID,
                        mb_display_name = displayName, mb_role = r, mb_active = active,
                        mb_provisioned = created, mb_updated = now,
                        mb_revision = mb_revision previous + 1\<rparr>
               in (appendDecisionLocked H fmt
                     (new_decision now tenant actor CapabilityAdministration active
                        ''SCIM membership synchronized'')
                     (put_member (member_key tenant user) m p), Inr m))))"

definition ProvisionMember ::
    "(string \<Rightarrow> string) \<Rightarrow> (instant \<Rightarrow> string) \<Rightarrow> instant \<Rightarrow> string \<Rightarrow> string \<Rightarrow> string \<Rightarrow> string \<Rightarrow> string
     \<Rightarrow> role \<Rightarrow> bool \<Rightarrow> policy \<Rightarrow> policy \<times> (auth_error + member)" where
  "ProvisionMember H fmt now tenant actor user externalID displayName r active p =
     provisionMember H fmt now tenant actor user externalID displayName r active None p"

definition ProvisionMemberAtRevision ::
    "(string \<Rightarrow> string) \<Rightarrow> (instant \<Rightarrow> string) \<Rightarrow> instant \<Rightarrow> string \<Rightarrow> string \<Rightarrow> string \<Rightarrow> string \<Rightarrow> string
     \<Rightarrow> role \<Rightarrow> bool \<Rightarrow> 64 word \<Rightarrow> policy \<Rightarrow> policy \<times> (auth_error + member)" where
  "ProvisionMemberAtRevision H fmt now tenant actor user externalID displayName r active expected p =
     provisionMember H fmt now tenant actor user externalID displayName r active (Some expected) p"

definition UpdateMemberRole :: "string \<Rightarrow> string \<Rightarrow> role \<Rightarrow> policy \<Rightarrow> policy \<times> auth_error option" where
  "UpdateMemberRole tenant user r p =
     (if \<not> validRole r then (p, Some ErrInvalidRole)
      else (case get_member (member_key tenant user) p of
          None \<Rightarrow> (p, Some ErrTenantDenied)
        | Some m \<Rightarrow>
            (put_member (member_key tenant user) (m\<lparr>mb_role := r\<rparr>) p, None)))"

section \<open>Views and snapshots\<close>

definition Members :: "string \<Rightarrow> policy \<Rightarrow> member list" where
  "Members tenant p =
     sort_key mb_principal (filter (\<lambda>m. mb_tenant m = tenant) (map snd (po_members p)))"

definition DecisionsForTenant :: "string \<Rightarrow> policy \<Rightarrow> auth_decision list" where
  "DecisionsForTenant tenant p = filter (\<lambda>d. de_tenant d = tenant) (po_decisions p)"

definition Invitations :: "string \<Rightarrow> policy \<Rightarrow> invitation list" where
  "Invitations tenant p =
     sort_key iv_id (filter (\<lambda>i. iv_tenant i = tenant) (map snd (po_invitations p)))"

record auth_snapshot =
  sn_members :: "member list"
  sn_invitations :: "invitation list"
  sn_sessions :: "session list"
  sn_decisions :: "auth_decision list"

definition auth_Snapshot :: "policy \<Rightarrow> auth_snapshot" where
  "auth_Snapshot p =
     \<lparr>sn_members = sort_key (\<lambda>m. (mb_tenant m, mb_principal m)) (map snd (po_members p)),
      sn_invitations = sort_key iv_id (map snd (po_invitations p)),
      sn_sessions = sort_key se_id (map snd (po_sessions p)),
      sn_decisions = po_decisions p\<rparr>"

fun load_members :: "member list \<Rightarrow> policy \<Rightarrow> auth_error + policy" where
  "load_members [] p = Inr p"
| "load_members (m # ms) p =
     (if mb_tenant m = [] \<or> mb_principal m = [] \<or> \<not> validRole (mb_role m) then Inl ErrTenantDenied
      else if get_member (member_key (mb_tenant m) (mb_principal m)) p \<noteq> None then Inl ErrTenantDenied
      else load_members ms (put_member (member_key (mb_tenant m) (mb_principal m)) m p))"

fun load_invitations :: "invitation list \<Rightarrow> policy \<Rightarrow> auth_error + policy" where
  "load_invitations [] p = Inr p"
| "load_invitations (i # ivs) p =
     (if iv_id i = [] \<or> iv_tenant i = [] \<or> iv_principal i = [] \<or> \<not> validRole (iv_role i)
      then Inl ErrInvitationMissing
      else if get_invitation (iv_id i) p \<noteq> None then Inl ErrInvitationUsed
      else load_invitations ivs (put_invitation (iv_id i) i p))"

fun load_sessions :: "session list \<Rightarrow> policy \<Rightarrow> auth_error + policy" where
  "load_sessions [] p = Inr p"
| "load_sessions (s # ss) p =
     (if se_id s = [] \<or> se_tenant s = [] \<or> se_principal s = [] then Inl ErrSessionMissing
      else if (se_emergency s \<noteq> zero_time \<and> (se_emergency_reason s = [] \<or> se_emergency s > se_expires s))
           \<or> (se_emergency s = zero_time \<and> se_emergency_reason s \<noteq> [])
      then Inl ErrEmergencyAccessInvalid
      else if get_session (se_id s) p \<noteq> None then Inl ErrSessionMissing
      else load_sessions ss (put_session (se_id s) s p))"

definition NewPolicyFromSnapshot ::
    "(string \<Rightarrow> string) \<Rightarrow> (instant \<Rightarrow> string) \<Rightarrow> auth_snapshot \<Rightarrow> auth_error + policy" where
  "NewPolicyFromSnapshot H fmt sn =
     (case VerifyDecisions H fmt (sn_decisions sn) of
        Some e \<Rightarrow> Inl e
      | None \<Rightarrow>
        (case load_members (sn_members sn) (NewPolicy []) of
           Inl e \<Rightarrow> Inl e
         | Inr p1 \<Rightarrow>
           (case load_invitations (sn_invitations sn) p1 of
              Inl e \<Rightarrow> Inl e
            | Inr p2 \<Rightarrow>
              (case load_sessions (sn_sessions sn) p2 of
                 Inl e \<Rightarrow> Inl e
               | Inr p3 \<Rightarrow> Inr (p3\<lparr>po_decisions := sn_decisions sn\<rparr>)))))"

section \<open>Runs\<close>

text \<open>
  The critical sections of the operations. \<open>GrantEmergencyAccess\<close> and \<open>RevokeEmergencyAccess\<close> are two
  each, an authorization and, if it succeeds, the rest; other operations can run in between. A run of
  steps covers every interleaving, since the rest of a grant may be any step.
\<close>

datatype auth_op =
    AuthInvite instant invitation
  | AuthAccept instant string
  | AuthAcceptFor instant auth_request string
  | AuthRegister instant session
  | AuthRevokeSession string
  | AuthElevate instant string instant
  | AuthAuthorize instant auth_request
  | AuthGrant instant auth_request string string instant
  | AuthUngrant instant auth_request string
  | AuthRevokeMember string string
  | AuthProvision instant string string string string string role bool "64 word option"
  | AuthUpdateRole string string role

fun auth_step ::
    "(string \<Rightarrow> string) \<Rightarrow> (instant \<Rightarrow> string) \<Rightarrow> (string \<Rightarrow> string) \<Rightarrow> auth_op \<Rightarrow> policy \<Rightarrow> policy" where
  "auth_step H fmt redact (AuthInvite now i) p = fst (Invite now i p)"
| "auth_step H fmt redact (AuthAccept now ident) p = fst (AcceptInvitation now ident p)"
| "auth_step H fmt redact (AuthAcceptFor now actor ident) p = fst (AcceptInvitationFor now actor ident p)"
| "auth_step H fmt redact (AuthRegister now s) p = fst (RegisterSession now s p)"
| "auth_step H fmt redact (AuthRevokeSession ident) p = fst (RevokeSession ident p)"
| "auth_step H fmt redact (AuthElevate now ident until) p = fst (ElevateSession now ident until p)"
| "auth_step H fmt redact (AuthAuthorize now r) p = fst (Authorize H fmt now r p)"
| "auth_step H fmt redact (AuthGrant now actor ident reason until) p =
     fst (grant_emergency H fmt redact now actor ident reason until p)"
| "auth_step H fmt redact (AuthUngrant now actor ident) p = fst (revoke_emergency H fmt now actor ident p)"
| "auth_step H fmt redact (AuthRevokeMember tenant user) p = fst (RevokeMember tenant user p)"
| "auth_step H fmt redact (AuthProvision now tenant actor user externalID displayName r active expected) p =
     fst (provisionMember H fmt now tenant actor user externalID displayName r active expected p)"
| "auth_step H fmt redact (AuthUpdateRole tenant user r) p = fst (UpdateMemberRole tenant user r p)"

end
