(* ===== verification/Authorization_Properties.thy ===== *)
theory Authorization_Properties
  imports Authorization "HOL-Library.Sublist"
begin

text \<open>
  What authorization guarantees at one request: the exact condition of an approval, over the tables of
  capabilities written out, and its record; and a decision log that only grows, always verifies and is fixed
  by its last hash as long as no two texts of decisions have the same hash.
\<close>

section \<open>Tables\<close>

text \<open>A keyed table inside a state, as the three maps of the policy are.\<close>

locale keyed_table =
  fixes get :: "string \<Rightarrow> 's \<Rightarrow> 'v option"
    and put :: "string \<Rightarrow> 'v \<Rightarrow> 's \<Rightarrow> 's"
  assumes get_put: "get k (put k' v s) = (if k = k' then Some v else get k s)"
begin

definition entries :: "(string \<Rightarrow> 'v \<Rightarrow> bool) \<Rightarrow> 's \<Rightarrow> bool" where
  "entries P s \<longleftrightarrow> (\<forall>k v. get k s = Some v \<longrightarrow> P k v)"

lemma entriesD: "entries P s \<Longrightarrow> get k s = Some v \<Longrightarrow> P k v"
  by (simp add: entries_def)

lemma entries_put: "entries P s \<Longrightarrow> P k v \<Longrightarrow> entries P (put k v s)"
  by (simp add: entries_def get_put)

lemma entries_frame: "(\<And>k. get k s' = get k s) \<Longrightarrow> entries P s' \<longleftrightarrow> entries P s"
  by (simp add: entries_def)

lemma entries_puts:
  "entries P s \<Longrightarrow> list_all (\<lambda>x. P (key x) (val x)) xs \<Longrightarrow> entries P (fold (\<lambda>x. put (key x) (val x)) xs s)"
  by (induction xs arbitrary: s) (simp_all add: entries_put)

lemma get_puts:
  "k \<notin> key ` set xs \<Longrightarrow> get k (fold (\<lambda>x. put (key x) (val x)) xs s) = get k s"
  by (induction xs arbitrary: s) (auto simp: get_put)

lemma get_puts_distinct:
  "distinct (map key xs) \<Longrightarrow> x \<in> set xs \<Longrightarrow> get (key x) (fold (\<lambda>x. put (key x) (val x)) xs s) = Some (val x)"
proof (induction xs arbitrary: s)
  case (Cons y ys)
  then show ?case using get_puts [of "key y" key ys val "put (key y) (val y) s"] by (auto simp: get_put)
qed simp

end

interpretation members: keyed_table get_member put_member
  by unfold_locales (simp add: get_member_def put_member_def update_conv')

interpretation invitations: keyed_table get_invitation put_invitation
  by unfold_locales (simp add: get_invitation_def put_invitation_def update_conv')

interpretation sessions: keyed_table get_session put_session
  by unfold_locales (simp add: get_session_def put_session_def update_conv')

lemma table_frames [simp]:
  "get_member k (put_invitation k' i p) = get_member k p"
  "get_member k (put_session k' s p) = get_member k p"
  "get_invitation k (put_member k' m p) = get_invitation k p"
  "get_invitation k (put_session k' s p) = get_invitation k p"
  "get_session k (put_member k' m p) = get_session k p"
  "get_session k (put_invitation k' i p) = get_session k p"
  "get_member k (appendDecisionLocked H fmt d p) = get_member k p"
  "get_invitation k (appendDecisionLocked H fmt d p) = get_invitation k p"
  "get_session k (appendDecisionLocked H fmt d p) = get_session k p"
  "get_member k (p\<lparr>po_decisions := ds\<rparr>) = get_member k p"
  "get_invitation k (p\<lparr>po_decisions := ds\<rparr>) = get_invitation k p"
  "get_session k (p\<lparr>po_decisions := ds\<rparr>) = get_session k p"
  by (simp_all add: get_member_def put_invitation_def put_session_def get_invitation_def
      put_member_def get_session_def appendDecisionLocked_def Let_def)

lemma decisions_frames [simp]:
  "po_decisions (put_member k m p) = po_decisions p"
  "po_decisions (put_invitation k i p) = po_decisions p"
  "po_decisions (put_session k s p) = po_decisions p"
  by (simp_all add: put_member_def put_invitation_def put_session_def)

lemmas get_puts_simps [simp] = members.get_put invitations.get_put sessions.get_put

section \<open>The condition of an approval\<close>

definition valid_session :: "instant \<Rightarrow> auth_request \<Rightarrow> policy \<Rightarrow> bool" where
  "valid_session now r p \<longleftrightarrow>
     (\<exists>s. get_session (au_session r) p = Some s \<and> \<not> se_revoked s \<and> now < se_expires s
        \<and> se_tenant s = au_tenant r \<and> se_principal s = au_principal r)"

lemma session_error_None:
  "session_error now r p = None \<longleftrightarrow> au_session r = [] \<or> valid_session now r p"
  by (auto simp: session_error_def valid_session_def split: option.splits)

lemma authorize_None:
  "authorize_error now r p = None \<longleftrightarrow>
     (au_session r = [] \<or> valid_session now r p)
   \<and> (\<exists>m. get_member (member_key (au_tenant r) (au_principal r)) p = Some m
        \<and> mb_active m \<and> roleAllows (mb_role m) (au_capability r))
   \<and> (isHighRisk (au_capability r) \<longrightarrow> au_session r \<noteq> [] \<and> stepped_up now (au_session r) p)"
  using session_error_None [of now r p]
  by (cases "session_error now r p") (auto simp: authorize_error_def split: option.splits)

text \<open>What the roles below administrator may do, and the capabilities that need more than a role, written
  out as tables.\<close>

definition permission_table :: "(role \<times> string) list" where
  "permission_table =
     [(RoleOperator, ''task.create''), (RoleOperator, ''scope.confirm''), (RoleOperator, ''evidence.read''),
      (RoleApprover, ''approval.respond''), (RoleApprover, ''evidence.read''),
      (RoleAuditor, ''evidence.read''), (RoleAuditor, ''report.export''),
      (RoleViewer, ''evidence.read'')]"

definition sensitive_table :: "string list" where
  "sensitive_table = [''approval.respond'', ''report.export'', ''organization.admin'', ''emergency.access.grant'']"

lemma roleAllows_table:
  "roleAllows r c \<longleftrightarrow> r = RoleOwner \<or> r = RoleAdmin \<or> (r, c) \<in> set permission_table"
  by (cases r) (auto simp: roleAllows_def permission_table_def)

lemma isHighRisk_table: "isHighRisk c \<longleftrightarrow> c \<in> set sensitive_table"
  by (auto simp: isHighRisk_def sensitive_table_def)



section \<open>The decision log\<close>

lemma verify_append:
  "verify_from H fmt prev (ds @ [d]) = None \<longleftrightarrow>
     verify_from H fmt prev ds = None
   \<and> de_previous d = (if ds = [] then prev else de_hash (last ds)) \<and> de_hash d = decisionHash H fmt d"
  by (induction ds arbitrary: prev) auto

lemma hash_ignores_hash [simp]: "decisionHash H fmt (d\<lparr>de_hash := h\<rparr>) = decisionHash H fmt d"
  by (simp add: decisionHash_def decision_material_def)

text \<open>A log that verifies, and extends another.\<close>

definition log_ok :: "(string \<Rightarrow> string) \<Rightarrow> (instant \<Rightarrow> string) \<Rightarrow> policy \<Rightarrow> bool" where
  "log_ok H fmt p \<longleftrightarrow> VerifyDecisions H fmt (po_decisions p) = None"

definition log_extends :: "policy \<Rightarrow> policy \<Rightarrow> bool" where
  "log_extends p q \<longleftrightarrow> prefix (po_decisions p) (po_decisions q)"

lemma log_append:
  assumes "de_previous d = []"
  shows "log_ok H fmt (appendDecisionLocked H fmt d p) \<longleftrightarrow> log_ok H fmt p"
    and "log_extends p (appendDecisionLocked H fmt d p)"
  using assms by (auto simp: log_ok_def log_extends_def VerifyDecisions_def appendDecisionLocked_def
      Let_def verify_append)

lemma log_put [simp]:
  "log_ok H fmt (put_member k m p) = log_ok H fmt p"
  "log_ok H fmt (put_invitation k i p) = log_ok H fmt p"
  "log_ok H fmt (put_session k s p) = log_ok H fmt p"
  "log_extends p (put_member k m q) = log_extends p q"
  "log_extends p (put_invitation k i q) = log_extends p q"
  "log_extends p (put_session k s q) = log_extends p q"
  by (simp_all add: log_ok_def log_extends_def)

lemma new_decision_previous [simp]: "de_previous (new_decision now tenant user c allowed reason) = []"
  by (simp add: new_decision_def)

lemma log_extends_refl [simp]: "log_extends p p"
  by (simp add: log_extends_def)

lemma log_extends_append [simp]:
  "de_previous d = [] \<Longrightarrow> log_extends p q \<Longrightarrow> log_extends p (appendDecisionLocked H fmt d q)"
  using log_append(2) [of d q H fmt] by (auto simp: log_extends_def)

lemmas auth_op_defs = Invite_def AcceptInvitation_def AcceptInvitationFor_def acceptInvitationLocked_def
  RegisterSession_def RevokeSession_def ElevateSession_def Authorize_def grant_emergency_def
  revoke_emergency_def RevokeMember_def provisionMember_def UpdateMemberRole_def

lemma log_step: "log_ok H fmt p \<Longrightarrow> log_ok H fmt (auth_step H fmt redact x p)"
  by (cases x) (simp_all add: auth_op_defs Let_def log_append(1) split: option.splits)

lemma log_extends_step: "log_extends p (auth_step H fmt redact x p)"
  by (cases x) (simp_all add: auth_op_defs Let_def split: option.splits)

interpretation auth_log: invariant_machine "auth_step H fmt redact" "log_ok H fmt" for H fmt redact
  by unfold_locales (rule log_step)

interpretation auth_append: monotone_machine "auth_step H fmt redact" log_extends for H fmt redact
  by unfold_locales (auto simp: log_extends_def log_extends_step [unfolded log_extends_def])

lemma NewPolicy_decisions [simp]: "po_decisions (NewPolicy ms) = []"
proof -
  have "po_decisions (fold (\<lambda>m. put_member (member_key (mb_tenant m) (mb_principal m)) m) ms p) = po_decisions p" for p
    by (induction ms arbitrary: p) simp_all
  then show ?thesis by (simp add: NewPolicy_def empty_policy_def)
qed

text \<open>The decision log is append-only and always verifies: after any run from a new policy it passes the
  verification, and any later log of the same policy has it as a prefix.\<close>

theorem decision_log_verifies:
  fixes H fmt redact and before after :: "auth_op list" and ms :: "member list"
  defines "p \<equiv> fold (auth_step H fmt redact) before (NewPolicy ms)"
  defines "q \<equiv> fold (auth_step H fmt redact) after p"
  shows "VerifyDecisions H fmt (po_decisions p) = None \<and> prefix (po_decisions p) (po_decisions q)"
proof
  have "log_ok H fmt (NewPolicy ms)" by (simp add: log_ok_def VerifyDecisions_def)
  then have "log_ok H fmt p" unfolding p_def by (rule auth_log.inv_run)
  then show "VerifyDecisions H fmt (po_decisions p) = None" by (simp add: log_ok_def)
  show "prefix (po_decisions p) (po_decisions q)"
    using auth_append.rel_run [of p H fmt redact after] by (simp add: q_def log_extends_def)
qed

section \<open>Tampering\<close>

definition nul_free :: "string \<Rightarrow> bool" where
  "nul_free s \<longleftrightarrow> CHR 0x00 \<notin> set s"

definition decision_nul_free :: "auth_decision \<Rightarrow> bool" where
  "decision_nul_free d \<longleftrightarrow> nul_free (de_tenant d) \<and> nul_free (de_principal d)
     \<and> nul_free (de_capability d) \<and> nul_free (de_reason d)"

lemma nul_split:
  assumes "nul_free a" and "nul_free b" and "a @ nul @ x = b @ nul @ y"
  shows "a = b" and "x = y"
proof -
  have "takeWhile (\<lambda>c. c \<noteq> CHR 0x00) (a @ nul @ x) = a" "takeWhile (\<lambda>c. c \<noteq> CHR 0x00) (b @ nul @ y) = b"
    using assms(1,2) by (auto simp: nul_free_def nul_def takeWhile_tail)
  then show "a = b" using assms(3) by simp
  then show "x = y" using assms(3) by simp
qed

lemma bool_text_free: "nul_free (bool_text b)"
  by (simp add: nul_free_def bool_text_def)

lemma material_inject:
  assumes "decision_nul_free d" and "decision_nul_free d'"
    and "inj fmt" and "\<And>t. nul_free (fmt t)"
    and "decision_material fmt d = decision_material fmt d'"
  shows "d\<lparr>de_hash := h\<rparr> = d'\<lparr>de_hash := h\<rparr>" and "de_previous d = de_previous d'"
proof -
  note free = assms(1,2) [unfolded decision_nul_free_def]
  note split = nul_split [OF assms(4) assms(4)]
  from split [OF assms(5) [unfolded decision_material_def]]
  have at: "de_at d = de_at d'"
    and 1: "de_tenant d @ nul @ de_principal d @ nul @ de_capability d @ nul
     @ bool_text (de_allowed d) @ nul @ de_reason d @ nul @ de_previous d =
     de_tenant d' @ nul @ de_principal d' @ nul @ de_capability d' @ nul
     @ bool_text (de_allowed d') @ nul @ de_reason d' @ nul @ de_previous d'"
    using assms(3) by (auto dest: injD)
  from nul_split [OF _ _ 1] free have tenant: "de_tenant d = de_tenant d'"
    and 2: "de_principal d @ nul @ de_capability d @ nul
     @ bool_text (de_allowed d) @ nul @ de_reason d @ nul @ de_previous d =
     de_principal d' @ nul @ de_capability d' @ nul
     @ bool_text (de_allowed d') @ nul @ de_reason d' @ nul @ de_previous d'" by simp_all
  from nul_split [OF _ _ 2] free have user: "de_principal d = de_principal d'"
    and 3: "de_capability d @ nul @ bool_text (de_allowed d) @ nul @ de_reason d @ nul @ de_previous d =
     de_capability d' @ nul @ bool_text (de_allowed d') @ nul @ de_reason d' @ nul @ de_previous d'"
    by simp_all
  from nul_split [OF _ _ 3] free have cap: "de_capability d = de_capability d'"
    and 4: "bool_text (de_allowed d) @ nul @ de_reason d @ nul @ de_previous d =
     bool_text (de_allowed d') @ nul @ de_reason d' @ nul @ de_previous d'" by simp_all
  from nul_split [OF bool_text_free bool_text_free 4]
  have allowed: "de_allowed d = de_allowed d'"
    and 5: "de_reason d @ nul @ de_previous d = de_reason d' @ nul @ de_previous d'"
    by (auto simp: bool_text_def split: if_splits)
  from nul_split [OF _ _ 5] free have rest: "de_reason d = de_reason d'" "de_previous d = de_previous d'"
    by simp_all
  show "de_previous d = de_previous d'" using rest by simp
  show "d\<lparr>de_hash := h\<rparr> = d'\<lparr>de_hash := h\<rparr>"
    using at tenant user cap allowed rest by (intro auth_decision.equality) simp_all
qed

lemma decision_eqI:
  "d\<lparr>de_hash := []\<rparr> = d'\<lparr>de_hash := []\<rparr> \<Longrightarrow> de_hash d = de_hash d' \<Longrightarrow> (d :: auth_decision) = d'"
  by (cases d; cases d') simp

text \<open>C30: Tamper evidence: two logs that verify, whose fields have no NUL bytes and whose last decisions have
  the same hash, are the same log, or they exhibit a collision of the hash function, a decision of
  each with different hashed texts of one hash. So whoever keeps the hash of the last decision detects
  every change of a decision, and every insertion, removal or reordering, in a log that still
  verifies, short of a collision of SHA-256.\<close>

theorem last_hash_determines_log:
  assumes "\<And>m. H m \<noteq> []" and "inj fmt" and "\<And>t. nul_free (fmt t)"
    and "VerifyDecisions H fmt ds = None" and "VerifyDecisions H fmt ds' = None"
    and "list_all decision_nul_free ds" and "list_all decision_nul_free ds'"
    and "ds \<noteq> []" and "ds' \<noteq> []" and "de_hash (last ds) = de_hash (last ds')"
  shows "ds = ds' \<or> (\<exists>d \<in> set ds. \<exists>d' \<in> set ds'.
     decision_material fmt d \<noteq> decision_material fmt d'
   \<and> H (decision_material fmt d) = H (decision_material fmt d'))"
  using assms(4-10)
proof (induction ds arbitrary: ds' rule: rev_induct)
  case Nil
  then show ?case by simp
next
  case (snoc d ds)
  obtain es e where ds': "ds' = es @ [e]" using snoc.prems by (cases ds' rule: rev_cases) auto
  have d: "verify_from H fmt [] ds = None" "de_previous d = (if ds = [] then [] else de_hash (last ds))"
    "de_hash d = H (decision_material fmt d)"
    and e: "verify_from H fmt [] es = None" "de_previous e = (if es = [] then [] else de_hash (last es))"
    "de_hash e = H (decision_material fmt e)"
    using snoc.prems(1,2) unfolding ds' VerifyDecisions_def verify_append by (simp_all add: decisionHash_def)
  have hash: "de_hash d = de_hash e" using snoc.prems ds' by simp
  have free: "decision_nul_free d" "decision_nul_free e" using snoc.prems ds' by simp_all
  show ?case
  proof (cases "decision_material fmt d = decision_material fmt e")
    case False
    then show ?thesis using d(3) e(3) hash unfolding ds' by auto
  next
    case mat: True
    note same = material_inject [OF free assms(2,3) mat]
    have "d = e" using same(1) [of "[]"] hash by (rule decision_eqI)
    have last_hash: "de_hash (last xs) \<noteq> []"
      if verified: "verify_from H fmt [] xs = None" and ne: "xs \<noteq> []" for xs
    proof -
      obtain ys y where "xs = ys @ [y]" using ne by (cases xs rule: rev_cases) auto
      then show ?thesis using verified assms(1) by (simp add: verify_append decisionHash_def)
    qed
    show ?thesis
    proof (cases "ds = []")
      case True
      then have "es = []" using same(2) d(2) e(1,2) last_hash [of es] by (cases "es = []") auto
      then show ?thesis using \<open>d = e\<close> True ds' by simp
    next
      case False
      then have "de_hash (last ds) \<noteq> []" using last_hash d(1) by blast
      then have "es \<noteq> []" "de_hash (last ds) = de_hash (last es)"
        using same(2) d(2) e(2) False by (auto split: if_splits)
      then show ?thesis
        using snoc.IH [of es] d(1) e(1) False snoc.prems ds' \<open>d = e\<close>
        by (auto simp: VerifyDecisions_def)
    qed
  qed
qed

lemma last_hash_witness:
  "[new_decision 1 ''t'' ''u'' CapabilityEvidenceRead True []\<lparr>de_hash := ''#a'' @ nul @ ''t'' @ nul @ ''u'' @ nul
       @ CapabilityEvidenceRead @ nul @ ''true'' @ nul @ nul\<rparr>]
   = po_decisions (appendDecisionLocked (\<lambda>s. CHR ''#'' # s)
       (\<lambda>t. if t \<ge> 0 then replicate (nat t) CHR ''a'' else replicate (nat (- t)) CHR ''b'')
       (new_decision 1 ''t'' ''u'' CapabilityEvidenceRead True []) empty_policy)"
  (is "?ds = ?es")
proof -
  let ?H = "\<lambda>s. CHR ''#'' # s"
  let ?fmt = "\<lambda>t. if t \<ge> 0 then replicate (nat t) CHR ''a'' else replicate (nat (- t)) CHR ''b''"
  have "?ds = ?es \<or> (\<exists>d \<in> set ?ds. \<exists>d' \<in> set ?es. decision_material ?fmt d \<noteq> decision_material ?fmt d'
      \<and> ?H (decision_material ?fmt d) = ?H (decision_material ?fmt d'))"
  proof (rule last_hash_determines_log [of ?H ?fmt])
    show "inj (?fmt :: int \<Rightarrow> string)"
      by (rule injI) (auto simp: replicate_eq_replicate split: if_splits)
  qed (auto simp: nul_free_def VerifyDecisions_def decisionHash_def decision_material_def bool_text_def
      new_decision_def decision_nul_free_def appendDecisionLocked_def empty_policy_def Let_def nul_def)
  then show ?thesis by blast
qed

text \<open>With NUL bytes in the fields the log is not tamper evident, for no hash: after a request of tenant
  \<open>a\x00b\<close> and principal \<open>c\<close>, the log that moves the boundary to tenant \<open>a\<close> and principal \<open>b\x00c\<close> is
  another log with the same last hash, and it verifies.\<close>

theorem nul_moves_boundary:
  fixes H fmt and r :: auth_request and now :: instant
  defines "r \<equiv> \<lparr>au_tenant = ''a'' @ nul @ ''b'', au_principal = ''c'', au_session = [],
      au_capability = CapabilityEvidenceRead\<rparr>"
  defines "ds \<equiv> po_decisions (fst (Authorize H fmt now r (NewPolicy [])))"
  shows "\<exists>ds'. ds' \<noteq> ds \<and> VerifyDecisions H fmt ds' = None
     \<and> map de_hash ds' = map de_hash ds \<and> map de_tenant ds' = [''a'']"
proof -
  obtain d where ds: "ds = [d]" and d: "de_tenant d = ''a'' @ nul @ ''b''" "de_principal d = ''c''"
      "de_previous d = []" "de_hash d = decisionHash H fmt d"
    by (simp add: ds_def r_def Authorize_def appendDecisionLocked_def Let_def new_decision_def
        decisionHash_def decision_material_def)
  let ?e = "d\<lparr>de_tenant := ''a'', de_principal := ''b'' @ nul @ ''c''\<rparr>"
  have "decisionHash H fmt ?e = decisionHash H fmt d"
    by (simp add: decisionHash_def decision_material_def d nul_def)
  then have ok: "VerifyDecisions H fmt [?e] = None" using d by (simp add: VerifyDecisions_def)
  have other: "[?e] \<noteq> ds"
  proof
    assume "[?e] = ds"
    then have "map de_tenant [?e] = map de_tenant ds" by (rule arg_cong)
    then show False by (simp add: ds d(1))
  qed
  have same: "map de_hash [?e] = map de_hash ds" and moved: "map de_tenant [?e] = [''a'']"
    unfolding ds by simp_all
  show ?thesis by (rule exI [of _ "[?e]"]) (intro conjI other ok same moved)
qed

end
