(* ===== verification/Authorization_Access.thy ===== *)
theory Authorization_Access
  imports Authorization_Properties
begin

text \<open>
  Who gets access over the life of a policy: tenant isolation, revocation of members and sessions,
  single use of invitations, optimistic concurrency of provisioning, bounded emergency access, and
  the round trip through a snapshot; and where missing validation of identifiers breaks them.
\<close>

section \<open>Tenant isolation\<close>

lemma member_key_inject:
  assumes "nul_free t" and "nul_free t'" and "member_key t u = member_key t' u'"
  shows "t = t' \<and> u = u'"
  using nul_split [OF assms(1,2)] assms(3) unfolding member_key_def by blast

lemma strip_left_keeps: "x \<in> set s \<Longrightarrow> x \<notin> set (concat ws) \<Longrightarrow> x \<in> set (strip_left ws s)"
proof (induction ws s rule: strip_left.induct)
  case (1 ws s)
  show ?case
  proof (cases "first_prefix ws s")
    case None
    then show ?thesis using 1 by (subst strip_left.simps) simp
  next
    case (Some w)
    then have w: "w \<in> set ws" "HasPrefix s w" using first_prefix_Some by blast+
    then obtain t where "s = w @ t" by (auto simp: HasPrefix_iff)
    then have "x \<in> set (drop (length w) s)" using 1 w by auto
    then show ?thesis using 1 Some by (subst strip_left.simps) simp
  qed
qed

lemma TrimSpace_keeps_nul: "CHR 0x00 \<in> set s \<Longrightarrow> CHR 0x00 \<in> set (TrimSpace s)"
proof -
  have "CHR 0x00 \<notin> set (concat space_runes)" "CHR 0x00 \<notin> set (concat (map rev space_runes))"
    by code_simp+
  then show "CHR 0x00 \<in> set s \<Longrightarrow> CHR 0x00 \<in> set (TrimSpace s)"
    by (simp add: TrimSpace_def strip_left_keeps)
qed

lemma validProvisionText_nul_free: "validProvisionText v \<Longrightarrow> nul_free v"
  using TrimSpace_keeps_nul [of v]
  by (auto simp: validProvisionText_def nul_free_def ContainsAny_def nul_cr_lf_def Let_def list_ex_iff)

text \<open>Members are stored under their own keys; their tenants and those of invitations have no NUL.\<close>

definition tenants_ok :: "policy \<Rightarrow> bool" where
  "tenants_ok p \<longleftrightarrow>
     members.entries (\<lambda>k m. k = member_key (mb_tenant m) (mb_principal m) \<and> nul_free (mb_tenant m)) p
   \<and> invitations.entries (\<lambda>k i. nul_free (iv_tenant i)) p"

fun op_tenant_ok :: "auth_op \<Rightarrow> bool" where
  "op_tenant_ok (AuthInvite now i) = nul_free (iv_tenant i)"
| "op_tenant_ok _ = True"

lemma tenants_ok_frames [simp]:
  "tenants_ok (put_session k s p) = tenants_ok p"
  "tenants_ok (appendDecisionLocked H fmt d p) = tenants_ok p"
  by (simp_all add: tenants_ok_def members.entries_def invitations.entries_def)

lemma tenants_ok_put_member:
  "tenants_ok p \<Longrightarrow> k = member_key (mb_tenant m) (mb_principal m) \<Longrightarrow> nul_free (mb_tenant m) \<Longrightarrow>
     tenants_ok (put_member k m p)"
  by (simp add: tenants_ok_def members.entries_put) (simp add: invitations.entries_def)

lemma tenants_ok_put_invitation:
  "tenants_ok p \<Longrightarrow> nul_free (iv_tenant i) \<Longrightarrow> tenants_ok (put_invitation k i p)"
  by (simp add: tenants_ok_def invitations.entries_put) (simp add: members.entries_def)

lemma tenants_okD:
  "tenants_ok p \<Longrightarrow> get_member k p = Some m \<Longrightarrow>
     k = member_key (mb_tenant m) (mb_principal m) \<and> nul_free (mb_tenant m)"
  "tenants_ok p \<Longrightarrow> get_invitation k p = Some i \<Longrightarrow> nul_free (iv_tenant i)"
  by (auto simp: tenants_ok_def members.entries_def invitations.entries_def)

lemma tenants_ok_accept:
  "tenants_ok p \<Longrightarrow> tenants_ok (fst (acceptInvitationLocked now ident t u p))"
  using tenants_okD(2) [of p ident]
  by (cases "get_invitation ident p")
    (auto simp: acceptInvitationLocked_def zero_member_def intro!: tenants_ok_put_invitation tenants_ok_put_member)

lemma tenants_ok_step:
  "tenants_ok p \<Longrightarrow> op_tenant_ok x \<Longrightarrow> tenants_ok (auth_step H fmt redact x p)"
proof (cases x)
  case (AuthRevokeMember t u)
  assume "tenants_ok p"
  then show ?thesis
    unfolding AuthRevokeMember using tenants_okD(1) [of p "member_key t u"]
    by (auto simp: RevokeMember_def tenants_ok_put_member split: option.splits)
next
  case (AuthUpdateRole t u r)
  assume "tenants_ok p"
  then show ?thesis
    unfolding AuthUpdateRole using tenants_okD(1) [of p "member_key t u"]
    by (auto simp: UpdateMemberRole_def tenants_ok_put_member split: option.splits)
next
  case (AuthProvision now t actor u ext disp r active expected)
  assume "tenants_ok p"
  then show ?thesis
    unfolding AuthProvision
    by (simp add: provisionMember_def Let_def validProvisionText_nul_free tenants_ok_put_member
        split: option.split)
qed (simp_all add: Invite_def AcceptInvitation_def AcceptInvitationFor_def tenants_ok_accept
    RegisterSession_def RevokeSession_def ElevateSession_def Authorize_def grant_emergency_def
    revoke_emergency_def Let_def tenants_ok_put_invitation split: option.splits)

lemma tenants_ok_run:
  "tenants_ok p \<Longrightarrow> list_all op_tenant_ok ops \<Longrightarrow> tenants_ok (fold (auth_step H fmt redact) ops p)"
  by (induction ops arbitrary: p) (simp_all add: tenants_ok_step)

lemma get_empty [simp]:
  "get_member k empty_policy = None" "get_invitation k empty_policy = None" "get_session k empty_policy = None"
  by (simp_all add: empty_policy_def get_member_def get_invitation_def get_session_def)

lemma NewPolicy_frames [simp]: "get_invitation k (NewPolicy ms) = None" "get_session k (NewPolicy ms) = None"
proof -
  have "get_invitation k (fold (\<lambda>m. put_member (member_key (mb_tenant m) (mb_principal m)) m) ms p) = get_invitation k p"
    "get_session k (fold (\<lambda>m. put_member (member_key (mb_tenant m) (mb_principal m)) m) ms p) = get_session k p" for p
    by (induction ms arbitrary: p) simp_all
  then show "get_invitation k (NewPolicy ms) = None" "get_session k (NewPolicy ms) = None"
    by (simp_all add: NewPolicy_def)
qed

lemma tenants_ok_new: "list_all (\<lambda>m. nul_free (mb_tenant m)) ms \<Longrightarrow> tenants_ok (NewPolicy ms)"
  unfolding tenants_ok_def NewPolicy_def
  by (intro conjI members.entries_puts) (auto simp: members.entries_def list_all_iff,
      use NewPolicy_frames(1) [unfolded NewPolicy_def] in \<open>simp add: invitations.entries_def\<close>)

text \<open>C29: Tenant isolation: when tenant identifiers have no NUL byte, a request is authorized only if the
  tenant it names has a member with the principal it names who is active and whose role allows the
  capability, whatever members of other tenants exist and whatever happened before.\<close>

theorem tenant_isolation:
  fixes H fmt redact and ops :: "auth_op list"
  assumes "list_all (\<lambda>m. nul_free (mb_tenant m)) ms" and "list_all op_tenant_ok ops"
    and "nul_free (au_tenant r)"
  defines "p \<equiv> fold (auth_step H fmt redact) ops (NewPolicy ms)"
  assumes "snd (Authorize H fmt now r p) = None"
  shows "list_ex (\<lambda>m. mb_principal m = au_principal r \<and> mb_active m \<and> roleAllows (mb_role m) (au_capability r))
     (Members (au_tenant r) p)"
proof -
  have ok: "tenants_ok p" unfolding p_def using assms(1,2) by (intro tenants_ok_run tenants_ok_new)
  obtain m where m: "get_member (member_key (au_tenant r) (au_principal r)) p = Some m"
    and active: "mb_active m" "roleAllows (mb_role m) (au_capability r)"
    using assms(5) by (auto simp: Authorize_def Let_def authorize_None)
  have "mb_tenant m = au_tenant r" "mb_principal m = au_principal r"
    using tenants_okD(1) [OF ok m] member_key_inject assms(3) by metis+
  moreover have "m \<in> snd ` set (po_members p)"
    using m map_of_SomeD [of "po_members p"] by (force simp: get_member_def)
  ultimately show ?thesis using active by (auto simp: Members_def list_ex_iff)
qed

lemma tenant_isolation_witness:
  "list_ex (\<lambda>m. mb_principal m = ''u'' \<and> mb_active m \<and> roleAllows (mb_role m) CapabilityEvidenceRead)
     (Members ''t'' (fold (auth_step (\<lambda>s. s) (\<lambda>t. []) (\<lambda>s. s)) [AuthRevokeSession ''s'']
       (NewPolicy [zero_member\<lparr>mb_tenant := ''t'', mb_principal := ''u'', mb_role := RoleViewer, mb_active := True\<rparr>])))"
  using tenant_isolation [of "[zero_member\<lparr>mb_tenant := ''t'', mb_principal := ''u'', mb_role := RoleViewer,
        mb_active := True\<rparr>]" "[AuthRevokeSession ''s'']"
      "\<lparr>au_tenant = ''t'', au_principal = ''u'', au_session = [], au_capability = CapabilityEvidenceRead\<rparr>"
      "\<lambda>s. s" "\<lambda>t. []" 1 "\<lambda>s. s"]
  by (simp add: nul_free_def Authorize_def Let_def authorize_None RevokeSession_def NewPolicy_def zero_member_def
      roleAllows_def isHighRisk_def)

text \<open>Without that restriction the tenants are not separated: \<open>Invite\<close> accepts a principal with a NUL byte,
  and accepting the invitation of tenant \<open>a\<close> admits a principal to the tenant \<open>a\x00b\<close>, which has no
  member.\<close>

theorem nul_crosses_tenants:
  fixes H fmt redact
  defines "i \<equiv> \<lparr>iv_id = ''i'', iv_tenant = ''a'', iv_principal = ''b'' @ nul @ ''c'', iv_role = RoleViewer,
      iv_expires = 10, iv_accepted = False\<rparr>"
  defines "p \<equiv> fold (auth_step H fmt redact) [AuthInvite 1 i, AuthAccept 2 ''i''] (NewPolicy [])"
  shows "snd (Authorize H fmt 3 \<lparr>au_tenant = ''a'' @ nul @ ''b'', au_principal = ''c'', au_session = [],
        au_capability = CapabilityEvidenceRead\<rparr> p) = None
     \<and> Members (''a'' @ nul @ ''b'') p = []"
proof -
  have i: "Invite 1 i (NewPolicy []) = (put_invitation ''i'' i (NewPolicy []), None)"
    by (simp add: Invite_def i_def validRole_def)
  have p: "p = put_invitation ''i'' (i\<lparr>iv_accepted := True\<rparr>)
      (put_member (member_key ''a'' (''b'' @ nul @ ''c'')) (zero_member\<lparr>mb_tenant := ''a'',
         mb_principal := ''b'' @ nul @ ''c'', mb_role := RoleViewer, mb_active := True\<rparr>)
      (put_invitation ''i'' i (NewPolicy [])))"
    by (simp add: p_def i AcceptInvitation_def acceptInvitationLocked_def) (simp add: i_def)
  have "Members (''a'' @ nul @ ''b'') p = []"
    by (simp add: p Members_def put_invitation_def put_member_def NewPolicy_def empty_policy_def nul_def)
  moreover have "member_key (''a'' @ nul @ ''b'') ''c'' = member_key ''a'' (''b'' @ nul @ ''c'')"
    by (simp add: member_key_def)
  ultimately show ?thesis
    by (simp add: Authorize_def Let_def authorize_None p roleAllows_def isHighRisk_def)
qed

section \<open>Revocation\<close>

text \<open>Whether a step makes the member with this key active: accepting an invitation to it or provisioning it.\<close>

fun readmits :: "string \<Rightarrow> policy \<Rightarrow> auth_op \<Rightarrow> bool" where
  "readmits key p (AuthAccept now ident) =
     (case get_invitation ident p of None \<Rightarrow> False
      | Some i \<Rightarrow> member_key (iv_tenant i) (iv_principal i) = key)"
| "readmits key p (AuthAcceptFor now actor ident) =
     (case get_invitation ident p of None \<Rightarrow> False
      | Some i \<Rightarrow> member_key (iv_tenant i) (iv_principal i) = key)"
| "readmits key p (AuthProvision now t actor u ext disp r active expected) =
     (member_key t u = key \<and> active)"
| "readmits key p _ = False"

fun readmitted ::
    "(string \<Rightarrow> string) \<Rightarrow> (instant \<Rightarrow> string) \<Rightarrow> (string \<Rightarrow> string) \<Rightarrow> string \<Rightarrow> auth_op list \<Rightarrow> policy \<Rightarrow> bool"
  where
  "readmitted H fmt redact key [] p = False"
| "readmitted H fmt redact key (x # xs) p =
     (readmits key p x \<or> readmitted H fmt redact key xs (auth_step H fmt redact x p))"

definition revoked_member :: "string \<Rightarrow> policy \<Rightarrow> bool" where
  "revoked_member key p \<longleftrightarrow> (\<exists>m. get_member key p = Some m \<and> \<not> mb_active m)"

lemma revoked_member_step:
  "revoked_member key p \<Longrightarrow> \<not> readmits key p x \<Longrightarrow> revoked_member key (auth_step H fmt redact x p)"
  by (cases x) (auto simp: revoked_member_def Invite_def RegisterSession_def RevokeSession_def
      AcceptInvitation_def AcceptInvitationFor_def acceptInvitationLocked_def provisionMember_def
      ElevateSession_def Authorize_def grant_emergency_def revoke_emergency_def RevokeMember_def
      UpdateMemberRole_def Let_def split: option.splits)

lemma revoked_member_run:
  "revoked_member key p \<Longrightarrow> \<not> readmitted H fmt redact key ops p \<Longrightarrow>
     revoked_member key (fold (auth_step H fmt redact) ops p)"
  by (induction ops arbitrary: p) (simp_all add: revoked_member_step)

fun registers :: "string \<Rightarrow> auth_op \<Rightarrow> bool" where
  "registers ident (AuthRegister now s) = (se_id s = ident)"
| "registers ident _ = False"

definition revoked_session :: "string \<Rightarrow> policy \<Rightarrow> bool" where
  "revoked_session key p \<longleftrightarrow> (\<exists>s. get_session key p = Some s \<and> se_revoked s)"

lemma revoked_session_step:
  "revoked_session key p \<Longrightarrow> \<not> registers key x \<Longrightarrow> revoked_session key (auth_step H fmt redact x p)"
  by (cases x) (auto simp: revoked_session_def Invite_def RegisterSession_def RevokeSession_def
      AcceptInvitation_def AcceptInvitationFor_def acceptInvitationLocked_def provisionMember_def
      ElevateSession_def Authorize_def grant_emergency_def revoke_emergency_def RevokeMember_def
      UpdateMemberRole_def Let_def split: option.splits)

lemma revoked_session_run:
  "revoked_session key p \<Longrightarrow> list_all (\<lambda>x. \<not> registers key x) ops \<Longrightarrow>
     revoked_session key (fold (auth_step H fmt redact) ops p)"
  by (induction ops arbitrary: p) (simp_all add: revoked_session_step)


definition viewer_policy :: policy where
  "viewer_policy = NewPolicy [zero_member\<lparr>mb_tenant := ''t'', mb_principal := ''u'', mb_role := RoleViewer,
     mb_active := True\<rparr>]"

definition viewer_request :: auth_request where
  "viewer_request = \<lparr>au_tenant = ''t'', au_principal = ''u'', au_session = [],
     au_capability = CapabilityEvidenceRead\<rparr>"


section \<open>Invitations\<close>

definition used_invitation :: "string \<Rightarrow> policy \<Rightarrow> bool" where
  "used_invitation key p \<longleftrightarrow> (\<exists>i. get_invitation key p = Some i \<and> iv_accepted i)"

lemma used_invitation_step:
  "used_invitation key p \<Longrightarrow> used_invitation key (auth_step H fmt redact x p)"
  by (cases x) (auto simp: used_invitation_def auth_op_defs Let_def split: option.splits)

text \<open>An invitation admits once: accepting it makes its principal an active member of its tenant with its
  role, and after any later operations it cannot be accepted again by anyone.\<close>

theorem invitation_single_use:
  fixes ops :: "auth_op list"
  assumes "acceptInvitationLocked now ident t u p = (p1, None)"
  shows "(\<exists>i m. get_invitation ident p = Some i \<and> now < iv_expires i
       \<and> get_member (member_key (iv_tenant i) (iv_principal i)) p1 = Some m
       \<and> mb_active m \<and> mb_role m = iv_role i)
     \<and> snd (acceptInvitationLocked now' ident t' u' (fold (auth_step H fmt redact) ops p1)) \<noteq> None"
proof
  show "\<exists>i m. get_invitation ident p = Some i \<and> now < iv_expires i
       \<and> get_member (member_key (iv_tenant i) (iv_principal i)) p1 = Some m
       \<and> mb_active m \<and> mb_role m = iv_role i"
    using assms by (auto simp: acceptInvitationLocked_def split: option.splits if_splits)
  have "used_invitation ident p1"
    using assms by (auto simp: acceptInvitationLocked_def used_invitation_def split: option.splits if_splits)
  then have "used_invitation ident (fold (auth_step H fmt redact) ops p1)"
    by (induction ops arbitrary: p1) (simp_all add: used_invitation_step)
  then show "snd (acceptInvitationLocked now' ident t' u' (fold (auth_step H fmt redact) ops p1)) \<noteq> None"
    by (auto simp: used_invitation_def acceptInvitationLocked_def)
qed

lemma invitation_single_use_witness:
  "snd (acceptInvitationLocked 3 ''i'' [] [] (fold (auth_step (\<lambda>s. s) (\<lambda>t. []) (\<lambda>s. s)) [AuthInvite 2 \<lparr>iv_id = ''i'', iv_tenant = ''t'', iv_principal = ''u'', iv_role = RoleViewer, iv_expires = 10, iv_accepted = False\<rparr>]
     (fst (acceptInvitationLocked 1 ''i'' [] [] (put_invitation ''i'' \<lparr>iv_id = ''i'', iv_tenant = ''t'', iv_principal = ''u'', iv_role = RoleViewer, iv_expires = 10, iv_accepted = False\<rparr> (NewPolicy [])))))) \<noteq> None"
  using invitation_single_use [of 1 "''i''" "[]" "[]" "(put_invitation ''i'' \<lparr>iv_id = ''i'', iv_tenant = ''t'', iv_principal = ''u'', iv_role = RoleViewer, iv_expires = 10, iv_accepted = False\<rparr> (NewPolicy []))"
      "fst (acceptInvitationLocked 1 ''i'' [] [] (put_invitation ''i'' \<lparr>iv_id = ''i'', iv_tenant = ''t'', iv_principal = ''u'', iv_role = RoleViewer, iv_expires = 10, iv_accepted = False\<rparr> (NewPolicy [])))" 3 "[]" "[]" "\<lambda>s. s" "\<lambda>t. []" "\<lambda>s. s"
      "[AuthInvite 2 \<lparr>iv_id = ''i'', iv_tenant = ''t'', iv_principal = ''u'', iv_role = RoleViewer, iv_expires = 10, iv_accepted = False\<rparr>]"]
  by (simp add: acceptInvitationLocked_def)

section \<open>Provisioning\<close>

text \<open>C35: Optimistic concurrency: provisioning at a revision succeeds only if the member exists with exactly
  that revision, which it increments; a second write that expects the same revision fails and
  changes nothing, so no update is lost.\<close>

theorem stale_revision_conflicts:
  assumes "ProvisionMemberAtRevision H fmt now t actor u ext disp r active e p = (p1, Inr m)"
  shows "(\<exists>old. get_member (member_key t u) p = Some old \<and> mb_revision old = e)
     \<and> get_member (member_key t u) p1 = Some m \<and> mb_revision m = e + 1
     \<and> (\<exists>err. ProvisionMemberAtRevision H fmt now' t actor' u ext' disp' r' active' e p1 = (p1, Inl err))"
proof -
  have m: "get_member (member_key t u) p1 = Some m"
    and old: "\<exists>old. get_member (member_key t u) p = Some old \<and> mb_revision old = e" "mb_revision m = e + 1"
    using assms by (auto simp: ProvisionMemberAtRevision_def provisionMember_def Let_def
        split: if_splits option.splits)
  have "e + 1 \<noteq> (e :: 64 word)" by simp
  then have "\<exists>err. ProvisionMemberAtRevision H fmt now' t actor' u ext' disp' r' active' e p1 = (p1, Inl err)"
    using m old(2) by (simp add: ProvisionMemberAtRevision_def provisionMember_def Let_def)
  then show ?thesis using m old by blast
qed

lemma stale_revision_witness:
  "\<exists>err. ProvisionMemberAtRevision (\<lambda>s. s) (\<lambda>t. []) 2 ''t'' ''b'' ''u'' [] [] RoleOwner False 0
     (fst (ProvisionMemberAtRevision (\<lambda>s. s) (\<lambda>t. []) 1 ''t'' ''a'' ''u'' [] [] RoleViewer True 0
        (put_member (member_key ''t'' ''u'') zero_member (NewPolicy [])))) =
     (fst (ProvisionMemberAtRevision (\<lambda>s. s) (\<lambda>t. []) 1 ''t'' ''a'' ''u'' [] [] RoleViewer True 0
        (put_member (member_key ''t'' ''u'') zero_member (NewPolicy []))), Inl err)"
proof -
  have texts: "validProvisionText ''t''" "validProvisionText ''u''" "validProvisionText ''a''"
    "\<not> ContainsAny [] nul_cr_lf"
    by code_simp+
  obtain p1 m where run: "ProvisionMemberAtRevision (\<lambda>s. s) (\<lambda>t. []) 1 ''t'' ''a'' ''u'' [] [] RoleViewer True 0
      (put_member (member_key ''t'' ''u'') zero_member (NewPolicy [])) = (p1, Inr m)"
    using texts by (simp add: ProvisionMemberAtRevision_def provisionMember_def Let_def validRole_def zero_member_def)
  then show ?thesis using stale_revision_conflicts [OF run] by simp
qed

text \<open>An accepted invitation breaks this: it replaces the member by one with revision 0, so revisions repeat,
  and a write that expects a revision from before the replacement succeeds and overwrites a newer one.\<close>

theorem accept_resets_revision:
  fixes H fmt redact
  defines "i \<equiv> \<lparr>iv_id = ''i'', iv_tenant = ''t'', iv_principal = ''u'', iv_role = RoleViewer,
      iv_expires = 10, iv_accepted = False\<rparr>"
  defines "p \<equiv> fold (auth_step H fmt redact)
      [AuthInvite 1 i, AuthProvision 1 ''t'' ''scim'' ''u'' [] [] RoleOwner True None] (NewPolicy [])"
  defines "q \<equiv> fold (auth_step H fmt redact)
      [AuthAccept 2 ''i'', AuthProvision 3 ''t'' ''scim'' ''u'' [] [] RoleViewer False None] p"
  shows "map_option mb_revision (get_member (member_key ''t'' ''u'') p) = Some 1
     \<and> map_option mb_active (get_member (member_key ''t'' ''u'') q) = Some False
     \<and> (\<exists>q' m. ProvisionMemberAtRevision H fmt 4 ''t'' ''scim'' ''u'' [] [] RoleOwner True 1 q = (q', Inr m)
          \<and> mb_active m)"
proof -
  have texts: "validProvisionText ''t''" "validProvisionText ''u''" "validProvisionText ''scim''"
    by code_simp+
  have empty: "\<not> ContainsAny [] nul_cr_lf" by code_simp
  have new: "get_member k (NewPolicy []) = None" for k
    by (simp add: NewPolicy_def)
  show ?thesis
    by (simp add: p_def q_def i_def Invite_def validRole_def provisionMember_def texts empty Let_def new
        AcceptInvitation_def acceptInvitationLocked_def zero_member_def ProvisionMemberAtRevision_def)
qed

text \<open>Identifiers are checked after their surrounding white space is trimmed but stored as they are, so a
  principal that ends in a line break passes the check that forbids line breaks.\<close>

theorem provision_accepts_line_break:
  "validProvisionText (''u'' @ [CHR 0x0A])
   \<and> (\<exists>q m. ProvisionMember H fmt 1 ''t'' ''scim'' (''u'' @ [CHR 0x0A]) [] [] RoleViewer True (NewPolicy [])
        = (q, Inr m) \<and> ContainsAny (mb_principal m) nul_cr_lf)"
proof -
  have texts: "validProvisionText ''t''" "validProvisionText (''u'' @ [CHR 0x0A])" "validProvisionText ''scim''"
    "\<not> ContainsAny [] nul_cr_lf" "ContainsAny (''u'' @ [CHR 0x0A]) nul_cr_lf"
    by code_simp+
  then show ?thesis
    by (simp add: ProvisionMember_def provisionMember_def validRole_def Let_def)
qed

section \<open>Emergency access\<close>

text \<open>Emergency access is granted only by a principal who is authorized to grant it, to a live session of the
  same tenant, for at most thirty minutes and less than the session's life, and is on record.\<close>

theorem emergency_access_bounded:
  fixes H fmt redact between and actor r :: auth_request and p p2 :: policy and now :: instant
  assumes "GrantEmergencyAccess H fmt redact now now2 between actor ident reason until p = (q, None)"
  defines "r \<equiv> actor\<lparr>au_capability := CapabilityEmergencyAccess\<rparr>"
  defines "p2 \<equiv> between (fst (Authorize H fmt now r p))"
  shows "authorize_error now r p = None
     \<and> (\<exists>s. get_session ident p2 = Some s \<and> se_tenant s = au_tenant actor \<and> \<not> se_revoked s
          \<and> now2 < until \<and> until \<le> now2 + 30 * minute \<and> until < se_expires s
          \<and> get_session ident q = Some (s\<lparr>se_emergency := until,
               se_emergency_reason := redact (TrimSpace reason)\<rparr>))
     \<and> (\<exists>d. po_decisions q = po_decisions p2 @ [d] \<and> de_capability d = CapabilityEmergencyAccess
          \<and> de_reason d = ''emergency access granted: '' @ redact (TrimSpace reason))"
proof -
  obtain p1 where auth: "Authorize H fmt now r p = (p1, None)"
    and grant: "grant_emergency H fmt redact now2 r ident reason until (between p1) = (q, None)"
    using assms(1) by (auto simp: GrantEmergencyAccess_def Let_def r_def split: prod.splits option.splits)
  have p2: "p2 = between p1" using auth by (simp add: p2_def)
  obtain s where s: "get_session ident p2 = Some s"
    using grant unfolding p2 by (auto simp: grant_emergency_def Let_def split: if_splits option.splits)
  have conds: "se_tenant s = au_tenant actor" "\<not> se_revoked s" "now2 < until" "until \<le> now2 + 30 * minute"
    "until < se_expires s"
    and q: "q = appendDecisionLocked H fmt (new_decision now2 (se_tenant s) (se_principal s)
        CapabilityEmergencyAccess True (''emergency access granted: '' @ redact (TrimSpace reason)))
      (put_session ident (s\<lparr>se_emergency := until, se_emergency_reason := redact (TrimSpace reason)\<rparr>) p2)"
    using grant s unfolding p2
    by (auto simp: grant_emergency_def Let_def r_def split: if_splits)
  have "authorize_error now r p = None" using auth by (simp add: Authorize_def Let_def)
  moreover have "get_session ident q = Some (s\<lparr>se_emergency := until,
      se_emergency_reason := redact (TrimSpace reason)\<rparr>)" by (simp add: q)
  moreover have "\<exists>d. po_decisions q = po_decisions p2 @ [d] \<and> de_capability d = CapabilityEmergencyAccess
      \<and> de_reason d = ''emergency access granted: '' @ redact (TrimSpace reason)"
    by (simp add: q appendDecisionLocked_def Let_def new_decision_def)
  ultimately show ?thesis using s conds by blast
qed

lemma emergency_access_witness:
  "\<exists>q s. get_session ''s'' q = Some s \<and> se_emergency s = 5"
proof -
  let ?s = "\<lparr>se_id = ''s'', se_tenant = ''t'', se_principal = ''u'', se_expires = 9, se_step_up = 4,
     se_emergency = 0, se_emergency_reason = [], se_revoked = False\<rparr>"
  let ?p = "put_session ''s'' ?s (NewPolicy [zero_member\<lparr>mb_tenant := ''t'', mb_principal := ''u'',
     mb_role := RoleAdmin, mb_active := True\<rparr>])"
  let ?a = "\<lparr>au_tenant = ''t'', au_principal = ''u'', au_session = ''s'', au_capability = []\<rparr>"
  have reason: "TrimSpace '' incident 7'' = ''incident 7''" "\<not> ContainsAny ''incident 7'' nul_cr_lf"
    by code_simp+
  obtain q where run: "GrantEmergencyAccess (\<lambda>s. s) (\<lambda>t. []) (\<lambda>s. s) 1 2 (\<lambda>p. p) ?a ''s'' '' incident 7'' 5 ?p = (q, None)"
    by (simp add: GrantEmergencyAccess_def Authorize_def authorize_error_def session_error_def stepped_up_def
        grant_emergency_def reason Let_def NewPolicy_def zero_member_def roleAllows_def isHighRisk_def minute_def)
  show ?thesis using emergency_access_bounded [OF run] by fastforce
qed

end
