(* ===== verification/Authorization_Snapshot.thy ===== *)
theory Authorization_Snapshot
  imports Authorization_Access
begin

text \<open>
  The round trip of a policy through its snapshot (\<open>internal/authorization/snapshot.go\<close>).
\<close>

section \<open>Storable policies\<close>

context keyed_table
begin

text \<open>Storing the entries of a table under their keys into an empty table rebuilds it.\<close>

lemma rebuild:
  assumes "\<And>k v. get k s = Some v \<longleftrightarrow> v \<in> set vs \<and> key v = k" and "distinct (map key vs)"
    and "\<And>k. get k s0 = None"
  shows "get k (fold (\<lambda>v. put (key v) v) vs s0) = get k s"
proof (cases "get k s")
  case None
  then have "k \<notin> key ` set vs" using assms(1) [of k] by auto
  then show ?thesis using get_puts [of k key vs "\<lambda>v. v" s0] None assms(3) by simp
next
  case (Some v)
  then have "v \<in> set vs" "key v = k" using assms(1) by auto
  then show ?thesis using get_puts_distinct [OF assms(2), of v "\<lambda>v. v" s0] Some by simp
qed

end

definition member_id :: "member \<Rightarrow> string" where
  "member_id m = member_key (mb_tenant m) (mb_principal m)"

definition member_storable :: "string \<times> member \<Rightarrow> bool" where
  "member_storable km \<longleftrightarrow> fst km = member_id (snd km) \<and> mb_tenant (snd km) \<noteq> []
     \<and> mb_principal (snd km) \<noteq> [] \<and> validRole (mb_role (snd km))"

definition invitation_storable :: "string \<times> invitation \<Rightarrow> bool" where
  "invitation_storable ki \<longleftrightarrow> fst ki = iv_id (snd ki) \<and> iv_id (snd ki) \<noteq> [] \<and> iv_tenant (snd ki) \<noteq> []
     \<and> iv_principal (snd ki) \<noteq> [] \<and> validRole (iv_role (snd ki))"

definition session_storable :: "string \<times> session \<Rightarrow> bool" where
  "session_storable ks \<longleftrightarrow> fst ks = se_id (snd ks) \<and> se_id (snd ks) \<noteq> [] \<and> se_tenant (snd ks) \<noteq> []
     \<and> se_principal (snd ks) \<noteq> []
     \<and> (if se_emergency (snd ks) = 0 then se_emergency_reason (snd ks) = []
        else se_emergency_reason (snd ks) \<noteq> [] \<and> se_emergency (snd ks) \<le> se_expires (snd ks))"

text \<open>A policy is stored faithfully when its keys are distinct and each entry is storable under its key.\<close>

definition storable :: "policy \<Rightarrow> bool" where
  "storable p \<longleftrightarrow>
     distinct (map fst (po_members p)) \<and> list_all member_storable (po_members p)
   \<and> distinct (map fst (po_invitations p)) \<and> list_all invitation_storable (po_invitations p)
   \<and> distinct (map fst (po_sessions p)) \<and> list_all session_storable (po_sessions p)"

lemma list_all_update:
  "list_all P t \<Longrightarrow> P (k, v) \<Longrightarrow> list_all P (AList.update k v t)"
  by (induction t) auto

lemma storable_puts:
  "storable p \<Longrightarrow> member_storable (k, m) \<Longrightarrow> storable (put_member k m p)"
  "storable p \<Longrightarrow> invitation_storable (k, i) \<Longrightarrow> storable (put_invitation k i p)"
  "storable p \<Longrightarrow> session_storable (k, s) \<Longrightarrow> storable (put_session k s p)"
  by (simp_all add: storable_def put_member_def put_invitation_def put_session_def list_all_update
      distinct_update)

lemma storable_append [simp]: "storable (appendDecisionLocked H fmt d p) = storable p"
  by (simp add: storable_def appendDecisionLocked_def Let_def)

lemma storableD:
  "storable p \<Longrightarrow> get_member k p = Some m \<Longrightarrow> member_storable (k, m)"
  "storable p \<Longrightarrow> get_invitation k p = Some i \<Longrightarrow> invitation_storable (k, i)"
  "storable p \<Longrightarrow> get_session k p = Some s \<Longrightarrow> session_storable (k, s)"
  by (auto simp: storable_def get_member_def get_invitation_def get_session_def list_all_iff
      dest: map_of_SomeD)

text \<open>
  The environment of the storable runs: registered sessions carry no emergency access of their own,
  and the clock is past the zero instant when emergency access is granted.
\<close>

fun op_storable :: "auth_op \<Rightarrow> bool" where
  "op_storable (AuthRegister now s) = (se_emergency s = 0 \<and> se_emergency_reason s = [])"
| "op_storable (AuthGrant now actor ident reason until) = (0 \<le> now)"
| "op_storable _ = True"

lemma TrimSpace_Nil [simp]: "TrimSpace [] = []"
  by code_simp

lemma validProvisionText_ne: "validProvisionText v \<Longrightarrow> v \<noteq> []"
  by (auto simp: validProvisionText_def Let_def)

lemma storable_accept:
  assumes "storable p"
  shows "storable (fst (acceptInvitationLocked now ident t u p))"
proof (cases "get_invitation ident p")
  case (Some i)
  then have "invitation_storable (ident, i)" using storableD(2) assms by blast
  then show ?thesis
    using Some assms
    by (auto simp: acceptInvitationLocked_def invitation_storable_def member_storable_def member_id_def
        zero_member_def intro!: storable_puts)
qed (use assms in \<open>simp add: acceptInvitationLocked_def\<close>)

lemma storable_session_update:
  assumes "storable p" and "get_session ident p = Some s"
    and "se_id s' = se_id s" and "se_tenant s' = se_tenant s" and "se_principal s' = se_principal s"
    and "if se_emergency s' = 0 then se_emergency_reason s' = []
      else se_emergency_reason s' \<noteq> [] \<and> se_emergency s' \<le> se_expires s'"
  shows "storable (put_session ident s' p)"
  using storableD(3) [OF assms(1,2)] assms by (intro storable_puts) (simp_all add: session_storable_def)

lemma storable_step:
  assumes "storable p" and "op_storable x"
  shows "storable (auth_step H fmt redact x p)"
proof (cases x)
  case (AuthInvite now i)
  then show ?thesis using assms by (auto simp: Invite_def invitation_storable_def intro!: storable_puts)
next
  case (AuthRegister now s)
  then show ?thesis using assms
    by (auto simp: RegisterSession_def session_storable_def intro!: storable_puts)
next
  case (AuthRevokeSession ident)
  then show ?thesis using assms storableD(3) [OF assms(1), of ident]
    by (auto simp: RevokeSession_def session_storable_def intro!: storable_session_update split: option.splits)
next
  case (AuthElevate now ident until)
  then show ?thesis using assms storableD(3) [OF assms(1), of ident]
    by (auto simp: ElevateSession_def session_storable_def intro!: storable_session_update split: option.splits)
next
  case (AuthGrant now actor ident reason until)
  then show ?thesis using assms
    by (auto simp: grant_emergency_def Let_def intro!: storable_session_update split: option.splits)
next
  case (AuthUngrant now actor ident)
  then show ?thesis using assms
    by (auto simp: revoke_emergency_def intro!: storable_session_update split: option.splits)
next
  case (AuthRevokeMember t u)
  then show ?thesis using assms storableD(1) [OF assms(1), of "member_key t u"]
    by (auto simp: RevokeMember_def member_storable_def member_id_def intro!: storable_puts split: option.splits)
next
  case (AuthUpdateRole t u r)
  then show ?thesis using assms storableD(1) [OF assms(1), of "member_key t u"]
    by (auto simp: UpdateMemberRole_def member_storable_def member_id_def intro!: storable_puts split: option.splits)
next
  case (AuthProvision now t actor u ext disp r active expected)
  then show ?thesis using assms
    by (simp add: provisionMember_def Let_def member_storable_def member_id_def storable_puts
        validProvisionText_ne split: option.split)
qed (use assms in \<open>simp_all add: AcceptInvitation_def AcceptInvitationFor_def storable_accept
      Authorize_def Let_def\<close>)

lemma storable_run:
  "storable p \<Longrightarrow> list_all op_storable ops \<Longrightarrow> storable (fold (auth_step H fmt redact) ops p)"
  by (induction ops arbitrary: p) (simp_all add: storable_step)

lemma load_members_fold:
  "list_all (\<lambda>m. member_storable (member_id m, m)) ms \<Longrightarrow> distinct (map member_id ms) \<Longrightarrow>
     (\<And>m. m \<in> set ms \<Longrightarrow> get_member (member_id m) p = None) \<Longrightarrow>
     load_members ms p = Inr (fold (\<lambda>m. put_member (member_id m) m) ms p)"
proof (induction ms arbitrary: p)
  case (Cons m ms)
  have "get_member (member_id x) (put_member (member_id m) m p) = None" if "x \<in> set ms" for x
    using that Cons.prems(2) Cons.prems(3) [of x] by (auto, metis imageI)
  then show ?case
    using Cons.prems Cons.IH [of "put_member (member_id m) m p"]
    by (simp add: member_storable_def member_id_def)
qed simp

lemma load_invitations_fold:
  "list_all (\<lambda>i. invitation_storable (iv_id i, i)) ivs \<Longrightarrow> distinct (map iv_id ivs) \<Longrightarrow>
     (\<And>i. i \<in> set ivs \<Longrightarrow> get_invitation (iv_id i) p = None) \<Longrightarrow>
     load_invitations ivs p = Inr (fold (\<lambda>i. put_invitation (iv_id i) i) ivs p)"
proof (induction ivs arbitrary: p)
  case (Cons i ivs)
  have "get_invitation (iv_id x) (put_invitation (iv_id i) i p) = None" if "x \<in> set ivs" for x
    using that Cons.prems(2) Cons.prems(3) [of x] by (auto, metis imageI)
  then show ?case
    using Cons.prems Cons.IH [of "put_invitation (iv_id i) i p"]
    by (simp add: invitation_storable_def)
qed simp

lemma load_sessions_fold:
  "list_all (\<lambda>s. session_storable (se_id s, s)) ss \<Longrightarrow> distinct (map se_id ss) \<Longrightarrow>
     (\<And>s. s \<in> set ss \<Longrightarrow> get_session (se_id s) p = None) \<Longrightarrow>
     load_sessions ss p = Inr (fold (\<lambda>s. put_session (se_id s) s) ss p)"
proof (induction ss arbitrary: p)
  case (Cons s ss)
  have "get_session (se_id x) (put_session (se_id s) s p) = None" if "x \<in> set ss" for x
    using that Cons.prems(2) Cons.prems(3) [of x] by (auto, metis imageI)
  moreover have "\<not> ((se_emergency s \<noteq> 0 \<and> (se_emergency_reason s = [] \<or> se_emergency s > se_expires s))
           \<or> (se_emergency s = 0 \<and> se_emergency_reason s \<noteq> []))"
    using Cons.prems(1) by (simp add: session_storable_def split: if_splits)
  ultimately show ?case
    using Cons.prems Cons.IH [of "put_session (se_id s) s p"]
    by (simp add: session_storable_def)
qed simp

section \<open>The round trip\<close>

lemma frames_puts [simp]:
  "get_member k (fold (\<lambda>i. put_invitation (iv_id i) i) ivs p) = get_member k p"
  "get_session k (fold (\<lambda>i. put_invitation (iv_id i) i) ivs p) = get_session k p"
  by (induction ivs arbitrary: p) simp_all

lemma frames_puts_sessions [simp]:
  "get_member k (fold (\<lambda>s. put_session (se_id s) s) ss p) = get_member k p"
  "get_invitation k (fold (\<lambda>s. put_session (se_id s) s) ss p) = get_invitation k p"
  by (induction ss arbitrary: p) simp_all

lemma frames_puts_members [simp]:
  "get_invitation k (fold (\<lambda>m. put_member (member_id m) m) ms p) = get_invitation k p"
  "get_session k (fold (\<lambda>m. put_member (member_id m) m) ms p) = get_session k p"
  by (induction ms arbitrary: p) simp_all

lemma table_values:
  assumes "distinct (map fst t)" and "list_all (\<lambda>kv. fst kv = key (snd kv)) t"
  shows "map_of t k = Some v \<longleftrightarrow> v \<in> set (sort_key f (map snd t)) \<and> key v = k"
    and "distinct (map key (sort_key f (map snd t)))"
proof -
  show "map_of t k = Some v \<longleftrightarrow> v \<in> set (sort_key f (map snd t)) \<and> key v = k"
    using assms by (force simp: map_of_eq_Some_iff list_all_iff)
  have "map key (map snd t) = map fst t"
    using assms(2) by (simp add: list_all_iff)
  then have "distinct (map key (map snd t))" using assms(1) by (simp only:)
  then show "distinct (map key (sort_key f (map snd t)))"
    by (simp only: distinct_map distinct_sort set_sort)
qed

lemma storable_new:
  assumes "list_all (\<lambda>m. member_storable (member_id m, m)) ms"
  shows "storable (NewPolicy ms)"
proof -
  have "storable (fold (\<lambda>m. put_member (member_id m) m) ms p)" if "storable p" for p
    using assms that by (induction ms arbitrary: p) (simp_all add: storable_puts)
  moreover have "storable empty_policy" by (simp add: storable_def empty_policy_def)
  ultimately show ?thesis by (simp add: NewPolicy_def member_id_def)
qed

text \<open>The policy without its decisions that the entries of a snapshot rebuild.\<close>

definition rebuilt :: "policy \<Rightarrow> policy" where
  "rebuilt p =
     fold (\<lambda>s. put_session (se_id s) s) (sn_sessions (auth_Snapshot p))
       (fold (\<lambda>i. put_invitation (iv_id i) i) (sn_invitations (auth_Snapshot p))
         (fold (\<lambda>m. put_member (member_id m) m) (sn_members (auth_Snapshot p)) empty_policy))"

lemma snapshot_tables:
  assumes "storable p"
  shows "get_member k p = Some m \<longleftrightarrow> m \<in> set (sn_members (auth_Snapshot p)) \<and> member_id m = k"
    and "get_invitation k p = Some i \<longleftrightarrow> i \<in> set (sn_invitations (auth_Snapshot p)) \<and> iv_id i = k"
    and "get_session k p = Some s \<longleftrightarrow> s \<in> set (sn_sessions (auth_Snapshot p)) \<and> se_id s = k"
    and "distinct (map member_id (sn_members (auth_Snapshot p)))"
    and "distinct (map iv_id (sn_invitations (auth_Snapshot p)))"
    and "distinct (map se_id (sn_sessions (auth_Snapshot p)))"
proof -
  have keys: "list_all (\<lambda>kv. fst kv = member_id (snd kv)) (po_members p)"
    "list_all (\<lambda>kv. fst kv = iv_id (snd kv)) (po_invitations p)"
    "list_all (\<lambda>kv. fst kv = se_id (snd kv)) (po_sessions p)"
    using assms unfolding storable_def
    by (auto simp: list_all_iff member_storable_def invitation_storable_def session_storable_def)
  note d = assms [unfolded storable_def]
  show "get_member k p = Some m \<longleftrightarrow> m \<in> set (sn_members (auth_Snapshot p)) \<and> member_id m = k"
    "distinct (map member_id (sn_members (auth_Snapshot p)))"
    unfolding get_member_def auth_Snapshot_def auth_snapshot.simps
    using d by (auto intro!: table_values keys(1) simp only:)
  show "get_invitation k p = Some i \<longleftrightarrow> i \<in> set (sn_invitations (auth_Snapshot p)) \<and> iv_id i = k"
    "distinct (map iv_id (sn_invitations (auth_Snapshot p)))"
    unfolding get_invitation_def auth_Snapshot_def auth_snapshot.simps
    using d by (auto intro!: table_values keys(2) simp only:)
  show "get_session k p = Some s \<longleftrightarrow> s \<in> set (sn_sessions (auth_Snapshot p)) \<and> se_id s = k"
    "distinct (map se_id (sn_sessions (auth_Snapshot p)))"
    unfolding get_session_def auth_Snapshot_def auth_snapshot.simps
    using d by (auto intro!: table_values keys(3) simp only:)
qed

lemma rebuilt_same:
  assumes "storable p"
  shows "get_member k (rebuilt p) = get_member k p" and "get_invitation k (rebuilt p) = get_invitation k p"
    and "get_session k (rebuilt p) = get_session k p"
proof -
  note tables = snapshot_tables [OF assms]
  show "get_member k (rebuilt p) = get_member k p"
    unfolding rebuilt_def by simp (rule members.rebuild [OF tables(1) tables(4)], simp)
  show "get_invitation k (rebuilt p) = get_invitation k p"
    unfolding rebuilt_def by simp (rule invitations.rebuild [OF tables(2) tables(5)], simp)
  show "get_session k (rebuilt p) = get_session k p"
    unfolding rebuilt_def by (rule sessions.rebuild [OF tables(3) tables(6)]) simp
qed

lemma snapshot_loads:
  assumes "storable p" and "log_ok H fmt p"
  shows "NewPolicyFromSnapshot H fmt (auth_Snapshot p) = Inr ((rebuilt p)\<lparr>po_decisions := po_decisions p\<rparr>)"
proof -
  let ?sn = "auth_Snapshot p"
  note tables = snapshot_tables [OF assms(1)]
  have "list_all (\<lambda>m. member_storable (member_id m, m)) (sn_members ?sn)"
    "list_all (\<lambda>i. invitation_storable (iv_id i, i)) (sn_invitations ?sn)"
    "list_all (\<lambda>s. session_storable (se_id s, s)) (sn_sessions ?sn)"
    using storableD [OF assms(1)] tables(1-3) by (auto simp: list_all_iff)
  note loads = load_members_fold [OF this(1) tables(4)] load_invitations_fold [OF this(2) tables(5)]
    load_sessions_fold [OF this(3) tables(6)]
  have "VerifyDecisions H fmt (sn_decisions ?sn) = None" "sn_decisions ?sn = po_decisions p"
    using assms(2) by (simp_all add: log_ok_def auth_Snapshot_def)
  then show ?thesis
    by (simp add: NewPolicyFromSnapshot_def loads rebuilt_def NewPolicy_def)
qed

text \<open>A snapshot round trip loses nothing: after any operations that register sessions without emergency
  access of their own, from a policy of valid members, the snapshot loads, and the loaded policy has
  the same member, invitation and session under every key and the same decisions.\<close>

theorem snapshot_roundtrip:
  fixes H fmt redact and ops :: "auth_op list" and ms :: "member list" and p :: policy
  assumes "list_all (\<lambda>m. member_storable (member_id m, m)) ms" and "list_all op_storable ops"
  defines "p \<equiv> fold (auth_step H fmt redact) ops (NewPolicy ms)"
  shows "\<exists>q. NewPolicyFromSnapshot H fmt (auth_Snapshot p) = Inr q
     \<and> (\<forall>k. get_member k q = get_member k p \<and> get_invitation k q = get_invitation k p
          \<and> get_session k q = get_session k p)
     \<and> po_decisions q = po_decisions p"
proof -
  have ok: "storable p" unfolding p_def using assms(1,2) by (intro storable_run storable_new)
  have "log_ok H fmt p" unfolding p_def
    by (rule auth_log.inv_run) (simp add: log_ok_def VerifyDecisions_def)
  note loads = snapshot_loads [OF ok this]
  show ?thesis unfolding loads using rebuilt_same [OF ok] by simp
qed

lemma snapshot_roundtrip_witness:
  "\<exists>q. NewPolicyFromSnapshot (\<lambda>s. s) (\<lambda>t. []) (auth_Snapshot
       (fold (auth_step (\<lambda>s. s) (\<lambda>t. []) (\<lambda>s. s)) [AuthRevokeSession ''s'']
         (NewPolicy [zero_member\<lparr>mb_tenant := ''t'', mb_principal := ''u'', mb_role := RoleOwner\<rparr>]))) = Inr q"
  using snapshot_roundtrip [of "[zero_member\<lparr>mb_tenant := ''t'', mb_principal := ''u'', mb_role := RoleOwner\<rparr>]"
      "[AuthRevokeSession ''s'']" "\<lambda>s. s" "\<lambda>t. []" "\<lambda>s. s"]
  by (auto simp: member_storable_def validRole_def)

text \<open>Registration keeps the emergency fields its caller fills in, so a session registered with an emergency
  deadline and no reason gives a policy whose own snapshot is refused.\<close>

theorem snapshot_refused:
  fixes H fmt and p :: policy
  defines "p \<equiv> fst (RegisterSession 1 \<lparr>se_id = ''s'', se_tenant = ''t'', se_principal = ''u'',
      se_expires = 9, se_step_up = 0, se_emergency = 5, se_emergency_reason = [], se_revoked = False\<rparr>
      (NewPolicy []))"
  shows "NewPolicyFromSnapshot H fmt (auth_Snapshot p) = Inl ErrEmergencyAccessInvalid"
  by (simp add: p_def RegisterSession_def NewPolicy_def empty_policy_def put_session_def auth_Snapshot_def
      NewPolicyFromSnapshot_def VerifyDecisions_def)

end
