(* ===== verification/Collaboration.thy ===== *)
theory Collaboration
  imports Go_Json "HOL-Library.AList" "HOL-Library.Word" "HOL-Library.List_Lexorder"
    "HOL-Library.Char_ord"
begin

text \<open>
  The coordination of agents (\<open>internal/collaboration/board.go\<close>, \<open>mailbox.go\<close>): a task board and a
  mailbox. Each keeps its whole state in one JSON file that every operation reads and, if it changes
  anything, replaces, under a file lock; so any number of values in any number of processes share
  it, an operation is one step on the file, and the only state is the file.
\<close>

section \<open>The shared file\<close>

text \<open>
  What the environment decides for one operation: its context, whether the lock is acquired, whether
  an existing file can be read and the new one be written, and the instant the clock shows.
\<close>

record file_env =
  fe_ctx :: ctx
  fe_lock :: "string option"
  fe_read :: "string option"
  fe_write :: "string option"
  fe_now :: instant

datatype 'a stored_file = FileAbsent | FileCorrupt | FileHolds 'a

datatype collab_error =
    CollabCtx ctx_error | LockFailed string | FileReadFailed string | FileDecodeFailed
  | FileWriteFailed string | DirectoryRequired | MkdirFailed string
  | TaskIdRequired | BoardFull | TaskExists | InvalidTransition | TaskNotFound | NotInterrupted
  | MessageIncomplete | BodyTooLong | MailboxFull | RandomFailed string | MakesliceOutOfRange

text \<open>\<open>clean\<close> is what writing the content as JSON and reading it back yields.\<close>

definition read_file :: "file_env \<Rightarrow> 'a \<Rightarrow> 'a stored_file \<Rightarrow> collab_error + 'a" where
  "read_file env initial file =
     (case file of FileAbsent \<Rightarrow> Inr initial
      | _ \<Rightarrow>
        (case fe_read env of Some e \<Rightarrow> Inl (FileReadFailed e)
         | None \<Rightarrow> (case file of FileHolds x \<Rightarrow> Inr x | _ \<Rightarrow> Inl FileDecodeFailed)))"

definition write_file ::
    "('a \<Rightarrow> 'a) \<Rightarrow> file_env \<Rightarrow> 'a \<Rightarrow> 'a stored_file \<Rightarrow> 'a stored_file \<times> collab_error option" where
  "write_file clean env x file =
     (case fe_write env of Some e \<Rightarrow> (file, Some (FileWriteFailed e))
      | None \<Rightarrow> (FileHolds (clean x), None))"

text \<open>The lock and the read that every operation begins with.\<close>

definition locked_read :: "file_env \<Rightarrow> 'a \<Rightarrow> 'a stored_file \<Rightarrow> collab_error + 'a" where
  "locked_read env initial file =
     (case fe_lock env of Some e \<Rightarrow> Inl (LockFailed e) | None \<Rightarrow> read_file env initial file)"

section \<open>The task board\<close>

datatype task_status =
    TaskPending | TaskRunning | TaskCompleted | TaskFailed | TaskCancelled | TaskOther string

record task =
  tk_id :: string
  tk_agent :: string
  tk_description :: string
  tk_status :: task_status
  tk_error :: string
  tk_created :: instant
  tk_updated :: instant

type_synonym board_file = "task list stored_file"

definition json_status :: "task_status \<Rightarrow> task_status" where
  "json_status s = (case s of TaskOther t \<Rightarrow> TaskOther (json_text t) | _ \<Rightarrow> s)"

definition json_task :: "task \<Rightarrow> task" where
  "json_task t =
     t\<lparr>tk_id := json_text (tk_id t), tk_agent := json_text (tk_agent t),
       tk_description := json_text (tk_description t), tk_status := json_status (tk_status t),
       tk_error := json_text (tk_error t)\<rparr>"

definition board_read :: "file_env \<Rightarrow> board_file \<Rightarrow> collab_error + task list" where
  "board_read env file = locked_read env [] file"

definition board_write ::
    "file_env \<Rightarrow> task list \<Rightarrow> board_file \<Rightarrow> board_file \<times> collab_error option" where
  "board_write env tasks file = write_file (map json_task) env tasks file"

definition interrupted :: string where
  "interrupted = ''interrupted by process restart''"

text \<open>\<open>nows\<close> are the instants at which the tasks are marked.\<close>

fun recover_from :: "(nat \<Rightarrow> instant) \<Rightarrow> nat \<Rightarrow> task list \<Rightarrow> task list" where
  "recover_from nows i [] = []"
| "recover_from nows i (t # ts) =
     (if tk_status t = TaskRunning
      then t\<lparr>tk_status := TaskFailed, tk_error := interrupted, tk_updated := nows i\<rparr>
      else t) # recover_from nows (Suc i) ts"

text \<open>The board that is opened is the number of tasks it allows.\<close>

definition NewBoard ::
    "file_env \<Rightarrow> string option \<Rightarrow> (nat \<Rightarrow> instant) \<Rightarrow> string \<Rightarrow> int \<Rightarrow> board_file
     \<Rightarrow> board_file \<times> (collab_error + int)" where
  "NewBoard env mkdir nows directory max0 file =
     (if TrimSpace directory = [] then (file, Inl DirectoryRequired)
      else
        (let maxTasks = (if max0 \<le> 0 then 4096 else max0)
         in (case mkdir of Some e \<Rightarrow> (file, Inl (MkdirFailed e))
             | None \<Rightarrow>
               (case board_read env file of
                  Inl e \<Rightarrow> (file, Inl e)
                | Inr tasks \<Rightarrow>
                    if list_ex (\<lambda>t. tk_status t = TaskRunning) tasks
                    then (case board_write env (recover_from nows 0 tasks) file of
                        (file', Some e) \<Rightarrow> (file', Inl e)
                      | (file', None) \<Rightarrow> (file', Inr maxTasks))
                    else (file, Inr maxTasks)))))"

definition board_Create ::
    "file_env \<Rightarrow> int \<Rightarrow> task \<Rightarrow> board_file \<Rightarrow> board_file \<times> collab_error option" where
  "board_Create env maxTasks task0 file =
     (case fe_ctx env of Some e \<Rightarrow> (file, Some (CollabCtx e))
      | None \<Rightarrow>
        (let task1 = task0\<lparr>tk_id := TrimSpace (tk_id task0)\<rparr>
         in if tk_id task1 = [] then (file, Some TaskIdRequired)
            else (case board_read env file of
                Inl e \<Rightarrow> (file, Some e)
              | Inr tasks \<Rightarrow>
                  if int (length tasks) \<ge> maxTasks then (file, Some BoardFull)
                  else if list_ex (\<lambda>t. tk_id t = tk_id task1) tasks then (file, Some TaskExists)
                  else board_write env
                    (tasks @ [task1\<lparr>tk_status := TaskPending, tk_created := fe_now env,
                                    tk_updated := fe_now env\<rparr>]) file)))"

definition validTaskTransition :: "task_status \<Rightarrow> task_status \<Rightarrow> bool" where
  "validTaskTransition before after =
     (if before = TaskPending then after = TaskRunning \<or> after = TaskCancelled
      else if before = TaskRunning
      then after = TaskCompleted \<or> after = TaskFailed \<or> after = TaskCancelled
      else False)"

text \<open>The first task with the identifier decides; \<open>update\<close> is what the loop does with it.\<close>

definition on_task ::
    "file_env \<Rightarrow> string \<Rightarrow> (task \<Rightarrow> collab_error + task option) \<Rightarrow> board_file
     \<Rightarrow> board_file \<times> collab_error option" where
  "on_task env ident update file =
     (case fe_ctx env of Some e \<Rightarrow> (file, Some (CollabCtx e))
      | None \<Rightarrow>
        (case board_read env file of
           Inl e \<Rightarrow> (file, Some e)
         | Inr tasks \<Rightarrow>
           (case index_of (\<lambda>t. tk_id t = ident) tasks of
              None \<Rightarrow> (file, Some TaskNotFound)
            | Some index \<Rightarrow>
              (case update (tasks ! index) of
                 Inl e \<Rightarrow> (file, Some e)
               | Inr None \<Rightarrow> (file, None)
               | Inr (Some t) \<Rightarrow> board_write env (tasks[index := t]) file))))"

definition transition_task ::
    "instant \<Rightarrow> task_status \<Rightarrow> string \<Rightarrow> task \<Rightarrow> collab_error + task option" where
  "transition_task now status message t =
     (if tk_status t = status then Inr None
      else if \<not> validTaskTransition (tk_status t) status then Inl InvalidTransition
      else Inr (Some (t\<lparr>tk_status := status, tk_error := message, tk_updated := now\<rparr>)))"

definition board_Transition ::
    "file_env \<Rightarrow> string \<Rightarrow> task_status \<Rightarrow> string \<Rightarrow> board_file \<Rightarrow> board_file \<times> collab_error option" where
  "board_Transition env ident status message file =
     on_task env ident (transition_task (fe_now env) status message) file"

definition retry_task :: "instant \<Rightarrow> task \<Rightarrow> collab_error + task option" where
  "retry_task now t =
     (if tk_status t \<noteq> TaskFailed \<or> tk_error t \<noteq> interrupted then Inl NotInterrupted
      else Inr (Some (t\<lparr>tk_status := TaskPending, tk_error := [], tk_updated := now\<rparr>)))"

definition RetryInterrupted ::
    "file_env \<Rightarrow> string \<Rightarrow> board_file \<Rightarrow> board_file \<times> collab_error option" where
  "RetryInterrupted env ident file = on_task env ident (retry_task (fe_now env)) file"

definition board_Get :: "file_env \<Rightarrow> string \<Rightarrow> board_file \<Rightarrow> collab_error + task option" where
  "board_Get env ident file =
     (case fe_ctx env of Some e \<Rightarrow> Inl (CollabCtx e)
      | None \<Rightarrow>
        (case board_read env file of
           Inl e \<Rightarrow> Inl e
         | Inr tasks \<Rightarrow> Inr (find (\<lambda>t. tk_id t = ident) tasks)))"

text \<open>\<open>sort.Slice\<close> leaves the order of tasks created at the same instant open; this is one such order.\<close>

definition board_List :: "file_env \<Rightarrow> board_file \<Rightarrow> collab_error + task list" where
  "board_List env file =
     (case fe_ctx env of Some e \<Rightarrow> Inl (CollabCtx e)
      | None \<Rightarrow>
        (case board_read env file of
           Inl e \<Rightarrow> Inl e
         | Inr tasks \<Rightarrow> Inr (sort_key tk_created tasks)))"

text \<open>The operations that can change the file, by any board on it.\<close>

datatype board_op =
    BoardOpen file_env "string option" "nat \<Rightarrow> instant" string int
  | BoardCreate file_env int task
  | BoardTransition file_env string task_status string
  | BoardRetry file_env string

fun board_step :: "board_op \<Rightarrow> board_file \<Rightarrow> board_file" where
  "board_step (BoardOpen env mkdir nows directory max0) file = fst (NewBoard env mkdir nows directory max0 file)"
| "board_step (BoardCreate env maxTasks t) file = fst (board_Create env maxTasks t file)"
| "board_step (BoardTransition env ident status message) file =
     fst (board_Transition env ident status message file)"
| "board_step (BoardRetry env ident) file = fst (RetryInterrupted env ident file)"

section \<open>The mailbox\<close>

record message =
  ms_id :: string
  ms_sequence :: "64 word"
  ms_from :: string
  ms_to :: string
  ms_body :: string
  ms_created :: instant

record mailbox_state =
  mx_messages :: "message list"
  mx_acks :: "(string \<times> 64 word) list"

type_synonym mailbox_file = "mailbox_state stored_file"

record mailbox =
  mx_max_messages :: int
  mx_max_body :: int

definition NewMailbox :: "string option \<Rightarrow> string \<Rightarrow> int \<Rightarrow> int \<Rightarrow> collab_error + mailbox" where
  "NewMailbox mkdir directory maxMessages maxBodyBytes =
     (if TrimSpace directory = [] then Inl DirectoryRequired
      else (case mkdir of Some e \<Rightarrow> Inl (MkdirFailed e)
          | None \<Rightarrow>
              Inr \<lparr>mx_max_messages = (if maxMessages \<le> 0 then 4096 else maxMessages),
                   mx_max_body = (if maxBodyBytes \<le> 0 then 65536 else maxBodyBytes)\<rparr>))"

definition json_message :: "message \<Rightarrow> message" where
  "json_message m =
     m\<lparr>ms_id := json_text (ms_id m), ms_from := json_text (ms_from m), ms_to := json_text (ms_to m),
       ms_body := json_text (ms_body m)\<rparr>"

text \<open>The keys of a map are written in their order; when two become the same, the later one is kept.\<close>

definition json_acks :: "(string \<times> 64 word) list \<Rightarrow> (string \<times> 64 word) list" where
  "json_acks acks = fold (\<lambda>(k, v). AList.update (json_text k) v) (sort_key fst acks) []"

definition json_mailbox :: "mailbox_state \<Rightarrow> mailbox_state" where
  "json_mailbox st = \<lparr>mx_messages = map json_message (mx_messages st), mx_acks = json_acks (mx_acks st)\<rparr>"

definition empty_mailbox :: mailbox_state where
  "empty_mailbox = \<lparr>mx_messages = [], mx_acks = []\<rparr>"

definition mailbox_read :: "file_env \<Rightarrow> mailbox_file \<Rightarrow> collab_error + mailbox_state" where
  "mailbox_read env file = locked_read env empty_mailbox file"

definition mailbox_write ::
    "file_env \<Rightarrow> mailbox_state \<Rightarrow> mailbox_file \<Rightarrow> mailbox_file \<times> collab_error option" where
  "mailbox_write env st file = write_file json_mailbox env st file"

definition ack_of :: "mailbox_state \<Rightarrow> string \<Rightarrow> 64 word" where
  "ack_of st recipient = (case map_of (mx_acks st) recipient of None \<Rightarrow> 0 | Some s \<Rightarrow> s)"

definition hex_digit :: "nat \<Rightarrow> char" where
  "hex_digit n = ''0123456789abcdef'' ! n"

definition hex_encode :: "string \<Rightarrow> string" where
  "hex_encode bytes =
     concat (map (\<lambda>c. [hex_digit (of_char c div 16), hex_digit (of_char c mod 16)]) bytes)"

text \<open>\<open>random\<close> are the eight random bytes, or the error of the generator.\<close>

definition mailbox_Send ::
    "file_env \<Rightarrow> string + string \<Rightarrow> mailbox \<Rightarrow> message \<Rightarrow> mailbox_file
     \<Rightarrow> mailbox_file \<times> (collab_error + message)" where
  "mailbox_Send env random box m0 file =
     (case fe_ctx env of Some e \<Rightarrow> (file, Inl (CollabCtx e))
      | None \<Rightarrow>
        (let m1 = m0\<lparr>ms_from := TrimSpace (ms_from m0), ms_to := TrimSpace (ms_to m0),
                     ms_body := TrimSpace (ms_body m0)\<rparr>
         in if ms_from m1 = [] \<or> ms_to m1 = [] \<or> ms_body m1 = [] then (file, Inl MessageIncomplete)
            else if int (length (ms_body m1)) > mx_max_body box then (file, Inl BodyTooLong)
            else (case mailbox_read env file of
                Inl e \<Rightarrow> (file, Inl e)
              | Inr st \<Rightarrow>
                  if int (length (mx_messages st)) \<ge> mx_max_messages box then (file, Inl MailboxFull)
                  else (case random of
                      Inl e \<Rightarrow> (file, Inl (RandomFailed e))
                    | Inr bytes \<Rightarrow>
                      (let m = m1\<lparr>ms_id := ''msg-'' @ hex_encode bytes,
                                  ms_sequence := word_of_nat (length (mx_messages st) + 1),
                                  ms_created := fe_now env\<rparr>
                       in (case mailbox_write env (st\<lparr>mx_messages := mx_messages st @ [m]\<rparr>) file of
                             (file', Some e) \<Rightarrow> (file', Inl e)
                           | (file', None) \<Rightarrow> (file', Inr m)))))))"

definition poll_limit :: "int \<Rightarrow> int" where
  "poll_limit limit = (if limit \<le> 0 then 100 else limit)"

text \<open>\<open>make([]Message, 0, limit)\<close> panics for more than the addressable memory, 2^48 bytes on 64-bit Linux,
  and a message has 96 bytes; the deferred calls release the locks. That the memory at hand suffices for
  smaller limits is taken for granted.\<close>

definition max_poll_limit :: int where
  "max_poll_limit = 2 ^ 48 div 96"

definition mailbox_Poll ::
    "file_env \<Rightarrow> string \<Rightarrow> 64 word \<Rightarrow> int \<Rightarrow> mailbox_file \<Rightarrow> collab_error + message list" where
  "mailbox_Poll env recipient after limit file =
     (case fe_ctx env of Some e \<Rightarrow> Inl (CollabCtx e)
      | None \<Rightarrow>
        (case mailbox_read env file of
           Inl e \<Rightarrow> Inl e
         | Inr st \<Rightarrow>
             if poll_limit limit > max_poll_limit then Inl MakesliceOutOfRange
             else Inr (take (nat (poll_limit limit))
               (filter (\<lambda>m. ms_to m = recipient \<and> ms_sequence m > after
                          \<and> ms_sequence m > ack_of st recipient) (mx_messages st)))))"

definition mailbox_Ack ::
    "file_env \<Rightarrow> string \<Rightarrow> 64 word \<Rightarrow> mailbox_file \<Rightarrow> mailbox_file \<times> collab_error option" where
  "mailbox_Ack env recipient sequence file =
     (case fe_ctx env of Some e \<Rightarrow> (file, Some (CollabCtx e))
      | None \<Rightarrow>
        (case mailbox_read env file of
           Inl e \<Rightarrow> (file, Some e)
         | Inr st \<Rightarrow>
             mailbox_write env
               (if sequence > ack_of st recipient
                then st\<lparr>mx_acks := AList.update recipient sequence (mx_acks st)\<rparr> else st) file))"

datatype mailbox_op =
    MailSend file_env "string + string" mailbox message
  | MailAck file_env string "64 word"

fun mailbox_step :: "mailbox_op \<Rightarrow> mailbox_file \<Rightarrow> mailbox_file" where
  "mailbox_step (MailSend env random box m) file = fst (mailbox_Send env random box m file)"
| "mailbox_step (MailAck env recipient sequence) file = fst (mailbox_Ack env recipient sequence file)"

end
