(* ===== verification/Board_Properties.thy ===== *)
theory Board_Properties
  imports Collaboration "HOL-Library.Sublist"
begin

text \<open>
  What the task board guarantees: identifiers stay unique, finished tasks are final, work that a
  restart interrupts can be taken up again; and the cases where a board on the same file, a spoofed
  error or an identifier that is not UTF-8 breaks this.
\<close>

section \<open>Clean text\<close>

lemma json_text_replacement [simp]:
  "json_text ([CHR 0xEF, CHR 0xBF, CHR 0xBD] @ t) = [CHR 0xEF, CHR 0xBF, CHR 0xBD] @ json_text t"
  by (simp add: json_text.simps(2) decode_rune_def within_def)

lemma decode_rune_local:
  assumes "decode_rune (c # r) = Some (v, n)"
  shows "length (take (n - 1) r) = n - 1 \<and> decode_rune (c # take (n - 1) r @ t) = Some (v, n)"
proof (cases rule: decode_rune_cases [OF assms])
  case (2 c' bs r')
  then show ?thesis by simp
qed simp

lemma json_text_idem [simp]: "json_text (json_text s) = json_text s"
proof (induction s rule: json_text.induct)
  case (2 c r)
  show ?case
  proof (cases "decode_rune (c # r)")
    case None
    then show ?thesis using 2(1) by (simp add: json_text.simps(2) [of c r] json_text_replacement [simplified])
  next
    case (Some p)
    obtain v n where p: "p = (v, n)" by (cases p)
    note loc = decode_rune_local [OF Some [unfolded p], of "json_text (drop (n - 1) r)"]
    have "json_text (c # r) = c # take (n - 1) r @ json_text (drop (n - 1) r)"
      using Some p by (simp add: json_text.simps(2))
    moreover have "json_text (c # take (n - 1) r @ json_text (drop (n - 1) r)) =
        c # take (n - 1) r @ json_text (drop (n - 1) r)"
      using loc 2(2) [OF Some p [symmetric]] p by (simp add: json_text.simps(2) del: length_take)
    ultimately show ?thesis by simp
  qed
qed simp

section \<open>Documents\<close>

text \<open>A file that is only written through its JSON form holds contents that JSON leaves as they are.\<close>

locale document =
  fixes clean :: "'a \<Rightarrow> 'a"
    and initial :: 'a
  assumes clean_idem: "clean (clean x) = clean x"
    and clean_initial: "clean initial = initial"
begin

definition clean_file :: "'a stored_file \<Rightarrow> bool" where
  "clean_file doc \<longleftrightarrow> doc = FileAbsent \<or> (\<exists>x. doc = FileHolds x \<and> clean x = x)"

definition contents :: "'a stored_file \<Rightarrow> 'a" where
  "contents doc = (case doc of FileHolds x \<Rightarrow> x | _ \<Rightarrow> initial)"

lemma clean_absent: "clean_file FileAbsent"
  by (simp add: clean_file_def)

lemma contents_absent: "contents FileAbsent = initial"
  by (simp add: contents_def)

lemma contents_holds: "contents (FileHolds x) = x"
  by (simp add: contents_def)

lemma contents_clean: "clean_file doc \<Longrightarrow> clean (contents doc) = contents doc"
  by (auto simp: clean_file_def contents_def clean_initial)

lemma write_clean: "clean_file doc \<Longrightarrow> clean_file (fst (write_file clean env x doc))"
  by (auto simp: write_file_def clean_file_def clean_idem split: option.splits)

lemma write_cases:
  obtains e where "write_file clean env x doc = (doc, Some e)"
  | "write_file clean env x doc = (FileHolds (clean x), None)"
  by (cases "fe_write env") (auto simp: write_file_def)

lemma read_contents: "locked_read env initial doc = Inr x \<Longrightarrow> x = contents doc"
  by (auto simp: locked_read_def read_file_def contents_def split: option.splits stored_file.splits)

lemma read_ok:
  "clean_file doc \<Longrightarrow> fe_lock env = None \<Longrightarrow> fe_read env = None \<Longrightarrow>
     locked_read env initial doc = Inr (contents doc)"
  by (auto simp: locked_read_def read_file_def contents_def clean_file_def)

end

lemma json_task_idem: "json_task (json_task t) = json_task t"
  by (simp add: json_task_def json_status_def split: task_status.splits)

interpretation board: document "map json_task" "[]"
  by unfold_locales (simp_all add: json_task_idem comp_def)

lemmas board_contents_simps [simp] = board.contents_absent board.contents_holds

section \<open>What an operation does to the tasks\<close>

text \<open>
  The life of a task: a valid transition, the recovery of a running task, which is one too, and the
  retry of an interrupted one.
\<close>

definition task_edge :: "task \<Rightarrow> task \<Rightarrow> bool" where
  "task_edge t t' \<longleftrightarrow>
     tk_id t' = tk_id t \<and> tk_agent t' = tk_agent t \<and> tk_description t' = tk_description t
   \<and> tk_created t' = tk_created t
   \<and> (validTaskTransition (tk_status t) (tk_status t')
      \<or> (tk_status t = TaskFailed \<and> tk_error t = interrupted \<and> tk_status t' = TaskPending))"

lemma json_interrupted [simp]: "json_text interrupted = interrupted"
  unfolding interrupted_def by (rule json_text_ascii) simp

lemma json_task_fields [simp]:
  "tk_id (json_task t) = json_text (tk_id t)" "tk_agent (json_task t) = json_text (tk_agent t)"
  "tk_description (json_task t) = json_text (tk_description t)"
  "tk_status (json_task t) = json_status (tk_status t)" "tk_error (json_task t) = json_text (tk_error t)"
  "tk_created (json_task t) = tk_created t" "tk_updated (json_task t) = tk_updated t"
  by (simp_all add: json_task_def)

lemma json_status_simps [simp]:
  "json_status TaskPending = TaskPending" "json_status TaskRunning = TaskRunning"
  "json_status TaskCompleted = TaskCompleted" "json_status TaskFailed = TaskFailed"
  "json_status TaskCancelled = TaskCancelled"
  by (simp_all add: json_status_def)

lemma clean_task_fields:
  assumes "json_task t = t"
  shows "json_text (tk_id t) = tk_id t" and "json_text (tk_agent t) = tk_agent t"
    and "json_text (tk_description t) = tk_description t"
  using assms json_task_fields(1-3) [of t] by simp_all

lemma edge_json:
  assumes "json_task t = t" and "validTaskTransition (tk_status t) s"
  shows "task_edge t (json_task (t\<lparr>tk_status := s, tk_error := e, tk_updated := now\<rparr>))"
  using clean_task_fields [OF assms(1)] assms(2)
  by (auto simp: task_edge_def validTaskTransition_def split: if_splits)

lemma edge_retry:
  assumes "json_task t = t" and "retry_task now t = Inr (Some t')"
  shows "task_edge t (json_task t')"
  using clean_task_fields [OF assms(1)] assms(2)
  by (auto simp: task_edge_def retry_task_def split: if_splits)

lemma recover_from_nth:
  "i < length ts \<Longrightarrow> recover_from nows n ts ! i =
     (if tk_status (ts ! i) = TaskRunning
      then (ts ! i)\<lparr>tk_status := TaskFailed, tk_error := interrupted, tk_updated := nows (n + i)\<rparr>
      else ts ! i)"
  by (induction nows n ts arbitrary: i rule: recover_from.induct) (auto simp: nth_Cons' less_Suc_eq_0_disj)

lemma recover_from_length [simp]: "length (recover_from nows n ts) = length ts"
  by (induction nows n ts rule: recover_from.induct) simp_all

text \<open>Tasks keep their places; each is as before or a step further in its life.\<close>

definition tasks_step :: "task list \<Rightarrow> task list \<Rightarrow> bool" where
  "tasks_step ts ts' \<longleftrightarrow> list_all2 (\<lambda>t t'. t' = t \<or> task_edge t t') ts ts'"

lemma tasks_step_refl [simp]: "tasks_step ts ts"
  by (simp add: tasks_step_def list_all2_refl)

lemma clean_nth: "map json_task ts = ts \<Longrightarrow> i < length ts \<Longrightarrow> json_task (ts ! i) = ts ! i"
  by (metis nth_map)

lemma tasks_step_recover:
  assumes "map json_task ts = ts"
  shows "tasks_step ts (map json_task (recover_from nows 0 ts))"
  unfolding tasks_step_def list_all2_conv_all_nth
  using clean_nth [OF assms] edge_json [of "ts ! i" TaskFailed for i]
  by (auto simp: recover_from_nth validTaskTransition_def)

lemma tasks_step_update:
  assumes "map json_task ts = ts" and "i < length ts" and "task_edge (ts ! i) (json_task t)"
  shows "tasks_step ts (map json_task (ts[i := t]))"
  unfolding tasks_step_def list_all2_conv_all_nth
  using clean_nth [OF assms(1)] assms(2,3) by (auto simp: nth_list_update)

text \<open>What an operation does: nothing, a step of tasks in place, or a new pending task at the end.\<close>

definition new_task :: "file_env \<Rightarrow> task \<Rightarrow> task" where
  "new_task env t = t\<lparr>tk_id := TrimSpace (tk_id t), tk_status := TaskPending, tk_created := fe_now env,
     tk_updated := fe_now env\<rparr>"

lemma NewBoard_cases:
  assumes "board.clean_file doc"
  shows "fst (NewBoard env mkdir nows directory max0 doc) = doc
    \<or> fst (NewBoard env mkdir nows directory max0 doc) =
        FileHolds (map json_task (recover_from nows 0 (board.contents doc)))"
  by (auto simp: NewBoard_def Let_def board_read_def board_write_def write_file_def
      dest!: board.read_contents split: option.splits sum.splits if_splits prod.splits)

lemma Create_cases:
  "board_Create env maxTasks t doc = (doc, snd (board_Create env maxTasks t doc))
     \<and> snd (board_Create env maxTasks t doc) \<noteq> None
   \<or> (int (length (board.contents doc)) < maxTasks
      \<and> list_all (\<lambda>x. tk_id x \<noteq> TrimSpace (tk_id t)) (board.contents doc)
      \<and> board_Create env maxTasks t doc =
          (FileHolds (map json_task (board.contents doc @ [new_task env t])), None))"
  by (auto simp: board_Create_def Let_def board_read_def board_write_def write_file_def new_task_def
      list_ex_iff list_all_iff
      dest!: board.read_contents split: option.splits sum.splits if_splits)

lemma on_task_cases:
  "fst (on_task env ident update doc) = doc
   \<or> (\<exists>i t. index_of (\<lambda>t. tk_id t = ident) (board.contents doc) = Some i
        \<and> update (board.contents doc ! i) = Inr (Some t)
        \<and> on_task env ident update doc = (FileHolds (map json_task ((board.contents doc)[i := t])), None))"
  by (auto simp: on_task_def board_read_def board_write_def write_file_def
      dest!: board.read_contents split: option.splits sum.splits)

lemma on_task_step:
  assumes "board.clean_file doc"
    and "\<And>t t'. json_task t = t \<Longrightarrow> update t = Inr (Some t') \<Longrightarrow> task_edge t (json_task t')"
  shows "tasks_step (board.contents doc) (board.contents (fst (on_task env ident update doc)))
    \<and> board.clean_file (fst (on_task env ident update doc))"
  using on_task_cases [where env = env and ident = ident and update = update and doc = doc]
proof (elim disjE exE conjE)
  fix i t
  assume i: "index_of (\<lambda>t. tk_id t = ident) (board.contents doc) = Some i"
    and t: "update (board.contents doc ! i) = Inr (Some t)"
    and on: "on_task env ident update doc = (FileHolds (map json_task ((board.contents doc)[i := t])), None)"
  have len: "i < length (board.contents doc)" using index_of_Some [OF i] by simp
  have "task_edge (board.contents doc ! i) (json_task t)"
    by (rule assms(2) [OF clean_nth [OF board.contents_clean [OF assms(1)] len] t])
  from tasks_step_update [OF board.contents_clean [OF assms(1)] len this]
  show ?thesis by (simp add: on board.clean_file_def json_task_idem)
qed (use assms in simp)

lemma edge_transition:
  "json_task t = t \<Longrightarrow> transition_task now status message t = Inr (Some t') \<Longrightarrow> task_edge t (json_task t')"
  using edge_json [where t = t and s = status and e = message and now = now] by (auto simp: transition_task_def split: if_splits)

lemma board_step_tasks:
  assumes "board.clean_file doc"
  shows "board.clean_file (board_step x doc)
    \<and> (tasks_step (board.contents doc) (board.contents (board_step x doc))
       \<or> (\<exists>env m t. x = BoardCreate env m t \<and> int (length (board.contents doc)) < m
          \<and> list_all (\<lambda>u. tk_id u \<noteq> TrimSpace (tk_id t)) (board.contents doc)
          \<and> board.contents (board_step x doc) = board.contents doc @ [json_task (new_task env t)]))"
proof (cases x)
  case (BoardOpen env mkdir nows directory max0)
  then show ?thesis
    using NewBoard_cases [OF assms, of env mkdir nows directory max0] assms
      tasks_step_recover [OF board.contents_clean [OF assms], of nows]
    by (auto simp: board.clean_file_def json_task_idem)
next
  case (BoardCreate env m t)
  have "map json_task (board.contents doc) = board.contents doc" by (rule board.contents_clean [OF assms])
  then show ?thesis
    using Create_cases [of env m t doc] assms BoardCreate
    by (auto simp: board.clean_file_def json_task_idem comp_def)
next
  case (BoardTransition env ident status message)
  then show ?thesis
    using on_task_step [OF assms edge_transition [where now = "fe_now env" and status = status and message = message],
        where env = env and ident = ident]
    by (simp add: board_Transition_def)
next
  case (BoardRetry env ident)
  then show ?thesis
    using on_task_step [OF assms edge_retry [where now = "fe_now env"], where env = env and ident = ident]
    by (simp add: RetryInterrupted_def)
qed

section \<open>The invariant\<close>

text \<open>Creations on any board use at most \<open>M\<close> tasks and identifiers in UTF-8.\<close>

fun board_op_ok :: "int \<Rightarrow> board_op \<Rightarrow> bool" where
  "board_op_ok M (BoardCreate env m t) = (m \<le> M \<and> valid_utf8 (TrimSpace (tk_id t)))"
| "board_op_ok M _ = True"

definition board_ok :: "int \<Rightarrow> board_file \<Rightarrow> bool" where
  "board_ok M doc \<longleftrightarrow> board.clean_file doc \<and> distinct (map tk_id (board.contents doc))
     \<and> int (length (board.contents doc)) \<le> M
     \<and> list_all (\<lambda>t. \<nexists>s. tk_status t = TaskOther s) (board.contents doc)"

lemma tasks_step_ids: "tasks_step ts ts' \<Longrightarrow> map tk_id ts' = map tk_id ts \<and> length ts' = length ts"
  unfolding tasks_step_def
  by (induction rule: list_all2_induct) (auto simp: task_edge_def)

lemma tasks_step_mem:
  "tasks_step ts ts' \<Longrightarrow> t \<in> set ts \<Longrightarrow> \<exists>t' \<in> set ts'. t' = t \<or> task_edge t t'"
  unfolding tasks_step_def
  by (induction rule: list_all2_induct) auto

lemma tasks_step_status:
  "tasks_step ts ts' \<Longrightarrow> list_all (\<lambda>t. \<nexists>s. tk_status t = TaskOther s) ts \<Longrightarrow>
     list_all (\<lambda>t. \<nexists>s. tk_status t = TaskOther s) ts'"
  unfolding tasks_step_def
  by (induction rule: list_all2_induct) (auto simp: task_edge_def validTaskTransition_def split: if_splits)

lemma board_ok_step:
  assumes "board_ok M doc" and "board_op_ok M x"
  shows "board_ok M (board_step x doc)"
proof -
  have clean: "board.clean_file doc" using assms(1) by (simp add: board_ok_def)
  from board_step_tasks [OF clean, of x] show ?thesis
  proof (elim conjE disjE exE)
    assume step: "tasks_step (board.contents doc) (board.contents (board_step x doc))"
      and clean': "board.clean_file (board_step x doc)"
    have "list_all (\<lambda>t. \<nexists>s. tk_status t = TaskOther s) (board.contents (board_step x doc))"
      using assms(1) by (intro tasks_step_status [OF step]) (simp add: board_ok_def)
    then show ?thesis
      using assms(1) tasks_step_ids [OF step] clean' by (simp add: board_ok_def)
  next
    fix env m t
    assume new: "x = BoardCreate env m t" "int (length (board.contents doc)) < m"
      "list_all (\<lambda>u. tk_id u \<noteq> TrimSpace (tk_id t)) (board.contents doc)"
      "board.contents (board_step x doc) = board.contents doc @ [json_task (new_task env t)]"
      "board.clean_file (board_step x doc)"
    let ?t = "json_task (new_task env t)"
    have ident: "tk_id ?t = TrimSpace (tk_id t)"
      using assms(2) new(1) by (simp add: new_task_def json_text_valid)
    have pending: "tk_status ?t = TaskPending" by (simp add: new_task_def)
    have "m \<le> M" using assms(2) new(1) by simp
    then have len: "int (length (board.contents doc @ [?t])) \<le> M" using new(2) by simp
    have "TrimSpace (tk_id t) \<notin> tk_id ` set (board.contents doc)"
      using new(3) by (auto simp: list_all_iff)
    then have "distinct (map tk_id (board.contents doc @ [?t]))"
      using assms(1) ident by (simp add: board_ok_def)
    moreover have "list_all (\<lambda>t. \<nexists>s. tk_status t = TaskOther s) (board.contents doc @ [?t])"
      using assms(1) pending by (simp add: board_ok_def)
    ultimately show ?thesis using len new(5) unfolding board_ok_def new(4) by blast
  qed
qed

lemma board_ok_run:
  "board_ok M doc \<Longrightarrow> list_all (board_op_ok M) ops \<Longrightarrow> board_ok M (fold board_step ops doc)"
  by (induction ops arbitrary: doc) (simp_all add: board_ok_step)

lemma board_ok_new: "0 \<le> M \<Longrightarrow> board_ok M FileAbsent"
  by (simp add: board_ok_def board.clean_absent)

text \<open>C36: As long as tasks are created only with identifiers that are valid UTF-8 (\<open>board_op_ok\<close>; the code does
  not check this, and \<open>invalid_ids_collide\<close> shows what happens without it), whatever boards do on a shared
  file, across processes and failed writes, its task identifiers stay unique, it never holds more
  tasks than the largest board allows, every status is one of the five, and a task with a given
  identifier keeps it, its description and its agent for ever.\<close>

theorem board_invariant:
  assumes "0 \<le> M" and "list_all (board_op_ok M) before" and "list_all (board_op_ok M) after"
  defines "ts \<equiv> board.contents (fold board_step before FileAbsent)"
  defines "ts' \<equiv> board.contents (fold board_step after (fold board_step before FileAbsent))"
  shows "distinct (map tk_id ts) \<and> int (length ts) \<le> M
     \<and> list_all (\<lambda>t. tk_status t \<in> {TaskPending, TaskRunning, TaskCompleted, TaskFailed, TaskCancelled}) ts
     \<and> list_all (\<lambda>t. list_ex (\<lambda>t'. tk_id t' = tk_id t \<and> tk_description t' = tk_description t
          \<and> tk_agent t' = tk_agent t) ts') ts"
proof -
  let ?doc = "fold board_step before FileAbsent"
  have ok: "board_ok M ?doc" using assms(1,2) by (intro board_ok_run board_ok_new)
  then have dist: "distinct (map tk_id ts)" "int (length ts) \<le> M" "list_all (\<lambda>t. \<nexists>s. tk_status t = TaskOther s) ts"
    unfolding ts_def board_ok_def by simp_all
  have keep: "board_ok M doc \<Longrightarrow> t \<in> set (board.contents doc) \<Longrightarrow> list_all (board_op_ok M) ops \<Longrightarrow>
      \<exists>t' \<in> set (board.contents (fold board_step ops doc)). tk_id t' = tk_id t
        \<and> tk_description t' = tk_description t \<and> tk_agent t' = tk_agent t" for t doc ops
  proof (induction ops arbitrary: doc t)
    case (Cons x ops)
    have clean: "board.clean_file doc" using Cons.prems(1) by (simp add: board_ok_def)
    have "\<exists>t' \<in> set (board.contents (board_step x doc)). tk_id t' = tk_id t
        \<and> tk_description t' = tk_description t \<and> tk_agent t' = tk_agent t"
      using board_step_tasks [OF clean, of x]
    proof (elim conjE disjE exE)
      assume "tasks_step (board.contents doc) (board.contents (board_step x doc))"
      from tasks_step_mem [OF this Cons.prems(2)] show ?thesis by (auto simp: task_edge_def)
    qed (use Cons.prems(2) in auto)
    then obtain t' where t': "t' \<in> set (board.contents (board_step x doc))" "tk_id t' = tk_id t"
      "tk_description t' = tk_description t" "tk_agent t' = tk_agent t" by blast
    have "board_ok M (board_step x doc)" using Cons.prems by (simp add: board_ok_step)
    from Cons.IH [OF this t'(1)] show ?case using Cons.prems t' by auto
  qed auto
  have "list_all (\<lambda>t. tk_status t \<in> {TaskPending, TaskRunning, TaskCompleted, TaskFailed, TaskCancelled}) ts"
    using dist(3) by (auto simp: list_all_iff intro: task_status.exhaust)
  moreover have "list_all (\<lambda>t. list_ex (\<lambda>t'. tk_id t' = tk_id t \<and> tk_description t' = tk_description t
          \<and> tk_agent t' = tk_agent t) ts') ts"
    using keep [OF ok _ assms(3)] unfolding ts_def ts'_def list_all_iff list_ex_iff by blast
  ultimately show ?thesis using dist by simp
qed

section \<open>Finished tasks\<close>

definition finished :: "task \<Rightarrow> bool" where
  "finished t \<longleftrightarrow> tk_status t = TaskCompleted \<or> tk_status t = TaskCancelled
     \<or> (tk_status t = TaskFailed \<and> tk_error t \<noteq> interrupted)"

lemma finished_edge: "finished t \<Longrightarrow> \<not> task_edge t t'"
  by (auto simp: finished_def task_edge_def validTaskTransition_def)

lemma finished_step:
  assumes "board.clean_file doc" and "t \<in> set (board.contents doc)" and "finished t"
  shows "t \<in> set (board.contents (board_step x doc))"
  using board_step_tasks [OF assms(1), of x]
proof (elim conjE disjE exE)
  assume "tasks_step (board.contents doc) (board.contents (board_step x doc))"
  from tasks_step_mem [OF this assms(2)] show ?thesis using finished_edge [OF assms(3)] by auto
qed (use assms in auto)

lemma finished_run:
  assumes "board.clean_file doc" and "t \<in> set (board.contents doc)" and "finished t"
  shows "t \<in> set (board.contents (fold board_step ops doc))"
  using assms
proof (induction ops arbitrary: doc)
  case (Cons x ops)
  then show ?case using finished_step [OF Cons.prems] board_step_tasks [OF Cons.prems(1), of x] by auto
qed simp

lemma board_clean_run: "board.clean_file doc \<Longrightarrow> board.clean_file (fold board_step ops doc)"
  by (induction ops arbitrary: doc) (simp_all add: board_step_tasks)

text \<open>A completed, cancelled or failed task is final, unless its error is the text that marks an
  interruption: no later operation of any board changes or removes it.\<close>

theorem finished_tasks_final:
  fixes before after :: "board_op list"
  assumes "t \<in> set (board.contents (fold board_step before FileAbsent))" and "finished t"
  shows "t \<in> set (board.contents (fold board_step after (fold board_step before FileAbsent)))"
  by (rule finished_run [OF board_clean_run [OF board.clean_absent] assms])

section \<open>Restarts\<close>

definition good_env :: "file_env \<Rightarrow> bool" where
  "good_env env \<longleftrightarrow> fe_ctx env = None \<and> fe_lock env = None \<and> fe_read env = None \<and> fe_write env = None"

lemma recover_running:
  "fst (NewBoard env mkdir nows directory max0 doc) =
     (case snd (NewBoard env mkdir nows directory max0 doc) of Inl e \<Rightarrow> doc
      | Inr n \<Rightarrow> if list_ex (\<lambda>t. tk_status t = TaskRunning) (board.contents doc)
               then FileHolds (map json_task (recover_from nows 0 (board.contents doc))) else doc)"
  by (auto simp: NewBoard_def Let_def board_read_def board_write_def write_file_def
      dest!: board.read_contents split: option.splits sum.splits if_splits prod.splits)

lemma index_of_unique:
  "distinct (map f xs) \<Longrightarrow> i < length xs \<Longrightarrow> index_of (\<lambda>x. f x = f (xs ! i)) xs = Some i"
proof (induction xs arbitrary: i)
  case (Cons x xs)
  then show ?case by (cases i) (auto simp: image_iff)
qed simp

text \<open>C37: Work that a restart interrupts is not lost: opening the board leaves no task running, and a task that
  was running can be requeued, with the same agent and description.\<close>

theorem interrupted_work_resumes:
  assumes "0 \<le> M" and "list_all (board_op_ok M) before"
  defines "doc \<equiv> fold board_step before FileAbsent"
  assumes "NewBoard env mkdir nows directory max0 doc = (doc', Inr n)"
    and "t \<in> set (board.contents doc)" and "tk_status t = TaskRunning" and "good_env env'"
  shows "list_all (\<lambda>u. tk_status u \<noteq> TaskRunning) (board.contents doc')
     \<and> (\<exists>doc'' u. RetryInterrupted env' (tk_id t) doc' = (doc'', None) \<and> u \<in> set (board.contents doc'')
          \<and> tk_id u = tk_id t \<and> tk_agent u = tk_agent t \<and> tk_description u = tk_description t
          \<and> tk_status u = TaskPending \<and> tk_error u = [])"
proof -
  let ?ts = "board.contents doc"
  have ok: "board_ok M doc" unfolding doc_def using assms(1,2) by (intro board_ok_run board_ok_new)
  note clean = board.contents_clean [of doc]
  have cl: "map json_task ?ts = ?ts" and dist: "distinct (map tk_id ?ts)" using ok clean by (auto simp: board_ok_def)
  obtain i where i: "i < length ?ts" "?ts ! i = t" using assms(5) by (auto simp: in_set_conv_nth)
  let ?new = "map json_task (recover_from nows 0 ?ts)"
  have doc': "doc' = FileHolds ?new"
    using recover_running [of env mkdir nows directory max0 doc] assms(4,5,6) by (auto simp: list_ex_iff)
  have step: "tasks_step ?ts ?new" by (rule tasks_step_recover [OF cl])
  have no_running: "list_all (\<lambda>u. tk_status u \<noteq> TaskRunning) ?new"
    by (auto simp: list_all_length recover_from_nth json_status_def split: task_status.splits)
  have ti: "json_task t = t" using clean_nth [OF cl i(1)] i(2) by simp
  have ui: "?new ! i = json_task (t\<lparr>tk_status := TaskFailed, tk_error := interrupted, tk_updated := nows i\<rparr>)"
    using i assms(6) by (simp add: recover_from_nth)
  have ids: "map tk_id ?new = map tk_id ?ts" "length ?new = length ?ts" using tasks_step_ids [OF step] by simp_all
  have tid: "tk_id (?new ! i) = tk_id t" using ui clean_task_fields [OF ti] by simp
  have find: "index_of (\<lambda>u. tk_id u = tk_id t) ?new = Some i"
    using index_of_unique [of tk_id ?new i] dist ids i(1) tid by simp
  let ?u = "(?new ! i)\<lparr>tk_status := TaskPending, tk_error := [], tk_updated := fe_now env'\<rparr>"
  have "RetryInterrupted env' (tk_id t) doc' = (FileHolds (map json_task (?new[i := ?u])), None)"
    using find ui assms(7) ids i(1)
    by (simp add: RetryInterrupted_def on_task_def board_read_def locked_read_def read_file_def doc' good_env_def
        retry_task_def board_write_def write_file_def)
  moreover have "json_task ?u \<in> set (map json_task (?new[i := ?u]))"
    using i(1) ids(2) by (auto intro!: imageI set_update_memI)
  moreover have "tk_id (json_task ?u) = tk_id t" "tk_agent (json_task ?u) = tk_agent t"
    "tk_description (json_task ?u) = tk_description t"
    using ui clean_task_fields [OF ti] by simp_all
  ultimately show ?thesis using no_running unfolding doc'
    by (intro conjI exI [of _ "FileHolds (map json_task (?new[i := ?u]))"] exI [of _ "json_task ?u"]) simp_all
qed

section \<open>A concrete board\<close>

definition sample_env :: file_env where
  "sample_env = \<lparr>fe_ctx = None, fe_lock = None, fe_read = None, fe_write = None, fe_now = 5\<rparr>"

definition sample_task :: "string \<Rightarrow> task" where
  "sample_task ident = \<lparr>tk_id = ident, tk_agent = ''w'', tk_description = ''d'', tk_status = TaskPending,
     tk_error = [], tk_created = 5, tk_updated = 5\<rparr>"

lemma sample_texts [simp]:
  "TrimSpace ''a'' = ''a''" "TrimSpace [CHR 0xFE] = [CHR 0xFE]" "TrimSpace [CHR 0xFF] = [CHR 0xFF]"
  "TrimSpace ''/b'' = ''/b''" "json_text ''a'' = ''a''" "json_text ''w'' = ''w''" "json_text ''d'' = ''d''"
  "json_text ''ok'' = ''ok''" "json_text [] = []"
  "json_text [CHR 0xFE] = [CHR 0xEF, CHR 0xBF, CHR 0xBD]" "json_text [CHR 0xFF] = [CHR 0xEF, CHR 0xBF, CHR 0xBD]"
  by code_simp+

lemmas board_eval = board_Create_def board_Transition_def RetryInterrupted_def on_task_def transition_task_def
  retry_task_def NewBoard_def board_read_def board_write_def locked_read_def read_file_def write_file_def
  validTaskTransition_def json_task_def json_status_def sample_env_def sample_task_def

definition sample_board_ops :: "board_op list" where
  "sample_board_ops = [BoardCreate sample_env 9 (sample_task ''a''),
     BoardTransition sample_env ''a'' TaskRunning ''ok'']"

lemma sample_board:
  "fold board_step sample_board_ops FileAbsent = FileHolds [(sample_task ''a'')\<lparr>tk_status := TaskRunning, tk_error := ''ok''\<rparr>]"
  by (simp add: sample_board_ops_def board_eval)

lemma sample_board_ok: "list_all (board_op_ok 9) sample_board_ops"
  by (simp add: sample_board_ops_def sample_task_def valid_utf8_def)

theorem board_invariant_witness:
  "distinct (map tk_id (board.contents (fold board_step sample_board_ops FileAbsent)))"
  using board_invariant [OF _ sample_board_ok sample_board_ok] by simp

theorem finished_tasks_witness:
  "(sample_task ''a'')\<lparr>tk_status := TaskCompleted, tk_error := ''ok''\<rparr> \<in>
     set (board.contents (fold board_step sample_board_ops
       (fold board_step (sample_board_ops @ [BoardTransition sample_env ''a'' TaskCompleted ''ok'']) FileAbsent)))"
  by (rule finished_tasks_final) (simp_all add: sample_board finished_def board_eval)

theorem interrupted_work_witness:
  "\<exists>doc'' u. RetryInterrupted sample_env ''a''
       (fst (NewBoard sample_env None (\<lambda>i. 7) ''/b'' 9 (fold board_step sample_board_ops FileAbsent))) = (doc'', None)
     \<and> u \<in> set (board.contents doc'') \<and> tk_status u = TaskPending"
proof -
  have "snd (NewBoard sample_env None (\<lambda>i. 7) ''/b'' 9 (fold board_step sample_board_ops FileAbsent)) = Inr 9"
    by (simp add: sample_board board_eval)
  then obtain doc' where doc': "NewBoard sample_env None (\<lambda>i. 7) ''/b'' 9
      (fold board_step sample_board_ops FileAbsent) = (doc', Inr 9)" by (metis prod.collapse)
  have "(sample_task ''a'')\<lparr>tk_status := TaskRunning, tk_error := ''ok''\<rparr> \<in>
      set (board.contents (fold board_step sample_board_ops FileAbsent))" by (simp add: sample_board)
  from interrupted_work_resumes [OF _ sample_board_ok doc' this, of sample_env]
  show ?thesis unfolding doc' by (auto simp: good_env_def sample_env_def sample_task_def)
qed

section \<open>Limits of the board\<close>

text \<open>
  The interruption is recognised by the text of the error, which callers can write themselves: a task
  that failed with that text can be requeued although no restart took place.
\<close>

theorem ordinary_failure_requeued:
  "map tk_status (board.contents (fold board_step
       (sample_board_ops @ [BoardTransition sample_env ''a'' TaskFailed interrupted, BoardRetry sample_env ''a''])
       FileAbsent)) = [TaskPending]"
  by (simp add: sample_board board_eval)

text \<open>
  The lock on the file lets several processes use one board, but opening it fails the running tasks of
  all of them: the worker of a task is then told that its completion is invalid.
\<close>

theorem opening_fails_live_tasks:
  "snd (board_Transition sample_env ''a'' TaskCompleted ''ok'' (fold board_step
       (sample_board_ops @ [BoardOpen sample_env None (\<lambda>i. 7) ''/b'' 9]) FileAbsent)) = Some InvalidTransition"
  by (simp add: sample_board board_eval)

text \<open>Two identifiers that are not UTF-8 become the same in the file.\<close>

theorem invalid_ids_collide:
  "\<not> distinct (map tk_id (board.contents (fold board_step
       [BoardCreate sample_env 9 (sample_task [CHR 0xFE]), BoardCreate sample_env 9 (sample_task [CHR 0xFF])]
       FileAbsent)))"
  using json_text_replacement [of "[]"] by (simp add: board_eval)

end
