(* ===== verification/Mailbox_Properties.thy ===== *)
theory Mailbox_Properties
  imports Board_Properties
begin

text \<open>
  What the mailbox guarantees: to each recipient it is a first-in first-out queue from which polling
  reads and acknowledging removes; and its limits.
\<close>

section \<open>Acknowledgements as JSON\<close>

definition acks_clean :: "(string \<times> 64 word) list \<Rightarrow> bool" where
  "acks_clean acks \<longleftrightarrow> distinct (map fst acks) \<and> (\<forall>k \<in> set (map fst acks). json_text k = k)"

lemma fold_update_keys:
  "distinct (map fst ys) \<Longrightarrow>
     distinct (map fst (fold (\<lambda>(k, v). AList.update (json_text k) v) xs ys))
   \<and> set (map fst (fold (\<lambda>(k, v). AList.update (json_text k) v) xs ys)) =
       set (map fst ys) \<union> json_text ` set (map fst xs)"
proof (induction xs arbitrary: ys)
  case (Cons x xs)
  obtain k v where x: "x = (k, v)" by (cases x)
  have "distinct (map fst (AList.update (json_text k) v ys))" by (rule distinct_update) (rule Cons.prems)
  from Cons.IH [OF this] show ?case by (auto simp: x dom_update)
qed simp

lemma acks_clean_json: "acks_clean (json_acks acks)"
  using fold_update_keys [of "[]" "sort_key fst acks"] by (auto simp: acks_clean_def json_acks_def)

lemma fold_update_map:
  "(\<forall>k \<in> set (map fst xs). json_text k = k) \<Longrightarrow>
     map_of (fold (\<lambda>(k, v). AList.update (json_text k) v) xs ys) = map_of ys ++ map_of (rev xs)"
proof (induction xs arbitrary: ys)
  case (Cons x xs)
  obtain k v where x: "x = (k, v)" by (cases x)
  have "map_of (fold (\<lambda>(k, v). AList.update (json_text k) v) xs (AList.update k v ys)) =
      map_of (AList.update k v ys) ++ map_of (rev xs)"
    using Cons by simp
  then show ?case using Cons.prems by (simp add: x update_conv' map_add_def fun_eq_iff split: option.splits)
qed simp

text \<open>Acknowledgements of clean recipients come back as they were written.\<close>

lemma json_acks_map:
  assumes "acks_clean acks"
  shows "map_of (json_acks acks) = map_of acks"
proof -
  have dist: "distinct (map fst (rev (sort_key fst acks)))"
    using assms by (auto simp: acks_clean_def rev_map distinct_map distinct_sort)
  have "map_of (json_acks acks) = map_of (rev (sort_key fst acks))"
    unfolding json_acks_def using assms by (subst fold_update_map) (auto simp: acks_clean_def)
  also have "\<dots> = map_of acks"
    using dist assms by (subst map_of_inject_set) (auto simp: acks_clean_def)
  finally show ?thesis .
qed

lemma json_message_idem [simp]: "json_message (json_message m) = json_message m"
  by (simp add: json_message_def)

lemma json_message_fields [simp]:
  "ms_sequence (json_message m) = ms_sequence m" "ms_to (json_message m) = json_text (ms_to m)"
  "ms_from (json_message m) = json_text (ms_from m)" "ms_body (json_message m) = json_text (ms_body m)"
  by (simp_all add: json_message_def)

section \<open>The invariant\<close>

definition mail_contents :: "mailbox_file \<Rightarrow> mailbox_state" where
  "mail_contents doc = (case doc of FileHolds st \<Rightarrow> st | _ \<Rightarrow> empty_mailbox)"

text \<open>Messages are numbered from one, up to the bound; what is stored is clean.\<close>

definition mail_ok :: "nat \<Rightarrow> mailbox_file \<Rightarrow> bool" where
  "mail_ok M doc \<longleftrightarrow> doc \<noteq> FileCorrupt
     \<and> map ms_sequence (mx_messages (mail_contents doc)) =
         map word_of_nat [1..<Suc (length (mx_messages (mail_contents doc)))]
     \<and> length (mx_messages (mail_contents doc)) \<le> M
     \<and> map json_message (mx_messages (mail_contents doc)) = mx_messages (mail_contents doc)
     \<and> acks_clean (mx_acks (mail_contents doc))"

fun mail_op_ok :: "nat \<Rightarrow> mailbox_op \<Rightarrow> bool" where
  "mail_op_ok M (MailSend env random box m) = (mx_max_messages box \<le> int M)"
| "mail_op_ok M (MailAck env recipient sequence) = True"

lemma mail_contents_simps [simp]:
  "mail_contents FileAbsent = empty_mailbox" "mail_contents (FileHolds st) = st"
  by (simp_all add: mail_contents_def)

lemma mail_read:
  "mailbox_read env doc = Inr st \<Longrightarrow> st = mail_contents doc"
  by (auto simp: mailbox_read_def locked_read_def read_file_def mail_contents_def
      split: option.splits stored_file.splits)

lemma mail_read_ok:
  "doc \<noteq> FileCorrupt \<Longrightarrow> good_env env \<Longrightarrow> mailbox_read env doc = Inr (mail_contents doc)"
  by (cases doc) (simp_all add: mailbox_read_def locked_read_def read_file_def good_env_def)

lemma mail_absent: "mail_ok M FileAbsent"
  by (simp add: mail_ok_def empty_mailbox_def acks_clean_def)

definition numbered :: "file_env \<Rightarrow> string \<Rightarrow> nat \<Rightarrow> message \<Rightarrow> message" where
  "numbered env bytes n m =
     m\<lparr>ms_from := TrimSpace (ms_from m), ms_to := TrimSpace (ms_to m), ms_body := TrimSpace (ms_body m),
       ms_id := ''msg-'' @ hex_encode bytes, ms_sequence := word_of_nat (Suc n), ms_created := fe_now env\<rparr>"

lemma Send_cases:
  "fst (mailbox_Send env random box m doc) = doc \<and> (\<nexists>r. snd (mailbox_Send env random box m doc) = Inr r)
   \<or> (\<exists>bytes. int (length (mx_messages (mail_contents doc))) < mx_max_messages box
        \<and> mailbox_Send env random box m doc =
           (FileHolds (json_mailbox ((mail_contents doc)\<lparr>mx_messages := mx_messages (mail_contents doc)
               @ [numbered env bytes (length (mx_messages (mail_contents doc))) m]\<rparr>)),
            Inr (numbered env bytes (length (mx_messages (mail_contents doc))) m)))"
  by (auto simp: mailbox_Send_def Let_def mailbox_write_def write_file_def numbered_def
      dest!: mail_read split: option.splits sum.splits if_splits)

lemma Ack_cases:
  "fst (mailbox_Ack env recipient sequence doc) = doc \<and> snd (mailbox_Ack env recipient sequence doc) \<noteq> None
   \<or> mailbox_Ack env recipient sequence doc =
       (FileHolds (json_mailbox
          (if sequence > ack_of (mail_contents doc) recipient
           then (mail_contents doc)\<lparr>mx_acks := AList.update recipient sequence (mx_acks (mail_contents doc))\<rparr>
           else mail_contents doc)), None)"
  by (auto simp: mailbox_Ack_def mailbox_write_def write_file_def
      dest!: mail_read split: option.splits sum.splits)

lemma json_mailbox_fields [simp]:
  "mx_messages (json_mailbox st) = map json_message (mx_messages st)"
  "mx_acks (json_mailbox st) = json_acks (mx_acks st)"
  by (simp_all add: json_mailbox_def)

lemma mail_ok_step:
  assumes "mail_ok M doc" and "mail_op_ok M x"
  shows "mail_ok M (mailbox_step x doc)"
proof (cases x)
  case (MailSend env random box m)
  from Send_cases [of env random box m doc] show ?thesis
  proof (elim disjE exE conjE)
    fix bytes
    let ?st = "mail_contents doc"
    assume room: "int (length (mx_messages ?st)) < mx_max_messages box"
      and sent: "mailbox_Send env random box m doc =
        (FileHolds (json_mailbox (?st\<lparr>mx_messages := mx_messages ?st @ [numbered env bytes (length (mx_messages ?st)) m]\<rparr>)),
         Inr (numbered env bytes (length (mx_messages ?st)) m))"
    have msgs: "map json_message (mx_messages ?st) = mx_messages ?st"
      "map ms_sequence (mx_messages ?st) = map word_of_nat [1..<Suc (length (mx_messages ?st))]"
      using assms(1) by (simp_all add: mail_ok_def)
    have "length (mx_messages ?st) < M" using room assms(2) MailSend by simp
    then show ?thesis
      using msgs by (simp add: MailSend sent mail_ok_def acks_clean_json numbered_def)
  qed (use assms MailSend in simp)
next
  case (MailAck env recipient sequence)
  let ?st = "mail_contents doc"
  have "map (ms_sequence \<circ> json_message) (mx_messages ?st) = map ms_sequence (mx_messages ?st)"
    by simp
  then show ?thesis
    using Ack_cases [of env recipient sequence doc] assms(1) MailAck
    by (cases "ack_of ?st recipient < sequence")
      (auto simp: mail_ok_def acks_clean_json comp_def simp del: upt_Suc)
qed

lemma mail_ok_run:
  "mail_ok M doc \<Longrightarrow> list_all (mail_op_ok M) ops \<Longrightarrow> mail_ok M (fold mailbox_step ops doc)"
  by (induction ops arbitrary: doc) (simp_all add: mail_ok_step)

section \<open>A queue per recipient\<close>

text \<open>The messages a recipient has yet to acknowledge, in the order they were sent.\<close>

definition pending :: "string \<Rightarrow> mailbox_file \<Rightarrow> message list" where
  "pending recipient doc =
     filter (\<lambda>m. ms_to m = recipient \<and> ms_sequence m > ack_of (mail_contents doc) recipient)
       (mx_messages (mail_contents doc))"

lemma Poll_pending:
  assumes "mail_ok M doc" and "good_env env"
  shows "mailbox_Poll env recipient after limit doc =
     (if poll_limit limit > max_poll_limit then Inl MakesliceOutOfRange
      else Inr (take (nat (poll_limit limit)) (filter (\<lambda>m. after < ms_sequence m) (pending recipient doc))))"
proof -
  have "doc \<noteq> FileCorrupt" using assms(1) by (simp add: mail_ok_def)
  note read = mail_read_ok [OF this assms(2)]
  have "filter (\<lambda>m. after < ms_sequence m) (pending recipient doc) =
      filter (\<lambda>m. ms_to m = recipient \<and> ms_sequence m > after
        \<and> ms_sequence m > ack_of (mail_contents doc) recipient) (mx_messages (mail_contents doc))"
    unfolding pending_def filter_filter by (intro filter_cong) auto
  then show ?thesis using assms(2) by (simp add: mailbox_Poll_def read good_env_def)
qed

lemma Poll_all: "filter (\<lambda>m. 0 < ms_sequence m) (pending recipient doc) = pending recipient doc"
proof (rule filter_True)
  have pos: "0 < w" if "a < w" for a w :: "64 word"
    using that by (metis le_less_trans word_zero_le)
  show "\<forall>m \<in> set (pending recipient doc). 0 < ms_sequence m"
    using pos by (auto simp: pending_def)
qed

lemma ack_of_json: "acks_clean (mx_acks st) \<Longrightarrow> ack_of (json_mailbox st) r = ack_of st r"
  by (simp add: ack_of_def json_acks_map)

lemma acks_clean_update: "acks_clean acks \<Longrightarrow> json_text k = k \<Longrightarrow> acks_clean (AList.update k v acks)"
  by (auto simp: acks_clean_def distinct_update dom_update)

text \<open>Sending appends to the queue of the recipient, and to no other.\<close>

lemma Send_pending:
  assumes "mail_ok M doc" and "M < 2 ^ 64" and "mx_max_messages box \<le> int M"
    and "mailbox_Send env random box m doc = (doc', Inr sent)"
  shows "pending r doc' = pending r doc
    @ (if r = json_text (TrimSpace (ms_to m)) \<and> ms_sequence sent > ack_of (mail_contents doc) r
       then [json_message sent] else [])"
proof -
  let ?st = "mail_contents doc"
  from Send_cases [of env random box m doc] assms(4) obtain bytes where
    doc': "doc' = FileHolds (json_mailbox (?st\<lparr>mx_messages := mx_messages ?st @ [sent]\<rparr>))"
    and sent: "sent = numbered env bytes (length (mx_messages ?st)) m"
    by auto
  have ok: "map json_message (mx_messages ?st) = mx_messages ?st" "acks_clean (mx_acks ?st)"
    using assms(1) by (simp_all add: mail_ok_def)
  have "ack_of (mail_contents doc') r = ack_of ?st r"
    using ack_of_json [of "?st\<lparr>mx_messages := mx_messages ?st @ [sent]\<rparr>" r] ok
    by (simp add: doc' ack_of_def)
  moreover have "ms_to sent = TrimSpace (ms_to m)" by (simp add: sent numbered_def)
  ultimately show ?thesis by (simp add: pending_def doc' ok(1))
qed

lemma filter_gt_drop:
  fixes f :: "'a \<Rightarrow> 'b :: linorder"
  shows "sorted_wrt (<) (map f xs) \<Longrightarrow> k < length xs \<Longrightarrow> filter (\<lambda>x. f (xs ! k) < f x) xs = drop (Suc k) xs"
proof (induction xs arbitrary: k)
  case (Cons x xs)
  show ?case
  proof (cases k)
    case 0
    then show ?thesis using Cons.prems by (auto simp: filter_id_conv)
  next
    case (Suc j)
    then have "f x < f (xs ! j)" using Cons.prems by simp
    then have "\<not> f (xs ! j) < f x" by (rule less_not_sym)
    then show ?thesis using Cons Suc by simp
  qed
qed simp

lemma sorted_split:
  fixes f :: "'a \<Rightarrow> 'b :: linorder"
  shows "sorted_wrt (<) (map f xs) \<Longrightarrow> xs = filter (\<lambda>x. \<not> a < f x) xs @ filter (\<lambda>x. a < f x) xs"
proof (induction xs)
  case (Cons x xs)
  show ?case
  proof (cases "a < f x")
    case True
    then have "\<forall>y \<in> set xs. a < f y" using Cons.prems by (auto intro: less_trans)
    then have "filter (\<lambda>x. \<not> a < f x) xs = []" "filter (\<lambda>x. a < f x) xs = xs"
      by (auto simp: filter_empty_conv filter_id_conv)
    then show ?thesis using True by simp
  qed (use Cons in simp)
qed simp

lemma sequences_sorted:
  assumes "mail_ok M doc" and "M < 2 ^ 64"
  shows "sorted_wrt (<) (map ms_sequence (mx_messages (mail_contents doc)))"
proof -
  let ?n = "length (mx_messages (mail_contents doc))"
  have n: "?n < 2 ^ 64" using assms by (simp add: mail_ok_def)
  have "sorted_wrt (<) (map (word_of_nat :: nat \<Rightarrow> 64 word) [1..<Suc ?n])"
    unfolding sorted_wrt_map
  proof (rule sorted_wrt_mono_rel [where P = "(<)"])
    fix x y
    assume "x \<in> set [1..<Suc ?n]" "y \<in> set [1..<Suc ?n]" "x < y"
    then have "x < 2 ^ 64" "y < 2 ^ 64" using n by auto
    then show "(word_of_nat x :: 64 word) < word_of_nat y"
      using \<open>x < y\<close> by (simp add: word_less_nat_alt unat_of_nat)
  qed (rule sorted_wrt_upt)
  then show ?thesis using assms(1) by (simp add: mail_ok_def del: upt_Suc)
qed

lemma pending_sorted:
  assumes "mail_ok M doc" and "M < 2 ^ 64"
  shows "sorted_wrt (<) (map ms_sequence (pending r doc))"
  using sequences_sorted [OF assms] unfolding pending_def sorted_wrt_map by (rule sorted_wrt_filter)

text \<open>Acknowledging a pending message removes it and those before it, for this recipient only.\<close>

lemma Ack_pending:
  assumes "mail_ok M doc" and "M < 2 ^ 64" and "json_text r = r" and "k < length (pending r doc)"
    and "mailbox_Ack env r (ms_sequence (pending r doc ! k)) doc = (doc', None)"
  shows "pending r' doc' = (if r' = r then drop (Suc k) (pending r doc) else pending r' doc)"
proof -
  let ?st = "mail_contents doc" and ?s = "ms_sequence (pending r doc ! k)"
  have ok: "map json_message (mx_messages ?st) = mx_messages ?st" "acks_clean (mx_acks ?st)"
    using assms(1) by (simp_all add: mail_ok_def)
  have later: "?s > ack_of ?st r"
    using nth_mem [OF assms(4)] by (simp add: pending_def)
  let ?st' = "?st\<lparr>mx_acks := AList.update r ?s (mx_acks ?st)\<rparr>"
  have doc': "doc' = FileHolds (json_mailbox ?st')"
    using Ack_cases [of env r ?s doc] assms(5) later by auto
  have "acks_clean (mx_acks ?st')" using ok(2) assms(3) by (simp add: acks_clean_update)
  from ack_of_json [OF this] have acks: "ack_of (mail_contents doc') q = (if q = r then ?s else ack_of ?st q)" for q
    by (simp add: doc' ack_of_def update_conv')
  have msgs: "mx_messages (mail_contents doc') = mx_messages ?st" using ok by (simp add: doc')
  show ?thesis
  proof (cases "r' = r")
    case True
    have "pending r doc' = filter (\<lambda>m. ?s < ms_sequence m) (pending r doc)"
      using later unfolding pending_def acks msgs filter_filter
      by (intro filter_cong) auto
    also have "\<dots> = drop (Suc k) (pending r doc)"
      by (rule filter_gt_drop [OF pending_sorted [OF assms(1,2)] assms(4)])
    finally show ?thesis using True by simp
  next
    case False
    then show ?thesis by (simp add: pending_def acks msgs)
  qed
qed

lemma number_above:
  assumes "mail_ok M doc" and "n < 2 ^ 64 - 1"
    and "ack_of (mail_contents doc) r \<le> word_of_nat n"
  shows "ack_of (mail_contents doc) r < word_of_nat (Suc n)"
proof -
  have "(word_of_nat n :: 64 word) < word_of_nat (Suc n)"
    using assms(2) by (simp add: word_less_nat_alt unat_of_nat take_bit_nat_eq_self del: of_nat_Suc)
  then show ?thesis using assms(3) by (rule le_less_trans [rotated])
qed

text \<open>Sending is first-in first-out: from an empty mailbox and whatever was sent and acknowledged since, a sent
  message goes to the end of its recipient's pending messages and to nobody else's, and polling returns
  the first pending ones, as many as asked for, unless an acknowledgement ran ahead of the messages.\<close>

theorem mailbox_send_appends:
  fixes ops :: "mailbox_op list"
  assumes "M < 2 ^ 64" and "list_all (mail_op_ok M) ops" and "mx_max_messages box \<le> int M"
  defines "doc \<equiv> fold mailbox_step ops FileAbsent"
  assumes "ack_of (mail_contents doc) r \<le> word_of_nat (length (mx_messages (mail_contents doc)))"
    and "mailbox_Send env random box m doc = (doc', Inr sent)" and "good_env env'"
    and "poll_limit limit \<le> max_poll_limit"
  shows "pending r doc' = pending r doc @ (if r = json_text (TrimSpace (ms_to m)) then [json_message sent] else [])
     \<and> mailbox_Poll env' r 0 limit doc' = Inr (take (nat (poll_limit limit)) (pending r doc'))"
proof
  have ok: "mail_ok M doc" unfolding doc_def using assms(2) by (intro mail_ok_run mail_absent)
  have op: "mail_op_ok M (MailSend env random box m)" using assms(3) by simp
  have ok': "mail_ok M doc'" using mail_ok_step [OF ok op] assms(6) by simp
  show "mailbox_Poll env' r 0 limit doc' = Inr (take (nat (poll_limit limit)) (pending r doc'))"
    using Poll_pending [OF ok' assms(7), of r 0 limit] assms(8) by (simp add: Poll_all)
  from Send_cases [of env random box m doc] assms(6) obtain bytes where
    room: "int (length (mx_messages (mail_contents doc))) < mx_max_messages box"
    and sent: "sent = numbered env bytes (length (mx_messages (mail_contents doc))) m" by auto
  then have "length (mx_messages (mail_contents doc)) < 2 ^ 64 - 1" using assms(1,3) by simp
  from number_above [OF ok this assms(5)] have "ms_sequence sent > ack_of (mail_contents doc) r"
    by (simp add: sent numbered_def)
  then show "pending r doc' = pending r doc @ (if r = json_text (TrimSpace (ms_to m)) then [json_message sent] else [])"
    using Send_pending [OF ok assms(1,3,6), of r] by simp
qed


section \<open>A concrete mailbox\<close>

definition sample_box :: mailbox where
  "sample_box = \<lparr>mx_max_messages = 9, mx_max_body = 100\<rparr>"

definition sample_message :: message where
  "sample_message = \<lparr>ms_id = [], ms_sequence = 0, ms_from = ''w'', ms_to = ''a'', ms_body = ''d'', ms_created = 0\<rparr>"

definition sample_send :: mailbox_op where
  "sample_send = MailSend sample_env (Inr []) sample_box sample_message"

lemma sample_mail_texts [simp]:
  "TrimSpace ''w'' = ''w''" "TrimSpace ''d'' = ''d''" "json_text ''msg-'' = ''msg-''"
  by code_simp+

lemmas mail_eval = mailbox_Send_def mailbox_Ack_def mailbox_Poll_def mailbox_read_def mailbox_write_def
  locked_read_def read_file_def write_file_def json_mailbox_def json_acks_def json_message_def
  empty_mailbox_def ack_of_def hex_encode_def sample_env_def sample_box_def sample_message_def sample_send_def
  poll_limit_def Let_def

abbreviation sample_sent :: message where
  "sample_sent \<equiv> sample_message\<lparr>ms_id := ''msg-'', ms_sequence := 1, ms_created := 5\<rparr>"

lemma sample_mail:
  "fold mailbox_step [sample_send] FileAbsent = FileHolds \<lparr>mx_messages = [sample_sent], mx_acks = []\<rparr>"
  by (simp add: mail_eval)

lemma sample_mail_ok: "list_all (mail_op_ok 9) [sample_send]"
  by (simp add: sample_send_def sample_box_def)

theorem mailbox_send_witness:
  "\<exists>doc' sent. mailbox_Send sample_env (Inr []) sample_box sample_message (fold mailbox_step [sample_send] FileAbsent)
       = (doc', Inr sent)
     \<and> pending ''a'' doc' = pending ''a'' (fold mailbox_step [sample_send] FileAbsent) @ [json_message sent]"
proof -
  let ?doc = "fold mailbox_step [sample_send] FileAbsent"
  obtain doc' sent where send: "mailbox_Send sample_env (Inr []) sample_box sample_message ?doc = (doc', Inr sent)"
    unfolding sample_mail by (simp add: mail_eval)
  have ack: "ack_of (mail_contents ?doc) ''a'' \<le> word_of_nat (length (mx_messages (mail_contents ?doc)))"
    unfolding sample_mail by (simp add: ack_of_def)
  have box: "mx_max_messages sample_box \<le> int 9" by (simp add: sample_box_def)
  have env: "good_env sample_env" by (simp add: good_env_def sample_env_def)
  from mailbox_send_appends [OF _ sample_mail_ok box ack send env, of 5]
  have "pending ''a'' doc' = pending ''a'' ?doc @ (if ''a'' = json_text (TrimSpace (ms_to sample_message))
      then [json_message sent] else [])" by (simp add: poll_limit_def max_poll_limit_def)
  moreover have "''a'' = json_text (TrimSpace (ms_to sample_message))" by (simp add: sample_message_def)
  ultimately show ?thesis using send by auto
qed

lemma sample_mails:
  "fold mailbox_step [sample_send, sample_send] FileAbsent =
     FileHolds \<lparr>mx_messages = [sample_sent, sample_sent\<lparr>ms_sequence := 2\<rparr>], mx_acks = []\<rparr>"
  by (simp add: mail_eval)


section \<open>Limits of the mailbox\<close>

text \<open>
  Any number can be acknowledged: a recipient that acknowledges ahead of what was sent to it does not
  get the next message.
\<close>

theorem early_ack_hides_message:
  "mailbox_Poll sample_env ''a'' 0 5
     (fold mailbox_step [MailAck sample_env ''a'' 1, sample_send] FileAbsent) = Inr []"
  by (simp add: mail_eval max_poll_limit_def)

text \<open>
  Acknowledged messages stay in the file, so a mailbox takes its maximal number of messages in its
  life: once it is full, no acknowledgement makes room again.
\<close>

lemma messages_stay:
  "length (mx_messages (mail_contents doc)) \<le> length (mx_messages (mail_contents (mailbox_step x doc)))"
proof (cases x)
  case (MailSend env random box m)
  then show ?thesis using Send_cases [of env random box m doc] by auto
next
  case (MailAck env recipient sequence)
  then show ?thesis using Ack_cases [of env recipient sequence doc] by auto
qed

interpretation mail_grows: monotone_machine mailbox_step
  "\<lambda>doc doc'. length (mx_messages (mail_contents doc)) \<le> length (mx_messages (mail_contents doc'))"
  by unfold_locales (auto simp: messages_stay)

theorem full_mailbox_stays_full:
  fixes ops :: "mailbox_op list"
  assumes "mx_max_messages box \<le> int (length (mx_messages (mail_contents doc)))"
  shows "snd (mailbox_Send env random box m (fold mailbox_step ops doc)) \<noteq> Inr sent"
  using mail_grows.rel_run [of doc ops] Send_cases [of env random box m "fold mailbox_step ops doc"] assms
  by auto

end
