(* ===== verification/Workspace_Lease.thy ===== *)
theory Workspace_Lease
  imports Go_Prelude
begin

text \<open>
  The write lease of the coordinator (\<open>WithWorkspaceWrite\<close> in \<open>internal/collaboration/coordinator.go\<close>): a
  channel that holds one token. A goroutine takes the token or gives up when its context ends, checks
  its context again, runs the action, and puts the token back in a deferred function, which also runs
  when the action fails or panics.
\<close>

section \<open>Goroutines and the channel\<close>

datatype lease_outcome = LeaseCtx ctx_error | ActionResult "string option" | ActionPanic string

datatype lease_place =
    Waiting | Entered | Acting | Leaving lease_outcome | Returned lease_outcome

text \<open>\<open>ls_places\<close> says where each call of \<open>WithWorkspaceWrite\<close> is; a call that has not begun is absent.\<close>

record lease_state =
  ls_tokens :: nat
  ls_places :: "nat \<rightharpoonup> lease_place"

definition lease_initial :: lease_state where
  "lease_initial = \<lparr>ls_tokens = 1, ls_places = Map.empty\<rparr>"

abbreviation at :: "nat \<Rightarrow> lease_place \<Rightarrow> lease_state \<Rightarrow> lease_state" where
  "at i w s \<equiv> s\<lparr>ls_places := (ls_places s)(i \<mapsto> w)\<rparr>"

text \<open>
  The atomic steps of the calls. A select whose context has ended and whose token is there takes
  either case. Putting the token back needs room in the channel.
\<close>

inductive lease_step :: "lease_state \<Rightarrow> lease_state \<Rightarrow> bool" where
  Call: "ls_places s i = None \<Longrightarrow> lease_step s (at i Waiting s)"
| GiveUp: "ls_places s i = Some Waiting \<Longrightarrow> lease_step s (at i (Returned (LeaseCtx e)) s)"
| Take: "ls_places s i = Some Waiting \<Longrightarrow> 0 < ls_tokens s \<Longrightarrow>
    lease_step s (at i Entered (s\<lparr>ls_tokens := ls_tokens s - 1\<rparr>))"
| Ended: "ls_places s i = Some Entered \<Longrightarrow> lease_step s (at i (Leaving (LeaseCtx e)) s)"
| Act: "ls_places s i = Some Entered \<Longrightarrow> lease_step s (at i Acting s)"
| Done: "ls_places s i = Some Acting \<Longrightarrow> lease_step s (at i (Leaving (ActionResult r)) s)"
| Panic: "ls_places s i = Some Acting \<Longrightarrow> lease_step s (at i (Leaving (ActionPanic e)) s)"
| Release: "ls_places s i = Some (Leaving r) \<Longrightarrow> ls_tokens s < 1 \<Longrightarrow>
    lease_step s (at i (Returned r) (s\<lparr>ls_tokens := ls_tokens s + 1\<rparr>))"

inductive reached :: "lease_state \<Rightarrow> bool" where
  Start: "reached lease_initial"
| Step: "reached s \<Longrightarrow> lease_step s s' \<Longrightarrow> reached s'"

section \<open>One holder\<close>

fun holds_token :: "lease_place \<Rightarrow> bool" where
  "holds_token Entered = True"
| "holds_token Acting = True"
| "holds_token (Leaving r) = True"
| "holds_token _ = False"

definition holders :: "lease_state \<Rightarrow> nat set" where
  "holders s = {i. \<exists>w. ls_places s i = Some w \<and> holds_token w}"

lemma holders_at:
  "holders (at i w s) = (if holds_token w then insert i (holders s) else holders s - {i})"
  "holders (s\<lparr>ls_tokens := n, ls_places := (ls_places s)(i \<mapsto> w)\<rparr>) =
     (if holds_token w then insert i (holders s) else holders s - {i})"
  by (auto simp: holders_def)

lemma holders_tokens [simp]: "holders (s\<lparr>ls_tokens := n\<rparr>) = holders s"
  by (simp add: holders_def)

lemma holder_iff: "ls_places s i = Some w \<Longrightarrow> i \<in> holders s \<longleftrightarrow> holds_token w"
  by (simp add: holders_def)

lemma waiting_no_holder: "ls_places s i = None \<Longrightarrow> i \<notin> holders s"
  by (simp add: holders_def)

text \<open>The token is in the channel, or exactly one call has it.\<close>

definition lease_ok :: "lease_state \<Rightarrow> bool" where
  "lease_ok s \<longleftrightarrow> (ls_tokens s = 1 \<and> holders s = {}) \<or> (ls_tokens s = 0 \<and> (\<exists>i. holders s = {i}))"

lemma lease_ok_step: "lease_step s s' \<Longrightarrow> lease_ok s \<Longrightarrow> lease_ok s'"
proof (induction rule: lease_step.induct)
  case (Release s i r)
  then show ?case using holder_iff [of s i "Leaving r"] by (auto simp: lease_ok_def holders_at)
qed (auto simp: lease_ok_def holders_at dest: holder_iff waiting_no_holder)

lemma lease_ok_reached: "reached s \<Longrightarrow> lease_ok s"
proof (induction rule: reached.induct)
  case Start
  show ?case by (simp add: lease_ok_def lease_initial_def holders_def)
next
  case (Step s s')
  then show ?case by (blast intro: lease_ok_step)
qed

lemma acting_holds: "ls_places s i = Some Acting \<Longrightarrow> i \<in> holders s"
  by (simp add: holders_def)

text \<open>C39: Two actions never run at once, however the calls interleave, fail, panic or are cancelled, and a call
  that has finished its action is never stuck: it can put the token back.\<close>

theorem workspace_write_exclusive:
  assumes "reached s"
  shows "(ls_places s i = Some Acting \<longrightarrow> ls_places s j = Some Acting \<longrightarrow> i = j)
     \<and> (ls_places s i = Some (Leaving r) \<longrightarrow> (\<exists>s'. lease_step s s' \<and> ls_places s' i = Some (Returned r)))"
proof
  note ok = lease_ok_reached [OF assms, unfolded lease_ok_def]
  show "ls_places s i = Some Acting \<longrightarrow> ls_places s j = Some Acting \<longrightarrow> i = j"
    using ok acting_holds [of s i] acting_holds [of s j] by auto
  show "ls_places s i = Some (Leaving r) \<longrightarrow> (\<exists>s'. lease_step s s' \<and> ls_places s' i = Some (Returned r))"
  proof
    assume leaving: "ls_places s i = Some (Leaving r)"
    then have "i \<in> holders s" by (simp add: holder_iff)
    then have "ls_tokens s < 1" using ok by auto
    from Release [OF leaving this] show "\<exists>s'. lease_step s s' \<and> ls_places s' i = Some (Returned r)"
      by (auto intro!: exI)
  qed
qed

lemma workspace_write_witness:
  "\<exists>s. reached s \<and> ls_places s 1 = Some Acting \<and> (\<forall>j. ls_places s j = Some Acting \<longrightarrow> j = 1)"
proof -
  let ?s1 = "at 1 Waiting lease_initial"
  let ?s2 = "at 1 Entered (?s1\<lparr>ls_tokens := ls_tokens ?s1 - 1\<rparr>)"
  let ?s3 = "at 1 Acting ?s2"
  have "lease_step lease_initial ?s1" by (rule Call) (simp add: lease_initial_def)
  moreover have "lease_step ?s1 ?s2" by (rule Take) (simp_all add: lease_initial_def)
  moreover have "lease_step ?s2 ?s3" by (rule Act) simp
  ultimately have r: "reached ?s3" using Start Step by blast
  have acting: "ls_places ?s3 1 = Some Acting" by simp
  have "ls_places ?s3 j = Some Acting \<longrightarrow> j = 1" for j
    using conjunct1 [OF workspace_write_exclusive [OF r, of j 1]] acting by blast
  then show ?thesis using r acting by blast
qed

text \<open>
  Whenever the token is away, the call that has it can move on, and when no call has it, a waiting call
  can take it: the lease is never lost.
\<close>

lemma lease_never_lost:
  assumes "reached s" and "ls_places s i = Some Waiting"
  shows "(\<exists>s'. lease_step s s' \<and> ls_places s' i = Some Entered) \<or> (\<exists>j. holders s = {j})"
proof -
  from lease_ok_reached [OF assms(1)] show ?thesis
  proof (unfold lease_ok_def, elim disjE conjE)
    assume "ls_tokens s = 1"
    then have "lease_step s (at i Entered (s\<lparr>ls_tokens := ls_tokens s - 1\<rparr>))"
      using assms(2) by (intro Take) simp_all
    then show ?thesis by auto
  qed blast
qed

end
