(* ===== verification/Terminal_Sanitizer.thy ===== *)
theory Terminal_Sanitizer
  imports Go_Regexp
begin

text \<open>
  The filter that a terminal's output passes on its way to clients (\<open>runtimeapi/terminal_sanitize.go\<close>): a
  byte machine that drops escape sequences other than a few CSI ones, and control bytes, followed by a rune
  filter that drops invalid UTF-8 and the controls of bidirectional text. Both keep state between the chunks
  in which the output arrives. The source's slices share arrays between calls; every append copies forward
  into bytes that were read before, so lists give the same contents.
\<close>

section \<open>The byte machine\<close>

datatype escape_state = EscapeText | EscapeStart | EscapeCSI | EscapeString | EscapeStringEnd

record sanitizer =
  sn_state :: escape_state
  sn_csi :: string
  sn_pending :: string

definition newTerminalOutputSanitizer :: sanitizer where
  "newTerminalOutputSanitizer = \<lparr>sn_state = EscapeText, sn_csi = [], sn_pending = []\<rparr>"

definition safeCSIFinal :: "char \<Rightarrow> bool" where
  "safeCSIFinal c \<longleftrightarrow> List.member ''ABCDEFGHJKSTfm'' c"

definition csi_final :: "char \<Rightarrow> bool" where
  "csi_final c \<longleftrightarrow> 0x40 \<le> code c \<and> code c \<le> 0x7E"

abbreviation ESC :: char where
  "ESC \<equiv> CHR 0x1B"

definition printable :: "char \<Rightarrow> bool" where
  "printable c \<longleftrightarrow> \<not> (code c < 0x20 \<and> \<not> List.member [CHR 0x08, CHR 0x09, CHR 0x0A, CHR 0x0D] c) \<and> c \<noteq> CHR 0x7F"

text \<open>One byte: the new state and the bytes that pass.\<close>

definition push_byte :: "char \<Rightarrow> sanitizer \<Rightarrow> sanitizer \<times> string" where
  "push_byte c s =
     (case sn_state s of
        EscapeText \<Rightarrow>
          if c = ESC then (s\<lparr>sn_state := EscapeStart\<rparr>, [])
          else (s, if printable c then [c] else [])
      | EscapeStart \<Rightarrow>
          if c = CHR ''['' then (s\<lparr>sn_state := EscapeCSI, sn_csi := [ESC, CHR ''['']\<rparr>, [])
          else if List.member '']P_^'' c then (s\<lparr>sn_state := EscapeString\<rparr>, [])
          else (s\<lparr>sn_state := EscapeText\<rparr>, [])
      | EscapeCSI \<Rightarrow>
          if 64 \<le> length (sn_csi s) then (s\<lparr>sn_state := EscapeText, sn_csi := []\<rparr>, [])
          else if csi_final c then
            (s\<lparr>sn_state := EscapeText, sn_csi := []\<rparr>, if safeCSIFinal c then sn_csi s @ [c] else [])
          else (s\<lparr>sn_csi := sn_csi s @ [c]\<rparr>, [])
      | EscapeString \<Rightarrow>
          if c = CHR 0x07 then (s\<lparr>sn_state := EscapeText\<rparr>, [])
          else if c = ESC then (s\<lparr>sn_state := EscapeStringEnd\<rparr>, [])
          else (s, [])
      | EscapeStringEnd \<Rightarrow>
          if c = CHR 0x5C then (s\<lparr>sn_state := EscapeText\<rparr>, [])
          else if c \<noteq> ESC then (s\<lparr>sn_state := EscapeString\<rparr>, [])
          else (s, []))"

fun push_bytes :: "string \<Rightarrow> sanitizer \<Rightarrow> sanitizer \<times> string" where
  "push_bytes [] s = (s, [])"
| "push_bytes (c # r) s =
     (case push_byte c s of (s1, out1) \<Rightarrow>
      case push_bytes r s1 of (s2, out2) \<Rightarrow> (s2, out1 @ out2))"

section \<open>The rune filter\<close>

text \<open>\<open>utf8.FullRune\<close>: the bytes begin with a whole rune, or with bytes that begin none.\<close>

definition rune_size :: "char \<Rightarrow> nat" where
  "rune_size c =
     (if within 0xC2 0xDF c then 2 else if within 0xE0 0xEF c then 3 else if within 0xF0 0xF4 c then 4 else 1)"

definition second_byte :: "char \<Rightarrow> char \<Rightarrow> bool" where
  "second_byte c = within
     (if code c = 0xE0 then 0xA0 else if code c = 0xF0 then 0x90 else 0x80)
     (if code c = 0xED then 0x9F else if code c = 0xF4 then 0x8F else 0xBF)"

definition FullRune :: "string \<Rightarrow> bool" where
  "FullRune s =
     (case s of
        [] \<Rightarrow> False
      | c # r \<Rightarrow>
          rune_size c \<le> length s
        \<or> (case r of [] \<Rightarrow> False
           | c1 # r1 \<Rightarrow> \<not> second_byte c c1
             \<or> (case r1 of [] \<Rightarrow> False | c2 # _ \<Rightarrow> \<not> within 0x80 0xBF c2)))"

definition isBidiControl :: "nat \<Rightarrow> bool" where
  "isBidiControl v \<longleftrightarrow>
     v = 0x061C \<or> v = 0x200E \<or> v = 0x200F \<or> 0x202A \<le> v \<and> v \<le> 0x202E \<or> 0x2066 \<le> v \<and> v \<le> 0x2069"

text \<open>What passes, and the bytes kept for the next call.\<close>

function filterUnicode :: "bool \<Rightarrow> string \<Rightarrow> string \<times> string" where
  "filterUnicode flush [] = ([], [])"
| "filterUnicode flush (c # r) =
     (if \<not> FullRune (c # r) then (if flush then ([], []) else ([], c # r))
      else
        (case decode_rune (c # r) of
           None \<Rightarrow> filterUnicode flush r
         | Some (v, n) \<Rightarrow>
             (case filterUnicode flush (drop (n - 1) r) of (out, rest) \<Rightarrow>
               ((if isBidiControl v then out else c # take (n - 1) r @ out), rest))))"
  by pat_completeness auto
termination
  by (relation "measure (length o snd)") (auto simp: less_Suc_eq_le)

section \<open>The operations\<close>

definition sanitizer_Push :: "string \<Rightarrow> sanitizer \<Rightarrow> string \<times> sanitizer" where
  "sanitizer_Push data s =
     (case push_bytes data s of (s1, filtered) \<Rightarrow>
      case filterUnicode False (sn_pending s @ filtered) of (out, rest) \<Rightarrow> (out, s1\<lparr>sn_pending := rest\<rparr>))"

definition sanitizer_Flush :: "sanitizer \<Rightarrow> string \<times> sanitizer" where
  "sanitizer_Flush s =
     (fst (filterUnicode True (sn_pending s)), s\<lparr>sn_state := EscapeText, sn_csi := [], sn_pending := []\<rparr>)"

text \<open>The chunks of a stream, one after the other.\<close>

fun push_chunks :: "string list \<Rightarrow> sanitizer \<Rightarrow> string \<times> sanitizer" where
  "push_chunks [] s = ([], s)"
| "push_chunks (d # ds) s =
     (case sanitizer_Push d s of (out, s1) \<Rightarrow> case push_chunks ds s1 of (outs, s2) \<Rightarrow> (out @ outs, s2))"

section \<open>Chunks\<close>

lemma push_byte_pending [simp]: "sn_pending (fst (push_byte c s)) = sn_pending s"
  by (cases "sn_state s") (simp_all add: push_byte_def)

lemma push_bytes_pending [simp]: "sn_pending (fst (push_bytes d s)) = sn_pending s"
  by (induction d arbitrary: s) (simp_all add: split_def)

lemma push_byte_ignores: "push_byte c (s\<lparr>sn_pending := p\<rparr>) = map_prod (\<lambda>t. t\<lparr>sn_pending := p\<rparr>) id (push_byte c s)"
  by (cases "sn_state s"; cases s) (simp_all add: push_byte_def)

lemma push_bytes_ignores:
  "push_bytes d (s\<lparr>sn_pending := p\<rparr>) = map_prod (\<lambda>t. t\<lparr>sn_pending := p\<rparr>) id (push_bytes d s)"
  by (induction d arbitrary: s) (simp_all add: push_byte_ignores split_def map_prod_def)

lemma push_bytes_append:
  "push_bytes (a @ b) s =
     (case push_bytes a s of (s1, out1) \<Rightarrow> case push_bytes b s1 of (s2, out2) \<Rightarrow> (s2, out1 @ out2))"
  by (induction a arbitrary: s) (simp_all add: split_def)

lemma FullRune_append: "FullRune s \<Longrightarrow> FullRune (s @ t)"
  by (cases s) (auto simp: FullRune_def split: list.splits)

lemma rune_kinds:
  obtains (one) "rune_size c = 1" "\<not> (0xC2 \<le> code c \<and> code c \<le> 0xF4)"
    | (two) "rune_size c = 2" "0xC2 \<le> code c" "code c \<le> 0xDF"
    | (three) "rune_size c = 3" "0xE0 \<le> code c" "code c \<le> 0xEF"
    | (four) "rune_size c = 4" "0xF0 \<le> code c" "code c \<le> 0xF4"
  by (force simp: rune_size_def within_def)

lemma decode_three:
  assumes "0xE0 \<le> code c" "code c \<le> 0xEF"
  shows "decode_rune (c # c1 # c2 # r) = (if second_byte c c1 \<and> within 0x80 0xBF c2
      then Some ((code c - 0xE0) * 0x1000 + (code c1 - 0x80) * 0x40 + (code c2 - 0x80), 3) else None)"
    and "decode_rune [c] = None" and "decode_rune [c, c1] = None"
proof -
  have "second_byte c = within (if code c = 0xE0 then 0xA0 else 0x80) (if code c = 0xED then 0x9F else 0xBF)"
    using assms by (auto simp: second_byte_def)
  with assms show "decode_rune (c # c1 # c2 # r) = (if second_byte c c1 \<and> within 0x80 0xBF c2
      then Some ((code c - 0xE0) * 0x1000 + (code c1 - 0x80) * 0x40 + (code c2 - 0x80), 3) else None)"
    by (simp add: decode_rune_def Let_def)
qed (use assms in \<open>simp_all add: decode_rune_def Let_def\<close>)

lemma decode_four:
  assumes "0xF0 \<le> code c" "code c \<le> 0xF4"
  shows "decode_rune (c # c1 # c2 # c3 # r) =
      (if second_byte c c1 \<and> within 0x80 0xBF c2 \<and> within 0x80 0xBF c3
       then Some ((code c - 0xF0) * 0x40000 + (code c1 - 0x80) * 0x1000 + (code c2 - 0x80) * 0x40 + (code c3 - 0x80), 4)
       else None)"
    and "decode_rune [c] = None" and "decode_rune [c, c1] = None" and "decode_rune [c, c1, c2] = None"
proof -
  have "second_byte c = within (if code c = 0xF0 then 0x90 else 0x80) (if code c = 0xF4 then 0x8F else 0xBF)"
    using assms by (auto simp: second_byte_def)
  with assms show "decode_rune (c # c1 # c2 # c3 # r) =
      (if second_byte c c1 \<and> within 0x80 0xBF c2 \<and> within 0x80 0xBF c3
       then Some ((code c - 0xF0) * 0x40000 + (code c1 - 0x80) * 0x1000 + (code c2 - 0x80) * 0x40 + (code c3 - 0x80), 4)
       else None)"
    by (simp add: decode_rune_def Let_def)
qed (use assms in \<open>simp_all add: decode_rune_def Let_def\<close>)

text \<open>More bytes do not change how a full rune is decoded.\<close>

lemma decode_rune_full:
  assumes "FullRune s"
  shows "decode_rune (s @ t) = decode_rune s"
proof -
  obtain c r where s: "s = c # r" using assms by (cases s) (simp_all add: FullRune_def)
  show ?thesis
  proof (cases c rule: rune_kinds)
    case one
    then show ?thesis by (auto simp: s decode_rune_def Let_def)
  next
    case two
    then show ?thesis
      using assms by (auto simp: s FullRune_def decode_rune_def Let_def second_byte_def split: list.splits)
  next
    case three
    then consider c1 where "r = [c1]" "\<not> second_byte c c1" | c1 c2 r' where "r = c1 # c2 # r'"
      using assms by (cases r; cases "tl r") (auto simp: s FullRune_def)
    then show ?thesis by cases (cases t; simp add: s decode_three [OF three(2,3)])+
  next
    case four
    then consider c1 where "r = [c1]" "\<not> second_byte c c1"
      | c1 c2 where "r = [c1, c2]" "\<not> second_byte c c1 \<or> \<not> within 0x80 0xBF c2" | c1 c2 c3 r' where "r = c1 # c2 # c3 # r'"
      using assms by (cases r; cases "tl r"; cases "tl (tl r)") (auto simp: s FullRune_def)
    then show ?thesis
      by cases (cases t; cases "tl t"; auto simp: s decode_four [OF four(2,3)])+
  qed
qed

lemma decode_rune_is_full: "decode_rune s = Some vn \<Longrightarrow> FullRune s"
  by (cases s)
    (auto simp: FullRune_def decode_rune_def Let_def rune_size_def within_def split: list.splits if_splits)

end
