(* ===== verification/Sanitizer_Properties.thy ===== *)
theory Sanitizer_Properties
  imports Terminal_Sanitizer
begin

text \<open>
  What the terminal filter does: how a program's output is cut into chunks makes no difference, what
  passes is bytes of text and CSI sequences of the allowed kinds in valid UTF-8 without bidirectional controls,
  and it passes a second filter unchanged. Two unwanted things it lets through are shown at the end.
\<close>

section \<open>Chunks\<close>

lemma decode_rune_length: "decode_rune (c # r) = Some (v, n) \<Longrightarrow> n - 1 \<le> length r"
  by (erule decode_rune_cases) auto

lemma filterUnicode_append:
  "filterUnicode False (a @ b) =
     (case filterUnicode False a of (out1, rest) \<Rightarrow>
      case filterUnicode False (rest @ b) of (out2, rest2) \<Rightarrow> (out1 @ out2, rest2))"
proof (induction False a rule: filterUnicode.induct)
  case (2 c r)
  show ?case
  proof (cases "FullRune (c # r)")
    case True
    have full: "FullRune (c # r @ b)" using FullRune_append [OF True, of b] by simp
    have dec: "decode_rune (c # r @ b) = decode_rune (c # r)" using decode_rune_full [OF True, of b] by simp
    show ?thesis
    proof (cases "decode_rune (c # r)")
      case None
      then show ?thesis using 2(1) True full dec by simp
    next
      case (Some vn)
      obtain v n where vn: "vn = (v, n)" by (cases vn)
      have "n - 1 \<le> length r" using decode_rune_length Some vn by simp
      then show ?thesis
        using 2(2) True full dec Some vn by (simp add: split_def)
    qed
  qed simp
qed simp

lemma Push_append:
  "sanitizer_Push (a @ b) s =
     (case sanitizer_Push a s of (out1, s1) \<Rightarrow>
      case sanitizer_Push b s1 of (out2, s2) \<Rightarrow> (out1 @ out2, s2))"
proof -
  obtain s1 f1 where a: "push_bytes a s = (s1, f1)" by fastforce
  obtain s2 f2 where b: "push_bytes b s1 = (s2, f2)" by fastforce
  obtain out1 rest where f: "filterUnicode False (sn_pending s @ f1) = (out1, rest)" by fastforce
  show ?thesis
    using filterUnicode_append [of "sn_pending s @ f1" f2] f
    by (simp add: sanitizer_Push_def push_bytes_append a b push_bytes_ignores split_def)
qed

lemma FullRune_single: "filterUnicode False s = (out, rest) \<Longrightarrow> rest = [] \<or> \<not> FullRune rest"
  by (induction False s arbitrary: out rule: filterUnicode.induct)
    (auto split: if_splits option.splits prod.splits)

lemma filterUnicode_rest: "filterUnicode False s = (out, rest) \<Longrightarrow> filterUnicode False rest = ([], rest)"
  by (drule FullRune_single) (cases rest, auto)

text \<open>Pushing nothing changes nothing, once the kept bytes are those of an earlier call.\<close>

definition waiting :: "sanitizer \<Rightarrow> bool" where
  "waiting s \<longleftrightarrow> sn_pending s = [] \<or> \<not> FullRune (sn_pending s)"

lemma Push_waiting: "waiting (snd (sanitizer_Push d s))"
  using FullRune_single by (auto simp: sanitizer_Push_def waiting_def split: prod.splits)

lemma Push_nothing: "waiting s \<Longrightarrow> sanitizer_Push [] s = ([], s)"
  by (cases "sn_pending s") (auto simp: sanitizer_Push_def waiting_def)

lemma push_chunks_concat: "waiting s \<Longrightarrow> push_chunks ds s = sanitizer_Push (concat ds) s"
proof (induction ds arbitrary: s)
  case (Cons d ds)
  show ?case using Cons.IH [OF Push_waiting] by (simp add: Push_append split_def)
qed (simp add: Push_nothing)

text \<open>C25: however the output of a terminal is cut into chunks, in the middle of an escape sequence or of a rune,
  the bytes that pass and the state of the filter are those of pushing it at once.
\<close>

theorem chunking_is_invisible:
  "push_chunks chunks newTerminalOutputSanitizer = sanitizer_Push (concat chunks) newTerminalOutputSanitizer"
  by (rule push_chunks_concat) (simp add: waiting_def newTerminalOutputSanitizer_def)

section \<open>What passes\<close>

text \<open>
  The language of safe output: printable bytes, and CSI sequences of at most 64 bytes that end in an allowed
  final byte. The number is that of the bytes of the sequence so far.
\<close>

datatype shown = Plain | Escaped | Control nat

fun accepts :: "shown \<Rightarrow> string \<Rightarrow> bool" where
  "accepts st [] \<longleftrightarrow> st = Plain"
| "accepts Plain (c # r) \<longleftrightarrow> (if c = ESC then accepts Escaped r else printable c \<and> accepts Plain r)"
| "accepts Escaped (c # r) \<longleftrightarrow> c = CHR ''['' \<and> accepts (Control 2) r"
| "accepts (Control n) (c # r) \<longleftrightarrow> n < 64 \<and>
     (if csi_final c then safeCSIFinal c \<and> accepts Plain r else accepts (Control (n + 1)) r)"

lemma accepts_append: "accepts st a \<Longrightarrow> accepts Plain b \<Longrightarrow> accepts st (a @ b)"
  by (induction st a rule: accepts.induct) (auto split: if_splits)

lemma accepts_fewer: "accepts (Control n) s \<Longrightarrow> m \<le> n \<Longrightarrow> accepts (Control m) s"
proof (induction "Control n" s arbitrary: n m rule: accepts.induct)
  case (4 n c r)
  then show ?case by (auto split: if_splits)
qed simp

text \<open>The sequence under construction.\<close>

definition csi_ok :: "sanitizer \<Rightarrow> bool" where
  "csi_ok s \<longleftrightarrow> (sn_state s = EscapeCSI \<longrightarrow>
     (\<exists>ps. sn_csi s = [ESC, CHR ''[''] @ ps \<and> list_all (\<lambda>c. \<not> csi_final c) ps \<and> length (sn_csi s) \<le> 64))"

lemma accepts_params: "list_all (\<lambda>c. \<not> csi_final c) ps \<Longrightarrow> n + length ps < 64 \<Longrightarrow> csi_final c \<Longrightarrow> safeCSIFinal c
    \<Longrightarrow> accepts (Control n) (ps @ [c])"
  by (induction ps arbitrary: n) auto

lemma push_byte_accepts:
  assumes "csi_ok s" and "push_byte c s = (s', out)"
  shows "csi_ok s' \<and> accepts Plain out"
proof (cases "sn_state s")
  case EscapeCSI
  then obtain ps where ps: "sn_csi s = [ESC, CHR ''[''] @ ps" "list_all (\<lambda>c. \<not> csi_final c) ps"
      "length (sn_csi s) \<le> 64"
    using assms(1) by (auto simp: csi_ok_def)
  then have "accepts Plain (sn_csi s @ [c])" if "csi_final c" "safeCSIFinal c" "length (sn_csi s) < 64"
    using accepts_params [of ps 2 c] that by simp
  then show ?thesis
    using assms(2) EscapeCSI ps by (auto simp: push_byte_def csi_ok_def split: if_splits)
qed (use assms in \<open>auto simp: push_byte_def csi_ok_def split: if_splits\<close>)

lemma push_bytes_accepts:
  "csi_ok s \<Longrightarrow> push_bytes d s = (s', out) \<Longrightarrow> csi_ok s' \<and> accepts Plain out"
proof (induction d arbitrary: s s' out)
  case (Cons c d)
  obtain s1 out1 where one: "push_byte c s = (s1, out1)" by fastforce
  obtain s2 out2 where rest: "push_bytes d s1 = (s2, out2)" by fastforce
  have "csi_ok s1" "accepts Plain out1" using push_byte_accepts [OF Cons.prems(1) one] by simp_all
  then show ?case using Cons.IH [OF _ rest] Cons.prems(2) one rest accepts_append by auto
qed simp

text \<open>Bytes above the ASCII range can be left out anywhere.\<close>

lemma high_byte: "0x80 \<le> code c \<Longrightarrow> c \<noteq> ESC \<and> c \<noteq> CHR ''['' \<and> printable c \<and> \<not> csi_final c"
  by (auto simp: printable_def csi_final_def)

lemma accepts_high: "0x80 \<le> code c \<Longrightarrow> accepts st (c # r) \<Longrightarrow> accepts st r"
  using high_byte [of c] by (cases st) (auto intro: accepts_fewer)

lemma accepts_highs: "list_all (\<lambda>c. 0x80 \<le> code c) hs \<Longrightarrow> accepts st (hs @ r) \<Longrightarrow> accepts st r"
  by (induction hs) (auto dest: accepts_high)

lemma accepts_high_kept:
  assumes "0x80 \<le> code c" and "accepts st (c # r)" and "\<And>st. accepts st r \<Longrightarrow> accepts st r'"
  shows "accepts st (c # r')"
  using assms high_byte [of c] by (cases st) auto

lemma accepts_highs_kept:
  "list_all (\<lambda>c. 0x80 \<le> code c) hs \<Longrightarrow> accepts st (hs @ r) \<Longrightarrow> (\<And>st. accepts st r \<Longrightarrow> accepts st r')
     \<Longrightarrow> accepts st (hs @ r')"
  by (induction hs arbitrary: st) (auto elim!: accepts_high_kept)

lemma invalid_byte_high: "decode_rune (c # r) = None \<Longrightarrow> 0x80 \<le> code c"
  by (rule ccontr) simp

lemma not_full_high: "\<not> FullRune (c # r) \<Longrightarrow> list_all (\<lambda>d. 0x80 \<le> code d) (c # r)"
  by (cases c rule: rune_kinds; cases r; cases "tl r"; cases "tl (tl r)")
    (auto simp: FullRune_def second_byte_def within_def split: if_splits)

text \<open>One round of the rune filter.\<close>

lemma filter_round:
  assumes "filterUnicode False (c # r) = (out, rest)"
  obtains (partial) "out = []" "rest = c # r" "list_all (\<lambda>d. 0x80 \<le> code d) (c # r)"
    | (invalid) "0x80 \<le> code c" "filterUnicode False r = (out, rest)"
    | (ascii) out' where "code c < 0x80" "out = c # out'" "filterUnicode False r = (out', rest)"
    | (wide) bs r' v out' where "r = bs @ r'" "list_all (\<lambda>d. 0x80 \<le> code d) (c # bs)"
        "filterUnicode False r' = (out', rest)" "out = (if isBidiControl v then out' else (c # bs) @ out')"
        "\<And>x. decode_rune ((c # bs) @ x) = Some (v, Suc (length bs))"
proof (cases "FullRune (c # r)")
  case False
  then show ?thesis using assms not_full_high [OF False] partial by simp
next
  case full: True
  show ?thesis
  proof (cases "decode_rune (c # r)")
    case None
    then show ?thesis using assms full invalid_byte_high [OF None] invalid by simp
  next
    case (Some vn)
    obtain v n where vn: "vn = (v, n)" by (cases vn)
    obtain out' where out': "filterUnicode False (drop (n - 1) r) = (out', rest)"
        "out = (if isBidiControl v then out' else c # take (n - 1) r @ out')"
      using assms full Some vn by (auto split: prod.splits)
    from Some vn have "decode_rune (c # r) = Some (v, n)" by simp
    then show ?thesis
    proof (cases rule: decode_rune_cases)
      case (1 c' r')
      then have "\<not> isBidiControl v" by (simp add: isBidiControl_def)
      then show ?thesis using 1 out' ascii by simp
    next
      case (2 c' bs r')
      then have "drop (n - 1) r = r'" "take (n - 1) r = bs" "c' = c" "r = bs @ r'" by auto
      then show ?thesis using 2 out' by (intro wide [of bs r' out' v]) auto
    qed
  qed
qed

lemma filterUnicode_accepts:
  "accepts st s \<Longrightarrow> filterUnicode False s = (out, rest) \<Longrightarrow> accepts st out"
proof (induction s arbitrary: st out rule: length_induct)
  case (1 s)
  note IH = 1(1)[rule_format]
  show ?case
  proof (cases s)
    case (Cons c r)
    from 1(3)[unfolded Cons] show ?thesis
    proof (cases rule: filter_round)
      case partial
      then show ?thesis using accepts_highs [of "c # r" st "[]"] 1(2) Cons by simp
    next
      case invalid
      then show ?thesis using IH [of r st out] accepts_high 1(2) Cons by simp
    next
      case (ascii out')
      then show ?thesis using IH [of r _ out'] 1(2) Cons by (cases st) (auto split: if_splits)
    next
      case (wide bs r' v out')
      have "accepts st' r' \<Longrightarrow> accepts st' out'" for st' using IH [of r' st' out'] wide Cons by simp
      then show ?thesis
        using wide 1(2) Cons accepts_highs [of "c # bs" st r'] accepts_highs_kept [of "c # bs" st r' out'] by simp
    qed
  qed (use 1 in simp)
qed

text \<open>Clean text: valid UTF-8 without bidirectional controls.\<close>

definition clean :: "string \<Rightarrow> bool" where
  "clean s \<longleftrightarrow> list_all (\<lambda>r. r \<noteq> None \<and> \<not> isBidiControl (the r)) (decode s)"

lemma clean_Nil [simp]: "clean []"
  by (simp add: clean_def)

lemma clean_wide: "decode_rune ((c # bs) @ r) = Some (v, Suc (length bs)) \<Longrightarrow> clean ((c # bs) @ r) \<longleftrightarrow> \<not> isBidiControl v \<and> clean r"
  by (simp add: clean_def)

lemma clean_ascii: "code c < 0x80 \<Longrightarrow> clean (c # r) \<longleftrightarrow> clean r"
  by (simp add: clean_def isBidiControl_def)

lemma filterUnicode_clean: "filterUnicode False s = (out, rest) \<Longrightarrow> clean out"
proof (induction s arbitrary: out rule: length_induct)
  case (1 s)
  note IH = 1(1)[rule_format]
  show ?case
  proof (cases s)
    case (Cons c r)
    from 1(2)[unfolded Cons] show ?thesis
    proof (cases rule: filter_round)
      case invalid
      then show ?thesis using IH [of r out] Cons by simp
    next
      case (ascii out')
      then show ?thesis using IH [of r out'] Cons by (simp add: clean_ascii)
    next
      case (wide bs r' v out')
      then show ?thesis using IH [of r' out'] Cons clean_wide [OF wide(5), of out'] by simp
    qed simp
  qed (use 1 in simp)
qed

lemma clean_filterUnicode: "clean s \<Longrightarrow> filterUnicode False s = (s, [])"
proof (induction s rule: length_induct)
  case (1 s)
  note IH = 1(1)[rule_format]
  show ?case
  proof (cases s)
    case (Cons c r)
    obtain v n where v: "decode_rune (c # r) = Some (v, n)" "\<not> isBidiControl v" "clean (drop (n - 1) r)"
      using 1(2) Cons by (auto simp: clean_def split: option.splits)
    have full: "FullRune (c # r)" by (rule decode_rune_is_full [OF v(1)])
    have "filterUnicode False (drop (n - 1) r) = (drop (n - 1) r, [])"
      using IH [of "drop (n - 1) r"] v(3) Cons by simp
    then show ?thesis using full v Cons by simp
  qed simp
qed

text \<open>Whatever bytes a program writes, in whatever chunks, what passes after each chunk is valid UTF-8
  without bidirectional controls, and consists of bytes from 0x20 on but 0x7F, backspace, tab, line feed,
  carriage return and CSI sequences of at most 64 bytes that end in one of the allowed final bytes. Among the
  bytes are those of the C1 controls, and within a CSI sequence any byte passes (\<open>c1_control_passes\<close>,
  \<open>controls_pass_in_sequences\<close>), so this is what the filter does and not that its output is safe.
\<close>

theorem sanitized_output_is_safe:
  "let out = fst (push_chunks chunks newTerminalOutputSanitizer) in accepts Plain out \<and> clean out"
proof -
  obtain s1 filtered where p: "push_bytes (concat chunks) newTerminalOutputSanitizer = (s1, filtered)" by fastforce
  obtain out rest where f: "filterUnicode False filtered = (out, rest)" by fastforce
  have "accepts Plain filtered"
    using push_bytes_accepts [OF _ p] by (simp add: csi_ok_def newTerminalOutputSanitizer_def)
  then have "accepts Plain out" "clean out"
    using filterUnicode_accepts filterUnicode_clean f by blast+
  moreover have "fst (push_chunks chunks newTerminalOutputSanitizer) = out"
    using push_chunks_concat [of newTerminalOutputSanitizer chunks] p f
    by (simp add: waiting_def newTerminalOutputSanitizer_def sanitizer_Push_def)
  ultimately show ?thesis by simp
qed

section \<open>A second filter\<close>

text \<open>The machine in the middle of a safe sequence has kept what was read of it.\<close>

definition holds :: "shown \<Rightarrow> sanitizer \<Rightarrow> string \<Rightarrow> bool" where
  "holds st s kept \<longleftrightarrow>
     (case st of
        Plain \<Rightarrow> sn_state s = EscapeText \<and> kept = []
      | Escaped \<Rightarrow> sn_state s = EscapeStart \<and> kept = [ESC]
      | Control n \<Rightarrow> sn_state s = EscapeCSI \<and> kept = sn_csi s \<and> n = length (sn_csi s))"

lemma accepted_passes:
  "accepts st r \<Longrightarrow> holds st s kept \<Longrightarrow> \<exists>s'. push_bytes r s = (s', kept @ r) \<and> sn_state s' = EscapeText"
proof (induction st r arbitrary: s kept rule: accepts.induct)
  case (1 st)
  then show ?case by (simp add: holds_def)
next
  case (2 c r)
  show ?case
  proof (cases "c = ESC")
    case True
    then show ?thesis using 2(1) [of "s\<lparr>sn_state := EscapeStart\<rparr>" "[ESC]"] 2(3,4) by (auto simp: holds_def push_byte_def)
  next
    case False
    then show ?thesis using 2(2) [of s "[]"] 2(3,4) by (auto simp: holds_def push_byte_def)
  qed
next
  case (3 c r)
  then show ?case
    using 3(1) [of "s\<lparr>sn_state := EscapeCSI, sn_csi := [ESC, CHR ''['']\<rparr>" "[ESC, CHR ''['']"]
    by (auto simp: holds_def push_byte_def)
next
  case (4 n c r)
  show ?case
  proof (cases "csi_final c")
    case True
    then show ?thesis
      using 4(1) [of "s\<lparr>sn_state := EscapeText, sn_csi := []\<rparr>" "[]"] 4(3,4) by (auto simp: holds_def push_byte_def)
  next
    case False
    then show ?thesis
      using 4(2) [of "s\<lparr>sn_csi := sn_csi s @ [c]\<rparr>" "sn_csi s @ [c]"] 4(3,4) by (auto simp: holds_def push_byte_def)
  qed
qed

text \<open>output that has passed the filter passes a fresh filter unchanged, and leaves nothing in it.\<close>

theorem sanitizing_is_idempotent:
  "let out = fst (push_chunks chunks newTerminalOutputSanitizer) in
     fst (sanitizer_Push out newTerminalOutputSanitizer) = out
   \<and> sn_pending (snd (sanitizer_Push out newTerminalOutputSanitizer)) = []"
proof -
  define s where "s = newTerminalOutputSanitizer"
  obtain s1 filtered where p: "push_bytes (concat chunks) s = (s1, filtered)" by fastforce
  obtain out rest where f: "filterUnicode False filtered = (out, rest)" by fastforce
  have chunks: "fst (push_chunks chunks s) = out"
    using push_chunks_concat [of s chunks] p f
    by (simp add: waiting_def s_def newTerminalOutputSanitizer_def sanitizer_Push_def)
  have "accepts Plain filtered"
    using push_bytes_accepts [OF _ p] by (simp add: csi_ok_def s_def newTerminalOutputSanitizer_def)
  then have "accepts Plain out" "clean out"
    using filterUnicode_accepts filterUnicode_clean f by blast+
  moreover obtain s2 where "push_bytes out s = (s2, out)"
    using accepted_passes [OF \<open>accepts Plain out\<close>, of s "[]"] by (auto simp: holds_def s_def newTerminalOutputSanitizer_def)
  ultimately show ?thesis
    using clean_filterUnicode [of out] chunks
    by (simp add: s_def [symmetric] sanitizer_Push_def Let_def) (simp add: s_def newTerminalOutputSanitizer_def)
qed

section \<open>What is lost and what gets through\<close>

text \<open>The last call of a terminal: nothing is ever written by it.\<close>

lemma Flush_writes_nothing: "waiting s \<Longrightarrow> fst (sanitizer_Flush s) = []"
  by (cases "sn_pending s") (auto simp: sanitizer_Flush_def waiting_def)

text \<open>
  The C1 controls of UTF-8 pass: U+009B, which terminals that implement them read as the introducer of a CSI
  sequence, here one that asks the terminal for a report, and which the filter would drop after an escape.
\<close>

lemmas sanitizer_eval =
  sanitizer_Push_def newTerminalOutputSanitizer_def push_byte_def printable_def csi_final_def safeCSIFinal_def
  FullRune_def rune_size_def decode_rune_def within_def isBidiControl_def Let_def

lemma c1_control_passes:
  "fst (sanitizer_Push [CHR 0xC2, CHR 0x9B, CHR ''6'', CHR ''n''] newTerminalOutputSanitizer)
     = [CHR 0xC2, CHR 0x9B, CHR ''6'', CHR ''n'']"
  "fst (sanitizer_Push [ESC, CHR ''['', CHR ''6'', CHR ''n''] newTerminalOutputSanitizer) = []"
  by (simp_all add: sanitizer_eval)

text \<open>
  The bytes between the introducer and the final byte are not looked at: control bytes that are dropped
  from text, here a bell and a shift out, pass inside a sequence, and so does an escape of two bytes.
\<close>

lemma controls_pass_in_sequences:
  "fst (sanitizer_Push [CHR 0x07, CHR 0x0E] newTerminalOutputSanitizer) = []"
  "fst (sanitizer_Push [ESC, CHR ''['', CHR 0x07, CHR 0x0E, CHR ''m''] newTerminalOutputSanitizer)
     = [ESC, CHR ''['', CHR 0x07, CHR 0x0E, CHR ''m'']"
  "fst (sanitizer_Push [ESC, CHR ''['', ESC, CHR ''H''] newTerminalOutputSanitizer) = [ESC, CHR ''['', ESC, CHR ''H'']"
  by (simp_all add: sanitizer_eval)

end
