(* ===== verification/Json_Value.thy ===== *)
theory Json_Value
  imports Go_Json Complex_Main
begin

text \<open>
  JSON values as \<open>encoding/json\<close> yields them: \<open>any\<close> values read with \<open>UseNumber\<close>, where a number is its
  literal (\<open>json\<close>), and without it, where a number is a \<open>float64\<close> (\<open>canon\<close>); rounding of a literal to a
  double; and unmarshalling a value into a Go struct, field by field, with Go's matching of keys to field
  names.

  A \<open>map[string]any\<close> is an association list in the order in which it is marshalled, by key. Two values
  are marshalled to the same text exactly if they are equal as \<open>canon\<close>, so \<open>canon\<close> stands for the text of
  \<open>CanonicalJSON\<close>.
\<close>

section \<open>Objects\<close>

datatype json =
    JNull | JBool bool | JNum string | JStr string | JArr "json list" | JObj "(string \<times> json) list"

fun key_less :: "string \<Rightarrow> string \<Rightarrow> bool" where
  "key_less _ [] = False"
| "key_less [] (_ # _) = True"
| "key_less (x # xs) (y # ys) = (if x = y then key_less xs ys else code x < code y)"

fun put_key :: "string \<Rightarrow> 'a \<Rightarrow> (string \<times> 'a) list \<Rightarrow> (string \<times> 'a) list" where
  "put_key k v [] = [(k, v)]"
| "put_key k v ((k', v') # kvs) =
     (if k = k' then (k, v) # kvs
      else if key_less k k' then (k, v) # (k', v') # kvs
      else (k', v') # put_key k v kvs)"

definition sorted_keys :: "(string \<times> 'a) list \<Rightarrow> bool" where
  "sorted_keys kvs \<longleftrightarrow> sorted_wrt key_less (map fst kvs)"

lemma key_less_irrefl [simp]: "\<not> key_less s s"
  by (induction s) auto

lemma key_less_trans: "key_less s t \<Longrightarrow> key_less t u \<Longrightarrow> key_less s u"
proof (induction s t arbitrary: u rule: key_less.induct)
  case (3 x xs y ys)
  then show ?case by (cases u) (auto split: if_splits)
qed (auto elim: key_less.elims)

lemma key_less_total: "s \<noteq> t \<Longrightarrow> \<not> key_less s t \<Longrightarrow> key_less t s"
proof (induction s t rule: key_less.induct)
  case (1 s)
  then show ?case by (cases s) auto
next
  case (3 x xs y ys)
  have "x \<noteq> y \<Longrightarrow> code x < code y \<or> code y < code x"
    using of_char_eq_iff [of x y, where ?'a = nat] by linarith
  with 3 show ?case by (auto split: if_splits)
qed auto

lemma map_of_put_key [simp]: "map_of (put_key k v kvs) = (map_of kvs)(k \<mapsto> v)"
  by (induction k v kvs rule: put_key.induct) auto

lemma put_key_fst: "set (map fst (put_key k v kvs)) = insert k (set (map fst kvs))"
  by (induction k v kvs rule: put_key.induct) auto

lemma put_key_in: "x \<in> set (put_key k v kvs) \<Longrightarrow> x = (k, v) \<or> x \<in> set kvs"
  by (induction k v kvs rule: put_key.induct) (auto split: if_splits)

lemma put_key_sorted: "sorted_keys kvs \<Longrightarrow> sorted_keys (put_key k v kvs)"
proof (induction k v kvs rule: put_key.induct)
  case (2 k v k' v' kvs)
  have less: "key_less k' (fst x)"
    if "k \<noteq> k'" "\<not> key_less k k'" "x \<in> set (put_key k v kvs)" for x
    using that "2.prems" key_less_total [of k k'] by (auto simp: sorted_keys_def dest!: put_key_in)
  show ?case
    using 2 less key_less_trans [of k k'] by (auto simp: sorted_keys_def)
qed (simp add: sorted_keys_def)

lemma sorted_keys_distinct: "sorted_keys kvs \<Longrightarrow> distinct (map fst kvs)"
  unfolding sorted_keys_def by (induction kvs) auto

lemma sorted_keys_Nil [simp]: "sorted_keys []"
  by (simp add: sorted_keys_def)

text \<open>\<open>object[key]\<close>: a missing key reads as \<open>nil\<close>.\<close>

definition get :: "(string \<times> json) list \<Rightarrow> string \<Rightarrow> json" where
  "get obj k = (case map_of obj k of None \<Rightarrow> JNull | Some v \<Rightarrow> v)"

lemma get_present: "get obj k \<noteq> JNull \<Longrightarrow> map_of obj k = Some (get obj k)"
  by (simp add: get_def split: option.splits)

section \<open>Number literals\<close>

definition digit_val :: "char \<Rightarrow> nat" where
  "digit_val c = code c - 48"

definition nat_of_digits :: "string \<Rightarrow> nat" where
  "nat_of_digits s = foldl (\<lambda>n c. 10 * n + digit_val c) 0 s"

definition strip_sign :: "string \<Rightarrow> bool \<times> string" where
  "strip_sign s =
     (case s of
        c # r \<Rightarrow> if c = CHR ''-'' then (True, r) else if c = CHR ''+'' then (False, r) else (False, s)
      | [] \<Rightarrow> (False, []))"

text \<open>\<open>strconv.ParseInt\<close> of a JSON number literal, base 10, 64 bits.\<close>

definition parse_int64 :: "string \<Rightarrow> int option" where
  "parse_int64 s =
     (case strip_sign s of (neg, ds) \<Rightarrow>
        if ds = [] \<or> \<not> list_all js_digit ds then None
        else (let n = (if neg then - int (nat_of_digits ds) else int (nat_of_digits ds)) in
              if - (2 ^ 63) \<le> n \<and> n < 2 ^ 63 then Some n else None))"

text \<open>The exact value of a literal: its sign and its magnitude.\<close>

definition literal_value :: "string \<Rightarrow> bool \<times> rat" where
  "literal_value s =
     (let (neg, u) = strip_sign s;
          mant = takeWhile (\<lambda>c. c \<noteq> CHR ''e'' \<and> c \<noteq> CHR ''E'') u;
          ex = drop (length mant + 1) u;
          whole = takeWhile js_digit mant;
          frac = drop (length whole + 1) mant;
          (eneg, eds) = strip_sign ex;
          m = rat_of_nat (nat_of_digits (whole @ frac)) / 10 ^ length frac
      in (neg, if eneg then m / 10 ^ nat_of_digits eds else m * 10 ^ nat_of_digits eds))"

section \<open>Doubles\<close>

text \<open>
  A finite double is its sign and its magnitude. \<open>round_double\<close> rounds a magnitude to the nearest double,
  to the even one of two; \<open>None\<close> is overflow.
\<close>

type_synonym double = "bool \<times> rat"

definition pow2 :: "int \<Rightarrow> rat" where
  "pow2 e = (if 0 \<le> e then 2 ^ nat e else 1 / 2 ^ nat (- e))"

fun bit_count :: "nat \<Rightarrow> nat" where
  "bit_count n = (if n = 0 then 0 else Suc (bit_count (n div 2)))"

declare bit_count.simps [simp del]

definition magnitude :: "rat \<Rightarrow> int" where
  "magnitude q =
     (case quotient_of q of (n, d) \<Rightarrow>
        let l = int (bit_count (nat n)) - int (bit_count (nat d)) in if pow2 l \<le> q then l else l - 1)"

definition round_even :: "rat \<Rightarrow> int" where
  "round_even q =
     (let r = \<lfloor>q\<rfloor>; f = q - of_int r in
      if f < 1 / 2 then r else if 1 / 2 < f then r + 1 else if even r then r else r + 1)"

definition round_double :: "rat \<Rightarrow> rat option" where
  "round_double q =
     (if q = 0 then Some 0
      else (let e = max (- 1074) (magnitude q - 52); v = of_int (round_even (q / pow2 e)) * pow2 e in
            if v < 2 ^ 1024 then Some v else None))"

text \<open>\<open>strconv.ParseFloat\<close> of a JSON number literal.\<close>

definition ParseFloat :: "string \<Rightarrow> double option" where
  "ParseFloat s =
     (case literal_value s of (neg, q) \<Rightarrow> map_option (Pair neg) (round_double q))"

definition float_of_int :: "int \<Rightarrow> double option" where
  "float_of_int i = map_option (Pair (i < 0)) (round_double (of_int \<bar>i\<bar>))"

lemma bit_count_bound: "0 < n \<Longrightarrow> 2 ^ (bit_count n - 1) \<le> n \<and> n < 2 ^ bit_count n"
proof (induction n rule: bit_count.induct)
  case (1 n)
  show ?case
  proof (cases "n div 2 = 0")
    case True
    with 1 show ?thesis by (simp add: bit_count.simps [of n] bit_count.simps [of 0])
  next
    case False
    then have IH: "2 ^ (bit_count (n div 2) - 1) \<le> n div 2" "n div 2 < 2 ^ bit_count (n div 2)"
      using 1 by simp_all
    have pos: "0 < bit_count (n div 2)" using False by (subst bit_count.simps) simp
    have "2 ^ bit_count (n div 2) = 2 * (2 :: nat) ^ (bit_count (n div 2) - 1)"
      using pos by (metis Suc_diff_1 power_Suc)
    moreover have "bit_count n - 1 = bit_count (n div 2)" "bit_count n = Suc (bit_count (n div 2))"
      using \<open>0 < n\<close> by (simp_all add: bit_count.simps [of n])
    ultimately show ?thesis
      using IH by (simp only: power_Suc) linarith
  qed
qed

lemma round_even_int [simp]: "round_even (of_int i) = i"
  by (simp add: round_even_def Let_def)

text \<open>Integers below 2^53 are doubles.\<close>

lemma round_double_int:
  assumes "0 \<le> i" "i < 2 ^ 53"
  shows "round_double (of_int i) = Some (of_int i)"
proof (cases "i = 0")
  case True
  then show ?thesis by (simp add: round_double_def)
next
  case False
  have quot: "quotient_of (of_int i) = (i, 1)" by (simp add: quotient_of_int)
  have one: "bit_count 1 = 1" by (simp add: bit_count.simps)
  have "2 ^ (bit_count (nat i) - 1) \<le> nat i" using False assms bit_count_bound [of "nat i"] by linarith
  then have "(2 :: nat) ^ (bit_count (nat i) - 1) < 2 ^ 53"
    using assms by (rule_tac order_le_less_trans [where y = "nat i"]) (simp_all add: nat_less_iff)
  then have "bit_count (nat i) - 1 < 53" by (rule power_less_imp_less_exp [rotated]) simp
  then have "magnitude (of_int i) \<le> 52 + 0 \<or> magnitude (of_int i) = 53 \<and> pow2 53 \<le> of_int i"
    using one by (auto simp: magnitude_def quot Let_def)
  moreover have "\<not> pow2 53 \<le> (of_int i :: rat)"
    using assms by (simp add: pow2_def)
  ultimately have mag: "magnitude (of_int i) \<le> 52" by linarith
  define e where "e = max (- 1074) (magnitude (of_int i :: rat) - 52)"
  have "e \<le> 0" using mag by (simp add: e_def)
  have "(of_int i :: rat) / pow2 e = of_int (i * 2 ^ nat (- e))"
    using \<open>e \<le> 0\<close> by (simp add: pow2_def)
  then have "round_even ((of_int i :: rat) / pow2 e) = i * 2 ^ nat (- e)"
    by (simp only: round_even_int)
  then have v: "of_int (round_even (of_int i / pow2 e)) * pow2 e = (of_int i :: rat)"
    using \<open>e \<le> 0\<close> by (simp add: pow2_def)
  have "(of_int i :: rat) < 2 ^ 53"
    using assms by (metis of_int_less_iff of_int_numeral of_int_power)
  then have "(of_int i :: rat) < 2 ^ 1024"
    by (rule order_less_trans) (rule power_strict_increasing, simp_all)
  then show ?thesis
    using False v by (simp add: round_double_def Let_def e_def)
qed

section \<open>Values without \<open>UseNumber\<close>\<close>

datatype canon =
    CNull | CBool bool | CNum double | CStr string | CArr "canon list" | CObj "(string \<times> canon) list"

fun all_some :: "'a option list \<Rightarrow> 'a list option" where
  "all_some [] = Some []"
| "all_some (None # xs) = None"
| "all_some (Some x # xs) = map_option ((#) x) (all_some xs)"

text \<open>
  Writing a value out and reading it back as \<open>any\<close>: \<open>None\<close> is a number that overflows. This is
  \<open>CanonicalJSON\<close>, up to the text.
\<close>

fun canonical :: "json \<Rightarrow> canon option" where
  "canonical JNull = Some CNull"
| "canonical (JBool b) = Some (CBool b)"
| "canonical (JNum s) = map_option CNum (ParseFloat s)"
| "canonical (JStr s) = Some (CStr s)"
| "canonical (JArr js) = map_option CArr (all_some (map canonical js))"
| "canonical (JObj kvs) =
     map_option (\<lambda>vs. CObj (fold (\<lambda>(k, v). put_key k v) vs []))
       (all_some (map (\<lambda>(k, v). map_option (Pair k) (canonical v)) kvs))"

definition canon_int :: "int \<Rightarrow> canon option" where
  "canon_int i = map_option CNum (float_of_int i)"

section \<open>Unmarshalling into Go values\<close>

text \<open>
  A decoder takes the JSON value and the present value of the variable; \<open>None\<close> is an error. \<open>null\<close>
  leaves a variable as it is, or clears a pointer, slice or map. A nil slice is the empty list.
\<close>

type_synonym 'a decoder = "json \<Rightarrow> 'a \<Rightarrow> 'a option"

definition dec_string :: "string decoder" where
  "dec_string j old = (case j of JStr s \<Rightarrow> Some s | JNull \<Rightarrow> Some old | _ \<Rightarrow> None)"

definition dec_bool :: "bool decoder" where
  "dec_bool j old = (case j of JBool b \<Rightarrow> Some b | JNull \<Rightarrow> Some old | _ \<Rightarrow> None)"

definition dec_int :: "int decoder" where
  "dec_int j old = (case j of JNum s \<Rightarrow> parse_int64 s | JNull \<Rightarrow> Some old | _ \<Rightarrow> None)"

definition dec_float :: "double decoder" where
  "dec_float j old = (case j of JNum s \<Rightarrow> ParseFloat s | JNull \<Rightarrow> Some old | _ \<Rightarrow> None)"

text \<open>A pointer: a fresh variable is allocated if there is none.\<close>

definition dec_ptr :: "'a decoder \<Rightarrow> 'a \<Rightarrow> 'a option decoder" where
  "dec_ptr dec zero j old =
     (if j = JNull then Some None
      else map_option Some (dec j (case old of None \<Rightarrow> zero | Some x \<Rightarrow> x)))"

text \<open>A slice: an element is decoded into the one already at its index.\<close>

fun dec_elems :: "'a decoder \<Rightarrow> 'a \<Rightarrow> json list \<Rightarrow> 'a list \<Rightarrow> 'a list option" where
  "dec_elems dec zero [] old = Some []"
| "dec_elems dec zero (j # js) old =
     (case dec j (case old of [] \<Rightarrow> zero | x # _ \<Rightarrow> x) of
        None \<Rightarrow> None
      | Some y \<Rightarrow> map_option ((#) y) (dec_elems dec zero js (tl old)))"

definition dec_slice :: "'a decoder \<Rightarrow> 'a \<Rightarrow> 'a list decoder" where
  "dec_slice dec zero j old =
     (case j of JNull \<Rightarrow> Some [] | JArr js \<Rightarrow> dec_elems dec zero js old | _ \<Rightarrow> None)"

text \<open>A \<open>map[string]any\<close>; \<open>None\<close> is the nil map.\<close>

fun dec_entries :: "(string \<times> json) list \<Rightarrow> (string \<times> canon) list \<Rightarrow> (string \<times> canon) list option" where
  "dec_entries [] m = Some m"
| "dec_entries ((k, j) # kvs) m =
     (case canonical j of None \<Rightarrow> None | Some v \<Rightarrow> dec_entries kvs (put_key k v m))"

definition dec_map :: "(string \<times> canon) list option decoder" where
  "dec_map j old =
     (case j of
        JNull \<Rightarrow> Some None
      | JObj kvs \<Rightarrow> map_option Some (dec_entries kvs (case old of None \<Rightarrow> [] | Some m \<Rightarrow> m))
      | _ \<Rightarrow> None)"

text \<open>
  A struct. A key is matched to the field of exactly that name, or else to the first field whose name
  agrees with it up to case: names are compared after folding ASCII letters to upper case, and the two
  other runes that fold to ASCII letters, U+017F and U+212A. Keys that match no field are ignored.
\<close>

function fold_name :: "string \<Rightarrow> string" where
  "fold_name s =
     (case s of
        [] \<Rightarrow> []
      | c # r \<Rightarrow>
          if take 2 s = [CHR 0xC5, CHR 0xBF] then CHR ''S'' # fold_name (drop 2 s)
          else if take 3 s = [CHR 0xE2, CHR 0x84, CHR 0xAA] then CHR ''K'' # fold_name (drop 3 s)
          else if 97 \<le> code c \<and> code c \<le> 122 then char_of (code c - 32) # fold_name r
          else c # fold_name r)"
  by pat_completeness auto
termination by (relation "measure length") auto

declare fold_name.simps [simp del]

text \<open>A field: its decoder, how it is read and how it is set.\<close>

definition field :: "'a decoder \<Rightarrow> ('r \<Rightarrow> 'a) \<Rightarrow> (('a \<Rightarrow> 'a) \<Rightarrow> 'r \<Rightarrow> 'r) \<Rightarrow> 'r decoder" where
  "field dec sel upd j r = map_option (\<lambda>x. upd (\<lambda>_. x) r) (dec j (sel r))"

definition match_field :: "(string \<times> 'a) list \<Rightarrow> string \<Rightarrow> 'a option" where
  "match_field table k =
     (case map_of table k of
        Some d \<Rightarrow> Some d
      | None \<Rightarrow> map_option snd (find (\<lambda>(n, _). fold_name n = fold_name k) table))"

fun dec_fields :: "(string \<times> 'r decoder) list \<Rightarrow> (string \<times> json) list \<Rightarrow> 'r \<Rightarrow> 'r option" where
  "dec_fields table [] r = Some r"
| "dec_fields table ((k, v) # kvs) r =
     (case match_field table k of
        None \<Rightarrow> dec_fields table kvs r
      | Some d \<Rightarrow> (case d v r of None \<Rightarrow> None | Some r' \<Rightarrow> dec_fields table kvs r'))"

definition dec_struct :: "(string \<times> 'r decoder) list \<Rightarrow> 'r decoder" where
  "dec_struct table j r =
     (case j of JNull \<Rightarrow> Some r | JObj kvs \<Rightarrow> dec_fields table kvs r | _ \<Rightarrow> None)"

lemmas dec_defs =
  dec_string_def dec_bool_def dec_int_def dec_float_def dec_ptr_def dec_slice_def dec_map_def
  dec_struct_def

end
