(* ===== verification/Product_Types.thy ===== *)
theory Product_Types
  imports Json_Value
begin

text \<open>
  The product event schema of \<open>productprotocol\<close>: events and the values their payloads carry, as records
  with the source's fields, each with the table of its JSON fields (the struct tags) by which a payload
  is unmarshalled into it.

  A \<open>json.RawMessage\<close> is modelled by the value it is the text of. The state package marshals every value
  it stores and reads it back (\<open>cloneState\<close>); strings read from JSON are valid UTF-8, doubles are printed
  exactly and integers are plain literals, so that is the identity on these records.
\<close>

section \<open>Events\<close>

definition SchemaVersion :: int where
  "SchemaVersion = 1"

definition EventKindKnown :: string where "EventKindKnown = ''known''"
definition EventKindUnknown :: string where "EventKindUnknown = ''unknown''"

record event_source =
  es_runtime :: string
  es_agent :: string
  es_tool_call :: string

record event_origin =
  eo_session :: string
  eo_sequence :: int
  eo_event :: string
  eo_topic :: string

record event =
  e_schema :: int
  e_id :: string
  e_task :: string
  e_cursor :: int
  e_time :: string
  e_type :: string
  e_source :: event_source
  e_payload :: json
  e_kind :: string
  e_origin :: "event_origin option"

section \<open>Plans, receipts, references, artifacts, interactions\<close>

record plan_state =
  pl_run :: string
  pl_revision :: int
  pl_steps :: "string list"

record tool_receipt =
  tr_call :: string
  tr_action :: string
  tr_tool :: string
  tr_success :: bool
  tr_effect :: string
  tr_evidence :: "string list"
  tr_artifacts :: "string list"

record evidence_reference =
  er_id :: string
  er_kind :: string
  er_source :: string
  er_artifacts :: "string list"

record artifact_state =
  ar_id :: string
  ar_reference :: string
  ar_kind :: string
  ar_sha256 :: string
  ar_evidence :: "string list"

record interaction_state =
  in_id :: string
  in_kind :: string
  in_action :: string
  in_status :: string
  in_outcome :: string

abbreviation dec_strings :: "string list decoder" where
  "dec_strings \<equiv> dec_slice dec_string []"

definition dec_plan :: "plan_state decoder" where
  "dec_plan = dec_struct
     [(''runId'', field dec_string pl_run pl_run_update),
      (''revision'', field dec_int pl_revision pl_revision_update),
      (''stepIds'', field dec_strings pl_steps pl_steps_update)]"

definition dec_tool_receipt :: "tool_receipt decoder" where
  "dec_tool_receipt = dec_struct
     [(''callId'', field dec_string tr_call tr_call_update),
      (''actionId'', field dec_string tr_action tr_action_update),
      (''tool'', field dec_string tr_tool tr_tool_update),
      (''success'', field dec_bool tr_success tr_success_update),
      (''effect'', field dec_string tr_effect tr_effect_update),
      (''evidenceIds'', field dec_strings tr_evidence tr_evidence_update),
      (''artifactRefs'', field dec_strings tr_artifacts tr_artifacts_update)]"

definition dec_evidence_reference :: "evidence_reference decoder" where
  "dec_evidence_reference = dec_struct
     [(''id'', field dec_string er_id er_id_update),
      (''kind'', field dec_string er_kind er_kind_update),
      (''sourceRef'', field dec_string er_source er_source_update),
      (''artifactRefs'', field dec_strings er_artifacts er_artifacts_update)]"

definition dec_artifact :: "artifact_state decoder" where
  "dec_artifact = dec_struct
     [(''id'', field dec_string ar_id ar_id_update),
      (''reference'', field dec_string ar_reference ar_reference_update),
      (''kind'', field dec_string ar_kind ar_kind_update),
      (''sha256'', field dec_string ar_sha256 ar_sha256_update),
      (''evidenceIds'', field dec_strings ar_evidence ar_evidence_update)]"

definition dec_interaction :: "interaction_state decoder" where
  "dec_interaction = dec_struct
     [(''id'', field dec_string in_id in_id_update),
      (''kind'', field dec_string in_kind in_kind_update),
      (''actionRef'', field dec_string in_action in_action_update),
      (''status'', field dec_string in_status in_status_update),
      (''outcome'', field dec_string in_outcome in_outcome_update)]"

definition no_plan :: plan_state where
  "no_plan = \<lparr>pl_run = [], pl_revision = 0, pl_steps = []\<rparr>"

definition no_receipt :: tool_receipt where
  "no_receipt = \<lparr>tr_call = [], tr_action = [], tr_tool = [], tr_success = False, tr_effect = [],
     tr_evidence = [], tr_artifacts = []\<rparr>"

definition no_reference :: evidence_reference where
  "no_reference = \<lparr>er_id = [], er_kind = [], er_source = [], er_artifacts = []\<rparr>"

definition no_artifact :: artifact_state where
  "no_artifact = \<lparr>ar_id = [], ar_reference = [], ar_kind = [], ar_sha256 = [], ar_evidence = []\<rparr>"

definition no_interaction :: interaction_state where
  "no_interaction = \<lparr>in_id = [], in_kind = [], in_action = [], in_status = [], in_outcome = []\<rparr>"

section \<open>Scopes, agents, evidence, findings, approvals, leases\<close>

record scope_snapshot =
  sc_id :: string
  sc_principal :: string
  sc_workspace :: string
  sc_validity :: string
  sc_targets :: "string list"
  sc_allowed :: "string list"
  sc_denied :: "string list"
  sc_ceiling :: string

record agent_state =
  ag_id :: string
  ag_name :: string
  ag_status :: string
  ag_progress :: "double option"
  ag_action :: string
  ag_agent :: string

record immutable_evidence =
  ev_id :: string
  ev_task :: string
  ev_kind :: string
  ev_summary :: string
  ev_data :: "(string \<times> canon) list option"

record finding_state =
  fi_id :: string
  fi_title :: string
  fi_severity :: string
  fi_status :: string
  fi_confidence :: string
  fi_evidence :: "string list"
  fi_rejection :: string

record approval_challenge =
  ap_id :: string
  ap_agent :: string
  ap_action :: string
  ap_target :: string
  ap_digest :: string
  ap_risk :: string
  ap_expires :: string

record approval_state =
  ap_challenge :: approval_challenge
  ap_decision :: string

record control_lease =
  cl_client :: string
  cl_revision :: int

definition dec_scope :: "scope_snapshot decoder" where
  "dec_scope = dec_struct
     [(''id'', field dec_string sc_id sc_id_update),
      (''principal'', field dec_string sc_principal sc_principal_update),
      (''workspace'', field dec_string sc_workspace sc_workspace_update),
      (''validity'', field dec_string sc_validity sc_validity_update),
      (''targets'', field dec_strings sc_targets sc_targets_update),
      (''allowedActions'', field dec_strings sc_allowed sc_allowed_update),
      (''deniedActions'', field dec_strings sc_denied sc_denied_update),
      (''riskCeiling'', field dec_string sc_ceiling sc_ceiling_update)]"

definition dec_agent :: "agent_state decoder" where
  "dec_agent = dec_struct
     [(''id'', field dec_string ag_id ag_id_update),
      (''name'', field dec_string ag_name ag_name_update),
      (''status'', field dec_string ag_status ag_status_update),
      (''progress'', field (dec_ptr dec_float (False, 0)) ag_progress ag_progress_update),
      (''currentAction'', field dec_string ag_action ag_action_update),
      (''agentId'', field dec_string ag_agent ag_agent_update)]"

definition dec_evidence :: "immutable_evidence decoder" where
  "dec_evidence = dec_struct
     [(''id'', field dec_string ev_id ev_id_update),
      (''taskId'', field dec_string ev_task ev_task_update),
      (''kind'', field dec_string ev_kind ev_kind_update),
      (''summary'', field dec_string ev_summary ev_summary_update),
      (''data'', field dec_map ev_data ev_data_update)]"

definition dec_finding :: "finding_state decoder" where
  "dec_finding = dec_struct
     [(''id'', field dec_string fi_id fi_id_update),
      (''title'', field dec_string fi_title fi_title_update),
      (''severity'', field dec_string fi_severity fi_severity_update),
      (''status'', field dec_string fi_status fi_status_update),
      (''confidence'', field dec_string fi_confidence fi_confidence_update),
      (''evidenceIds'', field dec_strings fi_evidence fi_evidence_update),
      (''rejectionReason'', field dec_string fi_rejection fi_rejection_update)]"

definition dec_challenge :: "approval_challenge decoder" where
  "dec_challenge = dec_struct
     [(''id'', field dec_string ap_id ap_id_update),
      (''agentId'', field dec_string ap_agent ap_agent_update),
      (''action'', field dec_string ap_action ap_action_update),
      (''target'', field dec_string ap_target ap_target_update),
      (''parameterDigest'', field dec_string ap_digest ap_digest_update),
      (''risk'', field dec_string ap_risk ap_risk_update),
      (''expiresAt'', field dec_string ap_expires ap_expires_update)]"

definition dec_lease :: "control_lease decoder" where
  "dec_lease = dec_struct
     [(''clientId'', field dec_string cl_client cl_client_update),
      (''revision'', field dec_int cl_revision cl_revision_update)]"

definition no_scope :: scope_snapshot where
  "no_scope = \<lparr>sc_id = [], sc_principal = [], sc_workspace = [], sc_validity = [], sc_targets = [],
     sc_allowed = [], sc_denied = [], sc_ceiling = []\<rparr>"

definition no_agent :: agent_state where
  "no_agent = \<lparr>ag_id = [], ag_name = [], ag_status = [], ag_progress = None, ag_action = [],
     ag_agent = []\<rparr>"

definition no_evidence :: immutable_evidence where
  "no_evidence = \<lparr>ev_id = [], ev_task = [], ev_kind = [], ev_summary = [], ev_data = None\<rparr>"

definition no_finding :: finding_state where
  "no_finding = \<lparr>fi_id = [], fi_title = [], fi_severity = [], fi_status = [], fi_confidence = [],
     fi_evidence = [], fi_rejection = []\<rparr>"

definition no_challenge :: approval_challenge where
  "no_challenge = \<lparr>ap_id = [], ap_agent = [], ap_action = [], ap_target = [], ap_digest = [],
     ap_risk = [], ap_expires = []\<rparr>"

definition no_lease :: control_lease where
  "no_lease = \<lparr>cl_client = [], cl_revision = 0\<rparr>"

section \<open>Terminals\<close>

record terminal_chunk =
  tc_sequence :: int
  tc_data :: string
  tc_length :: int

record terminal_session =
  ts_id :: string
  ts_profile :: string
  ts_process :: string
  ts_directory :: string
  ts_scope :: string
  ts_owner :: string
  ts_lease :: int
  ts_columns :: int
  ts_rows :: int
  ts_limit :: int
  ts_bytes :: int
  ts_next_input :: int
  ts_next_output :: int
  ts_status :: string
  ts_output :: "terminal_chunk list"
  ts_exit_code :: "int option"
  ts_exit_reason :: string

definition dec_chunk :: "terminal_chunk decoder" where
  "dec_chunk = dec_struct
     [(''sequence'', field dec_int tc_sequence tc_sequence_update),
      (''data'', field dec_string tc_data tc_data_update),
      (''byteLength'', field dec_int tc_length tc_length_update)]"

definition no_chunk :: terminal_chunk where
  "no_chunk = \<lparr>tc_sequence = 0, tc_data = [], tc_length = 0\<rparr>"

definition dec_session :: "terminal_session decoder" where
  "dec_session = dec_struct
     [(''id'', field dec_string ts_id ts_id_update),
      (''profileId'', field dec_string ts_profile ts_profile_update),
      (''processId'', field dec_string ts_process ts_process_update),
      (''workingDirectory'', field dec_string ts_directory ts_directory_update),
      (''scopeId'', field dec_string ts_scope ts_scope_update),
      (''ownerClientId'', field dec_string ts_owner ts_owner_update),
      (''leaseRevision'', field dec_int ts_lease ts_lease_update),
      (''columns'', field dec_int ts_columns ts_columns_update),
      (''rows'', field dec_int ts_rows ts_rows_update),
      (''outputLimitBytes'', field dec_int ts_limit ts_limit_update),
      (''outputBytes'', field dec_int ts_bytes ts_bytes_update),
      (''nextInputSequence'', field dec_int ts_next_input ts_next_input_update),
      (''nextOutputSequence'', field dec_int ts_next_output ts_next_output_update),
      (''status'', field dec_string ts_status ts_status_update),
      (''output'', field (dec_slice dec_chunk no_chunk) ts_output ts_output_update),
      (''exitCode'', field (dec_ptr dec_int 0) ts_exit_code ts_exit_code_update),
      (''exitReason'', field dec_string ts_exit_reason ts_exit_reason_update)]"

definition no_session :: terminal_session where
  "no_session = \<lparr>ts_id = [], ts_profile = [], ts_process = [], ts_directory = [], ts_scope = [],
     ts_owner = [], ts_lease = 0, ts_columns = 0, ts_rows = 0, ts_limit = 0, ts_bytes = 0,
     ts_next_input = 0, ts_next_output = 0, ts_status = [], ts_output = [], ts_exit_code = None,
     ts_exit_reason = []\<rparr>"

section \<open>Editor drafts\<close>

record editor_reference =
  ed_finding :: string
  ed_evidence :: string
  ed_start :: int
  ed_end :: int

record editor_verification =
  evf_id :: string
  evf_revision :: int
  evf_success :: bool
  evf_evidence :: "string list"

record editor_draft =
  dr_id :: string
  dr_path :: string
  dr_scope :: string
  dr_owner :: string
  dr_lease :: int
  dr_base :: string
  dr_base_length :: int
  dr_encoding :: string
  dr_references :: "editor_reference list"
  dr_status :: string
  dr_next :: int
  dr_proposed :: string
  dr_proposed_length :: int
  dr_result :: string
  dr_reviewer :: string
  dr_verification :: "editor_verification option"
  dr_discard :: string

definition dec_editor_reference :: "editor_reference decoder" where
  "dec_editor_reference = dec_struct
     [(''findingId'', field dec_string ed_finding ed_finding_update),
      (''evidenceId'', field dec_string ed_evidence ed_evidence_update),
      (''startLine'', field dec_int ed_start ed_start_update),
      (''endLine'', field dec_int ed_end ed_end_update)]"

definition no_editor_reference :: editor_reference where
  "no_editor_reference = \<lparr>ed_finding = [], ed_evidence = [], ed_start = 0, ed_end = 0\<rparr>"

definition dec_verification :: "editor_verification decoder" where
  "dec_verification = dec_struct
     [(''id'', field dec_string evf_id evf_id_update),
      (''revision'', field dec_int evf_revision evf_revision_update),
      (''success'', field dec_bool evf_success evf_success_update),
      (''evidenceIds'', field dec_strings evf_evidence evf_evidence_update)]"

definition no_verification :: editor_verification where
  "no_verification = \<lparr>evf_id = [], evf_revision = 0, evf_success = False, evf_evidence = []\<rparr>"

definition dec_draft :: "editor_draft decoder" where
  "dec_draft = dec_struct
     [(''id'', field dec_string dr_id dr_id_update),
      (''path'', field dec_string dr_path dr_path_update),
      (''scopeId'', field dec_string dr_scope dr_scope_update),
      (''ownerClientId'', field dec_string dr_owner dr_owner_update),
      (''leaseRevision'', field dec_int dr_lease dr_lease_update),
      (''baseSha256'', field dec_string dr_base dr_base_update),
      (''baseByteLength'', field dec_int dr_base_length dr_base_length_update),
      (''encoding'', field dec_string dr_encoding dr_encoding_update),
      (''evidenceReferences'',
        field (dec_slice dec_editor_reference no_editor_reference) dr_references dr_references_update),
      (''status'', field dec_string dr_status dr_status_update),
      (''nextRevision'', field dec_int dr_next dr_next_update),
      (''proposedSha256'', field dec_string dr_proposed dr_proposed_update),
      (''proposedByteLength'', field dec_int dr_proposed_length dr_proposed_length_update),
      (''resultSha256'', field dec_string dr_result dr_result_update),
      (''reviewer'', field dec_string dr_reviewer dr_reviewer_update),
      (''verification'',
        field (dec_ptr dec_verification no_verification) dr_verification dr_verification_update),
      (''discardReason'', field dec_string dr_discard dr_discard_update)]"

definition no_draft :: editor_draft where
  "no_draft = \<lparr>dr_id = [], dr_path = [], dr_scope = [], dr_owner = [], dr_lease = 0, dr_base = [],
     dr_base_length = 0, dr_encoding = [], dr_references = [], dr_status = [], dr_next = 0,
     dr_proposed = [], dr_proposed_length = 0, dr_result = [], dr_reviewer = [],
     dr_verification = None, dr_discard = []\<rparr>"

section \<open>Assets and reports\<close>

record asset_provenance =
  pv_kind :: string
  pv_evidence :: "string list"
  pv_annotation :: string
  pv_author :: string

record asset_node =
  an_id :: string
  an_kind :: string
  an_label :: string
  an_status :: string
  an_attributes :: "(string \<times> canon) list option"
  an_provenance :: asset_provenance
  an_reason :: string

record asset_edge =
  ae_id :: string
  ae_kind :: string
  ae_source :: string
  ae_target :: string
  ae_directed :: bool
  ae_provenance :: asset_provenance

record report_finding =
  rf_finding :: finding_state
  rf_evidence :: "immutable_evidence list"
  rf_included :: bool
  rf_exclusion :: string

record report_state =
  rp_id :: string
  rp_task :: string
  rp_version :: int
  rp_status :: string
  rp_narrative :: string
  rp_recommendations :: string
  rp_notes :: string
  rp_findings :: "report_finding list"
  rp_finding_ids :: "string list"
  rp_evidence_ids :: "string list"
  rp_artifacts :: "string list"

definition dec_provenance :: "asset_provenance decoder" where
  "dec_provenance = dec_struct
     [(''kind'', field dec_string pv_kind pv_kind_update),
      (''evidenceIds'', field dec_strings pv_evidence pv_evidence_update),
      (''annotationId'', field dec_string pv_annotation pv_annotation_update),
      (''author'', field dec_string pv_author pv_author_update)]"

definition no_provenance :: asset_provenance where
  "no_provenance = \<lparr>pv_kind = [], pv_evidence = [], pv_annotation = [], pv_author = []\<rparr>"

definition dec_node :: "asset_node decoder" where
  "dec_node = dec_struct
     [(''id'', field dec_string an_id an_id_update),
      (''kind'', field dec_string an_kind an_kind_update),
      (''label'', field dec_string an_label an_label_update),
      (''status'', field dec_string an_status an_status_update),
      (''attributes'', field dec_map an_attributes an_attributes_update),
      (''provenance'', field dec_provenance an_provenance an_provenance_update),
      (''statusReason'', field dec_string an_reason an_reason_update)]"

definition no_node :: asset_node where
  "no_node = \<lparr>an_id = [], an_kind = [], an_label = [], an_status = [], an_attributes = None,
     an_provenance = no_provenance, an_reason = []\<rparr>"

definition dec_edge :: "asset_edge decoder" where
  "dec_edge = dec_struct
     [(''id'', field dec_string ae_id ae_id_update),
      (''kind'', field dec_string ae_kind ae_kind_update),
      (''sourceId'', field dec_string ae_source ae_source_update),
      (''targetId'', field dec_string ae_target ae_target_update),
      (''directed'', field dec_bool ae_directed ae_directed_update),
      (''provenance'', field dec_provenance ae_provenance ae_provenance_update)]"

definition no_edge :: asset_edge where
  "no_edge = \<lparr>ae_id = [], ae_kind = [], ae_source = [], ae_target = [], ae_directed = False,
     ae_provenance = no_provenance\<rparr>"

definition dec_report_finding :: "report_finding decoder" where
  "dec_report_finding = dec_struct
     [(''finding'', field dec_finding rf_finding rf_finding_update),
      (''evidence'', field (dec_slice dec_evidence no_evidence) rf_evidence rf_evidence_update),
      (''included'', field dec_bool rf_included rf_included_update),
      (''exclusionReason'', field dec_string rf_exclusion rf_exclusion_update)]"

definition no_report_finding :: report_finding where
  "no_report_finding = \<lparr>rf_finding = no_finding, rf_evidence = [], rf_included = False,
     rf_exclusion = []\<rparr>"

definition dec_report :: "report_state decoder" where
  "dec_report = dec_struct
     [(''id'', field dec_string rp_id rp_id_update),
      (''taskId'', field dec_string rp_task rp_task_update),
      (''version'', field dec_int rp_version rp_version_update),
      (''status'', field dec_string rp_status rp_status_update),
      (''narrative'', field dec_string rp_narrative rp_narrative_update),
      (''recommendations'', field dec_string rp_recommendations rp_recommendations_update),
      (''humanNotes'', field dec_string rp_notes rp_notes_update),
      (''findings'', field (dec_slice dec_report_finding no_report_finding) rp_findings rp_findings_update),
      (''findingIds'', field dec_strings rp_finding_ids rp_finding_ids_update),
      (''evidenceIds'', field dec_strings rp_evidence_ids rp_evidence_ids_update),
      (''artifactRefs'', field dec_strings rp_artifacts rp_artifacts_update)]"

definition no_report :: report_state where
  "no_report = \<lparr>rp_id = [], rp_task = [], rp_version = 0, rp_status = [], rp_narrative = [],
     rp_recommendations = [], rp_notes = [], rp_findings = [], rp_finding_ids = [],
     rp_evidence_ids = [], rp_artifacts = []\<rparr>"

section \<open>Canonical JSON\<close>

text \<open>A key that is left out if its value is empty.\<close>

definition omit_empty :: "string \<Rightarrow> string \<Rightarrow> (string \<times> canon) list" where
  "omit_empty k s = (if s = [] then [] else [(k, CStr s)])"

definition omit_empty_strings :: "string \<Rightarrow> string list \<Rightarrow> (string \<times> canon) list" where
  "omit_empty_strings k xs = (if xs = [] then [] else [(k, CArr (map CStr xs))])"

definition canon_map :: "(string \<times> canon) list option \<Rightarrow> canon" where
  "canon_map m = (case m of None \<Rightarrow> CNull | Some kvs \<Rightarrow> CObj kvs)"

definition challenge_keys :: "approval_challenge \<Rightarrow> (string \<times> canon) list" where
  "challenge_keys c =
     [(''id'', CStr (ap_id c)), (''agentId'', CStr (ap_agent c)), (''action'', CStr (ap_action c)),
      (''target'', CStr (ap_target c)), (''parameterDigest'', CStr (ap_digest c)),
      (''risk'', CStr (ap_risk c)), (''expiresAt'', CStr (ap_expires c))]"

definition canon_object :: "(string \<times> canon) list \<Rightarrow> canon" where
  "canon_object kvs = CObj (fold (\<lambda>(k, v). put_key k v) kvs [])"

definition canon_challenge :: "approval_challenge \<Rightarrow> canon" where
  "canon_challenge c = canon_object (challenge_keys c)"

definition canon_approval :: "approval_state \<Rightarrow> canon" where
  "canon_approval a = canon_object (challenge_keys (ap_challenge a) @ omit_empty ''decision'' (ap_decision a))"

definition canon_provenance :: "asset_provenance \<Rightarrow> canon" where
  "canon_provenance p = canon_object
     ([(''kind'', CStr (pv_kind p))] @ omit_empty_strings ''evidenceIds'' (pv_evidence p)
      @ omit_empty ''annotationId'' (pv_annotation p) @ omit_empty ''author'' (pv_author p))"

definition canon_node :: "asset_node \<Rightarrow> canon" where
  "canon_node n = canon_object
     ([(''id'', CStr (an_id n)), (''kind'', CStr (an_kind n)), (''label'', CStr (an_label n)),
       (''status'', CStr (an_status n)), (''attributes'', canon_map (an_attributes n)),
       (''provenance'', canon_provenance (an_provenance n))] @ omit_empty ''statusReason'' (an_reason n))"

definition canon_edge :: "asset_edge \<Rightarrow> canon" where
  "canon_edge e = canon_object
     [(''id'', CStr (ae_id e)), (''kind'', CStr (ae_kind e)), (''sourceId'', CStr (ae_source e)),
      (''targetId'', CStr (ae_target e)), (''directed'', CBool (ae_directed e)),
      (''provenance'', canon_provenance (ae_provenance e))]"

definition canon_evidence :: "immutable_evidence \<Rightarrow> canon" where
  "canon_evidence e = canon_object
     [(''id'', CStr (ev_id e)), (''taskId'', CStr (ev_task e)), (''kind'', CStr (ev_kind e)),
      (''summary'', CStr (ev_summary e)), (''data'', canon_map (ev_data e))]"

definition canon_source :: "event_source \<Rightarrow> canon" where
  "canon_source s = canon_object
     ([(''runtimeId'', CStr (es_runtime s))] @ omit_empty ''agentId'' (es_agent s)
      @ omit_empty ''toolCallId'' (es_tool_call s))"

definition canon_origin :: "event_origin \<Rightarrow> canon option" where
  "canon_origin r =
     map_option (\<lambda>n. canon_object
       [(''sourceSessionId'', CStr (eo_session r)), (''sourceSequence'', n),
        (''sourceEventId'', CStr (eo_event r)), (''sourceTopic'', CStr (eo_topic r))])
       (canon_int (eo_sequence r))"

definition canon_event :: "event \<Rightarrow> canon option" where
  "canon_event e =
     (case (canon_int (e_schema e), canon_int (e_cursor e), canonical (e_payload e)) of
        (Some schema, Some cursor, Some payload) \<Rightarrow>
          map_option (\<lambda>origin. canon_object
            ([(''schemaVersion'', schema), (''eventId'', CStr (e_id e)), (''taskId'', CStr (e_task e)),
              (''cursor'', cursor), (''occurredAt'', CStr (e_time e)), (''type'', CStr (e_type e)),
              (''source'', canon_source (e_source e)), (''payload'', payload),
              (''kind'', CStr (e_kind e))] @ origin))
          (case e_origin e of
             None \<Rightarrow> Some []
           | Some r \<Rightarrow> map_option (\<lambda>c. [(''origin'', c)]) (canon_origin r))
      | _ \<Rightarrow> None)"

end
