(* ===== verification/Json_Parser.thy ===== *)
theory Json_Parser
  imports Json_Value
begin

text \<open>
  Reading JSON text into an \<open>any\<close> value with \<open>UseNumber\<close>: the grammar of \<open>encoding/json\<close>, its string
  unquoting (escapes, surrogate pairs, invalid bytes read as U+FFFD) and its nesting limit. Every level
  of the recursive descent and every item of an array or object takes a byte of the text, so more fuel
  than bytes is enough.
\<close>

section \<open>Strings\<close>

definition utf8 :: "nat \<Rightarrow> string" where
  "utf8 r =
     (if r < 0x80 then [char_of r]
      else if r < 0x800 then [char_of (0xC0 + r div 0x40), char_of (0x80 + r mod 0x40)]
      else if 0xD800 \<le> r \<and> r < 0xE000 \<or> 0x10FFFF < r then [CHR 0xEF, CHR 0xBF, CHR 0xBD]
      else if r < 0x10000 then
        [char_of (0xE0 + r div 0x1000), char_of (0x80 + r div 0x40 mod 0x40), char_of (0x80 + r mod 0x40)]
      else
        [char_of (0xF0 + r div 0x40000), char_of (0x80 + r div 0x1000 mod 0x40),
         char_of (0x80 + r div 0x40 mod 0x40), char_of (0x80 + r mod 0x40)])"

definition hex_val :: "char \<Rightarrow> nat" where
  "hex_val c =
     (if js_digit c then code c - 48
      else if 97 \<le> code c \<and> code c \<le> 102 then code c - 87 else code c - 55)"

text \<open>Four hexadecimal digits.\<close>

definition hex4 :: "string \<Rightarrow> nat option" where
  "hex4 s =
     (if length s < 4 \<or> \<not> list_all js_hex (take 4 s) then None
      else Some (foldl (\<lambda>n c. 16 * n + hex_val c) 0 (take 4 s)))"

definition simple_escape :: "char \<Rightarrow> char option" where
  "simple_escape c =
     map_of [(CHR 0x22, CHR 0x22), (CHR 0x5C, CHR 0x5C), (CHR ''/'', CHR ''/''),
       (CHR ''b'', CHR 0x08), (CHR ''f'', CHR 0x0C), (CHR ''n'', CHR 0x0A), (CHR ''r'', CHR 0x0D),
       (CHR ''t'', CHR 0x09)] c"

text \<open>The rune of a \<open>\u\<close> escape and what follows it: a low surrogate joins the high one before it.\<close>

definition unicode_escape :: "nat \<Rightarrow> string \<Rightarrow> nat \<times> string" where
  "unicode_escape r s =
     (if 0xD800 \<le> r \<and> r < 0xDC00 \<and> take 2 s = [CHR 0x5C, CHR ''u''] then
        (case hex4 (drop 2 s) of
           Some r2 \<Rightarrow>
             if 0xDC00 \<le> r2 \<and> r2 < 0xE000
             then (0x10000 + (r - 0xD800) * 0x400 + (r2 - 0xDC00), drop 6 s) else (0xFFFD, s)
         | None \<Rightarrow> (0xFFFD, s))
      else (r, s))"

lemma unicode_escape_length: "unicode_escape r s = (v, t) \<Longrightarrow> length t \<le> length s"
  by (auto simp: unicode_escape_def split: if_splits option.splits)

lemma unicode_escape_length': "(v, t) = unicode_escape r s \<Longrightarrow> length t \<le> length s"
  by (metis unicode_escape_length)

lemma hex4_length: "hex4 s = Some n \<Longrightarrow> 4 \<le> length s"
  by (simp add: hex4_def split: if_splits)

text \<open>The contents of a string literal after its opening quote, and the text after its closing quote.\<close>

function parse_string :: "string \<Rightarrow> (string \<times> string) option" where
  "parse_string s =
     (case s of
        [] \<Rightarrow> None
      | c # r \<Rightarrow>
          if c = CHR 0x22 then Some ([], r)
          else if code c < 32 then None
          else if c = CHR 0x5C then
            (case r of
               [] \<Rightarrow> None
             | e # r' \<Rightarrow>
                 if e = CHR ''u'' then
                   (case hex4 r' of
                      None \<Rightarrow> None
                    | Some n \<Rightarrow>
                        (case unicode_escape n (drop 4 r') of (v, t) \<Rightarrow>
                           map_option (apfst ((@) (utf8 v))) (parse_string t)))
                 else
                   (case simple_escape e of
                      None \<Rightarrow> None
                    | Some b \<Rightarrow> map_option (apfst ((#) b)) (parse_string r')))
          else
            (case decode_rune s of
               None \<Rightarrow> map_option (apfst ((@) (utf8 0xFFFD))) (parse_string r)
             | Some (_, n) \<Rightarrow>
                 map_option (apfst ((@) (c # take (n - 1) r))) (parse_string (drop (n - 1) r))))"
  by pat_completeness auto
termination
  by (relation "measure length") (force dest!: unicode_escape_length' hex4_length)+

declare parse_string.simps [simp del]

lemma parse_string_length: "parse_string s = Some (x, t) \<Longrightarrow> length t < length s"
proof (induction s arbitrary: x t rule: parse_string.induct)
  case (1 s)
  show ?case
  proof (cases s)
    case (Cons c r)
    note prem = "1.prems" [unfolded Cons parse_string.simps [of "c # r"] list.case]
    consider (quote) "c = CHR 0x22" | (esc) "c \<noteq> CHR 0x22" "\<not> code c < 32" "c = CHR 0x5C"
      | (plain) "c \<noteq> CHR 0x22" "\<not> code c < 32" "c \<noteq> CHR 0x5C"
      using prem by (auto split: if_splits)
    then show ?thesis
    proof cases
      case quote
      with prem Cons show ?thesis by simp
    next
      case plain
      show ?thesis
      proof (cases "decode_rune s")
        case None
        then obtain y where "parse_string r = Some (y, t)" using prem plain Cons by auto
        then show ?thesis using "1.IH"(3) [OF Cons plain None] Cons by simp
      next
        case (Some vn)
        then obtain v n where vn: "decode_rune s = Some (v, n)" by (cases vn) simp
        then obtain y where "parse_string (drop (n - 1) r) = Some (y, t)" using prem plain Cons by auto
        then show ?thesis using "1.IH"(4) [OF Cons plain vn refl] Cons by simp
      qed
    next
      case esc
      then obtain e r' where r: "r = e # r'" using prem by (auto split: list.splits)
      show ?thesis
      proof (cases "e = CHR ''u''")
        case True
        then obtain n v u where n: "hex4 r' = Some n" and u: "unicode_escape n (drop 4 r') = (v, u)"
            and "map_option (apfst ((@) (utf8 v))) (parse_string u) = Some (x, t)"
          using prem esc r by (auto split: option.splits prod.splits)
        then obtain y where "parse_string u = Some (y, t)" by auto
        then have "length t < length u" using "1.IH"(1) [OF Cons esc r True n u [symmetric]] by simp
        then show ?thesis using unicode_escape_length [OF u] Cons r by simp
      next
        case False
        then obtain b where b: "simple_escape e = Some b"
            and "map_option (apfst ((#) b)) (parse_string r') = Some (x, t)"
          using prem esc r by (auto split: option.splits)
        then obtain y where "parse_string r' = Some (y, t)" by auto
        then show ?thesis using "1.IH"(2) [OF Cons esc r False b] Cons r by simp
      qed
    qed
  qed (use "1.prems" in \<open>simp add: parse_string.simps\<close>)
qed

section \<open>Numbers and literals\<close>

definition span_digits :: "string \<Rightarrow> string \<times> string" where
  "span_digits s = (takeWhile js_digit s, dropWhile js_digit s)"

definition parse_frac :: "string \<Rightarrow> (string \<times> string) option" where
  "parse_frac s =
     (case s of
        c # r \<Rightarrow>
          if c = CHR ''.'' then
            (case span_digits r of (ds, t) \<Rightarrow> if ds = [] then None else Some (c # ds, t))
          else Some ([], s)
      | [] \<Rightarrow> Some ([], []))"

definition parse_exp :: "string \<Rightarrow> (string \<times> string) option" where
  "parse_exp s =
     (case s of
        c # r \<Rightarrow>
          if c = CHR ''e'' \<or> c = CHR ''E'' then
            (let sign = takeWhile (\<lambda>x. x = CHR ''+'' \<or> x = CHR ''-'') (take 1 r) in
             case span_digits (drop (length sign) r) of (ds, t) \<Rightarrow>
               if ds = [] then None else Some (c # sign @ ds, t))
          else Some ([], s)
      | [] \<Rightarrow> Some ([], []))"

definition parse_number :: "string \<Rightarrow> (json \<times> string) option" where
  "parse_number s =
     (let sign = takeWhile (\<lambda>x. x = CHR ''-'') (take 1 s) in
      case span_digits (drop (length sign) s) of (ds, t) \<Rightarrow>
        if ds = [] then None
        else
          (let whole = (if hd ds = CHR ''0'' then [CHR ''0''] else ds);
               t' = (if hd ds = CHR ''0'' then tl ds @ t else t) in
           case parse_frac t' of
             None \<Rightarrow> None
           | Some (f, u) \<Rightarrow>
               (case parse_exp u of
                  None \<Rightarrow> None | Some (x, v) \<Rightarrow> Some (JNum (sign @ whole @ f @ x), v))))"

definition parse_word :: "string \<Rightarrow> json \<Rightarrow> string \<Rightarrow> (json \<times> string) option" where
  "parse_word w j s = (if HasPrefix s w then Some (j, drop (length w) s) else None)"

section \<open>Values\<close>

definition skip_space :: "string \<Rightarrow> string" where
  "skip_space s = dropWhile js_space s"

text \<open>
  With a reader \<open>pv\<close> of values: \<open>parse_items\<close> reads the elements of a non-empty array up to its bracket,
  \<open>parse_members\<close> the members of a non-empty object up to its brace. Of two equal keys the later wins.
\<close>

primrec parse_items ::
  "(string \<Rightarrow> (json \<times> string) option) \<Rightarrow> nat \<Rightarrow> string \<Rightarrow> (json list \<times> string) option" where
  "parse_items pv 0 s = None"
| "parse_items pv (Suc n) s =
     (case pv s of
        None \<Rightarrow> None
      | Some (v, t) \<Rightarrow>
          (case skip_space t of
             [] \<Rightarrow> None
           | c # r \<Rightarrow>
               if c = CHR '','' then map_option (apfst ((#) v)) (parse_items pv n r)
               else if c = CHR '']'' then Some ([v], r) else None))"

text \<open>A key, its colon and the value.\<close>

definition parse_member ::
  "(string \<Rightarrow> (json \<times> string) option) \<Rightarrow> string \<Rightarrow> (string \<times> json \<times> string) option" where
  "parse_member pv s =
     (case skip_space s of
        [] \<Rightarrow> None
      | q # r \<Rightarrow>
          if q \<noteq> CHR 0x22 then None
          else
            (case parse_string r of
               None \<Rightarrow> None
             | Some (k, t) \<Rightarrow>
                 (case skip_space t of
                    [] \<Rightarrow> None
                  | colon # u \<Rightarrow>
                      if colon \<noteq> CHR '':'' then None else map_option (Pair k) (pv u))))"

primrec parse_members ::
  "(string \<Rightarrow> (json \<times> string) option) \<Rightarrow> nat \<Rightarrow> (string \<times> json) list \<Rightarrow> string
     \<Rightarrow> ((string \<times> json) list \<times> string) option" where
  "parse_members pv 0 obj s = None"
| "parse_members pv (Suc n) obj s =
     (case parse_member pv s of
        None \<Rightarrow> None
      | Some (k, v, w) \<Rightarrow>
          (case skip_space w of
             [] \<Rightarrow> None
           | c # x \<Rightarrow>
               if c = CHR '','' then parse_members pv n (put_key k v obj) x
               else if c = CHR ''}'' then Some (put_key k v obj, x) else None))"

primrec parse_value :: "nat \<Rightarrow> nat \<Rightarrow> string \<Rightarrow> (json \<times> string) option" where
  "parse_value 0 d s = None"
| "parse_value (Suc n) d s =
     (case skip_space s of
        [] \<Rightarrow> None
      | c # r \<Rightarrow>
          if c = CHR ''{'' then
            (if max_nesting_depth \<le> d then None
             else if take 1 (skip_space r) = [CHR ''}''] then Some (JObj [], drop 1 (skip_space r))
             else map_option (apfst JObj) (parse_members (parse_value n (Suc d)) n [] r))
          else if c = CHR ''['' then
            (if max_nesting_depth \<le> d then None
             else if take 1 (skip_space r) = [CHR '']''] then Some (JArr [], drop 1 (skip_space r))
             else map_option (apfst JArr) (parse_items (parse_value n (Suc d)) n r))
          else if c = CHR 0x22 then map_option (apfst JStr) (parse_string r)
          else if c = CHR ''t'' then parse_word ''true'' (JBool True) (c # r)
          else if c = CHR ''f'' then parse_word ''false'' (JBool False) (c # r)
          else if c = CHR ''n'' then parse_word ''null'' JNull (c # r)
          else parse_number (c # r))"

text \<open>One value, and nothing but white space around it.\<close>

definition decode_json :: "string \<Rightarrow> json option" where
  "decode_json raw =
     (case parse_value (length raw + 1) 0 raw of
        Some (v, t) \<Rightarrow> if skip_space t = [] then Some v else None
      | None \<Rightarrow> None)"

section \<open>What is read is a map at every object\<close>

fun wf_json :: "json \<Rightarrow> bool" where
  "wf_json (JArr js) \<longleftrightarrow> list_all wf_json js"
| "wf_json (JObj kvs) \<longleftrightarrow> sorted_keys kvs \<and> list_all (\<lambda>(_, v). wf_json v) kvs"
| "wf_json _ \<longleftrightarrow> True"

lemma wf_put_key:
  "wf_json (JObj kvs) \<Longrightarrow> wf_json v \<Longrightarrow> wf_json (JObj (put_key k v kvs))"
  by (auto simp: put_key_sorted list_all_iff dest!: put_key_in)

lemma parse_number_wf: "parse_number s = Some (v, t) \<Longrightarrow> wf_json v"
  by (auto simp: parse_number_def Let_def split: prod.splits if_splits option.splits)

lemma parse_word_wf: "parse_word w j s = Some (v, t) \<Longrightarrow> wf_json j \<Longrightarrow> wf_json v"
  by (auto simp: parse_word_def split: if_splits)

text \<open>What a successful read has read.\<close>

lemma parse_value_Some:
  assumes "parse_value (Suc n) d s = Some (v, t)"
  obtains
    (empty_obj) r where "skip_space s = CHR ''{'' # r" "v = JObj []" "t = drop 1 (skip_space r)"
      "take 1 (skip_space r) = [CHR ''}'']" "\<not> max_nesting_depth \<le> d"
  | (obj) r kvs where "skip_space s = CHR ''{'' # r" "v = JObj kvs"
      "parse_members (parse_value n (Suc d)) n [] r = Some (kvs, t)"
      "take 1 (skip_space r) \<noteq> [CHR ''}'']" "\<not> max_nesting_depth \<le> d"
  | (empty_arr) r where "skip_space s = CHR ''['' # r" "v = JArr []" "t = drop 1 (skip_space r)"
      "take 1 (skip_space r) = [CHR '']'']" "\<not> max_nesting_depth \<le> d"
  | (arr) r js where "skip_space s = CHR ''['' # r" "v = JArr js"
      "parse_items (parse_value n (Suc d)) n r = Some (js, t)"
      "take 1 (skip_space r) \<noteq> [CHR '']'']" "\<not> max_nesting_depth \<le> d"
  | (str) r x where "skip_space s = CHR 0x22 # r" "v = JStr x" "parse_string r = Some (x, t)"
  | (lit) w j c r where "skip_space s = c # r" "parse_word w j (c # r) = Some (v, t)"
      "j = JBool True \<or> j = JBool False \<or> j = JNull" "w \<noteq> []"
  | (num) c r where "skip_space s = c # r" "parse_number (c # r) = Some (v, t)"
proof -
  obtain c r where s: "skip_space s = c # r"
    using assms by (auto split: list.splits)
  note prem = assms [unfolded parse_value.simps s list.case]
  consider "c = CHR ''{''" | "c = CHR ''[''" | "c = CHR 0x22"
    | "c \<noteq> CHR ''{''" "c \<noteq> CHR ''[''" "c \<noteq> CHR 0x22" by blast
  then show thesis
  proof cases
    case 1
    with prem s show thesis
      by (cases "take 1 (skip_space r) = [CHR ''}'']"; cases "max_nesting_depth \<le> d")
        (auto intro: empty_obj obj)
  next
    case 2
    with prem s show thesis
      by (cases "take 1 (skip_space r) = [CHR '']'']"; cases "max_nesting_depth \<le> d")
        (auto intro: empty_arr arr)
  next
    case 3
    with prem s show thesis by (auto intro: str)
  next
    case 4
    with prem s show thesis
      by (simp split: if_splits) (auto intro: lit num)
  qed
qed

lemma parse_items_wf:
  assumes "\<And>s v t. pv s = Some (v, t) \<Longrightarrow> wf_json v"
  shows "parse_items pv n s = Some (vs, t) \<Longrightarrow> list_all wf_json vs"
  by (induction n arbitrary: s vs)
    (auto dest: assms split: list.splits if_splits option.splits prod.splits)

lemma parse_members_wf:
  assumes "\<And>s v t. pv s = Some (v, t) \<Longrightarrow> wf_json v"
  shows "parse_members pv n obj s = Some (kvs, t) \<Longrightarrow> wf_json (JObj obj) \<Longrightarrow> wf_json (JObj kvs)"
proof (induction n arbitrary: obj s)
  case (Suc n)
  then obtain k v w where member: "parse_member pv s = Some (k, v, w)"
    by (auto split: option.splits)
  then have "wf_json v"
    by (auto simp: parse_member_def dest: assms split: list.splits if_splits option.splits prod.splits)
  then have "wf_json (JObj (put_key k v obj))" using Suc.prems wf_put_key by blast
  then show ?case
    using Suc member by (auto simp del: wf_json.simps split: list.splits if_splits)
qed simp

lemma parse_wf: "parse_value n d s = Some (v, t) \<Longrightarrow> wf_json v"
proof (induction n arbitrary: d s v t)
  case (Suc n)
  from Suc.prems show ?case
  proof (cases rule: parse_value_Some)
    case (obj r kvs)
    then show ?thesis using parse_members_wf [OF Suc.IH obj(3)] by simp
  next
    case (arr r js)
    then show ?thesis using parse_items_wf [OF Suc.IH arr(3)] by simp
  qed (auto dest: parse_number_wf parse_word_wf)
qed simp

lemma decode_json_wf: "decode_json raw = Some v \<Longrightarrow> wf_json v"
  by (auto simp: decode_json_def simp del: parse_value.simps dest: parse_wf split: option.splits if_splits)

section \<open>The fuel is enough\<close>

definition consumes :: "(string \<Rightarrow> ('a \<times> string) option) \<Rightarrow> bool" where
  "consumes p \<longleftrightarrow> (\<forall>s v t. p s = Some (v, t) \<longrightarrow> length t < length s)"

lemma consumesD: "consumes p \<Longrightarrow> p s = Some (v, t) \<Longrightarrow> length t < length s"
  by (simp add: consumes_def)

lemma skip_space_length: "skip_space s = c # r \<Longrightarrow> length r < length s"
  by (metis length_dropWhile_le Suc_le_eq length_Cons skip_space_def)

lemma skip_space_le: "length (skip_space s) \<le> length s"
  by (simp add: skip_space_def length_dropWhile_le)

lemma parse_frac_length: "parse_frac s = Some (f, t) \<Longrightarrow> length t \<le> length s"
  by (auto simp: parse_frac_def span_digits_def length_dropWhile_le le_SucI split: list.splits if_splits)

lemma length_dropWhile_drop: "length (dropWhile P (drop n xs)) \<le> length xs"
  by (rule le_trans [OF length_dropWhile_le]) simp

lemma parse_exp_length: "parse_exp s = Some (f, t) \<Longrightarrow> length t \<le> length s"
  by (auto simp: parse_exp_def span_digits_def Let_def length_dropWhile_drop le_SucI
      split: list.splits if_splits)

lemma parse_number_length: "parse_number s = Some (v, t) \<Longrightarrow> length t < length s"
proof -
  assume a: "parse_number s = Some (v, t)"
  define u where "u = drop (length (takeWhile (\<lambda>x. x = CHR ''-'') (take 1 s))) s"
  define t' where "t' = (if hd (takeWhile js_digit u) = CHR ''0'' then tl (takeWhile js_digit u) @ dropWhile js_digit u
    else dropWhile js_digit u)"
  have ds: "takeWhile js_digit u \<noteq> []"
    using a by (auto simp: parse_number_def span_digits_def u_def Let_def split: if_splits)
  obtain f w x where f: "parse_frac t' = Some (f, w)" and x: "parse_exp w = Some (x, t)"
    using a ds by (auto simp: parse_number_def span_digits_def Let_def u_def [symmetric] t'_def
      simp del: One_nat_def split: option.splits if_splits)
  have "length u = length (takeWhile js_digit u) + length (dropWhile js_digit u)"
    by (metis length_append takeWhile_dropWhile_id)
  then have "length t' < length u" using ds by (cases "takeWhile js_digit u") (auto simp: t'_def)
  moreover have "length u \<le> length s" by (simp add: u_def)
  ultimately show ?thesis using parse_frac_length [OF f] parse_exp_length [OF x] by linarith
qed

lemma parse_word_length: "parse_word w j s = Some (v, t) \<Longrightarrow> w \<noteq> [] \<Longrightarrow> length t < length s"
  by (auto simp: parse_word_def HasPrefix_iff split: if_splits)

lemma parse_items_consumes: "consumes pv \<Longrightarrow> consumes (parse_items pv n)"
proof (induction n)
  case (Suc n)
  show ?case
    unfolding consumes_def
    using consumesD [OF Suc.prems] consumesD [OF Suc.IH [OF Suc.prems]] skip_space_length
    by (fastforce split: list.splits if_splits option.splits)
qed (simp add: consumes_def)

lemma parse_member_Some:
  assumes "parse_member pv s = Some (k, v, w)"
  obtains r t u where "skip_space s = CHR 0x22 # r" "parse_string r = Some (k, t)"
    "skip_space t = CHR '':'' # u" "pv u = Some (v, w)"
  using assms unfolding parse_member_def by (auto split: list.splits if_splits option.splits)

lemma parse_member_consumes:
  assumes "consumes pv" and "parse_member pv s = Some (k, v, w)"
  shows "length w < length s"
  using assms(2)
proof (rule parse_member_Some)
  fix r t u
  assume "skip_space s = CHR 0x22 # r" "parse_string r = Some (k, t)" "skip_space t = CHR '':'' # u"
    "pv u = Some (v, w)"
  then show ?thesis
    using skip_space_length [of s] parse_string_length [of r] skip_space_length [of t]
      consumesD [OF assms(1), of u] by fastforce
qed

lemma parse_members_consumes: "consumes pv \<Longrightarrow> consumes (parse_members pv n obj)"
proof (induction n arbitrary: obj)
  case (Suc n)
  show ?case
    unfolding consumes_def
    using parse_member_consumes [OF Suc.prems] consumesD [OF Suc.IH [OF Suc.prems]] skip_space_length
    by (fastforce split: list.splits if_splits option.splits)
qed (simp add: consumes_def)

lemma parse_value_consumes: "consumes (parse_value n d)"
proof (induction n arbitrary: d)
  case (Suc n)
  show ?case
    unfolding consumes_def
  proof (intro allI impI)
    fix s v t
    assume "parse_value (Suc n) d s = Some (v, t)"
    then show "length t < length s"
    proof (cases rule: parse_value_Some)
      case (empty_obj r)
      then show ?thesis using skip_space_le [of r] skip_space_length [of s] by fastforce
    next
      case (obj r kvs)
      then show ?thesis
        using consumesD [OF parse_members_consumes [OF Suc.IH] obj(3)] skip_space_length by fastforce
    next
      case (empty_arr r)
      then show ?thesis using skip_space_le [of r] skip_space_length [of s] by fastforce
    next
      case (arr r js)
      then show ?thesis
        using consumesD [OF parse_items_consumes [OF Suc.IH] arr(3)] skip_space_length by fastforce
    next
      case (str r x)
      then show ?thesis using parse_string_length [of r] skip_space_length [of s] by fastforce
    next
      case (lit w j c r)
      then show ?thesis using parse_word_length [OF lit(2,4)] skip_space_length [OF lit(1)] by simp
    next
      case (num c r)
      then show ?thesis using parse_number_length [OF num(2)] skip_space_length [OF num(1)] by simp
    qed
  qed
qed (simp add: consumes_def)

text \<open>The result does not depend on the reader outside the text, nor on surplus fuel.\<close>

lemma parse_items_cong:
  assumes "consumes pv"
  shows "length s < n \<Longrightarrow> length s < m \<Longrightarrow> (\<And>u. length u \<le> length s \<Longrightarrow> pv u = pv' u) \<Longrightarrow>
    parse_items pv n s = parse_items pv' m s"
proof (induction n arbitrary: m s)
  case (Suc n)
  then obtain m' where m: "m = Suc m'" by (cases m) auto
  have rest: "parse_items pv n r = parse_items pv' m' r"
    if "pv s = Some (v, t)" "skip_space t = c # r" for v t c r
  proof (rule Suc.IH)
    show "length r < n" "length r < m'"
      using consumesD [OF assms that(1)] skip_space_length [OF that(2)] Suc.prems m by simp_all
    show "pv u = pv' u" if "length u \<le> length r" for u
      using that \<open>length r < n\<close> Suc.prems consumesD [OF assms \<open>pv s = Some (v, t)\<close>]
        skip_space_length [OF \<open>skip_space t = c # r\<close>] by simp
  qed
  have same: "pv' s = pv s" using Suc.prems(3) by simp
  show ?case
  proof (cases "pv s")
    case (Some vt)
    then obtain v t where vt: "pv s = Some (v, t)" by (cases vt) simp
    then show ?thesis
      using rest [OF vt] by (cases "skip_space t") (simp_all add: m same)
  qed (simp add: m same)
qed simp

lemma parse_member_cong:
  assumes "\<And>u. length u \<le> length s \<Longrightarrow> pv u = pv' u"
  shows "parse_member pv s = parse_member pv' s"
proof -
  have "pv u = pv' u" if "skip_space s = q # r" "parse_string r = Some (k, t)" "skip_space t = x # u"
    for q r k t x u
    using skip_space_length [OF that(1)] parse_string_length [OF that(2)] skip_space_length [OF that(3)]
    by (intro assms) simp
  then show ?thesis
    unfolding parse_member_def by (simp split: list.splits option.splits)
qed

lemma parse_members_cong:
  assumes "consumes pv"
  shows "length s < n \<Longrightarrow> length s < m \<Longrightarrow> (\<And>u. length u \<le> length s \<Longrightarrow> pv u = pv' u) \<Longrightarrow>
    parse_members pv n obj s = parse_members pv' m obj s"
proof (induction n arbitrary: m s obj)
  case (Suc n)
  then obtain m' where m: "m = Suc m'" by (cases m) auto
  have rest: "parse_members pv n obj' r = parse_members pv' m' obj' r"
    if "parse_member pv s = Some (k, v, w)" "skip_space w = c # r" for k v w c r obj'
  proof (rule Suc.IH)
    show "length r < n" "length r < m'"
      using parse_member_consumes [OF assms that(1)] skip_space_length [OF that(2)] Suc.prems m by simp_all
    show "pv u = pv' u" if "length u \<le> length r" for u
      using that Suc.prems parse_member_consumes [OF assms \<open>parse_member pv s = Some (k, v, w)\<close>]
        skip_space_length [OF \<open>skip_space w = c # r\<close>] by simp
  qed
  have same: "parse_member pv' s = parse_member pv s"
    using parse_member_cong [of s pv pv'] Suc.prems(3) by simp
  show ?case
  proof (cases "parse_member pv s")
    case (Some kvw)
    then obtain k v w where kvw: "parse_member pv s = Some (k, v, w)" by (cases kvw) simp
    then show ?thesis
      using rest [OF kvw] by (cases "skip_space w") (simp_all add: m same)
  qed (simp add: m same)
qed simp

lemma parse_value_fuel:
  "length s < n \<Longrightarrow> length s < m \<Longrightarrow> parse_value n d s = parse_value m d s"
proof (induction n arbitrary: m d s)
  case (Suc n)
  then obtain m' where m: "m = Suc m'" by (cases m) auto
  have items: "parse_items (parse_value n (Suc d)) n r = parse_items (parse_value m' (Suc d)) m' r"
    and members: "parse_members (parse_value n (Suc d)) n [] r = parse_members (parse_value m' (Suc d)) m' [] r"
    if "skip_space s = c # r" for c r
    using skip_space_length [OF that] Suc.prems m
    by (intro parse_items_cong parse_members_cong parse_value_consumes Suc.IH; simp)+
  show ?case
    using items members by (auto simp: m split: list.splits)
qed simp

end
