(* ===== verification/Go_Formats.thy ===== *)
theory Go_Formats
  imports Json_Value
begin

text \<open>
  The textual formats of Go's standard library that product events carry: \<open>time.Parse\<close> with
  \<open>time.RFC3339Nano\<close>, the length of what \<open>base64.StdEncoding\<close> decodes, and \<open>unicode.IsControl\<close>.
\<close>

section \<open>Time stamps\<close>

text \<open>One or two digits, two if \<open>fixed\<close>.\<close>

definition getnum :: "bool \<Rightarrow> string \<Rightarrow> (nat \<times> string) option" where
  "getnum fixed s =
     (case s of
        [] \<Rightarrow> None
      | a # r \<Rightarrow>
          if \<not> js_digit a then None
          else
            (case r of
               b # t \<Rightarrow>
                 if js_digit b then Some (10 * digit_val a + digit_val b, t)
                 else if fixed then None else Some (digit_val a, r)
             | [] \<Rightarrow> if fixed then None else Some (digit_val a, [])))"

definition literal :: "char \<Rightarrow> string \<Rightarrow> string option" where
  "literal c s = (case s of x # r \<Rightarrow> if x = c then Some r else None | [] \<Rightarrow> None)"

text \<open>The two-digit number after a separator.\<close>

definition field_after :: "char \<Rightarrow> bool \<Rightarrow> string \<Rightarrow> (nat \<times> string) option" where
  "field_after c fixed s = (case literal c s of None \<Rightarrow> None | Some r \<Rightarrow> getnum fixed r)"

definition long_year :: "string \<Rightarrow> (nat \<times> string) option" where
  "long_year s =
     (if length s < 4 \<or> \<not> list_all js_digit (take 4 s) then None
      else Some (nat_of_digits (take 4 s), drop 4 s))"

text \<open>A fraction of a second: any number of digits, of which nine count.\<close>

definition fraction :: "string \<Rightarrow> nat \<times> string" where
  "fraction s =
     (case s of
        c # d # r \<Rightarrow>
          if (c = CHR ''.'' \<or> c = CHR '','') \<and> js_digit d then
            (let ds = takeWhile js_digit (d # r); used = take 9 ds in
             (nat_of_digits used * 10 ^ (9 - length used), drop (length ds) (d # r)))
          else (0, s)
      | _ \<Rightarrow> (0, s))"

text \<open>The offset from UTC in seconds; the whole rest must be read.\<close>

definition zone_offset :: "string \<Rightarrow> int option" where
  "zone_offset s =
     (if s = ''Z'' then Some 0
      else
        (case s of
           sign # r \<Rightarrow>
             (case getnum True r of
                None \<Rightarrow> None
              | Some (hr, t) \<Rightarrow>
                  (case field_after (CHR '':'') True t of
                     None \<Rightarrow> None
                   | Some (mm, u) \<Rightarrow>
                       if u \<noteq> [] \<or> 24 < hr \<or> 60 < mm then None
                       else if sign = CHR ''+'' then Some (int (hr * 60 + mm) * 60)
                       else if sign = CHR ''-'' then Some (- (int (hr * 60 + mm) * 60))
                       else None))
         | [] \<Rightarrow> None))"

definition leap_year :: "nat \<Rightarrow> bool" where
  "leap_year y \<longleftrightarrow> y mod 4 = 0 \<and> (y mod 100 \<noteq> 0 \<or> y mod 400 = 0)"

definition days_in :: "nat \<Rightarrow> nat \<Rightarrow> nat" where
  "days_in month year =
     (if month = 2 then (if leap_year year then 29 else 28)
      else if month = 4 \<or> month = 6 \<or> month = 9 \<or> month = 11 then 30 else 31)"

text \<open>Days from 1 January of year 1.\<close>

definition day_number :: "nat \<Rightarrow> nat \<Rightarrow> nat \<Rightarrow> int" where
  "day_number year month day =
     (let y = int year - 1 in
      365 * y + y div 4 - y div 100 + y div 400
      + int (sum_list (map (\<lambda>m. days_in m year) (take (month - 1) [1, 2, 3, 4, 5, 6, 7, 8, 9, 10, 11, 12]))) + int day - 1)"

definition parse_rfc3339 :: "string \<Rightarrow> instant option" where
  "parse_rfc3339 s0 =
     (case long_year s0 of None \<Rightarrow> None | Some (year, s1) \<Rightarrow>
     (case field_after (CHR ''-'') True s1 of None \<Rightarrow> None | Some (month, s2) \<Rightarrow>
     (case field_after (CHR ''-'') True s2 of None \<Rightarrow> None | Some (day, s3) \<Rightarrow>
     (case field_after (CHR ''T'') False s3 of None \<Rightarrow> None | Some (hour, s4) \<Rightarrow>
     (case field_after (CHR '':'') True s4 of None \<Rightarrow> None | Some (minute, s5) \<Rightarrow>
     (case field_after (CHR '':'') True s5 of None \<Rightarrow> None | Some (sec, s6) \<Rightarrow>
     (case fraction s6 of (nsec, s7) \<Rightarrow>
     (case zone_offset s7 of None \<Rightarrow> None | Some offset \<Rightarrow>
        if month < 1 \<or> 12 < month \<or> day < 1 \<or> days_in month year < day
           \<or> 24 \<le> hour \<or> 60 \<le> minute \<or> 60 \<le> sec then None
        else Some ((day_number year month day * 86400 + int (hour * 3600 + minute * 60 + sec) - offset)
                    * 10 ^ 9 + int nsec)))))))))"

lemmas time_defs =
  parse_rfc3339_def long_year_def field_after_def literal_def getnum_def fraction_def zone_offset_def
  day_number_def days_in_def leap_year_def digit_val_def js_digit_def nat_of_digits_def

text \<open>The same instant in two zones; a leap day; and days that do not exist.\<close>

lemma time_examples:
  "parse_rfc3339 ''0001-01-01T00:00:00Z'' = Some 0"
  "parse_rfc3339 ''2026-03-01T09:30:00.5+02:00'' = parse_rfc3339 ''2026-03-01T07:30:00.500Z''"
  "parse_rfc3339 ''2024-02-29T00:00:00Z'' \<noteq> None"
  "parse_rfc3339 ''2026-02-29T00:00:00Z'' = None"
  "parse_rfc3339 ''2026-03-01T24:00:00Z'' = None"
  by (simp_all add: time_defs Let_def)

section \<open>Base 64\<close>

definition base64_char :: "char \<Rightarrow> bool" where
  "base64_char c \<longleftrightarrow>
     js_digit c \<or> 65 \<le> code c \<and> code c \<le> 90 \<or> 97 \<le> code c \<and> code c \<le> 122
   \<or> c = CHR ''+'' \<or> c = CHR ''/''"

fun quanta :: "string \<Rightarrow> nat option" where
  "quanta [] = Some 0"
| "quanta (a # b # c # d # r) =
     (if \<not> base64_char a \<or> \<not> base64_char b then None
      else if base64_char c \<and> base64_char d then map_option ((+) 3) (quanta r)
      else if r \<noteq> [] \<or> d \<noteq> CHR ''='' then None
      else if c = CHR ''='' then Some 1
      else if base64_char c then Some 2 else None)"
| "quanta _ = None"

text \<open>The number of bytes \<open>DecodeString\<close> yields; line ends are skipped.\<close>

definition base64_length :: "string \<Rightarrow> nat option" where
  "base64_length s = quanta (filter (\<lambda>c. c \<noteq> CHR 0x0A \<and> c \<noteq> CHR 0x0D) s)"

section \<open>Control characters\<close>

definition IsControl :: "nat \<Rightarrow> bool" where
  "IsControl r \<longleftrightarrow> r < 0x20 \<or> 0x7F \<le> r \<and> r < 0xA0"

end
