(* ===== verification/Product_Validate.thy ===== *)
theory Product_Validate
  imports Product_Types Json_Parser Go_Formats
begin

text \<open>
  \<open>productprotocol.Validate\<close>: reading an event from JSON text, the checks on its envelope, and the rules
  for the payload of every known event type, one rule per case of the source's switch.
\<close>

section \<open>Values\<close>

type_synonym json_object = "(string \<times> json) list"

definition non_empty_string :: "json \<Rightarrow> string option" where
  "non_empty_string v = (case v of JStr s \<Rightarrow> if s = [] then None else Some s | _ \<Rightarrow> None)"

definition has_string :: "json_object \<Rightarrow> string \<Rightarrow> bool" where
  "has_string obj k \<longleftrightarrow> non_empty_string (get obj k) \<noteq> None"

definition is_string :: "json \<Rightarrow> bool" where
  "is_string v \<longleftrightarrow> (case v of JStr _ \<Rightarrow> True | _ \<Rightarrow> False)"

definition is_bool :: "json \<Rightarrow> bool" where
  "is_bool v \<longleftrightarrow> (case v of JBool _ \<Rightarrow> True | _ \<Rightarrow> False)"

definition is_object :: "json \<Rightarrow> bool" where
  "is_object v \<longleftrightarrow> (case v of JObj _ \<Rightarrow> True | _ \<Rightarrow> False)"

definition is_array :: "json \<Rightarrow> bool" where
  "is_array v \<longleftrightarrow> (case v of JArr _ \<Rightarrow> True | _ \<Rightarrow> False)"

text \<open>A type assertion to an object, and a check on it.\<close>

definition object_with :: "(json_object \<Rightarrow> bool) \<Rightarrow> json \<Rightarrow> bool" where
  "object_with P v \<longleftrightarrow> (case v of JObj obj \<Rightarrow> P obj | _ \<Rightarrow> False)"

definition is_string_slice :: "json \<Rightarrow> bool" where
  "is_string_slice v \<longleftrightarrow>
     (case v of JArr items \<Rightarrow> list_all (\<lambda>x. non_empty_string x \<noteq> None) items | _ \<Rightarrow> False)"

definition is_number :: "json \<Rightarrow> bool" where
  "is_number v \<longleftrightarrow> (case v of JNum s \<Rightarrow> ParseFloat s \<noteq> None | _ \<Rightarrow> False)"

fun valid_json_value :: "json \<Rightarrow> bool" where
  "valid_json_value (JNum s) \<longleftrightarrow> is_number (JNum s)"
| "valid_json_value (JArr items) \<longleftrightarrow> list_all valid_json_value items"
| "valid_json_value (JObj kvs) \<longleftrightarrow> list_all (\<lambda>(_, v). valid_json_value v) kvs"
| "valid_json_value _ \<longleftrightarrow> True"

definition max_safe_integer :: int where
  "max_safe_integer = 2 ^ 53 - 1"

definition safe_integer :: "json \<Rightarrow> int option" where
  "safe_integer v =
     (case v of
        JNum s \<Rightarrow>
          (case ParseFloat s of
             Some (neg, q) \<Rightarrow>
               if of_int \<lfloor>q\<rfloor> \<noteq> q \<or> of_int max_safe_integer < q then None
               else Some (if neg then - \<lfloor>q\<rfloor> else \<lfloor>q\<rfloor>)
           | None \<Rightarrow> None)
      | _ \<Rightarrow> None)"

definition integer_with :: "(int \<Rightarrow> bool) \<Rightarrow> json \<Rightarrow> bool" where
  "integer_with P v \<longleftrightarrow> (case safe_integer v of Some i \<Rightarrow> P i | None \<Rightarrow> False)"

definition string_with :: "(string \<Rightarrow> bool) \<Rightarrow> json \<Rightarrow> bool" where
  "string_with P v \<longleftrightarrow> (case v of JStr s \<Rightarrow> P s | _ \<Rightarrow> False)"

definition exact_keys :: "json_object \<Rightarrow> string list \<Rightarrow> bool" where
  "exact_keys obj keys \<longleftrightarrow> length obj = length keys \<and> list_all (\<lambda>k. map_of obj k \<noteq> None) keys"

definition has_auditable_string :: "json_object \<Rightarrow> string \<Rightarrow> bool" where
  "has_auditable_string obj k \<longleftrightarrow>
     (case non_empty_string (get obj k) of
        None \<Rightarrow> False
      | Some s \<Rightarrow> list_all (\<lambda>r. \<not> IsControl r \<and> r \<noteq> 0x2028 \<and> r \<noteq> 0x2029) (runes s))"

definition valid_sha256 :: "string \<Rightarrow> bool" where
  "valid_sha256 s \<longleftrightarrow>
     length s = 64
   \<and> list_all (\<lambda>r. 48 \<le> r \<and> r \<le> 57 \<or> 97 \<le> r \<and> r \<le> 102) (runes s)"

definition valid_terminal_identifier :: "string \<Rightarrow> bool" where
  "valid_terminal_identifier s \<longleftrightarrow>
     length s \<noteq> 0 \<and> length s \<le> 128
   \<and> list_all (\<lambda>r. 65 \<le> r \<and> r \<le> 90 \<or> 97 \<le> r \<and> r \<le> 122 \<or> 48 \<le> r \<and> r \<le> 57 \<or> r = 95 \<or> r = 45)
       (runes s)"

definition valid_timestamp :: "string \<Rightarrow> bool" where
  "valid_timestamp s \<longleftrightarrow> parse_rfc3339 s \<noteq> None"

definition valid_terminal_dimension :: "int \<Rightarrow> bool" where
  "valid_terminal_dimension n \<longleftrightarrow> 0 < n \<and> n \<le> 1000"

definition valid_editor_byte_length :: "int \<Rightarrow> bool" where
  "valid_editor_byte_length n \<longleftrightarrow> 0 \<le> n \<and> n \<le> 64 * 1024 * 1024"

definition valid_object_slice :: "json \<Rightarrow> (json \<Rightarrow> bool) \<Rightarrow> bool" where
  "valid_object_slice v validator \<longleftrightarrow>
     (case v of JArr items \<Rightarrow> items \<noteq> [] \<and> list_all validator items | _ \<Rightarrow> False)"

section \<open>Payload values\<close>

definition valid_scope :: "json \<Rightarrow> bool" where
  "valid_scope = object_with (\<lambda>m.
     has_string m ''id'' \<and> has_string m ''principal'' \<and> has_string m ''workspace'' \<and> has_string m ''validity''
   \<and> is_string_slice (get m ''targets'') \<and> is_string_slice (get m ''allowedActions'')
   \<and> is_string_slice (get m ''deniedActions'') \<and> has_string m ''riskCeiling'')"

definition valid_agent :: "json \<Rightarrow> bool" where
  "valid_agent = object_with (\<lambda>m. has_string m ''id'' \<and> has_string m ''name'' \<and> has_string m ''status'')"

definition valid_plan :: "json \<Rightarrow> bool" where
  "valid_plan = object_with (\<lambda>m.
     has_string m ''runId'' \<and> integer_with (\<lambda>n. 0 < n) (get m ''revision'')
   \<and> is_string_slice (get m ''stepIds''))"

definition valid_tool_receipt :: "json \<Rightarrow> bool" where
  "valid_tool_receipt = object_with (\<lambda>m.
     has_string m ''callId'' \<and> has_string m ''actionId'' \<and> has_string m ''tool'' \<and> has_string m ''effect''
   \<and> is_bool (get m ''success'') \<and> is_string_slice (get m ''evidenceIds'')
   \<and> is_string_slice (get m ''artifactRefs''))"

definition valid_evidence_reference :: "json \<Rightarrow> bool" where
  "valid_evidence_reference = object_with (\<lambda>m.
     has_string m ''id'' \<and> has_string m ''kind'' \<and> has_string m ''sourceRef''
   \<and> is_string_slice (get m ''artifactRefs''))"

definition valid_artifact :: "json \<Rightarrow> bool" where
  "valid_artifact = object_with (\<lambda>m.
     has_string m ''id'' \<and> has_string m ''reference'' \<and> has_string m ''kind''
   \<and> has_string m ''sha256'' \<and> string_with valid_sha256 (get m ''sha256'')
   \<and> is_string_slice (get m ''evidenceIds''))"

definition valid_interaction :: "json \<Rightarrow> bool" where
  "valid_interaction = object_with (\<lambda>m.
     has_string m ''id'' \<and> has_string m ''kind'' \<and> has_string m ''status'')"

definition valid_evidence :: "json \<Rightarrow> bool" where
  "valid_evidence = object_with (\<lambda>m.
     has_string m ''id'' \<and> has_string m ''taskId'' \<and> has_string m ''kind'' \<and> has_string m ''summary''
   \<and> is_object (get m ''data''))"

definition valid_finding :: "json \<Rightarrow> bool" where
  "valid_finding = object_with (\<lambda>m.
     has_string m ''id'' \<and> has_string m ''title'' \<and> has_string m ''severity'' \<and> has_string m ''confidence''
   \<and> is_string_slice (get m ''evidenceIds'')
   \<and> string_with (List.member [''candidate'', ''verifying'', ''confirmed'', ''rejected'', ''mitigated''])
       (get m ''status''))"

definition valid_lease :: "json \<Rightarrow> bool" where
  "valid_lease = object_with (\<lambda>m.
     has_string m ''clientId'' \<and> integer_with (\<lambda>n. 0 < n) (get m ''revision''))"

definition valid_challenge :: "json \<Rightarrow> bool" where
  "valid_challenge = object_with (\<lambda>m.
     list_all (has_string m)
       [''id'', ''agentId'', ''action'', ''target'', ''parameterDigest'', ''risk'', ''expiresAt'']
   \<and> string_with valid_timestamp (get m ''expiresAt''))"

definition valid_report :: "json \<Rightarrow> bool" where
  "valid_report = object_with (\<lambda>m.
     has_string m ''id'' \<and> has_string m ''taskId'' \<and> integer_with (\<lambda>n. 0 \<le> n) (get m ''version'')
   \<and> string_with (List.member [''draft'', ''frozen'']) (get m ''status'')
   \<and> is_string (get m ''narrative'') \<and> is_string (get m ''recommendations'')
   \<and> is_string (get m ''humanNotes'') \<and> is_array (get m ''findings''))"

definition valid_terminal_session :: "json \<Rightarrow> bool" where
  "valid_terminal_session = object_with (\<lambda>m.
     exact_keys m [''id'', ''profileId'', ''processId'', ''workingDirectory'', ''scopeId'',
       ''ownerClientId'', ''leaseRevision'', ''columns'', ''rows'', ''outputLimitBytes'']
   \<and> list_all (has_auditable_string m) [''id'', ''processId'', ''workingDirectory'', ''scopeId'', ''ownerClientId'']
   \<and> string_with valid_terminal_identifier (get m ''profileId'')
   \<and> integer_with (\<lambda>n. 0 < n) (get m ''leaseRevision'')
   \<and> integer_with valid_terminal_dimension (get m ''columns'')
   \<and> integer_with valid_terminal_dimension (get m ''rows'')
   \<and> integer_with (\<lambda>n. 0 < n \<and> n \<le> 64 * 1024 * 1024) (get m ''outputLimitBytes''))"

definition valid_editor_reference :: "json \<Rightarrow> bool" where
  "valid_editor_reference = object_with (\<lambda>m.
     exact_keys m [''findingId'', ''evidenceId'', ''startLine'', ''endLine'']
   \<and> has_auditable_string m ''findingId'' \<and> has_auditable_string m ''evidenceId''
   \<and> (case (safe_integer (get m ''startLine''), safe_integer (get m ''endLine'')) of
         (Some start, Some end) \<Rightarrow> 0 < start \<and> start \<le> end
       | _ \<Rightarrow> False))"

definition valid_editor_draft :: "json \<Rightarrow> bool" where
  "valid_editor_draft = object_with (\<lambda>m.
     exact_keys m [''id'', ''path'', ''scopeId'', ''ownerClientId'', ''leaseRevision'', ''baseSha256'',
       ''baseByteLength'', ''encoding'', ''evidenceReferences'']
   \<and> list_all (has_auditable_string m) [''id'', ''path'', ''scopeId'', ''ownerClientId'']
   \<and> integer_with (\<lambda>n. 0 < n) (get m ''leaseRevision'')
   \<and> integer_with valid_editor_byte_length (get m ''baseByteLength'')
   \<and> string_with valid_sha256 (get m ''baseSha256'')
   \<and> get m ''encoding'' = JStr ''utf-8''
   \<and> (case get m ''evidenceReferences'' of JArr refs \<Rightarrow> list_all valid_editor_reference refs | _ \<Rightarrow> False))"

definition valid_asset_provenance :: "json \<Rightarrow> bool" where
  "valid_asset_provenance = object_with (\<lambda>m.
     if get m ''kind'' = JStr ''evidence'' then
       exact_keys m [''kind'', ''evidenceIds''] \<and> is_string_slice (get m ''evidenceIds'')
       \<and> get m ''evidenceIds'' \<noteq> JArr []
     else if get m ''kind'' = JStr ''human'' then
       exact_keys m [''kind'', ''annotationId'', ''author'']
       \<and> has_auditable_string m ''annotationId'' \<and> has_auditable_string m ''author''
     else False)"

definition valid_asset_node :: "json \<Rightarrow> bool" where
  "valid_asset_node = object_with (\<lambda>m.
     exact_keys m [''id'', ''kind'', ''label'', ''status'', ''attributes'', ''provenance'']
   \<and> has_auditable_string m ''id'' \<and> has_auditable_string m ''kind'' \<and> has_auditable_string m ''label''
   \<and> string_with (List.member [''active'', ''revoked'', ''deleted'', ''unknown'']) (get m ''status'')
   \<and> is_object (get m ''attributes'') \<and> valid_asset_provenance (get m ''provenance''))"

definition valid_asset_edge :: "json \<Rightarrow> bool" where
  "valid_asset_edge = object_with (\<lambda>m.
     exact_keys m [''id'', ''kind'', ''sourceId'', ''targetId'', ''directed'', ''provenance'']
   \<and> has_auditable_string m ''id'' \<and> has_auditable_string m ''kind''
   \<and> has_string m ''sourceId'' \<and> has_string m ''targetId'' \<and> get m ''sourceId'' \<noteq> get m ''targetId''
   \<and> is_bool (get m ''directed'') \<and> valid_asset_provenance (get m ''provenance''))"

section \<open>Payloads\<close>

type_synonym payload_rule = "json_object \<Rightarrow> bool"

definition task_rules :: "(string \<times> payload_rule) list" where
  "task_rules =
     [(''task.created'', \<lambda>p. has_string p ''title''),
      (''task.started'', \<lambda>p. has_string p ''title''),
      (''task.failed'', \<lambda>p. has_string p ''reason''),
      (''task.blocked'', \<lambda>p. has_string p ''reason''),
      (''scope.proposed'', \<lambda>p. valid_scope (get p ''scope'')),
      (''scope.confirmed'', \<lambda>p. valid_scope (get p ''scope'')),
      (''runtime.capabilities.updated'', \<lambda>p. is_string_slice (get p ''capabilities'')),
      (''control.acquired'', \<lambda>p. valid_lease (get p ''lease'')),
      (''control.transferred'', \<lambda>p. valid_lease (get p ''lease'')),
      (''control.released'', \<lambda>p. has_string p ''clientId''),
      (''approval.requested'', \<lambda>p. valid_challenge (get p ''challenge'')),
      (''approval.resolved'', \<lambda>p. has_string p ''challengeId''
         \<and> string_with (List.member [''allow_once'', ''deny'']) (get p ''decision'')),
      (''question.requested'', \<lambda>p. has_string p ''questionId'' \<and> has_string p ''prompt''),
      (''question.resolved'', \<lambda>p. has_string p ''questionId'' \<and> has_string p ''answer''),
      (''agent.started'', \<lambda>p. valid_agent (get p ''agent'')),
      (''agent.dispatched'', \<lambda>p. valid_object_slice (get p ''agents'') valid_agent),
      (''agent.progressed'', \<lambda>p. has_string p ''agentId'' \<and> is_number (get p ''progress'')),
      (''agent.completed'', \<lambda>p. has_string p ''agentId''),
      (''agent.failed'', \<lambda>p. has_string p ''agentId'' \<and> has_string p ''reason''),
      (''tool.started'', \<lambda>p. has_string p ''callId'' \<and> has_string p ''name''),
      (''tool.completed'', \<lambda>p. has_string p ''callId'' \<and> is_bool (get p ''success'')
         \<and> is_string_slice (get p ''evidenceIds'')),
      (''tool.failed'', \<lambda>p. has_string p ''callId'' \<and> has_string p ''reason''),
      (''tool.receipt'', \<lambda>p. valid_tool_receipt (get p ''receipt''))]"

definition record_rules :: "(string \<times> payload_rule) list" where
  "record_rules =
     [(''evidence.committed'', \<lambda>p. valid_evidence (get p ''evidence'')),
      (''evidence.references.committed'', \<lambda>p. valid_object_slice (get p ''references'') valid_evidence_reference),
      (''artifact.available'', \<lambda>p. valid_artifact (get p ''artifact'')),
      (''plan.created'', \<lambda>p. valid_plan (get p ''plan'')),
      (''plan.revised'', \<lambda>p. valid_plan (get p ''plan'')),
      (''interaction.requested'', \<lambda>p. valid_interaction (get p ''interaction'')),
      (''interaction.responded'', \<lambda>p. valid_interaction (get p ''interaction'')),
      (''interaction.cancelled'', \<lambda>p. valid_interaction (get p ''interaction'')),
      (''finding.created'', \<lambda>p. valid_finding (get p ''finding'')),
      (''finding.verifying'', \<lambda>p. has_string p ''findingId''),
      (''finding.confirmed'', \<lambda>p. has_string p ''findingId''),
      (''finding.mitigated'', \<lambda>p. has_string p ''findingId''),
      (''finding.rejected'', \<lambda>p. has_string p ''findingId'' \<and> has_string p ''reason''),
      (''report.drafted'', \<lambda>p. valid_report (get p ''report'')),
      (''report.edited'', \<lambda>p. valid_report (get p ''report'')),
      (''report.validation.failed'', \<lambda>p. has_string p ''reportId'' \<and> has_string p ''reason''),
      (''report.validated'', \<lambda>p. has_string p ''reportId''),
      (''report.frozen'', \<lambda>p. has_string p ''reportId'' \<and> integer_with (\<lambda>n. 0 < n) (get p ''version'')),
      (''report.exported'', \<lambda>p. has_string p ''reportId'' \<and> has_string p ''format'')]"

definition positive_up_to_1m :: "int \<Rightarrow> bool" where
  "positive_up_to_1m n \<longleftrightarrow> 0 < n \<and> n \<le> 1024 * 1024"

definition terminal_rules :: "(string \<times> payload_rule) list" where
  "terminal_rules =
     [(''terminal.opened'', \<lambda>p. exact_keys p [''session''] \<and> valid_terminal_session (get p ''session'')),
      (''terminal.output'', \<lambda>p. exact_keys p [''sessionId'', ''sequence'', ''data'', ''byteLength'']
         \<and> has_auditable_string p ''sessionId'' \<and> integer_with (\<lambda>n. 0 < n) (get p ''sequence'')
         \<and> integer_with positive_up_to_1m (get p ''byteLength'')
         \<and> string_with (\<lambda>d. map_option int (base64_length d) = safe_integer (get p ''byteLength'')) (get p ''data'')),
      (''terminal.input.accepted'', \<lambda>p. exact_keys p [''sessionId'', ''sequence'', ''byteLength'', ''sha256'']
         \<and> has_auditable_string p ''sessionId'' \<and> integer_with (\<lambda>n. 0 < n) (get p ''sequence'')
         \<and> integer_with positive_up_to_1m (get p ''byteLength'')
         \<and> string_with valid_sha256 (get p ''sha256'')),
      (''terminal.resized'', \<lambda>p. exact_keys p [''sessionId'', ''columns'', ''rows'']
         \<and> has_auditable_string p ''sessionId'' \<and> integer_with valid_terminal_dimension (get p ''columns'')
         \<and> integer_with valid_terminal_dimension (get p ''rows'')),
      (''terminal.exited'', \<lambda>p. exact_keys p [''sessionId'', ''exitCode'', ''reason'']
         \<and> has_auditable_string p ''sessionId'' \<and> integer_with (\<lambda>_. True) (get p ''exitCode'')
         \<and> has_auditable_string p ''reason'')]"

definition workspace_rules :: "(string \<times> payload_rule) list" where
  "workspace_rules =
     [(''editor.draft.opened'', \<lambda>p. exact_keys p [''draft''] \<and> valid_editor_draft (get p ''draft'')),
      (''editor.draft.saved'', \<lambda>p.
         exact_keys p [''draftId'', ''revision'', ''baseSha256'', ''proposedSha256'', ''proposedByteLength'']
         \<and> has_auditable_string p ''draftId'' \<and> integer_with (\<lambda>n. 0 < n) (get p ''revision'')
         \<and> string_with valid_sha256 (get p ''baseSha256'') \<and> string_with valid_sha256 (get p ''proposedSha256'')
         \<and> integer_with valid_editor_byte_length (get p ''proposedByteLength'')),
      (''editor.patch.applied'', \<lambda>p.
         exact_keys p [''draftId'', ''revision'', ''baseSha256'', ''proposedSha256'', ''resultSha256'', ''reviewer'']
         \<and> has_auditable_string p ''draftId'' \<and> integer_with (\<lambda>n. 0 < n) (get p ''revision'')
         \<and> string_with valid_sha256 (get p ''baseSha256'') \<and> string_with valid_sha256 (get p ''proposedSha256'')
         \<and> string_with valid_sha256 (get p ''resultSha256'') \<and> has_auditable_string p ''reviewer''),
      (''editor.patch.verified'', \<lambda>p.
         exact_keys p [''draftId'', ''revision'', ''verificationId'', ''success'', ''evidenceIds'']
         \<and> has_auditable_string p ''draftId'' \<and> integer_with (\<lambda>n. 0 < n) (get p ''revision'')
         \<and> has_auditable_string p ''verificationId'' \<and> is_bool (get p ''success'')
         \<and> is_string_slice (get p ''evidenceIds'')),
      (''editor.draft.discarded'', \<lambda>p. exact_keys p [''draftId'', ''reason'']
         \<and> has_auditable_string p ''draftId'' \<and> has_auditable_string p ''reason''),
      (''asset.node.committed'', \<lambda>p. exact_keys p [''node''] \<and> valid_asset_node (get p ''node'')),
      (''asset.edge.committed'', \<lambda>p. exact_keys p [''edge''] \<and> valid_asset_edge (get p ''edge'')),
      (''asset.node.status.changed'', \<lambda>p. exact_keys p [''nodeId'', ''status'', ''reason'']
         \<and> has_auditable_string p ''nodeId''
         \<and> string_with (List.member [''revoked'', ''deleted'']) (get p ''status'')
         \<and> has_auditable_string p ''reason'')]"

text \<open>A known type without a case of its own takes an empty payload.\<close>

definition valid_known_payload :: "string \<Rightarrow> payload_rule" where
  "valid_known_payload t p =
     (case map_of (task_rules @ record_rules @ terminal_rules @ workspace_rules) t of
        Some rule \<Rightarrow> rule p
      | None \<Rightarrow> length p = 0)"

definition known_event_types :: "string list" where
  "known_event_types =
     [''task.created'', ''task.started'', ''task.paused'', ''task.resumed'', ''task.cancel.requested'',
      ''task.cancelled'', ''task.completed'', ''task.failed'', ''task.blocked'', ''scope.proposed'',
      ''scope.confirmed'', ''runtime.capabilities.updated'', ''control.acquired'', ''control.transferred'',
      ''control.released'', ''approval.requested'', ''approval.resolved'', ''question.requested'',
      ''question.resolved'', ''agent.started'', ''agent.progressed'', ''agent.completed'', ''agent.failed'',
      ''tool.started'', ''tool.completed'', ''tool.failed'', ''evidence.committed'', ''finding.created'',
      ''finding.verifying'', ''finding.confirmed'', ''finding.rejected'', ''finding.mitigated'',
      ''report.drafted'', ''report.edited'', ''report.validation.failed'', ''report.validated'',
      ''report.frozen'', ''report.exported'', ''terminal.opened'', ''terminal.output'',
      ''terminal.input.accepted'', ''terminal.resized'', ''terminal.exited'', ''editor.draft.opened'',
      ''editor.draft.saved'', ''editor.patch.applied'', ''editor.patch.verified'',
      ''editor.draft.discarded'', ''asset.node.committed'', ''asset.edge.committed'',
      ''asset.node.status.changed'', ''plan.created'', ''plan.revised'', ''agent.dispatched'',
      ''tool.receipt'', ''evidence.references.committed'', ''artifact.available'',
      ''interaction.requested'', ''interaction.responded'', ''interaction.cancelled'']"

section \<open>Events\<close>

datatype event_error = Unsupported_Schema_Version | Invalid_Event

definition decode_object :: "string \<Rightarrow> json_object option" where
  "decode_object raw = (case decode_json raw of Some (JObj obj) \<Rightarrow> Some obj | _ \<Rightarrow> None)"

text \<open>An optional key that must be a non-empty string where it is present; left out, it reads as empty.\<close>

definition optional_string :: "json_object \<Rightarrow> string \<Rightarrow> string option" where
  "optional_string obj k = (case map_of obj k of None \<Rightarrow> Some [] | Some v \<Rightarrow> non_empty_string v)"

definition valid_source :: "json \<Rightarrow> event_source option" where
  "valid_source v =
     (case v of
        JObj obj \<Rightarrow>
          (case (non_empty_string (get obj ''runtimeId''), optional_string obj ''agentId'',
                 optional_string obj ''toolCallId'') of
             (Some runtime, Some agent, Some call) \<Rightarrow>
               Some \<lparr>es_runtime = runtime, es_agent = agent, es_tool_call = call\<rparr>
           | _ \<Rightarrow> None)
      | _ \<Rightarrow> None)"

definition valid_origin :: "json \<Rightarrow> string \<Rightarrow> int \<Rightarrow> event_origin option" where
  "valid_origin v event_id cursor =
     (case v of
        JObj obj \<Rightarrow>
          (case (non_empty_string (get obj ''sourceSessionId''), safe_integer (get obj ''sourceSequence''),
                 non_empty_string (get obj ''sourceEventId''), non_empty_string (get obj ''sourceTopic'')) of
             (Some session, Some sequence, Some source_id, Some topic) \<Rightarrow>
               if sequence \<noteq> cursor \<or> source_id \<noteq> event_id then None
               else Some \<lparr>eo_session = session, eo_sequence = sequence, eo_event = source_id,
                 eo_topic = topic\<rparr>
           | _ \<Rightarrow> None)
      | _ \<Rightarrow> None)"

text \<open>The origin as \<open>Validate\<close> reads it: absent, valid or invalid.\<close>

definition read_origin :: "json_object \<Rightarrow> string \<Rightarrow> int \<Rightarrow> event_origin option option" where
  "read_origin obj event_id cursor =
     (case map_of obj ''origin'' of
        None \<Rightarrow> Some None
      | Some v \<Rightarrow> map_option Some (valid_origin v event_id cursor))"

definition validate_object :: "json_object \<Rightarrow> event_error + event" where
  "validate_object obj =
     (if \<not> valid_json_value (JObj obj) then Inl Invalid_Event
      else
        (case safe_integer (get obj ''schemaVersion'') of
           None \<Rightarrow> Inl Invalid_Event
         | Some version \<Rightarrow>
             if version \<noteq> SchemaVersion then Inl Unsupported_Schema_Version
             else
               (case (safe_integer (get obj ''cursor''), non_empty_string (get obj ''eventId''),
                      non_empty_string (get obj ''taskId''), non_empty_string (get obj ''occurredAt''),
                      non_empty_string (get obj ''type''), valid_source (get obj ''source''),
                      get obj ''payload'') of
                  (Some cursor, Some event_id, Some task_id, Some time, Some t, Some source, JObj payload) \<Rightarrow>
                    if cursor < 1 \<or> \<not> valid_timestamp time
                       \<or> List.member known_event_types t \<and> \<not> valid_known_payload t payload
                    then Inl Invalid_Event
                    else
                      (case read_origin obj event_id cursor of
                         None \<Rightarrow> Inl Invalid_Event
                       | Some origin \<Rightarrow>
                           Inr \<lparr>e_schema = version, e_id = event_id, e_task = task_id, e_cursor = cursor,
                             e_time = time, e_type = t, e_source = source, e_payload = JObj payload,
                             e_kind = (if List.member known_event_types t then EventKindKnown
                                       else EventKindUnknown),
                             e_origin = origin\<rparr>)
                | _ \<Rightarrow> Inl Invalid_Event)))"

definition Validate :: "string \<Rightarrow> event_error + event" where
  "Validate raw =
     (case decode_object raw of None \<Rightarrow> Inl Invalid_Event | Some obj \<Rightarrow> validate_object obj)"

lemmas value_defs =
  non_empty_string_def has_string_def is_string_def is_bool_def is_object_def is_array_def
  object_with_def is_string_slice_def is_number_def integer_with_def string_with_def

lemmas rule_defs =
  valid_known_payload_def task_rules_def record_rules_def terminal_rules_def workspace_rules_def

end
