(* ===== verification/Product_State.thy ===== *)
theory Product_State
  imports Product_Types Go_Formats
begin

text \<open>
  \<open>productstate\<close>: the snapshot of a product task and \<open>Project\<close>, which folds one event into it. An event is
  applied only at the next cursor; one seen before is a duplicate if it is the same event and a conflict
  if not; one from beyond the next cursor asks for a resync. \<open>applyKnownEvent\<close> is split by the part of
  the state an event is about, one definition for each group of cases of the source's switch.

  \<open>cloneState\<close> marshals the state and reads it back, which is the identity on these values. A map that the
  source may find nil is empty here. \<open>CanonicalEvents\<close> holds the canonical value of each event in place of
  its text.
\<close>

section \<open>The snapshot\<close>

record task_snapshot =
  tk_id :: string
  tk_title :: string
  tk_status :: string

record product_state =
  ps_runtime :: "string option"
  ps_task :: "task_snapshot option"
  ps_plan :: "plan_state option"
  ps_scope :: "scope_snapshot option"
  ps_lease :: "control_lease option"
  ps_highest :: int
  ps_agents :: "string \<rightharpoonup> agent_state"
  ps_timeline :: "event list"
  ps_approvals :: "string \<rightharpoonup> approval_state"
  ps_findings :: "string \<rightharpoonup> finding_state"
  ps_evidence :: "string \<rightharpoonup> immutable_evidence"
  ps_references :: "string \<rightharpoonup> evidence_reference"
  ps_artifacts :: "string \<rightharpoonup> artifact_state"
  ps_receipts :: "string \<rightharpoonup> tool_receipt"
  ps_interactions :: "string \<rightharpoonup> interaction_state"
  ps_terminals :: "string \<rightharpoonup> terminal_session"
  ps_drafts :: "string \<rightharpoonup> editor_draft"
  ps_nodes :: "string \<rightharpoonup> asset_node"
  ps_edges :: "string \<rightharpoonup> asset_edge"
  ps_report :: "report_state option"
  ps_raw :: "event list"
  ps_cursor :: int
  ps_canonical :: "string \<rightharpoonup> canon"

definition Initial :: product_state where
  "Initial = \<lparr>ps_runtime = None, ps_task = None, ps_plan = None, ps_scope = None, ps_lease = None,
     ps_highest = 0, ps_agents = Map.empty, ps_timeline = [], ps_approvals = Map.empty,
     ps_findings = Map.empty, ps_evidence = Map.empty, ps_references = Map.empty,
     ps_artifacts = Map.empty, ps_receipts = Map.empty, ps_interactions = Map.empty,
     ps_terminals = Map.empty, ps_drafts = Map.empty, ps_nodes = Map.empty, ps_edges = Map.empty,
     ps_report = None, ps_raw = [], ps_cursor = 0, ps_canonical = Map.empty\<rparr>"

datatype project_error =
    Not_Encodable | Decode_Failed
  | Event_ID_Conflict | Stale_Cursor | Invalid_Finding_Transition
  | Approval_Challenge_Conflict | Approval_Already_Resolved | Approval_Expired
  | Non_Monotonic_Lease_Revision
  | Terminal_Session_Conflict | Terminal_Session_Not_Open | Terminal_Output_Sequence
  | Terminal_Input_Sequence | Terminal_Output_Limit
  | Editor_Draft_Conflict | Editor_Provenance_Missing | Editor_Draft_Not_Editable
  | Editor_Draft_Revision | Editor_Patch_Stale | Editor_Patch_Not_Applied
  | Asset_Node_Conflict | Asset_Edge_Conflict | Asset_Node_Missing | Asset_Node_Deleted
  | Asset_Evidence_Missing

type_synonym applied = "project_error + product_state"

datatype projection =
    Projection_Applied product_state
  | Projection_Duplicate product_state
  | Projection_Resync_Required product_state int

section \<open>Payload fields\<close>

text \<open>
  \<open>decodePayload\<close> into a struct. The fields of a payload struct have different names up to case, so each is
  unmarshalled on its own; the payload is refused if one of them is.
\<close>

definition payload :: "event \<Rightarrow> string \<Rightarrow> 'a decoder \<Rightarrow> 'a \<Rightarrow> 'a option" where
  "payload e name dec zero = dec_struct [(name, field dec (\<lambda>r. r) (\<lambda>f. f))] (e_payload e) zero"

abbreviation p_string :: "event \<Rightarrow> string \<Rightarrow> string option" where
  "p_string e name \<equiv> payload e name dec_string []"

abbreviation p_int :: "event \<Rightarrow> string \<Rightarrow> int option" where
  "p_int e name \<equiv> payload e name dec_int 0"

text \<open>An update with a decoded value; an undecodable payload is an error.\<close>

definition decoded :: "'a option \<Rightarrow> ('a \<Rightarrow> applied) \<Rightarrow> applied" where
  "decoded v f = (case v of None \<Rightarrow> Inl Decode_Failed | Some x \<Rightarrow> f x)"

section \<open>Tasks, scopes, agents, evidence\<close>

definition apply_task :: "event \<Rightarrow> product_state \<Rightarrow> applied" where
  "apply_task e s =
     (if List.member [''task.created'', ''task.started''] (e_type e) then
        decoded (p_string e ''title'') (\<lambda>title.
          Inr (s\<lparr>ps_task := Some \<lparr>tk_id = e_task e, tk_title = title,
            tk_status = (if e_type e = ''task.started'' then ''running'' else ''created'')\<rparr>\<rparr>))
      else
        (case ps_task s of
           None \<Rightarrow> Inr s
         | Some t \<Rightarrow> Inr (s\<lparr>ps_task := Some (t\<lparr>tk_status := drop (length ''task.'') (e_type e)\<rparr>)\<rparr>)))"

definition apply_scope :: "event \<Rightarrow> product_state \<Rightarrow> applied" where
  "apply_scope e s =
     decoded (payload e ''scope'' dec_scope no_scope) (\<lambda>scope. Inr (s\<lparr>ps_scope := Some scope\<rparr>))"

definition put_agent :: "agent_state \<Rightarrow> (string \<rightharpoonup> agent_state) \<Rightarrow> string \<rightharpoonup> agent_state" where
  "put_agent a m = m(ag_id a \<mapsto> a)"

definition apply_agent :: "event \<Rightarrow> product_state \<Rightarrow> applied" where
  "apply_agent e s =
     (if e_type e = ''agent.started'' then
        decoded (payload e ''agent'' dec_agent no_agent) (\<lambda>a. Inr (s\<lparr>ps_agents := put_agent a (ps_agents s)\<rparr>))
      else if e_type e = ''agent.dispatched'' then
        decoded (payload e ''agents'' (dec_slice dec_agent no_agent) [])
          (\<lambda>agents. Inr (s\<lparr>ps_agents := fold put_agent agents (ps_agents s)\<rparr>))
      else if e_type e = ''agent.progressed'' then
        (case (p_string e ''agentId'', payload e ''progress'' dec_float (False, 0), p_string e ''currentAction'') of
           (Some agent, Some progress, Some action) \<Rightarrow>
             (case ps_agents s agent of
                None \<Rightarrow> Inr s
              | Some a \<Rightarrow> Inr (s\<lparr>ps_agents := (ps_agents s)(agent \<mapsto>
                  a\<lparr>ag_agent := agent, ag_progress := Some progress,
                    ag_action := (if action = [] then ag_action a else action)\<rparr>)\<rparr>))
         | _ \<Rightarrow> Inl Decode_Failed)
      else
        decoded (p_string e ''agentId'') (\<lambda>agent.
          case ps_agents s agent of
            None \<Rightarrow> Inr s
          | Some a \<Rightarrow> Inr (s\<lparr>ps_agents := (ps_agents s)(agent \<mapsto>
              a\<lparr>ag_status := drop (length ''agent.'') (e_type e)\<rparr>)\<rparr>)))"

definition put_reference ::
  "evidence_reference \<Rightarrow> (string \<rightharpoonup> evidence_reference) \<Rightarrow> string \<rightharpoonup> evidence_reference" where
  "put_reference r m = m(er_id r \<mapsto> r)"

definition apply_record :: "event \<Rightarrow> product_state \<Rightarrow> applied" where
  "apply_record e s =
     (if e_type e = ''evidence.committed'' then
        decoded (payload e ''evidence'' dec_evidence no_evidence)
          (\<lambda>v. Inr (s\<lparr>ps_evidence := (ps_evidence s)(ev_id v \<mapsto> v)\<rparr>))
      else if e_type e = ''evidence.references.committed'' then
        decoded (payload e ''references'' (dec_slice dec_evidence_reference no_reference) [])
          (\<lambda>refs. Inr (s\<lparr>ps_references := fold put_reference refs (ps_references s)\<rparr>))
      else if e_type e = ''artifact.available'' then
        decoded (payload e ''artifact'' dec_artifact no_artifact)
          (\<lambda>a. Inr (s\<lparr>ps_artifacts := (ps_artifacts s)(ar_id a \<mapsto> a)\<rparr>))
      else if e_type e = ''tool.receipt'' then
        decoded (payload e ''receipt'' dec_tool_receipt no_receipt)
          (\<lambda>r. Inr (s\<lparr>ps_receipts := (ps_receipts s)(tr_call r \<mapsto> r)\<rparr>))
      else if List.member [''plan.created'', ''plan.revised''] (e_type e) then
        decoded (payload e ''plan'' dec_plan no_plan) (\<lambda>p. Inr (s\<lparr>ps_plan := Some p\<rparr>))
      else
        decoded (payload e ''interaction'' dec_interaction no_interaction)
          (\<lambda>i. Inr (s\<lparr>ps_interactions := (ps_interactions s)(in_id i \<mapsto> i)\<rparr>)))"

section \<open>Findings, approvals, the control lease, the report\<close>

definition finding_transitions :: "(string \<times> string list) list" where
  "finding_transitions =
     [(''candidate'', [''verifying'', ''rejected'']),
      (''verifying'', [''confirmed'', ''rejected'']),
      (''confirmed'', [''mitigated'']),
      (''rejected'', []),
      (''mitigated'', [])]"

definition finding_allowed :: "string \<Rightarrow> string \<Rightarrow> bool" where
  "finding_allowed old new \<longleftrightarrow>
     (case map_of finding_transitions old of None \<Rightarrow> False | Some to \<Rightarrow> List.member to new)"

definition apply_finding :: "event \<Rightarrow> product_state \<Rightarrow> applied" where
  "apply_finding e s =
     (if e_type e = ''finding.created'' then
        decoded (payload e ''finding'' dec_finding no_finding)
          (\<lambda>f. Inr (s\<lparr>ps_findings := (ps_findings s)(fi_id f \<mapsto> f)\<rparr>))
      else
        (case (p_string e ''findingId'', p_string e ''reason'') of
           (Some fid, Some reason) \<Rightarrow>
             (case ps_findings s fid of
                None \<Rightarrow> Inl Invalid_Finding_Transition
              | Some f \<Rightarrow>
                  (let status = drop (length ''finding.'') (e_type e) in
                   if \<not> finding_allowed (fi_status f) status then Inl Invalid_Finding_Transition
                   else Inr (s\<lparr>ps_findings := (ps_findings s)(fid \<mapsto>
                     f\<lparr>fi_status := status,
                       fi_rejection := (if status = ''rejected'' then reason else fi_rejection f)\<rparr>)\<rparr>)))
         | _ \<Rightarrow> Inl Decode_Failed))"

text \<open>\<open>time.Parse\<close> with its error dropped: an unreadable time is the zero time.\<close>

definition time_or_zero :: "string \<Rightarrow> instant" where
  "time_or_zero t = (case parse_rfc3339 t of None \<Rightarrow> zero_time | Some i \<Rightarrow> i)"

definition apply_approval :: "event \<Rightarrow> product_state \<Rightarrow> applied" where
  "apply_approval e s =
     (if e_type e = ''approval.requested'' then
        decoded (payload e ''challenge'' dec_challenge no_challenge) (\<lambda>c.
          case ps_approvals s (ap_id c) of
            Some existing \<Rightarrow>
              if canon_approval existing \<noteq> canon_challenge c then Inl Approval_Challenge_Conflict else Inr s
          | None \<Rightarrow>
              Inr (s\<lparr>ps_approvals := (ps_approvals s)(ap_id c \<mapsto> \<lparr>ap_challenge = c, ap_decision = []\<rparr>)\<rparr>))
      else
        (case (p_string e ''challengeId'', p_string e ''decision'') of
           (Some cid, Some decision) \<Rightarrow>
             (case ps_approvals s cid of
                None \<Rightarrow> Inl Approval_Already_Resolved
              | Some a \<Rightarrow>
                  if ap_decision a \<noteq> [] then Inl Approval_Already_Resolved
                  else if time_or_zero (ap_expires (ap_challenge a)) < time_or_zero (e_time e)
                  then Inl Approval_Expired
                  else Inr (s\<lparr>ps_approvals := (ps_approvals s)(cid \<mapsto> a\<lparr>ap_decision := decision\<rparr>)\<rparr>))
         | _ \<Rightarrow> Inl Decode_Failed))"

definition apply_control :: "event \<Rightarrow> product_state \<Rightarrow> applied" where
  "apply_control e s =
     (if e_type e = ''control.released'' then
        decoded (p_string e ''clientId'') (\<lambda>client.
          case ps_lease s of
            None \<Rightarrow> Inr s
          | Some l \<Rightarrow> if cl_client l = client then Inr (s\<lparr>ps_lease := None\<rparr>) else Inr s)
      else
        decoded (payload e ''lease'' dec_lease no_lease) (\<lambda>l.
          if cl_revision l \<le> ps_highest s then Inl Non_Monotonic_Lease_Revision
          else Inr (s\<lparr>ps_lease := Some l, ps_highest := cl_revision l\<rparr>)))"

definition apply_report :: "event \<Rightarrow> product_state \<Rightarrow> applied" where
  "apply_report e s =
     (if e_type e = ''report.frozen'' then
        decoded (p_int e ''version'') (\<lambda>version.
          case ps_report s of
            None \<Rightarrow> Inr s
          | Some r \<Rightarrow> Inr (s\<lparr>ps_report := Some (r\<lparr>rp_version := version, rp_status := ''frozen''\<rparr>)\<rparr>))
      else
        decoded (payload e ''report'' dec_report no_report) (\<lambda>r. Inr (s\<lparr>ps_report := Some r\<rparr>)))"

section \<open>Terminals\<close>

text \<open>The open session a terminal event names.\<close>

definition open_session :: "product_state \<Rightarrow> string \<Rightarrow> terminal_session option" where
  "open_session s sid =
     (case ps_terminals s sid of
        Some t \<Rightarrow> if ts_status t = ''open'' then Some t else None
      | None \<Rightarrow> None)"

definition put_terminal :: "terminal_session \<Rightarrow> product_state \<Rightarrow> applied" where
  "put_terminal t s = Inr (s\<lparr>ps_terminals := (ps_terminals s)(ts_id t \<mapsto> t)\<rparr>)"

definition terminal_opened :: "event \<Rightarrow> product_state \<Rightarrow> applied" where
  "terminal_opened e s =
     decoded (payload e ''session'' dec_session no_session) (\<lambda>t.
       if ps_terminals s (ts_id t) \<noteq> None then Inl Terminal_Session_Conflict
       else put_terminal (t\<lparr>ts_status := ''open'', ts_next_input := 1, ts_next_output := 1, ts_output := []\<rparr>) s)"

definition terminal_output :: "event \<Rightarrow> product_state \<Rightarrow> applied" where
  "terminal_output e s =
     (case (p_string e ''sessionId'', p_int e ''sequence'', p_string e ''data'', p_int e ''byteLength'') of
        (Some sid, Some seq, Some data, Some len) \<Rightarrow>
          (case open_session s sid of
             None \<Rightarrow> Inl Terminal_Session_Not_Open
           | Some t \<Rightarrow>
               if seq \<noteq> ts_next_output t then Inl Terminal_Output_Sequence
               else if ts_limit t < wrap64 (ts_bytes t + len) then Inl Terminal_Output_Limit
               else put_terminal (t\<lparr>ts_bytes := wrap64 (ts_bytes t + len),
                 ts_next_output := wrap64 (ts_next_output t + 1),
                 ts_output := ts_output t @ [\<lparr>tc_sequence = seq, tc_data = data, tc_length = len\<rparr>]\<rparr>) s)
      | _ \<Rightarrow> Inl Decode_Failed)"

definition terminal_input :: "event \<Rightarrow> product_state \<Rightarrow> applied" where
  "terminal_input e s =
     (case (p_string e ''sessionId'', p_int e ''sequence'') of
        (Some sid, Some seq) \<Rightarrow>
          (case open_session s sid of
             None \<Rightarrow> Inl Terminal_Session_Not_Open
           | Some t \<Rightarrow>
               if seq \<noteq> ts_next_input t then Inl Terminal_Input_Sequence
               else put_terminal (t\<lparr>ts_next_input := wrap64 (ts_next_input t + 1)\<rparr>) s)
      | _ \<Rightarrow> Inl Decode_Failed)"

definition terminal_resized :: "event \<Rightarrow> product_state \<Rightarrow> applied" where
  "terminal_resized e s =
     (case (p_string e ''sessionId'', p_int e ''columns'', p_int e ''rows'') of
        (Some sid, Some columns, Some rows) \<Rightarrow>
          (case open_session s sid of
             None \<Rightarrow> Inl Terminal_Session_Not_Open
           | Some t \<Rightarrow> put_terminal (t\<lparr>ts_columns := columns, ts_rows := rows\<rparr>) s)
      | _ \<Rightarrow> Inl Decode_Failed)"

definition terminal_exited :: "event \<Rightarrow> product_state \<Rightarrow> applied" where
  "terminal_exited e s =
     (case (p_string e ''sessionId'', p_int e ''exitCode'', p_string e ''reason'') of
        (Some sid, Some exit_code, Some reason) \<Rightarrow>
          (case open_session s sid of
             None \<Rightarrow> Inl Terminal_Session_Not_Open
           | Some t \<Rightarrow>
               put_terminal (t\<lparr>ts_status := ''exited'', ts_exit_code := Some exit_code,
                 ts_exit_reason := reason\<rparr>) s)
      | _ \<Rightarrow> Inl Decode_Failed)"

section \<open>Editor drafts\<close>

definition put_draft :: "editor_draft \<Rightarrow> product_state \<Rightarrow> applied" where
  "put_draft d s = Inr (s\<lparr>ps_drafts := (ps_drafts s)(dr_id d \<mapsto> d)\<rparr>)"

text \<open>A reference of a draft: evidence of the task, held by the finding it names.\<close>

definition reference_held :: "event \<Rightarrow> product_state \<Rightarrow> editor_reference \<Rightarrow> bool" where
  "reference_held e s r \<longleftrightarrow>
     (case (ps_findings s (ed_finding r), ps_evidence s (ed_evidence r)) of
        (Some f, Some v) \<Rightarrow> ev_task v = e_task e \<and> List.member (fi_evidence f) (ed_evidence r)
      | _ \<Rightarrow> False)"

definition draft_opened :: "event \<Rightarrow> product_state \<Rightarrow> applied" where
  "draft_opened e s =
     decoded (payload e ''draft'' dec_draft no_draft) (\<lambda>d.
       if ps_drafts s (dr_id d) \<noteq> None then Inl Editor_Draft_Conflict
       else if \<not> list_all (reference_held e s) (dr_references d) then Inl Editor_Provenance_Missing
       else put_draft (d\<lparr>dr_status := ''open'', dr_next := 1\<rparr>) s)"

definition editable :: "editor_draft \<Rightarrow> bool" where
  "editable d \<longleftrightarrow> dr_status d = ''open'' \<or> dr_status d = ''saved''"

definition draft_saved :: "event \<Rightarrow> product_state \<Rightarrow> applied" where
  "draft_saved e s =
     (case (p_string e ''draftId'', p_int e ''revision'', p_string e ''baseSha256'',
            p_string e ''proposedSha256'', p_int e ''proposedByteLength'') of
        (Some did, Some revision, Some base, Some proposed, Some len) \<Rightarrow>
          (case ps_drafts s did of
             None \<Rightarrow> Inl Editor_Draft_Not_Editable
           | Some d \<Rightarrow>
               if \<not> editable d then Inl Editor_Draft_Not_Editable
               else if revision \<noteq> dr_next d \<or> base \<noteq> dr_base d then Inl Editor_Draft_Revision
               else put_draft (d\<lparr>dr_status := ''saved'', dr_next := wrap64 (dr_next d + 1),
                 dr_proposed := proposed, dr_proposed_length := len\<rparr>) s)
      | _ \<Rightarrow> Inl Decode_Failed)"

definition patch_applied :: "event \<Rightarrow> product_state \<Rightarrow> applied" where
  "patch_applied e s =
     (case (p_string e ''draftId'', p_int e ''revision'', p_string e ''baseSha256'',
            p_string e ''proposedSha256'', p_string e ''resultSha256'', p_string e ''reviewer'') of
        (Some did, Some revision, Some base, Some proposed, Some result, Some reviewer) \<Rightarrow>
          (case ps_drafts s did of
             None \<Rightarrow> Inl Editor_Patch_Stale
           | Some d \<Rightarrow>
               if dr_status d \<noteq> ''saved'' \<or> revision \<noteq> wrap64 (dr_next d - 1) \<or> base \<noteq> dr_base d
                  \<or> proposed \<noteq> dr_proposed d
               then Inl Editor_Patch_Stale
               else put_draft (d\<lparr>dr_status := ''applied'', dr_result := result, dr_reviewer := reviewer\<rparr>) s)
      | _ \<Rightarrow> Inl Decode_Failed)"

definition patch_verified :: "event \<Rightarrow> product_state \<Rightarrow> applied" where
  "patch_verified e s =
     (case (p_string e ''draftId'', p_int e ''revision'', p_string e ''verificationId'',
            payload e ''success'' dec_bool False, payload e ''evidenceIds'' dec_strings []) of
        (Some did, Some revision, Some vid, Some success, Some evidence) \<Rightarrow>
          (case ps_drafts s did of
             None \<Rightarrow> Inl Editor_Patch_Not_Applied
           | Some d \<Rightarrow>
               if dr_status d \<noteq> ''applied'' \<or> revision \<noteq> wrap64 (dr_next d - 1)
               then Inl Editor_Patch_Not_Applied
               else if \<not> list_all (\<lambda>v. ps_evidence s v \<noteq> None) evidence then Inl Editor_Provenance_Missing
               else put_draft (d\<lparr>dr_status := ''verified'', dr_verification :=
                 Some \<lparr>evf_id = vid, evf_revision = revision, evf_success = success,
                   evf_evidence = evidence\<rparr>\<rparr>) s)
      | _ \<Rightarrow> Inl Decode_Failed)"

definition draft_discarded :: "event \<Rightarrow> product_state \<Rightarrow> applied" where
  "draft_discarded e s =
     (case (p_string e ''draftId'', p_string e ''reason'') of
        (Some did, Some reason) \<Rightarrow>
          (case ps_drafts s did of
             None \<Rightarrow> Inl Editor_Draft_Not_Editable
           | Some d \<Rightarrow>
               if \<not> editable d then Inl Editor_Draft_Not_Editable
               else put_draft (d\<lparr>dr_status := ''discarded'', dr_discard := reason\<rparr>) s)
      | _ \<Rightarrow> Inl Decode_Failed)"

section \<open>Assets\<close>

definition asset_evidence :: "product_state \<Rightarrow> string \<Rightarrow> asset_provenance \<Rightarrow> bool" where
  "asset_evidence s task p \<longleftrightarrow>
     pv_kind p \<noteq> ''evidence''
   \<or> list_all (\<lambda>v. case ps_evidence s v of None \<Rightarrow> False | Some x \<Rightarrow> ev_task x = task) (pv_evidence p)"

definition node_committed :: "event \<Rightarrow> product_state \<Rightarrow> applied" where
  "node_committed e s =
     decoded (payload e ''node'' dec_node no_node) (\<lambda>n.
       case ps_nodes s (an_id n) of
         Some existing \<Rightarrow> if canon_node existing \<noteq> canon_node n then Inl Asset_Node_Conflict else Inr s
       | None \<Rightarrow>
           if \<not> asset_evidence s (e_task e) (an_provenance n) then Inl Asset_Evidence_Missing
           else Inr (s\<lparr>ps_nodes := (ps_nodes s)(an_id n \<mapsto> n)\<rparr>))"

definition edge_committed :: "event \<Rightarrow> product_state \<Rightarrow> applied" where
  "edge_committed e s =
     decoded (payload e ''edge'' dec_edge no_edge) (\<lambda>x.
       case ps_edges s (ae_id x) of
         Some existing \<Rightarrow> if canon_edge existing \<noteq> canon_edge x then Inl Asset_Edge_Conflict else Inr s
       | None \<Rightarrow>
           if \<not> asset_evidence s (e_task e) (ae_provenance x) then Inl Asset_Evidence_Missing
           else Inr (s\<lparr>ps_edges := (ps_edges s)(ae_id x \<mapsto> x)\<rparr>))"

definition node_status_changed :: "event \<Rightarrow> product_state \<Rightarrow> applied" where
  "node_status_changed e s =
     (case (p_string e ''nodeId'', p_string e ''status'', p_string e ''reason'') of
        (Some nid, Some status, Some reason) \<Rightarrow>
          (case ps_nodes s nid of
             None \<Rightarrow> Inl Asset_Node_Missing
           | Some n \<Rightarrow>
               if an_status n = ''deleted'' then Inl Asset_Node_Deleted
               else Inr (s\<lparr>ps_nodes := (ps_nodes s)(an_id n \<mapsto>
                 n\<lparr>an_status := status, an_reason := reason\<rparr>)\<rparr>))
      | _ \<Rightarrow> Inl Decode_Failed)"

section \<open>Projection\<close>

text \<open>The switch on the event type; a known type without a case leaves the state as it is.\<close>

definition handlers :: "(string list \<times> (event \<Rightarrow> product_state \<Rightarrow> applied)) list" where
  "handlers =
     [([''task.created'', ''task.started'', ''task.paused'', ''task.resumed'', ''task.cancel.requested'',
        ''task.cancelled'', ''task.completed'', ''task.failed'', ''task.blocked''], apply_task),
      ([''scope.proposed'', ''scope.confirmed''], apply_scope),
      ([''agent.started'', ''agent.dispatched'', ''agent.progressed'', ''agent.completed'', ''agent.failed''],
        apply_agent),
      ([''evidence.committed'', ''evidence.references.committed'', ''artifact.available'', ''tool.receipt'',
        ''plan.created'', ''plan.revised'', ''interaction.requested'', ''interaction.responded'',
        ''interaction.cancelled''], apply_record),
      ([''finding.created'', ''finding.verifying'', ''finding.confirmed'', ''finding.rejected'',
        ''finding.mitigated''], apply_finding),
      ([''approval.requested'', ''approval.resolved''], apply_approval),
      ([''control.acquired'', ''control.transferred'', ''control.released''], apply_control),
      ([''report.drafted'', ''report.edited'', ''report.frozen''], apply_report),
      ([''terminal.opened''], terminal_opened),
      ([''terminal.output''], terminal_output),
      ([''terminal.input.accepted''], terminal_input),
      ([''terminal.resized''], terminal_resized),
      ([''terminal.exited''], terminal_exited),
      ([''editor.draft.opened''], draft_opened),
      ([''editor.draft.saved''], draft_saved),
      ([''editor.patch.applied''], patch_applied),
      ([''editor.patch.verified''], patch_verified),
      ([''editor.draft.discarded''], draft_discarded),
      ([''asset.node.committed''], node_committed),
      ([''asset.edge.committed''], edge_committed),
      ([''asset.node.status.changed''], node_status_changed)]"

definition apply_known_event :: "event \<Rightarrow> product_state \<Rightarrow> applied" where
  "apply_known_event e s =
     (case find (\<lambda>(types, _). List.member types (e_type e)) handlers of
        Some (_, handler) \<Rightarrow> handler e s
      | None \<Rightarrow> Inr s)"

definition Project :: "product_state \<Rightarrow> event \<Rightarrow> project_error + projection" where
  "Project previous e =
     (case canon_event e of
        None \<Rightarrow> Inl Not_Encodable
      | Some c \<Rightarrow>
          (case ps_canonical previous (e_id e) of
             Some existing \<Rightarrow>
               if existing \<noteq> c then Inl Event_ID_Conflict else Inr (Projection_Duplicate previous)
           | None \<Rightarrow>
               if e_cursor e \<le> ps_cursor previous then Inl Stale_Cursor
               else if wrap64 (ps_cursor previous + 1) < e_cursor e
               then Inr (Projection_Resync_Required previous (wrap64 (ps_cursor previous + 1)))
               else
                 (let s = previous\<lparr>ps_cursor := e_cursor e,
                        ps_canonical := (ps_canonical previous)(e_id e \<mapsto> c)\<rparr> in
                  if e_kind e = EventKindUnknown
                  then Inr (Projection_Applied (s\<lparr>ps_raw := ps_raw s @ [e]\<rparr>))
                  else
                    (case apply_known_event e (s\<lparr>ps_timeline := ps_timeline s @ [e]\<rparr>) of
                       Inl err \<Rightarrow> Inl err
                     | Inr s' \<Rightarrow> Inr (Projection_Applied s')))))"

end
