(* ===== verification/Json_Decoding.thy ===== *)
theory Json_Decoding
  imports Product_Validate Product_State
begin

text \<open>
  How what \<open>Validate\<close> checks bears on what is later unmarshalled. A validated payload is read as \<open>any\<close>,
  where keys are compared exactly and a number is a double; it is applied after unmarshalling into structs,
  where keys are matched up to case and an integer must be a plain literal. The two agree on a literal that
  both accept, and on the value of a key if no other key of the object folds to its name.
\<close>

section \<open>Integers\<close>

lemma magnitude_nat:
  assumes "0 < n"
  shows "magnitude (of_int n) = int (bit_count (nat n)) - 1"
proof -
  have quot: "quotient_of (of_int n) = (n, 1)" by (simp add: quotient_of_int)
  have one: "bit_count 1 = 1" by (simp add: bit_count.simps)
  have pos: "0 < bit_count (nat n)" using assms by (subst bit_count.simps) simp
  have "2 ^ (bit_count (nat n) - 1) \<le> nat n" using bit_count_bound [of "nat n"] assms by simp
  then have "(2 :: int) ^ (bit_count (nat n) - 1) \<le> n" using assms by (simp add: le_nat_iff)
  then have "(2 :: rat) ^ (bit_count (nat n) - 1) \<le> of_int n"
    by (metis of_int_le_iff of_int_numeral of_int_power)
  then show ?thesis using pos one by (simp add: magnitude_def quot Let_def pow2_def nat_diff_distrib)
qed

text \<open>An integer of 2^53 and more rounds to no less.\<close>

lemma round_double_large:
  assumes "2 ^ 53 \<le> n" and "round_double (of_int n) = Some v"
  shows "2 ^ 53 \<le> v"
proof -
  have "0 < n" using assms(1) by simp
  define b where "b = bit_count (nat n)"
  have "nat n < 2 ^ b" "2 ^ (b - 1) \<le> nat n" using bit_count_bound [of "nat n"] \<open>0 < n\<close> by (simp_all add: b_def)
  have "(2 :: nat) ^ 53 \<le> nat n" using assms(1) by (simp add: le_nat_iff)
  then have "(2 :: nat) ^ 53 < 2 ^ b" using \<open>nat n < 2 ^ b\<close> by linarith
  then have b: "53 < b" by (rule power_less_imp_less_exp [rotated]) simp
  define e where "e = max (- 1074) (magnitude (of_int n) - 52)"
  have e: "e = int b - 53" using b \<open>0 < n\<close> by (simp add: e_def magnitude_nat b_def)
  have pow: "pow2 e = 2 ^ (b - 53)" using e b by (simp add: pow2_def nat_diff_distrib)
  have "b - 1 = 52 + (b - 53)" using b by simp
  then have "(2 :: rat) ^ (b - 1) = 2 ^ 52 * 2 ^ (b - 53)" by (simp only: power_add)
  moreover have "(2 :: rat) ^ (b - 1) \<le> of_int n"
    using \<open>2 ^ (b - 1) \<le> nat n\<close> \<open>0 < n\<close>
    by (metis of_int_le_iff of_int_numeral of_int_power int_nat_eq of_nat_le_iff of_nat_numeral of_nat_power order_less_imp_le)
  ultimately have "2 ^ 52 \<le> (of_int n :: rat) / 2 ^ (b - 53)" by (simp add: pos_le_divide_eq)
  then have "2 ^ 52 \<le> round_even (of_int n / pow2 e)"
    unfolding pow round_even_def Let_def by (auto simp: le_floor_iff)
  then have "(2 ^ 52 :: rat) \<le> of_int (round_even (of_int n / pow2 e))"
    by (metis of_int_le_iff of_int_numeral of_int_power)
  moreover have "2 \<le> pow2 e" using b unfolding pow
    by (metis one_le_numeral power_increasing power_one_right less_imp_le_nat Suc_leI zero_less_diff One_nat_def)
  ultimately have "2 ^ 52 * 2 \<le> of_int (round_even (of_int n / pow2 e)) * pow2 e"
    by (intro mult_mono) simp_all
  moreover have "v = of_int (round_even (of_int n / pow2 e)) * pow2 e"
    using assms(2) \<open>0 < n\<close> by (auto simp: round_double_def Let_def e_def split: if_splits)
  ultimately show ?thesis by simp
qed

lemma literal_plain:
  assumes "strip_sign s = (neg, ds)" and "list_all js_digit ds"
  shows "literal_value s = (neg, of_nat (nat_of_digits ds))"
proof -
  have "\<not> js_digit (CHR ''e'')" "\<not> js_digit (CHR ''E'')" by (simp_all add: js_digit_def)
  then have "c \<noteq> CHR ''e'' \<and> c \<noteq> CHR ''E''" if "c \<in> set ds" for c
    using that assms(2) unfolding list_all_iff by metis
  then have mant: "takeWhile (\<lambda>c. c \<noteq> CHR ''e'' \<and> c \<noteq> CHR ''E'') ds = ds"
    by (simp add: takeWhile_eq_all_conv)
  have whole: "takeWhile js_digit ds = ds" using assms(2) by (simp add: takeWhile_eq_all_conv list_all_iff)
  have "strip_sign [] = (False, [])" "nat_of_digits [] = 0" "drop (length ds + 1) ds = []"
    by (simp_all add: strip_sign_def nat_of_digits_def)
  then show ?thesis
    unfolding literal_value_def assms(1) Let_def prod.case mant whole by simp
qed

lemma safe_parse_agree:
  assumes "parse_int64 s = Some i" and "safe_integer (JNum s) = Some j"
  shows "i = j"
proof -
  obtain neg ds where sign: "strip_sign s = (neg, ds)" by (cases "strip_sign s")
  then have digits: "list_all js_digit ds"
    and i: "i = (if neg then - int (nat_of_digits ds) else int (nat_of_digits ds))"
    using assms(1) by (auto simp: parse_int64_def Let_def split: if_splits)
  define n where "n = int (nat_of_digits ds)"
  obtain v where v: "round_double (of_int n) = Some v" and safe: "v \<le> of_int max_safe_integer"
    and j: "j = (if neg then - \<lfloor>v\<rfloor> else \<lfloor>v\<rfloor>)"
    using assms(2) literal_plain [OF sign digits]
    by (auto simp: safe_integer_def ParseFloat_def n_def not_less split: option.splits if_splits)
  have "n < 2 ^ 53"
  proof (rule ccontr)
    assume "\<not> n < 2 ^ 53"
    then have "2 ^ 53 \<le> n" by linarith
    then have "2 ^ 53 \<le> v" using round_double_large v by blast
    then show False using safe by (simp add: max_safe_integer_def)
  qed
  then have "v = of_int n" using round_double_int [of n] v by (simp add: n_def)
  then show ?thesis using i j by (simp add: n_def)
qed

lemma pow2_pos: "0 < pow2 e"
  by (simp add: pow2_def)

lemma round_double_nonneg: "0 \<le> q \<Longrightarrow> round_double q = Some v \<Longrightarrow> 0 \<le> v"
proof -
  assume q: "0 \<le> q" and v: "round_double q = Some v"
  have "0 \<le> round_even (q / pow2 e)" for e
  proof -
    have "0 \<le> \<lfloor>q / pow2 e\<rfloor>" using q pow2_pos [of e] by simp
    then show ?thesis by (simp add: round_even_def Let_def)
  qed
  then show ?thesis
    using v pow2_pos by (auto simp: round_double_def Let_def less_imp_le split: if_splits)
qed

lemma ParseFloat_nonneg: "ParseFloat s = Some (neg, v) \<Longrightarrow> 0 \<le> v"
proof -
  assume "ParseFloat s = Some (neg, v)"
  moreover obtain neg' q where lit: "literal_value s = (neg', q)" by (cases "literal_value s")
  moreover have "0 \<le> q" using lit by (auto simp: literal_value_def Let_def split: prod.splits if_splits)
  ultimately show ?thesis using round_double_nonneg by (auto simp: ParseFloat_def)
qed

lemma safe_integer_bound: "safe_integer v = Some i \<Longrightarrow> \<bar>i\<bar> \<le> max_safe_integer"
proof -
  assume i: "safe_integer v = Some i"
  then obtain s where s: "v = JNum s" by (cases v) (auto simp: safe_integer_def)
  then obtain neg q where q: "ParseFloat s = Some (neg, q)" using i by (auto simp: safe_integer_def split: option.splits)
  then have "of_int \<lfloor>q\<rfloor> = q" "q \<le> of_int max_safe_integer" "i = (if neg then - \<lfloor>q\<rfloor> else \<lfloor>q\<rfloor>)"
    using i s by (auto simp: safe_integer_def not_less split: if_splits)
  moreover have "0 \<le> q" by (rule ParseFloat_nonneg [OF q])
  ultimately show ?thesis by (auto simp: floor_le_iff)
qed

lemma dec_int_safe:
  assumes "dec_int v z = Some i" and "integer_with P v"
  shows "P i"
proof -
  obtain j where j: "safe_integer v = Some j" "P j"
    using assms(2) by (auto simp: integer_with_def split: option.splits)
  then obtain s where s: "v = JNum s" by (cases v) (auto simp: safe_integer_def)
  then have "parse_int64 s = Some i" using assms(1) by (simp add: dec_int_def)
  then show ?thesis using safe_parse_agree j s by blast
qed

section \<open>Fields\<close>

text \<open>An object with exactly the given keys.\<close>

lemma exact_keys_set:
  assumes "exact_keys p ks" and "sorted_keys p" and "distinct ks"
  shows "set (map fst p) = set ks"
proof -
  have "set ks \<subseteq> set (map fst p)"
    using assms(1) by (auto simp: exact_keys_def list_all_iff map_of_eq_None_iff)
  moreover have "card (set (map fst p)) = card (set ks)"
    using assms sorted_keys_distinct [OF assms(2)] by (metis distinct_card exact_keys_def length_map)
  ultimately show ?thesis by (metis card_subset_eq finite_set)
qed

lemma dec_fields_skip:
  "(\<forall>k \<in> set (map fst kvs). match_field table k = None) \<Longrightarrow> dec_fields table kvs r = Some r"
  by (induction kvs) auto

definition keeps :: "('r \<Rightarrow> 'b) \<Rightarrow> (string \<times> 'r decoder) list \<Rightarrow> string \<Rightarrow> bool" where
  "keeps f table k \<longleftrightarrow>
     (case match_field table k of None \<Rightarrow> True | Some d \<Rightarrow> \<forall>v r r'. d v r = Some r' \<longrightarrow> f r' = f r)"

lemma dec_fields_keep:
  "dec_fields table kvs r = Some r' \<Longrightarrow> list_all (keeps f table) (map fst kvs) \<Longrightarrow> f r' = f r"
proof (induction kvs arbitrary: r)
  case (Cons kv kvs)
  obtain k v where kv: "kv = (k, v)" by (cases kv)
  show ?case
  proof (cases "match_field table k")
    case None
    then show ?thesis using Cons kv by simp
  next
    case (Some d)
    then obtain r1 where "d v r = Some r1" "dec_fields table kvs r1 = Some r'"
      using Cons.prems(1) kv by (auto split: option.splits)
    then show ?thesis using Cons.IH [of r1] Cons.prems(2) kv Some by (simp add: keeps_def)
  qed
qed simp

text \<open>A field that one key of the object sets, and no other.\<close>

lemma dec_fields_one:
  assumes "match_field table k0 = Some d0" and "\<And>r r'. d0 v0 r = Some r' \<Longrightarrow> dec v0 (f r) = Some (f r')"
  shows "dec_fields table kvs r = Some r' \<Longrightarrow> distinct (map fst kvs) \<Longrightarrow> map_of kvs k0 = Some v0
    \<Longrightarrow> (\<forall>k \<in> set (map fst kvs). k \<noteq> k0 \<longrightarrow> keeps f table k) \<Longrightarrow> dec v0 (f r) = Some (f r')"
proof (induction kvs arbitrary: r)
  case (Cons kv kvs)
  obtain k v where kv: "kv = (k, v)" by (cases kv)
  show ?case
  proof (cases "k = k0")
    case True
    then obtain r1 where r1: "d0 v0 r = Some r1" "dec_fields table kvs r1 = Some r'"
      using Cons.prems(1,3) kv assms(1) by (auto split: option.splits)
    have "list_all (keeps f table) (map fst kvs)"
      using Cons.prems(2,4) kv True by (force simp: list_all_iff)
    then have "f r' = f r1" using r1(2) by (rule dec_fields_keep [rotated])
    then show ?thesis using assms(2) [OF r1(1)] by simp
  next
    case other: False
    then have rest: "distinct (map fst kvs)" "map_of kvs k0 = Some v0" using Cons.prems(2,3) kv by auto
    show ?thesis
    proof (cases "match_field table k")
      case None
      then show ?thesis using Cons.IH [of r] Cons.prems(1,4) rest kv by simp
    next
      case (Some d)
      then obtain r1 where r1: "d v r = Some r1" "dec_fields table kvs r1 = Some r'"
        using Cons.prems(1) kv by (auto split: option.splits)
      have "f r1 = f r" using Cons.prems(4) kv other Some r1(1) by (simp add: keeps_def)
      then show ?thesis using Cons.IH [of r1] r1(2) Cons.prems(4) rest kv by simp
    qed
  qed
qed simp

text \<open>The value a payload field is read from, if no other key of the payload folds to its name.\<close>

lemma payload_value:
  assumes "e_payload e = JObj p" and "sorted_keys p" and "map_of p n = Some v"
    and "\<forall>k \<in> set (map fst p). k \<noteq> n \<longrightarrow> fold_name n \<noteq> fold_name k"
    and "payload e n dec z = Some x"
  shows "dec v z = Some x"
proof -
  let ?table = "[(n, field dec (\<lambda>r. r) (\<lambda>f. f))]"
  have "dec v ((\<lambda>r. r) z) = Some ((\<lambda>r. r) x)"
  proof (rule dec_fields_one)
    show "match_field ?table n = Some (field dec (\<lambda>r. r) (\<lambda>f. f))" by (simp add: match_field_def)
    show "field dec (\<lambda>r. r) (\<lambda>f. f) v r = Some r' \<Longrightarrow> dec v r = Some r'" for r r'
      by (auto simp: field_def)
    show "dec_fields ?table p z = Some x" using assms(1,5) by (simp add: payload_def dec_struct_def)
    show "distinct (map fst p)" by (rule sorted_keys_distinct [OF assms(2)])
    show "\<forall>k \<in> set (map fst p). k \<noteq> n \<longrightarrow> keeps (\<lambda>r. r) ?table k"
      using assms(4) by (auto simp: keeps_def match_field_def)
  qed (rule assms(3))
  then show ?thesis by simp
qed

end
