(* ===== verification/Runtime_Contract.thy ===== *)
theory Runtime_Contract
  imports Json_Decoding
begin

text \<open>
  The transport-neutral contract of the runtime (\<open>runtimeapi/contract.go\<close>): the handshake and the command
  envelope that every transport checks before a command is dispatched. A list of strings that may be nil is
  an option; a command is the JSON object it decodes to, whose members are unmarshalled one by one.
\<close>

section \<open>Text\<close>

definition validText :: "string \<Rightarrow> bool" where
  "validText s \<longleftrightarrow> TrimSpace s \<noteq> []"

definition validIdentityText :: "string \<Rightarrow> bool" where
  "validIdentityText s \<longleftrightarrow>
     validText s \<and> list_all (\<lambda>r. \<not> IsControl r \<and> r \<noteq> 0x2028 \<and> r \<noteq> 0x2029) (runes s)"

definition validStrings :: "string list option \<Rightarrow> bool" where
  "validStrings vs \<longleftrightarrow> (case vs of None \<Rightarrow> False | Some ss \<Rightarrow> list_all validIdentityText ss)"

definition validRuntimeIdentifier :: "string \<Rightarrow> bool" where
  "validRuntimeIdentifier s \<longleftrightarrow> valid_terminal_identifier s"

section \<open>The handshake\<close>

datatype source_mode = Mode_Demo | Mode_Local | Mode_Remote | Mode_Other string

record source_metadata =
  sm_mode :: source_mode
  sm_runtime :: string
  sm_principal :: string
  sm_capabilities :: "string list option"

record handshake_request =
  hq_versions :: "int list"
  hq_capabilities :: "string list"
  hq_after :: int

record handshake_response =
  hr_version :: int
  hr_runtime :: string
  hr_principal :: string
  hr_role :: string
  hr_capabilities :: "string list option"
  hr_source :: source_metadata

datatype handshake_error = Invalid_Handshake | Incompatible | Runtime_Identity_Mismatch

definition ProtocolVersion :: int where
  "ProtocolVersion = 1"

definition validMetadata :: "source_metadata \<Rightarrow> bool" where
  "validMetadata m \<longleftrightarrow>
     (case sm_mode m of Mode_Other _ \<Rightarrow> False | _ \<Rightarrow> True)
   \<and> validIdentityText (sm_runtime m) \<and> validIdentityText (sm_principal m) \<and> validStrings (sm_capabilities m)"

text \<open>A nil list has no elements.\<close>

definition strings :: "string list option \<Rightarrow> string list" where
  "strings vs = (case vs of None \<Rightarrow> [] | Some ss \<Rightarrow> ss)"

definition NegotiateHandshake :: "handshake_request \<Rightarrow> handshake_response \<Rightarrow> handshake_error + source_metadata" where
  "NegotiateHandshake q r =
     (if hq_versions q = [] \<or> hq_after q < 0 then Inl Invalid_Handshake
      else if list_ex (\<lambda>v. v \<le> 0) (hq_versions q) then Inl Invalid_Handshake
      else if \<not> List.member (hq_versions q) (hr_version r) then Inl Incompatible
      else if hq_capabilities q \<noteq> [] \<and> \<not> list_all (List.member (hq_capabilities q)) (strings (hr_capabilities r))
      then Inl Incompatible
      else if \<not> validIdentityText (hr_runtime r) \<or> \<not> validIdentityText (hr_principal r) \<or> \<not> validIdentityText (hr_role r)
         \<or> \<not> validStrings (hr_capabilities r) \<or> \<not> validMetadata (hr_source r)
      then Inl Invalid_Handshake
      else if sm_runtime (hr_source r) \<noteq> hr_runtime r \<or> sm_principal (hr_source r) \<noteq> hr_principal r
         \<or> strings (sm_capabilities (hr_source r)) \<noteq> strings (hr_capabilities r)
      then Inl Runtime_Identity_Mismatch
      else Inr (hr_source r))"

text \<open>\<open>append([]string(nil), xs...)\<close> is nil if there is nothing to append.\<close>

definition copy_strings :: "string list option \<Rightarrow> string list option" where
  "copy_strings vs = (if strings vs = [] then None else Some (strings vs))"

fun select_common :: "string list \<Rightarrow> string list \<Rightarrow> string list \<Rightarrow> string list" where
  "select_common supported [] result = result"
| "select_common supported (c # cs) result =
     select_common supported cs (if List.member supported c \<and> \<not> List.member result c then result @ [c] else result)"

definition SelectCapabilities :: "string list \<Rightarrow> string list option \<Rightarrow> string list option" where
  "SelectCapabilities supported offered =
     (if supported = [] then copy_strings offered else Some (select_common supported (strings offered) []))"

text \<open>The server's answer to a handshake (\<open>handleAuthorizedForClient\<close>).\<close>

definition handshake_answer :: "source_metadata \<Rightarrow> string \<Rightarrow> handshake_request \<Rightarrow> handshake_error + handshake_response" where
  "handshake_answer src server_role q =
     (let capabilities = SelectCapabilities (hq_capabilities q) (sm_capabilities src);
          r = \<lparr>hr_version = ProtocolVersion, hr_runtime = sm_runtime src, hr_principal = sm_principal src,
                hr_role = server_role, hr_capabilities = capabilities,
                hr_source = src\<lparr>sm_capabilities := copy_strings capabilities\<rparr>\<rparr> in
      case NegotiateHandshake q r of Inl err \<Rightarrow> Inl err | Inr _ \<Rightarrow> Inr r)"

section \<open>Command envelopes\<close>

record command_envelope =
  ce_key :: string
  ce_command :: string

record command_receipt =
  cr_key :: string
  cr_status :: string
  cr_code :: string

datatype contract_error = Invalid_Command_Envelope | Invalid_Command_Receipt | Receipt_Idempotency_Mismatch

text \<open>\<open>json.Unmarshal(command[key], &value)\<close>: a missing member is empty text, which is an error.\<close>

definition member_value :: "json_object \<Rightarrow> string \<Rightarrow> 'a decoder \<Rightarrow> 'a \<Rightarrow> 'a option" where
  "member_value obj k dec zero = (case map_of obj k of None \<Rightarrow> None | Some v \<Rightarrow> dec v zero)"

definition commandString :: "json_object \<Rightarrow> string \<Rightarrow> string option" where
  "commandString obj k =
     (case member_value obj k dec_string [] of Some s \<Rightarrow> if validText s then Some s else None | None \<Rightarrow> None)"

definition commandHasText :: "json_object \<Rightarrow> string \<Rightarrow> bool" where
  "commandHasText obj k \<longleftrightarrow> commandString obj k \<noteq> None"

definition commandOptionalText :: "json_object \<Rightarrow> string \<Rightarrow> bool" where
  "commandOptionalText obj k \<longleftrightarrow> map_of obj k = None \<or> commandHasText obj k"

definition command_string_with :: "(string \<Rightarrow> bool) \<Rightarrow> json_object \<Rightarrow> string \<Rightarrow> bool" where
  "command_string_with P obj k \<longleftrightarrow> (case commandString obj k of Some s \<Rightarrow> P s | None \<Rightarrow> False)"

abbreviation commandHasIdentityText :: "json_object \<Rightarrow> string \<Rightarrow> bool" where
  "commandHasIdentityText \<equiv> command_string_with validIdentityText"

abbreviation commandHasTerminalIdentifier :: "json_object \<Rightarrow> string \<Rightarrow> bool" where
  "commandHasTerminalIdentifier \<equiv> command_string_with validRuntimeIdentifier"

abbreviation commandHasEditorDigest :: "json_object \<Rightarrow> string \<Rightarrow> bool" where
  "commandHasEditorDigest \<equiv> command_string_with valid_sha256"

definition commandHasInteger :: "json_object \<Rightarrow> string \<Rightarrow> int \<Rightarrow> int \<Rightarrow> bool" where
  "commandHasInteger obj k lo hi \<longleftrightarrow>
     (case member_value obj k dec_int 0 of Some i \<Rightarrow> lo \<le> i \<and> i \<le> hi | None \<Rightarrow> False)"

definition max_int :: int where
  "max_int = 2 ^ 63 - 1"

definition commandHasEditorReferences :: "json_object \<Rightarrow> string \<Rightarrow> bool" where
  "commandHasEditorReferences obj k \<longleftrightarrow>
     (case member_value obj k (dec_slice dec_editor_reference no_editor_reference) [] of
        None \<Rightarrow> False
      | Some rs \<Rightarrow>
          list_all (\<lambda>r. validIdentityText (ed_finding r) \<and> validIdentityText (ed_evidence r) \<and> 0 < ed_start r
            \<and> ed_start r \<le> ed_end r) rs)"

definition exactCommandKeys :: "json_object \<Rightarrow> string list \<Rightarrow> string list \<Rightarrow> bool" where
  "exactCommandKeys obj required optional \<longleftrightarrow>
     list_all (\<lambda>k. map_of obj k \<noteq> None) required
   \<and> list_all (\<lambda>(k, _). List.member (required @ optional) k) obj"

text \<open>Base64 data whose decoded length is the one given, within bounds.\<close>

definition command_data :: "json_object \<Rightarrow> int \<Rightarrow> int \<Rightarrow> bool" where
  "command_data obj lo hi \<longleftrightarrow>
     (case (member_value obj ''data'' dec_string [], member_value obj ''byteLength'' dec_int 0) of
        (Some d, Some n) \<Rightarrow> lo \<le> n \<and> n \<le> hi \<and> map_option int (base64_length d) = Some n
      | _ \<Rightarrow> False)"

definition revision_member :: "json_object \<Rightarrow> bool" where
  "revision_member obj \<longleftrightarrow> commandHasInteger obj ''expectedLeaseRevision'' 1 max_int"

definition command_rules :: "(string \<times> (json_object \<Rightarrow> bool)) list" where
  "command_rules =
     [(''task.create'', \<lambda>c. exactCommandKeys c [''type'', ''objective'', ''runtimeId''] [''workspace'']
         \<and> commandHasText c ''objective'' \<and> commandHasText c ''runtimeId'' \<and> commandOptionalText c ''workspace''),
      (''scope.confirm'', \<lambda>c. exactCommandKeys c [''type'', ''scopeId''] [] \<and> commandHasText c ''scopeId''),
      (''task.pause'', \<lambda>c. exactCommandKeys c [''type''] []),
      (''task.resume'', \<lambda>c. exactCommandKeys c [''type''] []),
      (''task.cancel'', \<lambda>c. exactCommandKeys c [''type''] []),
      (''approval.respond'', \<lambda>c. exactCommandKeys c [''type'', ''challengeId'', ''decision''] []
         \<and> commandHasText c ''challengeId''
         \<and> command_string_with (List.member [''allow_once'', ''deny'']) c ''decision''),
      (''control.take'', \<lambda>c. exactCommandKeys c [''type'', ''expectedRevision''] []
         \<and> commandHasInteger c ''expectedRevision'' 0 max_int),
      (''instruction.send'', \<lambda>c. exactCommandKeys c [''type'', ''content''] [] \<and> commandHasText c ''content''),
      (''terminal.open'', \<lambda>c. exactCommandKeys c [''type'', ''sessionId'', ''profileId'', ''workingDirectory'', ''scopeId'',
           ''columns'', ''rows'', ''outputLimitBytes'', ''expectedLeaseRevision''] []
         \<and> commandHasIdentityText c ''sessionId'' \<and> commandHasTerminalIdentifier c ''profileId''
         \<and> commandHasIdentityText c ''workingDirectory'' \<and> commandHasIdentityText c ''scopeId''
         \<and> commandHasInteger c ''columns'' 1 1000 \<and> commandHasInteger c ''rows'' 1 1000
         \<and> commandHasInteger c ''outputLimitBytes'' 1 (64 * 1024 * 1024) \<and> revision_member c),
      (''terminal.input'', \<lambda>c. exactCommandKeys c [''type'', ''sessionId'', ''sequence'', ''data'', ''byteLength'',
           ''expectedLeaseRevision''] []
         \<and> commandHasIdentityText c ''sessionId'' \<and> commandHasInteger c ''sequence'' 1 max_int
         \<and> command_data c 1 (1024 * 1024) \<and> revision_member c),
      (''terminal.resize'', \<lambda>c. exactCommandKeys c [''type'', ''sessionId'', ''columns'', ''rows'',
           ''expectedLeaseRevision''] []
         \<and> commandHasIdentityText c ''sessionId'' \<and> commandHasInteger c ''columns'' 1 1000
         \<and> commandHasInteger c ''rows'' 1 1000 \<and> revision_member c),
      (''terminal.cancel'', \<lambda>c. exactCommandKeys c [''type'', ''sessionId'', ''expectedLeaseRevision''] []
         \<and> commandHasIdentityText c ''sessionId'' \<and> revision_member c),
      (''editor.open'', \<lambda>c. exactCommandKeys c [''type'', ''draftId'', ''path'', ''scopeId'', ''evidenceReferences'',
           ''expectedLeaseRevision''] []
         \<and> commandHasIdentityText c ''draftId'' \<and> commandHasIdentityText c ''path'' \<and> commandHasIdentityText c ''scopeId''
         \<and> commandHasEditorReferences c ''evidenceReferences'' \<and> revision_member c),
      (''editor.save'', \<lambda>c. exactCommandKeys c [''type'', ''draftId'', ''revision'', ''baseSha256'', ''data'', ''byteLength'',
           ''expectedLeaseRevision''] []
         \<and> commandHasIdentityText c ''draftId'' \<and> commandHasInteger c ''revision'' 1 max_int
         \<and> commandHasEditorDigest c ''baseSha256'' \<and> command_data c 0 (64 * 1024 * 1024) \<and> revision_member c),
      (''editor.apply'', \<lambda>c. exactCommandKeys c [''type'', ''draftId'', ''revision'', ''proposedSha256'',
           ''expectedLeaseRevision''] []
         \<and> commandHasIdentityText c ''draftId'' \<and> commandHasInteger c ''revision'' 1 max_int
         \<and> commandHasEditorDigest c ''proposedSha256'' \<and> revision_member c),
      (''editor.discard'', \<lambda>c. exactCommandKeys c [''type'', ''draftId'', ''expectedLeaseRevision''] []
         \<and> commandHasIdentityText c ''draftId'' \<and> revision_member c)]"

definition valid_command :: "json_object \<Rightarrow> bool" where
  "valid_command obj \<longleftrightarrow>
     (case commandString obj ''type'' of
        None \<Rightarrow> False
      | Some t \<Rightarrow> (case map_of command_rules t of Some rule \<Rightarrow> rule obj | None \<Rightarrow> False))"

definition ValidateCommandEnvelope :: "command_envelope \<Rightarrow> contract_error option" where
  "ValidateCommandEnvelope envelope =
     (if \<not> validText (ce_key envelope) \<or> TrimSpace (ce_command envelope) = [] then Some Invalid_Command_Envelope
      else
        (case decode_object (ce_command envelope) of
           None \<Rightarrow> Some Invalid_Command_Envelope
         | Some obj \<Rightarrow> if valid_command obj then None else Some Invalid_Command_Envelope))"

definition ValidateCommandReceipt :: "command_receipt \<Rightarrow> command_envelope \<Rightarrow> contract_error option" where
  "ValidateCommandReceipt r envelope =
     (case ValidateCommandEnvelope envelope of
        Some err \<Rightarrow> Some err
      | None \<Rightarrow>
          if \<not> validText (cr_key r) \<or> cr_status r \<noteq> ''accepted'' \<and> cr_status r \<noteq> ''rejected''
          then Some Invalid_Command_Receipt
          else if cr_key r \<noteq> ce_key envelope then Some Receipt_Idempotency_Mismatch
          else if cr_status r = ''accepted'' \<and> cr_code r \<noteq> [] \<or> cr_status r = ''rejected'' \<and> \<not> validText (cr_code r)
          then Some Invalid_Command_Receipt
          else None)"

end
