(* ===== verification/Contract_Properties.thy ===== *)
theory Contract_Properties
  imports Runtime_Contract
begin

text \<open>
  The handshake succeeds under an exact condition, and its answer offers each common capability once, in the
  order of the server.
\<close>

lemma strings_Some [simp]: "strings (Some ss) = ss"
  by (simp add: strings_def)

lemma strings_None [simp]: "strings None = []"
  by (simp add: strings_def)

lemma strings_copy [simp]: "strings (copy_strings vs) = strings vs"
  by (simp add: copy_strings_def)

text \<open>The first occurrences of a list.\<close>

fun firsts :: "'a list \<Rightarrow> 'a list" where
  "firsts [] = []"
| "firsts (x # xs) = x # firsts (filter (\<lambda>y. y \<noteq> x) xs)"

lemma select_common_spec:
  "select_common supported offered r = r @ firsts (filter (\<lambda>c. c \<in> set supported \<and> c \<notin> set r) offered)"
proof (induction offered arbitrary: r)
  case (Cons c cs)
  have "filter (\<lambda>x. x \<in> set supported \<and> x \<noteq> c \<and> x \<notin> set r) cs
      = filter (\<lambda>x. x \<in> set supported \<and> x \<notin> set r \<and> x \<noteq> c) cs"
    by (rule filter_cong) auto
  then show ?case using Cons by simp
qed simp

lemma common_capabilities:
  "supported \<noteq> [] \<Longrightarrow>
     SelectCapabilities supported offered = Some (firsts (filter (\<lambda>c. c \<in> set supported) (strings offered)))"
  by (simp add: SelectCapabilities_def select_common_spec)

lemma firsts_set [simp]: "set (firsts xs) = set xs"
  by (induction xs rule: firsts.induct) auto

lemma firsts_distinct: "distinct (firsts xs)"
  by (induction xs rule: firsts.induct) auto

lemma firsts_empty [simp]: "firsts xs = [] \<longleftrightarrow> xs = []"
  by (cases xs) auto

lemma guarded: "(\<exists>m. (if P then Inl e else y) = Inr m) \<longleftrightarrow> \<not> P \<and> (\<exists>m. y = Inr m)"
  by simp

lemma negotiated_iff:
  "(\<exists>m. NegotiateHandshake q r = Inr m) \<longleftrightarrow>
     (hq_versions q \<noteq> [] \<and> 0 \<le> hq_after q) \<and> list_all (\<lambda>v. 0 < v) (hq_versions q) \<and> hr_version r \<in> set (hq_versions q)
   \<and> (hq_capabilities q = [] \<or> list_all (List.member (hq_capabilities q)) (strings (hr_capabilities r)))
   \<and> (validIdentityText (hr_runtime r) \<and> validIdentityText (hr_principal r) \<and> validIdentityText (hr_role r)
      \<and> validStrings (hr_capabilities r) \<and> validMetadata (hr_source r))
   \<and> (sm_runtime (hr_source r) = hr_runtime r \<and> sm_principal (hr_source r) = hr_principal r
      \<and> strings (sm_capabilities (hr_source r)) = strings (hr_capabilities r))"
  unfolding NegotiateHandshake_def guarded de_Morgan_disj de_Morgan_conj not_not not_less list_ex_iff list_all_iff not_le
  by (simp add: not_le)

lemma answer_iff:
  "handshake_answer src server_role q = Inr r \<longleftrightarrow>
     r = \<lparr>hr_version = ProtocolVersion, hr_runtime = sm_runtime src, hr_principal = sm_principal src,
          hr_role = server_role, hr_capabilities = SelectCapabilities (hq_capabilities q) (sm_capabilities src),
          hr_source = src\<lparr>sm_capabilities := copy_strings (SelectCapabilities (hq_capabilities q) (sm_capabilities src))\<rparr>\<rparr>
   \<and> (\<exists>m. NegotiateHandshake q r = Inr m)"
  by (auto simp: handshake_answer_def Let_def split: sum.splits)

text \<open>a handshake is answered exactly when the client gives positive versions that include version 1 and a
  cursor that is not negative, the server's identity is well formed, and a capability is left to offer; the
  answer carries the server's identity and, in the server's order and each once, the capabilities it has in
  common with a client that names any.
\<close>

theorem handshake_answered_iff:
  "handshake_answer src server_role q = Inr r \<longleftrightarrow>
     1 \<in> set (hq_versions q) \<and> list_all (\<lambda>v. 0 < v) (hq_versions q) \<and> 0 \<le> hq_after q
   \<and> validIdentityText (sm_runtime src) \<and> validIdentityText (sm_principal src) \<and> validIdentityText server_role
   \<and> (case sm_mode src of Mode_Other _ \<Rightarrow> False | _ \<Rightarrow> True)
   \<and> r = \<lparr>hr_version = 1, hr_runtime = sm_runtime src, hr_principal = sm_principal src, hr_role = server_role,
          hr_capabilities = SelectCapabilities (hq_capabilities q) (sm_capabilities src),
          hr_source = src\<lparr>sm_capabilities := SelectCapabilities (hq_capabilities q) (sm_capabilities src)\<rparr>\<rparr>
   \<and> strings (hr_capabilities r) =
       (if hq_capabilities q = [] then strings (sm_capabilities src)
        else firsts (filter (\<lambda>c. c \<in> set (hq_capabilities q)) (strings (sm_capabilities src))))
   \<and> strings (hr_capabilities r) \<noteq> [] \<and> list_all validIdentityText (strings (hr_capabilities r))"
  (is "?answer \<longleftrightarrow> ?spec")
proof -
  let ?caps = "SelectCapabilities (hq_capabilities q) (sm_capabilities src)"
  have caps: "strings ?caps = (if hq_capabilities q = [] then strings (sm_capabilities src)
        else firsts (filter (\<lambda>c. c \<in> set (hq_capabilities q)) (strings (sm_capabilities src))))"
    by (simp add: common_capabilities) (simp add: SelectCapabilities_def)
  have offered: "hq_capabilities q = [] \<or> list_all (List.member (hq_capabilities q)) (strings ?caps)"
    by (simp add: caps list_all_iff)
  have valid: "validStrings ?caps \<and> validStrings (copy_strings ?caps)
      \<longleftrightarrow> strings ?caps \<noteq> [] \<and> list_all validIdentityText (strings ?caps)"
    by (cases ?caps) (auto simp: validStrings_def copy_strings_def)
  have same: "strings ?caps \<noteq> [] \<Longrightarrow> copy_strings ?caps = ?caps"
    by (cases ?caps) (simp_all add: copy_strings_def)
  have answer: "?answer \<longleftrightarrow>
      r = \<lparr>hr_version = 1, hr_runtime = sm_runtime src, hr_principal = sm_principal src, hr_role = server_role,
            hr_capabilities = ?caps, hr_source = src\<lparr>sm_capabilities := copy_strings ?caps\<rparr>\<rparr>
    \<and> hq_versions q \<noteq> [] \<and> 0 \<le> hq_after q \<and> list_all (\<lambda>v. 0 < v) (hq_versions q) \<and> 1 \<in> set (hq_versions q)
    \<and> validIdentityText (sm_runtime src) \<and> validIdentityText (sm_principal src) \<and> validIdentityText server_role
    \<and> (case sm_mode src of Mode_Other _ \<Rightarrow> False | _ \<Rightarrow> True)
    \<and> strings ?caps \<noteq> [] \<and> list_all validIdentityText (strings ?caps)"
    unfolding answer_iff negotiated_iff ProtocolVersion_def
    using offered valid by (auto simp: validMetadata_def)
  show ?thesis
  proof (cases "strings ?caps = []")
    case True
    then have "r = \<lparr>hr_version = 1, hr_runtime = sm_runtime src, hr_principal = sm_principal src, hr_role = server_role,
          hr_capabilities = ?caps, hr_source = src\<lparr>sm_capabilities := ?caps\<rparr>\<rparr> \<Longrightarrow> strings (hr_capabilities r) = []"
      by simp
    then show ?thesis unfolding answer using True by blast
  next
    case False
    have "1 \<in> set (hq_versions q) \<Longrightarrow> hq_versions q \<noteq> []" by auto
    moreover have "r = \<lparr>hr_version = 1, hr_runtime = sm_runtime src, hr_principal = sm_principal src, hr_role = server_role,
          hr_capabilities = ?caps, hr_source = src\<lparr>sm_capabilities := ?caps\<rparr>\<rparr> \<Longrightarrow> strings (hr_capabilities r) = strings ?caps"
      by simp
    ultimately show ?thesis unfolding answer same [OF False] caps [symmetric] using False by metis
  qed
qed

text \<open>A client that names only capabilities the server does not have is told that its handshake is invalid.\<close>

lemma no_common_capability:
  assumes "1 \<in> set (hq_versions q)" "list_all (\<lambda>v. 0 < v) (hq_versions q)" "0 \<le> hq_after q"
    and "hq_capabilities q \<noteq> []" "list_all (\<lambda>c. c \<notin> set (hq_capabilities q)) (strings (sm_capabilities src))"
  shows "handshake_answer src server_role q = Inl Invalid_Handshake"
proof -
  have "filter (\<lambda>c. c \<in> set (hq_capabilities q)) (strings (sm_capabilities src)) = []"
    using assms(5) by (simp add: filter_empty_conv list_all_iff)
  then have "SelectCapabilities (hq_capabilities q) (sm_capabilities src) = Some []"
    using common_capabilities [OF assms(4)] by simp
  then show ?thesis
    using assms(1-3) by (auto simp: handshake_answer_def NegotiateHandshake_def ProtocolVersion_def validMetadata_def
        validStrings_def copy_strings_def list_ex_iff list_all_iff not_le Let_def)
qed

end
