(* ===== verification/Product_Effects.thy ===== *)
theory Product_Effects
  imports Product_State "HOL-Library.Multiset"
begin

text \<open>
  What one event may change: the elimination rule \<open>known_event\<close> gives, for an event that was applied, the
  handler that took it and the only fields of the snapshot it touched. \<open>product_step\<close> is a client's step:
  it keeps the snapshot unless the event was applied.
\<close>

section \<open>Handlers\<close>

lemma decoded_Inr [simp]: "decoded v f = Inr s \<longleftrightarrow> (\<exists>x. v = Some x \<and> f x = Inr s)"
  by (simp add: decoded_def split: option.splits)

lemma decoded_Some [simp]: "decoded (Some x) f = f x"
  by (simp add: decoded_def)

lemma same_record [simp]:
  "\<exists>t. s = s\<lparr>ps_task := t\<rparr>" "\<exists>t. s = s\<lparr>ps_agents := t\<rparr>" "\<exists>t. s = s\<lparr>ps_report := t\<rparr>"
  "\<exists>t. s = s\<lparr>ps_approvals := t\<rparr>" "\<exists>l n. s = s\<lparr>ps_lease := l, ps_highest := n\<rparr>"
  "\<exists>l. s\<lparr>ps_lease := None\<rparr> = s\<lparr>ps_lease := l\<rparr>"
  by (cases s; auto)+

text \<open>The fields that no stated property is about.\<close>

definition quiet :: "product_state \<Rightarrow> product_state \<Rightarrow> bool" where
  "quiet s s' \<longleftrightarrow>
     (\<exists>t p sc m er ar tr i r. s' = s\<lparr>ps_task := t, ps_plan := p, ps_scope := sc, ps_agents := m,
        ps_references := er, ps_artifacts := ar, ps_receipts := tr, ps_interactions := i, ps_report := r\<rparr>)"

lemma apply_task_quiet: "apply_task e s = Inr s' \<Longrightarrow> quiet s s'"
  by (cases s) (auto simp: quiet_def apply_task_def split: if_splits option.splits)

lemma apply_scope_quiet: "apply_scope e s = Inr s' \<Longrightarrow> quiet s s'"
  by (cases s) (auto simp: quiet_def apply_scope_def)

lemma apply_agent_quiet: "apply_agent e s = Inr s' \<Longrightarrow> quiet s s'"
  by (cases s) (auto simp: quiet_def apply_agent_def split: if_splits option.splits)

lemma apply_report_quiet: "apply_report e s = Inr s' \<Longrightarrow> quiet s s'"
  by (cases s) (auto simp: quiet_def apply_report_def split: if_splits option.splits)

lemma quiet_refl [simp]: "quiet s s"
  by (cases s) (auto simp: quiet_def)

lemma apply_record_cases:
  assumes "apply_record e s = Inr s'"
  obtains (evidence) v where "e_type e = ''evidence.committed''"
      "payload e ''evidence'' dec_evidence no_evidence = Some v"
      "s' = s\<lparr>ps_evidence := (ps_evidence s)(ev_id v \<mapsto> v)\<rparr>"
    | (quiet) "quiet s s'"
  using assms by (cases s) (auto simp: quiet_def apply_record_def split: if_splits)

text \<open>The rest of a snapshot, by the field that a handler owns.\<close>

lemma apply_finding_frame: "apply_finding e s = Inr s' \<Longrightarrow> \<exists>m. s' = s\<lparr>ps_findings := m\<rparr>"
  by (auto simp: apply_finding_def Let_def split: if_splits option.splits)

lemma apply_approval_frame: "apply_approval e s = Inr s' \<Longrightarrow> \<exists>m. s' = s\<lparr>ps_approvals := m\<rparr>"
  by (auto simp: apply_approval_def split: if_splits option.splits)

lemma apply_control_frame: "apply_control e s = Inr s' \<Longrightarrow> \<exists>l n. s' = s\<lparr>ps_lease := l, ps_highest := n\<rparr>"
  by (cases s) (auto simp: apply_control_def split: if_splits option.splits)

lemma put_terminal_frame: "put_terminal t s = Inr s' \<longleftrightarrow> s' = s\<lparr>ps_terminals := (ps_terminals s)(ts_id t \<mapsto> t)\<rparr>"
  by (auto simp: put_terminal_def)

lemma put_draft_frame: "put_draft d s = Inr s' \<longleftrightarrow> s' = s\<lparr>ps_drafts := (ps_drafts s)(dr_id d \<mapsto> d)\<rparr>"
  by (auto simp: put_draft_def)

type_synonym handler = "event \<Rightarrow> product_state \<Rightarrow> applied"

definition terminal_handlers :: "(string \<times> handler) list" where
  "terminal_handlers =
     [(''terminal.opened'', terminal_opened), (''terminal.output'', terminal_output),
      (''terminal.input.accepted'', terminal_input), (''terminal.resized'', terminal_resized),
      (''terminal.exited'', terminal_exited)]"

definition draft_handlers :: "(string \<times> handler) list" where
  "draft_handlers =
     [(''editor.draft.opened'', draft_opened), (''editor.draft.saved'', draft_saved),
      (''editor.patch.applied'', patch_applied), (''editor.patch.verified'', patch_verified),
      (''editor.draft.discarded'', draft_discarded)]"

lemmas terminal_defs =
  terminal_opened_def terminal_output_def terminal_input_def terminal_resized_def terminal_exited_def

lemmas draft_defs =
  draft_opened_def draft_saved_def patch_applied_def patch_verified_def draft_discarded_def

lemma terminal_frame:
  "(t, h) \<in> set terminal_handlers \<Longrightarrow> h e s = Inr s' \<Longrightarrow> \<exists>m. s' = s\<lparr>ps_terminals := m\<rparr>"
  by (auto simp: terminal_handlers_def terminal_defs put_terminal_frame split: if_splits option.splits)

lemma draft_frame: "(t, h) \<in> set draft_handlers \<Longrightarrow> h e s = Inr s' \<Longrightarrow> \<exists>m. s' = s\<lparr>ps_drafts := m\<rparr>"
  by (auto simp: draft_handlers_def draft_defs put_draft_frame split: if_splits option.splits)

lemma node_committed_frame: "node_committed e s = Inr s' \<Longrightarrow> \<exists>m. s' = s\<lparr>ps_nodes := m\<rparr>"
  by (cases s) (auto simp: node_committed_def split: if_splits option.splits)

lemma edge_committed_frame: "edge_committed e s = Inr s' \<Longrightarrow> \<exists>m. s' = s\<lparr>ps_edges := m\<rparr>"
  by (cases s) (auto simp: edge_committed_def split: if_splits option.splits)

lemma node_status_frame: "node_status_changed e s = Inr s' \<Longrightarrow> \<exists>m. s' = s\<lparr>ps_nodes := m\<rparr>"
  by (auto simp: node_status_changed_def split: if_splits option.splits)

lemmas frames =
  apply_finding_frame apply_approval_frame apply_control_frame terminal_frame draft_frame
  node_committed_frame edge_committed_frame node_status_frame

section \<open>Known events\<close>

lemma known_event:
  assumes "apply_known_event e s = Inr s'"
  obtains (quiet) "quiet s s'"
    | (evidence) v where "e_type e = ''evidence.committed''"
        "payload e ''evidence'' dec_evidence no_evidence = Some v"
        "s' = s\<lparr>ps_evidence := (ps_evidence s)(ev_id v \<mapsto> v)\<rparr>"
    | (finding) "apply_finding e s = Inr s'"
        "e_type e \<in> {''finding.created'', ''finding.verifying'', ''finding.confirmed'', ''finding.rejected'',
          ''finding.mitigated''}"
    | (approval) "apply_approval e s = Inr s'"
        "e_type e \<in> {''approval.requested'', ''approval.resolved''}"
    | (control) "apply_control e s = Inr s'"
        "e_type e \<in> {''control.acquired'', ''control.transferred'', ''control.released''}"
    | (terminal) h where "(e_type e, h) \<in> set terminal_handlers" "h e s = Inr s'"
    | (draft) h where "(e_type e, h) \<in> set draft_handlers" "h e s = Inr s'"
    | (node) "node_committed e s = Inr s'"
    | (edge) "edge_committed e s = Inr s'"
    | (node_status) "node_status_changed e s = Inr s'"
proof (cases "find (\<lambda>(types, _). List.member types (e_type e)) handlers")
  case None
  with assms quiet show ?thesis by (simp add: apply_known_event_def)
next
  case (Some th)
  obtain types h where th: "th = (types, h)" by (cases th)
  have h: "(types, h) \<in> set handlers" "List.member types (e_type e)"
    using Some th by (auto simp: find_Some_iff) (metis nth_mem)
  have run: "h e s = Inr s'" using assms Some th by (simp add: apply_known_event_def)
  consider "h \<in> {apply_task, apply_scope, apply_agent, apply_report}" | "h = apply_record"
    | "h = apply_finding" "e_type e \<in> {''finding.created'', ''finding.verifying'', ''finding.confirmed'',
        ''finding.rejected'', ''finding.mitigated''}"
    | "h = apply_approval" "e_type e \<in> {''approval.requested'', ''approval.resolved''}"
    | "h = apply_control" "e_type e \<in> {''control.acquired'', ''control.transferred'', ''control.released''}"
    | "(e_type e, h) \<in> set terminal_handlers" | "(e_type e, h) \<in> set draft_handlers"
    | "h = node_committed" | "h = edge_committed" | "h = node_status_changed"
  proof -
    have "(h = apply_task \<or> h = apply_scope \<or> h = apply_agent \<or> h = apply_report) \<or> h = apply_record
      \<or> (h = apply_finding \<and> types = [''finding.created'', ''finding.verifying'', ''finding.confirmed'',
            ''finding.rejected'', ''finding.mitigated''])
      \<or> (h = apply_approval \<and> types = [''approval.requested'', ''approval.resolved''])
      \<or> (h = apply_control \<and> types = [''control.acquired'', ''control.transferred'', ''control.released''])
      \<or> (\<exists>t. types = [t] \<and> (t, h) \<in> set terminal_handlers)
      \<or> (\<exists>t. types = [t] \<and> (t, h) \<in> set draft_handlers)
      \<or> h = node_committed \<or> h = edge_committed \<or> h = node_status_changed"
      using h(1) unfolding handlers_def terminal_handlers_def draft_handlers_def list.set insert_iff empty_iff prod.inject
      by (elim disjE conjE) simp_all
    then show thesis
      using h(2) that by (elim disjE conjE exE) simp_all
  qed
  then show ?thesis
  proof cases
    case 1
    then have "quiet s s'"
      using run apply_task_quiet apply_scope_quiet apply_agent_quiet apply_report_quiet by blast
    then show ?thesis by (rule quiet)
  next
    case 2
    with run have "apply_record e s = Inr s'" by simp
    then show ?thesis by (cases rule: apply_record_cases) (use quiet evidence in blast)+
  next
    case 3
    with run show ?thesis using finding by blast
  next
    case 4
    with run show ?thesis using approval by blast
  next
    case 5
    with run show ?thesis using control by blast
  next
    case 6
    with run show ?thesis using terminal by blast
  next
    case 7
    with run show ?thesis using draft by blast
  next
    case 8
    with run show ?thesis using node by blast
  next
    case 9
    with run show ?thesis using edge by blast
  next
    case 10
    with run show ?thesis using node_status by blast
  qed
qed

section \<open>Projection\<close>

definition product_step :: "event \<Rightarrow> product_state \<Rightarrow> product_state" where
  "product_step e s = (case Project s e of Inr (Projection_Applied s') \<Rightarrow> s' | _ \<Rightarrow> s)"

text \<open>The snapshot the handler of a new event starts from.\<close>

definition at_event :: "event \<Rightarrow> canon \<Rightarrow> product_state \<Rightarrow> product_state" where
  "at_event e c s = s\<lparr>ps_cursor := e_cursor e, ps_canonical := (ps_canonical s)(e_id e \<mapsto> c)\<rparr>"

lemma Project_applied:
  assumes "Project s e = Inr (Projection_Applied s')"
  obtains (unknown) c where "canon_event e = Some c" "ps_canonical s (e_id e) = None"
      "ps_cursor s < e_cursor e" "e_cursor e \<le> wrap64 (ps_cursor s + 1)" "e_kind e = EventKindUnknown"
      "s' = (at_event e c s)\<lparr>ps_raw := ps_raw s @ [e]\<rparr>"
    | (known) c where "canon_event e = Some c" "ps_canonical s (e_id e) = None"
      "ps_cursor s < e_cursor e" "e_cursor e \<le> wrap64 (ps_cursor s + 1)" "e_kind e \<noteq> EventKindUnknown"
      "apply_known_event e ((at_event e c s)\<lparr>ps_timeline := ps_timeline s @ [e]\<rparr>) = Inr s'"
  using assms
  by (auto simp: Project_def at_event_def Let_def split: option.splits if_splits sum.splits)

lemma product_step_cases:
  obtains (same) "product_step e s = s" | (applied) "Project s e = Inr (Projection_Applied (product_step e s))"
proof (cases "\<exists>s'. Project s e = Inr (Projection_Applied s')")
  case True
  then have "Project s e = Inr (Projection_Applied (product_step e s))"
    by (auto simp: product_step_def)
  then show ?thesis by (rule applied)
next
  case False
  then have "product_step e s = s"
    by (simp add: product_step_def split: sum.splits projection.splits)
  then show ?thesis by (rule same)
qed

text \<open>An invariant that adding an event to the history keeps, and every handler, is one of the run.\<close>

lemma product_invariant:
  assumes start: "\<And>s e c. I s \<Longrightarrow>
      I ((at_event e c s)\<lparr>ps_timeline := ps_timeline s @ [e]\<rparr>)
    \<and> I ((at_event e c s)\<lparr>ps_raw := ps_raw s @ [e]\<rparr>)"
    and handled: "\<And>s e s'. I s \<Longrightarrow> last (ps_timeline s) = e \<Longrightarrow> ps_timeline s \<noteq> [] \<Longrightarrow>
      apply_known_event e s = Inr s' \<Longrightarrow> I s'"
    and inv: "I s"
  shows "I (product_step e s)"
proof (cases rule: product_step_cases [of e s])
  case same
  with inv show ?thesis by simp
next
  case applied
  from applied show ?thesis
  proof (cases rule: Project_applied)
    case (unknown c)
    then show ?thesis using start [OF inv, of e c] by simp
  next
    case (known c)
    let ?s = "(at_event e c s)\<lparr>ps_timeline := ps_timeline s @ [e]\<rparr>"
    have "I ?s" using start [OF inv, of e c] by simp
    then show ?thesis by (rule handled [of ?s e]) (use known(6) in simp_all)
  qed
qed

text \<open>So is a preorder that the handlers respect and that does not look at the history.\<close>

lemma product_relation:
  assumes trans: "\<And>s t u. R s t \<Longrightarrow> R t u \<Longrightarrow> R s u"
    and same: "\<And>s e c es rs. R s ((at_event e c s)\<lparr>ps_timeline := es\<rparr>)
      \<and> R s ((at_event e c s)\<lparr>ps_raw := rs\<rparr>) \<and> R s s"
    and handled: "\<And>s e s'. apply_known_event e s = Inr s' \<Longrightarrow> R s s'"
  shows "R s (product_step e s)"
proof (cases rule: product_step_cases [of e s])
  case same
  then show ?thesis using assms(2) by simp
next
  case applied
  then show ?thesis
  proof (cases rule: Project_applied)
    case (unknown c)
    then show ?thesis using same by simp
  next
    case (known c)
    have "R s ((at_event e c s)\<lparr>ps_timeline := ps_timeline s @ [e]\<rparr>)" using same by simp
    then show ?thesis using handled [OF known(6)] by (rule trans)
  qed
qed

text \<open>What every known event leaves alone.\<close>

definition same_history :: "product_state \<Rightarrow> product_state \<Rightarrow> bool" where
  "same_history s s' \<longleftrightarrow>
     ps_timeline s' = ps_timeline s \<and> ps_raw s' = ps_raw s \<and> ps_cursor s' = ps_cursor s
   \<and> ps_canonical s' = ps_canonical s \<and> ps_runtime s' = ps_runtime s"

lemma quiet_history: "quiet s s' \<Longrightarrow> same_history s s'"
  by (auto simp: quiet_def same_history_def)

lemma known_event_history: "apply_known_event e s = Inr s' \<Longrightarrow> same_history s s'"
  by (erule known_event) (auto simp: same_history_def dest: quiet_history dest!: frames)

end
