(* ===== verification/Product_Properties.thy ===== *)
theory Product_Properties
  imports Product_Effects
begin

text \<open>
  What holds of every snapshot a client can reach by stepping through events in any order, with
  duplicates, conflicts, gaps and refused events among them: the stored history rebuilds the snapshot, an
  event seen before is recognised, approvals are decided once and in time, control leases only move
  forward, drafts end, and terminal output stays within its limit.
\<close>

section \<open>The history of a snapshot\<close>

text \<open>The stored events, known and unknown, in the order of their cursors.\<close>

definition history :: "product_state \<Rightarrow> event list" where
  "history s = sort_key e_cursor (ps_timeline s @ ps_raw s)"

lemma history_set: "set (history s) = set (ps_timeline s) \<union> set (ps_raw s)"
  by (simp add: history_def)

lemma sort_key_snoc:
  assumes "mset ys = add_mset e (mset xs)" and "distinct (map e_cursor xs)"
    and "\<forall>x \<in> set xs. e_cursor x < e_cursor e"
  shows "sort_key e_cursor ys = sort_key e_cursor xs @ [e]"
proof (rule sort_key_inj_key_eq)
  show "mset ys = mset (sort_key e_cursor xs @ [e])" using assms(1) by simp
  have "set ys = insert e (set xs)" using arg_cong [OF assms(1), of set_mset] by simp
  moreover have "inj_on e_cursor (set xs)" using assms(2) by (simp only: distinct_map)
  moreover have "e_cursor e \<notin> e_cursor ` set xs" using assms(3) by auto
  ultimately show "inj_on e_cursor (set ys)" by (simp add: inj_on_insert) blast
  show "sorted (map e_cursor (sort_key e_cursor xs @ [e]))"
    using assms(3) by (auto simp: sorted_append less_imp_le)
qed

definition logged :: "product_state \<Rightarrow> bool" where
  "logged s \<longleftrightarrow>
     0 \<le> ps_cursor s \<and> ps_cursor s < 2 ^ 63
   \<and> map e_cursor (history s) = [1..ps_cursor s]
   \<and> (\<forall>e \<in> set (history s). \<exists>c. canon_event e = Some c \<and> ps_canonical s (e_id e) = Some c)
   \<and> fold product_step (history s) Initial = s"

lemma logged_Initial: "logged Initial"
  by (simp add: logged_def history_def Initial_def)

lemma next_cursor:
  assumes "0 \<le> c" "c < 2 ^ 63" "c < n" "n \<le> wrap64 (c + 1)"
  shows "n = c + 1 \<and> n < 2 ^ 63"
proof (cases "c + 1 < 2 ^ 63")
  case True
  then show ?thesis using assms by simp
next
  case False
  then have "c + 1 = 2 ^ 63" using assms by simp
  then have "wrap64 (c + 1) = - (2 ^ 63)" by (simp add: wrap64_def)
  then show ?thesis using assms by simp
qed

lemma applied_history:
  assumes "logged s" and "Project s e = Inr (Projection_Applied s')"
  shows "history s' = history s @ [e]" and "ps_cursor s' = ps_cursor s + 1" and "e_cursor e = ps_cursor s + 1"
    and "ps_cursor s' < 2 ^ 63" and "ps_canonical s (e_id e) = None"
    and "\<exists>c. canon_event e = Some c \<and> ps_canonical s' = (ps_canonical s)(e_id e \<mapsto> c)"
proof -
  have cursors: "e_cursor x \<le> ps_cursor s" if "x \<in> set (ps_timeline s) \<union> set (ps_raw s)" for x
    using that assms(1) unfolding history_set [symmetric]
    by (metis logged_def atLeastAtMost_iff image_eqI list.set_map set_upto)
  have distinct: "distinct (map e_cursor (ps_timeline s @ ps_raw s))"
  proof -
    have "distinct (map e_cursor (history s))" using assms(1) by (simp add: logged_def)
    then show ?thesis by (metis history_def distinct_map distinct_sort set_sort)
  qed
  note parts = next_cursor [of "ps_cursor s" "e_cursor e"]
  have "history s' = history s @ [e] \<and> ps_cursor s' = e_cursor e \<and> e_cursor e = ps_cursor s + 1
      \<and> ps_cursor s + 1 < 2 ^ 63 \<and> ps_canonical s (e_id e) = None
      \<and> (\<exists>c. canon_event e = Some c \<and> ps_canonical s' = (ps_canonical s)(e_id e \<mapsto> c))"
    using assms(2)
  proof (cases rule: Project_applied)
    case (unknown c)
    then have "e_cursor e = ps_cursor s + 1 \<and> ps_cursor s + 1 < 2 ^ 63" using parts assms(1) by (auto simp: logged_def)
    moreover have "history s' = history s @ [e]"
      unfolding history_def
      by (rule sort_key_snoc) (use unknown(6) distinct cursors calculation in \<open>auto simp: at_event_def\<close>)
    ultimately show ?thesis using unknown by (auto simp: at_event_def)
  next
    case (known c)
    then have "e_cursor e = ps_cursor s + 1 \<and> ps_cursor s + 1 < 2 ^ 63" using parts assms(1) by (auto simp: logged_def)
    moreover have same: "ps_timeline s' = ps_timeline s @ [e]" "ps_raw s' = ps_raw s" "ps_cursor s' = e_cursor e"
      "ps_canonical s' = (ps_canonical s)(e_id e \<mapsto> c)"
      using known_event_history [OF known(6)] by (simp_all add: same_history_def at_event_def)
    moreover have "history s' = history s @ [e]"
      unfolding history_def
      by (rule sort_key_snoc) (use same distinct cursors calculation in \<open>auto\<close>)
    ultimately show ?thesis using known by auto
  qed
  then show "history s' = history s @ [e]" "ps_cursor s' = ps_cursor s + 1" "e_cursor e = ps_cursor s + 1"
    "ps_cursor s' < 2 ^ 63" "ps_canonical s (e_id e) = None"
    "\<exists>c. canon_event e = Some c \<and> ps_canonical s' = (ps_canonical s)(e_id e \<mapsto> c)"
    by auto
qed

lemma logged_step:
  assumes "logged s"
  shows "logged (product_step e s)"
proof (cases rule: product_step_cases [of e s])
  case same
  with assms show ?thesis by simp
next
  case applied
  note h = applied_history [OF assms applied]
  have canon: "\<forall>x \<in> set (history s). \<exists>c. canon_event x = Some c \<and> ps_canonical s (e_id x) = Some c"
    and range: "map e_cursor (history s) = [1..ps_cursor s]" "0 \<le> ps_cursor s"
    and replay: "fold product_step (history s) Initial = s"
    using assms unfolding logged_def by blast+
  have "e_id x \<noteq> e_id e" if "x \<in> set (history s)" for x
    using canon that h(5) by force
  moreover have "[1..ps_cursor s + 1] = [1..ps_cursor s] @ [ps_cursor s + 1]"
    using range(2) by (simp add: upto_rec2)
  moreover obtain c where "canon_event e = Some c"
      "ps_canonical (product_step e s) = (ps_canonical s)(e_id e \<mapsto> c)"
    using h(6) by blast
  ultimately show ?thesis
    unfolding logged_def using h(1-5) canon range replay by simp
qed

interpretation product_log: invariant_machine product_step logged
  by unfold_locales (rule logged_step)

lemma reached_logged: "logged (fold product_step es Initial)"
  by (rule product_log.inv_run) (rule logged_Initial)

text \<open>C7: after any sequence of events, in any order and with duplicates, conflicts, gaps and refused events
  among them, the events a snapshot stores have the cursors 1, 2, ..., up to the committed one, and replaying
  just them from the initial state rebuilds the snapshot.
\<close>

theorem replay_rebuilds_snapshot:
  "let s = fold product_step es Initial in
     fold product_step (history s) Initial = s \<and> map e_cursor (history s) = [1..ps_cursor s]"
  using reached_logged [of es] by (simp add: logged_def Let_def)

text \<open>No event is forgotten.\<close>

definition remembers :: "product_state \<Rightarrow> product_state \<Rightarrow> bool" where
  "remembers s s' \<longleftrightarrow> ps_canonical s \<subseteq>\<^sub>m ps_canonical s'"

interpretation product_memory: monotone_machine product_step remembers
proof
  fix s t u :: product_state and e
  show "remembers s s" by (simp add: remembers_def)
  show "remembers s u" if "remembers s t" "remembers t u"
    using that by (auto simp: remembers_def intro: map_le_trans)
  show "remembers s (product_step e s)"
  proof (cases rule: product_step_cases [of e s])
    case same
    then show ?thesis by (simp add: remembers_def)
  next
    case applied
    then obtain c where "ps_canonical s (e_id e) = None"
        "ps_canonical (product_step e s) = (ps_canonical s)(e_id e \<mapsto> c)"
      by (cases rule: Project_applied) (auto simp: at_event_def same_history_def dest!: known_event_history)
    then show ?thesis by (auto simp: remembers_def map_le_def)
  qed
qed

text \<open>an event that was once applied is answered as a duplicate for ever: whatever is projected later,
  delivering it again changes nothing and is neither a conflict nor stale.
\<close>

theorem redelivery_is_duplicate:
  assumes "e \<in> set (history (fold product_step es Initial))"
  shows "Project (fold product_step (es @ later) Initial) e
    = Inr (Projection_Duplicate (fold product_step (es @ later) Initial))"
proof -
  let ?s = "fold product_step es Initial"
  obtain c where c: "canon_event e = Some c" "ps_canonical ?s (e_id e) = Some c"
    using reached_logged [of es] assms unfolding logged_def by blast
  have "remembers ?s (fold product_step later ?s)" by (rule product_memory.rel_run)
  then have "ps_canonical (fold product_step later ?s) (e_id e) = Some c"
    using c(2) by (auto simp: remembers_def map_le_def dom_def)
  then show ?thesis using c(1) by (simp add: Project_def)
qed

section \<open>The control lease\<close>

text \<open>A lease that is new in the later snapshot has a revision above every one committed before.\<close>

definition fenced :: "product_state \<Rightarrow> product_state \<Rightarrow> bool" where
  "fenced s s' \<longleftrightarrow>
     ps_highest s \<le> ps_highest s'
   \<and> (\<forall>l. ps_lease s' = Some l \<longrightarrow> ps_lease s = Some l \<or> ps_highest s < cl_revision l)"

lemma fenced_refl [simp]: "fenced s s"
  by (simp add: fenced_def split: option.splits)

lemma fenced_same: "ps_lease s' = ps_lease s \<Longrightarrow> ps_highest s' = ps_highest s \<Longrightarrow> fenced s s'"
  by (simp add: fenced_def split: option.splits)

lemma control_step:
  assumes "apply_control e s = Inr s'"
  obtains (same) "s' = s" | (released) "s' = s\<lparr>ps_lease := None\<rparr>"
    | (acquired) l where "ps_highest s < cl_revision l" "s' = s\<lparr>ps_lease := Some l, ps_highest := cl_revision l\<rparr>"
  using assms by (auto simp: apply_control_def not_le split: if_splits option.splits)

lemma fenced_known:
  assumes "apply_known_event e s = Inr s'"
  shows "fenced s s'"
  using assms
proof (cases rule: known_event)
  case control
  from control(1) show ?thesis by (cases rule: control_step) (auto simp: fenced_def)
qed (auto simp: quiet_def intro: fenced_same dest!: frames)

lemma fenced_trans: "fenced s t \<Longrightarrow> fenced t u \<Longrightarrow> fenced s u"
  by (auto simp: fenced_def split: option.splits)

interpretation product_lease: monotone_machine product_step fenced
  by unfold_locales
    (simp, rule fenced_trans, assumption+,
      rule product_relation [of fenced, OF fenced_trans], auto simp: at_event_def fenced_same intro: fenced_known)

definition current_lease :: "product_state \<Rightarrow> bool" where
  "current_lease s \<longleftrightarrow> (\<forall>l. ps_lease s = Some l \<longrightarrow> cl_revision l = ps_highest s)"

lemma current_lease_known:
  assumes "apply_known_event e s = Inr s'" and "current_lease s"
  shows "current_lease s'"
  using assms(1)
proof (cases rule: known_event)
  case control
  from control(1) show ?thesis by (cases rule: control_step) (use assms(2) in \<open>auto simp: current_lease_def\<close>)
qed (use assms(2) in \<open>auto simp: quiet_def current_lease_def dest!: frames\<close>)

interpretation product_current: invariant_machine product_step current_lease
  by unfold_locales
    (rule product_invariant [of current_lease, OF _ current_lease_known];
      (assumption | simp add: current_lease_def at_event_def))

text \<open>C22: between any two snapshots of one task the highest lease revision never decreases; a lease held
  later is the one held before or has a revision above every revision committed before, so an old lease never
  comes back.
\<close>

theorem control_lease_is_fenced:
  "let s = fold product_step es Initial; s' = fold product_step later s in
     ps_highest s \<le> ps_highest s'
   \<and> (case ps_lease s' of
        None \<Rightarrow> True
      | Some l \<Rightarrow> cl_revision l = ps_highest s' \<and> (ps_lease s = Some l \<or> ps_highest s < cl_revision l))"
proof -
  define s where "s = fold product_step es Initial"
  have "fenced s (fold product_step later s)" by (rule product_lease.rel_run)
  moreover have "current_lease (fold product_step later s)"
    unfolding s_def by (intro product_current.inv_run) (simp add: current_lease_def Initial_def)
  ultimately show ?thesis
    unfolding s_def [symmetric] Let_def by (auto simp: fenced_def current_lease_def split: option.splits)
qed

section \<open>Approvals\<close>

text \<open>The event by which a challenge was resolved, not after it expired.\<close>

definition resolves :: "event \<Rightarrow> string \<Rightarrow> approval_state \<Rightarrow> bool" where
  "resolves e cid a \<longleftrightarrow>
     e_type e = ''approval.resolved'' \<and> p_string e ''challengeId'' = Some cid
   \<and> p_string e ''decision'' = Some (ap_decision a)
   \<and> time_or_zero (e_time e) \<le> time_or_zero (ap_expires (ap_challenge a))"

definition decisions_recorded :: "product_state \<Rightarrow> bool" where
  "decisions_recorded s \<longleftrightarrow>
     (\<forall>cid a. ps_approvals s cid = Some a \<longrightarrow> ap_decision a \<noteq> [] \<longrightarrow>
        (\<exists>e \<in> set (ps_timeline s). resolves e cid a))"

definition settled :: "product_state \<Rightarrow> product_state \<Rightarrow> bool" where
  "settled s s' \<longleftrightarrow>
     (\<forall>cid a. ps_approvals s cid = Some a \<longrightarrow>
        (\<exists>a'. ps_approvals s' cid = Some a' \<and> ap_challenge a' = ap_challenge a
           \<and> (ap_decision a \<noteq> [] \<longrightarrow> a' = a)))"

lemma settled_same: "ps_approvals s' = ps_approvals s \<Longrightarrow> settled s s'"
  by (simp add: settled_def)

lemma settled_trans: "settled s t \<Longrightarrow> settled t u \<Longrightarrow> settled s u"
  unfolding settled_def by metis

lemma approval_step:
  assumes "apply_approval e s = Inr s'" and "e_type e \<in> {''approval.requested'', ''approval.resolved''}"
  obtains (same) "s' = s"
    | (requested) c where "ps_approvals s (ap_id c) = None"
        "s' = s\<lparr>ps_approvals := (ps_approvals s)(ap_id c \<mapsto> \<lparr>ap_challenge = c, ap_decision = []\<rparr>)\<rparr>"
    | (resolved) cid a d where "e_type e = ''approval.resolved''" "p_string e ''challengeId'' = Some cid"
        "p_string e ''decision'' = Some d" "ps_approvals s cid = Some a" "ap_decision a = []"
        "time_or_zero (e_time e) \<le> time_or_zero (ap_expires (ap_challenge a))"
        "s' = s\<lparr>ps_approvals := (ps_approvals s)(cid \<mapsto> a\<lparr>ap_decision := d\<rparr>)\<rparr>"
proof (cases "e_type e = ''approval.requested''")
  case True
  then obtain c where c: "payload e ''challenge'' dec_challenge no_challenge = Some c"
    using assms(1) by (auto simp: apply_approval_def)
  show ?thesis
  proof (cases "ps_approvals s (ap_id c)")
    case None
    then show ?thesis using requested [of c] assms(1) True c by (simp add: apply_approval_def)
  next
    case (Some a)
    then show ?thesis using same assms(1) True c by (simp add: apply_approval_def split: if_splits)
  qed
next
  case False
  then show ?thesis
    using assms resolved by (simp add: apply_approval_def not_less split: if_splits option.splits)
qed

lemma settled_known:
  assumes "apply_known_event e s = Inr s'"
  shows "settled s s'"
  using assms
proof (cases rule: known_event)
  case approval
  then show ?thesis by (cases rule: approval_step) (auto simp: settled_def)
qed (auto simp: quiet_def intro: settled_same dest!: frames)

interpretation product_settled: monotone_machine product_step settled
  by unfold_locales
    (rule settled_same, simp, rule settled_trans, assumption+,
      rule product_relation [of settled, OF settled_trans], auto simp: at_event_def settled_same intro: settled_known)

lemma decisions_recorded_known:
  assumes "apply_known_event e s = Inr s'" and "decisions_recorded s" and "e \<in> set (ps_timeline s)"
  shows "decisions_recorded s'"
  using assms(1)
proof (cases rule: known_event)
  case approval
  then show ?thesis
    by (cases rule: approval_step) (use assms(2,3) in \<open>auto simp: decisions_recorded_def resolves_def\<close>)
qed (use assms(2) in \<open>auto simp: quiet_def decisions_recorded_def dest!: frames\<close>)

lemma decisions_recorded_mono:
  "decisions_recorded s \<Longrightarrow> ps_approvals s' = ps_approvals s \<Longrightarrow> set (ps_timeline s) \<subseteq> set (ps_timeline s') \<Longrightarrow>
     decisions_recorded s'"
  unfolding decisions_recorded_def by (simp add: subset_iff) blast

interpretation product_decisions: invariant_machine product_step decisions_recorded
proof
  fix s :: product_state and e
  assume inv: "decisions_recorded s"
  show "decisions_recorded (product_step e s)"
  proof (rule product_invariant [of decisions_recorded, OF _ _ inv])
    fix s e c assume "decisions_recorded s"
    then show "decisions_recorded ((at_event e c s)\<lparr>ps_timeline := ps_timeline s @ [e]\<rparr>)
        \<and> decisions_recorded ((at_event e c s)\<lparr>ps_raw := ps_raw s @ [e]\<rparr>)"
      by (auto simp: at_event_def elim: decisions_recorded_mono)
  next
    fix s e s'
    assume "decisions_recorded s" "last (ps_timeline s) = e" "ps_timeline s \<noteq> []"
      "apply_known_event e s = Inr s'"
    then show "decisions_recorded s'" using decisions_recorded_known [of e s s'] by auto
  qed
qed

text \<open>a decided approval keeps its challenge and its decision in every later snapshot, and its timeline
  holds the resolving event, which names the challenge, carries that decision and did not occur after the
  challenge expired.
\<close>

theorem approval_decided_once:
  assumes "ps_approvals (fold product_step es Initial) cid = Some a" and "ap_decision a \<noteq> []"
  shows "ps_approvals (fold product_step (es @ later) Initial) cid = Some a
    \<and> list_ex (\<lambda>e. resolves e cid a) (ps_timeline (fold product_step es Initial))"
proof -
  let ?s = "fold product_step es Initial"
  have "settled ?s (fold product_step later ?s)" by (rule product_settled.rel_run)
  moreover have "decisions_recorded ?s"
    by (rule product_decisions.inv_run) (simp add: decisions_recorded_def Initial_def)
  ultimately show ?thesis
    using assms by (auto simp: settled_def decisions_recorded_def list_ex_iff)
qed

end
