(* ===== verification/Draft_Properties.thy ===== *)
theory Draft_Properties
  imports Product_Properties
begin

text \<open>
  Editor drafts and assets. A patch is applied only to the revision, base and proposal that were saved
  last, by an event that stays in the history; a verified or discarded draft never changes again; and
  what a verification or an asset cites is evidence the snapshot holds.
\<close>

section \<open>Steps of a draft\<close>

lemma draft_step:
  assumes "(t, h) \<in> set draft_handlers" and "h e s = Inr s'"
  obtains
    (opened) d where "ps_drafts s (dr_id d) = None" "list_all (reference_held e s) (dr_references d)"
      "s' = s\<lparr>ps_drafts := (ps_drafts s)(dr_id d \<mapsto> d\<lparr>dr_status := ''open'', dr_next := 1\<rparr>)\<rparr>"
  | (saved) did x p n where "ps_drafts s did = Some x" "editable x"
      "p_string e ''baseSha256'' = Some (dr_base x)" "p_int e ''revision'' = Some (dr_next x)"
      "s' = s\<lparr>ps_drafts := (ps_drafts s)(dr_id x \<mapsto> x\<lparr>dr_status := ''saved'',
         dr_next := wrap64 (dr_next x + 1), dr_proposed := p, dr_proposed_length := n\<rparr>)\<rparr>"
  | (applied) did x r w where "t = ''editor.patch.applied''" "ps_drafts s did = Some x"
      "dr_status x = ''saved''" "p_string e ''draftId'' = Some did"
      "p_int e ''revision'' = Some (wrap64 (dr_next x - 1))" "p_string e ''baseSha256'' = Some (dr_base x)"
      "p_string e ''proposedSha256'' = Some (dr_proposed x)" "p_string e ''resultSha256'' = Some r"
      "p_string e ''reviewer'' = Some w"
      "s' = s\<lparr>ps_drafts := (ps_drafts s)(dr_id x \<mapsto> x\<lparr>dr_status := ''applied'', dr_result := r,
         dr_reviewer := w\<rparr>)\<rparr>"
  | (verified) did x v where "ps_drafts s did = Some x" "dr_status x = ''applied''"
      "evf_revision v = wrap64 (dr_next x - 1)" "list_all (\<lambda>i. ps_evidence s i \<noteq> None) (evf_evidence v)"
      "s' = s\<lparr>ps_drafts := (ps_drafts s)(dr_id x \<mapsto> x\<lparr>dr_status := ''verified'',
         dr_verification := Some v\<rparr>)\<rparr>"
  | (discarded) did x r where "ps_drafts s did = Some x" "editable x"
      "s' = s\<lparr>ps_drafts := (ps_drafts s)(dr_id x \<mapsto> x\<lparr>dr_status := ''discarded'', dr_discard := r\<rparr>)\<rparr>"
proof -
  consider "t = ''editor.draft.opened''" "h = draft_opened" | "t = ''editor.draft.saved''" "h = draft_saved"
    | "t = ''editor.patch.applied''" "h = patch_applied" | "t = ''editor.patch.verified''" "h = patch_verified"
    | "t = ''editor.draft.discarded''" "h = draft_discarded"
  proof -
    from assms(1) have "(t = ''editor.draft.opened'' \<and> h = draft_opened)
      \<or> (t = ''editor.draft.saved'' \<and> h = draft_saved) \<or> (t = ''editor.patch.applied'' \<and> h = patch_applied)
      \<or> (t = ''editor.patch.verified'' \<and> h = patch_verified)
      \<or> (t = ''editor.draft.discarded'' \<and> h = draft_discarded)"
      unfolding draft_handlers_def list.set insert_iff empty_iff prod.inject by (elim disjE conjE) simp_all
    then show thesis using that by (elim disjE conjE) simp_all
  qed
  then show thesis
  proof cases
    case 1
    with assms(2) show thesis
      by (auto simp: draft_opened_def put_draft_frame split: if_splits intro: opened)
  next
    case 2
    have "\<exists>did x p n. ps_drafts s did = Some x \<and> editable x
        \<and> p_string e ''baseSha256'' = Some (dr_base x) \<and> p_int e ''revision'' = Some (dr_next x)
        \<and> s' = s\<lparr>ps_drafts := (ps_drafts s)(dr_id x \<mapsto> x\<lparr>dr_status := ''saved'',
           dr_next := wrap64 (dr_next x + 1), dr_proposed := p, dr_proposed_length := n\<rparr>)\<rparr>"
      using assms(2) unfolding 2(2) draft_saved_def
      by (simp add: put_draft_frame split: option.splits if_splits) blast
    then show thesis using saved by blast
  next
    case 3
    have "\<exists>did x r w. ps_drafts s did = Some x \<and> dr_status x = ''saved'' \<and> p_string e ''draftId'' = Some did
        \<and> p_int e ''revision'' = Some (wrap64 (dr_next x - 1)) \<and> p_string e ''baseSha256'' = Some (dr_base x)
        \<and> p_string e ''proposedSha256'' = Some (dr_proposed x) \<and> p_string e ''resultSha256'' = Some r
        \<and> p_string e ''reviewer'' = Some w
        \<and> s' = s\<lparr>ps_drafts := (ps_drafts s)(dr_id x \<mapsto> x\<lparr>dr_status := ''applied'', dr_result := r,
             dr_reviewer := w\<rparr>)\<rparr>"
      using assms(2) unfolding 3(2) patch_applied_def
      by (simp add: put_draft_frame split: option.splits if_splits)
    then show thesis using applied 3(1) by blast
  next
    case 4
    have "\<exists>did x v. ps_drafts s did = Some x \<and> dr_status x = ''applied''
        \<and> evf_revision v = wrap64 (dr_next x - 1) \<and> list_all (\<lambda>i. ps_evidence s i \<noteq> None) (evf_evidence v)
        \<and> s' = s\<lparr>ps_drafts := (ps_drafts s)(dr_id x \<mapsto> x\<lparr>dr_status := ''verified'',
             dr_verification := Some v\<rparr>)\<rparr>"
      using assms(2) unfolding 4(2) patch_verified_def
      by (force simp: put_draft_frame split: option.splits if_splits)
    then show thesis using verified by blast
  next
    case 5
    have "\<exists>did x r. ps_drafts s did = Some x \<and> editable x
        \<and> s' = s\<lparr>ps_drafts := (ps_drafts s)(dr_id x \<mapsto> x\<lparr>dr_status := ''discarded'', dr_discard := r\<rparr>)\<rparr>"
      using assms(2) unfolding 5(2) draft_discarded_def
      by (simp add: put_draft_frame split: option.splits if_splits) blast
    then show thesis using discarded by blast
  qed
qed

section \<open>Drafts end\<close>

definition ended :: "editor_draft \<Rightarrow> bool" where
  "ended d \<longleftrightarrow> dr_status d = ''verified'' \<or> dr_status d = ''discarded''"

definition keyed :: "product_state \<Rightarrow> bool" where
  "keyed s \<longleftrightarrow> (\<forall>did x. ps_drafts s did = Some x \<longrightarrow> dr_id x = did)"

text \<open>What later events keep of a draft: its base, its path and, once it has ended, all of it.\<close>

definition drafts_kept :: "product_state \<Rightarrow> product_state \<Rightarrow> bool" where
  "drafts_kept s s' \<longleftrightarrow> keyed s \<longrightarrow>
     keyed s' \<and> (\<forall>did x. ps_drafts s did = Some x \<longrightarrow>
       (\<exists>y. ps_drafts s' did = Some y \<and> dr_base y = dr_base x \<and> dr_path y = dr_path x
          \<and> (ended x \<longrightarrow> y = x)))"

lemma drafts_kept_same: "ps_drafts s' = ps_drafts s \<Longrightarrow> drafts_kept s s'"
  by (simp add: drafts_kept_def keyed_def)

lemma drafts_kept_trans: "drafts_kept s t \<Longrightarrow> drafts_kept t u \<Longrightarrow> drafts_kept s u"
  unfolding drafts_kept_def by metis

lemma drafts_kept_put:
  assumes "ps_drafts s did = Some x" and "\<not> ended x" and "dr_base y = dr_base x" and "dr_path y = dr_path x"
    and "dr_id y = dr_id x" and "s' = s\<lparr>ps_drafts := (ps_drafts s)(dr_id x \<mapsto> y)\<rparr>"
  shows "drafts_kept s s'"
  unfolding drafts_kept_def
proof
  assume keys: "keyed s"
  then have "dr_id x = did" using assms(1) by (simp add: keyed_def)
  then have drafts: "ps_drafts s' = (ps_drafts s)(did \<mapsto> y)" "dr_id y = did" using assms(5,6) by simp_all
  then have "keyed s'" using keys by (auto simp: keyed_def)
  then show "keyed s' \<and> (\<forall>did x. ps_drafts s did = Some x \<longrightarrow>
       (\<exists>y. ps_drafts s' did = Some y \<and> dr_base y = dr_base x \<and> dr_path y = dr_path x \<and> (ended x \<longrightarrow> y = x)))"
    using drafts(1) assms(1-4) by simp
qed

lemma drafts_kept_put_new:
  assumes "s' = s\<lparr>ps_drafts := (ps_drafts s)(i \<mapsto> d)\<rparr>" and "ps_drafts s i = None" and "dr_id d = i"
  shows "drafts_kept s s'"
  using assms by (simp add: drafts_kept_def keyed_def)

lemma drafts_kept_known:
  assumes "apply_known_event e s = Inr s'"
  shows "drafts_kept s s'"
  using assms
proof (cases rule: known_event)
  case (draft h)
  then show ?thesis
  proof (cases rule: draft_step)
    case (opened d)
    then show ?thesis by (intro drafts_kept_put_new [OF opened(3)]) simp_all
  next
    case (saved did x p n)
    then show ?thesis by (intro drafts_kept_put [of s did x]) (auto simp: ended_def editable_def)
  next
    case (applied did x r w)
    then show ?thesis by (intro drafts_kept_put [of s did x]) (simp_all add: ended_def)
  next
    case (verified did x v)
    then show ?thesis by (intro drafts_kept_put [of s did x]) (simp_all add: ended_def)
  next
    case (discarded did x r)
    then show ?thesis by (intro drafts_kept_put [of s did x]) (auto simp: ended_def editable_def)
  qed
qed (auto simp: quiet_def intro: drafts_kept_same dest!: frames)

interpretation product_drafts: monotone_machine product_step drafts_kept
  by unfold_locales
    (rule drafts_kept_same, simp, rule drafts_kept_trans, assumption+,
      rule product_relation [of drafts_kept, OF drafts_kept_trans],
      auto simp: at_event_def drafts_kept_same intro: drafts_kept_known)

section \<open>Patches are reviewed\<close>

text \<open>The event by which the patch of a draft was applied.\<close>

definition applies_patch :: "event \<Rightarrow> editor_draft \<Rightarrow> bool" where
  "applies_patch e x \<longleftrightarrow>
     e_type e = ''editor.patch.applied'' \<and> p_string e ''draftId'' = Some (dr_id x)
   \<and> p_int e ''revision'' = Some (wrap64 (dr_next x - 1)) \<and> p_string e ''baseSha256'' = Some (dr_base x)
   \<and> p_string e ''proposedSha256'' = Some (dr_proposed x) \<and> p_string e ''resultSha256'' = Some (dr_result x)
   \<and> p_string e ''reviewer'' = Some (dr_reviewer x)"

definition verification_held :: "product_state \<Rightarrow> editor_draft \<Rightarrow> bool" where
  "verification_held s x \<longleftrightarrow>
     (case dr_verification x of
        None \<Rightarrow> False
      | Some v \<Rightarrow> evf_revision v = wrap64 (dr_next x - 1)
          \<and> list_all (\<lambda>i. ps_evidence s i \<noteq> None) (evf_evidence v))"

definition draft_ok :: "product_state \<Rightarrow> string \<Rightarrow> editor_draft \<Rightarrow> bool" where
  "draft_ok s did x \<longleftrightarrow>
     dr_id x = did
   \<and> (dr_status x = ''applied'' \<or> dr_status x = ''verified'' \<longrightarrow> (\<exists>e \<in> set (ps_timeline s). applies_patch e x))
   \<and> (dr_status x = ''verified'' \<longrightarrow> verification_held s x)"

definition drafts_ok :: "product_state \<Rightarrow> bool" where
  "drafts_ok s \<longleftrightarrow> (\<forall>did x. ps_drafts s did = Some x \<longrightarrow> draft_ok s did x)"

lemma draft_ok_mono:
  "draft_ok s did x \<Longrightarrow> set (ps_timeline s) \<subseteq> set (ps_timeline s') \<Longrightarrow> dom (ps_evidence s) \<subseteq> dom (ps_evidence s')
     \<Longrightarrow> draft_ok s' did x"
  unfolding draft_ok_def verification_held_def
  by (auto simp: list_all_iff subset_iff domIff split: option.splits)

lemma drafts_ok_mono:
  "drafts_ok s \<Longrightarrow> ps_drafts s' = ps_drafts s \<Longrightarrow> set (ps_timeline s) \<subseteq> set (ps_timeline s')
     \<Longrightarrow> dom (ps_evidence s) \<subseteq> dom (ps_evidence s') \<Longrightarrow> drafts_ok s'"
  unfolding drafts_ok_def by (metis draft_ok_mono)

lemma draft_ok_put [simp]: "draft_ok (s\<lparr>ps_drafts := m\<rparr>) did x = draft_ok s did x"
  by (simp add: draft_ok_def verification_held_def split: option.splits)

lemma drafts_ok_put:
  "drafts_ok s \<Longrightarrow> draft_ok s (dr_id x) d \<Longrightarrow> drafts_ok (s\<lparr>ps_drafts := (ps_drafts s)(dr_id x \<mapsto> d)\<rparr>)"
  by (auto simp: drafts_ok_def)

lemma drafts_ok_known:
  assumes "apply_known_event e s = Inr s'" and "drafts_ok s" and "e \<in> set (ps_timeline s)"
  shows "drafts_ok s'"
  using assms(1)
proof (cases rule: known_event)
  case (draft h)
  have held: "draft_ok s (dr_id x) x" if "ps_drafts s did = Some x" for did x
    using that assms(2) by (auto simp: drafts_ok_def draft_ok_def)
  from draft show ?thesis
  proof (cases rule: draft_step)
    case (opened d)
    show ?thesis
      unfolding opened(3) by (rule drafts_ok_put [OF assms(2)]) (simp add: draft_ok_def)
  next
    case (saved did x p n)
    show ?thesis
      unfolding saved(5) by (rule drafts_ok_put [OF assms(2)]) (simp add: draft_ok_def)
  next
    case (applied did x r w)
    show ?thesis
      unfolding applied(10)
      by (rule drafts_ok_put [OF assms(2)])
        (use applied assms(3) held [OF applied(2)] assms(2) in
          \<open>auto simp: draft_ok_def applies_patch_def drafts_ok_def intro!: bexI [of _ e]\<close>)
  next
    case (verified did x v)
    show ?thesis
      unfolding verified(5)
      by (rule drafts_ok_put [OF assms(2)])
        (use verified held [OF verified(1)] in
          \<open>auto simp: draft_ok_def applies_patch_def verification_held_def\<close>)
  next
    case (discarded did x r)
    show ?thesis
      unfolding discarded(3) by (rule drafts_ok_put [OF assms(2)]) (simp add: draft_ok_def)
  qed
qed (use assms(2) in \<open>auto simp: quiet_def elim: drafts_ok_mono dest!: frames\<close>)

lemma product_invariant_timeline:
  assumes same: "\<And>s s'. I s \<Longrightarrow> \<exists>c n es rs. s' = s\<lparr>ps_cursor := n, ps_canonical := c, ps_timeline := ps_timeline s @ es,
      ps_raw := rs\<rparr> \<Longrightarrow> I s'"
    and known: "\<And>e s s'. apply_known_event e s = Inr s' \<Longrightarrow> I s \<Longrightarrow> e \<in> set (ps_timeline s) \<Longrightarrow> I s'"
    and inv: "I s"
  shows "I (product_step e s)"
proof (rule product_invariant [of I, OF _ _ inv])
  fix s e c
  assume "I s"
  moreover have "(at_event e c s)\<lparr>ps_timeline := ps_timeline s @ [e]\<rparr>
      = s\<lparr>ps_cursor := e_cursor e, ps_canonical := (ps_canonical s)(e_id e \<mapsto> c),
          ps_timeline := ps_timeline s @ [e], ps_raw := ps_raw s\<rparr>"
    and "(at_event e c s)\<lparr>ps_raw := ps_raw s @ [e]\<rparr>
      = s\<lparr>ps_cursor := e_cursor e, ps_canonical := (ps_canonical s)(e_id e \<mapsto> c),
          ps_timeline := ps_timeline s @ [], ps_raw := ps_raw s @ [e]\<rparr>"
    by (simp_all add: at_event_def)
  ultimately show "I ((at_event e c s)\<lparr>ps_timeline := ps_timeline s @ [e]\<rparr>)
      \<and> I ((at_event e c s)\<lparr>ps_raw := ps_raw s @ [e]\<rparr>)"
    using same by metis
qed (use known in \<open>metis last_in_set\<close>)

interpretation product_reviews: invariant_machine product_step drafts_ok
  by unfold_locales
    (rule product_invariant_timeline [of drafts_ok, OF _ drafts_ok_known]; (assumption | auto elim: drafts_ok_mono))

text \<open>C14: a draft that is applied or verified has in the timeline an event that applied exactly it: with its
  base hash, the last saved proposal and its revision, the resulting hash and the reviewer the draft shows.
\<close>

theorem applied_patch_was_reviewed:
  assumes "ps_drafts (fold product_step es Initial) did = Some x"
    and "dr_status x = ''applied'' \<or> dr_status x = ''verified''"
  shows "list_ex (\<lambda>e. applies_patch e x \<and> dr_id x = did) (ps_timeline (fold product_step es Initial))"
proof -
  have "drafts_ok (fold product_step es Initial)"
    by (rule product_reviews.inv_run) (simp add: drafts_ok_def Initial_def)
  then show ?thesis using assms by (auto simp: drafts_ok_def draft_ok_def list_ex_iff)
qed

text \<open>a draft that was verified or discarded is never changed or removed.
\<close>

theorem ended_draft_is_final:
  assumes "ps_drafts (fold product_step es Initial) did = Some x" and "ended x"
  shows "ps_drafts (fold product_step (es @ later) Initial) did = Some x"
proof -
  let ?s = "fold product_step es Initial"
  have "keyed ?s"
    using product_reviews.inv_run [of Initial es]
    by (simp add: drafts_ok_def draft_ok_def keyed_def Initial_def)
  moreover have "drafts_kept ?s (fold product_step later ?s)" by (rule product_drafts.rel_run)
  ultimately show ?thesis using assms by (auto simp: drafts_kept_def)
qed

section \<open>Assets cite evidence\<close>

definition cited :: "product_state \<Rightarrow> asset_provenance \<Rightarrow> bool" where
  "cited s p \<longleftrightarrow> pv_kind p \<noteq> ''evidence'' \<or> list_all (\<lambda>i. ps_evidence s i \<noteq> None) (pv_evidence p)"

definition assets_ok :: "product_state \<Rightarrow> bool" where
  "assets_ok s \<longleftrightarrow>
     (\<forall>i n. ps_nodes s i = Some n \<longrightarrow> an_id n = i \<and> cited s (an_provenance n))
   \<and> (\<forall>i x. ps_edges s i = Some x \<longrightarrow> ae_id x = i \<and> cited s (ae_provenance x))"

lemma asset_evidence_cited: "asset_evidence s task p \<Longrightarrow> cited s p"
  by (auto simp: asset_evidence_def cited_def list_all_iff split: option.splits)

lemma cited_mono: "cited s p \<Longrightarrow> dom (ps_evidence s) \<subseteq> dom (ps_evidence s') \<Longrightarrow> cited s' p"
  by (auto simp: cited_def list_all_iff subset_iff domIff)

lemma assets_ok_mono:
  "assets_ok s \<Longrightarrow> ps_nodes s' = ps_nodes s \<Longrightarrow> ps_edges s' = ps_edges s
     \<Longrightarrow> dom (ps_evidence s) \<subseteq> dom (ps_evidence s') \<Longrightarrow> assets_ok s'"
  unfolding assets_ok_def by (metis cited_mono)

lemma node_committed_cases:
  assumes "node_committed e s = Inr s'"
  obtains (same) "s' = s"
    | (new) n where "asset_evidence s (e_task e) (an_provenance n)" "s' = s\<lparr>ps_nodes := (ps_nodes s)(an_id n \<mapsto> n)\<rparr>"
proof -
  obtain n where n: "payload e ''node'' dec_node no_node = Some n"
    using assms by (auto simp: node_committed_def)
  have run: "(case ps_nodes s (an_id n) of
      Some y \<Rightarrow> if canon_node y \<noteq> canon_node n then Inl Asset_Node_Conflict else Inr s
    | None \<Rightarrow> if \<not> asset_evidence s (e_task e) (an_provenance n) then Inl Asset_Evidence_Missing
        else Inr (s\<lparr>ps_nodes := (ps_nodes s)(an_id n \<mapsto> n)\<rparr>)) = Inr s'"
    using assms by (simp add: node_committed_def n)
  show thesis
  proof (cases "ps_nodes s (an_id n)")
    case None
    then show thesis using run new [of n] by (simp split: if_splits)
  next
    case (Some y)
    then show thesis using run same by (simp split: if_splits)
  qed
qed

lemma edge_committed_cases:
  assumes "edge_committed e s = Inr s'"
  obtains (same) "s' = s"
    | (new) x where "asset_evidence s (e_task e) (ae_provenance x)" "s' = s\<lparr>ps_edges := (ps_edges s)(ae_id x \<mapsto> x)\<rparr>"
proof -
  obtain x where x: "payload e ''edge'' dec_edge no_edge = Some x"
    using assms by (auto simp: edge_committed_def)
  have run: "(case ps_edges s (ae_id x) of
      Some y \<Rightarrow> if canon_edge y \<noteq> canon_edge x then Inl Asset_Edge_Conflict else Inr s
    | None \<Rightarrow> if \<not> asset_evidence s (e_task e) (ae_provenance x) then Inl Asset_Evidence_Missing
        else Inr (s\<lparr>ps_edges := (ps_edges s)(ae_id x \<mapsto> x)\<rparr>)) = Inr s'"
    using assms by (simp add: edge_committed_def x)
  show thesis
  proof (cases "ps_edges s (ae_id x)")
    case None
    then show thesis using run new [of x] by (simp split: if_splits)
  next
    case (Some y)
    then show thesis using run same by (simp split: if_splits)
  qed
qed

lemma node_status_cases:
  assumes "node_status_changed e s = Inr s'"
  obtains nid n st r where "ps_nodes s nid = Some n" "an_status n \<noteq> ''deleted''"
    "s' = s\<lparr>ps_nodes := (ps_nodes s)(an_id n \<mapsto> n\<lparr>an_status := st, an_reason := r\<rparr>)\<rparr>"
  using assms unfolding node_status_changed_def by (simp split: option.splits if_splits) metis

lemma assets_ok_known:
  assumes "apply_known_event e s = Inr s'" and "assets_ok s" and "e \<in> set (ps_timeline s)"
  shows "assets_ok s'"
  using assms(1)
proof (cases rule: known_event)
  case node
  then show ?thesis
    by (cases rule: node_committed_cases)
      (use assms(2) in \<open>auto simp: assets_ok_def cited_def dest!: asset_evidence_cited\<close>)
next
  case edge
  then show ?thesis
    by (cases rule: edge_committed_cases)
      (use assms(2) in \<open>auto simp: assets_ok_def cited_def dest!: asset_evidence_cited\<close>)
next
  case node_status
  then show ?thesis
  proof (cases rule: node_status_cases)
    case (1 nid n st r)
    then have "an_id n = nid" "cited s (an_provenance n)" using assms(2) by (simp_all add: assets_ok_def)
    then show ?thesis using assms(2) 1 by (simp add: assets_ok_def cited_def)
  qed
qed (use assms(2) in \<open>auto simp: quiet_def elim: assets_ok_mono dest!: frames\<close>)

interpretation product_assets: invariant_machine product_step assets_ok
  by unfold_locales
    (rule product_invariant_timeline [of assets_ok, OF _ assets_ok_known]; (assumption | auto elim: assets_ok_mono))

text \<open>in every snapshot each asset node and edge is stored under its own identifier, and one whose
  provenance is evidence cites only evidence that the snapshot holds.
\<close>

theorem assets_cite_held_evidence: "assets_ok (fold product_step es Initial)"
  by (rule product_assets.inv_run) (simp add: assets_ok_def Initial_def)

end
