(* ===== verification/Terminal_Properties.thy ===== *)
theory Terminal_Properties
  imports Draft_Properties Json_Decoding
begin

text \<open>
  The composition of \<open>Validate\<close> and \<open>Project\<close>, as the program's clients run them: \<open>receive\<close> takes the text of
  an event. What \<open>Validate\<close> guarantees of an event, and, for terminals, what that gives of the snapshot:
  output in sequence, and within the limit of the session.
\<close>

section \<open>Validated events\<close>

definition receive :: "string \<Rightarrow> product_state \<Rightarrow> product_state" where
  "receive raw s = (case Validate raw of Inl _ \<Rightarrow> s | Inr e \<Rightarrow> product_step e s)"

definition well_formed_event :: "event \<Rightarrow> bool" where
  "well_formed_event e \<longleftrightarrow>
     e_schema e = SchemaVersion \<and> 1 \<le> e_cursor e \<and> e_cursor e \<le> max_safe_integer
   \<and> e_id e \<noteq> [] \<and> e_task e \<noteq> [] \<and> e_type e \<noteq> [] \<and> es_runtime (e_source e) \<noteq> []
   \<and> valid_timestamp (e_time e)
   \<and> e_kind e = (if List.member known_event_types (e_type e) then EventKindKnown else EventKindUnknown)
   \<and> (case e_payload e of
        JObj p \<Rightarrow> wf_json (JObj p)
          \<and> (List.member known_event_types (e_type e) \<longrightarrow> valid_known_payload (e_type e) p)
      | _ \<Rightarrow> False)
   \<and> (case e_origin e of
        None \<Rightarrow> True
      | Some r \<Rightarrow> eo_event r = e_id e \<and> eo_sequence r = e_cursor e \<and> eo_session r \<noteq> [] \<and> eo_topic r \<noteq> [])"

lemma non_empty_stringD: "non_empty_string v = Some s \<Longrightarrow> v = JStr s \<and> s \<noteq> []"
  by (auto simp: non_empty_string_def split: json.splits if_splits)

lemma valid_source_runtime: "valid_source v = Some src \<Longrightarrow> es_runtime src \<noteq> []"
  by (auto simp: valid_source_def dest!: non_empty_stringD split: json.splits option.splits)

lemma valid_origin_agrees:
  "valid_origin v eid cursor = Some r \<Longrightarrow>
     eo_event r = eid \<and> eo_sequence r = cursor \<and> eo_session r \<noteq> [] \<and> eo_topic r \<noteq> []"
  by (auto simp: valid_origin_def dest!: non_empty_stringD split: json.splits option.splits if_splits)

lemma read_origin_agrees:
  "read_origin obj eid cursor = Some (Some r) \<Longrightarrow>
     eo_event r = eid \<and> eo_sequence r = cursor \<and> eo_session r \<noteq> [] \<and> eo_topic r \<noteq> []"
  by (auto simp: read_origin_def dest!: valid_origin_agrees split: option.splits)

lemma wf_get: "wf_json (JObj obj) \<Longrightarrow> get obj k = v \<Longrightarrow> wf_json v"
  by (auto simp: get_def list_all_iff dest!: map_of_SomeD split: option.splits)

lemma validate_object_well_formed:
  assumes "validate_object obj = Inr e" and "wf_json (JObj obj)"
  shows "well_formed_event e"
proof -
  obtain cursor eid task time t source p origin where parts:
      "safe_integer (get obj ''schemaVersion'') = Some SchemaVersion"
      "safe_integer (get obj ''cursor'') = Some cursor" "non_empty_string (get obj ''eventId'') = Some eid"
      "non_empty_string (get obj ''taskId'') = Some task" "non_empty_string (get obj ''type'') = Some t"
      "valid_source (get obj ''source'') = Some source" "get obj ''payload'' = JObj p"
      "\<not> cursor < 1" "valid_timestamp time"
      "List.member known_event_types t \<longrightarrow> valid_known_payload t p"
      "read_origin obj eid cursor = Some origin"
    and e: "e = \<lparr>e_schema = SchemaVersion, e_id = eid, e_task = task, e_cursor = cursor, e_time = time,
      e_type = t, e_source = source, e_payload = JObj p,
      e_kind = (if List.member known_event_types t then EventKindKnown else EventKindUnknown),
      e_origin = origin\<rparr>"
    using assms(1) unfolding validate_object_def
    by (simp split: if_splits option.splits json.splits)
  have "wf_json (JObj p)" using wf_get [OF assms(2) parts(7)] .
  moreover have "cursor \<le> max_safe_integer" using safe_integer_bound [OF parts(2)] by simp
  moreover have "case origin of None \<Rightarrow> True
      | Some r \<Rightarrow> eo_event r = eid \<and> eo_sequence r = cursor \<and> eo_session r \<noteq> [] \<and> eo_topic r \<noteq> []"
    using parts(11) read_origin_agrees by (cases origin) auto
  ultimately show ?thesis
    using parts valid_source_runtime [OF parts(6)] unfolding e well_formed_event_def
    by (cases origin) (auto dest!: non_empty_stringD)
qed

lemma Validate_well_formed:
  assumes "Validate raw = Inr e"
  shows "well_formed_event e"
proof -
  obtain obj where obj: "decode_json raw = Some (JObj obj)" "validate_object obj = Inr e"
    using assms by (auto simp: Validate_def decode_object_def split: option.splits json.splits)
  then show ?thesis using validate_object_well_formed decode_json_wf by blast
qed

text \<open>C8: an event that \<open>Validate\<close> accepts has the type the protocol promises: schema version 1, a cursor
  between 1 and the largest safe integer, non-empty identifiers, a readable time, the kind its type says, a
  payload that is a JSON object and satisfies the rule of its type, and an origin that repeats its identifier
  and cursor.
\<close>

theorem validated_event_well_formed:
  assumes "Validate raw = Inr e"
  shows "well_formed_event e"
  using assms by (rule Validate_well_formed)

section \<open>What a validated terminal event holds\<close>

lemma known_payload:
  assumes "well_formed_event e" and "List.member known_event_types (e_type e)"
  obtains p where "e_payload e = JObj p" "sorted_keys p" "wf_json (JObj p)" "valid_known_payload (e_type e) p"
  using assms by (auto simp: well_formed_event_def split: json.splits)

lemma keeps_field:
  "match_field table k = Some (field dec sel upd) \<Longrightarrow> (\<And>x r. f (upd (\<lambda>_. x) r) = f r) \<Longrightarrow> keeps f table k"
  by (auto simp: keeps_def field_def)

definition session_table :: "(string \<times> terminal_session decoder) list" where
  "session_table =
     [(''id'', field dec_string ts_id ts_id_update),
      (''profileId'', field dec_string ts_profile ts_profile_update),
      (''processId'', field dec_string ts_process ts_process_update),
      (''workingDirectory'', field dec_string ts_directory ts_directory_update),
      (''scopeId'', field dec_string ts_scope ts_scope_update),
      (''ownerClientId'', field dec_string ts_owner ts_owner_update),
      (''leaseRevision'', field dec_int ts_lease ts_lease_update),
      (''columns'', field dec_int ts_columns ts_columns_update),
      (''rows'', field dec_int ts_rows ts_rows_update),
      (''outputLimitBytes'', field dec_int ts_limit ts_limit_update),
      (''outputBytes'', field dec_int ts_bytes ts_bytes_update),
      (''nextInputSequence'', field dec_int ts_next_input ts_next_input_update),
      (''nextOutputSequence'', field dec_int ts_next_output ts_next_output_update),
      (''status'', field dec_string ts_status ts_status_update),
      (''output'', field (dec_slice dec_chunk no_chunk) ts_output ts_output_update),
      (''exitCode'', field (dec_ptr dec_int 0) ts_exit_code ts_exit_code_update),
      (''exitReason'', field dec_string ts_exit_reason ts_exit_reason_update)]"

lemma dec_session_table: "dec_session = dec_struct session_table"
  by (simp add: dec_session_def session_table_def)

lemma session_fields:
  assumes "valid_terminal_session (JObj o')" and "sorted_keys o'" and "dec_session (JObj o') no_session = Some t"
  shows "ts_bytes t = 0 \<and> 0 < ts_limit t \<and> ts_limit t \<le> 64 * 1024 * 1024"
proof -
  let ?keys = "[''id'', ''profileId'', ''processId'', ''workingDirectory'', ''scopeId'',
       ''ownerClientId'', ''leaseRevision'', ''columns'', ''rows'', ''outputLimitBytes'']"
  have exact: "exact_keys o' ?keys"
    and limit: "integer_with (\<lambda>n. 0 < n \<and> n \<le> 64 * 1024 * 1024) (get o' ''outputLimitBytes'')"
    using assms(1) by (simp_all add: valid_terminal_session_def object_with_def)
  have keys: "set (map fst o') = set ?keys" by (rule exact_keys_set [OF exact assms(2)]) simp
  have fields: "dec_fields session_table o' no_session = Some t"
    using assms(3) by (simp add: dec_session_table dec_struct_def)
  have "list_all (keeps ts_bytes session_table) ?keys"
    by (simp add: keeps_def match_field_def session_table_def field_def) auto
  then have "list_all (keeps ts_bytes session_table) (map fst o')" using keys by (simp only: list_all_iff)
  then have bytes: "ts_bytes t = 0"
    using dec_fields_keep [OF fields, of ts_bytes] by (simp add: no_session_def)
  obtain v where v: "map_of o' ''outputLimitBytes'' = Some v"
    using exact by (auto simp: exact_keys_def)
  have "\<forall>k \<in> set ?keys. k \<noteq> ''outputLimitBytes'' \<longrightarrow> keeps ts_limit session_table k"
    by (simp add: keeps_def match_field_def session_table_def field_def) auto
  then have others: "\<forall>k \<in> set (map fst o'). k \<noteq> ''outputLimitBytes'' \<longrightarrow> keeps ts_limit session_table k"
    using keys by (simp only:)
  have "dec_int v (ts_limit no_session) = Some (ts_limit t)"
  proof (rule dec_fields_one [where table = session_table and ?k0.0 = "''outputLimitBytes''" and f = ts_limit
        and ?d0.0 = "field dec_int ts_limit ts_limit_update" and dec = dec_int])
    show "match_field session_table ''outputLimitBytes'' = Some (field dec_int ts_limit ts_limit_update)"
      by (simp add: match_field_def session_table_def)
    show "field dec_int ts_limit ts_limit_update v r = Some r' \<Longrightarrow> dec_int v (ts_limit r) = Some (ts_limit r')"
      for r r' by (auto simp: field_def)
  qed (rule fields, rule sorted_keys_distinct [OF assms(2)], rule v, rule others)
  then have "0 < ts_limit t \<and> ts_limit t \<le> 64 * 1024 * 1024"
    using dec_int_safe limit v by (auto simp: get_def)
  with bytes show ?thesis by simp
qed

lemma opened_fields:
  assumes "well_formed_event e" and "e_type e = ''terminal.opened''"
    and "payload e ''session'' dec_session no_session = Some t"
  shows "ts_bytes t = 0 \<and> 0 < ts_limit t \<and> ts_limit t \<le> 64 * 1024 * 1024"
proof -
  have "List.member known_event_types (e_type e)" by (simp add: assms(2) known_event_types_def)
  with assms(1) obtain p where p: "e_payload e = JObj p" "sorted_keys p" "wf_json (JObj p)"
      "valid_known_payload (e_type e) p"
    by (rule known_payload)
  then have rule: "exact_keys p [''session'']" "valid_terminal_session (get p ''session'')"
    by (simp_all add: assms(2) rule_defs)
  have keys: "set (map fst p) = {''session''}" using exact_keys_set [OF rule(1) p(2)] by simp
  obtain v where v: "map_of p ''session'' = Some v" using rule(1) by (auto simp: exact_keys_def)
  then obtain o' where o': "v = JObj o'"
    using rule(2) by (auto simp: get_def valid_terminal_session_def object_with_def split: json.splits)
  have "dec_session v no_session = Some t"
    by (rule payload_value [OF p(1,2) v _ assms(3)]) (simp only: keys; simp)
  moreover have "sorted_keys o'"
    using wf_get [OF p(3), of "''session''"] v o' by (simp add: get_def)
  ultimately show ?thesis
    using session_fields rule(2) v o' by (simp add: get_def)
qed

lemma output_fields:
  assumes "well_formed_event e" and "e_type e = ''terminal.output''"
    and "p_int e ''byteLength'' = Some len" and "p_string e ''data'' = Some data"
  shows "0 < len \<and> len \<le> 1024 * 1024 \<and> map_option int (base64_length data) = Some len"
proof -
  let ?keys = "[''sessionId'', ''sequence'', ''data'', ''byteLength'']"
  have "List.member known_event_types (e_type e)" by (simp add: assms(2) known_event_types_def)
  with assms(1) obtain p where p: "e_payload e = JObj p" "sorted_keys p" "valid_known_payload (e_type e) p"
    by (rule known_payload)
  then have rule: "exact_keys p ?keys" "integer_with positive_up_to_1m (get p ''byteLength'')"
      "string_with (\<lambda>d. map_option int (base64_length d) = safe_integer (get p ''byteLength'')) (get p ''data'')"
    by (simp_all add: assms(2) rule_defs)
  have keys: "set (map fst p) = set ?keys" by (rule exact_keys_set [OF rule(1) p(2)]) simp
  obtain v w where v: "map_of p ''byteLength'' = Some v" and w: "map_of p ''data'' = Some w"
    using rule(1) by (auto simp: exact_keys_def)
  have len: "dec_int v 0 = Some len"
    by (rule payload_value [OF p(1,2) v _ assms(3)], unfold keys) (simp add: fold_name.simps)
  have data: "dec_string w [] = Some data"
    by (rule payload_value [OF p(1,2) w _ assms(4)], unfold keys) (simp add: fold_name.simps)
  have "positive_up_to_1m len" using dec_int_safe [OF len] rule(2) v by (simp add: get_def)
  moreover have "w = JStr data"
    using data rule(3) w by (cases w) (simp_all add: dec_string_def string_with_def get_def)
  moreover have "safe_integer v = Some len"
    using dec_int_safe [OF len, of "\<lambda>i. safe_integer v = Some i"] rule(2) v
    by (auto simp: get_def integer_with_def split: option.splits)
  ultimately show ?thesis using rule(3) v w by (simp add: positive_up_to_1m_def string_with_def get_def)
qed

section \<open>Terminal output\<close>

definition session_ok :: "terminal_session \<Rightarrow> bool" where
  "session_ok t \<longleftrightarrow>
     map tc_sequence (ts_output t) = [1..int (length (ts_output t))]
   \<and> ts_next_output t = int (length (ts_output t)) + 1
   \<and> (\<forall>c \<in> set (ts_output t). 0 < tc_length c \<and> map_option int (base64_length (tc_data c)) = Some (tc_length c))
   \<and> ts_bytes t = sum_list (map tc_length (ts_output t))
   \<and> ts_bytes t \<le> ts_limit t \<and> ts_limit t \<le> 64 * 1024 * 1024"

definition terminals_ok :: "product_state \<Rightarrow> bool" where
  "terminals_ok s \<longleftrightarrow> (\<forall>sid t. ps_terminals s sid = Some t \<longrightarrow> session_ok t)"

lemma terminals_ok_put: "terminals_ok s \<Longrightarrow> session_ok t \<Longrightarrow> put_terminal t s = Inr s' \<Longrightarrow> terminals_ok s'"
  by (auto simp: put_terminal_frame terminals_ok_def)

lemma terminals_ok_same: "terminals_ok s \<Longrightarrow> ps_terminals s' = ps_terminals s \<Longrightarrow> terminals_ok s'"
  by (simp add: terminals_ok_def)

lemma chunks_bound: "\<forall>c \<in> set cs. 0 < tc_length c \<Longrightarrow> int (length cs) \<le> sum_list (map tc_length cs)"
  by (induction cs) auto

lemma session_ok_append:
  assumes "session_ok t" and "0 < len" and "len \<le> 1024 * 1024" and "map_option int (base64_length data) = Some len"
    and "\<not> ts_limit t < wrap64 (ts_bytes t + len)"
  shows "session_ok (t\<lparr>ts_bytes := wrap64 (ts_bytes t + len), ts_next_output := wrap64 (ts_next_output t + 1),
     ts_output := ts_output t @ [\<lparr>tc_sequence = ts_next_output t, tc_data = data, tc_length = len\<rparr>]\<rparr>)"
proof -
  have count: "int (length (ts_output t)) \<le> ts_bytes t"
    using assms(1) chunks_bound by (auto simp: session_ok_def)
  have "ts_bytes t \<le> 64 * 1024 * 1024" using assms(1) by (auto simp: session_ok_def)
  then have "wrap64 (ts_bytes t + len) = ts_bytes t + len" "wrap64 (ts_next_output t + 1) = ts_next_output t + 1"
    using assms(1-3) count by (auto simp: session_ok_def)
  moreover have "[1..int (length (ts_output t)) + 1] = [1..int (length (ts_output t))] @ [int (length (ts_output t)) + 1]"
    by (simp add: upto_rec2)
  ultimately show ?thesis
    using assms by (auto simp: session_ok_def add.commute)
qed

lemma session_ok_kept:
  "session_ok t \<Longrightarrow> ts_output t' = ts_output t \<Longrightarrow> ts_next_output t' = ts_next_output t \<Longrightarrow> ts_bytes t' = ts_bytes t
     \<Longrightarrow> ts_limit t' = ts_limit t \<Longrightarrow> session_ok t'"
  by (simp add: session_ok_def)

lemma open_session_ok: "terminals_ok s \<Longrightarrow> open_session s sid = Some t \<Longrightarrow> session_ok t"
  by (auto simp: terminals_ok_def open_session_def split: option.splits if_splits)

lemma session_step:
  assumes "(e_type e, h) \<in> set terminal_handlers" and "h e s = Inr s'" and "terminals_ok s" and "well_formed_event e"
  shows "terminals_ok s'"
proof -
  from assms(1) have "(e_type e = ''terminal.opened'' \<and> h = terminal_opened)
      \<or> (e_type e = ''terminal.output'' \<and> h = terminal_output) \<or> h = terminal_input \<or> h = terminal_resized
      \<or> h = terminal_exited"
    unfolding terminal_handlers_def list.set insert_iff empty_iff prod.inject by (elim disjE conjE) simp_all
  then consider (opened) "e_type e = ''terminal.opened''" "h = terminal_opened"
    | (printed) "e_type e = ''terminal.output''" "h = terminal_output"
    | (typed) "h = terminal_input" | (resized) "h = terminal_resized" | (exited) "h = terminal_exited"
    by (elim disjE conjE)
  then show ?thesis
  proof cases
    case opened
    then obtain t where t: "payload e ''session'' dec_session no_session = Some t"
        and put: "put_terminal (t\<lparr>ts_status := ''open'', ts_next_input := 1, ts_next_output := 1, ts_output := []\<rparr>) s = Inr s'"
      using assms(2) by (auto simp: terminal_opened_def split: if_splits)
    show ?thesis
      by (rule terminals_ok_put [OF assms(3) _ put])
        (use opened_fields [OF assms(4) opened(1) t] in \<open>simp add: session_ok_def\<close>)
  next
    case printed
    then obtain sid data len t where len: "p_int e ''byteLength'' = Some len" and data: "p_string e ''data'' = Some data"
        and t: "open_session s sid = Some t" and fits: "\<not> ts_limit t < wrap64 (ts_bytes t + len)"
        and put: "put_terminal (t\<lparr>ts_bytes := wrap64 (ts_bytes t + len),
            ts_next_output := wrap64 (ts_next_output t + 1),
            ts_output := ts_output t @ [\<lparr>tc_sequence = ts_next_output t, tc_data = data, tc_length = len\<rparr>]\<rparr>) s = Inr s'"
      using assms(2) by (simp add: terminal_output_def split: option.splits if_splits)
    show ?thesis
      by (rule terminals_ok_put [OF assms(3) _ put])
        (use session_ok_append [OF open_session_ok [OF assms(3) t] _ _ _ fits] output_fields [OF assms(4) printed(1) len data]
          in blast)
  next
    case typed
    then obtain sid t where t: "open_session s sid = Some t"
        and put: "put_terminal (t\<lparr>ts_next_input := wrap64 (ts_next_input t + 1)\<rparr>) s = Inr s'"
      using assms(2) by (auto simp: terminal_input_def split: option.splits if_splits)
    show ?thesis
      by (rule terminals_ok_put [OF assms(3) session_ok_kept put], rule open_session_ok [OF assms(3) t]) simp_all
  next
    case resized
    then obtain sid t c r where t: "open_session s sid = Some t"
        and put: "put_terminal (t\<lparr>ts_columns := c, ts_rows := r\<rparr>) s = Inr s'"
      using assms(2) by (auto simp: terminal_resized_def split: option.splits if_splits)
    show ?thesis
      by (rule terminals_ok_put [OF assms(3) session_ok_kept put], rule open_session_ok [OF assms(3) t]) simp_all
  next
    case exited
    then obtain sid t c r where t: "open_session s sid = Some t"
        and put: "put_terminal (t\<lparr>ts_status := ''exited'', ts_exit_code := Some c, ts_exit_reason := r\<rparr>) s = Inr s'"
      using assms(2) by (auto simp: terminal_exited_def split: option.splits if_splits)
    show ?thesis
      by (rule terminals_ok_put [OF assms(3) session_ok_kept put], rule open_session_ok [OF assms(3) t]) simp_all
  qed
qed

lemma terminals_ok_known:
  assumes "apply_known_event e s = Inr s'" and "terminals_ok s" and "well_formed_event e"
  shows "terminals_ok s'"
  using assms(1)
proof (cases rule: known_event)
  case (terminal h)
  then show ?thesis using session_step assms(2,3) by blast
qed (use assms(2) in \<open>auto simp: quiet_def elim: terminals_ok_same dest!: frames\<close>)

lemma terminals_ok_step:
  assumes "terminals_ok s" and "well_formed_event e"
  shows "terminals_ok (product_step e s)"
proof (cases rule: product_step_cases [of e s])
  case same
  with assms(1) show ?thesis by simp
next
  case applied
  then show ?thesis
  proof (cases rule: Project_applied)
    case (unknown c)
    then show ?thesis using assms(1) by (simp add: terminals_ok_def at_event_def)
  next
    case (known c)
    show ?thesis
      by (rule terminals_ok_known [OF known(6) _ assms(2)]) (use assms(1) in \<open>simp add: terminals_ok_def at_event_def\<close>)
  qed
qed

interpretation product_terminals: invariant_machine receive terminals_ok
proof
  fix s raw
  assume "terminals_ok s"
  then show "terminals_ok (receive raw s)"
    using terminals_ok_step Validate_well_formed by (auto simp: receive_def split: sum.splits)
qed

text \<open>C9: whatever raw messages a client receives, the output of a terminal is the chunks numbered 1, 2, ... without
  a gap, the recorded bytes are the sum of the recorded lengths, each length is the decoded length of its
  base64 data, and the sum never exceeds the limit of the session, which is at most 64 MB.
\<close>

theorem terminal_output_in_sequence:
  assumes "ps_terminals (fold receive raws Initial) sid = Some t"
  shows "map tc_sequence (ts_output t) = [1..int (length (ts_output t))]
    \<and> ts_bytes t = sum_list (map tc_length (ts_output t))
    \<and> map (\<lambda>c. map_option int (base64_length (tc_data c))) (ts_output t) = map (Some o tc_length) (ts_output t)
    \<and> ts_bytes t \<le> ts_limit t \<and> ts_limit t \<le> 64 * 1024 * 1024"
proof -
  have "terminals_ok (fold receive raws Initial)"
    by (rule product_terminals.inv_run) (simp add: terminals_ok_def Initial_def)
  then have "session_ok t" using assms by (auto simp: terminals_ok_def)
  then show ?thesis by (auto simp: session_ok_def)
qed

end
