(* ===== verification/Product_Store.thy ===== *)
theory Product_Store
  imports Terminal_Properties
begin

text \<open>
  The durable store of \<open>runtimeapi/store.go\<close>: one append-only log for each task, a line for each committed
  event with the snapshot it led to. A line is modelled by the record it is the text of, \<open>Garbage\<close> if it is
  the text of none, and a log may end in an incomplete line, which the next load cuts off.

  Parameters: \<open>digest\<close>, the SHA-256 of a string as hexadecimal text, and \<open>snap\<close>, the canonical text of a
  snapshot; nothing is assumed of them. The time of a draft is given as its RFC 3339 text and its payload
  as the JSON value it is marshalled to. What the file system does with an append, and what stops a load, is an
  argument.

  A record that is read again is taken to be what was written. \<open>encoding/json\<close> refuses texts of more than 10000
  levels, so this holds for payloads of at most 9,996 levels: \<open>Store_Nesting\<close> models what operations find when
  payloads are deeper, and shows that up to that nesting there is no difference.
\<close>

section \<open>Marshalling an event\<close>

definition json_int :: "int \<Rightarrow> json" where
  "json_int i = JNum (int_text i)"

text \<open>A raw message that is read again: the members of its objects become maps.\<close>

fun normalise :: "json \<Rightarrow> json" where
  "normalise (JArr js) = JArr (map normalise js)"
| "normalise (JObj kvs) = JObj (fold (\<lambda>(k, v). put_key k v) (map (\<lambda>(k, v). (k, normalise v)) kvs) [])"
| "normalise v = v"

definition json_object :: "(string \<times> json) list \<Rightarrow> (string \<times> json) list" where
  "json_object kvs = fold (\<lambda>(k, v). put_key k v) kvs []"

definition omit :: "string \<Rightarrow> string \<Rightarrow> (string \<times> json) list" where
  "omit k s = (if s = [] then [] else [(k, JStr s)])"

definition source_object :: "event_source \<Rightarrow> json" where
  "source_object s = JObj (json_object
     ([(''runtimeId'', JStr (es_runtime s))] @ omit ''agentId'' (es_agent s) @ omit ''toolCallId'' (es_tool_call s)))"

definition origin_object :: "event_origin \<Rightarrow> json" where
  "origin_object r = JObj (json_object
     [(''sourceSessionId'', JStr (eo_session r)), (''sourceSequence'', json_int (eo_sequence r)),
      (''sourceEventId'', JStr (eo_event r)), (''sourceTopic'', JStr (eo_topic r))])"

definition event_object :: "event \<Rightarrow> (string \<times> json) list" where
  "event_object e = json_object
     ([(''schemaVersion'', json_int (e_schema e)), (''eventId'', JStr (e_id e)), (''taskId'', JStr (e_task e)),
       (''cursor'', json_int (e_cursor e)), (''occurredAt'', JStr (e_time e)), (''type'', JStr (e_type e)),
       (''source'', source_object (e_source e)), (''payload'', normalise (e_payload e)),
       (''kind'', JStr (e_kind e))]
      @ (case e_origin e of None \<Rightarrow> [] | Some r \<Rightarrow> [(''origin'', origin_object r)]))"

text \<open>\<open>Validate\<close> of the marshalled event.\<close>

definition revalidate :: "event \<Rightarrow> event_error + event" where
  "revalidate e = validate_object (event_object e)"

section \<open>Logs\<close>

record transaction =
  tx_event :: event
  tx_snapshot :: product_state

datatype log_line = Blank | Garbage | Line transaction

record log_file =
  lf_lines :: "log_line list"
  lf_torn :: bool

definition empty_log :: log_file where
  "empty_log = \<lparr>lf_lines = [], lf_torn = False\<rparr>"

type_synonym store = "string \<rightharpoonup> log_file"

datatype store_error =
    Store_Context ctx_error | Task_ID_Required | Corrupt_Transaction_Log | Event_Identity_Conflict
  | Payload_Not_Encodable | Event_Invalid event_error | Evidence_Conflict | Evidence_Undecodable
  | Not_Projected project_error | Unexpected_Projection | Cursor_Gap int int | Append_Failed
  | Negative_Cursor | Log_Unreadable

definition log_at :: "store \<Rightarrow> string \<Rightarrow> log_file" where
  "log_at st path = (case st path of None \<Rightarrow> empty_log | Some f \<Rightarrow> f)"

definition transactionPath :: "(string \<Rightarrow> string) \<Rightarrow> string \<Rightarrow> string option" where
  "transactionPath digest task =
     (if TrimSpace task = [] then None else Some (digest task @ ''.transactions.jsonl''))"

fun load_lines ::
  "(product_state \<Rightarrow> 'c) \<Rightarrow> log_line list \<Rightarrow> event list \<Rightarrow> product_state
     \<Rightarrow> store_error + event list \<times> product_state" where
  "load_lines snap [] es s = Inr (es, s)"
| "load_lines snap (Blank # ls) es s = load_lines snap ls es s"
| "load_lines snap (Garbage # ls) es s = Inl Corrupt_Transaction_Log"
| "load_lines snap (Line r # ls) es s =
     (case revalidate (tx_event r) of
        Inl _ \<Rightarrow> Inl Corrupt_Transaction_Log
      | Inr e \<Rightarrow>
          (case Project s e of
             Inr (Projection_Applied s') \<Rightarrow>
               if snap s' \<noteq> snap (tx_snapshot r) then Inl Corrupt_Transaction_Log
               else load_lines snap ls (es @ [e]) s'
           | _ \<Rightarrow> Inl Corrupt_Transaction_Log))"

text \<open>
  What can stop a load, \<open>None\<close> if nothing does: the context has ended at its start, the context ends when so
  many lines have been read (before the first look at it if there is no log), or \<open>os.ReadFile\<close> or, on a
  log that ends in an incomplete line, \<open>os.Truncate\<close> fails, which leaves the log as it is.
\<close>

datatype load_stop = Ended ctx_error | Ended_At nat ctx_error | Unreadable

type_synonym halt = "load_stop option"

text \<open>\<open>loadLocked\<close>: the result, and the store with the incomplete line cut off.\<close>

definition loadLocked ::
  "(string \<Rightarrow> string) \<Rightarrow> (product_state \<Rightarrow> 'c) \<Rightarrow> halt \<Rightarrow> string \<Rightarrow> store
     \<Rightarrow> (store_error + event list \<times> product_state) \<times> store" where
  "loadLocked digest snap ctx task st =
     (case transactionPath digest task of
        None \<Rightarrow> (Inl Task_ID_Required, st)
      | Some path \<Rightarrow>
          (case ctx of
             Some Unreadable \<Rightarrow> (Inl Log_Unreadable, st)
           | _ \<Rightarrow>
          (case st path of
             None \<Rightarrow>
               (case ctx of
                  Some (Ended e) \<Rightarrow> (Inl (Store_Context e), st)
                | Some (Ended_At n e) \<Rightarrow> (Inl (Store_Context e), st)
                | _ \<Rightarrow> (Inr ([], Initial), st))
           | Some f \<Rightarrow>
               (case ctx of
                  Some (Ended e) \<Rightarrow> Inl (Store_Context e)
                | Some (Ended_At n e) \<Rightarrow>
                    (case load_lines snap (take n (lf_lines f)) [] Initial of
                       Inl err \<Rightarrow> Inl err
                     | Inr _ \<Rightarrow> Inl (Store_Context e))
                | _ \<Rightarrow> load_lines snap (lf_lines f) [] Initial,
                st(path \<mapsto> f\<lparr>lf_torn := False\<rparr>)))))"

definition Load ::
  "(string \<Rightarrow> string) \<Rightarrow> (product_state \<Rightarrow> 'c) \<Rightarrow> halt \<Rightarrow> string \<Rightarrow> store
     \<Rightarrow> (store_error + event list \<times> product_state) \<times> store" where
  "Load digest snap ctx task st =
     (case ctx of Some (Ended e) \<Rightarrow> (Inl (Store_Context e), st) | _ \<Rightarrow> loadLocked digest snap ctx task st)"

text \<open>From the first event past the cursor on, to the end of the log.\<close>

definition EventsAfter ::
  "(string \<Rightarrow> string) \<Rightarrow> (product_state \<Rightarrow> 'c) \<Rightarrow> halt \<Rightarrow> string \<Rightarrow> int \<Rightarrow> store
     \<Rightarrow> (store_error + event list) \<times> store" where
  "EventsAfter digest snap ctx task after st =
     (if after < 0 then (Inl Negative_Cursor, st)
      else
        (case Load digest snap ctx task st of
           (Inl err, st') \<Rightarrow> (Inl err, st')
         | (Inr (es, _), st') \<Rightarrow> (Inr (dropWhile (\<lambda>e. \<not> after < e_cursor e) es), st')))"

section \<open>Appending\<close>

text \<open>What becomes of the line: written and synced; not written; cut short; or written, with an error from
  syncing or closing.\<close>

datatype append_outcome = Appended | Not_Written | Cut_Short | Not_Synced

definition append_line :: "append_outcome \<Rightarrow> transaction \<Rightarrow> log_file \<Rightarrow> log_file" where
  "append_line out r f =
     (case out of
        Appended \<Rightarrow> f\<lparr>lf_lines := lf_lines f @ [Line r]\<rparr>
      | Not_Synced \<Rightarrow> f\<lparr>lf_lines := lf_lines f @ [Line r]\<rparr>
      | Cut_Short \<Rightarrow> f\<lparr>lf_torn := True\<rparr>
      | Not_Written \<Rightarrow> f)"

definition rejectEvidenceMutation :: "product_state \<Rightarrow> event \<Rightarrow> store_error option" where
  "rejectEvidenceMutation s e =
     (if e_type e \<noteq> ''evidence.committed'' then None
      else
        (case payload e ''evidence'' dec_evidence no_evidence of
           None \<Rightarrow> Some Evidence_Undecodable
         | Some v \<Rightarrow>
             (case ps_evidence s (ev_id v) of
                None \<Rightarrow> None
              | Some old \<Rightarrow> if canon_evidence old \<noteq> canon_evidence v then Some Evidence_Conflict else None)))"

text \<open>The last part of \<open>Commit\<close> and of \<open>CommitExternal\<close>, from the evidence check to the append.\<close>

definition commit_event ::
  "append_outcome \<Rightarrow> string \<Rightarrow> product_state \<Rightarrow> event \<Rightarrow> store \<Rightarrow> (store_error + event \<times> product_state) \<times> store" where
  "commit_event out path previous e st =
     (case rejectEvidenceMutation previous e of
        Some err \<Rightarrow> (Inl err, st)
      | None \<Rightarrow>
          (case Project previous e of
             Inl err \<Rightarrow> (Inl (Not_Projected err), st)
           | Inr (Projection_Applied s) \<Rightarrow>
               (if out = Appended then Inr (e, s) else Inl Append_Failed,
                st(path \<mapsto> append_line out \<lparr>tx_event = e, tx_snapshot = s\<rparr> (log_at st path)))
           | Inr _ \<Rightarrow> (Inl Unexpected_Projection, st)))"

record draft_event =
  de_task :: string
  de_type :: string
  de_time :: string
  de_source :: event_source
  de_payload :: "json option"

definition generatedEventID :: "(string \<Rightarrow> string) \<Rightarrow> string \<Rightarrow> string \<Rightarrow> int \<Rightarrow> string \<Rightarrow> string" where
  "generatedEventID digest runtime task cursor t =
     ''evt-'' @ take 32 (digest (runtime @ [CHR 0x00] @ task @ [CHR 0x00]
       @ (case json_int cursor of JNum n \<Rightarrow> n | _ \<Rightarrow> []) @ [CHR 0x00] @ t))"

text \<open>\<open>eid\<close> is the id given by \<open>WithEventID\<close>, or empty.\<close>

definition Commit ::
  "(string \<Rightarrow> string) \<Rightarrow> (product_state \<Rightarrow> 'c) \<Rightarrow> append_outcome \<Rightarrow> halt \<Rightarrow> draft_event \<Rightarrow> string \<Rightarrow> store
     \<Rightarrow> (store_error + event \<times> product_state) \<times> store" where
  "Commit digest snap out ctx draft eid st =
     (case ctx of
        Some (Ended e) \<Rightarrow> (Inl (Store_Context e), st)
      | _ \<Rightarrow>
          (case loadLocked digest snap ctx (de_task draft) st of
             (Inl err, st') \<Rightarrow> (Inl err, st')
           | (Inr (events, previous), st') \<Rightarrow>
               (let cursor = wrap64 (ps_cursor previous + 1);
                    event_id = (if eid = [] then generatedEventID digest (es_runtime (de_source draft))
                                  (de_task draft) cursor (de_type draft) else eid) in
                if list_ex (\<lambda>x. e_id x = event_id) events then (Inl Event_Identity_Conflict, st')
                else
                  (case de_payload draft of
                     None \<Rightarrow> (Inl Payload_Not_Encodable, st')
                   | Some p \<Rightarrow>
                       (case revalidate \<lparr>e_schema = SchemaVersion, e_id = event_id, e_task = de_task draft,
                            e_cursor = cursor, e_time = de_time draft, e_type = de_type draft,
                            e_source = de_source draft, e_payload = p, e_kind = [], e_origin = None\<rparr> of
                          Inl err \<Rightarrow> (Inl (Event_Invalid err), st')
                        | Inr e \<Rightarrow>
                            (case transactionPath digest (de_task draft) of
                               None \<Rightarrow> (Inl Task_ID_Required, st')
                             | Some path \<Rightarrow> commit_event out path previous e st'))))))"

definition CommitExternal ::
  "(string \<Rightarrow> string) \<Rightarrow> (product_state \<Rightarrow> 'c) \<Rightarrow> append_outcome \<Rightarrow> halt \<Rightarrow> event \<Rightarrow> store
     \<Rightarrow> (store_error + product_state) \<times> store" where
  "CommitExternal digest snap out ctx candidate st =
     (case ctx of
        Some (Ended e) \<Rightarrow> (Inl (Store_Context e), st)
      | _ \<Rightarrow>
          (case loadLocked digest snap ctx (e_task candidate) st of
             (Inl err, st') \<Rightarrow> (Inl err, st')
           | (Inr (events, previous), st') \<Rightarrow>
               (case revalidate candidate of
                  Inl err \<Rightarrow> (Inl (Event_Invalid err), st')
                | Inr e \<Rightarrow>
                    if e_cursor e \<le> ps_cursor previous then
                      (case find (\<lambda>x. e_cursor x = e_cursor e) events of
                         None \<Rightarrow> (Inl Event_Identity_Conflict, st')
                       | Some x \<Rightarrow>
                           if e_id x = e_id e \<and> canon_event x = canon_event e then (Inr previous, st')
                           else (Inl Event_Identity_Conflict, st'))
                    else if e_cursor e \<noteq> wrap64 (ps_cursor previous + 1)
                    then (Inl (Cursor_Gap (wrap64 (ps_cursor previous + 1)) (e_cursor e)), st')
                    else
                      (case transactionPath digest (e_task e) of
                         None \<Rightarrow> (Inl Task_ID_Required, st')
                       | Some path \<Rightarrow>
                           (case commit_event out path previous e st' of
                              (Inl err, st'') \<Rightarrow> (Inl err, st'')
                            | (Inr (_, s), st'') \<Rightarrow> (Inr s, st''))))))"

end
