(* ===== verification/Store_Properties.thy ===== *)
theory Store_Properties
  imports Product_Store
begin

text \<open>
  What the durable store keeps. A validated event, marshalled and validated again, is the same event; so a
  log that only the store has written always loads, its snapshot is the replay of its events, an event once
  written stays, and evidence does not change. The last holds of the store and not of \<open>Project\<close> alone.
\<close>

section \<open>Marshalled events\<close>

lemma digits_digits: "list_all js_digit (digits n) \<and> digits n \<noteq> []"
proof (induction n rule: digits.induct)
  case (1 n)
  have "js_digit (char_of (48 + m))" if "m < 10" for m :: nat
  proof -
    have "m \<in> {0, 1, 2, 3, 4, 5, 6, 7, 8, 9}" using that by auto
    then show ?thesis by (elim insertE) (simp_all add: js_digit_def, code_simp+)
  qed
  then show ?case using 1 by (subst (1 2) digits.simps) auto
qed

lemma nat_of_digits_snoc: "nat_of_digits (s @ [c]) = 10 * nat_of_digits s + digit_val c"
  by (simp add: nat_of_digits_def)

lemma nat_of_digits_digits: "nat_of_digits (digits n) = n"
proof (induction n rule: digits.induct)
  case (1 n)
  have val: "digit_val (char_of (48 + m)) = m" if "m < 10" for m :: nat
    using that by (simp add: digit_val_def)
  show ?case
  proof (cases "n < 10")
    case True
    then show ?thesis using val by (subst digits.simps) (simp add: nat_of_digits_def)
  next
    case False
    then show ?thesis using 1 val [of "n mod 10"] by (subst digits.simps) (simp add: nat_of_digits_snoc)
  qed
qed

lemma json_int_safe:
  assumes "0 \<le> i" "i \<le> max_safe_integer"
  shows "safe_integer (json_int i) = Some i" and "is_number (json_int i)"
proof -
  have "\<not> js_digit (CHR ''-'')" "\<not> js_digit (CHR ''+'')" by (simp_all add: js_digit_def)
  then have sign: "strip_sign (digits (nat i)) = (False, digits (nat i))"
    using digits_digits [of "nat i"] by (cases "digits (nat i)") (auto simp: strip_sign_def)
  have "literal_value (digits (nat i)) = (False, of_nat (nat i))"
    using literal_plain [OF sign] digits_digits by (simp add: nat_of_digits_digits)
  moreover have "round_double (of_int i) = Some (of_int i)"
    by (rule round_double_int) (use assms in \<open>simp_all add: max_safe_integer_def\<close>)
  ultimately have "ParseFloat (digits (nat i)) = Some (False, of_int i)"
    using assms(1) by (simp add: ParseFloat_def)
  then show "safe_integer (json_int i) = Some i" "is_number (json_int i)"
    using assms by (simp_all add: json_int_def int_text_def safe_integer_def is_number_def)
qed

lemma put_key_last: "sorted_keys (kvs @ [(k, v)]) \<Longrightarrow> put_key k v kvs = kvs @ [(k, v)]"
proof (induction kvs)
  case (Cons kv kvs)
  obtain k' v' where kv: "kv = (k', v')" by (cases kv)
  have "key_less k' k" using Cons.prems kv by (auto simp: sorted_keys_def sorted_wrt_append)
  then have "k \<noteq> k'" "\<not> key_less k k'" using key_less_trans [of k' k k'] by auto
  then show ?case using Cons kv by (simp add: sorted_keys_def)
qed simp

lemma fold_put_key_sorted: "sorted_keys kvs \<Longrightarrow> fold (\<lambda>(k, v). put_key k v) kvs [] = kvs"
proof (induction kvs rule: rev_induct)
  case (snoc kv kvs)
  then have "sorted_keys kvs" by (simp add: sorted_keys_def sorted_wrt_append)
  then show ?case using snoc put_key_last [of kvs "fst kv" "snd kv"] by (cases kv) simp
qed simp

lemma normalise_wf: "wf_json v \<Longrightarrow> normalise v = v"
proof (induction v)
  case (JArr js)
  then show ?case by (auto simp: list_all_iff intro: map_idI)
next
  case (JObj kvs)
  then have "map (\<lambda>(k, v). (k, normalise v)) kvs = kvs"
    by (intro map_idI) (force simp: list_all_iff)
  then show ?case using JObj.prems by (simp add: fold_put_key_sorted)
qed simp_all

definition storable_event :: "event \<Rightarrow> bool" where
  "storable_event e \<longleftrightarrow> well_formed_event e \<and> valid_json_value (e_payload e)"

lemma non_empty_string_JStr [simp]: "s \<noteq> [] \<Longrightarrow> non_empty_string (JStr s) = Some s"
  by (simp add: non_empty_string_def)

lemma source_object_valid:
  "es_runtime src \<noteq> [] \<Longrightarrow> valid_source (source_object src) = Some src \<and> valid_json_value (source_object src)"
  by (cases src) (auto simp: source_object_def json_object_def omit_def valid_source_def get_def optional_string_def)

lemma origin_object_valid:
  assumes "0 \<le> eo_sequence r" "eo_sequence r \<le> max_safe_integer" "eo_session r \<noteq> []" "eo_event r \<noteq> []"
    "eo_topic r \<noteq> []"
  shows "valid_origin (origin_object r) (eo_event r) (eo_sequence r) = Some r \<and> valid_json_value (origin_object r)"
  using assms json_int_safe [OF assms(1,2)]
  by (cases r) (simp add: origin_object_def json_object_def valid_origin_def get_def json_int_def int_text_def)

lemma put_key_values:
  "list_all (\<lambda>(_, v). P v) acc \<Longrightarrow> P v \<Longrightarrow> list_all (\<lambda>(_, v). P v) (put_key k v acc)"
  by (auto simp: list_all_iff dest!: put_key_in)

lemma fold_put_key_values:
  "list_all (\<lambda>(_, v). P v) acc \<Longrightarrow> list_all (\<lambda>(_, v). P v) kvs
    \<Longrightarrow> list_all (\<lambda>(_, v). P v) (fold (\<lambda>(k, v). put_key k v) kvs acc)"
  by (induction kvs arbitrary: acc) (auto intro: put_key_values)

lemma json_object_values: "list_all (\<lambda>(_, v). P v) kvs \<Longrightarrow> list_all (\<lambda>(_, v). P v) (json_object kvs)"
  by (simp add: json_object_def fold_put_key_values)

lemma event_object_get:
  "get (event_object e) ''schemaVersion'' = json_int (e_schema e)"
  "get (event_object e) ''cursor'' = json_int (e_cursor e)" "get (event_object e) ''eventId'' = JStr (e_id e)"
  "get (event_object e) ''taskId'' = JStr (e_task e)" "get (event_object e) ''occurredAt'' = JStr (e_time e)"
  "get (event_object e) ''type'' = JStr (e_type e)" "get (event_object e) ''source'' = source_object (e_source e)"
  "get (event_object e) ''payload'' = normalise (e_payload e)"
  "map_of (event_object e) ''origin'' = map_option origin_object (e_origin e)"
  by (cases "e_origin e"; simp add: event_object_def json_object_def get_def)+

text \<open>Validating a stored event again gives the event; \<open>Validate\<close> sets its kind and does not read it.\<close>

lemma revalidate_any_kind:
  assumes "storable_event e"
  shows "revalidate (e\<lparr>e_kind := k\<rparr>) = Inr e"
proof -
  let ?e = "e\<lparr>e_kind := k\<rparr>"
  obtain p where p: "e_payload e = JObj p" and wf: "wf_json (JObj p)"
    and payload: "List.member known_event_types (e_type e) \<longrightarrow> valid_known_payload (e_type e) p"
    using assms by (auto simp: storable_event_def well_formed_event_def split: json.splits)
  have schema: "e_schema e = 1" and cursor: "1 \<le> e_cursor e" "e_cursor e \<le> max_safe_integer"
    and texts: "e_id e \<noteq> []" "e_task e \<noteq> []" "e_type e \<noteq> []" "es_runtime (e_source e) \<noteq> []"
    and time: "valid_timestamp (e_time e)"
    and kind: "e_kind e = (if List.member known_event_types (e_type e) then EventKindKnown else EventKindUnknown)"
    and vals: "valid_json_value (JObj p)"
    using assms p by (auto simp: storable_event_def well_formed_event_def SchemaVersion_def)
  have time_text: "e_time e \<noteq> []" using time by (auto simp: valid_timestamp_def parse_rfc3339_def long_year_def)
  have norm: "normalise (JObj p) = JObj p" by (rule normalise_wf [OF wf])
  have one: "safe_integer (json_int 1) = Some 1" "is_number (json_int 1)"
    using json_int_safe [of 1] by (simp_all add: max_safe_integer_def)
  have int: "safe_integer (json_int (e_cursor e)) = Some (e_cursor e)" "is_number (json_int (e_cursor e))"
    using json_int_safe [of "e_cursor e"] cursor by simp_all
  have numbers: "valid_json_value (json_int (e_cursor e))" "valid_json_value (json_int 1)"
    using int one by (simp_all add: json_int_def int_text_def)
  have origin: "case e_origin e of None \<Rightarrow> True
      | Some r \<Rightarrow> valid_origin (origin_object r) (e_id e) (e_cursor e) = Some r \<and> valid_json_value (origin_object r)"
  proof (cases "e_origin e")
    case (Some r)
    then have "eo_event r = e_id e" "eo_sequence r = e_cursor e" "eo_session r \<noteq> []" "eo_topic r \<noteq> []"
      using assms by (simp_all add: storable_event_def well_formed_event_def)
    then show ?thesis using Some origin_object_valid [of r] cursor texts(1) by simp
  qed simp
  have "valid_json_value (JObj (event_object ?e))"
    unfolding event_object_def valid_json_value.simps
    by (rule json_object_values)
      (use numbers vals source_object_valid [OF texts(4)] origin norm p schema in
        \<open>auto simp del: valid_json_value.simps(2,3) normalise.simps split: option.splits\<close>)
  moreover have "read_origin (event_object ?e) (e_id e) (e_cursor e) = Some (e_origin e)"
    using origin by (cases "e_origin e") (simp_all add: read_origin_def event_object_get)
  moreover have "\<lparr>e_schema = 1, e_id = e_id e, e_task = e_task e, e_cursor = e_cursor e, e_time = e_time e,
      e_type = e_type e, e_source = e_source e, e_payload = JObj p,
      e_kind = (if List.member known_event_types (e_type e) then EventKindKnown else EventKindUnknown),
      e_origin = e_origin e\<rparr> = e"
    using schema kind p by (cases e) simp
  ultimately show ?thesis
    using one int texts time time_text payload source_object_valid [OF texts(4)] cursor(1) norm
    by (simp add: revalidate_def validate_object_def event_object_get SchemaVersion_def schema p
        del: valid_json_value.simps normalise.simps)
qed

lemma revalidate_storable: "storable_event e \<Longrightarrow> revalidate e = Inr e"
  using revalidate_any_kind [of e "e_kind e"] by simp

end
