(* ===== verification/Store_Runs.thy ===== *)
theory Store_Runs
  imports Store_Properties "HOL-Library.Sublist"
begin

text \<open>
  Runs of the store: any sequence of \<open>Load\<close>, \<open>Commit\<close> and \<open>CommitExternal\<close> of any tasks, with any outcome of
  each append and whatever stops a load. Every log is a chain of transactions, each projected from the snapshot
  of the one before; so every later load succeeds and only ever adds to what was loaded before. The runs are of
  \<open>store_step\<close>, which finds the records as they were written; \<open>Store_Nesting\<close> shows that this is what the code
  finds as long as payloads nest at most 9,996 levels.
\<close>

section \<open>Chains of transactions\<close>

definition appends :: "product_state \<Rightarrow> transaction \<Rightarrow> bool" where
  "appends s r \<longleftrightarrow>
     storable_event (tx_event r) \<and> rejectEvidenceMutation s (tx_event r) = None
   \<and> Project s (tx_event r) = Inr (Projection_Applied (tx_snapshot r))"

fun chain :: "product_state \<Rightarrow> transaction list \<Rightarrow> bool" where
  "chain s [] \<longleftrightarrow> True"
| "chain s (r # rs) \<longleftrightarrow> appends s r \<and> chain (tx_snapshot r) rs"

abbreviation replayed :: "product_state \<Rightarrow> transaction list \<Rightarrow> product_state" where
  "replayed s rs \<equiv> fold product_step (map tx_event rs) s"

lemma appends_step: "appends s r \<Longrightarrow> product_step (tx_event r) s = tx_snapshot r"
  by (simp add: appends_def product_step_def)

lemma chain_append: "chain s (rs @ ts) \<longleftrightarrow> chain s rs \<and> chain (replayed s rs) ts"
proof (induction rs arbitrary: s)
  case (Cons x rs)
  then show ?case by (cases "appends s x") (simp_all add: appends_step del: fold_append)
qed simp

lemma chain_snoc: "chain s (rs @ [r]) \<longleftrightarrow> chain s rs \<and> appends (replayed s rs) r"
  by (simp add: chain_append)

lemma load_chain:
  "chain s rs \<Longrightarrow> load_lines snap (map Line rs) es s = Inr (es @ map tx_event rs, replayed s rs)"
proof (induction rs arbitrary: s es)
  case (Cons r rs)
  then have r: "appends s r" "chain (tx_snapshot r) rs" by simp_all
  then show ?case
    using Cons.IH appends_step [OF r(1)] by (simp add: appends_def revalidate_storable)
qed simp

text \<open>The events of a chain are the history of its last snapshot.\<close>

lemma chain_history: "chain Initial rs \<Longrightarrow> history (replayed Initial rs) = map tx_event rs"
proof (induction rs rule: rev_induct)
  case Nil
  show ?case by (simp add: history_def Initial_def)
next
  case (snoc r rs)
  then have r: "chain Initial rs" "appends (replayed Initial rs) r" by (simp_all add: chain_snoc)
  show ?case
    using snoc.IH r applied_history(1) [OF reached_logged] appends_step [OF r(2)] by (auto simp: appends_def)
qed

section \<open>What one operation does to the logs\<close>

definition log_lines :: "store \<Rightarrow> string \<Rightarrow> log_line list" where
  "log_lines st path = lf_lines (log_at st path)"

lemma log_lines_update [simp]: "log_lines (st(path \<mapsto> f)) = (log_lines st)(path := lf_lines f)"
  by (simp add: log_lines_def log_at_def fun_eq_iff)

lemma log_lines_same: "lf_lines f = log_lines st path \<Longrightarrow> log_lines (st(path \<mapsto> f)) = log_lines st"
  by simp

lemma append_line_lines:
  "lf_lines (append_line out r (log_at st path)) = log_lines st path @
     (if out = Appended \<or> out = Not_Synced then [Line r] else [])"
  by (cases out) (simp_all add: append_line_def log_lines_def)

lemma log_lines_present: "st path = Some f \<Longrightarrow> log_lines st path = lf_lines f"
  by (simp add: log_lines_def log_at_def)

lemma log_lines_absent: "st path = None \<Longrightarrow> log_lines st path = []"
  by (simp add: log_lines_def log_at_def empty_log_def)

lemma loadLocked_lines: "log_lines (snd (loadLocked digest snap ctx task st)) = log_lines st"
proof (cases "transactionPath digest task")
  case (Some path)
  then show ?thesis
    by (cases "st path")
      (auto simp: loadLocked_def log_lines_same log_lines_present simp del: log_lines_update
        split: option.split load_stop.split)
qed (simp add: loadLocked_def)

text \<open>Whatever stops a load makes it fail.\<close>

lemma loadLocked_unstopped: "loadLocked digest snap ctx task st = (Inr r, st') \<Longrightarrow> ctx = None"
  by (auto simp: loadLocked_def split: option.splits load_stop.splits sum.splits)

lemma Load_unstopped: "Load digest snap ctx task st = (Inr r, st') \<Longrightarrow> ctx = None"
  by (auto simp: Load_def split: option.splits load_stop.splits dest: loadLocked_unstopped)

lemma Commit_unstopped: "Commit digest snap out ctx draft eid st = (Inr r, st') \<Longrightarrow> ctx = None"
  by (auto simp: Commit_def split: option.splits load_stop.splits sum.splits prod.splits dest: loadLocked_unstopped)

lemma loadLocked_result:
  "transactionPath digest task = Some path \<Longrightarrow>
     fst (loadLocked digest snap None task st) = load_lines snap (log_lines st path) [] Initial"
  by (cases "st path") (simp_all add: loadLocked_def log_lines_present log_lines_absent)

lemma Load_lines: "log_lines (snd (Load digest snap ctx task st)) = log_lines st"
  by (auto simp: Load_def loadLocked_lines split: option.split load_stop.split)

lemma commit_event_cases:
  assumes "commit_event out path s e st = (res, st')"
  obtains (kept) err where "res = Inl err" "log_lines st' = log_lines st"
    | (added) s' where "rejectEvidenceMutation s e = None" "Project s e = Inr (Projection_Applied s')"
        "log_lines st' = (log_lines st)(path := log_lines st path @ [Line \<lparr>tx_event = e, tx_snapshot = s'\<rparr>])"
        "res = Inr (e, s') \<or> res = Inl Append_Failed"
proof (cases "\<exists>s'. rejectEvidenceMutation s e = None \<and> Project s e = Inr (Projection_Applied s')")
  case True
  then obtain s' where s': "rejectEvidenceMutation s e = None" "Project s e = Inr (Projection_Applied s')"
    by blast
  show ?thesis
  proof (cases "out = Appended \<or> out = Not_Synced")
    case True
    then show ?thesis
      by (intro added [OF s']) (use assms s' in \<open>auto simp: commit_event_def append_line_lines split: if_splits\<close>)
  next
    case False
    then show ?thesis
      by (intro kept [of Append_Failed])
        (use assms s' in \<open>auto simp: commit_event_def append_line_lines split: if_splits\<close>)
  qed
next
  case False
  then have "\<exists>err. res = Inl err" "st' = st"
    using assms
    by (auto simp: commit_event_def split: option.splits sum.splits projection.splits)
  then show ?thesis using kept by blast
qed

section \<open>Runs\<close>

datatype store_op =
    Load_Op halt string
  | Commit_Op append_outcome halt draft_event string
  | External_Op append_outcome halt event

fun store_step :: "(string \<Rightarrow> string) \<Rightarrow> (product_state \<Rightarrow> 'c) \<Rightarrow> store_op \<Rightarrow> store \<Rightarrow> store" where
  "store_step digest snap (Load_Op ctx task) st = snd (Load digest snap ctx task st)"
| "store_step digest snap (Commit_Op out ctx draft eid) st = snd (Commit digest snap out ctx draft eid st)"
| "store_step digest snap (External_Op out ctx e) st = snd (CommitExternal digest snap out ctx e st)"

definition sound :: "store \<Rightarrow> bool" where
  "sound st \<longleftrightarrow> (\<forall>path. \<exists>rs. log_lines st path = map Line rs \<and> chain Initial rs)"

lemma sound_log:
  assumes "sound st"
  obtains rs where "log_lines st path = map Line rs" "chain Initial rs"
  using assms by (auto simp: sound_def)

lemma fold_put_key_wf:
  "list_all (\<lambda>(_, v). wf_json v) kvs \<Longrightarrow> wf_json (JObj acc)
     \<Longrightarrow> wf_json (JObj (fold (\<lambda>(k, v). put_key k v) kvs acc))"
  by (induction kvs arbitrary: acc) (auto simp del: wf_json.simps intro: wf_put_key)

lemma wf_normalise: "wf_json (normalise v)"
proof (induction v)
  case (JObj kvs)
  then have "list_all (\<lambda>(_, v). wf_json v) (map (\<lambda>(k, v). (k, normalise v)) kvs)"
    by (force simp: list_all_iff)
  then show ?case unfolding normalise.simps by (rule fold_put_key_wf) simp
qed (auto simp: list_all_iff)

lemma json_object_wf: "list_all (\<lambda>(_, v). wf_json v) kvs \<Longrightarrow> wf_json (JObj (json_object kvs))"
  unfolding json_object_def by (rule fold_put_key_wf) simp_all

lemma event_object_wf: "wf_json (JObj (event_object e))"
proof -
  have "wf_json (source_object s)" for s
    unfolding source_object_def by (rule json_object_wf) (simp add: omit_def)
  moreover have "wf_json (origin_object r)" for r
    unfolding origin_object_def by (rule json_object_wf) (simp add: json_int_def int_text_def)
  ultimately show ?thesis
    unfolding event_object_def
    by (intro json_object_wf) (auto simp: json_int_def int_text_def wf_normalise split: option.splits)
qed

lemma revalidated_storable:
  assumes "revalidate e = Inr e'"
  shows "storable_event e'"
proof -
  have valid: "validate_object (event_object e) = Inr e'" using assms by (simp add: revalidate_def)
  have "valid_json_value (JObj (event_object e))" "e_payload e' = get (event_object e) ''payload''"
    using valid unfolding validate_object_def by (auto split: if_splits option.splits json.splits)
  then have "valid_json_value (e_payload e')"
    by (auto simp: get_def list_all_iff dest!: map_of_SomeD split: option.splits)
  then show ?thesis
    using validate_object_well_formed [OF valid event_object_wf] by (simp add: storable_event_def)
qed

lemma revalidate_task: "revalidate e = Inr e' \<Longrightarrow> e_task e' = e_task e"
  by (auto simp: revalidate_def validate_object_def event_object_get non_empty_string_def
      split: if_splits option.splits json.splits)

lemma revalidate_payload: "revalidate e = Inr e' \<Longrightarrow> e_payload e' = normalise (e_payload e)"
  by (auto simp: revalidate_def validate_object_def event_object_get split: if_splits option.splits json.splits)

text \<open>Every operation keeps all logs, or adds one transaction to the chain of one of them.\<close>

definition extends_log :: "store \<Rightarrow> string \<Rightarrow> transaction \<Rightarrow> store \<Rightarrow> bool" where
  "extends_log st path r st' \<longleftrightarrow>
     (\<exists>rs. log_lines st path = map Line rs \<and> chain Initial (rs @ [r])
        \<and> log_lines st' = (log_lines st)(path := map Line (rs @ [r])))"

text \<open>What an operation has loaded.\<close>

lemma loaded:
  assumes "sound st" and "loadLocked digest snap None task st = (Inr (es, s), st')"
  obtains path rs where "transactionPath digest task = Some path" "log_lines st path = map Line rs"
    "chain Initial rs" "es = map tx_event rs" "s = replayed Initial rs" "log_lines st' = log_lines st"
proof -
  obtain path where path: "transactionPath digest task = Some path"
    using assms(2) by (cases "transactionPath digest task") (simp_all add: loadLocked_def)
  obtain rs where rs: "log_lines st path = map Line rs" "chain Initial rs"
    using assms(1) by (rule sound_log)
  have "load_lines snap (map Line rs) [] Initial = Inr (es, s)"
    using loadLocked_result [OF path, of snap st] assms(2) rs(1) by simp
  moreover have "log_lines st' = log_lines st" using loadLocked_lines [of digest snap None task st] assms(2) by simp
  moreover have "load_lines snap (map Line rs) [] Initial = Inr (map tx_event rs, replayed Initial rs)"
    using load_chain [OF rs(2), of snap "[]"] by simp
  ultimately show ?thesis using that [OF path rs] by auto
qed

lemma committed:
  assumes "commit_event out path (replayed Initial rs) e st = (res, st')" and "storable_event e"
    and "log_lines st path = map Line rs" and "chain Initial rs"
  obtains (kept) err where "res = Inl err" "log_lines st' = log_lines st"
    | (added) s where "res = Inr (e, s) \<or> res = Inl Append_Failed"
        "extends_log st path \<lparr>tx_event = e, tx_snapshot = s\<rparr> st'"
  using assms(1)
proof (cases rule: commit_event_cases)
  case (added s)
  then have "extends_log st path \<lparr>tx_event = e, tx_snapshot = s\<rparr> st'"
    using assms(2-4) unfolding extends_log_def
    by (intro exI [of _ rs]) (simp add: chain_snoc appends_def)
  then show ?thesis using added(4) that(2) by blast
qed (use that in blast)

lemma extends_log_cong: "log_lines st = log_lines st1 \<Longrightarrow> extends_log st path r st' = extends_log st1 path r st'"
  by (simp add: extends_log_def)

lemma loadLocked_stopped: "ctx \<noteq> None \<Longrightarrow> \<exists>err. fst (loadLocked digest snap ctx task st) = Inl err"
  using loadLocked_unstopped [of digest snap ctx task st] by (metis prod.collapse sum.exhaust_sel)

lemma Commit_stopped:
  assumes "ctx \<noteq> None"
  shows "\<exists>err. fst (Commit digest snap out ctx draft eid st) = Inl err
    \<and> log_lines (snd (Commit digest snap out ctx draft eid st)) = log_lines st"
proof -
  obtain err st1 where load: "loadLocked digest snap ctx (de_task draft) st = (Inl err, st1)"
    using loadLocked_stopped [OF assms, of digest snap "de_task draft" st] by (metis prod.collapse)
  have "log_lines st1 = log_lines st" using loadLocked_lines [of digest snap ctx "de_task draft" st] load by simp
  then show ?thesis using assms load by (auto simp: Commit_def split: option.splits load_stop.splits)
qed

lemma CommitExternal_stopped:
  assumes "ctx \<noteq> None"
  shows "\<exists>err. fst (CommitExternal digest snap out ctx candidate st) = Inl err
    \<and> log_lines (snd (CommitExternal digest snap out ctx candidate st)) = log_lines st"
proof -
  obtain err st1 where load: "loadLocked digest snap ctx (e_task candidate) st = (Inl err, st1)"
    using loadLocked_stopped [OF assms, of digest snap "e_task candidate" st] by (metis prod.collapse)
  have "log_lines st1 = log_lines st" using loadLocked_lines [of digest snap ctx "e_task candidate" st] load by simp
  then show ?thesis using assms load by (auto simp: CommitExternal_def split: option.splits load_stop.splits)
qed

lemma Commit_cases:
  assumes "sound st" and "Commit digest snap out ctx draft eid st = (res, st')"
  obtains (kept) err where "res = Inl err" "log_lines st' = log_lines st"
    | (added) path e s where "transactionPath digest (de_task draft) = Some path"
        "res = Inr (e, s) \<or> res = Inl Append_Failed"
        "extends_log st path \<lparr>tx_event = e, tx_snapshot = s\<rparr> st'"
        "map_option normalise (de_payload draft) = Some (e_payload e)"
proof (cases "\<exists>err. res = Inl err \<and> log_lines st' = log_lines st")
  case True
  then show ?thesis using kept by blast
next
  case False
  then have ctx: "ctx = None"
    using Commit_stopped [of ctx digest snap out draft eid st] assms(2) by (cases "ctx = None") auto
  obtain r1 st1 where load: "loadLocked digest snap None (de_task draft) st = (r1, st1)" by fastforce
  have lines: "log_lines st1 = log_lines st" using loadLocked_lines [of digest snap None "de_task draft" st] load by simp
  obtain es prev where r1: "r1 = Inr (es, prev)"
    using assms(2) False load lines ctx by (cases r1) (auto simp: Commit_def)
  obtain path rs where log: "transactionPath digest (de_task draft) = Some path" "log_lines st path = map Line rs"
      "chain Initial rs" "prev = replayed Initial rs"
    using loaded [OF assms(1) load [unfolded r1]] by metis
  obtain e c where e: "revalidate c = Inr e" "commit_event out path prev e st1 = (res, st')"
      "de_payload draft = Some (e_payload c)"
    using assms(2) False load [unfolded r1] lines ctx log(1) unfolding Commit_def
    by (auto simp: Let_def split: if_splits option.splits sum.splits)
  show ?thesis
  proof (cases rule: committed [OF e(2) [unfolded log(4)] revalidated_storable [OF e(1)] _ log(3)])
    case 1
    show ?case using lines log(2) by simp
  next
    case (2 err)
    then show ?thesis using False lines by auto
  next
    case (3 s)
    then show ?thesis
      using added [OF log(1)] extends_log_cong [OF lines] e(3) revalidate_payload [OF e(1)] by simp
  qed
qed

lemma CommitExternal_cases:
  assumes "sound st" and "CommitExternal digest snap out ctx candidate st = (res, st')"
  obtains (kept) "log_lines st' = log_lines st"
    | (added) path e s where "transactionPath digest (e_task e) = Some path"
        "extends_log st path \<lparr>tx_event = e, tx_snapshot = s\<rparr> st'"
        "e_payload e = normalise (e_payload candidate)"
proof (cases "log_lines st' = log_lines st")
  case False
  then have ctx: "ctx = None"
    using CommitExternal_stopped [of ctx digest snap out candidate st] assms(2) by (cases "ctx = None") auto
  obtain r1 st1 where load: "loadLocked digest snap None (e_task candidate) st = (r1, st1)" by fastforce
  have lines: "log_lines st1 = log_lines st"
    using loadLocked_lines [of digest snap None "e_task candidate" st] load by simp
  obtain es prev where r1: "r1 = Inr (es, prev)"
    using assms(2) False load lines ctx by (cases r1) (auto simp: CommitExternal_def)
  obtain path rs where log: "transactionPath digest (e_task candidate) = Some path" "log_lines st path = map Line rs"
      "chain Initial rs" "prev = replayed Initial rs"
    using loaded [OF assms(1) load [unfolded r1]] by metis
  obtain e where e: "revalidate candidate = Inr e"
    using assms(2) False load [unfolded r1] lines ctx unfolding CommitExternal_def
    by (auto split: sum.splits)
  obtain p res' where p: "transactionPath digest (e_task e) = Some p" "commit_event out p prev e st1 = (res', st')"
    using assms(2) False load [unfolded r1] lines ctx e unfolding CommitExternal_def
    by (auto split: if_splits option.splits sum.splits prod.splits)
  have path: "p = path" using p(1) log(1) revalidate_task [OF e] by simp
  show ?thesis
  proof (cases rule: committed [OF p(2) [unfolded log(4)] revalidated_storable [OF e] _ log(3)])
    case 1
    show ?case using lines log(2) path by simp
  next
    case (2 err)
    then show ?thesis using False lines by auto
  next
    case (3 s)
    then show ?thesis
      using added [OF p(1)] extends_log_cong [OF lines] revalidate_payload [OF e] by simp
  qed
qed (use kept in blast)

text \<open>So every log stays a chain, and only grows.\<close>

definition logs_grow :: "store \<Rightarrow> store \<Rightarrow> bool" where
  "logs_grow st st' \<longleftrightarrow> (sound st \<longrightarrow> sound st' \<and> (\<forall>path. prefix (log_lines st path) (log_lines st' path)))"

lemma logs_grow_same: "log_lines st' = log_lines st \<Longrightarrow> logs_grow st st'"
  by (simp add: logs_grow_def sound_def)

lemma logs_grow_extends: "extends_log st path r st' \<Longrightarrow> logs_grow st st'"
proof -
  assume "extends_log st path r st'"
  then obtain rs where rs: "log_lines st path = map Line rs" "chain Initial (rs @ [r])"
      "log_lines st' = (log_lines st)(path := map Line (rs @ [r]))"
    unfolding extends_log_def by blast
  have "\<exists>ts. log_lines st' p = map Line ts \<and> chain Initial ts" if "sound st" for p
    using that rs(2,3) by (cases "p = path") (auto simp: sound_def simp del: map_append)
  then show ?thesis using rs by (auto simp: logs_grow_def sound_def)
qed

lemma store_step_grows: "logs_grow st (store_step digest snap opn st)"
proof (cases "sound st")
  case True
  show ?thesis
  proof (cases opn)
    case (Load_Op ctx task)
    then show ?thesis using logs_grow_same [OF Load_lines] by simp
  next
    case (Commit_Op out ctx draft eid)
    obtain res st' where c: "Commit digest snap out ctx draft eid st = (res, st')" by fastforce
    have "logs_grow st st'"
      using Commit_cases [OF True c] logs_grow_same logs_grow_extends by metis
    then show ?thesis using Commit_Op c by simp
  next
    case (External_Op out ctx e)
    obtain res st' where c: "CommitExternal digest snap out ctx e st = (res, st')" by fastforce
    have "logs_grow st st'"
      using CommitExternal_cases [OF True c] logs_grow_same logs_grow_extends by metis
    then show ?thesis using External_Op c by simp
  qed
qed (simp add: logs_grow_def)

interpretation store_runs: monotone_machine "store_step digest snap" logs_grow for digest snap
proof
  fix st t u :: store and opn
  show "logs_grow st st" by (simp add: logs_grow_def)
  show "logs_grow st u" if "logs_grow st t" "logs_grow t u"
    using that unfolding logs_grow_def by (meson prefix_order.order_trans)
  show "logs_grow st (store_step digest snap opn st)" by (rule store_step_grows)
qed

lemma sound_empty: "sound Map.empty"
  unfolding sound_def by (intro allI exI [of _ "[]"]) (simp add: log_lines_absent)

lemma sound_run: "sound (fold (store_step digest snap) ops Map.empty)"
  using store_runs.rel_run [of Map.empty digest snap ops] sound_empty by (simp add: logs_grow_def)

text \<open>What later loads of a sound store return.\<close>

lemma Load_sound:
  assumes "sound st" and "TrimSpace task \<noteq> []"
  obtains path rs where "transactionPath digest task = Some path" "log_lines st path = map Line rs"
    "chain Initial rs" "fst (Load digest snap None task st) = Inr (map tx_event rs, replayed Initial rs)"
proof -
  obtain path where path: "transactionPath digest task = Some path"
    using assms(2) by (simp add: transactionPath_def)
  obtain rs where rs: "log_lines st path = map Line rs" "chain Initial rs"
    using assms(1) by (rule sound_log)
  show ?thesis
    using that [OF path rs] loadLocked_result [OF path, of snap st] load_chain [OF rs(2), of snap "[]"] rs(1)
    by (simp add: Load_def)
qed

lemma Load_later:
  assumes "sound st" and "fst (Load digest snap None task st) = Inr (es, s)"
  obtains rs ts where "fst (Load digest snap None task (fold (store_step digest snap) later st))
      = Inr (es @ map tx_event ts, replayed s ts)" "chain Initial rs" "es = map tx_event rs"
    "s = replayed Initial rs" "chain s ts"
proof -
  let ?st = "fold (store_step digest snap) later st"
  have task: "TrimSpace task \<noteq> []"
    using assms(2) by (auto simp: Load_def loadLocked_def transactionPath_def)
  obtain path rs where log: "transactionPath digest task = Some path" "log_lines st path = map Line rs"
      "fst (Load digest snap None task st) = Inr (map tx_event rs, replayed Initial rs)" "chain Initial rs"
    using Load_sound [OF assms(1) task] by metis
  have grown: "sound ?st" "prefix (log_lines st path) (log_lines ?st path)"
    using store_runs.rel_run [of st digest snap later] assms(1) by (simp_all add: logs_grow_def)
  obtain path' rs' where later: "transactionPath digest task = Some path'" "log_lines ?st path' = map Line rs'"
      "fst (Load digest snap None task ?st) = Inr (map tx_event rs', replayed Initial rs')" "chain Initial rs'"
    using Load_sound [OF grown(1) task] by metis
  have "prefix (map Line rs) (map Line rs')" using grown(2) log later by simp
  then have "prefix rs rs'" by (auto simp: prefix_def map_eq_append_conv inj_map_eq_map inj_def)
  then obtain ts where "rs' = rs @ ts" by (auto simp: prefix_def)
  then show ?thesis using that [of ts rs] log(3,4) later(3,4) assms(2) by (auto simp: chain_append)
qed

section \<open>Evidence\<close>

lemma canon_evidence_eq: "canon_evidence v = canon_evidence w \<longleftrightarrow> v = w"
proof
  assume eq: "canon_evidence v = canon_evidence w"
  define keys where "keys (v :: immutable_evidence) = fold (\<lambda>(k, x). put_key k x)
     [(''id'', CStr (ev_id v)), (''taskId'', CStr (ev_task v)), (''kind'', CStr (ev_kind v)),
      (''summary'', CStr (ev_summary v)), (''data'', canon_map (ev_data v))] []" for v
  have "keys v = keys w" using eq by (simp add: canon_evidence_def canon_object_def keys_def)
  then have "map_of (keys v) k = map_of (keys w) k" for k by simp
  from this [of "''id''"] this [of "''taskId''"] this [of "''kind''"] this [of "''summary''"] this [of "''data''"]
  show "v = w"
    by (cases v; cases w) (auto simp: keys_def canon_map_def split: option.splits)
qed simp

lemma known_event_evidence:
  assumes "apply_known_event e s = Inr s'"
  shows "ps_evidence s' = ps_evidence s \<or>
    (\<exists>v. e_type e = ''evidence.committed'' \<and> payload e ''evidence'' dec_evidence no_evidence = Some v
       \<and> ps_evidence s' = (ps_evidence s)(ev_id v \<mapsto> v))"
  using assms by (cases rule: known_event) (auto simp: quiet_def dest!: frames)

lemma appended_evidence:
  assumes "appends s r"
  shows "ps_evidence s \<subseteq>\<^sub>m ps_evidence (tx_snapshot r)"
proof -
  have kept: "rejectEvidenceMutation s (tx_event r) = None"
    and applied: "Project s (tx_event r) = Inr (Projection_Applied (tx_snapshot r))"
    using assms by (simp_all add: appends_def)
  from applied have "ps_evidence (tx_snapshot r) = ps_evidence s \<or>
    (\<exists>v. e_type (tx_event r) = ''evidence.committed'' \<and> payload (tx_event r) ''evidence'' dec_evidence no_evidence = Some v
       \<and> ps_evidence (tx_snapshot r) = (ps_evidence s)(ev_id v \<mapsto> v))"
    by (cases rule: Project_applied) (auto simp: at_event_def dest!: known_event_evidence)
  then show ?thesis
    using kept by (auto simp: rejectEvidenceMutation_def map_le_def canon_evidence_eq split: option.splits if_splits)
qed

lemma chain_evidence: "chain s rs \<Longrightarrow> ps_evidence s \<subseteq>\<^sub>m ps_evidence (replayed s rs)"
  by (induction rs arbitrary: s) (auto simp: appends_step dest!: appended_evidence intro: map_le_trans)

section \<open>The promises of the store\<close>

lemma chain_cursor_end:
  assumes "chain Initial rs"
  shows "ps_cursor (replayed Initial rs) = int (length rs)"
proof -
  have cursors: "map e_cursor (history (replayed Initial rs)) = [1..ps_cursor (replayed Initial rs)]"
    and pos: "0 \<le> ps_cursor (replayed Initial rs)"
    using reached_logged [of "map tx_event rs"] unfolding logged_def by blast+
  have "length (map e_cursor (history (replayed Initial rs))) = length [1..ps_cursor (replayed Initial rs)]"
    by (simp only: cursors)
  then show ?thesis using pos chain_history [OF assms] by (simp del: fold_map)
qed

lemma chain_cursors:
  assumes "chain Initial rs"
  shows "map e_cursor (map tx_event rs) = [1..int (length rs)]"
  using reached_logged [of "map tx_event rs"] chain_history [OF assms] chain_cursor_end [OF assms]
  unfolding logged_def by metis

text \<open>C11: once \<open>Commit\<close> has returned an event and a snapshot, every later load of the task, whatever operations
  run in between and whatever becomes of their appends, succeeds and returns that event at its cursor; the
  events up to it replay to the snapshot that was returned. (Payloads of at most 9,996 levels:
  \<open>Store_Nesting\<close>.)
\<close>

theorem committed_event_is_kept:
  assumes "Commit digest snap out ctx draft eid (fold (store_step digest snap) ops Map.empty) = (Inr (e, s), st)"
  shows "\<exists>es t. fst (Load digest snap None (de_task draft) (fold (store_step digest snap) later st)) = Inr (es, t)
    \<and> es ! nat (e_cursor e - 1) = e \<and> fold product_step (take (nat (e_cursor e)) es) Initial = s"
proof -
  let ?st = "fold (store_step digest snap) ops Map.empty"
  obtain path r where r: "transactionPath digest (de_task draft) = Some path" "r = \<lparr>tx_event = e, tx_snapshot = s\<rparr>"
      "extends_log ?st path r st"
    using Commit_cases [OF sound_run assms] by (metis Inl_Inr_False Inr_inject prod.inject)
  obtain rs where rs: "chain Initial (rs @ [r])" "log_lines st path = map Line (rs @ [r])"
    using r(3) unfolding extends_log_def by (metis fun_upd_same)
  have sound: "sound st"
    using logs_grow_extends [OF r(3)] sound_run [of digest snap ops] by (simp add: logs_grow_def)
  have task: "TrimSpace (de_task draft) \<noteq> []" using r(1) by (simp add: transactionPath_def split: if_splits)
  have "fst (Load digest snap None (de_task draft) st) = Inr (map tx_event (rs @ [r]), replayed Initial (rs @ [r]))"
    using loadLocked_result [OF r(1), of snap st] load_chain [OF rs(1), of snap "[]"] rs(2) by (simp add: Load_def)
  then obtain ts where later: "fst (Load digest snap None (de_task draft) (fold (store_step digest snap) later st))
      = Inr (map tx_event (rs @ [r]) @ map tx_event ts, replayed (replayed Initial (rs @ [r])) ts)"
    by (rule Load_later [OF sound])
  have "appends (replayed Initial rs) r" "chain Initial rs" using rs(1) by (simp_all add: chain_snoc)
  then have "replayed Initial (rs @ [r]) = s" "e_cursor e = int (length rs) + 1"
    using appends_step [of "replayed Initial rs" r] applied_history(3) [OF reached_logged] chain_cursor_end r(2)
    by (auto simp: appends_def)
  then show ?thesis using later r(2) by (auto simp: nth_append nat_add_distrib)
qed

text \<open>C12: evidence is immutable in the store: what a load once returned under an identifier, every later load
  returns unchanged, whatever events are committed in between. (Payloads of at most 9,996 levels:
  \<open>Store_Nesting\<close>.)
\<close>

theorem stored_evidence_is_immutable:
  assumes "fst (Load digest snap None task (fold (store_step digest snap) ops Map.empty)) = Inr (es, s)"
    and "ps_evidence s i = Some v"
  shows "\<exists>es' s'. fst (Load digest snap None task (fold (store_step digest snap) (ops @ later) Map.empty))
    = Inr (es', s') \<and> ps_evidence s' i = Some v"
proof -
  obtain ts where "fst (Load digest snap None task (fold (store_step digest snap) later
        (fold (store_step digest snap) ops Map.empty))) = Inr (es @ map tx_event ts, replayed s ts)" "chain s ts"
    by (rule Load_later [OF sound_run assms(1)])
  then show ?thesis using chain_evidence [of s ts] assms(2) by (force simp: map_le_def)
qed

text \<open>C13: committing an external event that the log already holds is answered with the current snapshot and
  writes nothing, whatever the file system would have done. (Payloads of at most 9,996 levels:
  \<open>Store_Nesting\<close>.)
\<close>

theorem external_replay_is_idempotent:
  assumes "fst (Load digest snap None (e_task e) (fold (store_step digest snap) ops Map.empty)) = Inr (es, s)"
    and "e \<in> set es"
  shows "fst (CommitExternal digest snap out None e (fold (store_step digest snap) ops Map.empty)) = Inr s
    \<and> log_lines (snd (CommitExternal digest snap out None e (fold (store_step digest snap) ops Map.empty)))
        = log_lines (fold (store_step digest snap) ops Map.empty)"
proof -
  let ?st = "fold (store_step digest snap) ops Map.empty"
  obtain st' where load: "loadLocked digest snap None (e_task e) ?st = (Inr (es, s), st')"
    using assms(1) by (cases "loadLocked digest snap None (e_task e) ?st") (auto simp: Load_def)
  obtain path rs where log: "chain Initial rs" "es = map tx_event rs" "s = replayed Initial rs"
      "log_lines st' = log_lines ?st"
    using loaded [OF sound_run load] by metis
  have "storable_event e" if "chain t qs" "e \<in> set (map tx_event qs)" for t qs
    using that by (induction qs arbitrary: t) (auto simp: appends_def)
  then have "revalidate e = Inr e" using log assms(2) revalidate_storable by blast
  moreover have cursors: "map e_cursor es = [1..int (length rs)]" using chain_cursors [OF log(1)] log(2) by simp
  then have "e_cursor e \<in> set [1..int (length rs)]" using assms(2) by (metis image_eqI list.set_map)
  then have "e_cursor e \<le> ps_cursor s" using chain_cursor_end [OF log(1)] log(3) by simp
  moreover have "find (\<lambda>x. e_cursor x = e_cursor e) es = Some e"
    using assms(2) distinct_upto [of 1 "int (length rs)"] unfolding cursors [symmetric]
    by (induction es) auto
  ultimately show ?thesis using load log(4) by (simp add: CommitExternal_def)
qed

end
