(* ===== verification/Runtime_Service.thy ===== *)
theory Runtime_Service
  imports Store_Runs
begin

text \<open>
  The service in front of the product store (\<open>runtimeapi/service.go\<close>): tasks, scopes, approvals, evidence,
  findings, reports and the control lease. An operation that decides on a loaded snapshot loads it, checks
  it and commits an event, and takes no lock over the three. So each takes, beside the clock's readings and
  the outcome of its append, the list \<open>others\<close> of store operations that other goroutines run after its load
  and before its commit; that covers every interleaving, since the store's operations are atomic.

  Parameters, in a record: SHA-256 as hexadecimal text, the text of a snapshot, the canonical text of a JSON
  value, and the RFC 3339 text of an instant. The clock is not at the zero time, which \<open>Commit\<close> would
  replace. Slices of a caller's struct are not nil; values of type \<open>any\<close>, and structs that hold such values,
  are given by the JSON they marshal to. Draining, which only calls the registered drainers, is not modelled.
\<close>

section \<open>Parameters and errors\<close>

record 'c runtime_env =
  re_sha :: "string \<Rightarrow> string"
  re_snap :: "product_state \<Rightarrow> 'c"
  re_text :: "canon \<Rightarrow> string"
  re_format :: "instant \<Rightarrow> string"

record service =
  sv_runtime :: string
  sv_principal :: string

datatype service_error =
    Store_Failed store_error | Scope_Not_Confirmed | Approval_Out_Of_Scope | Approval_Has_Expired | Approval_Replay
  | Unknown_Approval | Stale_Lease | Invalid_Report_State | Unknown_Evidence string | Digest_Failed

type_synonym emitted = "(service_error + event) \<times> store"

text \<open>What one call reads from its surroundings: what stops its load and its commit, the clock before and at
  the commit, the outcome of the append, and what happens in between.\<close>

record call =
  ca_ctx :: halt
  ca_stop :: halt
  ca_checked :: instant
  ca_now :: instant
  ca_out :: append_outcome
  ca_others :: "store_op list"

definition no_source :: event_source where
  "no_source = \<lparr>es_runtime = [], es_agent = [], es_tool_call = []\<rparr>"

definition interleave :: "'c runtime_env \<Rightarrow> store_op list \<Rightarrow> store \<Rightarrow> store" where
  "interleave env ops st = fold (store_step (re_sha env) (re_snap env)) ops st"

definition emit ::
  "'c runtime_env \<Rightarrow> service \<Rightarrow> call \<Rightarrow> string \<Rightarrow> string \<Rightarrow> json \<Rightarrow> event_source \<Rightarrow> store \<Rightarrow> (store_error + event) \<times> store" where
  "emit env sv ca task t p source st =
     (case Commit (re_sha env) (re_snap env) (ca_out ca) (ca_stop ca)
        \<lparr>de_task = task, de_type = t, de_time = re_format env (ca_now ca),
          de_source = source\<lparr>es_runtime := sv_runtime sv\<rparr>, de_payload = Some p\<rparr> [] st of
        (Inl err, st') \<Rightarrow> (Inl err, st')
      | (Inr (e, _), st') \<Rightarrow> (Inr e, st'))"

definition emitted :: "(store_error + event) \<times> store \<Rightarrow> emitted" where
  "emitted r = (case r of (Inl err, st) \<Rightarrow> (Inl (Store_Failed err), st) | (Inr e, st) \<Rightarrow> (Inr e, st))"

text \<open>An operation that looks at a snapshot before it emits.\<close>

definition with_loaded ::
  "'c runtime_env \<Rightarrow> call \<Rightarrow> string \<Rightarrow> (event list \<Rightarrow> product_state \<Rightarrow> store \<Rightarrow> emitted) \<Rightarrow> store \<Rightarrow> emitted" where
  "with_loaded env ca task f st =
     (case Load (re_sha env) (re_snap env) (ca_ctx ca) task st of
        (Inl err, st') \<Rightarrow> (Inl (Store_Failed err), st')
      | (Inr (es, s), st') \<Rightarrow> f es s st')"

definition emit_later ::
  "'c runtime_env \<Rightarrow> service \<Rightarrow> call \<Rightarrow> string \<Rightarrow> string \<Rightarrow> json \<Rightarrow> event_source \<Rightarrow> store \<Rightarrow> (store_error + event) \<times> store" where
  "emit_later env sv ca task t p source st = emit env sv ca task t p source (interleave env (ca_others ca) st)"

section \<open>Payloads\<close>

definition object :: "(string \<times> json) list \<Rightarrow> json" where
  "object kvs = JObj (json_object kvs)"

definition json_strings :: "string list \<Rightarrow> json" where
  "json_strings ss = JArr (map JStr ss)"

definition json_scope :: "scope_snapshot \<Rightarrow> json" where
  "json_scope s = object
     [(''id'', JStr (sc_id s)), (''principal'', JStr (sc_principal s)), (''workspace'', JStr (sc_workspace s)),
      (''validity'', JStr (sc_validity s)), (''targets'', json_strings (sc_targets s)),
      (''allowedActions'', json_strings (sc_allowed s)), (''deniedActions'', json_strings (sc_denied s)),
      (''riskCeiling'', JStr (sc_ceiling s))]"

definition json_challenge :: "approval_challenge \<Rightarrow> json" where
  "json_challenge c = object
     [(''id'', JStr (ap_id c)), (''agentId'', JStr (ap_agent c)), (''action'', JStr (ap_action c)),
      (''target'', JStr (ap_target c)), (''parameterDigest'', JStr (ap_digest c)), (''risk'', JStr (ap_risk c)),
      (''expiresAt'', JStr (ap_expires c))]"

definition json_finding :: "finding_state \<Rightarrow> json" where
  "json_finding f = object
     ([(''id'', JStr (fi_id f)), (''title'', JStr (fi_title f)), (''severity'', JStr (fi_severity f)),
       (''status'', JStr (fi_status f)), (''confidence'', JStr (fi_confidence f)),
       (''evidenceIds'', json_strings (fi_evidence f))] @ omit ''rejectionReason'' (fi_rejection f))"

definition json_lease :: "control_lease \<Rightarrow> json" where
  "json_lease l = object [(''clientId'', JStr (cl_client l)), (''revision'', json_int (cl_revision l))]"

section \<open>Scopes\<close>

text \<open>From the last event backwards: a proposal first, or a confirmation of the scope first.\<close>

fun confirmed_backwards :: "event list \<Rightarrow> string \<Rightarrow> bool" where
  "confirmed_backwards [] sid = False"
| "confirmed_backwards (e # es) sid =
     (if e_type e = ''scope.proposed'' then False
      else if e_type e = ''scope.confirmed'' then
        (case payload e ''scope'' dec_scope no_scope of Some scope \<Rightarrow> sc_id scope = sid | None \<Rightarrow> False)
      else confirmed_backwards es sid)"

definition scopeWasConfirmed :: "event list \<Rightarrow> string \<Rightarrow> bool" where
  "scopeWasConfirmed es sid = confirmed_backwards (rev es) sid"

fun scope_active :: "event list \<Rightarrow> string \<Rightarrow> bool \<Rightarrow> bool" where
  "scope_active [] cid found = found"
| "scope_active (e # es) cid found =
     (if e_type e = ''approval.requested'' then
        scope_active es cid
          (found \<or> (case payload e ''challenge'' dec_challenge no_challenge of Some c \<Rightarrow> ap_id c = cid | None \<Rightarrow> False))
      else if found \<and> (e_type e = ''scope.proposed'' \<or> e_type e = ''scope.confirmed'') then False
      else scope_active es cid found)"

definition approvalScopeActive :: "event list \<Rightarrow> string \<Rightarrow> bool" where
  "approvalScopeActive es cid = scope_active es cid False"

definition risk_levels :: "(string \<times> nat) list" where
  "risk_levels = [(''low'', 1), (''medium'', 2), (''high'', 3), (''critical'', 4)]"

definition scopeAllows :: "scope_snapshot \<Rightarrow> string \<Rightarrow> string \<Rightarrow> string \<Rightarrow> bool" where
  "scopeAllows s action target risk \<longleftrightarrow>
     List.member (sc_targets s) target \<and> List.member (sc_allowed s) action \<and> \<not> List.member (sc_denied s) action
   \<and> (case (map_of risk_levels risk, map_of risk_levels (sc_ceiling s)) of
        (Some requested, Some highest) \<Rightarrow> requested \<le> highest
      | _ \<Rightarrow> False)"

definition CreateTask :: "'c runtime_env \<Rightarrow> service \<Rightarrow> call \<Rightarrow> string \<Rightarrow> string \<Rightarrow> store \<Rightarrow> emitted" where
  "CreateTask env sv ca task title st =
     emitted (emit env sv ca task ''task.created'' (object [(''title'', JStr title)]) no_source st)"

definition StartTask :: "'c runtime_env \<Rightarrow> service \<Rightarrow> call \<Rightarrow> string \<Rightarrow> string \<Rightarrow> store \<Rightarrow> emitted" where
  "StartTask env sv ca task title st =
     emitted (emit env sv ca task ''task.started'' (object [(''title'', JStr title)]) no_source st)"

definition ProposeScope :: "'c runtime_env \<Rightarrow> service \<Rightarrow> call \<Rightarrow> string \<Rightarrow> scope_snapshot \<Rightarrow> store \<Rightarrow> emitted" where
  "ProposeScope env sv ca task scope st =
     (if sc_principal scope \<noteq> sv_principal sv then (Inl Approval_Out_Of_Scope, st)
      else emitted (emit env sv ca task ''scope.proposed'' (object [(''scope'', json_scope scope)]) no_source st))"

definition ConfirmScope :: "'c runtime_env \<Rightarrow> service \<Rightarrow> call \<Rightarrow> string \<Rightarrow> string \<Rightarrow> store \<Rightarrow> emitted" where
  "ConfirmScope env sv ca task sid = with_loaded env ca task (\<lambda>_ s st.
     case ps_scope s of
       None \<Rightarrow> (Inl Scope_Not_Confirmed, st)
     | Some scope \<Rightarrow>
         if sc_id scope \<noteq> sid then (Inl Scope_Not_Confirmed, st)
         else emitted (emit_later env sv ca task ''scope.confirmed'' (object [(''scope'', json_scope scope)]) no_source st))"

section \<open>Approvals\<close>

record approval_request =
  aq_task :: string
  aq_challenge :: string
  aq_agent :: string
  aq_action :: string
  aq_target :: string
  aq_parameters :: json
  aq_risk :: string
  aq_expires :: instant

definition ParameterDigest :: "'c runtime_env \<Rightarrow> string \<Rightarrow> string \<Rightarrow> json \<Rightarrow> string option" where
  "ParameterDigest env action target p =
     map_option (\<lambda>c. ''sha256:'' @ re_sha env (re_text env c))
       (canonical (object [(''action'', JStr action), (''target'', JStr target), (''parameters'', p)]))"

definition RequestApproval :: "'c runtime_env \<Rightarrow> service \<Rightarrow> call \<Rightarrow> approval_request \<Rightarrow> store \<Rightarrow> emitted" where
  "RequestApproval env sv ca q = with_loaded env ca (aq_task q) (\<lambda>es s st.
     case ps_scope s of
       None \<Rightarrow> (Inl Scope_Not_Confirmed, st)
     | Some scope \<Rightarrow>
         if \<not> scopeWasConfirmed es (sc_id scope) then (Inl Scope_Not_Confirmed, st)
         else if \<not> scopeAllows scope (aq_action q) (aq_target q) (aq_risk q) then (Inl Approval_Out_Of_Scope, st)
         else if \<not> ca_checked ca < aq_expires q then (Inl Approval_Has_Expired, st)
         else
           (case ParameterDigest env (aq_action q) (aq_target q) (aq_parameters q) of
              None \<Rightarrow> (Inl Digest_Failed, st)
            | Some digest \<Rightarrow>
                emitted (emit_later env sv ca (aq_task q) ''approval.requested''
                  (object [(''challenge'', json_challenge
                     \<lparr>ap_id = aq_challenge q, ap_agent = aq_agent q, ap_action = aq_action q, ap_target = aq_target q,
                       ap_digest = digest, ap_risk = aq_risk q, ap_expires = re_format env (aq_expires q)\<rparr>)])
                  (no_source\<lparr>es_agent := aq_agent q\<rparr>) st)))"

definition ResolveApproval :: "'c runtime_env \<Rightarrow> service \<Rightarrow> call \<Rightarrow> string \<Rightarrow> string \<Rightarrow> string \<Rightarrow> store \<Rightarrow> emitted" where
  "ResolveApproval env sv ca task cid decision = with_loaded env ca task (\<lambda>es s st.
     case ps_approvals s cid of
       None \<Rightarrow> (Inl Unknown_Approval, st)
     | Some a \<Rightarrow>
         if ap_decision a \<noteq> [] then (Inl Approval_Replay, st)
         else if \<not> approvalScopeActive es cid then (Inl Approval_Out_Of_Scope, st)
         else
           (case parse_rfc3339 (ap_expires (ap_challenge a)) of
              None \<Rightarrow> (Inl Approval_Has_Expired, st)
            | Some expires \<Rightarrow>
                if expires < ca_checked ca then (Inl Approval_Has_Expired, st)
                else
                  (case emit_later env sv ca task ''approval.resolved''
                     (object [(''challengeId'', JStr cid), (''decision'', JStr decision)])
                     (no_source\<lparr>es_agent := ap_agent (ap_challenge a)\<rparr>) st of
                     (Inl (Not_Projected Approval_Already_Resolved), st') \<Rightarrow> (Inl Approval_Replay, st')
                   | (Inl (Not_Projected Approval_Expired), st') \<Rightarrow> (Inl Approval_Has_Expired, st')
                   | r \<Rightarrow> emitted r)))"

section \<open>Evidence, findings, reports\<close>

text \<open>\<open>evidence\<close> is the JSON of the evidence.\<close>

definition CommitEvidence ::
  "'c runtime_env \<Rightarrow> service \<Rightarrow> call \<Rightarrow> string \<Rightarrow> json \<Rightarrow> event_source \<Rightarrow> store \<Rightarrow> emitted" where
  "CommitEvidence env sv ca task evidence source st =
     emitted (emit env sv ca task ''evidence.committed'' (object [(''evidence'', evidence)]) source st)"

definition CreateFinding :: "'c runtime_env \<Rightarrow> service \<Rightarrow> call \<Rightarrow> string \<Rightarrow> finding_state \<Rightarrow> store \<Rightarrow> emitted" where
  "CreateFinding env sv ca task f = with_loaded env ca task (\<lambda>_ s st.
     case find (\<lambda>i. ps_evidence s i = None) (fi_evidence f) of
       Some i \<Rightarrow> (Inl (Unknown_Evidence i), st)
     | None \<Rightarrow> emitted (emit_later env sv ca task ''finding.created'' (object [(''finding'', json_finding f)]) no_source st))"

definition TransitionFinding ::
  "'c runtime_env \<Rightarrow> service \<Rightarrow> call \<Rightarrow> string \<Rightarrow> string \<Rightarrow> string \<Rightarrow> string \<Rightarrow> store \<Rightarrow> emitted" where
  "TransitionFinding env sv ca task fid status reason st =
     emitted (emit env sv ca task (''finding.'' @ status)
       (object ([(''findingId'', JStr fid)] @ (if status = ''rejected'' then [(''reason'', JStr reason)] else [])))
       no_source st)"

text \<open>A report by the fields the service reads, and the JSON it is marshalled to.\<close>

record report_request =
  rr_id :: string
  rr_task :: string
  rr_version :: int
  rr_json :: json

definition DraftReport :: "'c runtime_env \<Rightarrow> service \<Rightarrow> call \<Rightarrow> report_request \<Rightarrow> store \<Rightarrow> emitted" where
  "DraftReport env sv ca r st =
     emitted (emit env sv ca (rr_task r) ''report.drafted'' (object [(''report'', rr_json r)]) no_source st)"

definition report_open :: "product_state \<Rightarrow> string \<Rightarrow> int \<Rightarrow> bool" where
  "report_open s rid version \<longleftrightarrow>
     (case ps_report s of
        None \<Rightarrow> False
      | Some r \<Rightarrow> rp_id r = rid \<and> rp_status r \<noteq> ''frozen'' \<and> rp_version r < version)"

definition EditReport :: "'c runtime_env \<Rightarrow> service \<Rightarrow> call \<Rightarrow> report_request \<Rightarrow> store \<Rightarrow> emitted" where
  "EditReport env sv ca r = with_loaded env ca (rr_task r) (\<lambda>_ s st.
     if \<not> report_open s (rr_id r) (rr_version r) then (Inl Invalid_Report_State, st)
     else emitted (emit_later env sv ca (rr_task r) ''report.edited'' (object [(''report'', rr_json r)]) no_source st))"

definition FreezeReport :: "'c runtime_env \<Rightarrow> service \<Rightarrow> call \<Rightarrow> string \<Rightarrow> string \<Rightarrow> int \<Rightarrow> store \<Rightarrow> emitted" where
  "FreezeReport env sv ca task rid version = with_loaded env ca task (\<lambda>_ s st.
     if \<not> report_open s rid version then (Inl Invalid_Report_State, st)
     else emitted (emit_later env sv ca task ''report.frozen''
       (object [(''reportId'', JStr rid), (''version'', json_int version)]) no_source st))"

section \<open>Control\<close>

definition TakeControl :: "'c runtime_env \<Rightarrow> service \<Rightarrow> call \<Rightarrow> string \<Rightarrow> string \<Rightarrow> int \<Rightarrow> store \<Rightarrow> emitted" where
  "TakeControl env sv ca task client expected = with_loaded env ca task (\<lambda>_ s st.
     if ps_highest s \<noteq> expected then (Inl Stale_Lease, st)
     else
       (case emit_later env sv ca task (if 0 < expected then ''control.transferred'' else ''control.acquired'')
          (object [(''lease'', json_lease \<lparr>cl_client = client, cl_revision = wrap64 (expected + 1)\<rparr>)]) no_source st of
          (Inl (Not_Projected Non_Monotonic_Lease_Revision), st') \<Rightarrow> (Inl Stale_Lease, st')
        | r \<Rightarrow> emitted r))"

end
