(* ===== verification/Service_Properties.thy ===== *)
theory Service_Properties
  imports Runtime_Service
begin

text \<open>
  What the service promises although it decides on a snapshot and commits later: the commit is projected from
  the snapshot that is current then, which the rules of the snapshot protect. Control is taken at most once at
  a revision, an approval is requested within a confirmed scope and resolved once and in time.
\<close>

section \<open>What a successful emission has committed\<close>

lemma Commit_success:
  assumes "sound st" and "Commit digest snap out ctx draft eid st = (Inr (e, s'), st')"
  obtains c es s where "fst (Load digest snap None (de_task draft) st) = Inr (es, s)" "s = fold product_step es Initial"
    "revalidate c = Inr e" "e_task c = de_task draft" "e_type c = de_type draft" "e_time c = de_time draft"
    "Some (e_payload c) = de_payload draft" "Project s e = Inr (Projection_Applied s')" "sound st'"
    "fst (Load digest snap None (de_task draft) st') = Inr (es @ [e], s')"
proof -
  have ctx: "ctx = None" by (rule Commit_unstopped [OF assms(2)])
  obtain r1 st1 where load: "loadLocked digest snap None (de_task draft) st = (r1, st1)" by fastforce
  obtain es s where r1: "r1 = Inr (es, s)"
    using assms(2) load ctx by (cases r1) (auto simp: Commit_def)
  obtain path rs where log: "transactionPath digest (de_task draft) = Some path" "log_lines st path = map Line rs"
      "chain Initial rs" "es = map tx_event rs" "s = replayed Initial rs" "log_lines st1 = log_lines st"
    using loaded [OF assms(1) load [unfolded r1]] .
  obtain c where c: "revalidate c = Inr e" "e_task c = de_task draft" "e_type c = de_type draft" "e_time c = de_time draft"
      "Some (e_payload c) = de_payload draft" and commit: "commit_event out path s e st1 = (Inr (e, s'), st')"
    using assms(2) load [unfolded r1] ctx log(1) unfolding Commit_def
    by (auto simp: Let_def split: if_splits option.splits sum.splits)
      (auto simp: commit_event_def split: option.splits sum.splits projection.splits if_splits)
  from commit obtain "rejectEvidenceMutation s e = None" and p: "Project s e = Inr (Projection_Applied s')"
    and lines: "log_lines st' = (log_lines st1)(path := log_lines st1 path @ [Line \<lparr>tx_event = e, tx_snapshot = s'\<rparr>])"
    by (cases rule: commit_event_cases) auto
  then have ap: "appends s \<lparr>tx_event = e, tx_snapshot = s'\<rparr>"
    using revalidated_storable [OF c(1)] by (simp add: appends_def)
  define r where "r = \<lparr>tx_event = e, tx_snapshot = s'\<rparr>"
  have chain: "chain Initial (rs @ [r])" using log ap by (simp add: chain_snoc r_def)
  have "extends_log st path r st'" using log(2,6) lines chain unfolding extends_log_def r_def by auto
  then have sound: "sound st'" using logs_grow_extends assms(1) unfolding logs_grow_def by blast
  have "log_lines st' path = map Line (rs @ [r])" using lines log(2,6) by (simp add: r_def)
  then have "fst (Load digest snap None (de_task draft) st') = Inr (es @ [e], s')"
    using loadLocked_result [OF log(1), of snap st'] load_chain [OF chain, of snap "[]"] log(4,5) appends_step [OF ap]
    by (simp add: Load_def r_def)
  moreover have "fst (Load digest snap None (de_task draft) st) = Inr (es, s)" using load r1 by (simp add: Load_def)
  ultimately show ?thesis using that c p sound log(4,5) by simp
qed

lemma revalidate_fields:
  assumes "revalidate c = Inr e"
  shows "e_type e = e_type c" "e_payload e = normalise (e_payload c)" "e_task e = e_task c" "e_time e = e_time c"
    "e_kind e = (if List.member known_event_types (e_type c) then EventKindKnown else EventKindUnknown)"
  using assms
  by (auto simp: revalidate_def validate_object_def event_object_get non_empty_string_def
      split: if_splits option.splits json.splits)

lemma object_wf: "list_all (\<lambda>(_, v). wf_json v) kvs \<Longrightarrow> normalise (object kvs) = object kvs"
  unfolding object_def by (rule normalise_wf) (rule json_object_wf)

lemma emit_success:
  assumes "sound st" and "emit env sv ca task t (object kvs) source st = (Inr e, st')"
    and "list_all (\<lambda>(_, v). wf_json v) kvs" and "List.member known_event_types t"
  obtains es s s' where "fst (Load (re_sha env) (re_snap env) None task st) = Inr (es, s)" "s = fold product_step es Initial"
    "Project s e = Inr (Projection_Applied s')" "sound st'"
    "fst (Load (re_sha env) (re_snap env) None task st') = Inr (es @ [e], s')"
    "e_type e = t" "e_payload e = object kvs" "e_time e = re_format env (ca_now ca)" "e_kind e = EventKindKnown"
    "storable_event e"
proof -
  obtain s' where "Commit (re_sha env) (re_snap env) (ca_out ca) (ca_stop ca)
        \<lparr>de_task = task, de_type = t, de_time = re_format env (ca_now ca),
          de_source = source\<lparr>es_runtime := sv_runtime sv\<rparr>, de_payload = Some (object kvs)\<rparr> [] st = (Inr (e, s'), st')"
    using assms(2) by (auto simp: emit_def split: sum.splits prod.splits)
  from assms(1) this show ?thesis
  proof (cases rule: Commit_success)
    case (1 c es s)
    then show ?thesis
      using that [of es s s'] revalidate_fields [of c e] revalidated_storable [of c e] object_wf [OF assms(3)] assms(4)
      by simp
  qed
qed

lemma interleave_sound: "sound st \<Longrightarrow> sound (interleave env ops st)"
  using store_runs.rel_run [of st "re_sha env" "re_snap env" ops] by (simp add: interleave_def logs_grow_def)

text \<open>A load reads the lines of the log only.\<close>

lemma Load_cong:
  assumes "log_lines st = log_lines st'"
  shows "fst (Load digest snap None task st) = fst (Load digest snap None task st')"
proof (cases "transactionPath digest task")
  case (Some path)
  then show ?thesis using assms by (simp add: Load_def loadLocked_result)
qed (simp add: Load_def loadLocked_def)

lemma with_loaded_success:
  assumes "sound st" and "with_loaded env ca task f st = (Inr e, st')"
  obtains es s st0 where "fst (Load (re_sha env) (re_snap env) None task st) = Inr (es, s)"
    "s = fold product_step es Initial" "f es s st0 = (Inr e, st')" "sound st0" "log_lines st0 = log_lines st"
    "ca_ctx ca = None"
proof -
  have ctx: "ca_ctx ca = None"
    using assms(2) by (auto simp: with_loaded_def split: sum.splits prod.splits dest: Load_unstopped)
  obtain es s st0 where load: "Load (re_sha env) (re_snap env) None task st = (Inr (es, s), st0)"
    and f: "f es s st0 = (Inr e, st')"
    using assms(2) ctx by (auto simp: with_loaded_def split: sum.splits prod.splits)
  have lines: "log_lines st0 = log_lines st" using Load_lines [of "re_sha env" "re_snap env" None task st] load by simp
  then have "sound st0" using assms(1) by (simp add: sound_def)
  moreover have fst: "fst (Load (re_sha env) (re_snap env) None task st) = Inr (es, s)" using load by simp
  moreover have "s = fold product_step es Initial"
    by (rule Load_later [OF assms(1) fst, of "[]"]) simp
  ultimately show ?thesis using that f lines ctx by simp
qed

lemma emit_later_success:
  assumes "sound st0" and "log_lines st0 = log_lines st"
    and load: "fst (Load (re_sha env) (re_snap env) None task st) = Inr (es0, s0)"
    and emit: "emit_later env sv ca task t (object kvs) source st0 = (Inr e, st')"
    and wf: "list_all (\<lambda>(_, v). wf_json v) kvs" "List.member known_event_types t"
  obtains es1 s1 s' where "s1 = fold product_step (es0 @ es1) Initial" "Project s1 e = Inr (Projection_Applied s')"
    "sound st'" "fst (Load (re_sha env) (re_snap env) None task st') = Inr (es0 @ es1 @ [e], s')"
    "e_type e = t" "e_payload e = object kvs" "e_time e = re_format env (ca_now ca)" "e_kind e = EventKindKnown"
    "storable_event e"
proof -
  have load0: "fst (Load (re_sha env) (re_snap env) None task st0) = Inr (es0, s0)"
    using load Load_cong [OF assms(2), of "re_sha env" "re_snap env" task] by simp
  obtain rs ts where ts: "fst (Load (re_sha env) (re_snap env) None task (interleave env (ca_others ca) st0))
      = Inr (es0 @ map tx_event ts, replayed s0 ts)" "es0 = map tx_event rs" "s0 = replayed Initial rs"
    unfolding interleave_def by (rule Load_later [OF assms(1) load0])
  from interleave_sound [OF assms(1)] emit [unfolded emit_later_def] wf show ?thesis
  proof (cases rule: emit_success)
    case (1 es s s')
    then show ?thesis using that [of s "map tx_event ts" s'] ts by simp
  qed
qed

text \<open>A known event that was applied, on the snapshot its handler has worked on.\<close>

lemma Project_known:
  assumes "Project s e = Inr (Projection_Applied s')" and "e_kind e = EventKindKnown"
  obtains c where "apply_known_event e ((at_event e c s)\<lparr>ps_timeline := ps_timeline s @ [e]\<rparr>) = Inr s'"
  using assms by (cases rule: Project_applied) (auto simp: EventKindKnown_def EventKindUnknown_def)

section \<open>Control\<close>

lemma parse_int64_json_int:
  assumes "- (2 ^ 63) \<le> i" and "i < 2 ^ 63"
  obtains s where "json_int i = JNum s" "parse_int64 s = Some i"
proof (cases "i < 0")
  case True
  then show ?thesis
    using digits_digits [of "nat (- i)"] nat_of_digits_digits [of "nat (- i)"] assms
    by (intro that [of "CHR ''-'' # digits (nat (- i))"]) (simp_all add: json_int_def int_text_def parse_int64_def strip_sign_def Let_def)
next
  case False
  have "\<not> js_digit (CHR ''-'')" "\<not> js_digit (CHR ''+'')" by (simp_all add: js_digit_def)
  then have "strip_sign (digits (nat i)) = (False, digits (nat i))"
    using digits_digits [of "nat i"] by (cases "digits (nat i)") (auto simp: strip_sign_def)
  then show ?thesis
    using False digits_digits [of "nat i"] nat_of_digits_digits [of "nat i"] assms
    by (intro that [of "digits (nat i)"]) (simp_all add: json_int_def int_text_def parse_int64_def Let_def)
qed

lemma lease_payload:
  assumes "e_payload e = object [(''lease'', json_lease \<lparr>cl_client = client, cl_revision = wrap64 r\<rparr>)]"
  shows "payload e ''lease'' dec_lease no_lease = Some \<lparr>cl_client = client, cl_revision = wrap64 r\<rparr>"
proof -
  obtain s where "json_int (wrap64 r) = JNum s" "parse_int64 s = Some (wrap64 r)"
    using parse_int64_json_int wrap64_range by metis
  then show ?thesis
    using assms
    by (simp add: payload_def object_def json_object_def json_lease_def dec_struct_def match_field_def field_def
        dec_lease_def no_lease_def dec_string_def dec_int_def)
qed

lemma highest_nonneg: "0 \<le> ps_highest (fold product_step es Initial)"
  using product_lease.rel_run [of Initial es] by (simp add: fenced_def Initial_def)

lemma known_control:
  assumes "apply_known_event e s = Inr s'" and "e_type e \<in> {''control.acquired'', ''control.transferred''}"
  shows "apply_control e s = Inr s'"
  using assms by (auto simp: apply_known_event_def handlers_def)

text \<open>What the two control events leave.\<close>

lemma taken:
  assumes "Project s e = Inr (Projection_Applied s')" and "e_kind e = EventKindKnown"
    and "e_type e \<in> {''control.acquired'', ''control.transferred''}"
    and "payload e ''lease'' dec_lease no_lease = Some l"
  shows "ps_lease s' = Some l" and "ps_highest s' = cl_revision l" and "ps_highest s < cl_revision l"
proof -
  obtain c where "apply_known_event e ((at_event e c s)\<lparr>ps_timeline := ps_timeline s @ [e]\<rparr>) = Inr s'"
    using Project_known [OF assms(1,2)] .
  then have "apply_control e ((at_event e c s)\<lparr>ps_timeline := ps_timeline s @ [e]\<rparr>) = Inr s'"
    using known_control assms(3) by blast
  then show "ps_lease s' = Some l" "ps_highest s' = cl_revision l" "ps_highest s < cl_revision l"
    using assms(3,4) by (auto simp: apply_control_def at_event_def split: if_splits)
qed

lemma TakeControl_success:
  assumes sound: "sound st" and take: "TakeControl env sv ca task client expected st = (Inr e, st')"
  obtains es s where "fst (Load (re_sha env) (re_snap env) None task st') = Inr (es, s)" "sound st'"
    "s = fold product_step es Initial" "ps_lease s = Some \<lparr>cl_client = client, cl_revision = expected + 1\<rparr>"
    "ps_highest s = expected + 1"
  using sound take [unfolded TakeControl_def]
proof (cases rule: with_loaded_success)
  case (1 es0 s0 st0)
  let ?t = "if 0 < expected then ''control.transferred'' else ''control.acquired''"
  let ?l = "\<lparr>cl_client = client, cl_revision = wrap64 (expected + 1)\<rparr>"
  have highest: "ps_highest s0 = expected"
    and emit: "emit_later env sv ca task ?t (object [(''lease'', json_lease ?l)]) no_source st0 = (Inr e, st')"
    using 1(3) by (auto simp: emitted_def split: sum.splits prod.splits if_splits store_error.splits project_error.splits)
  have wf: "list_all (\<lambda>(_, v). wf_json v) [(''lease'', json_lease ?l)]" "List.member known_event_types ?t"
    using json_object_wf [of "[(''clientId'', JStr client), (''revision'', json_int (wrap64 (expected + 1)))]"]
    by (simp_all add: json_lease_def object_def json_int_def int_text_def known_event_types_def)
  from 1(4,5,1) emit wf show ?thesis
  proof (cases rule: emit_later_success)
    case (1 es1 s1 s')
    have l: "ps_lease s' = Some ?l" "ps_highest s' = wrap64 (expected + 1)" "ps_highest s1 < wrap64 (expected + 1)"
      using taken [OF 1(2,8) _ lease_payload [OF 1(6)]] 1(5) by (auto split: if_splits)
    have "ps_highest s0 \<le> ps_highest s1" "0 \<le> ps_highest s0"
      using product_lease.rel_run [of s0 es1] highest_nonneg [of es0] 1(1) \<open>s0 = fold product_step es0 Initial\<close>
      by (simp_all add: fenced_def)
    then have "wrap64 (expected + 1) = expected + 1" using l(3) highest by (auto simp: wrap64_def split: if_splits)
    moreover have "s' = fold product_step (es0 @ es1 @ [e]) Initial" using 1(1,2) by (simp add: product_step_def)
    ultimately show ?thesis using that [of "es0 @ es1 @ [e]" s'] 1(3,4) l by simp
  qed
qed

text \<open>control is taken at most once at a revision. Once \<open>TakeControl\<close> has succeeded for a client that expected
  some revision, whatever other goroutines did between its load and its commit and whatever is committed
  later: every later load shows a higher revision, the lease of the next revision belongs to that client, and
  every other attempt that expects the same revision is told that it is stale.
\<close>

theorem control_is_taken_once:
  assumes "TakeControl env sv ca task client expected (interleave env ops Map.empty) = (Inr e, st)"
  shows "\<exists>es s. fst (Load (re_sha env) (re_snap env) None task (interleave env later st)) = Inr (es, s)
    \<and> expected < ps_highest s
    \<and> (\<forall>l. ps_lease s = Some l \<longrightarrow> l = \<lparr>cl_client = client, cl_revision = expected + 1\<rparr> \<or> expected + 1 < cl_revision l)
    \<and> (ca_ctx other = None \<longrightarrow>
         fst (TakeControl env sv2 other task client2 expected (interleave env later st)) = Inl Stale_Lease)"
proof -
  have "sound (interleave env ops Map.empty)" by (rule interleave_sound [OF sound_empty])
  then obtain es s where taken: "fst (Load (re_sha env) (re_snap env) None task st) = Inr (es, s)" "sound st"
      "ps_lease s = Some \<lparr>cl_client = client, cl_revision = expected + 1\<rparr>" "ps_highest s = expected + 1"
    using TakeControl_success [OF _ assms] by metis
  obtain ts where later: "fst (Load (re_sha env) (re_snap env) None task (interleave env later st))
      = Inr (es @ map tx_event ts, replayed s ts)"
    using Load_later [OF taken(2,1), of later] unfolding interleave_def by metis
  have "fenced s (replayed s ts)" by (rule product_lease.rel_run)
  then have "expected < ps_highest (replayed s ts)"
    "\<forall>l. ps_lease (replayed s ts) = Some l \<longrightarrow> l = \<lparr>cl_client = client, cl_revision = expected + 1\<rparr> \<or> expected + 1 < cl_revision l"
    using taken(3,4) by (auto simp: fenced_def)
  moreover have "fst (TakeControl env sv2 other task client2 expected (interleave env later st)) = Inl Stale_Lease"
    if "ca_ctx other = None" "expected < ps_highest (replayed s ts)"
    using later that by (auto simp: TakeControl_def with_loaded_def split: prod.splits sum.splits)
  ultimately show ?thesis using later by (intro exI conjI impI) auto
qed

section \<open>Approvals\<close>

lemma known_approval:
  assumes "apply_known_event e s = Inr s'" and "e_type e \<in> {''approval.requested'', ''approval.resolved''}"
  shows "apply_approval e s = Inr s'"
  using assms by (auto simp: apply_known_event_def handlers_def)

lemma applied_approval:
  assumes "Project s e = Inr (Projection_Applied s')" and "e_kind e = EventKindKnown"
    and "e_type e \<in> {''approval.requested'', ''approval.resolved''}"
  obtains s1 where "apply_approval e s1 = Inr s'" "ps_approvals s1 = ps_approvals s"
proof -
  obtain c where "apply_known_event e ((at_event e c s)\<lparr>ps_timeline := ps_timeline s @ [e]\<rparr>) = Inr s'"
    using Project_known [OF assms(1,2)] .
  then show ?thesis using that known_approval assms(3) by (fastforce simp: at_event_def)
qed

text \<open>A payload of two strings with names that differ up to case.\<close>

lemma resolved_payload:
  assumes "e_payload e = object [(''challengeId'', JStr cid), (''decision'', JStr d)]"
  shows "p_string e ''challengeId'' = Some cid" and "p_string e ''decision'' = Some d"
  using assms
  by (simp_all add: payload_def object_def json_object_def dec_struct_def match_field_def field_def dec_string_def
      fold_name.simps)

text \<open>Only the two decisions of the protocol pass the rules of an event.\<close>

lemma resolved_decision:
  assumes "storable_event e" and "e_type e = ''approval.resolved''"
    and "e_payload e = object [(''challengeId'', JStr cid), (''decision'', JStr d)]"
  shows "d \<in> {''allow_once'', ''deny''}"
proof -
  let ?p = "json_object [(''challengeId'', JStr cid), (''decision'', JStr d)]"
  have "valid_known_payload ''approval.resolved'' ?p"
    using assms by (auto simp: storable_event_def well_formed_event_def object_def known_event_types_def)
  then have "string_with (List.member [''allow_once'', ''deny'']) (get ?p ''decision'')"
    by (simp add: rule_defs)
  then show ?thesis by (auto simp: json_object_def get_def string_with_def split: if_splits)
qed

lemma ResolveApproval_success:
  assumes sound: "sound st" and res: "ResolveApproval env sv ca task cid decision st = (Inr e, st')"
  obtains es0 s0 a expires es s a1 where "fst (Load (re_sha env) (re_snap env) None task st) = Inr (es0, s0)"
    "ps_approvals s0 cid = Some a" "ap_decision a = []" "approvalScopeActive es0 cid"
    "parse_rfc3339 (ap_expires (ap_challenge a)) = Some expires" "ca_checked ca \<le> expires"
    "fst (Load (re_sha env) (re_snap env) None task st') = Inr (es, s)" "sound st'"
    "ps_approvals s cid = Some a1" "ap_challenge a1 = ap_challenge a" "ap_decision a1 = decision"
    "decision \<in> {''allow_once'', ''deny''}"
  using sound res [unfolded ResolveApproval_def]
proof (cases rule: with_loaded_success)
  case (1 es0 s0 st0)
  obtain a expires where a: "ps_approvals s0 cid = Some a" "ap_decision a = []" "approvalScopeActive es0 cid"
      "parse_rfc3339 (ap_expires (ap_challenge a)) = Some expires" "ca_checked ca \<le> expires"
    and emit: "emit_later env sv ca task ''approval.resolved''
      (object [(''challengeId'', JStr cid), (''decision'', JStr decision)]) (no_source\<lparr>es_agent := ap_agent (ap_challenge a)\<rparr>) st0
        = (Inr e, st')"
    using 1(3) by (auto simp: emitted_def not_less
        split: option.splits sum.splits prod.splits if_splits store_error.splits project_error.splits)
  have wf: "list_all (\<lambda>(_, v). wf_json v) [(''challengeId'', JStr cid), (''decision'', JStr decision)]"
    "List.member known_event_types ''approval.resolved''"
    by (simp_all add: known_event_types_def)
  note loaded = 1(1,2) a
  from 1(4,5,1) emit wf show ?thesis
  proof (cases rule: emit_later_success)
    case (1 es1 s1 s')
    have d: "decision \<in> {''allow_once'', ''deny''}" using resolved_decision [OF 1(9,5,6)] .
    obtain s2 where s2: "apply_approval e s2 = Inr s'" "ps_approvals s2 = ps_approvals s1"
      using applied_approval [OF 1(2,8)] 1(5) by auto
    then obtain a2 where a2: "ps_approvals s1 cid = Some a2" "ps_approvals s' cid = Some (a2\<lparr>ap_decision := decision\<rparr>)"
      using resolved_payload [OF 1(6)] 1(5) by (auto simp: apply_approval_def split: option.splits if_splits)
    have "settled s0 s1" using product_settled.rel_run [of s0 es1] 1(1) loaded(2) by simp
    then have "ap_challenge a2 = ap_challenge a" using loaded(3) a2(1) unfolding settled_def by fastforce
    then show ?thesis using that [OF loaded(1,3,4,5,6,7) 1(4,3) a2(2)] d by simp
  qed
qed

text \<open>C24: a resolution is final. When \<open>ResolveApproval\<close> succeeds, its decision is one of the two of the protocol;
  whatever is committed later, every load shows the approval with this decision, and every other attempt to
  resolve it, with any decision, is rejected as a replay.
\<close>

theorem approval_resolution_is_final:
  assumes "ResolveApproval env sv ca task cid decision (interleave env ops Map.empty) = (Inr e, st)"
  shows "decision \<in> {''allow_once'', ''deny''}
    \<and> (\<exists>es s a. fst (Load (re_sha env) (re_snap env) None task (interleave env later st)) = Inr (es, s)
        \<and> ps_approvals s cid = Some a \<and> ap_decision a = decision)
    \<and> (ca_ctx other = None \<longrightarrow>
         fst (ResolveApproval env sv2 other task cid decision2 (interleave env later st)) = Inl Approval_Replay)"
proof -
  have "sound (interleave env ops Map.empty)" by (rule interleave_sound [OF sound_empty])
  then obtain es s a where res: "fst (Load (re_sha env) (re_snap env) None task st) = Inr (es, s)" "sound st"
      "ps_approvals s cid = Some a" "ap_decision a = decision" "decision \<in> {''allow_once'', ''deny''}"
    using ResolveApproval_success [OF _ assms] by metis
  obtain ts where later: "fst (Load (re_sha env) (re_snap env) None task (interleave env later st))
      = Inr (es @ map tx_event ts, replayed s ts)"
    using Load_later [OF res(2,1), of later] unfolding interleave_def by metis
  have "settled s (replayed s ts)" by (rule product_settled.rel_run)
  moreover have "ap_decision a \<noteq> []" using res(4,5) by auto
  ultimately have a: "ps_approvals (replayed s ts) cid = Some a" using res(3) unfolding settled_def by fastforce
  have "fst (ResolveApproval env sv2 other task cid decision2 (interleave env later st)) = Inl Approval_Replay"
    if "ca_ctx other = None"
    using later that a res(4,5) by (auto simp: ResolveApproval_def with_loaded_def split: prod.splits sum.splits)
  then show ?thesis using later a res(4,5) by auto
qed

section \<open>Scopes\<close>

definition requests_approval :: "string \<Rightarrow> event \<Rightarrow> bool" where
  "requests_approval cid e \<longleftrightarrow>
     e_type e = ''approval.requested'' \<and> map_option ap_id (payload e ''challenge'' dec_challenge no_challenge) = Some cid"

definition scope_event :: "event \<Rightarrow> bool" where
  "scope_event e \<longleftrightarrow> e_type e = ''scope.proposed'' \<or> e_type e = ''scope.confirmed''"

definition confirms_scope :: "string \<Rightarrow> event \<Rightarrow> bool" where
  "confirms_scope sid e \<longleftrightarrow>
     e_type e = ''scope.confirmed'' \<and> map_option sc_id (payload e ''scope'' dec_scope no_scope) = Some sid"

lemma scope_active_found: "scope_active es cid True \<longleftrightarrow> \<not> list_ex scope_event es"
  by (induction es) (auto simp: scope_event_def)

lemma confirmed_backwards_spec:
  "confirmed_backwards es sid \<longleftrightarrow>
     (case dropWhile (\<lambda>e. \<not> scope_event e) es of [] \<Rightarrow> False | e # _ \<Rightarrow> confirms_scope sid e)"
  by (induction es) (auto simp: scope_event_def confirms_scope_def split: option.splits)

lemma approval_active_spec:
  "approvalScopeActive es cid \<longleftrightarrow>
     (case dropWhile (\<lambda>e. \<not> requests_approval cid e) es of
        [] \<Rightarrow> False
      | _ # later \<Rightarrow> \<not> list_ex scope_event later)"
  unfolding approvalScopeActive_def
  by (induction es) (auto simp: requests_approval_def scope_active_found split: option.splits)

text \<open>the two readings of the event log. An approval's scope is active exactly when the approval was requested
  and no scope was proposed or confirmed after its first request; a scope counts as confirmed exactly when the
  last scope event of the log is a confirmation of it.
\<close>

theorem scope_readings_spec:
  "(approvalScopeActive es cid \<longleftrightarrow>
     (case dropWhile (\<lambda>e. \<not> requests_approval cid e) es of
        [] \<Rightarrow> False
      | _ # later \<Rightarrow> \<not> list_ex scope_event later))
   \<and> (scopeWasConfirmed es sid \<longleftrightarrow>
     (case dropWhile (\<lambda>e. \<not> scope_event e) (rev es) of [] \<Rightarrow> False | e # _ \<Rightarrow> confirms_scope sid e))"
  by (simp add: approval_active_spec scopeWasConfirmed_def confirmed_backwards_spec)

text \<open>
  A change of the scope that is committed between the check of \<open>RequestApproval\<close> and the commit of its event
  lies before that event in the log, where the resolution does not look for it.
\<close>

lemma scope_change_before_the_request:
  assumes "list_all (\<lambda>e. \<not> requests_approval cid e) es" and "requests_approval cid e"
  shows "approvalScopeActive (es @ [e]) cid"
  using assms unfolding approvalScopeActive_def
  by (induction es) (auto simp: requests_approval_def split: option.splits)

end
