(* ===== verification/Store_Nesting.thy ===== *)
theory Store_Nesting
  imports Store_Runs
begin

text \<open>
  The nesting of what the store writes. \<open>encoding/json\<close> writes values of any nesting but refuses to read a text
  with more than \<open>max_nesting_depth\<close> = 10000 levels. A line of a log holds the snapshot, and in its timeline
  the event, four levels above the event's payload; so a payload that \<open>Commit\<close> can read by itself may make
  a line that no load can read. Here every operation finds the lines as they can be read (\<open>nesting_step\<close>).

  With payloads of at most 9,996 levels nothing changes by that and every log loads (\<open>every_log_loads\<close>); a
  deeper one is committed, and the log is lost (\<open>deep_payload_ruins_log\<close>). The statements of the other
  theories are about runs of \<open>store_step\<close>, which are the same for such payloads (\<open>shallow_run\<close>).
\<close>

section \<open>Levels\<close>

fun json_depth :: "json \<Rightarrow> nat" where
  "json_depth (JArr js) = Suc (fold max (map json_depth js) 0)"
| "json_depth (JObj kvs) = Suc (fold max (map (\<lambda>(_, v). json_depth v) kvs) 0)"
| "json_depth v = 0"

definition event_depth :: "event \<Rightarrow> nat" where
  "event_depth e = json_depth (JObj (event_object e))"

text \<open>
  A record is an object of the event and the snapshot, the events of which are in the arrays \<open>timeline\<close> and
  \<open>rawEvents\<close>. Of the typed members of a snapshot a report nests deepest, 7 levels in the record, apart from
  the data of evidence and the attributes of assets: those were read out of payloads of events of the
  timeline, where they lie at least two levels deeper below the record.
\<close>

definition record_depth :: "transaction \<Rightarrow> nat" where
  "record_depth r = fold max
     (Suc (event_depth (tx_event r)) # map (\<lambda>e. 3 + event_depth e) (ps_timeline (tx_snapshot r) @ ps_raw (tx_snapshot r))) 7"

definition read_line :: "log_line \<Rightarrow> log_line" where
  "read_line l = (case l of Line r \<Rightarrow> if record_depth r \<le> max_nesting_depth then Line r else Garbage | _ \<Rightarrow> l)"

definition as_read :: "store \<Rightarrow> store" where
  "as_read st = (\<lambda>path. map_option (\<lambda>f. f\<lparr>lf_lines := map read_line (lf_lines f)\<rparr>) (st path))"

definition nesting_step :: "(string \<Rightarrow> string) \<Rightarrow> (product_state \<Rightarrow> 'c) \<Rightarrow> store_op \<Rightarrow> store \<Rightarrow> store" where
  "nesting_step digest snap opn st = store_step digest snap opn (as_read st)"

text \<open>The payload that an operation brings.\<close>

definition op_payload :: "store_op \<Rightarrow> json option" where
  "op_payload opn =
     (case opn of
        Load_Op _ _ \<Rightarrow> None
      | Commit_Op _ _ draft _ \<Rightarrow> de_payload draft
      | External_Op _ _ e \<Rightarrow> Some (e_payload e))"

definition shallow_op :: "store_op \<Rightarrow> bool" where
  "shallow_op opn \<longleftrightarrow> (case op_payload opn of None \<Rightarrow> True | Some p \<Rightarrow> json_depth p + 4 \<le> max_nesting_depth)"

section \<open>Bounds\<close>

lemma fold_max_le: "fold max ns m \<le> (n :: nat) \<longleftrightarrow> m \<le> n \<and> (\<forall>x \<in> set ns. x \<le> n)"
  by (induction ns arbitrary: m) auto

lemma object_depth_le: "json_depth (JObj kvs) \<le> Suc n \<longleftrightarrow> (\<forall>(_, v) \<in> set kvs. json_depth v \<le> n)"
  by (auto simp: fold_max_le)

lemma array_depth_le: "json_depth (JArr js) \<le> Suc n \<longleftrightarrow> (\<forall>v \<in> set js. json_depth v \<le> n)"
  by (simp add: fold_max_le)

lemma member_depth: "(k, v) \<in> set kvs \<Longrightarrow> json_depth v < json_depth (JObj kvs)"
  using object_depth_le [of kvs "fold max (map (\<lambda>(_, v). json_depth v) kvs) 0"] by fastforce

lemma put_keys_in: "x \<in> set (fold (\<lambda>(k, v). put_key k v) kvs acc) \<Longrightarrow> x \<in> set kvs \<or> x \<in> set acc"
proof (induction kvs arbitrary: acc)
  case (Cons kv kvs)
  then show ?case using Cons.IH [of "put_key (fst kv) (snd kv) acc"] by (cases kv) (auto dest: put_key_in)
qed simp

lemma json_object_in: "x \<in> set (json_object kvs) \<Longrightarrow> x \<in> set kvs"
  unfolding json_object_def by (auto dest: put_keys_in)

lemma normalise_depth: "json_depth (normalise v) \<le> json_depth v"
proof (induction v)
  case (JArr js)
  have "\<forall>v \<in> set js. json_depth (normalise v) \<le> fold max (map json_depth js) 0"
    using JArr fold_max_le [of "map json_depth js" 0 "fold max (map json_depth js) 0"]
    by (fastforce intro: order_trans)
  then show ?case by (simp add: fold_max_le)
next
  case (JObj kvs)
  have "json_depth (normalise v) \<le> fold max (map (\<lambda>(_, v). json_depth v) kvs) 0" if "(k, v) \<in> set kvs" for k v
    using JObj [OF that, of v] member_depth [OF that] by simp
  then show ?case by (auto simp: fold_max_le dest!: put_keys_in)
qed simp_all

lemma source_depth: "json_depth (source_object s) \<le> 1"
  unfolding source_object_def One_nat_def object_depth_le by (auto simp: omit_def dest!: json_object_in split: if_splits)

lemma origin_depth: "json_depth (origin_object r) \<le> 1"
  unfolding origin_object_def One_nat_def object_depth_le by (auto simp: json_int_def dest!: json_object_in)

lemma event_depth_le:
  assumes "json_depth (e_payload e) \<le> n" and "1 \<le> n"
  shows "event_depth e \<le> Suc n"
proof -
  have "json_depth (normalise (e_payload e)) \<le> n" using normalise_depth assms(1) by (rule order_trans)
  moreover have "json_depth (source_object s) \<le> n" "json_depth (origin_object r) \<le> n" for s r
    using source_depth [of s] origin_depth [of r] assms(2) by simp_all
  ultimately show ?thesis
    unfolding event_depth_def object_depth_le event_object_def
    by (auto simp: json_int_def dest!: json_object_in split: option.splits)
qed

lemma event_depth_ge: "json_depth (normalise (e_payload e)) < event_depth e"
proof -
  have "map_of (event_object e) ''payload'' = Some (normalise (e_payload e))"
    by (auto simp: event_object_def json_object_def split: option.splits)
  then show ?thesis unfolding event_depth_def by (rule member_depth [OF map_of_SomeD])
qed

section \<open>Runs with shallow payloads\<close>

text \<open>All events of the logs have payloads of at most so many levels.\<close>

definition payloads_within :: "nat \<Rightarrow> store \<Rightarrow> bool" where
  "payloads_within n st \<longleftrightarrow> (\<forall>path r. Line r \<in> set (log_lines st path) \<longrightarrow> json_depth (e_payload (tx_event r)) \<le> n)"

lemma payloads_same: "log_lines st' = log_lines st \<Longrightarrow> payloads_within n st \<Longrightarrow> payloads_within n st'"
  by (simp add: payloads_within_def)

lemma payloads_extended:
  assumes "extends_log st path r st'" and "payloads_within n st" and "json_depth (e_payload (tx_event r)) \<le> n"
  shows "payloads_within n st'"
proof -
  obtain rs where rs: "log_lines st path = map Line rs" "log_lines st' = (log_lines st)(path := map Line (rs @ [r]))"
    using assms(1) by (auto simp: extends_log_def)
  have "Line q \<in> set (log_lines st p) \<or> q = r" if "Line q \<in> set (log_lines st' p)" for p q
    using that rs by (auto split: if_splits)
  then show ?thesis using assms(2,3) unfolding payloads_within_def by blast
qed

lemma store_step_payloads:
  assumes "sound st" and "payloads_within n st" and "\<forall>p. op_payload opn = Some p \<longrightarrow> json_depth p \<le> n"
  shows "payloads_within n (store_step digest snap opn st)"
proof (cases opn)
  case (Load_Op ctx task)
  then show ?thesis using payloads_same [OF Load_lines assms(2)] by simp
next
  case (Commit_Op out ctx draft eid)
  obtain res st' where c: "Commit digest snap out ctx draft eid st = (res, st')" by fastforce
  from assms(1) c have "payloads_within n st'"
  proof (cases rule: Commit_cases)
    case (added path e s)
    obtain p where "op_payload opn = Some p" "e_payload e = normalise p"
      using added(4) Commit_Op by (auto simp: op_payload_def)
    then have "json_depth (e_payload e) \<le> n" using assms(3) normalise_depth [of p] by fastforce
    then show ?thesis using payloads_extended [OF added(3) assms(2)] by simp
  qed (use payloads_same assms(2) in blast)
  then show ?thesis using Commit_Op c by simp
next
  case (External_Op out ctx candidate)
  obtain res st' where c: "CommitExternal digest snap out ctx candidate st = (res, st')" by fastforce
  from assms(1) c have "payloads_within n st'"
  proof (cases rule: CommitExternal_cases)
    case (added path e s)
    have "json_depth (e_payload e) \<le> n"
      using added(3) assms(3) External_Op normalise_depth [of "e_payload candidate"] by (fastforce simp: op_payload_def)
    then show ?thesis using payloads_extended [OF added(2) assms(2)] by simp
  qed (use payloads_same assms(2) in blast)
  then show ?thesis using External_Op c by simp
qed

text \<open>The events a record repeats are those of its log, so a line nests four levels above its deepest payload.\<close>

lemma record_depth_le:
  assumes "chain Initial (rs @ [r])" and "\<forall>q \<in> set (rs @ [r]). json_depth (e_payload (tx_event q)) \<le> n" and "3 \<le> n"
  shows "record_depth r \<le> n + 4"
proof -
  have "replayed Initial (rs @ [r]) = tx_snapshot r"
    using assms(1) appends_step [of "replayed Initial rs" r] by (simp add: chain_snoc)
  then have stored: "set (ps_timeline (tx_snapshot r) @ ps_raw (tx_snapshot r)) = tx_event ` set (rs @ [r])"
    using chain_history [OF assms(1)] history_set [of "tx_snapshot r"] by simp
  have depth: "event_depth e \<le> Suc n" if "e \<in> tx_event ` set (rs @ [r])" for e
    using that assms(2,3) event_depth_le [of e n] by auto
  then have "\<forall>e \<in> set (ps_timeline (tx_snapshot r) @ ps_raw (tx_snapshot r)). 3 + event_depth e \<le> n + 4"
    unfolding stored by fastforce
  moreover have "event_depth (tx_event r) \<le> Suc n" using depth by simp
  ultimately show ?thesis using assms(3) by (simp add: record_depth_def fold_max_le)
qed

lemma line_in_log:
  assumes "sound st" and "Line r \<in> set (log_lines st path)"
  obtains rs where "chain Initial (rs @ [r])" "Line ` set (rs @ [r]) \<subseteq> set (log_lines st path)"
proof -
  obtain ts where ts: "log_lines st path = map Line ts" "chain Initial ts" using assms(1) by (rule sound_log)
  then obtain rs us where "ts = rs @ r # us" using assms(2) by (auto dest: split_list)
  then have "ts = (rs @ [r]) @ us" by simp
  then show ?thesis using that [of rs] ts chain_append [of Initial "rs @ [r]" us] by auto
qed

lemma as_read_shallow:
  assumes "sound st" and "payloads_within n st" and "3 \<le> n" and "n + 4 \<le> max_nesting_depth"
  shows "as_read st = st"
proof -
  have line: "read_line l = l" if l: "l \<in> set (log_lines st path)" for l path
  proof (cases l)
    case (Line r)
    obtain rs where rs: "chain Initial (rs @ [r])" "Line ` set (rs @ [r]) \<subseteq> set (log_lines st path)"
      using line_in_log [OF assms(1) l [unfolded Line]] .
    have "\<forall>q \<in> set (rs @ [r]). json_depth (e_payload (tx_event q)) \<le> n"
      using rs(2) assms(2) unfolding payloads_within_def by blast
    then have "record_depth r \<le> max_nesting_depth"
      using record_depth_le [OF rs(1) _ assms(3)] assms(4) by fastforce
    then show ?thesis by (simp add: read_line_def Line)
  qed (simp_all add: read_line_def)
  have "map_option (\<lambda>f. f\<lparr>lf_lines := map read_line (lf_lines f)\<rparr>) (st path) = st path" for path
  proof (cases "st path")
    case (Some f)
    then have "map read_line (lf_lines f) = lf_lines f"
      using line [of _ path] by (simp add: log_lines_present map_idI)
    then show ?thesis using Some by simp
  qed simp
  then show ?thesis by (simp add: as_read_def)
qed

lemma shallow_payload: "shallow_op opn \<Longrightarrow> op_payload opn = Some p \<Longrightarrow> json_depth p \<le> 9996"
  by (simp add: shallow_op_def max_nesting_depth_def)

lemma shallow_run:
  "\<forall>opn \<in> set ops. shallow_op opn \<Longrightarrow> sound st \<Longrightarrow> payloads_within 9996 st
     \<Longrightarrow> fold (nesting_step digest snap) ops st = fold (store_step digest snap) ops st
       \<and> payloads_within 9996 (fold (store_step digest snap) ops st)"
proof (induction ops arbitrary: st)
  case (Cons opn ops)
  have "as_read st = st" using as_read_shallow [OF Cons.prems(2,3)] by (simp add: max_nesting_depth_def)
  moreover have "sound (store_step digest snap opn st)"
    using store_step_grows [of st digest snap opn] Cons.prems(2) by (simp add: logs_grow_def)
  moreover have "payloads_within 9996 (store_step digest snap opn st)"
    using shallow_payload Cons.prems(1) by (intro store_step_payloads [OF Cons.prems(2,3)]) auto
  ultimately show ?case using Cons.IH Cons.prems(1) by (simp add: nesting_step_def)
qed simp

lemma payloads_empty: "payloads_within n Map.empty"
  by (simp add: payloads_within_def log_lines_absent)

text \<open>C10: whatever sequence of loads, commits and external commits of any tasks has run on an empty store, with
  reads that failed or contexts that ended and with appends that succeeded, failed, were cut short or were
  written and reported as failed: if no payload nested more than 9,996 levels, a load of a task that nothing
  stops succeeds, although each operation finds only what \<open>encoding/json\<close> can read again of what the others
  wrote. What the load returns are events with the cursors 1, 2, ... and the snapshot that replaying them
  gives, and they are exactly the history which that snapshot stores.
\<close>

theorem every_log_loads:
  assumes "TrimSpace task \<noteq> []" and "\<forall>opn \<in> set ops. shallow_op opn"
  shows "\<exists>es. fst (Load digest snap None task (as_read (fold (nesting_step digest snap) ops Map.empty)))
      = Inr (es, fold product_step es Initial)
    \<and> history (fold product_step es Initial) = es \<and> map e_cursor es = [1..int (length es)]"
proof -
  let ?st = "fold (store_step digest snap) ops Map.empty"
  have run: "fold (nesting_step digest snap) ops Map.empty = ?st" "payloads_within 9996 ?st"
    using shallow_run [OF assms(2) sound_empty payloads_empty, of digest snap] by simp_all
  have read: "as_read ?st = ?st" using as_read_shallow [OF sound_run run(2)] by (simp add: max_nesting_depth_def)
  obtain rs where rs: "chain Initial rs" "fst (Load digest snap None task ?st) = Inr (map tx_event rs, replayed Initial rs)"
    using Load_sound [OF sound_run assms(1)] by metis
  then show ?thesis
    unfolding run(1) read
    using chain_history [OF rs(1)] chain_cursors [OF rs(1)] by (intro exI [of _ "map tx_event rs"]) simp
qed

text \<open>A payload of 9,997 levels or more that is committed makes the log unreadable: the line nests too deep.\<close>

lemma load_lines_garbage:
  "Garbage \<in> set ls \<Longrightarrow> \<exists>err. load_lines snap ls es s = Inl err"
proof (induction snap ls es s rule: load_lines.induct)
  case (4 snap r ls es s)
  then show ?case by (auto split: sum.splits projection.splits)
qed simp_all

theorem deep_payload_ruins_log:
  assumes "sound st" and "Commit digest snap out ctx draft eid st = (Inr (e, s), st')"
    and "max_nesting_depth < json_depth (e_payload e) + 4"
  shows "\<exists>err. fst (Load digest snap None (de_task draft) (as_read st')) = Inl err"
proof -
  obtain path where path: "transactionPath digest (de_task draft) = Some path"
      "extends_log st path \<lparr>tx_event = e, tx_snapshot = s\<rparr> st'"
      "map_option normalise (de_payload draft) = Some (e_payload e)"
    using assms(1,2) by (cases rule: Commit_cases) auto
  let ?r = "\<lparr>tx_event = e, tx_snapshot = s\<rparr>"
  obtain rs where rs: "chain Initial (rs @ [?r])" "log_lines st' = (log_lines st)(path := map Line (rs @ [?r]))"
    using path(2) by (auto simp: extends_log_def)
  have "replayed Initial (rs @ [?r]) = s"
    using rs(1) appends_step [of "replayed Initial rs" ?r] by (simp add: chain_snoc)
  then have "e \<in> set (ps_timeline s @ ps_raw s)"
    using chain_history [OF rs(1)] history_set [of s] by auto
  then have "3 + event_depth e \<le> record_depth ?r"
    using fold_max_le [of "Suc (event_depth e) # map (\<lambda>e. 3 + event_depth e) (ps_timeline s @ ps_raw s)" 7 "record_depth ?r"]
    by (auto simp: record_depth_def)
  moreover have "storable_event e" using rs(1) by (simp add: chain_snoc appends_def)
  then have "normalise (e_payload e) = e_payload e" 
    by (intro normalise_wf) (auto simp: storable_event_def well_formed_event_def split: json.splits)
  then have "json_depth (e_payload e) < event_depth e" using event_depth_ge [of e] by simp
  ultimately have "read_line (Line ?r) = Garbage" using assms(3) by (simp add: read_line_def)
  moreover have "Line ?r \<in> set (log_lines st' path)" using rs(2) by simp
  moreover have lines: "log_lines (as_read st') p = map read_line (log_lines st' p)" for p
    by (cases "st' p") (simp_all add: as_read_def log_lines_present log_lines_absent)
  ultimately have "Garbage \<in> set (log_lines (as_read st') path)" by (metis image_eqI list.set_map)
  then show ?thesis
    using loadLocked_result [OF path(1), of snap "as_read st'"] load_lines_garbage by (simp add: Load_def)
qed

end
