(* ===== verification/Product_Witnesses.thy ===== *)
theory Product_Witnesses
  imports Terminal_Properties
begin

text \<open>
  Concrete event streams on which the properties of snapshots apply, and four behaviours of the code that
  its names and checks do not lead one to expect.
\<close>

section \<open>Evaluation\<close>

lemma round_double_one: "round_double 0 = Some 0" "round_double 1 = Some 1"
  using round_double_int [of 0] round_double_int [of 1] by simp_all

lemma round_double_numeral: "numeral k < (2 ^ 53 :: int) \<Longrightarrow> round_double (numeral k) = Some (numeral k)"
  using round_double_int [of "numeral k"] by simp

lemma canon_int_small: "0 \<le> i \<Longrightarrow> i < 2 ^ 53 \<Longrightarrow> canon_int i = Some (CNum (False, of_int i))"
  using round_double_int [of i] by (simp add: canon_int_def float_of_int_def)

lemmas literal_eval =
  ParseFloat_def literal_value_def strip_sign_def Let_def js_digit_def nat_of_digits_def digit_val_def
  round_double_one round_double_numeral

lemmas payload_eval =
  payload_def dec_struct_def field_def match_field_def fold_name.simps dec_string_def dec_int_def dec_bool_def
  dec_slice_def parse_int64_def strip_sign_def js_digit_def nat_of_digits_def digit_val_def

lemmas project_eval =
  product_step_def Project_def Initial_def EventKindUnknown_def Let_def apply_known_event_def handlers_def

definition example_event :: "string \<Rightarrow> int \<Rightarrow> string \<Rightarrow> (string \<times> json) list \<Rightarrow> event" where
  "example_event eid cursor t p =
     \<lparr>e_schema = 1, e_id = eid, e_task = ''t'', e_cursor = cursor, e_time = ''2026-01-01T00:00:00Z'', e_type = t,
       e_source = \<lparr>es_runtime = ''r'', es_agent = [], es_tool_call = []\<rparr>, e_payload = JObj p,
       e_kind = ''known'', e_origin = None\<rparr>"

lemma example_fields [simp]:
  "e_type (example_event eid n t p) = t" "e_cursor (example_event eid n t p) = n"
  "e_kind (example_event eid n t p) = ''known''" "e_id (example_event eid n t p) = eid"
  "e_payload (example_event eid n t p) = JObj p" "e_task (example_event eid n t p) = ''t''"
  "e_time (example_event eid n t p) = ''2026-01-01T00:00:00Z''"
  by (simp_all add: example_event_def)

lemma example_canon:
  "0 \<le> n \<Longrightarrow> n < 2 ^ 53 \<Longrightarrow> canonical (JObj p) = Some c \<Longrightarrow> \<exists>x. canon_event (example_event eid n t p) = Some x"
  by (simp add: example_event_def canon_event_def canon_int_small del: canonical.simps)

section \<open>An approval\<close>

definition requested :: event where
  "requested = example_event ''e1'' 1 ''approval.requested'' [(''challenge'', JObj
     [(''action'', JStr ''run''), (''agentId'', JStr ''a''), (''expiresAt'', JStr ''2026-01-01T01:00:00Z''),
      (''id'', JStr ''c''), (''parameterDigest'', JStr ''d''), (''risk'', JStr ''high''), (''target'', JStr ''x'')])]"

definition resolved :: event where
  "resolved = example_event ''e2'' 2 ''approval.resolved''
     [(''challengeId'', JStr ''c''), (''decision'', JStr ''deny'')]"

definition denied :: approval_state where
  "denied = \<lparr>ap_challenge = \<lparr>ap_id = ''c'', ap_agent = ''a'', ap_action = ''run'', ap_target = ''x'',
     ap_digest = ''d'', ap_risk = ''high'', ap_expires = ''2026-01-01T01:00:00Z''\<rparr>, ap_decision = ''deny''\<rparr>"

lemma approval_payloads:
  "payload requested ''challenge'' dec_challenge no_challenge = Some (ap_challenge denied)"
  "p_string resolved ''challengeId'' = Some ''c''" "p_string resolved ''decision'' = Some ''deny''"
  by (simp_all add: requested_def resolved_def denied_def payload_eval dec_challenge_def no_challenge_def)

lemma approval_canons:
  obtains c1 c2 where "canon_event requested = Some c1" "canon_event resolved = Some c2"
proof -
  have "\<exists>x. canon_event requested = Some x" "\<exists>x. canon_event resolved = Some x"
    unfolding requested_def resolved_def by (rule example_canon; simp)+
  then show thesis using that by blast
qed

lemma approval_times: "\<not> time_or_zero ''2026-01-01T01:00:00Z'' < time_or_zero ''2026-01-01T00:00:00Z''"
  by (simp add: time_or_zero_def time_defs Let_def)

lemma approval_fields:
  "e_type requested = ''approval.requested''" "e_cursor requested = 1" "e_kind requested = ''known''"
  "e_id requested = ''e1''" "e_type resolved = ''approval.resolved''" "e_cursor resolved = 2"
  "e_kind resolved = ''known''" "e_id resolved = ''e2''" "e_time resolved = ''2026-01-01T00:00:00Z''"
  by (simp_all add: requested_def resolved_def)

lemmas approval_eval = project_eval approval_fields apply_approval_def approval_payloads approval_times denied_def

lemma approval_run: "ps_approvals (fold product_step [requested, resolved] Initial) ''c'' = Some denied"
  by (rule approval_canons) (simp add: approval_eval)

lemma approval_history: "requested \<in> set (history (fold product_step [requested] Initial))"
  unfolding history_set by (rule approval_canons) (simp add: approval_eval)

theorem redelivery_witness:
  "Project (fold product_step ([requested] @ [resolved]) Initial) requested
    = Inr (Projection_Duplicate (fold product_step ([requested] @ [resolved]) Initial))"
  by (rule redelivery_is_duplicate [OF approval_history])

theorem approval_witness:
  "ps_approvals (fold product_step ([requested, resolved] @ [resolved, requested]) Initial) ''c'' = Some denied
    \<and> list_ex (\<lambda>e. resolves e ''c'' denied) (ps_timeline (fold product_step [requested, resolved] Initial))"
  by (rule approval_decided_once [OF approval_run]) (simp add: denied_def)

section \<open>A draft\<close>

definition opened :: event where
  "opened = example_event ''e1'' 1 ''editor.draft.opened''
     [(''draft'', JObj [(''baseSha256'', JStr ''b''), (''id'', JStr ''d'')])]"

definition saved :: event where
  "saved = example_event ''e2'' 2 ''editor.draft.saved''
     [(''baseSha256'', JStr ''b''), (''draftId'', JStr ''d''), (''proposedByteLength'', JNum ''3''),
      (''proposedSha256'', JStr ''p''), (''revision'', JNum ''1'')]"

definition patched :: event where
  "patched = example_event ''e3'' 3 ''editor.patch.applied''
     [(''baseSha256'', JStr ''b''), (''draftId'', JStr ''d''), (''proposedSha256'', JStr ''p''),
      (''resultSha256'', JStr ''p''), (''reviewer'', JStr ''w''), (''revision'', JNum ''1'')]"

definition discarded :: event where
  "discarded = example_event ''e2'' 2 ''editor.draft.discarded'' [(''draftId'', JStr ''d''), (''reason'', JStr ''r'')]"

definition fresh_draft :: editor_draft where
  "fresh_draft = no_draft\<lparr>dr_id := ''d'', dr_base := ''b''\<rparr>"

lemma draft_payloads:
  "payload opened ''draft'' dec_draft no_draft = Some fresh_draft"
  "p_string saved ''draftId'' = Some ''d''" "p_int saved ''revision'' = Some 1"
  "p_string saved ''baseSha256'' = Some ''b''" "p_string saved ''proposedSha256'' = Some ''p''"
  "p_int saved ''proposedByteLength'' = Some 3"
  "p_string patched ''draftId'' = Some ''d''" "p_int patched ''revision'' = Some 1"
  "p_string patched ''baseSha256'' = Some ''b''" "p_string patched ''proposedSha256'' = Some ''p''"
  "p_string patched ''resultSha256'' = Some ''p''" "p_string patched ''reviewer'' = Some ''w''"
  "p_string discarded ''draftId'' = Some ''d''" "p_string discarded ''reason'' = Some ''r''"
  by (simp_all add: opened_def saved_def patched_def discarded_def fresh_draft_def payload_eval dec_draft_def no_draft_def)

lemma draft_canons:
  obtains c1 c2 c3 c4 where "canon_event opened = Some c1" "canon_event saved = Some c2"
    "canon_event patched = Some c3" "canon_event discarded = Some c4"
proof -
  have "\<exists>x. canon_event opened = Some x" "\<exists>x. canon_event saved = Some x" "\<exists>x. canon_event patched = Some x"
    "\<exists>x. canon_event discarded = Some x"
    unfolding opened_def saved_def patched_def discarded_def by (rule example_canon; simp add: literal_eval)+
  then show thesis using that by blast
qed

lemma draft_fields:
  "e_type opened = ''editor.draft.opened''" "e_cursor opened = 1" "e_kind opened = ''known''" "e_id opened = ''e1''"
  "e_type saved = ''editor.draft.saved''" "e_cursor saved = 2" "e_kind saved = ''known''" "e_id saved = ''e2''"
  "e_type patched = ''editor.patch.applied''" "e_cursor patched = 3" "e_kind patched = ''known''"
  "e_id patched = ''e3''" "e_type discarded = ''editor.draft.discarded''" "e_cursor discarded = 2"
  "e_kind discarded = ''known''" "e_id discarded = ''e2''"
  by (simp_all add: opened_def saved_def patched_def discarded_def)

lemma fresh_fields: "dr_id fresh_draft = ''d''" "dr_base fresh_draft = ''b''" "dr_references fresh_draft = []"
  by (simp_all add: fresh_draft_def no_draft_def)

lemmas draft_eval =
  project_eval draft_fields draft_defs draft_payloads put_draft_def fresh_fields editable_def

definition patched_draft :: editor_draft where
  "patched_draft = fresh_draft\<lparr>dr_status := ''applied'', dr_next := 2, dr_proposed := ''p'', dr_proposed_length := 3,
     dr_result := ''p'', dr_reviewer := ''w''\<rparr>"

definition discarded_draft :: editor_draft where
  "discarded_draft = fresh_draft\<lparr>dr_status := ''discarded'', dr_next := 1, dr_discard := ''r''\<rparr>"

lemma patch_run: "ps_drafts (fold product_step [opened, saved, patched] Initial) ''d'' = Some patched_draft"
  by (rule draft_canons) (simp add: draft_eval patched_draft_def)

lemma discard_run: "ps_drafts (fold product_step [opened, discarded] Initial) ''d'' = Some discarded_draft"
  by (rule draft_canons) (simp add: draft_eval discarded_draft_def)

theorem patch_witness:
  "list_ex (\<lambda>e. applies_patch e patched_draft \<and> dr_id patched_draft = ''d'')
     (ps_timeline (fold product_step [opened, saved, patched] Initial))"
  by (rule applied_patch_was_reviewed [OF patch_run]) (simp add: patched_draft_def)

theorem ended_witness:
  "ps_drafts (fold product_step ([opened, discarded] @ [saved, patched]) Initial) ''d'' = Some discarded_draft"
  by (rule ended_draft_is_final [OF discard_run]) (simp add: ended_def discarded_draft_def)

section \<open>Texts\<close>

lemma parse_value_num: "parse_value (numeral k) d s = parse_value (Suc (pred_numeral k)) d s"
  by (simp add: numeral_eq_Suc)

lemma parse_items_num: "parse_items pv (numeral k) s = parse_items pv (Suc (pred_numeral k)) s"
  by (simp add: numeral_eq_Suc)

lemma parse_members_num: "parse_members pv (numeral k) obj s = parse_members pv (Suc (pred_numeral k)) obj s"
  by (simp add: numeral_eq_Suc)

lemma parse_string_quote: "parse_string (CHR 0x22 # r) = Some ([], r)"
  by (subst parse_string.simps) simp

lemma parse_string_ascii:
  assumes "c \<noteq> CHR 0x22" "c \<noteq> CHR 0x5C" "32 \<le> code c" "code c < 128"
  shows "parse_string (c # r) = map_option (apfst ((#) c)) (parse_string r)"
proof -
  have "(@) [c] = (#) c" by (rule ext) simp
  then show ?thesis using assms by (subst parse_string.simps) simp
qed

lemmas parse_eval =
  decode_object_def decode_json_def parse_value_num parse_items_num parse_members_num parse_string_quote
  parse_string_ascii skip_space_def js_space_def max_nesting_depth_def parse_member_def js_digit_def
  span_digits_def parse_frac_def parse_exp_def parse_number_def Let_def parse_word_def HasPrefix_def

definition envelope :: "string \<Rightarrow> string \<Rightarrow> string \<Rightarrow> (string \<times> json) list \<Rightarrow> json_object" where
  "envelope eid cursor t p =
     [(''cursor'', JNum cursor), (''eventId'', JStr eid), (''occurredAt'', JStr ''2026-01-01T00:00:00Z''),
      (''payload'', JObj p), (''schemaVersion'', JNum ''1''), (''source'', JObj [(''runtimeId'', JStr ''r'')]),
      (''taskId'', JStr ''t''), (''type'', JStr t)]"

lemma safe_one: "safe_integer (JNum ''1'') = Some 1"
  by (simp add: safe_integer_def literal_eval max_safe_integer_def)

lemma example_time: "valid_timestamp ''2026-01-01T00:00:00Z''"
  by (simp add: valid_timestamp_def time_defs Let_def)

lemma validate_envelope:
  assumes "safe_integer (JNum cursor) = Some n" "1 \<le> n" "eid \<noteq> []" "t \<noteq> []" "valid_json_value (JObj p)"
    and "List.member known_event_types t" "valid_known_payload t p"
  shows "validate_object (envelope eid cursor t p) = Inr (example_event eid n t p)"
proof -
  have "is_number (JNum cursor)" "is_number (JNum ''1'')"
    using assms(1) safe_one by (auto simp: is_number_def safe_integer_def split: option.splits)
  then have "valid_json_value (JObj (envelope eid cursor t p))"
    using assms(5) by (simp add: envelope_def)
  then show ?thesis
    using assms(1-4,6,7) safe_one example_time
    by (simp add: validate_object_def envelope_def get_def non_empty_string_def valid_source_def optional_string_def
        read_origin_def SchemaVersion_def example_event_def EventKindKnown_def)
qed

definition opened_text :: string where
  \<open>opened_text = ''{"schemaVersion":1,"eventId":"e1","taskId":"t","cursor":1,"occurredAt":"2026-01-01T00:00:00Z","type":"terminal.opened","source":{"runtimeId":"r"},"payload":{"session":{"id":"s","profileId":"sh","processId":"1","workingDirectory":"/","scopeId":"c","ownerClientId":"u","leaseRevision":1,"columns":80,"rows":24,"outputLimitBytes":10}}}''\<close>

definition output_text :: string where
  \<open>output_text = ''{"schemaVersion":1,"eventId":"e2","taskId":"t","cursor":2,"occurredAt":"2026-01-01T00:00:00Z","type":"terminal.output","source":{"runtimeId":"r"},"payload":{"sessionId":"s","sequence":1,"data":"aGk=","byteLength":2}}''\<close>

definition opened_payload :: "(string \<times> json) list" where
  "opened_payload =
     [(''session'', JObj [(''columns'', JNum ''80''), (''id'', JStr ''s''), (''leaseRevision'', JNum ''1''),
       (''outputLimitBytes'', JNum ''10''), (''ownerClientId'', JStr ''u''), (''processId'', JStr ''1''),
       (''profileId'', JStr ''sh''), (''rows'', JNum ''24''), (''scopeId'', JStr ''c''),
       (''workingDirectory'', JStr ''/'')])]"

definition output_payload :: "(string \<times> json) list" where
  "output_payload =
     [(''byteLength'', JNum ''2''), (''data'', JStr ''aGk=''), (''sequence'', JNum ''1''), (''sessionId'', JStr ''s'')]"

lemma texts_decoded:
  "decode_object opened_text = Some (envelope ''e1'' ''1'' ''terminal.opened'' opened_payload)"
  "decode_object output_text = Some (envelope ''e2'' ''2'' ''terminal.output'' output_payload)"
  by (simp_all add: opened_text_def output_text_def envelope_def opened_payload_def output_payload_def parse_eval)

lemma opened_valid: "validate_object (envelope ''e1'' ''1'' ''terminal.opened'' opened_payload)
    = Inr (example_event ''e1'' 1 ''terminal.opened'' opened_payload)"
proof (rule validate_envelope)
  show "valid_known_payload ''terminal.opened'' opened_payload"
    by (simp add: rule_defs opened_payload_def exact_keys_def get_def valid_terminal_session_def object_with_def
        has_auditable_string_def non_empty_string_def string_with_def valid_terminal_identifier_def integer_with_def
        safe_integer_def literal_eval max_safe_integer_def valid_terminal_dimension_def runes_def IsControl_def)
qed (simp_all add: safe_one opened_payload_def is_number_def literal_eval known_event_types_def)

lemma output_valid: "validate_object (envelope ''e2'' ''2'' ''terminal.output'' output_payload)
    = Inr (example_event ''e2'' 2 ''terminal.output'' output_payload)"
proof (rule validate_envelope)
  show "valid_known_payload ''terminal.output'' output_payload"
    by (simp add: rule_defs output_payload_def exact_keys_def get_def has_auditable_string_def non_empty_string_def
        string_with_def integer_with_def safe_integer_def literal_eval max_safe_integer_def positive_up_to_1m_def
        runes_def IsControl_def base64_length_def base64_char_def)
qed (simp_all add: safe_integer_def max_safe_integer_def output_payload_def is_number_def literal_eval known_event_types_def)

lemma texts_valid:
  "Validate opened_text = Inr (example_event ''e1'' 1 ''terminal.opened'' opened_payload)"
  "Validate output_text = Inr (example_event ''e2'' 2 ''terminal.output'' output_payload)"
  by (simp_all add: Validate_def texts_decoded opened_valid output_valid)

theorem validated_witness: "well_formed_event (example_event ''e2'' 2 ''terminal.output'' output_payload)"
  by (rule validated_event_well_formed [OF texts_valid(2)])

definition shown_session :: terminal_session where
  "shown_session = \<lparr>ts_id = ''s'', ts_profile = ''sh'', ts_process = ''1'', ts_directory = ''/'',
     ts_scope = ''c'', ts_owner = ''u'', ts_lease = 1, ts_columns = 80, ts_rows = 24, ts_limit = 10,
     ts_bytes = 2, ts_next_input = 1, ts_next_output = 2, ts_status = ''open'',
     ts_output = [\<lparr>tc_sequence = 1, tc_data = ''aGk='', tc_length = 2\<rparr>], ts_exit_code = None, ts_exit_reason = []\<rparr>"

definition session_event :: event where
  "session_event = example_event ''e1'' 1 ''terminal.opened'' opened_payload"

definition output_event :: event where
  "output_event = example_event ''e2'' 2 ''terminal.output'' output_payload"

lemma terminal_payloads:
  "payload session_event ''session'' dec_session no_session
     = Some (shown_session\<lparr>ts_bytes := 0, ts_next_input := 0, ts_next_output := 0, ts_status := [], ts_output := []\<rparr>)"
  "p_string output_event ''sessionId'' = Some ''s''" "p_int output_event ''sequence'' = Some 1"
  "p_string output_event ''data'' = Some ''aGk=''" "p_int output_event ''byteLength'' = Some 2"
  by (simp_all add: session_event_def output_event_def opened_payload_def output_payload_def shown_session_def
      payload_eval dec_session_def no_session_def)

lemma terminal_fields:
  "e_type session_event = ''terminal.opened''" "e_cursor session_event = 1" "e_kind session_event = ''known''"
  "e_id session_event = ''e1''" "e_type output_event = ''terminal.output''" "e_cursor output_event = 2"
  "e_kind output_event = ''known''" "e_id output_event = ''e2''"
  by (simp_all add: session_event_def output_event_def)

lemma terminal_canons:
  obtains c1 c2 where "canon_event session_event = Some c1" "canon_event output_event = Some c2"
proof -
  have "\<exists>x. canon_event session_event = Some x" "\<exists>x. canon_event output_event = Some x"
    unfolding session_event_def output_event_def opened_payload_def output_payload_def
    by (rule example_canon; simp add: literal_eval)+
  then show thesis using that by blast
qed

lemma terminal_run: "ps_terminals (fold receive [opened_text, output_text] Initial) ''s'' = Some shown_session"
  by (rule terminal_canons)
    (simp add: receive_def texts_valid session_event_def [symmetric] output_event_def [symmetric] project_eval
      terminal_fields terminal_defs terminal_payloads put_terminal_def open_session_def shown_session_def)

theorem terminal_witness:
  "map tc_sequence (ts_output shown_session) = [1..int (length (ts_output shown_session))]
    \<and> ts_bytes shown_session = sum_list (map tc_length (ts_output shown_session))
    \<and> map (\<lambda>c. map_option int (base64_length (tc_data c))) (ts_output shown_session)
        = map (Some o tc_length) (ts_output shown_session)
    \<and> ts_bytes shown_session \<le> ts_limit shown_session \<and> ts_limit shown_session \<le> 64 * 1024 * 1024"
  by (rule terminal_output_in_sequence [OF terminal_run])

section \<open>Findings\<close>

text \<open>
  \<open>Validate\<close> looks a key up exactly, unmarshalling up to case, and the last of two spellings wins: the
  challenge that is checked is \<open>a\<close>, the one that is resolved is \<open>b\<close>.
\<close>

definition two_spellings :: "(string \<times> json) list" where
  "two_spellings = [(''challengeId'', JStr ''a''), (''challengeid'', JStr ''b''), (''decision'', JStr ''allow_once'')]"

lemma capital_i: "char_of (73 :: nat) = CHR ''I''"
  by code_simp

lemma checked_key_is_not_the_read_one:
  "validate_object (envelope ''e1'' ''1'' ''approval.resolved'' two_spellings)
     = Inr (example_event ''e1'' 1 ''approval.resolved'' two_spellings)"
  "get two_spellings ''challengeId'' = JStr ''a''"
  "p_string (example_event ''e1'' 1 ''approval.resolved'' two_spellings) ''challengeId'' = Some ''b''"
proof -
  show "validate_object (envelope ''e1'' ''1'' ''approval.resolved'' two_spellings)
     = Inr (example_event ''e1'' 1 ''approval.resolved'' two_spellings)"
    by (rule validate_envelope)
      (simp_all add: safe_one two_spellings_def known_event_types_def rule_defs has_string_def non_empty_string_def
        get_def string_with_def)
  show "p_string (example_event ''e1'' 1 ''approval.resolved'' two_spellings) ''challengeId'' = Some ''b''"
    by (simp add: two_spellings_def payload_eval capital_i)
qed (simp add: two_spellings_def get_def)

text \<open>An integral literal with a fraction passes as a revision, and the event then fails to decode.\<close>

definition decimal_lease :: "(string \<times> json) list" where
  "decimal_lease = [(''lease'', JObj [(''clientId'', JStr ''u''), (''revision'', JNum ''1.0'')])]"

lemma validated_lease_undecodable:
  "validate_object (envelope ''e1'' ''1'' ''control.acquired'' decimal_lease)
     = Inr (example_event ''e1'' 1 ''control.acquired'' decimal_lease)"
  "Project Initial (example_event ''e1'' 1 ''control.acquired'' decimal_lease) = Inl Decode_Failed"
proof -
  show "validate_object (envelope ''e1'' ''1'' ''control.acquired'' decimal_lease)
     = Inr (example_event ''e1'' 1 ''control.acquired'' decimal_lease)"
    by (rule validate_envelope)
      (simp_all add: safe_one decimal_lease_def known_event_types_def rule_defs has_string_def non_empty_string_def
        get_def valid_lease_def object_with_def integer_with_def is_number_def safe_integer_def literal_eval
        max_safe_integer_def)
  obtain c where "canon_event (example_event ''e1'' 1 ''control.acquired'' decimal_lease) = Some c"
    using example_canon [of 1 decimal_lease] by (fastforce simp: decimal_lease_def literal_eval)
  then show "Project Initial (example_event ''e1'' 1 ''control.acquired'' decimal_lease) = Inl Decode_Failed"
    by (simp add: project_eval apply_control_def decimal_lease_def payload_eval dec_lease_def no_lease_def decoded_def)
qed

text \<open>Evidence is called immutable, yet a second event with its id replaces it; and a rejected finding is a
  candidate again once it is created again.\<close>

definition evidence_event :: "string \<Rightarrow> int \<Rightarrow> string \<Rightarrow> event" where
  "evidence_event eid n summary = example_event eid n ''evidence.committed''
     [(''evidence'', JObj [(''id'', JStr ''v''), (''summary'', JStr summary)])]"

lemma evidence_replaced:
  "map_option ev_summary (ps_evidence (fold product_step
     [evidence_event ''e1'' 1 ''x'', evidence_event ''e2'' 2 ''y''] Initial) ''v'') = Some ''y''"
proof -
  have "\<exists>c. canon_event (evidence_event ''e1'' 1 ''x'') = Some c" "\<exists>c. canon_event (evidence_event ''e2'' 2 ''y'') = Some c"
    unfolding evidence_event_def by (rule example_canon; simp)+
  then show ?thesis
    by (auto simp: project_eval evidence_event_def apply_record_def payload_eval dec_evidence_def no_evidence_def)
qed

definition finding_event :: "string \<Rightarrow> int \<Rightarrow> event" where
  "finding_event eid n = example_event eid n ''finding.created''
     [(''finding'', JObj [(''id'', JStr ''f''), (''status'', JStr ''candidate'')])]"

definition rejection :: event where
  "rejection = example_event ''e2'' 2 ''finding.rejected'' [(''findingId'', JStr ''f''), (''reason'', JStr ''r'')]"

lemma rejected_finding_recreated:
  "map_option fi_status (ps_findings (fold product_step [finding_event ''e1'' 1, rejection] Initial) ''f'')
     = Some ''rejected''"
  "map_option fi_status (ps_findings (fold product_step
     [finding_event ''e1'' 1, rejection, finding_event ''e3'' 3] Initial) ''f'') = Some ''candidate''"
proof -
  have "\<exists>c. canon_event (finding_event ''e1'' 1) = Some c" "\<exists>c. canon_event rejection = Some c"
    "\<exists>c. canon_event (finding_event ''e3'' 3) = Some c"
    unfolding finding_event_def rejection_def by (rule example_canon; simp)+
  then show "map_option fi_status (ps_findings (fold product_step [finding_event ''e1'' 1, rejection] Initial) ''f'')
     = Some ''rejected''"
    and "map_option fi_status (ps_findings (fold product_step
     [finding_event ''e1'' 1, rejection, finding_event ''e3'' 3] Initial) ''f'') = Some ''candidate''"
    by (auto simp: project_eval finding_event_def rejection_def apply_finding_def payload_eval dec_finding_def
        no_finding_def finding_allowed_def finding_transitions_def)
qed

end
