(* ===== verification/Store_Witnesses.thy ===== *)
theory Store_Witnesses
  imports Store_Nesting Product_Witnesses
begin

text \<open>
  A store on which the promises of the store apply: one piece of evidence is committed to an empty store.
  SHA-256 is instantiated by the identity, and the text of a snapshot by the snapshot itself.
\<close>

lemma Commit_accepted:
  assumes load: "fst (Load digest snap None (e_task e) st) = Inr (es, s)"
    and e: "storable_event e" "e_origin e = None" "e_cursor e = ps_cursor s + 1" "\<not> list_ex (\<lambda>x. e_id x = e_id e) es"
    and project: "rejectEvidenceMutation s e = None" "Project s e = Inr (Projection_Applied s')"
    and eid: "(if eid = [] then generatedEventID digest (es_runtime (e_source e)) (e_task e) (e_cursor e) (e_type e)
      else eid) = e_id e"
  shows "fst (Commit digest snap Appended None \<lparr>de_task = e_task e, de_type = e_type e, de_time = e_time e,
    de_source = e_source e, de_payload = Some (e_payload e)\<rparr> eid st) = Inr (e, s')"
proof -
  obtain st' where st': "loadLocked digest snap None (e_task e) st = (Inr (es, s), st')"
    using load by (cases "loadLocked digest snap None (e_task e) st") (simp add: Load_def)
  obtain path where path: "transactionPath digest (e_task e) = Some path"
    using st' by (cases "transactionPath digest (e_task e)") (simp_all add: loadLocked_def)
  have id: "e_id e \<noteq> []" and cursor: "wrap64 (ps_cursor s + 1) = e_cursor e" and schema: "e_schema e = SchemaVersion"
    using e(1,3) by (auto simp: storable_event_def well_formed_event_def max_safe_integer_def wrap64_def)
  have "\<lparr>e_schema = SchemaVersion, e_id = e_id e, e_task = e_task e, e_cursor = e_cursor e, e_time = e_time e,
      e_type = e_type e, e_source = e_source e, e_payload = e_payload e, e_kind = [], e_origin = None\<rparr>
      = e\<lparr>e_kind := []\<rparr>"
    using e(2) schema by (cases e) simp
  then have "revalidate \<lparr>e_schema = SchemaVersion, e_id = e_id e, e_task = e_task e, e_cursor = e_cursor e,
      e_time = e_time e, e_type = e_type e, e_source = e_source e, e_payload = e_payload e, e_kind = [],
      e_origin = None\<rparr> = Inr e"
    using revalidate_any_kind [OF e(1), of "[]"] by simp
  then show ?thesis
    using st' path id e(4) project eid
    by (cases "eid = []") (simp_all add: Commit_def Let_def cursor commit_event_def)
qed

definition sample_evidence :: event where
  "sample_evidence = example_event ''e1'' 1 ''evidence.committed''
     [(''evidence'', JObj [(''data'', JObj []), (''id'', JStr ''v''), (''kind'', JStr ''log''),
       (''summary'', JStr ''x''), (''taskId'', JStr ''t'')])]"

definition held_evidence :: immutable_evidence where
  "held_evidence = \<lparr>ev_id = ''v'', ev_task = ''t'', ev_kind = ''log'', ev_summary = ''x'', ev_data = Some []\<rparr>"

lemma sample_payload: "payload sample_evidence ''evidence'' dec_evidence no_evidence = Some held_evidence"
  by (simp add: sample_evidence_def held_evidence_def payload_eval dec_evidence_def no_evidence_def dec_map_def)

lemma sample_storable: "storable_event sample_evidence"
  by (simp add: storable_event_def well_formed_event_def sample_evidence_def example_event_def SchemaVersion_def
      max_safe_integer_def example_time known_event_types_def EventKindKnown_def rule_defs valid_evidence_def
      object_with_def has_string_def non_empty_string_def get_def is_object_def sorted_keys_def)

definition sample_draft :: draft_event where
  "sample_draft = \<lparr>de_task = ''t'', de_type = ''evidence.committed'', de_time = ''2026-01-01T00:00:00Z'',
     de_source = e_source sample_evidence, de_payload = Some (e_payload sample_evidence)\<rparr>"

abbreviation sample_snapshot :: product_state where
  "sample_snapshot \<equiv> product_step sample_evidence Initial"

lemma sample_applied:
  "Project Initial sample_evidence = Inr (Projection_Applied sample_snapshot)"
  "ps_evidence sample_snapshot ''v'' = Some held_evidence" "rejectEvidenceMutation Initial sample_evidence = None"
proof -
  have fields: "e_type sample_evidence = ''evidence.committed''" "e_cursor sample_evidence = 1"
    "e_kind sample_evidence = ''known''" by (simp_all add: sample_evidence_def)
  obtain c where c: "canon_event sample_evidence = Some c"
    using example_canon [of 1] unfolding sample_evidence_def by fastforce
  show "Project Initial sample_evidence = Inr (Projection_Applied sample_snapshot)"
    "ps_evidence sample_snapshot ''v'' = Some held_evidence" "rejectEvidenceMutation Initial sample_evidence = None"
    using c by (simp_all add: project_eval fields apply_record_def sample_payload rejectEvidenceMutation_def,
        simp_all add: held_evidence_def)
qed

lemma sample_task: "TrimSpace ''t'' \<noteq> []"
  by code_simp

lemma sample_commit:
  "fst (Commit (\<lambda>s. s) (\<lambda>s. s) Appended None sample_draft ''e1'' Map.empty) = Inr (sample_evidence, sample_snapshot)"
proof -
  have load: "fst (Load (\<lambda>s. s) (\<lambda>s. s) None (e_task sample_evidence) Map.empty) = Inr ([], Initial)"
    using sample_task by (simp add: Load_def loadLocked_def transactionPath_def sample_evidence_def)
  show ?thesis
    using Commit_accepted [OF load sample_storable _ _ _ sample_applied(3,1), of "''e1''"]
    by (simp add: sample_evidence_def sample_draft_def example_event_def Initial_def)
qed

section \<open>The promises on it\<close>

abbreviation sample_op :: store_op where
  "sample_op \<equiv> Commit_Op Appended None sample_draft ''e1''"

abbreviation sample_run :: "store_op list \<Rightarrow> store" where
  "sample_run ops \<equiv> fold (store_step (\<lambda>s. s) (\<lambda>s. s)) ops Map.empty"

lemma sample_load:
  "fst (Load (\<lambda>s. s) (\<lambda>s. s) None ''t'' (sample_run [sample_op])) = Inr ([sample_evidence], sample_snapshot)"
proof -
  obtain st where c: "Commit (\<lambda>s. s) (\<lambda>s. s) Appended None sample_draft ''e1'' Map.empty
      = (Inr (sample_evidence, sample_snapshot), st)"
    using sample_commit by (cases "Commit (\<lambda>s. s) (\<lambda>s. s) Appended None sample_draft ''e1'' Map.empty") simp
  obtain path where path: "transactionPath (\<lambda>s. s) ''t'' = Some path"
      "extends_log Map.empty path \<lparr>tx_event = sample_evidence, tx_snapshot = sample_snapshot\<rparr> st"
    using Commit_cases [OF sound_empty c] by (force simp: sample_draft_def)
  then have lines: "log_lines st path = map Line [\<lparr>tx_event = sample_evidence, tx_snapshot = sample_snapshot\<rparr>]"
    and log: "chain Initial [\<lparr>tx_event = sample_evidence, tx_snapshot = sample_snapshot\<rparr>]"
    by (auto simp: extends_log_def log_lines_absent)
  have "fst (loadLocked (\<lambda>s. s) (\<lambda>s. s) None ''t'' st) = Inr ([sample_evidence], sample_snapshot)"
    unfolding loadLocked_result [OF path(1)] lines load_chain [OF log] by simp
  then show ?thesis using c by (simp add: Load_def)
qed

lemma sample_shallow: "shallow_op sample_op"
  by (simp add: shallow_op_def op_payload_def sample_draft_def sample_evidence_def max_nesting_depth_def)

theorem every_log_loads_witness:
  "\<exists>es. fst (Load (\<lambda>s. s) (\<lambda>s. s) None ''t''
        (as_read (fold (nesting_step (\<lambda>s. s) (\<lambda>s. s)) [sample_op, sample_op] Map.empty)))
      = Inr (es, fold product_step es Initial)
    \<and> history (fold product_step es Initial) = es \<and> map e_cursor es = [1..int (length es)]"
  by (rule every_log_loads [OF sample_task]) (simp add: sample_shallow)

theorem committed_event_witness:
  "\<exists>es t. fst (Load (\<lambda>s. s) (\<lambda>s. s) None ''t'' (sample_run [sample_op, sample_op])) = Inr (es, t)
    \<and> es ! 0 = sample_evidence \<and> fold product_step (take 1 es) Initial = sample_snapshot"
proof -
  obtain st where c: "Commit (\<lambda>s. s) (\<lambda>s. s) Appended None sample_draft ''e1'' (sample_run [])
      = (Inr (sample_evidence, sample_snapshot), st)"
    using sample_commit by (cases "Commit (\<lambda>s. s) (\<lambda>s. s) Appended None sample_draft ''e1'' Map.empty") simp
  show ?thesis
    using committed_event_is_kept [OF c, of "[sample_op]"] c by (simp add: sample_draft_def sample_evidence_def)
qed

theorem stored_evidence_witness:
  "\<exists>es' s'. fst (Load (\<lambda>s. s) (\<lambda>s. s) None ''t'' (sample_run ([sample_op] @ [sample_op]))) = Inr (es', s')
    \<and> ps_evidence s' ''v'' = Some held_evidence"
  by (rule stored_evidence_is_immutable [OF sample_load sample_applied(2)])

theorem external_replay_witness:
  "fst (CommitExternal (\<lambda>s. s) (\<lambda>s. s) Cut_Short None sample_evidence (sample_run [sample_op])) = Inr sample_snapshot
    \<and> log_lines (snd (CommitExternal (\<lambda>s. s) (\<lambda>s. s) Cut_Short None sample_evidence (sample_run [sample_op])))
        = log_lines (sample_run [sample_op])"
proof (rule external_replay_is_idempotent)
  have "e_task sample_evidence = ''t''" by (simp add: sample_evidence_def)
  then show "fst (Load (\<lambda>s. s) (\<lambda>s. s) None (e_task sample_evidence) (sample_run [sample_op]))
    = Inr ([sample_evidence], sample_snapshot)" using sample_load by simp
qed simp

section \<open>A payload that is committed and cannot be loaded\<close>

fun nested_arrays :: "nat \<Rightarrow> json" where
  "nested_arrays 0 = JArr []"
| "nested_arrays (Suc n) = JArr [nested_arrays n]"

definition deep_event :: "nat \<Rightarrow> event" where
  "deep_event n = (example_event ''e1'' 1 ''x'' [(''a'', nested_arrays n)])\<lparr>e_kind := EventKindUnknown\<rparr>"

definition deep_draft :: "nat \<Rightarrow> draft_event" where
  "deep_draft n = \<lparr>de_task = ''t'', de_type = ''x'', de_time = ''2026-01-01T00:00:00Z'',
     de_source = e_source (deep_event n), de_payload = Some (e_payload (deep_event n))\<rparr>"

lemma nested_valid: "wf_json (nested_arrays n) \<and> valid_json_value (nested_arrays n) \<and> (\<exists>c. canonical (nested_arrays n) = Some c)"
  by (induction n) auto

lemma nested_depth: "json_depth (nested_arrays n) = Suc n"
  by (induction n) simp_all

lemma deep_storable: "storable_event (deep_event n)"
  using nested_valid [of n]
  by (simp add: storable_event_def well_formed_event_def deep_event_def example_event_def SchemaVersion_def
      max_safe_integer_def example_time known_event_types_def sorted_keys_def)

lemma deep_applied: "Project Initial (deep_event n) = Inr (Projection_Applied (product_step (deep_event n) Initial))"
proof -
  let ?e = "example_event ''e1'' 1 ''x'' [(''a'', nested_arrays n)]"
  obtain c where "canonical (nested_arrays n) = Some c" using nested_valid by blast
  then obtain x where "canon_event ?e = Some x" using example_canon [of 1 "[(''a'', nested_arrays n)]"] by fastforce
  then have "\<exists>x. canon_event (deep_event n) = Some x"
    by (auto simp: deep_event_def canon_event_def split: option.splits)
  then show ?thesis by (auto simp: project_eval deep_event_def)
qed

theorem deep_payload_lost:
  "\<exists>e s st' err. Commit (\<lambda>s. s) (\<lambda>s. s) Appended None (deep_draft 9995) ''e1'' Map.empty = (Inr (e, s), st')
    \<and> json_depth (e_payload e) = 9997 \<and> event_depth e \<le> max_nesting_depth
    \<and> fst (Load (\<lambda>s. s) (\<lambda>s. s) None ''t'' (as_read st')) = Inl err"
proof -
  let ?e = "deep_event 9995"
  have load: "fst (Load (\<lambda>s. s) (\<lambda>s. s) None (e_task ?e) Map.empty) = Inr ([], Initial)"
    using sample_task by (simp add: Load_def loadLocked_def transactionPath_def deep_event_def)
  have "fst (Commit (\<lambda>s. s) (\<lambda>s. s) Appended None (deep_draft 9995) ''e1'' Map.empty) = Inr (?e, product_step ?e Initial)"
    using Commit_accepted [OF load deep_storable _ _ _ _ deep_applied, of "''e1''"]
    by (simp add: deep_event_def deep_draft_def example_event_def Initial_def rejectEvidenceMutation_def)
  then obtain st' where c: "Commit (\<lambda>s. s) (\<lambda>s. s) Appended None (deep_draft 9995) ''e1'' Map.empty
      = (Inr (?e, product_step ?e Initial), st')" by (metis prod.collapse)
  have depth: "json_depth (e_payload ?e) = 9997" by (simp add: deep_event_def nested_depth)
  then have "max_nesting_depth < json_depth (e_payload ?e) + 4" by (simp add: max_nesting_depth_def)
  then obtain err where "fst (Load (\<lambda>s. s) (\<lambda>s. s) None ''t'' (as_read st')) = Inl err"
    using deep_payload_ruins_log [OF sound_empty c] by (auto simp: deep_draft_def)
  moreover have "event_depth ?e \<le> max_nesting_depth"
    using event_depth_le [of ?e 9997] depth by (simp add: max_nesting_depth_def)
  ultimately show ?thesis using c depth by blast
qed

end
