(* ===== verification/Service_Witnesses.thy ===== *)
theory Service_Witnesses
  imports Service_Properties Store_Witnesses
begin

text \<open>
  Runs of the service on which its promises apply: control taken on an empty log, and an approval resolved that
  one committed event has requested.
\<close>

definition sample_env :: "product_state runtime_env" where
  "sample_env = \<lparr>re_sha = \<lambda>s. s, re_snap = \<lambda>s. s, re_text = \<lambda>_. [], re_format = \<lambda>_. ''2026-01-01T00:00:00Z''\<rparr>"

definition sample_service :: service where
  "sample_service = \<lparr>sv_runtime = ''r'', sv_principal = ''p''\<rparr>"

definition sample_call :: call where
  "sample_call = \<lparr>ca_ctx = None, ca_stop = None, ca_checked = 0, ca_now = 0, ca_out = Appended, ca_others = []\<rparr>"

lemma sample_interleave: "interleave sample_env ops = fold (store_step (\<lambda>s. s) (\<lambda>s. s)) ops"
  by (simp add: interleave_def sample_env_def fun_eq_iff)

text \<open>An event that the service commits next.\<close>

definition sample_event :: "int \<Rightarrow> string \<Rightarrow> string \<Rightarrow> (string \<times> json) list \<Rightarrow> event" where
  "sample_event cursor agent t p = (example_event (generatedEventID (\<lambda>s. s) ''r'' ''t'' cursor t) cursor t p)
     \<lparr>e_source := \<lparr>es_runtime = ''r'', es_agent = agent, es_tool_call = []\<rparr>\<rparr>"

lemma sample_event_fields [simp]:
  "e_task (sample_event n agent t p) = ''t''" "e_origin (sample_event n agent t p) = None"
  "e_cursor (sample_event n agent t p) = n" "e_type (sample_event n agent t p) = t"
  "e_payload (sample_event n agent t p) = JObj p" "e_time (sample_event n agent t p) = ''2026-01-01T00:00:00Z''"
  "e_source (sample_event n agent t p) = \<lparr>es_runtime = ''r'', es_agent = agent, es_tool_call = []\<rparr>"
  "e_id (sample_event n agent t p) = generatedEventID (\<lambda>s. s) ''r'' ''t'' n t" "e_kind (sample_event n agent t p) = ''known''"
  by (simp_all add: sample_event_def example_event_def)

lemma sample_emitted:
  assumes load: "fst (Load (\<lambda>s. s) (\<lambda>s. s) None ''t'' st) = Inr (es, s)"
    and e: "storable_event (sample_event n agent t p)" "n = ps_cursor s + 1"
      "\<not> list_ex (\<lambda>x. e_id x = e_id (sample_event n agent t p)) es"
    and project: "rejectEvidenceMutation s (sample_event n agent t p) = None"
      "Project s (sample_event n agent t p) = Inr (Projection_Applied s')"
  shows "\<exists>st'. emit sample_env sample_service sample_call ''t'' t (JObj p) (no_source\<lparr>es_agent := agent\<rparr>) st
    = (Inr (sample_event n agent t p), st')"
proof -
  let ?e = "sample_event n agent t p"
  have "fst (Commit (\<lambda>s. s) (\<lambda>s. s) Appended None \<lparr>de_task = e_task ?e, de_type = e_type ?e, de_time = e_time ?e,
    de_source = e_source ?e, de_payload = Some (e_payload ?e)\<rparr> [] st) = Inr (?e, s')"
    by (rule Commit_accepted) (use load e project in simp_all)
  then show ?thesis
    by (auto simp: emit_def sample_env_def sample_service_def sample_call_def no_source_def split: prod.splits)
qed

section \<open>Control\<close>

definition acquired :: event where
  "acquired = sample_event 1 [] ''control.acquired'' [(''lease'', JObj [(''clientId'', JStr ''w''), (''revision'', JNum ''1'')])]"

lemma acquired_storable: "storable_event acquired"
  by (simp add: storable_event_def well_formed_event_def acquired_def sample_event_def example_event_def SchemaVersion_def
      max_safe_integer_def example_time known_event_types_def EventKindKnown_def rule_defs generatedEventID_def valid_lease_def
      object_with_def has_string_def non_empty_string_def get_def is_number_def integer_with_def safe_integer_def sorted_keys_def literal_eval)

lemma sample_canon:
  "0 \<le> n \<Longrightarrow> n < 2 ^ 53 \<Longrightarrow> canonical (JObj p) = Some c \<Longrightarrow> \<exists>x. canon_event (sample_event n agent t p) = Some x"
  by (simp add: sample_event_def example_event_def canon_event_def canon_int_small del: canonical.simps)

lemma acquired_applied:
  obtains s' where "Project Initial acquired = Inr (Projection_Applied s')"
proof -
  have "payload acquired ''lease'' dec_lease no_lease = Some \<lparr>cl_client = ''w'', cl_revision = 1\<rparr>"
    by (simp add: acquired_def payload_eval dec_lease_def no_lease_def)
  moreover have "\<exists>x. canon_event acquired = Some x"
    unfolding acquired_def by (rule sample_canon; simp add: literal_eval)
  ultimately show ?thesis
    using that by (auto simp: acquired_def project_eval apply_control_def)
qed

lemma empty_loads: "\<exists>st. Load (\<lambda>s. s) (\<lambda>s. s) None ''t'' Map.empty = (Inr ([], Initial), st)
    \<and> fst (Load (\<lambda>s. s) (\<lambda>s. s) None ''t'' st) = Inr ([], Initial)"
proof -
  have "fst (Load (\<lambda>s. s) (\<lambda>s. s) None ''t'' Map.empty) = Inr ([], Initial)"
    using sample_task by (simp add: Load_def loadLocked_def transactionPath_def)
  then show ?thesis
    using Load_cong [OF Load_lines [of "\<lambda>s. s" "\<lambda>s. s" None "''t''" Map.empty], of "\<lambda>s. s" "\<lambda>s. s" "''t''"]
    by (cases "Load (\<lambda>s. s) (\<lambda>s. s) None ''t'' Map.empty") simp
qed

lemma digit_one: "digits (Suc 0) = ''1''"
  by code_simp

lemma control_taken:
  "\<exists>st. TakeControl sample_env sample_service sample_call ''t'' ''w'' 0 (interleave sample_env [] Map.empty)
    = (Inr acquired, st)"
proof -
  obtain st where st: "Load (\<lambda>s. s) (\<lambda>s. s) None ''t'' Map.empty = (Inr ([], Initial), st)"
      "fst (Load (\<lambda>s. s) (\<lambda>s. s) None ''t'' st) = Inr ([], Initial)"
    using empty_loads by blast
  obtain s' where s': "Project Initial acquired = Inr (Projection_Applied s')" using acquired_applied .
  obtain st' where "emit sample_env sample_service sample_call ''t'' ''control.acquired''
      (JObj [(''lease'', JObj [(''clientId'', JStr ''w''), (''revision'', JNum ''1'')])]) (no_source\<lparr>es_agent := []\<rparr>) st
        = (Inr acquired, st')"
    using sample_emitted [OF st(2), of 1 "[]" "''control.acquired''"] acquired_storable s'
    by (fastforce simp: acquired_def Initial_def rejectEvidenceMutation_def)
  moreover have "object [(''lease'', json_lease \<lparr>cl_client = ''w'', cl_revision = wrap64 (0 + 1)\<rparr>)]
      = JObj [(''lease'', JObj [(''clientId'', JStr ''w''), (''revision'', JNum ''1'')])]"
    by (simp add: object_def json_lease_def json_object_def json_int_def int_text_def wrap64_def digit_one)
  moreover have "no_source\<lparr>es_agent := []\<rparr> = no_source" by (simp add: no_source_def)
  ultimately show ?thesis
    using st(1) by (simp add: TakeControl_def with_loaded_def emit_later_def interleave_def sample_env_def sample_call_def
        emitted_def Initial_def)
qed

theorem control_is_taken_once_witness:
  "fst (TakeControl sample_env sample_service sample_call ''t'' ''v'' 0
      (interleave sample_env [] (snd (TakeControl sample_env sample_service sample_call ''t'' ''w'' 0
        (interleave sample_env [] Map.empty))))) = Inl Stale_Lease"
proof -
  obtain st where st: "TakeControl sample_env sample_service sample_call ''t'' ''w'' 0 (interleave sample_env [] Map.empty)
    = (Inr acquired, st)" using control_taken by blast
  have "ca_ctx sample_call = None" by (simp add: sample_call_def)
  then show ?thesis
    using control_is_taken_once [OF st, of "[]" sample_call sample_service "''v''"] st by auto
qed

section \<open>An approval\<close>

lemma requested_applied:
  obtains s where "Project Initial requested = Inr (Projection_Applied s)" "s = product_step requested Initial"
    "ps_approvals s ''c'' = Some (denied\<lparr>ap_decision := []\<rparr>)" "ps_cursor s = 1"
  by (rule approval_canons, rule that [of "product_step requested Initial"]) (simp_all add: approval_eval)

lemma requested_storable: "storable_event requested"
  by (simp add: storable_event_def well_formed_event_def requested_def example_event_def SchemaVersion_def
      max_safe_integer_def example_time known_event_types_def EventKindKnown_def rule_defs valid_challenge_def
      object_with_def has_string_def non_empty_string_def get_def sorted_keys_def string_with_def valid_timestamp_def
      time_defs Let_def)

definition resolution :: event where
  "resolution = sample_event 2 ''a'' ''approval.resolved'' [(''challengeId'', JStr ''c''), (''decision'', JStr ''deny'')]"

lemma resolution_storable: "storable_event resolution"
  by (simp add: storable_event_def well_formed_event_def resolution_def sample_event_def example_event_def
      SchemaVersion_def max_safe_integer_def example_time known_event_types_def EventKindKnown_def rule_defs
      object_with_def has_string_def non_empty_string_def get_def sorted_keys_def string_with_def generatedEventID_def)

lemma resolution_applied:
  obtains s where "Project (product_step requested Initial) resolution = Inr (Projection_Applied s)"
proof -
  have "p_string resolution ''challengeId'' = Some ''c''" "p_string resolution ''decision'' = Some ''deny''"
    by (simp_all add: resolution_def payload_eval)
  moreover obtain c1 where "canon_event requested = Some c1" by (rule approval_canons)
  moreover have "\<exists>x. canon_event resolution = Some x"
    unfolding resolution_def by (rule sample_canon; simp)
  moreover have "e_id resolution \<noteq> ''e1''" by (simp add: resolution_def generatedEventID_def)
  ultimately show ?thesis
    using that by (auto simp: resolution_def approval_eval)
qed

abbreviation request_op :: store_op where
  "request_op \<equiv> Commit_Op Appended None \<lparr>de_task = ''t'', de_type = ''approval.requested'', de_time = ''2026-01-01T00:00:00Z'',
     de_source = e_source requested, de_payload = Some (e_payload requested)\<rparr> ''e1''"

lemma request_loads:
  "fst (Load (\<lambda>s. s) (\<lambda>s. s) None ''t'' (interleave sample_env [request_op] Map.empty))
     = Inr ([requested], product_step requested Initial)"
proof -
  have fields: "e_task requested = ''t''" "e_time requested = ''2026-01-01T00:00:00Z''" "e_origin requested = None"
    by (simp_all add: requested_def example_event_def)
  obtain s where s: "Project Initial requested = Inr (Projection_Applied s)" "s = product_step requested Initial"
    by (rule requested_applied)
  have "fst (Load (\<lambda>s. s) (\<lambda>s. s) None (e_task requested) Map.empty) = Inr ([], Initial)"
    using empty_loads fields(1) by force
  from Commit_accepted [OF this requested_storable, of s "''e1''"] s(1) fields approval_fields
  have "fst (Commit (\<lambda>s. s) (\<lambda>s. s) Appended None \<lparr>de_task = ''t'', de_type = ''approval.requested'',
      de_time = ''2026-01-01T00:00:00Z'', de_source = e_source requested, de_payload = Some (e_payload requested)\<rparr>
      ''e1'' Map.empty) = Inr (requested, s)"
    by (simp add: Initial_def rejectEvidenceMutation_def)
  then obtain st' where c: "Commit (\<lambda>s. s) (\<lambda>s. s) Appended None \<lparr>de_task = ''t'', de_type = ''approval.requested'',
      de_time = ''2026-01-01T00:00:00Z'', de_source = e_source requested, de_payload = Some (e_payload requested)\<rparr>
      ''e1'' Map.empty = (Inr (requested, s), st')" by (metis prod.collapse)
  from sound_empty c have "fst (Load (\<lambda>s. s) (\<lambda>s. s) None ''t'' st') = Inr ([requested], s)"
  proof (cases rule: Commit_success)
    case (1 d es s0)
    then show ?thesis using empty_loads by auto
  qed
  then show ?thesis using c s(2) by (simp add: sample_interleave)
qed

lemma expiry: "\<exists>t. parse_rfc3339 ''2026-01-01T01:00:00Z'' = Some t \<and> 0 \<le> t"
  by (simp add: time_defs Let_def)

lemma approval_resolved:
  "\<exists>st. ResolveApproval sample_env sample_service sample_call ''t'' ''c'' ''deny''
      (interleave sample_env [request_op] Map.empty) = (Inr resolution, st)"
proof -
  let ?st = "interleave sample_env [request_op] Map.empty" and ?s = "product_step requested Initial"
  obtain st where st: "Load (\<lambda>s. s) (\<lambda>s. s) None ''t'' ?st = (Inr ([requested], ?s), st)"
      "fst (Load (\<lambda>s. s) (\<lambda>s. s) None ''t'' st) = Inr ([requested], ?s)"
    using request_loads Load_cong [OF Load_lines [of "\<lambda>s. s" "\<lambda>s. s" None "''t''" ?st], of "\<lambda>s. s" "\<lambda>s. s" "''t''"]
    by (cases "Load (\<lambda>s. s) (\<lambda>s. s) None ''t'' ?st") simp
  have s: "ps_approvals ?s ''c'' = Some (denied\<lparr>ap_decision := []\<rparr>)" "ps_cursor ?s = 1"
    by (rule requested_applied, simp)+
  obtain s' where s': "Project ?s resolution = Inr (Projection_Applied s')" by (rule resolution_applied)
  have "e_id resolution \<noteq> e_id requested" by (simp add: resolution_def approval_fields generatedEventID_def)
  then obtain st' where "emit sample_env sample_service sample_call ''t'' ''approval.resolved''
      (JObj [(''challengeId'', JStr ''c''), (''decision'', JStr ''deny'')]) (no_source\<lparr>es_agent := ''a''\<rparr>) st
        = (Inr resolution, st')"
    using sample_emitted [OF st(2), of 2 "''a''" "''approval.resolved''"] resolution_storable s' s(2)
    by (fastforce simp: resolution_def rejectEvidenceMutation_def)
  moreover have "object [(''challengeId'', JStr ''c''), (''decision'', JStr ''deny'')]
      = JObj [(''challengeId'', JStr ''c''), (''decision'', JStr ''deny'')]"
    by (simp add: object_def json_object_def)
  moreover have "approvalScopeActive [requested] ''c''"
    by (simp add: approvalScopeActive_def approval_fields approval_payloads, simp add: denied_def)
  moreover obtain t where "parse_rfc3339 ''2026-01-01T01:00:00Z'' = Some t" "0 \<le> t" using expiry by blast
  moreover have "ap_agent (ap_challenge denied) = ''a''" "ap_expires (ap_challenge denied) = ''2026-01-01T01:00:00Z''"
    by (simp_all add: denied_def)
  ultimately show ?thesis
    using st(1) s(1) by (simp add: ResolveApproval_def with_loaded_def emit_later_def interleave_def sample_env_def
        sample_call_def emitted_def)
qed

theorem approval_resolution_is_final_witness:
  "fst (ResolveApproval sample_env sample_service sample_call ''t'' ''c'' ''allow_once''
      (interleave sample_env [] (snd (ResolveApproval sample_env sample_service sample_call ''t'' ''c'' ''deny''
        (interleave sample_env [request_op] Map.empty))))) = Inl Approval_Replay"
proof -
  obtain st where st: "ResolveApproval sample_env sample_service sample_call ''t'' ''c'' ''deny''
      (interleave sample_env [request_op] Map.empty) = (Inr resolution, st)" using approval_resolved by blast
  have "ca_ctx sample_call = None" by (simp add: sample_call_def)
  then show ?thesis
    using approval_resolution_is_final [OF st, of "[]" sample_call sample_service "''allow_once''"] st by auto
qed

end
