(* ===== verification/Verified_File.thy ===== *)
theory Verified_File
  imports Permission_Path
begin

text \<open>
  Opening a file below a root although the file system changes at any time (\<open>security/safefile.go\<close>), and the
  workspace test of the runtime (\<open>runtimeapi/terminal_authority.go\<close>). Every call of the operating system sees
  a file system of its own; a file is known by its identity, which \<open>os.SameFile\<close> compares. The model is
  that of Unix: \<open>samePath\<close> does not fold case.
\<close>

record file_info =
  fi_regular :: bool
  fi_mode :: nat
  fi_size :: int

record open_view =
  ov_root :: os_view
  ov_path :: os_view
  ov_open :: "string \<Rightarrow> nat option"
  ov_stat :: "nat \<Rightarrow> file_info option"
  ov_again :: os_view
  ov_current :: "string \<Rightarrow> nat option"

datatype open_error = Open_Failed | Outside_Root | Path_Changed | Not_Regular

definition pathWithinRoot :: "string \<Rightarrow> string \<Rightarrow> bool" where
  "pathWithinRoot root target \<longleftrightarrow>
     (case Rel root target of
        None \<Rightarrow> False
      | Some relative \<Rightarrow> relative \<noteq> ''..'' \<and> \<not> IsAbs relative \<and> \<not> HasPrefix relative ''../'')"

definition samePath :: "string \<Rightarrow> string \<Rightarrow> bool" where
  "samePath first second \<longleftrightarrow> Clean first = Clean second"

text \<open>\<open>EvalSymlinks\<close> and then \<open>Abs\<close>.\<close>

definition resolved_abs :: "os_view \<Rightarrow> string \<Rightarrow> string option" where
  "resolved_abs os p =
     (case os_eval_links os p of
        Inl _ \<Rightarrow> None
      | Inr r \<Rightarrow> (case Abs os r of Inl _ \<Rightarrow> None | Inr a \<Rightarrow> Some a))"

text \<open>\<open>Abs\<close> fails with an error of its own, the failure of \<open>EvalSymlinks\<close> is a change of the path.\<close>

definition verifyOpenedPath :: "open_view \<Rightarrow> string \<Rightarrow> string \<Rightarrow> string \<Rightarrow> nat \<Rightarrow> open_error + file_info" where
  "verifyOpenedPath v root original resolved f =
     (case ov_stat v f of
        None \<Rightarrow> Inl Open_Failed
      | Some opened \<Rightarrow>
          (case os_eval_links (ov_again v) original of
             Inl _ \<Rightarrow> Inl Path_Changed
           | Inr link \<Rightarrow>
               (case Abs (ov_again v) link of
                  Inl _ \<Rightarrow> Inl Open_Failed
                | Inr after \<Rightarrow>
                    if \<not> pathWithinRoot root after then Inl Outside_Root
                    else if \<not> samePath after resolved then Inl Path_Changed
                    else
                      (case ov_current v after of
                         None \<Rightarrow> Inl Path_Changed
                       | Some current \<Rightarrow> if f \<noteq> current then Inl Path_Changed else Inr opened))))"

definition OpenVerified :: "open_view \<Rightarrow> string \<Rightarrow> string \<Rightarrow> open_error + nat \<times> file_info" where
  "OpenVerified v root path =
     (case resolved_abs (ov_root v) root of
        None \<Rightarrow> Inl Open_Failed
      | Some canonicalRoot \<Rightarrow>
          (case resolved_abs (ov_path v) path of
             None \<Rightarrow> Inl Open_Failed
           | Some resolved \<Rightarrow>
               if \<not> pathWithinRoot canonicalRoot resolved then Inl Outside_Root
               else
                 (case ov_open v (Clean resolved) of
                    None \<Rightarrow> Inl Open_Failed
                  | Some f \<Rightarrow>
                      (case verifyOpenedPath v canonicalRoot path resolved f of
                         Inl err \<Rightarrow> Inl err
                       | Inr info \<Rightarrow> if \<not> fi_regular info then Inl Not_Regular else Inr (f, info)))))"

definition pathWithinWorkspace :: "os_view \<Rightarrow> os_view \<Rightarrow> string \<Rightarrow> string \<Rightarrow> bool" where
  "pathWithinWorkspace os1 os2 workspace candidate \<longleftrightarrow>
     IsAbs workspace \<and> IsAbs candidate
   \<and> (case (os_eval_links os1 workspace, os_eval_links os2 candidate) of
        (Inr w, Inr c) \<Rightarrow> pathWithinRoot w c
      | _ \<Rightarrow> False)"

section \<open>What they promise\<close>

lemma pathWithinRoot_abs:
  assumes "list_all proper bs" and "list_all proper ts"
  shows "pathWithinRoot (abs_path bs) (abs_path ts) \<longleftrightarrow> prefix bs ts"
  using escape_test [OF assms] by (auto simp: pathWithinRoot_def)

lemma resolved_abs_clean:
  assumes "os_ok os" and "resolved_abs os p = Some a"
  obtains xs where "list_all proper xs" and "a = abs_path xs"
  using assms Abs_clean by (auto simp: resolved_abs_def split: sum.splits)

lemma pathWithinRoot_elements:
  assumes "os_ok os1" "resolved_abs os1 p = Some a" and "os_ok os2" "resolved_abs os2 q = Some b"
  shows "pathWithinRoot a b \<longleftrightarrow> prefix (elements a) (elements b)"
proof -
  obtain xs ys where "list_all proper xs" "a = abs_path xs" "list_all proper ys" "b = abs_path ys"
    using resolved_abs_clean assms by metis
  then show ?thesis by (simp add: pathWithinRoot_abs elements_abs_path)
qed

lemma opened_inside:
  assumes "os_ok (ov_root v)" "os_ok (ov_path v)" "os_ok (ov_again v)"
    and "OpenVerified v root path = Inr (f, info)"
  shows "\<exists>base place. resolved_abs (ov_root v) root = Some base \<and> resolved_abs (ov_again v) path = Some place
    \<and> prefix (elements base) (elements place) \<and> ov_open v place = Some f \<and> ov_current v place = Some f
    \<and> ov_stat v f = Some info \<and> fi_regular info"
proof -
  obtain base resolved where r: "resolved_abs (ov_root v) root = Some base" "resolved_abs (ov_path v) path = Some resolved"
      "ov_open v (Clean resolved) = Some f" "verifyOpenedPath v base path resolved f = Inr info" "fi_regular info"
    using assms(4) by (auto simp: OpenVerified_def split: option.splits sum.splits if_splits)
  then obtain place where p: "resolved_abs (ov_again v) path = Some place" "pathWithinRoot base place"
      "samePath place resolved" "ov_current v place = Some f" "ov_stat v f = Some info"
    by (auto simp: verifyOpenedPath_def resolved_abs_def split: option.splits sum.splits if_splits)
  obtain xs ys where "list_all proper xs" "place = abs_path xs" "list_all proper ys" "resolved = abs_path ys"
    using resolved_abs_clean assms(2,3) r(2) p(1) by metis
  then have "place = Clean resolved" using p(3) by (simp add: samePath_def)
  then show ?thesis
    using r p pathWithinRoot_elements [OF assms(1) r(1) assms(3) p(1)] by auto
qed

text \<open>C21: however the file system changes between the calls, a file that \<open>OpenVerified\<close> returns is a regular file
  that its path named, with all symbolic links followed, at a place below the resolved root, when the
  path was resolved for the second time; and it was opened under that same place.
\<close>

theorem opened_file_is_inside_root:
  assumes "os_ok (ov_root v)" "os_ok (ov_path v)" "os_ok (ov_again v)"
    and "OpenVerified v root path = Inr (f, info)"
  shows "\<exists>base place. resolved_abs (ov_root v) root = Some base \<and> resolved_abs (ov_again v) path = Some place
    \<and> prefix (elements base) (elements place) \<and> ov_open v place = Some f \<and> ov_current v place = Some f
    \<and> ov_stat v f = Some info \<and> fi_regular info"
  using assms by (rule opened_inside)

lemma workspace_elements:
  assumes "os_ok os1" "os_ok os2" and "pathWithinWorkspace os1 os2 workspace candidate"
  shows "\<exists>w c. os_eval_links os1 workspace = Inr w \<and> os_eval_links os2 candidate = Inr c \<and> prefix (elements w) (elements c)"
proof -
  obtain w c where e: "os_eval_links os1 workspace = Inr w" "os_eval_links os2 candidate = Inr c" "pathWithinRoot w c"
      "IsAbs workspace" "IsAbs candidate"
    using assms(3) by (auto simp: pathWithinWorkspace_def split: sum.splits)
  then have "IsAbs w \<and> Clean w = w" "IsAbs c \<and> Clean c = c" using assms(1,2) unfolding os_ok_def by blast+
  then have "resolved_abs os1 workspace = Some w" "resolved_abs os2 candidate = Some c"
    using e by (simp_all add: resolved_abs_def Abs_def)
  then show ?thesis using pathWithinRoot_elements assms(1,2) e by blast
qed

text \<open>A file in the workspace of the sample file system.\<close>

definition sample_view :: open_view where
  "sample_view = \<lparr>ov_root = sample_os, ov_path = sample_os, ov_open = (\<lambda>p. if p = ''/w/f'' then Some 7 else None),
     ov_stat = (\<lambda>f. if f = 7 then Some \<lparr>fi_regular = True, fi_mode = 420, fi_size = 3\<rparr> else None), ov_again = sample_os,
     ov_current = (\<lambda>p. if p = ''/w/f'' then Some 7 else None)\<rparr>"

lemma sample_opened: "OpenVerified sample_view ''/w'' ''/w/f'' = Inr (7, \<lparr>fi_regular = True, fi_mode = 420, fi_size = 3\<rparr>)"
  by code_simp

theorem opened_file_is_inside_root_witness:
  "\<exists>base place. resolved_abs sample_os ''/w'' = Some base \<and> resolved_abs sample_os ''/w/f'' = Some place
    \<and> prefix (elements base) (elements place)"
  using opened_file_is_inside_root [OF _ _ _ sample_opened] sample_os_ok by (simp add: sample_view_def) blast

end
