(* ===== verification/Runtime_Authority.thy ===== *)
theory Runtime_Authority
  imports Runtime_Service Runtime_Contract Verified_File
begin

text \<open>
  Who may open a terminal or work on a file (\<open>runtimeapi/terminal_authority.go\<close>, \<open>authorizeEditor\<close> of
  \<open>editor_manager.go\<close>), the configuration of a runtime server (\<open>local.go\<close>), and the errors of its commands.
\<close>

section \<open>Configuration\<close>

record terminal_profile =
  pf_id :: string
  pf_action :: string
  pf_risk :: string
  pf_approval :: bool
  pf_program :: string
  pf_arguments :: "string list"

record runtime_server =
  rs_service :: service
  rs_role :: string
  rs_workspace :: string
  rs_source :: source_metadata
  rs_prefix :: string
  rs_profiles :: "(string \<times> terminal_profile) list"
  rs_terminals :: bool
  rs_editor :: bool

text \<open>
  \<open>rs_terminals\<close> and \<open>rs_editor\<close>: the server has a terminal manager, an editor manager (\<open>newRuntimeServer\<close>).
\<close>

datatype runtime_error =
    Service_Error service_error
  | ErrTerminalCapabilityRequired | ErrTerminalProfileNotAllowed | ErrTerminalScopeMismatch
  | ErrTerminalWorkspaceOutOfScope | ErrTerminalControlRequired | ErrTerminalUnavailable | ErrTerminalApprovalRequired
  | ErrTerminalSessionExists | ErrTerminalSessionNotFound | ErrTerminalInputSequence
  | ErrEditorCapabilityRequired | ErrEditorScopeMismatch | ErrEditorWorkspaceOutOfScope | ErrEditorControlRequired
  | ErrEditorDraftNotFound | ErrEditorUnsupportedFile | ErrEditorDraftNotEditable | ErrEditorDraftRevision
  | ErrEditorPatchStale
  | Invalid_Command_Data | Process_Failed | File_Failed

definition has_capability :: "runtime_server \<Rightarrow> string \<Rightarrow> bool" where
  "has_capability rs c \<longleftrightarrow> List.member (strings (sm_capabilities (rs_source rs))) c"

section \<open>Opening a terminal\<close>

record terminal_open_command =
  to_session :: string
  to_profile :: string
  to_directory :: string
  to_scope :: string
  to_columns :: int
  to_rows :: int
  to_limit :: int
  to_revision :: int

definition terminalApprovalParameters :: "terminal_open_command \<Rightarrow> json" where
  "terminalApprovalParameters c = object
     [(''sessionId'', JStr (to_session c)), (''profileId'', JStr (to_profile c)),
      (''workingDirectory'', JStr (to_directory c)), (''scopeId'', JStr (to_scope c)),
      (''columns'', json_int (to_columns c)), (''rows'', json_int (to_rows c)),
      (''outputLimitBytes'', json_int (to_limit c)), (''expectedLeaseRevision'', json_int (to_revision c))]"

definition approval_covers :: "event list \<Rightarrow> product_state \<Rightarrow> terminal_profile \<Rightarrow> string \<Rightarrow> string \<Rightarrow> string \<Rightarrow> instant \<Rightarrow> bool" where
  "approval_covers es s profile workspace digest cid now \<longleftrightarrow>
     (case ps_approvals s cid of
        None \<Rightarrow> False
      | Some a \<Rightarrow>
          (case parse_rfc3339 (ap_expires (ap_challenge a)) of
             None \<Rightarrow> False
           | Some expires \<Rightarrow>
               now \<le> expires \<and> ap_decision a = ''allow_once'' \<and> ap_action (ap_challenge a) = pf_action profile
             \<and> ap_target (ap_challenge a) = workspace \<and> ap_risk (ap_challenge a) = pf_risk profile
             \<and> ap_digest (ap_challenge a) = digest \<and> approvalScopeActive es cid))"

text \<open>
  \<open>order\<close> is the order in which the approvals are visited, each with the clock's reading at its visit; \<open>os1\<close> and
  \<open>os2\<close> are the file systems in which the workspace and the directory are resolved.
\<close>

definition authorize_loaded ::
  "'c runtime_env \<Rightarrow> runtime_server \<Rightarrow> os_view \<Rightarrow> os_view \<Rightarrow> (string \<times> instant) list \<Rightarrow> string \<Rightarrow> terminal_open_command
     \<Rightarrow> event list \<Rightarrow> product_state \<Rightarrow> runtime_error option" where
  "authorize_loaded env rs os1 os2 order client c es s =
     (case ps_scope s of
        None \<Rightarrow> Some (Service_Error Scope_Not_Confirmed)
      | Some scope \<Rightarrow>
          if \<not> scopeWasConfirmed es (sc_id scope) then Some (Service_Error Scope_Not_Confirmed)
          else if to_scope c \<noteq> sc_id scope then Some ErrTerminalScopeMismatch
          else if \<not> has_capability rs ''terminal.input'' then Some ErrTerminalCapabilityRequired
          else
            (case map_of (rs_profiles rs) (to_profile c) of
               None \<Rightarrow> Some ErrTerminalProfileNotAllowed
             | Some profile \<Rightarrow>
                 if \<not> scopeAllows scope (pf_action profile) (sc_workspace scope) (pf_risk profile)
                 then Some (Service_Error Approval_Out_Of_Scope)
                 else if \<not> pathWithinWorkspace os1 os2 (sc_workspace scope) (to_directory c)
                 then Some ErrTerminalWorkspaceOutOfScope
                 else
                   (case ps_lease s of
                      None \<Rightarrow> Some ErrTerminalControlRequired
                    | Some lease \<Rightarrow>
                        if cl_client lease \<noteq> client then Some ErrTerminalControlRequired
                        else if cl_revision lease \<noteq> to_revision c then Some (Service_Error Stale_Lease)
                        else if \<not> pf_approval profile then None
                        else
                          (case ParameterDigest env (pf_action profile) (sc_workspace scope)
                                  (terminalApprovalParameters c) of
                             None \<Rightarrow> Some (Service_Error Digest_Failed)
                           | Some digest \<Rightarrow>
                               if list_ex (\<lambda>(cid, now). approval_covers es s profile (sc_workspace scope) digest cid now) order
                               then None else Some ErrTerminalApprovalRequired))))"

definition authorizeTerminalOpen ::
  "'c runtime_env \<Rightarrow> runtime_server \<Rightarrow> os_view \<Rightarrow> os_view \<Rightarrow> (string \<times> instant) list \<Rightarrow> halt \<Rightarrow> string \<Rightarrow> string
     \<Rightarrow> terminal_open_command \<Rightarrow> store \<Rightarrow> runtime_error option \<times> store" where
  "authorizeTerminalOpen env rs os1 os2 order ctx task client c st =
     (case Load (re_sha env) (re_snap env) ctx task st of
        (Inl err, st') \<Rightarrow> (Some (Service_Error (Store_Failed err)), st')
      | (Inr (es, s), st') \<Rightarrow> (authorize_loaded env rs os1 os2 order client c es s, st'))"

section \<open>Working on a file\<close>

definition authorizeEditor ::
  "product_state \<Rightarrow> event list \<Rightarrow> string \<Rightarrow> string \<Rightarrow> int \<Rightarrow> string \<Rightarrow> runtime_error option" where
  "authorizeEditor s es client scope_id revision action =
     (case ps_scope s of
        None \<Rightarrow> Some ErrEditorScopeMismatch
      | Some scope \<Rightarrow>
          if sc_id scope \<noteq> scope_id \<or> \<not> scopeWasConfirmed es scope_id then Some ErrEditorScopeMismatch
          else if \<not> scopeAllows scope action (sc_workspace scope) ''low'' then Some (Service_Error Approval_Out_Of_Scope)
          else
            (case ps_lease s of
               None \<Rightarrow> Some ErrEditorControlRequired
             | Some lease \<Rightarrow>
                 if cl_client lease \<noteq> client then Some ErrEditorControlRequired
                 else if cl_revision lease \<noteq> revision then Some (Service_Error Stale_Lease)
                 else None))"

end
