(* ===== verification/Authority_Properties.thy ===== *)
theory Authority_Properties
  imports Runtime_Authority Service_Properties
begin

text \<open>
  A terminal is opened only under a confirmed scope that allows it, in a directory below the workspace, by the
  client in control, and, where its profile asks for it, with an approval of exactly this command.
\<close>

lemma authorize_loaded_None:
  assumes "authorize_loaded env rs os1 os2 order client c es s = None"
  obtains scope profile where "ps_scope s = Some scope" "scopeWasConfirmed es (sc_id scope)" "sc_id scope = to_scope c"
    "has_capability rs ''terminal.input''" "map_of (rs_profiles rs) (to_profile c) = Some profile"
    "scopeAllows scope (pf_action profile) (sc_workspace scope) (pf_risk profile)"
    "pathWithinWorkspace os1 os2 (sc_workspace scope) (to_directory c)"
    "ps_lease s = Some \<lparr>cl_client = client, cl_revision = to_revision c\<rparr>"
    "pf_approval profile \<longrightarrow> (\<exists>digest cid now.
       ParameterDigest env (pf_action profile) (sc_workspace scope) (terminalApprovalParameters c) = Some digest
       \<and> (cid, now) \<in> set order \<and> approval_covers es s profile (sc_workspace scope) digest cid now)"
proof -
  note [simp] = authorize_loaded_def
  obtain scope where scope [simp]: "ps_scope s = Some scope" using assms by (cases "ps_scope s") simp_all
  have confirmed [simp]: "scopeWasConfirmed es (sc_id scope)" by (rule ccontr) (use assms in simp)
  have named [simp]: "to_scope c = sc_id scope" by (rule ccontr) (use assms in simp)
  have capable [simp]: "has_capability rs ''terminal.input''" by (rule ccontr) (use assms in simp)
  obtain profile where profile [simp]: "map_of (rs_profiles rs) (to_profile c) = Some profile"
    using assms by (cases "map_of (rs_profiles rs) (to_profile c)") simp_all
  have allowed [simp]: "scopeAllows scope (pf_action profile) (sc_workspace scope) (pf_risk profile)"
    by (rule ccontr) (use assms in simp)
  have place [simp]: "pathWithinWorkspace os1 os2 (sc_workspace scope) (to_directory c)"
    by (rule ccontr) (use assms in simp)
  obtain lease where lease [simp]: "ps_lease s = Some lease" using assms by (cases "ps_lease s") simp_all
  have client [simp]: "cl_client lease = client" by (rule ccontr) (use assms in simp)
  have revision [simp]: "cl_revision lease = to_revision c" by (rule ccontr) (use assms in simp)
  have l: "ps_lease s = Some \<lparr>cl_client = client, cl_revision = to_revision c\<rparr>"
    by (auto intro: control_lease.equality)
  have "\<exists>digest cid now.
       ParameterDigest env (pf_action profile) (sc_workspace scope) (terminalApprovalParameters c) = Some digest
       \<and> (cid, now) \<in> set order \<and> approval_covers es s profile (sc_workspace scope) digest cid now" if approval: "pf_approval profile"
  proof (cases "ParameterDigest env (pf_action profile) (sc_workspace scope) (terminalApprovalParameters c)")
    case None
    then show ?thesis using assms approval by simp
  next
    case (Some digest)
    then have "list_ex (\<lambda>(cid, now). approval_covers es s profile (sc_workspace scope) digest cid now) order"
      using assms approval by (simp split: if_splits)
    then show ?thesis using Some by (auto simp: list_ex_iff)
  qed
  then show ?thesis using that [OF scope confirmed named [symmetric] capable profile allowed place l] by blast
qed

text \<open>C17: a terminal that is authorized has: a scope that the log confirms, is the one the client names, and allows
  the action and the risk of a known profile on its workspace; a directory that lies below the workspace
  with all symbolic links followed; the lease, held by this client at the revision it names. If the profile
  asks for an approval, one is held for exactly this action, workspace, risk and digest of the command's
  parameters, allowed by a resolution in the timeline that was not after its expiry, unexpired when it was
  looked at, and requested after the last change of the scope.
\<close>

theorem terminal_open_is_authorized:
  assumes run: "authorizeTerminalOpen env rs os1 os2 order ctx task client c (interleave env ops Map.empty) = (None, st')"
    and os: "os_ok os1" "os_ok os2"
  shows "\<exists>es s scope profile base place.
      fst (Load (re_sha env) (re_snap env) None task (interleave env ops Map.empty)) = Inr (es, s)
    \<and> ps_scope s = Some scope \<and> scopeWasConfirmed es (sc_id scope) \<and> sc_id scope = to_scope c
    \<and> has_capability rs ''terminal.input'' \<and> map_of (rs_profiles rs) (to_profile c) = Some profile
    \<and> scopeAllows scope (pf_action profile) (sc_workspace scope) (pf_risk profile)
    \<and> os_eval_links os1 (sc_workspace scope) = Inr base \<and> os_eval_links os2 (to_directory c) = Inr place
    \<and> prefix (elements base) (elements place)
    \<and> ps_lease s = Some \<lparr>cl_client = client, cl_revision = to_revision c\<rparr>
    \<and> (pf_approval profile \<longrightarrow> (\<exists>cid now a expires.
         (cid, now) \<in> set order \<and> ps_approvals s cid = Some a \<and> ap_decision a = ''allow_once''
       \<and> ap_action (ap_challenge a) = pf_action profile \<and> ap_target (ap_challenge a) = sc_workspace scope
       \<and> ap_risk (ap_challenge a) = pf_risk profile
       \<and> ParameterDigest env (pf_action profile) (sc_workspace scope) (terminalApprovalParameters c)
           = Some (ap_digest (ap_challenge a))
       \<and> parse_rfc3339 (ap_expires (ap_challenge a)) = Some expires \<and> now \<le> expires
       \<and> approvalScopeActive es cid \<and> list_ex (\<lambda>e. resolves e cid a) (ps_timeline s)))"
proof -
  let ?st = "interleave env ops Map.empty"
  have ctx: "ctx = None"
    using run by (auto simp: authorizeTerminalOpen_def split: sum.splits prod.splits dest: Load_unstopped)
  obtain es s where load: "fst (Load (re_sha env) (re_snap env) None task ?st) = Inr (es, s)"
      and auth: "authorize_loaded env rs os1 os2 order client c es s = None"
    using run ctx by (auto simp: authorizeTerminalOpen_def split: sum.splits prod.splits)
  have "s = fold product_step es Initial"
    by (rule Load_later [OF interleave_sound [OF sound_empty] load, of "[]"]) simp
  then have "decisions_recorded s"
    using product_decisions.inv_run [of Initial es] by (simp add: decisions_recorded_def Initial_def)
  then have recorded: "list_ex (\<lambda>e. resolves e cid a) (ps_timeline s)"
    if "ps_approvals s cid = Some a" "ap_decision a = ''allow_once''" for cid a
    using that unfolding decisions_recorded_def list_ex_iff by auto
  obtain scope profile where a: "ps_scope s = Some scope" "scopeWasConfirmed es (sc_id scope)" "sc_id scope = to_scope c"
    "has_capability rs ''terminal.input''" "map_of (rs_profiles rs) (to_profile c) = Some profile"
    "scopeAllows scope (pf_action profile) (sc_workspace scope) (pf_risk profile)"
    "pathWithinWorkspace os1 os2 (sc_workspace scope) (to_directory c)"
    "ps_lease s = Some \<lparr>cl_client = client, cl_revision = to_revision c\<rparr>"
    "pf_approval profile \<longrightarrow> (\<exists>digest cid now.
       ParameterDigest env (pf_action profile) (sc_workspace scope) (terminalApprovalParameters c) = Some digest
       \<and> (cid, now) \<in> set order \<and> approval_covers es s profile (sc_workspace scope) digest cid now)"
    by (rule authorize_loaded_None [OF auth])
  obtain base place where "os_eval_links os1 (sc_workspace scope) = Inr base" "os_eval_links os2 (to_directory c) = Inr place"
      "prefix (elements base) (elements place)"
    using workspace_elements [OF os a(7)] by blast
  moreover have "\<exists>cid now a expires. (cid, now) \<in> set order \<and> ps_approvals s cid = Some a \<and> ap_decision a = ''allow_once''
       \<and> ap_action (ap_challenge a) = pf_action profile \<and> ap_target (ap_challenge a) = sc_workspace scope
       \<and> ap_risk (ap_challenge a) = pf_risk profile
       \<and> ParameterDigest env (pf_action profile) (sc_workspace scope) (terminalApprovalParameters c)
           = Some (ap_digest (ap_challenge a))
       \<and> parse_rfc3339 (ap_expires (ap_challenge a)) = Some expires \<and> now \<le> expires
       \<and> approvalScopeActive es cid \<and> list_ex (\<lambda>e. resolves e cid a) (ps_timeline s)" if approval: "pf_approval profile"
  proof -
    obtain digest cid now where d: "ParameterDigest env (pf_action profile) (sc_workspace scope)
        (terminalApprovalParameters c) = Some digest" "(cid, now) \<in> set order"
        "approval_covers es s profile (sc_workspace scope) digest cid now" using a(9) approval by blast
    then obtain ap expires where "ps_approvals s cid = Some ap" "parse_rfc3339 (ap_expires (ap_challenge ap)) = Some expires"
        "now \<le> expires" "ap_decision ap = ''allow_once''" "ap_action (ap_challenge ap) = pf_action profile"
        "ap_target (ap_challenge ap) = sc_workspace scope" "ap_risk (ap_challenge ap) = pf_risk profile"
        "ap_digest (ap_challenge ap) = digest" "approvalScopeActive es cid"
      by (auto simp: approval_covers_def split: option.splits)
    then show ?thesis using d recorded by blast
  qed
  ultimately show ?thesis using load a(1-6,8) by (intro exI conjI) auto
qed

end
