(* ===== verification/Go_Base64.thy ===== *)
theory Go_Base64
  imports Go_Formats
begin

text \<open>
  \<open>base64.StdEncoding\<close>: the bytes that \<open>DecodeString\<close> yields, whose number Go_Formats counts, and
  \<open>EncodeToString\<close>.
\<close>

definition base64_alphabet :: string where
  "base64_alphabet = ''ABCDEFGHIJKLMNOPQRSTUVWXYZabcdefghijklmnopqrstuvwxyz0123456789+/''"

definition sextet_char :: "nat \<Rightarrow> char" where
  "sextet_char n = base64_alphabet ! n"

definition sextet :: "char \<Rightarrow> nat" where
  "sextet c =
     (if 65 \<le> code c \<and> code c \<le> 90 then code c - 65
      else if 97 \<le> code c \<and> code c \<le> 122 then code c - 71
      else if js_digit c then code c + 4
      else if c = CHR ''+'' then 62 else 63)"

definition byte1 :: "char \<Rightarrow> char \<Rightarrow> char" where
  "byte1 a b = char_of (sextet a * 4 + sextet b div 16)"

definition byte2 :: "char \<Rightarrow> char \<Rightarrow> char" where
  "byte2 b c = char_of (sextet b mod 16 * 16 + sextet c div 4)"

definition byte3 :: "char \<Rightarrow> char \<Rightarrow> char" where
  "byte3 c d = char_of (sextet c mod 4 * 64 + sextet d)"

fun decode_quanta :: "string \<Rightarrow> string option" where
  "decode_quanta [] = Some []"
| "decode_quanta (a # b # c # d # r) =
     (if \<not> base64_char a \<or> \<not> base64_char b then None
      else if base64_char c \<and> base64_char d then
        map_option ((@) [byte1 a b, byte2 b c, byte3 c d]) (decode_quanta r)
      else if r \<noteq> [] \<or> d \<noteq> CHR ''='' then None
      else if c = CHR ''='' then Some [byte1 a b]
      else if base64_char c then Some [byte1 a b, byte2 b c] else None)"
| "decode_quanta _ = None"

definition base64_decode :: "string \<Rightarrow> string option" where
  "base64_decode s = decode_quanta (filter (\<lambda>c. c \<noteq> CHR 0x0A \<and> c \<noteq> CHR 0x0D) s)"

fun base64_encode :: "string \<Rightarrow> string" where
  "base64_encode [] = []"
| "base64_encode [a] = [sextet_char (code a div 4), sextet_char (code a mod 4 * 16), CHR ''='', CHR ''='']"
| "base64_encode [a, b] =
     [sextet_char (code a div 4), sextet_char (code a mod 4 * 16 + code b div 16), sextet_char (code b mod 16 * 4),
      CHR ''='']"
| "base64_encode (a # b # c # r) =
     sextet_char (code a div 4) # sextet_char (code a mod 4 * 16 + code b div 16)
     # sextet_char (code b mod 16 * 4 + code c div 64) # sextet_char (code c mod 64) # base64_encode r"

lemma padding [simp]: "\<not> base64_char (CHR ''='')"
  by code_simp

lemma decode_quanta_length: "map_option length (decode_quanta s) = quanta s"
proof (induction s rule: decode_quanta.induct)
  case (2 a b c d r)
  then show ?case by (cases "decode_quanta r"; cases "quanta r") auto
qed simp_all

lemma base64_decode_length: "map_option length (base64_decode s) = base64_length s"
  by (simp add: base64_decode_def base64_length_def decode_quanta_length)

section \<open>Round trip\<close>

lemma sextet_chars: "list_all (\<lambda>n. base64_char (sextet_char n) \<and> sextet (sextet_char n) = n) [0..<64]"
  by code_simp

lemma sextet_char [simp]:
  assumes "n < 64"
  shows "base64_char (sextet_char n)" and "sextet (sextet_char n) = n"
  using sextet_chars assms by (simp_all add: list_all_iff)

lemma line_ends: "\<not> base64_char (CHR 0x0A)" "\<not> base64_char (CHR 0x0D)"
  by code_simp+

lemmas code_less = nat_of_char_less_256

lemma sextet_char_pad [simp]: "n < 64 \<Longrightarrow> sextet_char n \<noteq> CHR ''=''"
  by (metis padding sextet_char(1))

lemma six_bits [simp]:
  "code a div 4 < 64" "code a mod 4 * 16 + code b div 16 < 64" "code b mod 16 * 4 + code c div 64 < 64"
  "code a mod 4 * 16 < 64" "code b mod 16 * 4 < 64"
proof -
  have "code b div 16 < 16" "code c div 64 < 4" "code a div 4 < 64"
    using code_less [of a] code_less [of b] code_less [of c] by (simp_all add: less_mult_imp_div_less)
  moreover have "code a mod 4 < 4" "code b mod 16 < 16" by simp_all
  ultimately show "code a div 4 < 64" "code a mod 4 * 16 + code b div 16 < 64" "code b mod 16 * 4 + code c div 64 < 64"
    "code a mod 4 * 16 < 64" "code b mod 16 * 4 < 64"
    by linarith+
qed

lemma byte1: "byte1 (sextet_char (code a div 4)) (sextet_char (code a mod 4 * 16 + code b div 16)) = a"
proof -
  have "(code a mod 4 * 16 + code b div 16) div 16 = code a mod 4"
    using code_less [of b] by (simp add: div_less less_mult_imp_div_less)
  then show ?thesis by (simp add: byte1_def)
qed

lemma byte1_last: "byte1 (sextet_char (code a div 4)) (sextet_char (code a mod 4 * 16)) = a"
  by (simp add: byte1_def)

lemma byte2: "byte2 (sextet_char (code a mod 4 * 16 + code b div 16)) (sextet_char (code b mod 16 * 4 + code c div 64)) = b"
proof -
  have "code b div 16 < 16" "code c div 64 < 4"
    using code_less [of b] code_less [of c] by (simp_all add: less_mult_imp_div_less)
  then have "(code a mod 4 * 16 + code b div 16) mod 16 = code b div 16" "(code b mod 16 * 4 + code c div 64) div 4 = code b mod 16"
    by simp_all
  then show ?thesis by (simp add: byte2_def)
qed

lemma byte2_last: "byte2 (sextet_char (code a mod 4 * 16 + code b div 16)) (sextet_char (code b mod 16 * 4)) = b"
proof -
  have "code b div 16 < 16" using code_less [of b] by (simp add: less_mult_imp_div_less)
  then have "(code a mod 4 * 16 + code b div 16) mod 16 = code b div 16" by simp
  then show ?thesis by (simp add: byte2_def)
qed

lemma byte3: "byte3 (sextet_char (code b mod 16 * 4 + code c div 64)) (sextet_char (code c mod 64)) = c"
proof -
  have "code c div 64 < 4" using code_less [of c] by (simp add: less_mult_imp_div_less)
  then have "(code b mod 16 * 4 + code c div 64) mod 4 = code c div 64" by simp
  then show ?thesis by (simp add: byte3_def)
qed

lemma decode_quanta_encode: "decode_quanta (base64_encode s) = Some s"
  by (induction s rule: base64_encode.induct) (simp_all add: byte1 byte1_last byte2 byte2_last byte3)

lemma encode_chars: "list_all (\<lambda>c. base64_char c \<or> c = CHR ''='') (base64_encode s)"
  by (induction s rule: base64_encode.induct) simp_all

lemma base64_roundtrip: "base64_decode (base64_encode s) = Some s"
proof -
  have "filter (\<lambda>c. c \<noteq> CHR 0x0A \<and> c \<noteq> CHR 0x0D) (base64_encode s) = base64_encode s"
    using encode_chars [of s] line_ends by (intro filter_True) (auto simp: list_all_iff)
  then show ?thesis by (simp add: base64_decode_def decode_quanta_encode)
qed

lemma base64_length_encode [simp]: "base64_length (base64_encode s) = Some (length s)"
  using base64_decode_length [of "base64_encode s"] base64_roundtrip by simp

end
