(* ===== verification/Editor_Manager.thy ===== *)
theory Editor_Manager
  imports Runtime_Authority Go_Base64
begin

text \<open>
  Drafts of files (\<open>runtimeapi/editor_manager.go\<close>): a client opens a file of the workspace, saves proposals,
  which stay in memory, and applies one to the file. Each access to a file sees a file system of its own, as
  in Verified_File; what is read from an opened file, and whether the temporary file is prepared and put
  in the place of the file, are arguments. The state is the memory of pending proposals and, in the order in
  which they happened, the replacements of files.
\<close>

definition maxEditorBytes :: nat where
  "maxEditorBytes = 64 * 1024 * 1024"

record editor_open_command =
  eo_draft :: string
  eo_path :: string
  eo_scope :: string
  eo_references :: "editor_reference list"
  eo_revision :: int

record editor_save_command =
  es_draft :: string
  es_revision :: int
  es_base :: string
  es_data :: string
  es_length :: int
  es_lease :: int

record editor_apply_command =
  ea_draft :: string
  ea_revision :: int
  ea_proposed :: string
  ea_lease :: int

record editor_discard_command =
  ec_draft :: string
  ec_lease :: int

record editor_manager =
  em_pending :: "string \<rightharpoonup> string"
  em_replaced :: "(string \<times> string) list"

definition NewEditorManager :: editor_manager where
  "NewEditorManager = \<lparr>em_pending = Map.empty, em_replaced = []\<rparr>"

type_synonym edited = "editor_manager \<times> store"

definition editorKey :: "string \<Rightarrow> string \<Rightarrow> string" where
  "editorKey task draft = task @ '':'' @ draft"

definition editor_Close :: "editor_manager \<Rightarrow> editor_manager" where
  "editor_Close em = em\<lparr>em_pending := Map.empty\<rparr>"

definition forget :: "string \<Rightarrow> string \<Rightarrow> editor_manager \<Rightarrow> editor_manager" where
  "forget task draft em = em\<lparr>em_pending := (em_pending em)(editorKey task draft := None)\<rparr>"

definition remember :: "string \<Rightarrow> string \<Rightarrow> string \<Rightarrow> editor_manager \<Rightarrow> editor_manager" where
  "remember task draft data em = em\<lparr>em_pending := (em_pending em)(editorKey task draft \<mapsto> data)\<rparr>"

section \<open>Files\<close>

text \<open>One access: how the file is opened, a second look at its state, and the bytes read.\<close>

record file_access =
  fa_view :: open_view
  fa_stat :: "nat \<Rightarrow> file_info option"
  fa_read :: "nat \<Rightarrow> string option"

definition read_limited :: "file_access \<Rightarrow> nat \<Rightarrow> string option" where
  "read_limited fa f = map_option (take (maxEditorBytes + 1)) (fa_read fa f)"

definition verifyBase :: "'c runtime_env \<Rightarrow> file_access \<Rightarrow> string \<Rightarrow> string \<Rightarrow> string \<Rightarrow> runtime_error + nat" where
  "verifyBase env fa folder path expected =
     (case OpenVerified (fa_view fa) folder path of
        Inl _ \<Rightarrow> Inl File_Failed
      | Inr (f, _) \<Rightarrow>
          (case (fa_stat fa f, read_limited fa f) of
             (Some info, Some data) \<Rightarrow>
               if maxEditorBytes < length data \<or> re_sha env data \<noteq> expected then Inl ErrEditorPatchStale
               else Inr (fi_mode info)
           | _ \<Rightarrow> Inl File_Failed))"

section \<open>Opening\<close>

definition json_reference :: "editor_reference \<Rightarrow> json" where
  "json_reference r = object
     [(''findingId'', JStr (ed_finding r)), (''evidenceId'', JStr (ed_evidence r)),
      (''startLine'', json_int (ed_start r)), (''endLine'', json_int (ed_end r))]"

text \<open>The copy of an empty list is nil, which is marshalled as null.\<close>

definition json_references :: "editor_reference list \<Rightarrow> json" where
  "json_references rs = (if rs = [] then JNull else JArr (map json_reference rs))"

definition draft_opened_payload :: "'c runtime_env \<Rightarrow> string \<Rightarrow> editor_open_command \<Rightarrow> string \<Rightarrow> (string \<times> json) list" where
  "draft_opened_payload env client c data =
     [(''draft'', object
        [(''id'', JStr (eo_draft c)), (''path'', JStr (Clean (eo_path c))), (''scopeId'', JStr (eo_scope c)),
         (''ownerClientId'', JStr client), (''leaseRevision'', json_int (eo_revision c)),
         (''baseSha256'', JStr (re_sha env data)), (''baseByteLength'', json_int (int (length data))),
         (''encoding'', JStr ''utf-8''), (''evidenceReferences'', json_references (eo_references c))])]"

definition editor_Open ::
  "'c runtime_env \<Rightarrow> service \<Rightarrow> call \<Rightarrow> os_view \<Rightarrow> os_view \<Rightarrow> file_access \<Rightarrow> string \<Rightarrow> string \<Rightarrow> editor_open_command
     \<Rightarrow> edited \<Rightarrow> runtime_error option \<times> edited" where
  "editor_Open env sv ca os1 os2 fa task client c m =
     (case m of (em, st) \<Rightarrow>
      case Load (re_sha env) (re_snap env) (ca_ctx ca) task st of
        (Inl err, st1) \<Rightarrow> (Some (Service_Error (Store_Failed err)), em, st1)
      | (Inr (es, s), st1) \<Rightarrow>
          (case (authorizeEditor s es client (eo_scope c) (eo_revision c) ''editor.open'', ps_scope s) of
             (Some err, _) \<Rightarrow> (Some err, em, st1)
           | (None, None) \<Rightarrow> (Some ErrEditorScopeMismatch, em, st1)
           | (None, Some scope) \<Rightarrow>
               if \<not> List.member (sc_allowed scope) ''editor.open'' then (Some (Service_Error Approval_Out_Of_Scope), em, st1)
               else if \<not> pathWithinWorkspace os1 os2 (sc_workspace scope) (eo_path c)
               then (Some ErrEditorWorkspaceOutOfScope, em, st1)
               else
                 (case OpenVerified (fa_view fa) (sc_workspace scope) (eo_path c) of
                    Inl _ \<Rightarrow> (Some File_Failed, em, st1)
                  | Inr (f, info) \<Rightarrow>
                      if fi_size info < 0 \<or> int maxEditorBytes < fi_size info then (Some ErrEditorUnsupportedFile, em, st1)
                      else
                        (case read_limited fa f of
                           None \<Rightarrow> (Some File_Failed, em, st1)
                         | Some data \<Rightarrow>
                             if maxEditorBytes < length data \<or> \<not> valid_utf8 data
                             then (Some ErrEditorUnsupportedFile, em, st1)
                             else
                               (case emit_later env sv ca task ''editor.draft.opened''
                                  (object (draft_opened_payload env client c data)) no_source st1 of
                                  (Inl err, st2) \<Rightarrow> (Some (Service_Error (Store_Failed err)), em, st2)
                                | (Inr _, st2) \<Rightarrow> (None, remember task (eo_draft c) [] em, st2))))))"

section \<open>Saving, reading, applying, discarding\<close>

text \<open>
  The checks that the four operations share: the snapshot, the draft, the authority. After them the scope is
  there, since \<open>authorizeEditor\<close> refuses a snapshot without one.
\<close>

definition with_draft ::
  "'c runtime_env \<Rightarrow> halt \<Rightarrow> string \<Rightarrow> string \<Rightarrow> string \<Rightarrow> int \<Rightarrow> string
     \<Rightarrow> (product_state \<Rightarrow> scope_snapshot \<Rightarrow> editor_draft \<Rightarrow> edited \<Rightarrow> (runtime_error + 'r) \<times> edited)
     \<Rightarrow> edited \<Rightarrow> (runtime_error + 'r) \<times> edited" where
  "with_draft env ctx task client draft lease action f m =
     (case m of (em, st) \<Rightarrow>
      case Load (re_sha env) (re_snap env) ctx task st of
        (Inl err, st1) \<Rightarrow> (Inl (Service_Error (Store_Failed err)), em, st1)
      | (Inr (es, s), st1) \<Rightarrow>
          (case ps_drafts s draft of
             None \<Rightarrow> (Inl ErrEditorDraftNotFound, em, st1)
           | Some d \<Rightarrow>
               (case (authorizeEditor s es client (dr_scope d) lease action, ps_scope s) of
                  (Some err, _) \<Rightarrow> (Inl err, em, st1)
                | (None, None) \<Rightarrow> (Inl ErrEditorScopeMismatch, em, st1)
                | (None, Some scope) \<Rightarrow> f s scope d (em, st1))))"

definition editor_Save ::
  "'c runtime_env \<Rightarrow> service \<Rightarrow> call \<Rightarrow> file_access \<Rightarrow> string \<Rightarrow> string \<Rightarrow> editor_save_command \<Rightarrow> edited
     \<Rightarrow> (runtime_error + event) \<times> edited" where
  "editor_Save env sv ca fa task client c = with_draft env (ca_ctx ca) task client (es_draft c) (es_lease c) ''editor.write''
     (\<lambda>s scope d (em, st).
       if dr_status d \<noteq> ''open'' \<and> dr_status d \<noteq> ''saved'' \<or> dr_next d \<noteq> es_revision c \<or> dr_base d \<noteq> es_base c
       then (Inl ErrEditorDraftRevision, em, st)
       else if int (length (es_data c)) \<noteq> es_length c \<or> maxEditorBytes < length (es_data c) \<or> \<not> valid_utf8 (es_data c)
       then (Inl ErrEditorUnsupportedFile, em, st)
       else
         (case verifyBase env fa (sc_workspace scope) (dr_path d) (dr_base d) of
            Inl err \<Rightarrow> (Inl err, em, st)
          | Inr _ \<Rightarrow>
              (case emit_later env sv ca task ''editor.draft.saved'' (object
                 [(''draftId'', JStr (dr_id d)), (''revision'', json_int (es_revision c)), (''baseSha256'', JStr (dr_base d)),
                  (''proposedSha256'', JStr (re_sha env (es_data c))),
                  (''proposedByteLength'', json_int (int (length (es_data c))))]) no_source st of
                 (Inl err, st1) \<Rightarrow> (Inl (Service_Error (Store_Failed err)), em, st1)
               | (Inr e, st1) \<Rightarrow> (Inr e, remember task (dr_id d) (es_data c) em, st1))))"

text \<open>\<open>Read\<close> gives the draft, its last revision and the bytes; \<open>fb\<close> is the second access to the file.\<close>

definition editor_Read ::
  "'c runtime_env \<Rightarrow> halt \<Rightarrow> file_access \<Rightarrow> file_access \<Rightarrow> string \<Rightarrow> string \<Rightarrow> string \<Rightarrow> int \<Rightarrow> edited
     \<Rightarrow> (runtime_error + editor_draft \<times> int \<times> string) \<times> edited" where
  "editor_Read env ctx fa fb task client draft lease = with_draft env ctx task client draft lease ''editor.open''
     (\<lambda>s scope d (em, st).
       if dr_owner d \<noteq> client then (Inl ErrEditorControlRequired, em, st)
       else if dr_status d \<noteq> ''open'' \<and> dr_status d \<noteq> ''saved'' then (Inl ErrEditorDraftNotEditable, em, st)
       else
         (case verifyBase env fa (sc_workspace scope) (dr_path d) (dr_base d) of
            Inl err \<Rightarrow> (Inl err, em, st)
          | Inr _ \<Rightarrow>
              if dr_status d = ''saved'' then
                (case em_pending em (editorKey task (dr_id d)) of
                   None \<Rightarrow> (Inl ErrEditorPatchStale, em, st)
                 | Some data \<Rightarrow>
                     if re_sha env data \<noteq> dr_proposed d then (Inl ErrEditorPatchStale, em, st)
                     else (Inr (d, wrap64 (dr_next d - 1), data), em, st))
              else
                (case OpenVerified (fa_view fb) (sc_workspace scope) (dr_path d) of
                   Inl _ \<Rightarrow> (Inl File_Failed, em, st)
                 | Inr (f, _) \<Rightarrow>
                     (case read_limited fb f of
                        None \<Rightarrow> (Inl File_Failed, em, st)
                      | Some data \<Rightarrow> (Inr (d, wrap64 (dr_next d - 1), data), em, st)))))"

text \<open>
  \<open>prepared\<close>: the temporary file could be written. \<open>replacement\<close>: whether it took the place of the file, and
  whether the directory could be synchronised after that.
\<close>

datatype replacement = Replaced | Replaced_Not_Synced | Not_Replaced

definition editor_Apply ::
  "'c runtime_env \<Rightarrow> service \<Rightarrow> call \<Rightarrow> file_access \<Rightarrow> bool \<Rightarrow> replacement \<Rightarrow> string \<Rightarrow> string \<Rightarrow> editor_apply_command \<Rightarrow> edited
     \<Rightarrow> (runtime_error + event) \<times> edited" where
  "editor_Apply env sv ca fa prepared replaced task client c =
     with_draft env (ca_ctx ca) task client (ea_draft c) (ea_lease c) ''editor.write''
     (\<lambda>s scope d (em, st).
       if dr_status d \<noteq> ''saved'' \<or> wrap64 (dr_next d - 1) \<noteq> ea_revision c \<or> dr_proposed d \<noteq> ea_proposed c
       then (Inl ErrEditorPatchStale, em, st)
       else
         (case em_pending em (editorKey task (dr_id d)) of
            None \<Rightarrow> (Inl ErrEditorPatchStale, em, st)
          | Some data \<Rightarrow>
              if re_sha env data \<noteq> ea_proposed c then (Inl ErrEditorPatchStale, em, st)
              else
                (case verifyBase env fa (sc_workspace scope) (dr_path d) (dr_base d) of
                   Inl err \<Rightarrow> (Inl err, em, st)
                 | Inr _ \<Rightarrow>
                     if \<not> prepared then (Inl File_Failed, em, st)
                     else
                       (case emit_later env sv ca task ''editor.patch.applied'' (object
                          [(''draftId'', JStr (dr_id d)), (''revision'', json_int (ea_revision c)),
                           (''baseSha256'', JStr (dr_base d)), (''proposedSha256'', JStr (dr_proposed d)),
                           (''resultSha256'', JStr (re_sha env data)), (''reviewer'', JStr client)]) no_source st of
                          (Inl err, st1) \<Rightarrow> (Inl (Service_Error (Store_Failed err)), em, st1)
                        | (Inr e, st1) \<Rightarrow>
                            (let em1 = em\<lparr>em_replaced := em_replaced em @ [(dr_path d, data)]\<rparr> in
                             case replaced of
                               Not_Replaced \<Rightarrow> (Inl File_Failed, em, st1)
                             | Replaced_Not_Synced \<Rightarrow> (Inl File_Failed, em1, st1)
                             | Replaced \<Rightarrow> (Inr e, forget task (dr_id d) em1, st1))))))"

definition editor_Discard ::
  "'c runtime_env \<Rightarrow> service \<Rightarrow> call \<Rightarrow> string \<Rightarrow> string \<Rightarrow> editor_discard_command \<Rightarrow> edited
     \<Rightarrow> (runtime_error + event) \<times> edited" where
  "editor_Discard env sv ca task client c = with_draft env (ca_ctx ca) task client (ec_draft c) (ec_lease c) ''editor.write''
     (\<lambda>s scope d (em, st).
       case emit_later env sv ca task ''editor.draft.discarded'' (object
         [(''draftId'', JStr (dr_id d)), (''reason'', JStr ''operator_discarded'')]) no_source st of
         (Inl err, st1) \<Rightarrow> (Inl (Service_Error (Store_Failed err)), em, st1)
       | (Inr e, st1) \<Rightarrow> (Inr e, forget task (dr_id d) em, st1))"

end
