(* ===== verification/Editor_Properties.thy ===== *)
theory Editor_Properties
  imports Editor_Manager Service_Properties
begin

text \<open>
  A file is replaced only by the proposal that was saved and reviewed, by the client in control, while the
  file still has the content the draft began with, and only after the event that says so was committed. The
  last section has the cases in which an operation cannot do what it promises.
\<close>

lemma with_draft_success:
  assumes "with_draft env ctx task client draft lease action f (em, st) = (r, (em', st'))"
  obtains (refused) err where "r = Inl err" "em' = em"
    | (called) es s st1 d scope where "Load (re_sha env) (re_snap env) ctx task st = (Inr (es, s), st1)"
        "ps_drafts s draft = Some d" "authorizeEditor s es client (dr_scope d) lease action = None" "ps_scope s = Some scope"
        "f s scope d (em, st1) = (r, (em', st'))"
proof -
  obtain ld st1 where load: "Load (re_sha env) (re_snap env) ctx task st = (ld, st1)" by (rule prod.exhaust)
  show ?thesis
  proof (cases ld)
    case (Inl err)
    then show ?thesis using assms load by (auto simp: with_draft_def intro: refused)
  next
    case (Inr l)
    then obtain es s where l: "ld = Inr (es, s)" by (cases l) auto
    show ?thesis
    proof (cases "ps_drafts s draft")
      case None
      then show ?thesis using assms load l by (auto simp: with_draft_def intro: refused)
    next
      case (Some d)
      show ?thesis
      proof (cases "authorizeEditor s es client (dr_scope d) lease action")
        case None
        show ?thesis
        proof (cases "ps_scope s")
          case (Some scope)
          show ?thesis
            by (rule called [OF load [unfolded l] \<open>ps_drafts s draft = Some d\<close> None Some])
              (use assms load l \<open>ps_drafts s draft = Some d\<close> None Some in \<open>simp add: with_draft_def\<close>)
        qed (use assms load l \<open>ps_drafts s draft = Some d\<close> None in \<open>auto simp: with_draft_def intro: refused\<close>)
      next
        case (Some err)
        then show ?thesis
          using assms load l \<open>ps_drafts s draft = Some d\<close> by (auto simp: with_draft_def intro: refused)
      qed
    qed
  qed
qed

text \<open>What a client needs to work on a file.\<close>

lemma authorizeEditor_None:
  assumes "authorizeEditor s es client sid lease action = None"
  obtains scope where "ps_scope s = Some scope" "sc_id scope = sid" "scopeWasConfirmed es sid"
    "scopeAllows scope action (sc_workspace scope) ''low''"
    "ps_lease s = Some \<lparr>cl_client = client, cl_revision = lease\<rparr>"
  using assms by (auto simp: authorizeEditor_def split: option.splits if_splits intro: control_lease.equality)

text \<open>
  The file still is what the draft began with, at a place below the workspace.
\<close>

definition base_in_place :: "'c runtime_env \<Rightarrow> file_access \<Rightarrow> string \<Rightarrow> string \<Rightarrow> string \<Rightarrow> bool" where
  "base_in_place env fa workspace path base \<longleftrightarrow>
     (\<exists>folder place f content. resolved_abs (ov_root (fa_view fa)) workspace = Some folder
        \<and> resolved_abs (ov_again (fa_view fa)) path = Some place \<and> prefix (elements folder) (elements place)
        \<and> ov_current (fa_view fa) place = Some f \<and> fa_read fa f = Some content \<and> length content \<le> maxEditorBytes
        \<and> re_sha env content = base)"

lemma verifyBase_success:
  assumes "os_ok (ov_root (fa_view fa))" "os_ok (ov_path (fa_view fa))" "os_ok (ov_again (fa_view fa))"
    and "verifyBase env fa workspace path base = Inr mode"
  shows "base_in_place env fa workspace path base"
proof -
  obtain f info data where v: "OpenVerified (fa_view fa) workspace path = Inr (f, info)" "read_limited fa f = Some data"
      "length data \<le> maxEditorBytes" "re_sha env data = base"
    using assms(4) by (auto simp: verifyBase_def not_less split: sum.splits option.splits if_splits)
  then obtain content where c: "fa_read fa f = Some content" "data = take (maxEditorBytes + 1) content"
    by (auto simp: read_limited_def)
  then have "data = content" using v(3) by (auto simp: min_def split: if_splits)
  then show ?thesis
    using opened_inside [OF assms(1-3) v(1)] v(3,4) c(1) unfolding base_in_place_def by blast
qed

definition applied_payload :: "'c runtime_env \<Rightarrow> string \<Rightarrow> editor_apply_command \<Rightarrow> editor_draft \<Rightarrow> string \<Rightarrow> (string \<times> json) list" where
  "applied_payload env client c d data =
     [(''draftId'', JStr (dr_id d)), (''revision'', json_int (ea_revision c)), (''baseSha256'', JStr (dr_base d)),
      (''proposedSha256'', JStr (dr_proposed d)), (''resultSha256'', JStr (re_sha env data)), (''reviewer'', JStr client)]"

lemma applied_payload_wf: "list_all (\<lambda>(_, v). wf_json v) (applied_payload env client c d data)"
  "List.member known_event_types ''editor.patch.applied''"
  by (simp_all add: applied_payload_def json_int_def int_text_def known_event_types_def)

lemma editor_Apply_replaces:
  assumes "editor_Apply env sv ca fa prepared replaced task client c (em, st) = (r, (em', st'))"
    and "em_replaced em' \<noteq> em_replaced em"
  obtains es s st1 d scope data mode e where "Load (re_sha env) (re_snap env) (ca_ctx ca) task st = (Inr (es, s), st1)"
    "ps_drafts s (ea_draft c) = Some d" "authorizeEditor s es client (dr_scope d) (ea_lease c) ''editor.write'' = None"
    "ps_scope s = Some scope" "dr_status d = ''saved''" "wrap64 (dr_next d - 1) = ea_revision c" "dr_proposed d = ea_proposed c"
    "em_pending em (editorKey task (dr_id d)) = Some data" "re_sha env data = ea_proposed c"
    "verifyBase env fa (sc_workspace scope) (dr_path d) (dr_base d) = Inr mode"
    "emit_later env sv ca task ''editor.patch.applied'' (object (applied_payload env client c d data)) no_source st1 = (Inr e, st')"
    "em_replaced em' = em_replaced em @ [(dr_path d, data)]"
  using assms(1) [unfolded editor_Apply_def]
proof (cases rule: with_draft_success)
  case (refused err)
  then show ?thesis using assms(2) by simp
next
  case (called es s st1 d scope)
  have ok: "dr_status d = ''saved''" "wrap64 (dr_next d - 1) = ea_revision c" "dr_proposed d = ea_proposed c"
    using called(5) assms(2) by (auto split: if_splits)
  obtain data where data: "em_pending em (editorKey task (dr_id d)) = Some data"
    using called(5) assms(2) ok by (cases "em_pending em (editorKey task (dr_id d))") auto
  have sha: "re_sha env data = ea_proposed c" using called(5) assms(2) ok data by (auto split: if_splits)
  obtain mode where mode: "verifyBase env fa (sc_workspace scope) (dr_path d) (dr_base d) = Inr mode"
    using called(5) assms(2) ok data sha
    by (cases "verifyBase env fa (sc_workspace scope) (dr_path d) (dr_base d)") auto
  obtain res st2 where res: "emit_later env sv ca task ''editor.patch.applied''
      (object (applied_payload env client c d data)) no_source st1 = (res, st2)" by (rule prod.exhaust)
  note e = res [unfolded applied_payload_def sha]
  have prepared: "prepared"
    using called(5) assms(2) ok data sha mode by (auto split: if_splits)
  have "\<exists>ev. res = Inr ev \<and> st2 = st' \<and> em_replaced em' = em_replaced em @ [(dr_path d, data)]"
    using called(5) assms(2) ok data sha mode prepared e
    by (cases res; cases replaced) (auto simp: Let_def forget_def)
  then show ?thesis using that called(1-4) ok data sha mode res by blast
qed

text \<open>C19: a file is replaced only by what was reviewed. If \<open>Apply\<close> replaces a file, then in the snapshot loaded for
  it the draft is saved, its scope is confirmed and allows writing, and the client holds the lease; the new
  content is the pending proposal, whose digest is the saved and the commanded one; the file read just before
  lay below the workspace and had the digest the draft began with; and the event that names the proposal
  and the client as its reviewer is committed.
\<close>

theorem replaced_file_was_reviewed:
  assumes run: "editor_Apply env sv ca fa prepared replaced task client c (em, interleave env ops Map.empty)
      = (r, (em', st'))"
    and replaced: "em_replaced em' \<noteq> em_replaced em"
    and os: "os_ok (ov_root (fa_view fa))" "os_ok (ov_path (fa_view fa))" "os_ok (ov_again (fa_view fa))"
  shows "\<exists>es s d scope data more e s'.
      fst (Load (re_sha env) (re_snap env) None task (interleave env ops Map.empty)) = Inr (es, s)
    \<and> ps_drafts s (ea_draft c) = Some d \<and> dr_status d = ''saved''
    \<and> ps_scope s = Some scope \<and> sc_id scope = dr_scope d \<and> scopeWasConfirmed es (sc_id scope)
    \<and> scopeAllows scope ''editor.write'' (sc_workspace scope) ''low''
    \<and> ps_lease s = Some \<lparr>cl_client = client, cl_revision = ea_lease c\<rparr>
    \<and> em_replaced em' = em_replaced em @ [(dr_path d, data)]
    \<and> re_sha env data = ea_proposed c \<and> dr_proposed d = ea_proposed c
    \<and> base_in_place env fa (sc_workspace scope) (dr_path d) (dr_base d)
    \<and> fst (Load (re_sha env) (re_snap env) None task st') = Inr (es @ more @ [e], s')
    \<and> e_type e = ''editor.patch.applied'' \<and> e_payload e = object (applied_payload env client c d data)"
proof -
  let ?st = "interleave env ops Map.empty"
  have sound: "sound ?st" by (rule interleave_sound [OF sound_empty])
  from editor_Apply_replaces [OF run replaced]
  obtain es s st1 d scope data mode e where a: "Load (re_sha env) (re_snap env) (ca_ctx ca) task ?st = (Inr (es, s), st1)"
    "ps_drafts s (ea_draft c) = Some d" "authorizeEditor s es client (dr_scope d) (ea_lease c) ''editor.write'' = None"
    "ps_scope s = Some scope" "dr_status d = ''saved''" "dr_proposed d = ea_proposed c" "re_sha env data = ea_proposed c"
    "verifyBase env fa (sc_workspace scope) (dr_path d) (dr_base d) = Inr mode"
    "emit_later env sv ca task ''editor.patch.applied'' (object (applied_payload env client c d data)) no_source st1 = (Inr e, st')"
    "em_replaced em' = em_replaced em @ [(dr_path d, data)]" by metis
  have ctx: "ca_ctx ca = None" by (rule Load_unstopped [OF a(1)])
  have load: "fst (Load (re_sha env) (re_snap env) None task ?st) = Inr (es, s)" using a(1) ctx by simp
  have lines: "log_lines st1 = log_lines ?st"
    using Load_lines [of "re_sha env" "re_snap env" "ca_ctx ca" task ?st] a(1) by simp
  then have sound1: "sound st1" using sound by (simp add: sound_def)
  from sound1 lines load a(9) applied_payload_wf
  obtain more e' s' where event: "fst (Load (re_sha env) (re_snap env) None task st') = Inr (es @ more @ [e'], s')"
      "e_type e' = ''editor.patch.applied''" "e_payload e' = object (applied_payload env client c d data)"
    by (cases rule: emit_later_success) blast
  obtain scope' where "ps_scope s = Some scope'" "sc_id scope' = dr_scope d" "scopeWasConfirmed es (dr_scope d)"
      "scopeAllows scope' ''editor.write'' (sc_workspace scope') ''low''"
      "ps_lease s = Some \<lparr>cl_client = client, cl_revision = ea_lease c\<rparr>"
    using authorizeEditor_None [OF a(3)] .
  moreover have "base_in_place env fa (sc_workspace scope) (dr_path d) (dr_base d)"
    by (rule verifyBase_success [OF os a(8)])
  ultimately show ?thesis using load a event by (intro exI conjI) auto
qed

section \<open>What cannot be done\<close>

text \<open>
  A file cannot be opened without evidence references: an empty list, which the contract of the command and the
  rules of the event accept, is copied to nil and marshalled as null, which the rules refuse.
\<close>

lemma opened_payload_refused:
  assumes "eo_references c = []" and "storable_event e" and "e_type e = ''editor.draft.opened''"
  shows "e_payload e \<noteq> object (draft_opened_payload env client c data)"
proof
  assume p: "e_payload e = object (draft_opened_payload env client c data)"
  let ?draft = "[(''id'', JStr (eo_draft c)), (''path'', JStr (Clean (eo_path c))), (''scopeId'', JStr (eo_scope c)),
         (''ownerClientId'', JStr client), (''leaseRevision'', json_int (eo_revision c)),
         (''baseSha256'', JStr (re_sha env data)), (''baseByteLength'', json_int (int (length data))),
         (''encoding'', JStr ''utf-8''), (''evidenceReferences'', JNull)]"
  have "valid_known_payload ''editor.draft.opened'' (json_object [(''draft'', object ?draft)])"
    using assms p by (auto simp: storable_event_def well_formed_event_def object_def known_event_types_def
        draft_opened_payload_def json_references_def)
  then have "valid_editor_draft (object ?draft)" by (simp add: rule_defs json_object_def get_def)
  moreover have "get (json_object ?draft) ''evidenceReferences'' = JNull"
    by (simp add: json_object_def get_def)
  ultimately show False by (simp add: valid_editor_draft_def object_def object_with_def)
qed

lemma open_without_references_fails:
  assumes "eo_references c = []"
  shows "fst (editor_Open env sv ca os1 os2 fa task client c (em, interleave env ops Map.empty)) \<noteq> None"
proof
  let ?st = "interleave env ops Map.empty"
  assume "fst (editor_Open env sv ca os1 os2 fa task client c (em, ?st)) = None"
  then obtain es s st1 data e st2 where o: "Load (re_sha env) (re_snap env) (ca_ctx ca) task ?st = (Inr (es, s), st1)"
      "emit_later env sv ca task ''editor.draft.opened'' (object (draft_opened_payload env client c data)) no_source st1 = (Inr e, st2)"
    by (auto simp: editor_Open_def split: option.splits sum.splits prod.splits if_splits)
  have ctx: "ca_ctx ca = None" by (rule Load_unstopped [OF o(1)])
  have lines: "log_lines st1 = log_lines ?st"
    using Load_lines [of "re_sha env" "re_snap env" "ca_ctx ca" task ?st] o(1) by simp
  then have sound1: "sound st1" using interleave_sound [OF sound_empty, of env ops] by (simp add: sound_def)
  have load: "fst (Load (re_sha env) (re_snap env) None task ?st) = Inr (es, s)" using o(1) ctx by simp
  have wf: "list_all (\<lambda>(_, v). wf_json v) (draft_opened_payload env client c data)"
    "List.member known_event_types ''editor.draft.opened''"
    using assms json_object_wf by (simp_all add: draft_opened_payload_def object_def json_references_def json_int_def int_text_def known_event_types_def)
  from sound1 lines load o(2) wf obtain e' where "e_type e' = ''editor.draft.opened''"
      "e_payload e' = object (draft_opened_payload env client c data)" "storable_event e'"
    by (cases rule: emit_later_success) blast
  then show False using opened_payload_refused [OF assms] by blast
qed

text \<open>
  The event is committed before the file is replaced: where the replacement fails, the snapshot has an applied
  patch that the file does not have.
\<close>

lemma applied_event_without_file:
  assumes "editor_Apply env sv ca fa prepared Replaced task client c (em, st) = (Inr e, (em', st'))"
  shows "editor_Apply env sv ca fa prepared Not_Replaced task client c (em, st) = (Inl File_Failed, (em, st'))"
  using assms [unfolded editor_Apply_def]
proof (cases rule: with_draft_success)
  case (called es s st1 d scope)
  then show ?thesis
    by (auto simp: editor_Apply_def with_draft_def Let_def split: if_splits option.splits sum.splits prod.splits)
qed simp

end
