(* ===== verification/Terminal_Manager.thy ===== *)
theory Terminal_Manager
  imports Runtime_Authority Terminal_Sanitizer Go_Base64
begin

text \<open>
  The processes behind terminal sessions (\<open>runtimeapi/terminal_manager.go\<close>): opening, input, resizing and
  cancelling by clients, and the two goroutines of a session, which read the output and wait for the exit.
  Processes are external; what the backend and a process answer (the process identifier of a start, how
  much of a write it takes, whether a resize or a kill succeeds, the bytes read, the exit code) is an argument, and what the manager
  does to a process is kept in the session: the bytes the process has taken, and whether its \<open>Kill\<close> has been
  called, whose error the code ignores everywhere but in \<open>Cancel\<close> and \<open>Close\<close>. A step
  holds the session's mutex. The server's mutex serialises the commands of clients, so no other command runs
  within an \<open>Open\<close>.
\<close>

record managed_terminal =
  mt_task :: string
  mt_owner :: string
  mt_scope :: string
  mt_lease :: int
  mt_next_input :: int
  mt_next_output :: int
  mt_emitted :: int
  mt_received :: int
  mt_limit :: int
  mt_sanitizer :: sanitizer
  mt_closed :: bool
  mt_reason :: string
  mt_written :: string
  mt_kill_called :: bool

record terminal_manager =
  tm_sessions :: "string \<rightharpoonup> managed_terminal"
  tm_used :: "string set"

definition NewTerminalManager :: terminal_manager where
  "NewTerminalManager = \<lparr>tm_sessions = Map.empty, tm_used = {}\<rparr>"

type_synonym managed = "terminal_manager \<times> store"

record terminal_input_command =
  ti_session :: string
  ti_sequence :: int
  ti_data :: string
  ti_length :: int
  ti_revision :: int

record terminal_resize_command =
  tz_session :: string
  tz_columns :: int
  tz_rows :: int
  tz_revision :: int

record terminal_cancel_command =
  tk_session :: string
  tk_revision :: int

text \<open>With \<open>context.Background()\<close> a commit is stopped by a log that cannot be read only.\<close>

definition in_background :: "call \<Rightarrow> call" where
  "in_background ca = ca\<lparr>ca_stop := (if ca_stop ca = Some Unreadable then Some Unreadable else None)\<rparr>"

section \<open>Sessions\<close>

text \<open>What \<open>process.Write\<close> returns: no error, and the process has taken all bytes, or an error after it has
  taken so many of them.\<close>

datatype input_outcome = Wrote_All | Write_Failed nat

definition put_managed :: "string \<Rightarrow> managed_terminal \<Rightarrow> terminal_manager \<Rightarrow> terminal_manager" where
  "put_managed sid t tm = tm\<lparr>tm_sessions := (tm_sessions tm)(sid \<mapsto> t)\<rparr>"

definition stopped :: "string \<Rightarrow> managed_terminal \<Rightarrow> managed_terminal" where
  "stopped reason t = t\<lparr>mt_reason := reason, mt_kill_called := True\<rparr>"

definition revokeTerminal :: "string \<Rightarrow> managed_terminal \<Rightarrow> string \<Rightarrow> terminal_manager \<Rightarrow> terminal_manager" where
  "revokeTerminal sid t reason tm = (if mt_closed t then tm else put_managed sid (stopped reason t) tm)"

text \<open>\<open>remove\<close> and \<open>discard\<close>.\<close>

definition remove_managed :: "string \<Rightarrow> terminal_manager \<Rightarrow> terminal_manager" where
  "remove_managed sid tm = tm\<lparr>tm_sessions := (tm_sessions tm)(sid := None)\<rparr>"

definition discard_managed :: "string \<Rightarrow> terminal_manager \<Rightarrow> terminal_manager" where
  "discard_managed sid tm = tm\<lparr>tm_sessions := (tm_sessions tm)(sid := None), tm_used := tm_used tm - {sid}\<rparr>"

text \<open>The lookup of a client's session, which loads the snapshot in a context of its own.\<close>

definition session_of ::
  "'c runtime_env \<Rightarrow> string \<Rightarrow> string \<Rightarrow> string \<Rightarrow> int \<Rightarrow> managed \<Rightarrow> (runtime_error + managed_terminal) \<times> managed" where
  "session_of env sid task client revision m =
     (case m of (tm, st) \<Rightarrow>
      case tm_sessions tm sid of
        None \<Rightarrow> (Inl ErrTerminalSessionNotFound, m)
      | Some t \<Rightarrow>
          if mt_task t \<noteq> task then (Inl ErrTerminalSessionNotFound, m)
          else
            (case Load (re_sha env) (re_snap env) None task st of
               (Inl err, st1) \<Rightarrow> (Inl (Service_Error (Store_Failed err)), tm, st1)
             | (Inr (es, s), st1) \<Rightarrow>
                 if map_option sc_id (ps_scope s) \<noteq> Some (mt_scope t) \<or> \<not> scopeWasConfirmed es (mt_scope t)
                 then (Inl (Service_Error Scope_Not_Confirmed), revokeTerminal sid t ''scope_revoked'' tm, st1)
                 else
                   (case ps_lease s of
                      None \<Rightarrow> (Inl ErrTerminalControlRequired, revokeTerminal sid t ''control_revoked'' tm, st1)
                    | Some lease \<Rightarrow>
                        if cl_client lease \<noteq> client \<or> mt_owner t \<noteq> client
                        then (Inl ErrTerminalControlRequired, revokeTerminal sid t ''control_revoked'' tm, st1)
                        else if cl_revision lease \<noteq> revision \<or> mt_lease t \<noteq> revision
                        then (Inl (Service_Error Stale_Lease), revokeTerminal sid t ''control_revoked'' tm, st1)
                        else (Inr t, tm, st1))))"

section \<open>Commands\<close>

definition managed_session :: "string \<Rightarrow> string \<Rightarrow> terminal_open_command \<Rightarrow> managed_terminal" where
  "managed_session task client c =
     \<lparr>mt_task = task, mt_owner = client, mt_scope = to_scope c, mt_lease = to_revision c,
       mt_next_input = 1, mt_next_output = 1, mt_emitted = 0, mt_received = 0, mt_limit = to_limit c,
       mt_sanitizer = newTerminalOutputSanitizer, mt_closed = False, mt_reason = ''exited'',
       mt_written = [], mt_kill_called = False\<rparr>"

text \<open>\<open>started\<close> is the process identifier, if the backend could start the program.\<close>

definition terminal_Open ::
  "'c runtime_env \<Rightarrow> service \<Rightarrow> call \<Rightarrow> string option \<Rightarrow> string \<Rightarrow> string \<Rightarrow> terminal_open_command \<Rightarrow> managed
     \<Rightarrow> runtime_error option \<times> managed" where
  "terminal_Open env sv ca started task client c m =
     (case m of (tm, st) \<Rightarrow>
      if to_session c \<in> tm_used tm then (Some ErrTerminalSessionExists, m)
      else
        (case started of
           None \<Rightarrow> (Some Process_Failed, m)
         | Some pid \<Rightarrow>
             (let tm1 = (put_managed (to_session c) (managed_session task client c) tm)\<lparr>tm_used := insert (to_session c) (tm_used tm)\<rparr> in
              case emit_later env sv ca task ''terminal.opened'' (object [(''session'', object
                  [(''id'', JStr (to_session c)), (''profileId'', JStr (to_profile c)), (''processId'', JStr pid),
                   (''workingDirectory'', JStr (to_directory c)), (''scopeId'', JStr (to_scope c)),
                   (''ownerClientId'', JStr client), (''leaseRevision'', json_int (to_revision c)),
                   (''columns'', json_int (to_columns c)), (''rows'', json_int (to_rows c)),
                   (''outputLimitBytes'', json_int (to_limit c))])]) no_source st of
                (Inl err, st1) \<Rightarrow>
                  (Some (Service_Error (Store_Failed err)), discard_managed (to_session c) tm1, st1)
              | (Inr _, st1) \<Rightarrow> (None, tm1, st1))))"

definition terminal_Input ::
  "'c runtime_env \<Rightarrow> service \<Rightarrow> call \<Rightarrow> input_outcome \<Rightarrow> string \<Rightarrow> string \<Rightarrow> terminal_input_command \<Rightarrow> managed
     \<Rightarrow> runtime_error option \<times> managed" where
  "terminal_Input env sv ca wrote task client c m =
     (case session_of env (ti_session c) task client (ti_revision c) m of
        (Inl err, m1) \<Rightarrow> (Some err, m1)
      | (Inr t, (tm, st)) \<Rightarrow>
          (case base64_decode (ti_data c) of
             None \<Rightarrow> (Some Invalid_Command_Data, tm, st)
           | Some data \<Rightarrow>
               if int (length data) \<noteq> ti_length c then (Some Invalid_Command_Data, tm, st)
               else if mt_closed t then (Some ErrTerminalSessionNotFound, tm, st)
               else if ti_sequence c \<noteq> mt_next_input t then (Some ErrTerminalInputSequence, tm, st)
               else
                 (case wrote of
                    Write_Failed n \<Rightarrow>
                      (Some Process_Failed, put_managed (ti_session c) (t\<lparr>mt_written := mt_written t @ take n data\<rparr>) tm, st)
                  | Wrote_All \<Rightarrow>
                 (let t1 = t\<lparr>mt_written := mt_written t @ data\<rparr> in
                  case emit_later env sv ca task ''terminal.input.accepted'' (object
                      [(''sessionId'', JStr (ti_session c)), (''sequence'', json_int (ti_sequence c)),
                       (''byteLength'', json_int (int (length data))), (''sha256'', JStr (re_sha env data))]) no_source st of
                    (Inl err, st1) \<Rightarrow>
                      (Some (Service_Error (Store_Failed err)), put_managed (ti_session c) (stopped ''audit_failed'' t1) tm, st1)
                  | (Inr _, st1) \<Rightarrow>
                      (None, put_managed (ti_session c) (t1\<lparr>mt_next_input := wrap64 (mt_next_input t + 1)\<rparr>) tm, st1)))))"

definition terminal_Resize ::
  "'c runtime_env \<Rightarrow> service \<Rightarrow> call \<Rightarrow> bool \<Rightarrow> string \<Rightarrow> string \<Rightarrow> terminal_resize_command \<Rightarrow> managed
     \<Rightarrow> runtime_error option \<times> managed" where
  "terminal_Resize env sv ca resized task client c m =
     (case session_of env (tz_session c) task client (tz_revision c) m of
        (Inl err, m1) \<Rightarrow> (Some err, m1)
      | (Inr t, (tm, st)) \<Rightarrow>
          if mt_closed t then (Some ErrTerminalSessionNotFound, tm, st)
          else if \<not> resized then (Some Process_Failed, tm, st)
          else
            (case emit_later env sv ca task ''terminal.resized'' (object
                [(''sessionId'', JStr (tz_session c)), (''columns'', json_int (tz_columns c)),
                 (''rows'', json_int (tz_rows c))]) no_source st of
               (Inl err, st1) \<Rightarrow>
                 (Some (Service_Error (Store_Failed err)), put_managed (tz_session c) (stopped ''audit_failed'' t) tm, st1)
             | (Inr _, st1) \<Rightarrow> (None, tm, st1)))"

definition terminal_Cancel ::
  "'c runtime_env \<Rightarrow> bool \<Rightarrow> string \<Rightarrow> string \<Rightarrow> terminal_cancel_command \<Rightarrow> managed \<Rightarrow> runtime_error option \<times> managed" where
  "terminal_Cancel env killed task client c m =
     (case session_of env (tk_session c) task client (tk_revision c) m of
        (Inl err, m1) \<Rightarrow> (Some err, m1)
      | (Inr t, (tm, st)) \<Rightarrow>
          if mt_closed t then (Some ErrTerminalSessionNotFound, tm, st)
          else (if killed then None else Some Process_Failed, put_managed (tk_session c) (stopped ''cancelled'' t) tm, st))"

section \<open>The goroutines of a session\<close>

text \<open>\<open>emitOutputLocked\<close> and what it leaves of the session; the append's outcome and the time are in \<open>ca\<close>.\<close>

definition emitOutputLocked ::
  "'c runtime_env \<Rightarrow> service \<Rightarrow> call \<Rightarrow> string \<Rightarrow> string \<Rightarrow> managed_terminal \<Rightarrow> store \<Rightarrow> bool \<times> managed_terminal \<times> store" where
  "emitOutputLocked env sv ca sid data t st =
     (case emit env sv (in_background ca) (mt_task t) ''terminal.output'' (object
         [(''sessionId'', JStr sid), (''sequence'', json_int (mt_next_output t)), (''data'', JStr (base64_encode data)),
          (''byteLength'', json_int (int (length data)))]) no_source st of
        (Inl _, st1) \<Rightarrow> (False, stopped ''audit_failed'' t, st1)
      | (Inr _, st1) \<Rightarrow>
          (True, t\<lparr>mt_emitted := wrap64 (mt_emitted t + int (length data)),
             mt_next_output := wrap64 (mt_next_output t + 1)\<rparr>, st1))"

definition commitOutput ::
  "'c runtime_env \<Rightarrow> service \<Rightarrow> call \<Rightarrow> string \<Rightarrow> string \<Rightarrow> managed_terminal \<Rightarrow> store \<Rightarrow> managed_terminal \<times> store" where
  "commitOutput env sv ca sid data t st =
     (if mt_closed t then (t, st)
      else
        (let remaining = wrap64 (mt_limit t - mt_received t) in
         if remaining \<le> 0 then (stopped ''output_limit'' t, st)
         else
           (let chunk = take (nat remaining) data;
                t1 = t\<lparr>mt_received := wrap64 (mt_received t + int (length chunk))\<rparr> in
            case sanitizer_Push chunk (mt_sanitizer t1) of
              (clean, sn) \<Rightarrow>
                (let t2 = t1\<lparr>mt_sanitizer := sn\<rparr> in
                 case (if clean = [] then (True, t2, st) else emitOutputLocked env sv ca sid clean t2 st) of
                   (ok, t3, st1) \<Rightarrow>
                     (if ok \<and> mt_limit t3 \<le> mt_received t3 then stopped ''output_limit'' t3 else t3, st1)))))"

definition flushOutput ::
  "'c runtime_env \<Rightarrow> service \<Rightarrow> call \<Rightarrow> string \<Rightarrow> managed_terminal \<Rightarrow> store \<Rightarrow> managed_terminal \<times> store" where
  "flushOutput env sv ca sid t st =
     (if mt_closed t then (t, st)
      else
        (case sanitizer_Flush (mt_sanitizer t) of
           (clean, sn) \<Rightarrow>
             (let t1 = t\<lparr>mt_sanitizer := sn\<rparr> in
              if clean = [] then (t1, st)
              else (case emitOutputLocked env sv ca sid clean t1 st of (_, t2, st1) \<Rightarrow> (t2, st1)))))"

text \<open>
  \<open>wait\<close> after the process has ended: closing the session, which gives the reason to report unless it was
  closed before, and later the report and the removal.
\<close>

definition wait_close :: "bool \<Rightarrow> managed_terminal \<Rightarrow> string option \<times> managed_terminal" where
  "wait_close failed t =
     (if mt_closed t then (None, t)
      else (Some (if failed \<and> mt_reason t = ''exited'' then ''process_error'' else mt_reason t), t\<lparr>mt_closed := True\<rparr>))"

definition wait_report ::
  "'c runtime_env \<Rightarrow> service \<Rightarrow> call \<Rightarrow> string \<Rightarrow> int \<Rightarrow> string \<Rightarrow> managed_terminal \<Rightarrow> managed \<Rightarrow> managed" where
  "wait_report env sv ca sid exit_code reason t m =
     (case m of (tm, st) \<Rightarrow>
      (remove_managed sid tm,
       snd (emit env sv (in_background ca) (mt_task t) ''terminal.exited'' (object
         [(''sessionId'', JStr sid), (''exitCode'', json_int exit_code), (''reason'', JStr reason)]) no_source st)))"

text \<open>\<open>Close\<close> kills what is open; that it waits for the sessions to end changes no state.\<close>

definition terminal_Close :: "terminal_manager \<Rightarrow> terminal_manager" where
  "terminal_Close tm = tm\<lparr>tm_sessions := (\<lambda>sid. map_option
     (\<lambda>t. if mt_closed t then t else stopped ''runtime_closed'' t) (tm_sessions tm sid))\<rparr>"

end
