(* ===== verification/Local_Server.thy ===== *)
theory Local_Server
  imports Terminal_Manager Editor_Manager "HOL-Library.AList"
begin

text \<open>
  The runtime server behind every transport (\<open>runtimeapi/local.go\<close>): it checks a command envelope, answers a
  repeated idempotency key with the stored receipt, dispatches the command to the service, the terminal
  manager or the editor manager, stores the receipt and saves its state. What the world answers during one
  command is gathered in the record \<open>world\<close>; the command holds the server's mutex throughout. The state file is
  modelled by the state it encodes: \<open>loadState\<close> decodes what \<open>saveState\<close> has encoded; a server whose state file cannot be read
  does not start, which changes no file, and is not modelled. Reading a message line by
  line (\<open>Serve\<close>) and comparing bearer digests are not modelled.
\<close>

section \<open>State\<close>

text \<open>A map as an association list, so that all entries can be checked.\<close>

type_synonym receipts = "(string \<times> string \<times> command_receipt) list"

record saved_server =
  ss_runtime :: string
  ss_next :: int
  ss_active :: string
  ss_receipts :: receipts

record local_server =
  ls_receipts :: receipts
  ls_next :: int
  ls_active :: string
  ls_terminals :: terminal_manager
  ls_editor :: editor_manager
  ls_store :: store
  ls_disk :: "saved_server option"

datatype save_outcome = Saved | Saved_Not_Synced | Not_Saved

record world =
  wo_call :: call
  wo_second :: call
  wo_os1 :: os_view
  wo_os2 :: os_view
  wo_order :: "(string \<times> instant) list"
  wo_started :: "string option"
  wo_wrote :: input_outcome
  wo_resized :: bool
  wo_killed :: bool
  wo_access :: file_access
  wo_prepared :: bool
  wo_replaced :: replacement
  wo_saved :: save_outcome

section \<open>Commands\<close>

definition dec_type :: "string decoder" where
  "dec_type = dec_struct [(''type'', field dec_string (\<lambda>t. t) (\<lambda>f. f))]"

record create_command =
  cc_objective :: string
  cc_runtime :: string
  cc_workspace :: string

definition dec_create :: "create_command decoder" where
  "dec_create = dec_struct
     [(''objective'', field dec_string cc_objective cc_objective_update),
      (''runtimeId'', field dec_string cc_runtime cc_runtime_update),
      (''workspace'', field dec_string cc_workspace cc_workspace_update)]"

definition no_create :: create_command where
  "no_create = \<lparr>cc_objective = [], cc_runtime = [], cc_workspace = []\<rparr>"

definition dec_terminal_open :: "terminal_open_command decoder" where
  "dec_terminal_open = dec_struct
     [(''sessionId'', field dec_string to_session to_session_update),
      (''profileId'', field dec_string to_profile to_profile_update),
      (''workingDirectory'', field dec_string to_directory to_directory_update),
      (''scopeId'', field dec_string to_scope to_scope_update),
      (''columns'', field dec_int to_columns to_columns_update), (''rows'', field dec_int to_rows to_rows_update),
      (''outputLimitBytes'', field dec_int to_limit to_limit_update),
      (''expectedLeaseRevision'', field dec_int to_revision to_revision_update)]"

definition no_terminal_open :: terminal_open_command where
  "no_terminal_open = \<lparr>to_session = [], to_profile = [], to_directory = [], to_scope = [], to_columns = 0, to_rows = 0,
     to_limit = 0, to_revision = 0\<rparr>"

definition dec_terminal_input :: "terminal_input_command decoder" where
  "dec_terminal_input = dec_struct
     [(''sessionId'', field dec_string ti_session ti_session_update),
      (''sequence'', field dec_int ti_sequence ti_sequence_update), (''data'', field dec_string ti_data ti_data_update),
      (''byteLength'', field dec_int ti_length ti_length_update),
      (''expectedLeaseRevision'', field dec_int ti_revision ti_revision_update)]"

definition no_terminal_input :: terminal_input_command where
  "no_terminal_input = \<lparr>ti_session = [], ti_sequence = 0, ti_data = [], ti_length = 0, ti_revision = 0\<rparr>"

definition dec_terminal_resize :: "terminal_resize_command decoder" where
  "dec_terminal_resize = dec_struct
     [(''sessionId'', field dec_string tz_session tz_session_update),
      (''columns'', field dec_int tz_columns tz_columns_update), (''rows'', field dec_int tz_rows tz_rows_update),
      (''expectedLeaseRevision'', field dec_int tz_revision tz_revision_update)]"

definition no_terminal_resize :: terminal_resize_command where
  "no_terminal_resize = \<lparr>tz_session = [], tz_columns = 0, tz_rows = 0, tz_revision = 0\<rparr>"

definition dec_terminal_cancel :: "terminal_cancel_command decoder" where
  "dec_terminal_cancel = dec_struct
     [(''sessionId'', field dec_string tk_session tk_session_update),
      (''expectedLeaseRevision'', field dec_int tk_revision tk_revision_update)]"

definition no_terminal_cancel :: terminal_cancel_command where
  "no_terminal_cancel = \<lparr>tk_session = [], tk_revision = 0\<rparr>"

definition dec_editor_open :: "editor_open_command decoder" where
  "dec_editor_open = dec_struct
     [(''draftId'', field dec_string eo_draft eo_draft_update), (''path'', field dec_string eo_path eo_path_update),
      (''scopeId'', field dec_string eo_scope eo_scope_update),
      (''evidenceReferences'', field (dec_slice dec_editor_reference no_editor_reference) eo_references eo_references_update),
      (''expectedLeaseRevision'', field dec_int eo_revision eo_revision_update)]"

definition no_editor_open :: editor_open_command where
  "no_editor_open = \<lparr>eo_draft = [], eo_path = [], eo_scope = [], eo_references = [], eo_revision = 0\<rparr>"

text \<open>A \<open>[]byte\<close> is base64 text; the envelope's check has excluded arrays of numbers.\<close>

definition dec_bytes :: "string decoder" where
  "dec_bytes j old = (case j of JStr s \<Rightarrow> base64_decode s | JNull \<Rightarrow> Some [] | _ \<Rightarrow> None)"

definition dec_editor_save :: "editor_save_command decoder" where
  "dec_editor_save = dec_struct
     [(''draftId'', field dec_string es_draft es_draft_update), (''revision'', field dec_int es_revision es_revision_update),
      (''baseSha256'', field dec_string es_base es_base_update), (''data'', field dec_bytes es_data es_data_update),
      (''byteLength'', field dec_int es_length es_length_update),
      (''expectedLeaseRevision'', field dec_int es_lease es_lease_update)]"

definition no_editor_save :: editor_save_command where
  "no_editor_save = \<lparr>es_draft = [], es_revision = 0, es_base = [], es_data = [], es_length = 0, es_lease = 0\<rparr>"

definition dec_editor_apply :: "editor_apply_command decoder" where
  "dec_editor_apply = dec_struct
     [(''draftId'', field dec_string ea_draft ea_draft_update), (''revision'', field dec_int ea_revision ea_revision_update),
      (''proposedSha256'', field dec_string ea_proposed ea_proposed_update),
      (''expectedLeaseRevision'', field dec_int ea_lease ea_lease_update)]"

definition no_editor_apply :: editor_apply_command where
  "no_editor_apply = \<lparr>ea_draft = [], ea_revision = 0, ea_proposed = [], ea_lease = 0\<rparr>"

definition dec_editor_discard :: "editor_discard_command decoder" where
  "dec_editor_discard = dec_struct
     [(''draftId'', field dec_string ec_draft ec_draft_update),
      (''expectedLeaseRevision'', field dec_int ec_lease ec_lease_update)]"

definition no_editor_discard :: editor_discard_command where
  "no_editor_discard = \<lparr>ec_draft = [], ec_lease = 0\<rparr>"

text \<open>Structs of one field, whose errors the code ignores: the field then keeps its zero.\<close>

definition command_field :: "json_object \<Rightarrow> string \<Rightarrow> 'a decoder \<Rightarrow> 'a \<Rightarrow> 'a" where
  "command_field obj k dec zero =
     (case dec_struct [(k, field dec (\<lambda>x. x) (\<lambda>f. f))] (JObj obj) zero of Some x \<Rightarrow> x | None \<Rightarrow> zero)"

section \<open>Receipts\<close>

definition rejectedReceipt :: "string \<Rightarrow> string \<Rightarrow> command_receipt" where
  "rejectedReceipt key c = \<lparr>cr_key = key, cr_status = ''rejected'', cr_code = c\<rparr>"

definition acceptedReceipt :: "string \<Rightarrow> command_receipt" where
  "acceptedReceipt key = \<lparr>cr_key = key, cr_status = ''accepted'', cr_code = []\<rparr>"

fun service_code :: "service_error \<Rightarrow> string" where
  "service_code Scope_Not_Confirmed = ''scope_not_confirmed''"
| "service_code Approval_Out_Of_Scope = ''approval_out_of_scope''"
| "service_code Approval_Has_Expired = ''approval_expired''"
| "service_code Approval_Replay = ''approval_replay''"
| "service_code Unknown_Approval = ''unknown_approval''"
| "service_code Stale_Lease = ''stale_control_revision''"
| "service_code Invalid_Report_State = ''invalid_report_state''"
| "service_code (Store_Failed (Not_Projected Editor_Draft_Revision)) = ''editor_draft_revision''"
| "service_code (Store_Failed (Not_Projected Editor_Patch_Stale)) = ''editor_patch_stale''"
| "service_code _ = ''runtime_command_failed''"

fun localErrorCode :: "runtime_error \<Rightarrow> string" where
  "localErrorCode (Service_Error e) = service_code e"
| "localErrorCode ErrTerminalCapabilityRequired = ''terminal_capability_required''"
| "localErrorCode ErrTerminalProfileNotAllowed = ''terminal_profile_not_allowed''"
| "localErrorCode ErrTerminalScopeMismatch = ''terminal_scope_mismatch''"
| "localErrorCode ErrTerminalWorkspaceOutOfScope = ''terminal_workspace_out_of_scope''"
| "localErrorCode ErrTerminalControlRequired = ''terminal_control_required''"
| "localErrorCode ErrTerminalUnavailable = ''terminal_unavailable''"
| "localErrorCode ErrTerminalApprovalRequired = ''terminal_approval_required''"
| "localErrorCode ErrTerminalSessionExists = ''terminal_session_exists''"
| "localErrorCode ErrTerminalSessionNotFound = ''terminal_session_not_found''"
| "localErrorCode ErrTerminalInputSequence = ''terminal_input_sequence''"
| "localErrorCode ErrEditorCapabilityRequired = ''editor_capability_required''"
| "localErrorCode ErrEditorScopeMismatch = ''editor_scope_mismatch''"
| "localErrorCode ErrEditorWorkspaceOutOfScope = ''editor_workspace_out_of_scope''"
| "localErrorCode ErrEditorControlRequired = ''editor_control_required''"
| "localErrorCode ErrEditorDraftNotFound = ''editor_draft_not_found''"
| "localErrorCode ErrEditorUnsupportedFile = ''editor_unsupported_file''"
| "localErrorCode ErrEditorDraftRevision = ''editor_draft_revision''"
| "localErrorCode ErrEditorPatchStale = ''editor_patch_stale''"
| "localErrorCode _ = ''runtime_command_failed''"

definition receipt_for :: "string \<Rightarrow> runtime_error option \<Rightarrow> command_receipt" where
  "receipt_for key err = (case err of None \<Rightarrow> acceptedReceipt key | Some e \<Rightarrow> rejectedReceipt key (localErrorCode e))"

section \<open>Idempotency\<close>

definition bound_text :: "runtime_server \<Rightarrow> string \<Rightarrow> string \<Rightarrow> string \<Rightarrow> string" where
  "bound_text rs task command client =
     ''{'' @ json_quote ''command'' @ '':'' @ json_compact command
   @ '','' @ json_quote ''taskId'' @ '':'' @ json_quote task
   @ '','' @ json_quote ''controller'' @ '':'' @ json_quote client
   @ '','' @ json_quote ''runtimeId'' @ '':'' @ json_quote (sm_runtime (rs_source rs))
   @ '','' @ json_quote ''principal'' @ '':'' @ json_quote (sm_principal (rs_source rs))
   @ '','' @ json_quote ''role'' @ '':'' @ json_quote (rs_role rs) @ ''}''"

definition type_of_command :: "json_object \<Rightarrow> string" where
  "type_of_command obj = (case dec_type (JObj obj) [] of Some t \<Rightarrow> t | None \<Rightarrow> [])"

definition effective_task :: "local_server \<Rightarrow> string \<Rightarrow> json_object \<Rightarrow> string" where
  "effective_task ls task obj = (if task = [] \<and> type_of_command obj \<noteq> ''task.create'' then ls_active ls else task)"

definition idempotencyDigest ::
  "'c runtime_env \<Rightarrow> runtime_server \<Rightarrow> local_server \<Rightarrow> string \<Rightarrow> string \<Rightarrow> json_object \<Rightarrow> string \<Rightarrow> string" where
  "idempotencyDigest env rs ls task command obj client =
     re_sha env (bound_text rs (effective_task ls task obj) command client)"

section \<open>Dispatch\<close>

definition defaultScopeActions :: "runtime_server \<Rightarrow> string list" where
  "defaultScopeActions rs =
     [''read''] @ (if has_capability rs ''terminal.input'' then [''terminal.open''] else [])
   @ (if has_capability rs ''editor.read'' then [''editor.open''] else [])
   @ (if has_capability rs ''editor.write'' then [''editor.write''] else [])"

definition service_result :: "emitted \<Rightarrow> local_server \<Rightarrow> runtime_error option \<times> local_server" where
  "service_result r ls =
     (case r of (Inl err, st) \<Rightarrow> (Some (Service_Error err), ls\<lparr>ls_store := st\<rparr>) | (Inr _, st) \<Rightarrow> (None, ls\<lparr>ls_store := st\<rparr>))"

definition terminal_result :: "runtime_error option \<times> managed \<Rightarrow> local_server \<Rightarrow> runtime_error option \<times> local_server" where
  "terminal_result r ls = (case r of (err, tm, st) \<Rightarrow> (err, ls\<lparr>ls_terminals := tm, ls_store := st\<rparr>))"

definition editor_result ::
  "(runtime_error + 'r) \<times> edited \<Rightarrow> local_server \<Rightarrow> runtime_error option \<times> local_server" where
  "editor_result r ls =
     (case r of (res, em, st) \<Rightarrow>
      (case res of Inl err \<Rightarrow> Some err | Inr _ \<Rightarrow> None, ls\<lparr>ls_editor := em, ls_store := st\<rparr>))"

definition emit_plain ::
  "'c runtime_env \<Rightarrow> runtime_server \<Rightarrow> world \<Rightarrow> string \<Rightarrow> string \<Rightarrow> local_server \<Rightarrow> runtime_error option \<times> local_server" where
  "emit_plain env rs w task t ls =
     service_result (emitted (emit env (rs_service rs) (wo_call w) task t (object []) no_source (ls_store ls))) ls"

text \<open>A new task: the number is used up even if the task or its scope cannot be committed.\<close>

definition create_task ::
  "'c runtime_env \<Rightarrow> runtime_server \<Rightarrow> world \<Rightarrow> create_command \<Rightarrow> local_server \<Rightarrow> runtime_error option \<times> local_server" where
  "create_task env rs w c ls =
     (let workspace = (if cc_workspace c = [] then rs_workspace rs else cc_workspace c);
          n = wrap64 (ls_next ls + 1);
          task = rs_prefix rs @ (case json_int n of JNum t \<Rightarrow> t | _ \<Rightarrow> []);
          ls1 = ls\<lparr>ls_next := n\<rparr> in
      case CreateTask env (rs_service rs) (wo_call w) task (cc_objective c) (ls_store ls) of
        (Inl err, st) \<Rightarrow> (Some (Service_Error err), ls1\<lparr>ls_store := st\<rparr>)
      | (Inr _, st) \<Rightarrow>
          (case ProposeScope env (rs_service rs) (wo_second w) task
             \<lparr>sc_id = ''scope-1'', sc_principal = sm_principal (rs_source rs), sc_workspace = workspace,
               sc_validity = ''task'', sc_targets = [workspace], sc_allowed = defaultScopeActions rs, sc_denied = [],
               sc_ceiling = ''low''\<rparr> (interleave env (ca_others (wo_second w)) st) of
             (Inl err, st1) \<Rightarrow> (Some (Service_Error err), ls1\<lparr>ls_store := st1\<rparr>)
           | (Inr _, st1) \<Rightarrow> (None, ls1\<lparr>ls_store := st1, ls_active := task\<rparr>)))"

definition open_terminal ::
  "'c runtime_env \<Rightarrow> runtime_server \<Rightarrow> world \<Rightarrow> string \<Rightarrow> string \<Rightarrow> terminal_open_command \<Rightarrow> local_server
     \<Rightarrow> runtime_error option \<times> local_server" where
  "open_terminal env rs w task client c ls =
     (case authorizeTerminalOpen env rs (wo_os1 w) (wo_os2 w) (wo_order w) (ca_ctx (wo_call w)) task client c (ls_store ls) of
        (Some err, st) \<Rightarrow> (Some err, ls\<lparr>ls_store := st\<rparr>)
      | (None, st) \<Rightarrow>
          if \<not> rs_terminals rs then (Some ErrTerminalUnavailable, ls\<lparr>ls_store := st\<rparr>)
          else terminal_result
            (terminal_Open env (rs_service rs) (wo_call w) (wo_started w) task client c (ls_terminals ls, st)) ls)"

definition terminal_mutation ::
  "runtime_server \<Rightarrow> (managed \<Rightarrow> runtime_error option \<times> managed) \<Rightarrow> local_server \<Rightarrow> runtime_error option \<times> local_server" where
  "terminal_mutation rs run ls =
     (if \<not> has_capability rs ''terminal.input'' then (Some ErrTerminalCapabilityRequired, ls)
      else if \<not> rs_terminals rs then (Some ErrTerminalUnavailable, ls)
      else terminal_result (run (ls_terminals ls, ls_store ls)) ls)"

definition editor_mutation ::
  "runtime_server \<Rightarrow> string \<Rightarrow> (edited \<Rightarrow> (runtime_error + 'r) \<times> edited) \<Rightarrow> local_server
     \<Rightarrow> runtime_error option \<times> local_server" where
  "editor_mutation rs capability run ls =
     (if \<not> has_capability rs capability \<or> \<not> rs_editor rs then (Some ErrEditorCapabilityRequired, ls)
      else editor_result (run (ls_editor ls, ls_store ls)) ls)"

text \<open>A command that is decoded into a struct before it runs.\<close>

definition decoded_command ::
  "string \<Rightarrow> json_object \<Rightarrow> 'a decoder \<Rightarrow> 'a \<Rightarrow> ('a \<Rightarrow> local_server \<Rightarrow> runtime_error option \<times> local_server) \<Rightarrow> local_server
     \<Rightarrow> command_receipt \<times> local_server" where
  "decoded_command key obj dec zero run ls =
     (case dec (JObj obj) zero of
        None \<Rightarrow> (rejectedReceipt key ''invalid_command_envelope'', ls)
      | Some c \<Rightarrow> (case run c ls of (err, ls1) \<Rightarrow> (receipt_for key err, ls1)))"

definition dispatchCommand ::
  "'c runtime_env \<Rightarrow> runtime_server \<Rightarrow> world \<Rightarrow> string \<Rightarrow> string \<Rightarrow> json_object \<Rightarrow> string \<Rightarrow> local_server
     \<Rightarrow> command_receipt \<times> local_server" where
  "dispatchCommand env rs w task0 key obj client ls =
     (let t = type_of_command obj;
          task = effective_task ls task0 obj;
          sv = rs_service rs;
          finish = (\<lambda>(err, ls1). (receipt_for key err, ls1)) in
      if t = ''task.create'' then
        (case dec_create (JObj obj) no_create of
           None \<Rightarrow> (rejectedReceipt key ''invalid_command_envelope'', ls)
         | Some c \<Rightarrow>
             if cc_runtime c \<noteq> sm_runtime (rs_source rs) then (rejectedReceipt key ''runtime_mismatch'', ls)
             else finish (create_task env rs w c ls))
      else if t = ''scope.confirm'' then
        finish (service_result
          (ConfirmScope env sv (wo_call w) task (command_field obj ''scopeId'' dec_string []) (ls_store ls)) ls)
      else if t = ''task.pause'' then finish (emit_plain env rs w task ''task.paused'' ls)
      else if t = ''task.resume'' then finish (emit_plain env rs w task ''task.resumed'' ls)
      else if t = ''task.cancel'' then finish (emit_plain env rs w task ''task.cancel.requested'' ls)
      else if t = ''approval.respond'' then
        finish (service_result
          (ResolveApproval env sv (wo_call w) task (command_field obj ''challengeId'' dec_string [])
             (command_field obj ''decision'' dec_string []) (ls_store ls)) ls)
      else if t = ''control.take'' then
        finish (service_result
          (TakeControl env sv (wo_call w) task client (command_field obj ''expectedRevision'' dec_int 0) (ls_store ls)) ls)
      else if t = ''terminal.open'' then
        decoded_command key obj dec_terminal_open no_terminal_open (\<lambda>c. open_terminal env rs w task client c) ls
      else if t = ''terminal.input'' then
        decoded_command key obj dec_terminal_input no_terminal_input
          (\<lambda>c. terminal_mutation rs (terminal_Input env sv (wo_call w) (wo_wrote w) task client c)) ls
      else if t = ''terminal.resize'' then
        decoded_command key obj dec_terminal_resize no_terminal_resize
          (\<lambda>c. terminal_mutation rs (terminal_Resize env sv (wo_call w) (wo_resized w) task client c)) ls
      else if t = ''terminal.cancel'' then
        decoded_command key obj dec_terminal_cancel no_terminal_cancel
          (\<lambda>c. terminal_mutation rs (terminal_Cancel env (wo_killed w) task client c)) ls
      else if t = ''editor.open'' then
        decoded_command key obj dec_editor_open no_editor_open
          (\<lambda>c. editor_mutation rs ''editor.read''
             (\<lambda>m. case editor_Open env sv (wo_call w) (wo_os1 w) (wo_os2 w) (wo_access w) task client c m of
                    (None, m1) \<Rightarrow> (Inr (), m1) | (Some err, m1) \<Rightarrow> (Inl err, m1))) ls
      else if t = ''editor.save'' then
        decoded_command key obj dec_editor_save no_editor_save
          (\<lambda>c. editor_mutation rs ''editor.write'' (editor_Save env sv (wo_call w) (wo_access w) task client c)) ls
      else if t = ''editor.apply'' then
        decoded_command key obj dec_editor_apply no_editor_apply
          (\<lambda>c. editor_mutation rs ''editor.write''
             (editor_Apply env sv (wo_call w) (wo_access w) (wo_prepared w) (wo_replaced w) task client c)) ls
      else if t = ''editor.discard'' then
        decoded_command key obj dec_editor_discard no_editor_discard
          (\<lambda>c. editor_mutation rs ''editor.write'' (editor_Discard env sv (wo_call w) task client c)) ls
      else (rejectedReceipt key ''unsupported_command'', ls))"

section \<open>Commands and their receipts\<close>

definition saved_form :: "runtime_server \<Rightarrow> local_server \<Rightarrow> saved_server" where
  "saved_form rs ls = \<lparr>ss_runtime = sm_runtime (rs_source rs), ss_next = ls_next ls, ss_active = ls_active ls,
     ss_receipts = ls_receipts ls\<rparr>"

definition saveState :: "runtime_server \<Rightarrow> save_outcome \<Rightarrow> local_server \<Rightarrow> bool \<times> local_server" where
  "saveState rs out ls =
     (case out of
        Saved \<Rightarrow> (True, ls\<lparr>ls_disk := Some (saved_form rs ls)\<rparr>)
      | Saved_Not_Synced \<Rightarrow> (False, ls\<lparr>ls_disk := Some (saved_form rs ls)\<rparr>)
      | Not_Saved \<Rightarrow> (False, ls))"

definition handleCommand ::
  "'c runtime_env \<Rightarrow> runtime_server \<Rightarrow> world \<Rightarrow> string \<Rightarrow> command_envelope \<Rightarrow> string \<Rightarrow> local_server
     \<Rightarrow> command_receipt \<times> local_server" where
  "handleCommand env rs w task envelope client ls =
     (let key = ce_key envelope in
      case (ValidateCommandEnvelope envelope, decode_object (ce_command envelope)) of
        (None, Some obj) \<Rightarrow>
          (let digest = idempotencyDigest env rs ls task (ce_command envelope) obj client in
           case map_of (ls_receipts ls) key of
             Some (d, r) \<Rightarrow> if d \<noteq> digest then (rejectedReceipt key ''idempotency_conflict'', ls) else (r, ls)
           | None \<Rightarrow>
               (case dispatchCommand env rs w task key obj client ls of
                  (r, ls1) \<Rightarrow>
                    (case saveState rs (wo_saved w) (ls1\<lparr>ls_receipts := AList.update key (digest, r) (ls_receipts ls1)\<rparr>) of
                       (True, ls2) \<Rightarrow> (r, ls2)
                     | (False, ls2) \<Rightarrow>
                         (rejectedReceipt key ''persistence_failed'', ls2\<lparr>ls_receipts := AList.delete key (ls_receipts ls2)\<rparr>))))
      | _ \<Rightarrow> (rejectedReceipt key ''invalid_command_envelope'', ls))"

section \<open>Starting\<close>

definition pause_command :: string where
  "pause_command = ''{'' @ [CHR 0x22] @ ''type'' @ [CHR 0x22] @ '':'' @ [CHR 0x22] @ ''task.pause'' @ [CHR 0x22] @ ''}''"

text \<open>The check of a stored receipt.\<close>

definition valid_stored :: "string \<Rightarrow> string \<times> command_receipt \<Rightarrow> bool" where
  "valid_stored key x \<longleftrightarrow>
     length (fst x) = 64 \<and> ValidateCommandReceipt (snd x) \<lparr>ce_key = key, ce_command = pause_command\<rparr> = None"

definition loadState :: "runtime_server \<Rightarrow> saved_server option \<Rightarrow> (int \<times> string \<times> receipts) option" where
  "loadState rs disk =
     (case disk of
        None \<Rightarrow> Some (0, [], [])
      | Some s \<Rightarrow>
          if ss_runtime s \<noteq> sm_runtime (rs_source rs) \<or> ss_next s < 0
             \<or> \<not> list_all (\<lambda>(key, x). valid_stored key x) (ss_receipts s) then None
          else Some (ss_next s, ss_active s, ss_receipts s))"

text \<open>\<open>newRuntimeServer\<close> on the files a former server has left.\<close>

definition start_server :: "runtime_server \<Rightarrow> store \<Rightarrow> saved_server option \<Rightarrow> local_server option" where
  "start_server rs st disk =
     map_option (\<lambda>(n, active, receipts).
       \<lparr>ls_receipts = receipts, ls_next = n, ls_active = active, ls_terminals = NewTerminalManager,
         ls_editor = NewEditorManager, ls_store = st, ls_disk = disk\<rparr>) (loadState rs disk)"

end
