(* ===== verification/Local_Requests.thy ===== *)
theory Local_Requests
  imports Local_Server
begin

text \<open>
  Requests to a runtime server and its construction (\<open>runtimeapi/local.go\<close>): the checks of the options, the bearer,
  and the answer to each type of request. The framing of messages and their JSON form (\<open>Serve\<close>, \<open>MarshalJSON\<close>) are not
  modelled; an answer is a value.
\<close>

section \<open>Construction\<close>

record local_options =
  lo_service :: "service option"
  lo_bearer :: string
  lo_role :: string
  lo_workspace :: string
  lo_source :: source_metadata
  lo_max_message :: int
  lo_state_file :: string
  lo_prefix :: string
  lo_client :: string
  lo_profiles :: "(string \<times> terminal_profile) list"
  lo_backend :: bool

definition defaultLocalMessageLimit :: int where
  "defaultLocalMessageLimit = 68 * 1024 * 1024"

definition or_default :: "string \<Rightarrow> string \<Rightarrow> string" where
  "or_default s d = (if s = [] then d else s)"

definition valid_profile :: "bool \<Rightarrow> string \<times> terminal_profile \<Rightarrow> bool" where
  "valid_profile backend p = (case p of (k, pf) \<Rightarrow>
     k = pf_id pf \<and> validRuntimeIdentifier k \<and> validIdentityText (pf_action pf)
   \<and> List.member [''low'', ''medium'', ''high'', ''critical''] (pf_risk pf)
   \<and> (backend \<longrightarrow> validIdentityText (pf_program pf)) \<and> list_all validIdentityText (pf_arguments pf))"

text \<open>A server with the digest of its bearer, its message limit and the client of its requests.\<close>

record server_instance =
  si_server :: runtime_server
  si_bearer :: string
  si_limit :: int
  si_client :: string

definition valid_options :: "local_options \<Rightarrow> source_mode \<Rightarrow> bool" where
  "valid_options lo required \<longleftrightarrow>
     TrimSpace (lo_bearer lo) \<noteq> []
   \<and> validIdentityText (lo_role lo) \<and> validMetadata (lo_source lo) \<and> sm_mode (lo_source lo) = required
   \<and> (case lo_service lo of None \<Rightarrow> False | Some sv \<Rightarrow>
        sm_runtime (lo_source lo) = sv_runtime sv \<and> sm_principal (lo_source lo) = sv_principal sv)
   \<and> (lo_max_message lo = 0 \<or> 1 \<le> lo_max_message lo)
   \<and> (let name = or_default (lo_state_file lo) ''local-runtime-state.json'' in Base name = name \<and> HasSuffix name ''.json'')
   \<and> validRuntimeIdentifier (or_default (lo_prefix lo) ''task-'')
   \<and> validText (or_default (lo_client lo) (sm_principal (lo_source lo)))
   \<and> list_all (valid_profile (lo_backend lo)) (lo_profiles lo)
   \<and> (lo_backend lo \<longrightarrow> lo_profiles lo \<noteq> [] \<and> List.member (strings (sm_capabilities (lo_source lo))) ''terminal.input'')"

definition newRuntimeServer ::
  "'c runtime_env \<Rightarrow> local_options \<Rightarrow> source_mode \<Rightarrow> store \<Rightarrow> saved_server option \<Rightarrow> (server_instance \<times> local_server) option" where
  "newRuntimeServer env lo required st disk =
     (case lo_service lo of
        None \<Rightarrow> None
      | Some sv \<Rightarrow>
          if \<not> valid_options lo required then None
          else
            (let rs = \<lparr>rs_service = sv, rs_role = lo_role lo, rs_workspace = lo_workspace lo, rs_source = lo_source lo,
                   rs_prefix = or_default (lo_prefix lo) ''task-'', rs_profiles = lo_profiles lo,
                   rs_terminals = lo_backend lo,
                   rs_editor = List.member (strings (sm_capabilities (lo_source lo))) ''editor.read''\<rparr> in
             map_option (\<lambda>ls. (\<lparr>si_server = rs, si_bearer = re_sha env (lo_bearer lo),
                 si_limit = (if lo_max_message lo = 0 then defaultLocalMessageLimit else lo_max_message lo),
                 si_client = or_default (lo_client lo) (sm_principal (lo_source lo))\<rparr>, ls))
               (start_server rs st disk)))"

definition NewLocalServer ::
  "'c runtime_env \<Rightarrow> local_options \<Rightarrow> store \<Rightarrow> saved_server option \<Rightarrow> (server_instance \<times> local_server) option" where
  "NewLocalServer env lo = newRuntimeServer env lo Mode_Local"

section \<open>Requests\<close>

record local_request =
  lr_type :: string
  lr_bearer :: string
  lr_handshake :: "handshake_request option"
  lr_command :: "command_envelope option"
  lr_task :: string
  lr_after :: int
  lr_draft :: string
  lr_lease :: int

datatype local_response =
    Ready
  | Handshake_Response handshake_response
  | Events_Response "event list"
  | Snapshot_Response int product_state
  | Receipt_Response command_receipt
  | Editor_Response string int string string int string
  | Closed_Response
  | Error_Response string

fun handshake_code :: "handshake_error \<Rightarrow> string" where
  "handshake_code Invalid_Handshake = ''invalid_handshake''"
| "handshake_code Incompatible = ''incompatible''"
| "handshake_code Runtime_Identity_Mismatch = ''runtime_identity_mismatch''"

definition resolveTaskID :: "local_server \<Rightarrow> string \<Rightarrow> string" where
  "resolveTaskID ls task = (if task \<noteq> [] then task else ls_active ls)"

definition store_code :: "store_error \<Rightarrow> string" where
  "store_code err = localErrorCode (Service_Error (Store_Failed err))"

definition events_request ::
  "'c runtime_env \<Rightarrow> halt \<Rightarrow> string \<Rightarrow> int \<Rightarrow> local_server \<Rightarrow> local_response \<times> local_server" where
  "events_request env ctx task after ls =
     (if task = [] then (Events_Response [], ls)
      else
        (case EventsAfter (re_sha env) (re_snap env) ctx task after (ls_store ls) of
           (Inl err, st) \<Rightarrow> (Error_Response (store_code err), ls\<lparr>ls_store := st\<rparr>)
         | (Inr es, st) \<Rightarrow> (Events_Response es, ls\<lparr>ls_store := st\<rparr>)))"

definition snapshot_request :: "'c runtime_env \<Rightarrow> halt \<Rightarrow> string \<Rightarrow> local_server \<Rightarrow> local_response \<times> local_server" where
  "snapshot_request env ctx task ls =
     (if task = [] then (Snapshot_Response 0 Initial, ls)
      else
        (case Load (re_sha env) (re_snap env) ctx task (ls_store ls) of
           (Inl err, st) \<Rightarrow> (Error_Response (store_code err), ls\<lparr>ls_store := st\<rparr>)
         | (Inr (_, s), st) \<Rightarrow> (Snapshot_Response (ps_cursor s) s, ls\<lparr>ls_store := st\<rparr>)))"

definition editor_request ::
  "'c runtime_env \<Rightarrow> runtime_server \<Rightarrow> halt \<Rightarrow> file_access \<Rightarrow> file_access \<Rightarrow> string \<Rightarrow> string \<Rightarrow> string \<Rightarrow> int \<Rightarrow> local_server
     \<Rightarrow> local_response \<times> local_server" where
  "editor_request env rs ctx fa fb task client draft lease ls =
     (if task = [] \<or> \<not> validRuntimeIdentifier draft \<or> lease < 1 then (Error_Response ''invalid_editor_request'', ls)
      else if \<not> has_capability rs ''editor.read'' \<or> \<not> rs_editor rs
      then (Error_Response (localErrorCode ErrEditorCapabilityRequired), ls)
      else
        (case editor_Read env ctx fa fb task client draft lease (ls_editor ls, ls_store ls) of
           (Inl err, em, st) \<Rightarrow> (Error_Response (localErrorCode err), ls\<lparr>ls_editor := em, ls_store := st\<rparr>)
         | (Inr (d, revision, data), em, st) \<Rightarrow>
             (Editor_Response (dr_id d) revision (dr_base d) (base64_encode data) (int (length data)) ''utf-8'',
              ls\<lparr>ls_editor := em, ls_store := st\<rparr>)))"

definition close_request :: "runtime_server \<Rightarrow> local_server \<Rightarrow> local_server" where
  "close_request rs ls =
     ls\<lparr>ls_terminals := (if rs_terminals rs then terminal_Close (ls_terminals ls) else ls_terminals ls),
        ls_editor := (if rs_editor rs then editor_Close (ls_editor ls) else ls_editor ls)\<rparr>"

definition handleAuthorizedForClient ::
  "'c runtime_env \<Rightarrow> runtime_server \<Rightarrow> world \<Rightarrow> file_access \<Rightarrow> local_request \<Rightarrow> string \<Rightarrow> local_server
     \<Rightarrow> local_response \<times> local_server" where
  "handleAuthorizedForClient env rs w fb q client ls =
     (let t = lr_type q; ctx = ca_ctx (wo_call w); task = resolveTaskID ls (lr_task q) in
      if t = ''health'' then (Ready, ls)
      else if t = ''handshake'' then
        (case lr_handshake q of
           None \<Rightarrow> (Error_Response ''invalid_handshake'', ls)
         | Some h \<Rightarrow>
             (case handshake_answer (rs_source rs) (rs_role rs) h of
                Inl err \<Rightarrow> (Error_Response (handshake_code err), ls)
              | Inr r \<Rightarrow> (Handshake_Response r, ls)))
      else if t = ''events'' then events_request env ctx task (lr_after q) ls
      else if t = ''snapshot'' then snapshot_request env ctx task ls
      else if t = ''command'' then
        (case lr_command q of
           None \<Rightarrow> (Error_Response ''invalid_command_envelope'', ls)
         | Some envelope \<Rightarrow>
             (case handleCommand env rs w (lr_task q) envelope client ls of (r, ls1) \<Rightarrow> (Receipt_Response r, ls1)))
      else if t = ''editor'' then editor_request env rs ctx (wo_access w) fb task client (lr_draft q) (lr_lease q) ls
      else if t = ''close'' then (Closed_Response, close_request rs ls)
      else (Error_Response ''unknown_request'', ls))"

definition Handle ::
  "'c runtime_env \<Rightarrow> server_instance \<Rightarrow> world \<Rightarrow> file_access \<Rightarrow> local_request \<Rightarrow> local_server
     \<Rightarrow> local_response \<times> local_server" where
  "Handle env si w fb q ls =
     (if re_sha env (lr_bearer q) \<noteq> si_bearer si then (Error_Response ''unauthorized'', ls)
      else handleAuthorizedForClient env (si_server si) w fb q (si_client si) ls)"

end
