(* ===== verification/Manager_Properties.thy ===== *)
theory Manager_Properties
  imports Terminal_Manager Service_Properties Sanitizer_Properties
begin

text \<open>
  The terminal manager over all interleavings of commands and goroutines: output is bounded by the limit of
  its session and never longer than what the process wrote, a session identifier is opened at most once, and
  input reaches a process only under the confirmed scope and the lease of its session, in sequence, also if
  the process takes only a part of it.
\<close>

section \<open>The sanitizer does not lengthen its input\<close>

definition held :: "sanitizer \<Rightarrow> nat" where
  "held s = (case sn_state s of EscapeStart \<Rightarrow> 1 | EscapeCSI \<Rightarrow> length (sn_csi s) | _ \<Rightarrow> 0)"

lemma push_byte_length: "push_byte c s = (s1, out) \<Longrightarrow> length out + held s1 \<le> held s + 1"
  by (cases "sn_state s") (auto simp: push_byte_def held_def split: if_splits)

lemma push_bytes_length: "push_bytes d s = (s1, out) \<Longrightarrow> length out + held s1 \<le> held s + length d"
proof (induction d arbitrary: s out)
  case (Cons c d)
  obtain s2 out1 out2 where "push_byte c s = (s2, out1)" "push_bytes d s2 = (s1, out2)" "out = out1 @ out2"
    using Cons.prems by (auto split: prod.splits)
  then show ?case using push_byte_length [of c s s2 out1] Cons.IH [of s2 out2] by simp
qed simp

lemma filterUnicode_length: "filterUnicode flush d = (out, rest) \<Longrightarrow> length out + length rest \<le> length d"
proof (induction flush d arbitrary: out rest rule: filterUnicode.induct)
  case (2 flush c r)
  show ?case
  proof (cases "FullRune (c # r)")
    case True
    show ?thesis
    proof (cases "decode_rune (c # r)")
      case None
      then show ?thesis using 2 True by fastforce
    next
      case (Some vn)
      obtain v n out1 where vn: "vn = (v, n)" "filterUnicode flush (drop (n - 1) r) = (out1, rest)"
          "out = (if isBidiControl v then out1 else c # take (n - 1) r @ out1)"
        using 2(3) True Some by (cases vn) (auto split: prod.splits)
      then have "length out1 + length rest \<le> length (drop (n - 1) r)" using 2(2) True Some by blast
      moreover have "length (take (n - 1) r) + length (drop (n - 1) r) = length r"
        by (metis append_take_drop_id length_append)
      ultimately show ?thesis using vn(3) by auto
    qed
  qed (use 2(3) in \<open>auto split: if_splits\<close>)
qed simp

lemma held_pending [simp]: "held (s\<lparr>sn_pending := p\<rparr>) = held s"
  by (cases "sn_state s") (simp_all add: held_def)

definition backlog :: "sanitizer \<Rightarrow> nat" where
  "backlog s = held s + length (sn_pending s)"

lemma Push_length:
  assumes "sanitizer_Push d s = (out, s1)"
  shows "length out + backlog s1 \<le> backlog s + length d"
proof -
  obtain s2 filtered rest where p: "push_bytes d s = (s2, filtered)"
      "filterUnicode False (sn_pending s @ filtered) = (out, rest)" "s1 = s2\<lparr>sn_pending := rest\<rparr>"
    using assms by (auto simp: sanitizer_Push_def split: prod.splits)
  then show ?thesis
    using push_bytes_length [OF p(1)] filterUnicode_length [OF p(2)] p(3) by (simp add: backlog_def)
qed

lemma Flush_length: "sanitizer_Flush s = (out, s1) \<Longrightarrow> length out + backlog s1 \<le> backlog s"
  using filterUnicode_length [of True "sn_pending s"]
  by (cases "filterUnicode True (sn_pending s)") (auto simp: sanitizer_Flush_def backlog_def held_def)

section \<open>Runs\<close>

datatype terminal_op =
    Open_Op call "string option" string string terminal_open_command
  | Input_Op call input_outcome string string terminal_input_command
  | Resize_Op call bool string string terminal_resize_command
  | Cancel_Op bool string string terminal_cancel_command
  | Output_Op call string string
  | Flush_Op call string
  | Exited_Op bool string
  | Report_Op call string int string
  | Close_Op
  | Store_Op store_op

definition on_session ::
  "string \<Rightarrow> (managed_terminal \<Rightarrow> store \<Rightarrow> managed_terminal \<times> store) \<Rightarrow> managed \<Rightarrow> managed" where
  "on_session sid f m =
     (case m of (tm, st) \<Rightarrow>
      case tm_sessions tm sid of
        None \<Rightarrow> m
      | Some t \<Rightarrow> (case f t st of (t1, st1) \<Rightarrow> (put_managed sid t1 tm, st1)))"

fun terminal_step :: "'c runtime_env \<Rightarrow> service \<Rightarrow> terminal_op \<Rightarrow> managed \<Rightarrow> managed" where
  "terminal_step env sv (Open_Op ca started task client c) m = snd (terminal_Open env sv ca started task client c m)"
| "terminal_step env sv (Input_Op ca wrote task client c) m = snd (terminal_Input env sv ca wrote task client c m)"
| "terminal_step env sv (Resize_Op ca resized task client c) m = snd (terminal_Resize env sv ca resized task client c m)"
| "terminal_step env sv (Cancel_Op killed task client c) m = snd (terminal_Cancel env killed task client c m)"
| "terminal_step env sv (Output_Op ca sid data) m = on_session sid (commitOutput env sv ca sid data) m"
| "terminal_step env sv (Flush_Op ca sid) m = on_session sid (flushOutput env sv ca sid) m"
| "terminal_step env sv (Exited_Op failed sid) m = on_session sid (\<lambda>t st. (snd (wait_close failed t), st)) m"
| "terminal_step env sv (Report_Op ca sid exit_code reason) m =
     (case tm_sessions (fst m) sid of None \<Rightarrow> m | Some t \<Rightarrow> wait_report env sv ca sid exit_code reason t m)"
| "terminal_step env sv Close_Op m = (terminal_Close (fst m), snd m)"
| "terminal_step env sv (Store_Op op) m = (fst m, store_step (re_sha env) (re_snap env) op (snd m))"

definition sessions_all :: "(managed_terminal \<Rightarrow> bool) \<Rightarrow> terminal_manager \<Rightarrow> bool" where
  "sessions_all P tm \<longleftrightarrow> (\<forall>sid t. tm_sessions tm sid = Some t \<longrightarrow> P t)"

lemma sessions_all_put [simp]: "sessions_all P tm \<Longrightarrow> P t \<Longrightarrow> sessions_all P (put_managed sid t tm)"
  by (simp add: sessions_all_def put_managed_def)

lemma sessions_all_used [simp]: "sessions_all P (tm\<lparr>tm_used := u\<rparr>) = sessions_all P tm"
  by (simp add: sessions_all_def)

lemma sessions_all_remove [simp]:
  "sessions_all P tm \<Longrightarrow> sessions_all P (remove_managed sid tm)"
  "sessions_all P tm \<Longrightarrow> sessions_all P (discard_managed sid tm)"
  by (auto simp: sessions_all_def remove_managed_def discard_managed_def)

lemma sessions_allD: "sessions_all P tm \<Longrightarrow> tm_sessions tm sid = Some t \<Longrightarrow> P t"
  by (simp add: sessions_all_def)

text \<open>The result of the lookup: the session, or no change but a stop.\<close>

lemma session_of_cases:
  assumes "session_of env sid task client revision (tm, st) = (r, m)"
  obtains (found) t st1 where "r = Inr t" "m = (tm, st1)" "tm_sessions tm sid = Some t"
    | (refused) err st1 where "r = Inl err" "m = (tm, st1)"
    | (revoked) err t reason st1 where "r = Inl err" "tm_sessions tm sid = Some t"
        "m = (revokeTerminal sid t reason tm, st1)"
proof (cases "tm_sessions tm sid")
  case None
  then show ?thesis using assms by (auto simp: session_of_def intro: refused)
next
  case (Some t)
  obtain ld st1 where load: "Load (re_sha env) (re_snap env) None task st = (ld, st1)" by fastforce
  consider "r = Inr t \<and> m = (tm, st1)" | err where "r = Inl err" "m = (tm, st) \<or> m = (tm, st1)"
    | err reason where "r = Inl err" "m = (revokeTerminal sid t reason tm, st1)"
    using assms Some load
    by (cases ld) (auto simp: session_of_def split: if_splits prod.splits option.splits)
  then show ?thesis using Some found refused revoked by cases blast+
qed

lemma sessions_all_revoke:
  "sessions_all P tm \<Longrightarrow> (\<And>reason t. P t \<Longrightarrow> P (stopped reason t)) \<Longrightarrow> tm_sessions tm sid = Some t \<Longrightarrow>
     sessions_all P (revokeTerminal sid t reason tm)"
  by (simp add: revokeTerminal_def sessions_allD)

text \<open>
  A promise about each session holds in every run if it holds for a new session and is kept by the ways in
  which a session changes.
\<close>

locale session_promise =
  fixes env :: "'c runtime_env" and sv :: service and P :: "managed_terminal \<Rightarrow> bool"
  assumes fresh: "P (managed_session task client c)"
    and stop: "P t \<Longrightarrow> P (stopped reason t)"
    and written: "P t \<Longrightarrow> P (t\<lparr>mt_written := w\<rparr>)"
    and next_input: "P t \<Longrightarrow> P (t\<lparr>mt_next_input := n\<rparr>)"
    and closing: "P t \<Longrightarrow> P (t\<lparr>mt_closed := True\<rparr>)"
    and outputs: "P t \<Longrightarrow> P (fst (commitOutput env sv ca sid data t st))"
    and flushes: "P t \<Longrightarrow> P (fst (flushOutput env sv ca sid t st))"
begin

lemma looked_up:
  assumes "session_of env sid task client revision (tm, st) = (r, (tm1, st1))" and "sessions_all P tm"
  shows "sessions_all P tm1" and "r = Inr t \<Longrightarrow> tm1 = tm \<and> tm_sessions tm sid = Some t \<and> P t"
  using assms by (cases rule: session_of_cases; auto intro: sessions_all_revoke stop sessions_allD)+

lemma opened: "sessions_all P tm \<Longrightarrow> sessions_all P (fst (snd (terminal_Open env sv ca started task client c (tm, st))))"
  by (auto simp: terminal_Open_def Let_def fresh split: option.splits sum.splits prod.splits)

lemma inputs: "sessions_all P tm \<Longrightarrow> sessions_all P (fst (snd (terminal_Input env sv ca wrote task client c (tm, st))))"
  by (auto simp: terminal_Input_def Let_def split: sum.splits prod.splits option.splits input_outcome.splits
      dest: looked_up intro!: sessions_all_put stop written next_input)

lemma resized: "sessions_all P tm \<Longrightarrow> sessions_all P (fst (snd (terminal_Resize env sv ca ok task client c (tm, st))))"
  by (auto simp: terminal_Resize_def split: sum.splits prod.splits dest: looked_up intro!: sessions_all_put stop)

lemma cancelled: "sessions_all P tm \<Longrightarrow> sessions_all P (fst (snd (terminal_Cancel env ok task client c (tm, st))))"
  by (auto simp: terminal_Cancel_def split: sum.splits prod.splits dest: looked_up intro!: sessions_all_put stop)

lemma on_session_kept:
  assumes "sessions_all P tm" and "\<And>t st. P t \<Longrightarrow> P (fst (f t st))"
  shows "sessions_all P (fst (on_session sid f (tm, st)))"
proof (cases "tm_sessions tm sid")
  case (Some t)
  then have "P (fst (f t st))" using assms sessions_allD by blast
  then show ?thesis using Some assms(1) by (simp add: on_session_def split_def)
qed (simp add: on_session_def assms)

lemma step: "sessions_all P (fst m) \<Longrightarrow> sessions_all P (fst (terminal_step env sv op m))"
proof (cases op)
  case (Exited_Op failed sid)
  assume "sessions_all P (fst m)"
  then show ?thesis
    using Exited_Op closing by (cases m) (auto simp: wait_close_def intro!: on_session_kept)
next
  case Close_Op
  assume "sessions_all P (fst m)"
  then show ?thesis
    using Close_Op stop by (auto simp: terminal_Close_def sessions_all_def split: if_splits)
next
  case (Report_Op ca sid exit_code reason)
  assume "sessions_all P (fst m)"
  then show ?thesis using Report_Op by (auto simp: wait_report_def split: option.splits prod.splits)
qed (cases m; auto intro: opened inputs resized cancelled on_session_kept outputs flushes)+

lemma run: "sessions_all P (fst (fold (terminal_step env sv) ops (NewTerminalManager, st)))"
proof (induction ops rule: rev_induct)
  case Nil
  show ?case by (simp add: sessions_all_def NewTerminalManager_def)
next
  case (snoc op ops)
  then show ?case by (simp add: step)
qed

end

section \<open>Output is bounded\<close>

definition bounded :: "managed_terminal \<Rightarrow> bool" where
  "bounded t \<longleftrightarrow>
     mt_received t \<le> mt_limit t \<and> 0 \<le> mt_emitted t
   \<and> mt_emitted t + int (backlog (mt_sanitizer t)) \<le> mt_received t
   \<and> 1 \<le> mt_next_output t \<and> mt_next_output t \<le> mt_emitted t + 1
   \<and> (mt_limit t \<le> mt_received t \<longrightarrow> mt_kill_called t)"

definition int_limit :: "managed_terminal \<Rightarrow> bool" where
  "int_limit t \<longleftrightarrow> 0 < mt_limit t \<and> mt_limit t \<le> 64 * 1024 * 1024"

lemma stopped_fields [simp]:
  "mt_limit (stopped r t) = mt_limit t" "mt_received (stopped r t) = mt_received t" "mt_emitted (stopped r t) = mt_emitted t"
  "mt_sanitizer (stopped r t) = mt_sanitizer t" "mt_next_output (stopped r t) = mt_next_output t" "mt_kill_called (stopped r t)"
  "mt_closed (stopped r t) = mt_closed t"
  by (simp_all add: stopped_def)

lemma bounded_stopped: "bounded t \<Longrightarrow> bounded (stopped r t)"
  by (simp add: bounded_def)

lemma emitOutputLocked_cases:
  obtains (failed) st1 where "emitOutputLocked env sv ca sid data t st = (False, stopped ''audit_failed'' t, st1)"
    | (recorded) st1 where "emitOutputLocked env sv ca sid data t st
        = (True, t\<lparr>mt_emitted := wrap64 (mt_emitted t + int (length data)),
             mt_next_output := wrap64 (mt_next_output t + 1)\<rparr>, st1)"
proof -
  obtain r st1 where r: "emit env sv (in_background ca) (mt_task t) ''terminal.output'' (object
         [(''sessionId'', JStr sid), (''sequence'', json_int (mt_next_output t)), (''data'', JStr (base64_encode data)),
          (''byteLength'', json_int (int (length data)))]) no_source st = (r, st1)" by fastforce
  then show ?thesis
    by (cases r) (use r in \<open>auto simp: emitOutputLocked_def intro: failed recorded\<close>)
qed

lemma emitOutputLocked_limit: "emitOutputLocked env sv ca sid data t st = (ok, t1, st1) \<Longrightarrow> mt_limit t1 = mt_limit t"
  by (cases rule: emitOutputLocked_cases [of env sv ca sid data t st]) auto

lemma commitOutput_limit: "mt_limit (fst (commitOutput env sv ca sid data t st)) = mt_limit t"
  by (auto simp: commitOutput_def Let_def split: prod.splits if_splits dest!: emitOutputLocked_limit)

lemma flushOutput_limit: "mt_limit (fst (flushOutput env sv ca sid t st)) = mt_limit t"
  by (auto simp: flushOutput_def Let_def split: prod.splits dest!: emitOutputLocked_limit)

lemma limit_kept [simp]:
  "int_limit (fst (commitOutput env sv ca sid data t st)) = int_limit t"
  "int_limit (fst (flushOutput env sv ca sid t st)) = int_limit t"
  by (simp_all add: int_limit_def commitOutput_limit flushOutput_limit)

text \<open>The state of a session between its counting of a chunk and the check of the limit.\<close>

definition counted :: "managed_terminal \<Rightarrow> int \<Rightarrow> bool" where
  "counted t n \<longleftrightarrow> int_limit t \<and> mt_received t \<le> mt_limit t \<and> 0 \<le> mt_emitted t
     \<and> mt_emitted t + n + int (backlog (mt_sanitizer t)) \<le> mt_received t
     \<and> 1 \<le> mt_next_output t \<and> mt_next_output t \<le> mt_emitted t + 1"

lemma emitOutputLocked_counted:
  assumes "counted t (int (length data))" and "data \<noteq> []"
    and "emitOutputLocked env sv ca sid data t st = (ok, t1, st1)"
  shows "counted t1 0 \<and> (ok \<or> mt_kill_called t1) \<and> mt_limit t1 = mt_limit t \<and> mt_received t1 = mt_received t
    \<and> (mt_kill_called t \<longrightarrow> mt_kill_called t1)"
proof -
  have small: "mt_emitted t + int (length data) < 2 ^ 63" "0 < int (length data)"
    using assms(1,2) by (auto simp: counted_def int_limit_def)
  then have "wrap64 (mt_emitted t + int (length data)) = mt_emitted t + int (length data)"
    "wrap64 (mt_next_output t + 1) = mt_next_output t + 1"
    using assms(1) by (auto intro!: wrap64_id simp: counted_def int_limit_def)
  moreover obtain n where "length data = Suc n" using assms(2) by (cases data) auto
  ultimately show ?thesis
    using assms small
    by (cases rule: emitOutputLocked_cases [of env sv ca sid data t st]) (auto simp: counted_def int_limit_def)
qed

lemma commitOutput_bounded:
  assumes b: "bounded t" and "int_limit t"
  shows "bounded (fst (commitOutput env sv ca sid data t st))"
proof (cases "mt_closed t \<or> mt_limit t \<le> mt_received t")
  case True
  have "wrap64 (mt_limit t - mt_received t) \<le> 0 \<longleftrightarrow> mt_limit t \<le> mt_received t" if "mt_limit t \<le> mt_received t"
    using that assms by (auto simp: bounded_def int_limit_def wrap64_def split: if_splits)
  then show ?thesis using True b by (auto simp: commitOutput_def Let_def bounded_stopped)
next
  case False
  have rec: "0 \<le> mt_received t" using b by (auto simp: bounded_def)
  then have remaining: "wrap64 (mt_limit t - mt_received t) = mt_limit t - mt_received t"
    using False assms(2) by (intro wrap64_id) (auto simp: int_limit_def)
  define chunk where "chunk = take (nat (mt_limit t - mt_received t)) data"
  have len: "int (length chunk) \<le> mt_limit t - mt_received t" using False by (auto simp: chunk_def)
  then have received: "wrap64 (mt_received t + int (length chunk)) = mt_received t + int (length chunk)"
    using rec assms(2) by (intro wrap64_id) (auto simp: int_limit_def)
  define t1 where "t1 = t\<lparr>mt_received := mt_received t + int (length chunk)\<rparr>"
  obtain clean sn where push: "sanitizer_Push chunk (mt_sanitizer t) = (clean, sn)" by fastforce
  define t2 where "t2 = t1\<lparr>mt_sanitizer := sn\<rparr>"
  have counted: "counted t2 (int (length clean))"
    using b assms(2) len Push_length [OF push] by (auto simp: counted_def bounded_def t1_def t2_def int_limit_def)
  obtain ok t3 st1 where e: "(if clean = [] then (True, t2, st) else emitOutputLocked env sv ca sid clean t2 st) = (ok, t3, st1)"
    using prod_cases3 by blast
  have t3: "counted t3 0" "ok \<or> mt_kill_called t3" "mt_limit t3 = mt_limit t"
    using emitOutputLocked_counted [OF counted, of env sv ca sid st ok t3 st1] counted e
    by (auto simp: t1_def t2_def split: if_splits)
  have "commitOutput env sv ca sid data t st =
      (case (if clean = [] then (True, t2, st) else emitOutputLocked env sv ca sid clean t2 st) of
         (ok, t3, st1) \<Rightarrow> (if ok \<and> mt_limit t3 \<le> mt_received t3 then stopped ''output_limit'' t3 else t3, st1))"
    using False push [unfolded chunk_def] received [unfolded chunk_def]
    by (simp add: commitOutput_def Let_def remaining t2_def t1_def chunk_def)
  then have "fst (commitOutput env sv ca sid data t st)
      = (if ok \<and> mt_limit t3 \<le> mt_received t3 then stopped ''output_limit'' t3 else t3)"
    unfolding e by simp
  then show ?thesis using t3 by (auto simp: counted_def bounded_def)
qed

lemma flushOutput_bounded:
  assumes b: "bounded t" and "int_limit t"
  shows "bounded (fst (flushOutput env sv ca sid t st))"
proof (cases "mt_closed t")
  case False
  obtain clean sn where flush: "sanitizer_Flush (mt_sanitizer t) = (clean, sn)" by fastforce
  define t1 where "t1 = t\<lparr>mt_sanitizer := sn\<rparr>"
  have counted: "counted t1 (int (length clean))"
    using b assms(2) Flush_length [OF flush] by (auto simp: counted_def bounded_def t1_def int_limit_def)
  show ?thesis
  proof (cases "clean = []")
    case True
    then show ?thesis
      using False flush counted b by (auto simp: flushOutput_def t1_def counted_def bounded_def)
  next
    case dirty: False
    obtain ok t2 st1 where e: "emitOutputLocked env sv ca sid clean t1 st = (ok, t2, st1)" using prod_cases3 by blast
    then show ?thesis
      using emitOutputLocked_counted [OF counted dirty e] False flush dirty b
      by (auto simp: flushOutput_def t1_def [symmetric]) (auto simp: t1_def counted_def bounded_def)
  qed
qed (use b in \<open>simp add: flushOutput_def\<close>)

definition output_bounded :: "managed_terminal \<Rightarrow> bool" where
  "output_bounded t \<longleftrightarrow> (int_limit t \<longrightarrow> bounded t)"

interpretation output_bounds: session_promise env sv output_bounded
proof
  fix t :: managed_terminal and ca :: call and sid data :: string and st :: store
  assume t: "output_bounded t"
  show "output_bounded (fst (commitOutput env sv ca sid data t st))" "output_bounded (fst (flushOutput env sv ca sid t st))"
    using t commitOutput_bounded [of t] flushOutput_bounded [of t]
    by (auto simp: output_bounded_def)
qed (auto simp: output_bounded_def int_limit_def bounded_def managed_session_def newTerminalOutputSanitizer_def
    backlog_def held_def)

text \<open>C20: over every interleaving of commands, output, exits and store operations, a session opened with a limit
  the contract allows (1 to 64 MiB) has taken at most that many bytes from its process and emitted no
  more bytes than it has taken, with no more output events than bytes; once the limit is reached the \<open>Kill\<close>
  of the process has been called.
\<close>

theorem terminal_output_bounded:
  assumes "tm_sessions (fst (fold (terminal_step env sv) ops (NewTerminalManager, st))) sid = Some t"
    and "0 < mt_limit t" and "mt_limit t \<le> 64 * 1024 * 1024"
  shows "mt_received t \<le> mt_limit t \<and> 0 \<le> mt_emitted t \<and> mt_emitted t \<le> mt_received t
    \<and> 1 \<le> mt_next_output t \<and> mt_next_output t \<le> mt_emitted t + 1 \<and> (mt_received t = mt_limit t \<longrightarrow> mt_kill_called t)"
  using sessions_allD [OF output_bounds.run assms(1)] assms(2,3)
  by (auto simp: output_bounded_def int_limit_def bounded_def)

section \<open>Identifiers\<close>

lemma used_revoke [simp]: "tm_used (revokeTerminal sid t reason tm) = tm_used tm"
  by (simp add: revokeTerminal_def put_managed_def)

lemma used_put [simp]: "tm_used (put_managed sid t tm) = tm_used tm"
  by (simp add: put_managed_def)

lemma used_session_of: "session_of env sid task client revision m = (r, (tm1, st1)) \<Longrightarrow> tm_used tm1 = tm_used (fst m)"
  by (cases m) (auto elim: session_of_cases)

lemma used_step: "tm_used (fst m) \<subseteq> tm_used (fst (terminal_step env sv op m))"
proof (cases op)
  case (Open_Op ca started task client c)
  then show ?thesis
    by (cases m) (auto simp: terminal_Open_def Let_def discard_managed_def put_managed_def
        split: option.splits sum.splits prod.splits)
next
  case (Input_Op ca wrote task client c)
  then show ?thesis
    by (auto simp: terminal_Input_def Let_def split: sum.splits prod.splits option.splits input_outcome.splits
        dest!: used_session_of)
next
  case (Resize_Op ca resized task client c)
  then show ?thesis by (auto simp: terminal_Resize_def split: sum.splits prod.splits dest!: used_session_of)
next
  case (Cancel_Op killed task client c)
  then show ?thesis by (auto simp: terminal_Cancel_def split: sum.splits prod.splits dest!: used_session_of)
next
  case (Report_Op ca sid exit_code reason)
  then show ?thesis by (cases m) (auto simp: wait_report_def remove_managed_def split: option.splits)
qed (cases m; auto simp: on_session_def terminal_Close_def split: option.splits prod.splits)+

interpretation used_grow: monotone_machine "terminal_step env sv" "\<lambda>m m'. tm_used (fst m) \<subseteq> tm_used (fst m')"
  by unfold_locales (auto simp: used_step [THEN subsetD])

text \<open>
  a session identifier is opened at most once. After a successful \<open>Open\<close>, whatever runs later, every other
  \<open>Open\<close> with the same identifier, by any client for any task, fails without starting a process.
\<close>

theorem session_opened_once:
  assumes "terminal_Open env sv ca started task client c m = (None, m1)" and "to_session d = to_session c"
  shows "terminal_Open env sv ca2 started2 task2 client2 d (fold (terminal_step env sv) ops m1)
    = (Some ErrTerminalSessionExists, fold (terminal_step env sv) ops m1)"
proof -
  have "to_session c \<in> tm_used (fst m1)"
    using assms(1) by (cases m) (auto simp: terminal_Open_def Let_def split: option.splits sum.splits prod.splits if_splits)
  then have "to_session d \<in> tm_used (fst (fold (terminal_step env sv) ops m1))"
    using used_grow.rel_run [of m1 env sv ops] assms(2) by auto
  then show ?thesis by (cases "fold (terminal_step env sv) ops m1") (simp add: terminal_Open_def)
qed

section \<open>Input\<close>

text \<open>The authority of a client over a session, in a snapshot and its events.\<close>

definition commands_session :: "event list \<Rightarrow> product_state \<Rightarrow> string \<Rightarrow> int \<Rightarrow> managed_terminal \<Rightarrow> bool" where
  "commands_session es s client revision t \<longleftrightarrow>
     map_option sc_id (ps_scope s) = Some (mt_scope t) \<and> scopeWasConfirmed es (mt_scope t)
   \<and> ps_lease s = Some \<lparr>cl_client = client, cl_revision = revision\<rparr> \<and> mt_owner t = client \<and> mt_lease t = revision"

lemma session_of_found:
  assumes "session_of env sid task client revision (tm, st) = (Inr t, (tm1, st1))"
  obtains es s where "tm1 = tm" "tm_sessions tm sid = Some t" "mt_task t = task"
    "Load (re_sha env) (re_snap env) None task st = (Inr (es, s), st1)" "commands_session es s client revision t"
proof (cases "tm_sessions tm sid")
  case (Some u)
  obtain ld st2 where load: "Load (re_sha env) (re_snap env) None task st = (ld, st2)" by fastforce
  obtain es s where ld: "ld = Inr (es, s)"
    using assms Some load by (cases ld) (auto simp: session_of_def split: if_splits)
  show ?thesis
    using assms Some load ld that
    by (auto simp: session_of_def commands_session_def split: if_splits option.splits intro: control_lease.equality)
qed (use assms in \<open>simp add: session_of_def\<close>)

text \<open>The payload that records an input.\<close>

lemma input_payload_wf:
  "list_all (\<lambda>(_, v). wf_json v) [(''sessionId'', JStr sid), (''sequence'', json_int n), (''byteLength'', json_int l),
     (''sha256'', JStr d)]"
  "List.member known_event_types ''terminal.input.accepted''"
  by (simp_all add: json_int_def int_text_def known_event_types_def)

definition input_payload :: "'c runtime_env \<Rightarrow> terminal_input_command \<Rightarrow> string \<Rightarrow> (string \<times> json) list" where
  "input_payload env c data =
     [(''sessionId'', JStr (ti_session c)), (''sequence'', json_int (ti_sequence c)),
      (''byteLength'', json_int (int (length data))), (''sha256'', JStr (re_sha env data))]"

lemma terminal_Input_cases:
  assumes "terminal_Input env sv ca wrote task client c m = (r, (tm', st'))"
    and "session_of env (ti_session c) task client (ti_revision c) m = (Inr t, (tm, st1))"
  obtains (unchanged) err where "r = Some err" "tm' = tm"
    | (partly) data n where "base64_decode (ti_data c) = Some data" "ti_sequence c = mt_next_input t"
        "r = Some Process_Failed" "st' = st1"
        "tm' = put_managed (ti_session c) (t\<lparr>mt_written := mt_written t @ take n data\<rparr>) tm"
    | (failed) data err where "base64_decode (ti_data c) = Some data" "ti_sequence c = mt_next_input t"
        "r = Some (Service_Error (Store_Failed err))"
        "tm' = put_managed (ti_session c) (stopped ''audit_failed'' (t\<lparr>mt_written := mt_written t @ data\<rparr>)) tm"
    | (recorded) data e where "base64_decode (ti_data c) = Some data" "ti_sequence c = mt_next_input t"
        "emit_later env sv ca task ''terminal.input.accepted'' (object (input_payload env c data)) no_source st1 = (Inr e, st')"
        "r = None" "tm' = put_managed (ti_session c) (t\<lparr>mt_written := mt_written t @ data,
          mt_next_input := wrap64 (mt_next_input t + 1)\<rparr>) tm"
proof (cases "base64_decode (ti_data c)")
  case None
  then show ?thesis using assms by (auto simp: terminal_Input_def intro: unchanged)
next
  case (Some data)
  show ?thesis
  proof (cases "int (length data) \<noteq> ti_length c \<or> mt_closed t \<or> ti_sequence c \<noteq> mt_next_input t")
    case True
    then show ?thesis using assms Some unchanged by (auto simp: terminal_Input_def split: if_splits)
  next
    case False
    show ?thesis
    proof (cases wrote)
      case (Write_Failed n)
      then show ?thesis using assms Some False by (intro partly [of data n]) (auto simp: terminal_Input_def)
    next
      case Wrote_All
      obtain res st2 where e: "emit_later env sv ca task ''terminal.input.accepted'' (object (input_payload env c data))
          no_source st1 = (res, st2)" by (rule prod.exhaust)
      show ?thesis
      proof (cases res)
        case (Inl err)
        then show ?thesis using assms Some False e Wrote_All
          by (intro failed [of data err]) (auto simp: terminal_Input_def Let_def input_payload_def)
      next
        case (Inr ev)
        then show ?thesis using assms Some False e Wrote_All
          by (intro recorded [of data ev]) (auto simp: terminal_Input_def Let_def input_payload_def)
      qed
    qed
  qed
qed

text \<open>C18: input reaches a process only under the authority over its session: in the snapshot loaded for the
  command the confirmed scope and the lease are those the session was opened with, held by the client that
  opened it, and the sequence number is the next one. All of the data was written and an event with its
  sequence number, length and digest records it; or all of it was written, the event could not be stored,
  the command fails and the process's \<open>Kill\<close> has been called; or the write itself failed, the process has
  taken a beginning of the data, the command fails and the sequence number stays the next one.
\<close>

theorem input_needs_authority:
  assumes run: "terminal_Input env sv ca wrote task client c (tm, interleave env ops Map.empty) = (r, (tm', st'))"
    and t: "tm_sessions tm (ti_session c) = Some t" "tm_sessions tm' (ti_session c) = Some t'"
    and written: "mt_written t' \<noteq> mt_written t"
  shows "\<exists>es s data. fst (Load (re_sha env) (re_snap env) None task (interleave env ops Map.empty)) = Inr (es, s)
    \<and> mt_task t = task \<and> commands_session es s client (ti_revision c) t \<and> ti_sequence c = mt_next_input t
    \<and> base64_decode (ti_data c) = Some data
    \<and> (r = None \<and> mt_written t' = mt_written t @ data \<and> mt_next_input t' = wrap64 (mt_next_input t + 1)
         \<and> (\<exists>more e s'. fst (Load (re_sha env) (re_snap env) None task st') = Inr (es @ more @ [e], s')
              \<and> e_type e = ''terminal.input.accepted''
              \<and> e_payload e = object (input_payload env c data))
       \<or> r \<noteq> None \<and> mt_written t' = mt_written t @ data \<and> mt_kill_called t'
       \<or> r = Some Process_Failed \<and> (\<exists>n. mt_written t' = mt_written t @ take n data)
         \<and> mt_next_input t' = mt_next_input t)"
proof -
  let ?st = "interleave env ops Map.empty"
  have sound: "sound ?st" by (rule interleave_sound [OF sound_empty])
  obtain found m1 where look: "session_of env (ti_session c) task client (ti_revision c) (tm, ?st) = (found, m1)" by (rule prod.exhaust)
  have "\<exists>u. found = Inr u"
  proof (rule ccontr)
    assume "\<not> ?thesis"
    then obtain err where err: "found = Inl err" by (cases found) auto
    then have m1: "m1 = (tm', st')" using run look by (simp add: terminal_Input_def)
    have "tm' = tm \<or> (\<exists>reason. tm' = revokeTerminal (ti_session c) t reason tm)"
      using look [unfolded m1] t(1) err by (cases rule: session_of_cases) auto
    then show False
      using t written by (auto simp: revokeTerminal_def put_managed_def stopped_def split: if_splits)
  qed
  then obtain u where "found = Inr u" by blast
  then obtain es s st1 where found: "m1 = (tm, st1)" "u = t" "mt_task t = task"
      "Load (re_sha env) (re_snap env) None task ?st = (Inr (es, s), st1)" "commands_session es s client (ti_revision c) t"
    using look t(1) by (cases m1) (auto elim: session_of_found)
  have lines: "log_lines st1 = log_lines ?st"
    using Load_lines [of "re_sha env" "re_snap env" None task ?st] found(4) by simp
  then have sound1: "sound st1" using sound by (simp add: sound_def)
  have load: "fst (Load (re_sha env) (re_snap env) None task ?st) = Inr (es, s)" using found(4) by simp
  from run look [unfolded \<open>found = Inr u\<close> found(1,2)] show ?thesis
  proof (cases rule: terminal_Input_cases)
    case unchanged
    then show ?thesis using t written by simp
  next
    case (partly data n)
    then have "mt_written t' = mt_written t @ take n data" "mt_next_input t' = mt_next_input t"
      using t by (auto simp: put_managed_def)
    then show ?thesis using load found(3,5) partly(1,2,3) by blast
  next
    case (failed data err)
    then have "mt_written t' = mt_written t @ data" "mt_kill_called t'"
      using t by (auto simp: put_managed_def stopped_def)
    then show ?thesis using load found(3,5) failed(1,2,3) by blast
  next
    case (recorded data e)
    have w: "mt_written t' = mt_written t @ data" "mt_next_input t' = wrap64 (mt_next_input t + 1)"
      using recorded(5) t by (auto simp: put_managed_def)
    from sound1 lines load recorded(3) [unfolded input_payload_def] input_payload_wf
    obtain more e' s' where "fst (Load (re_sha env) (re_snap env) None task st') = Inr (es @ more @ [e'], s')"
        "e_type e' = ''terminal.input.accepted''" "e_payload e' = object (input_payload env c data)"
      unfolding input_payload_def by (cases rule: emit_later_success) blast
    then show ?thesis using load found(3,5) recorded(1,2,4) w by blast
  qed
qed

end
