(* ===== verification/Server_Properties.thy ===== *)
theory Server_Properties
  imports Local_Requests Service_Properties Manager_Properties
begin

text \<open>
  The server over all runs of commands, goroutines of terminals, other store operations and restarts: a receipt
  once given is final, so a repeated command has no effect, and what the server saves it can load.
\<close>

section \<open>What a dispatch leaves alone\<close>

definition same_receipts :: "local_server \<Rightarrow> local_server \<Rightarrow> bool" where
  "same_receipts ls ls' \<longleftrightarrow> ls_receipts ls' = ls_receipts ls \<and> ls_disk ls' = ls_disk ls"

lemma same_receipts_simps [simp]:
  "same_receipts ls ls" "same_receipts ls (ls\<lparr>ls_store := st\<rparr>)" "same_receipts ls (ls\<lparr>ls_next := n\<rparr>)"
  "same_receipts ls (ls\<lparr>ls_terminals := tm, ls_store := st\<rparr>)" "same_receipts ls (ls\<lparr>ls_editor := em, ls_store := st\<rparr>)"
  "same_receipts ls (ls\<lparr>ls_next := n, ls_store := st\<rparr>)" "same_receipts ls (ls\<lparr>ls_next := n, ls_store := st, ls_active := t\<rparr>)"
  by (simp_all add: same_receipts_def)

text \<open>The task number: a dispatch leaves it or takes the next one.\<close>

definition kept :: "local_server \<Rightarrow> local_server \<Rightarrow> bool" where
  "kept ls ls' \<longleftrightarrow> same_receipts ls ls' \<and> (ls_next ls' = ls_next ls \<or> ls_next ls' = wrap64 (ls_next ls + 1))"

definition dispatched :: "string \<Rightarrow> local_server \<Rightarrow> command_receipt \<times> local_server \<Rightarrow> bool" where
  "dispatched key ls d \<longleftrightarrow> kept ls (snd d)
     \<and> (fst d = acceptedReceipt key \<or> (\<exists>c. fst d = rejectedReceipt key c \<and> validText c))"

lemma service_code_text: "validText (service_code e)"
  by (cases e rule: service_code.cases) (simp_all add: validText_def, code_simp+)

lemma localErrorCode_text: "validText (localErrorCode e)"
  by (cases e) (simp_all add: service_code_text, (simp add: validText_def, code_simp)+)

lemma service_result_kept: "kept ls (snd (service_result r ls))"
  by (auto simp: service_result_def kept_def split: prod.splits sum.splits)

lemma terminal_result_kept: "kept ls (snd (terminal_result r ls))"
  by (auto simp: terminal_result_def kept_def split: prod.splits)

lemma editor_result_kept: "kept ls (snd (editor_result r ls))"
  by (auto simp: editor_result_def kept_def split: prod.splits sum.splits)

lemma create_task_kept: "kept ls (snd (create_task env rs w c ls))"
  by (auto simp: create_task_def kept_def Let_def split: prod.splits sum.splits)

lemma open_terminal_kept: "kept ls (snd (open_terminal env rs w task client c ls))"
  using terminal_result_kept by (auto simp: open_terminal_def kept_def split: prod.splits option.splits)

lemma terminal_mutation_kept: "kept ls (snd (terminal_mutation rs run ls))"
  using terminal_result_kept by (auto simp: terminal_mutation_def kept_def)

lemma editor_mutation_kept: "kept ls (snd (editor_mutation rs capability run ls))"
  by (simp add: editor_mutation_def editor_result_kept) (simp add: kept_def)

lemmas results_kept = service_result_kept create_task_kept open_terminal_kept terminal_mutation_kept editor_mutation_kept

lemma finished: "kept ls (snd x) \<Longrightarrow> dispatched key ls (case x of (err, ls1) \<Rightarrow> (receipt_for key err, ls1))"
  using localErrorCode_text
  by (cases x; cases "fst x") (auto simp: dispatched_def receipt_for_def)

lemma refused: "validText c \<Longrightarrow> dispatched key ls (rejectedReceipt key c, ls)"
  by (auto simp: dispatched_def kept_def)

lemma refusal_codes:
  "validText ''invalid_command_envelope''" "validText ''runtime_mismatch''" "validText ''unsupported_command''"
  unfolding validText_def by code_simp+

lemma decoded_command_dispatched:
  "(\<And>c. kept ls (snd (run c ls))) \<Longrightarrow> dispatched key ls (decoded_command key obj dec zero run ls)"
  by (auto simp: decoded_command_def intro: finished refused refusal_codes split: option.splits)

lemma if_dispatched:
  "dispatched key ls a \<Longrightarrow> dispatched key ls b \<Longrightarrow> dispatched key ls (if P then a else b)"
  by simp

lemma create_dispatched:
  "dispatched key ls
     (case dec_create (JObj obj) no_create of
        None \<Rightarrow> (rejectedReceipt key ''invalid_command_envelope'', ls)
      | Some c \<Rightarrow>
          if cc_runtime c \<noteq> sm_runtime (rs_source rs) then (rejectedReceipt key ''runtime_mismatch'', ls)
          else (case create_task env rs w c ls of (err, ls1) \<Rightarrow> (receipt_for key err, ls1)))"
  by (auto split: option.splits intro: refused refusal_codes finished create_task_kept simp del: split_paired_All)

lemma dispatchCommand_dispatched: "dispatched key ls (dispatchCommand env rs w task key obj client ls)"
  unfolding dispatchCommand_def Let_def emit_plain_def
  by (intro if_dispatched create_dispatched decoded_command_dispatched finished refused refusal_codes results_kept)

section \<open>Runs\<close>

text \<open>What happens to a server: a command of a client or another request, a step of its terminals or of the store,
  a restart.\<close>

datatype server_op =
    Command_Op world string command_envelope string
  | Terminal_Op terminal_op
  | Request_Op world file_access local_request string
  | Restart_Op

fun server_step :: "'c runtime_env \<Rightarrow> runtime_server \<Rightarrow> server_op \<Rightarrow> local_server \<Rightarrow> local_server" where
  "server_step env rs (Command_Op w task envelope client) ls = snd (handleCommand env rs w task envelope client ls)"
| "server_step env rs (Terminal_Op op) ls =
     (case terminal_step env (rs_service rs) op (ls_terminals ls, ls_store ls) of
        (tm, st) \<Rightarrow> ls\<lparr>ls_terminals := tm, ls_store := st\<rparr>)"
| "server_step env rs (Request_Op w fb q client) ls = snd (handleAuthorizedForClient env rs w fb q client ls)"
| "server_step env rs Restart_Op ls =
     (case start_server rs (ls_store ls) (ls_disk ls) of Some ls' \<Rightarrow> ls' | None \<Rightarrow> ls)"

definition disk_receipts :: "local_server \<Rightarrow> receipts" where
  "disk_receipts ls = (case ls_disk ls of None \<Rightarrow> [] | Some s \<Rightarrow> ss_receipts s)"

text \<open>What the server remembers is on disk, and stays.\<close>

definition remembered :: "local_server \<Rightarrow> bool" where
  "remembered ls \<longleftrightarrow> map_of (ls_receipts ls) \<subseteq>\<^sub>m map_of (disk_receipts ls)"

definition receipts_grow :: "local_server \<Rightarrow> local_server \<Rightarrow> bool" where
  "receipts_grow ls ls' \<longleftrightarrow> (remembered ls \<longrightarrow> remembered ls' \<and> map_of (ls_receipts ls) \<subseteq>\<^sub>m map_of (ls_receipts ls'))"

lemma remembered_same: "same_receipts ls ls' \<Longrightarrow> receipts_grow ls ls'"
  by (simp add: receipts_grow_def remembered_def disk_receipts_def same_receipts_def)

text \<open>The outcomes of a command.\<close>

lemma handleCommand_cases:
  obtains (answered) r where "handleCommand env rs w task envelope client ls = (r, ls)"
        "ValidateCommandEnvelope envelope \<noteq> None \<or> decode_object (ce_command envelope) = None
          \<or> map_of (ls_receipts ls) (ce_key envelope) \<noteq> None"
    | (stored) obj r ls1 where "map_of (ls_receipts ls) (ce_key envelope) = None" "dispatched (ce_key envelope) ls (r, ls1)"
        "ValidateCommandEnvelope envelope = None" "decode_object (ce_command envelope) = Some obj"
        "dispatchCommand env rs w task (ce_key envelope) obj client ls = (r, ls1)" "wo_saved w = Saved"
        "handleCommand env rs w task envelope client ls = (r, ls1\<lparr>
           ls_receipts := AList.update (ce_key envelope)
             (idempotencyDigest env rs ls task (ce_command envelope) obj client, r) (ls_receipts ls),
           ls_disk := Some (saved_form rs (ls1\<lparr>ls_receipts := AList.update (ce_key envelope)
             (idempotencyDigest env rs ls task (ce_command envelope) obj client, r) (ls_receipts ls)\<rparr>))\<rparr>)"
    | (unsynced) obj r ls1 where "map_of (ls_receipts ls) (ce_key envelope) = None" "dispatched (ce_key envelope) ls (r, ls1)"
        "ValidateCommandEnvelope envelope = None" "decode_object (ce_command envelope) = Some obj" "wo_saved w = Saved_Not_Synced"
        "handleCommand env rs w task envelope client ls = (rejectedReceipt (ce_key envelope) ''persistence_failed'', ls1\<lparr>
           ls_receipts := AList.delete (ce_key envelope) (AList.update (ce_key envelope)
             (idempotencyDigest env rs ls task (ce_command envelope) obj client, r) (ls_receipts ls)),
           ls_disk := Some (saved_form rs (ls1\<lparr>ls_receipts := AList.update (ce_key envelope)
             (idempotencyDigest env rs ls task (ce_command envelope) obj client, r) (ls_receipts ls)\<rparr>))\<rparr>)"
    | (unsaved) obj r ls1 where "map_of (ls_receipts ls) (ce_key envelope) = None" "dispatched (ce_key envelope) ls (r, ls1)"
        "dispatchCommand env rs w task (ce_key envelope) obj client ls = (r, ls1)" "wo_saved w = Not_Saved"
        "handleCommand env rs w task envelope client ls = (rejectedReceipt (ce_key envelope) ''persistence_failed'', ls1\<lparr>
           ls_receipts := AList.delete (ce_key envelope) (AList.update (ce_key envelope)
             (idempotencyDigest env rs ls task (ce_command envelope) obj client, r) (ls_receipts ls))\<rparr>)"
proof (cases "ValidateCommandEnvelope envelope = None \<and> decode_object (ce_command envelope) \<noteq> None
    \<and> map_of (ls_receipts ls) (ce_key envelope) = None")
  case False
  then have "\<exists>r. handleCommand env rs w task envelope client ls = (r, ls)"
    by (auto simp: handleCommand_def Let_def split: option.splits)
  then obtain r where "handleCommand env rs w task envelope client ls = (r, ls)" by blast
  then show ?thesis using False by (intro answered [of r]) auto
next
  case True
  then obtain obj where obj: "decode_object (ce_command envelope) = Some obj" by blast
  obtain r ls1 where d: "dispatchCommand env rs w task (ce_key envelope) obj client ls = (r, ls1)" by (rule prod.exhaust)
  have disp: "dispatched (ce_key envelope) ls (r, ls1)" using dispatchCommand_dispatched d by metis
  then have same: "ls_receipts ls1 = ls_receipts ls" by (simp add: dispatched_def kept_def same_receipts_def)
  note h = handleCommand_def Let_def saveState_def saved_form_def
  show ?thesis
  proof (cases "wo_saved w")
    case Saved
    then show ?thesis using True obj d disp same by (intro stored [of r ls1 obj]) (simp_all add: h)
  next
    case Saved_Not_Synced
    then show ?thesis using True obj d disp same by (intro unsynced [of r ls1 obj]) (simp_all add: h)
  next
    case Not_Saved
    then show ?thesis using True obj d disp same by (intro unsaved [of r ls1 obj]) (simp_all add: h)
  qed
qed

section \<open>Receipts are final\<close>

lemma editor_Read_lines:
  "log_lines (snd (snd (editor_Read env ctx fa fb task client draft lease (em, st)))) = log_lines st"
proof -
  obtain r st1 where load: "Load (re_sha env) (re_snap env) ctx task st = (r, st1)" by (rule prod.exhaust)
  have "log_lines st1 = log_lines st" using Load_lines [of "re_sha env" "re_snap env" ctx task st] load by simp
  then show ?thesis using load by (auto simp: editor_Read_def with_draft_def split: sum.splits option.splits prod.splits)
qed

lemma update_fresh: "map_of xs k = None \<Longrightarrow> map_of xs \<subseteq>\<^sub>m map_of (AList.update k v xs)"
  by (auto simp: map_le_def AList.update_conv' dom_def)

lemma delete_fresh: "map_of xs k = None \<Longrightarrow> map_of (AList.delete k (AList.update k v xs)) = map_of xs"
  by (auto simp: AList.delete_conv' AList.update_conv')

lemma dispatched_same: "dispatched key ls (r, ls1) \<Longrightarrow> same_receipts ls ls1"
  by (simp add: dispatched_def kept_def)

lemma command_grows: "receipts_grow ls (snd (handleCommand env rs w task envelope client ls))"
proof (cases rule: handleCommand_cases [of env rs w task envelope client ls])
  case (answered r)
  then show ?thesis by (simp add: remembered_same)
next
  case (stored obj r ls1)
  then show ?thesis by (simp add: receipts_grow_def remembered_def disk_receipts_def saved_form_def update_fresh)
next
  case (unsynced obj r ls1)
  then show ?thesis
    by (simp add: receipts_grow_def remembered_def disk_receipts_def saved_form_def update_fresh delete_fresh)
next
  case (unsaved obj r ls1)
  then show ?thesis using dispatched_same [OF unsaved(2)]
    by (simp add: receipts_grow_def remembered_def disk_receipts_def same_receipts_def delete_fresh)
qed

text \<open>A request other than a command commits nothing and leaves the receipts alone.\<close>

lemma reading_changes_nothing:
  assumes "lr_type q \<noteq> ''command''"
  shows "same_receipts ls (snd (handleAuthorizedForClient env rs w fb q client ls))
    \<and> ls_next (snd (handleAuthorizedForClient env rs w fb q client ls)) = ls_next ls
    \<and> log_lines (ls_store (snd (handleAuthorizedForClient env rs w fb q client ls))) = log_lines (ls_store ls)"
proof -
  let ?quiet = "\<lambda>ls'. same_receipts ls ls' \<and> ls_next ls' = ls_next ls \<and> log_lines (ls_store ls') = log_lines (ls_store ls)"
  have "?quiet (snd (events_request env ctx task n ls))" for ctx task n
    using Load_lines [of "re_sha env" "re_snap env" ctx task "ls_store ls"]
    by (auto simp: events_request_def EventsAfter_def same_receipts_def split: prod.splits sum.splits)
  moreover have "?quiet (snd (snapshot_request env ctx task ls))" for ctx task
    using Load_lines [of "re_sha env" "re_snap env" ctx task "ls_store ls"]
    by (auto simp: snapshot_request_def same_receipts_def split: prod.splits sum.splits)
  moreover have "?quiet (snd (editor_request env rs ctx fa fb task client draft lease ls))" for ctx fa task draft lease
    using editor_Read_lines [of env ctx fa fb task client draft lease "ls_editor ls" "ls_store ls"]
    by (auto simp: editor_request_def same_receipts_def split: prod.splits sum.splits)
  moreover have "?quiet (close_request rs ls)" by (simp add: close_request_def same_receipts_def)
  ultimately show ?thesis
    using assms by (auto simp: handleAuthorizedForClient_def Let_def same_receipts_def split: option.splits sum.splits)
qed

lemma request_effect:
  "(\<exists>task envelope. snd (handleAuthorizedForClient env rs w fb q client ls) = snd (handleCommand env rs w task envelope client ls))
   \<or> same_receipts ls (snd (handleAuthorizedForClient env rs w fb q client ls))
      \<and> ls_next (snd (handleAuthorizedForClient env rs w fb q client ls)) = ls_next ls"
proof (cases "lr_type q = ''command''")
  case True
  show ?thesis
  proof (cases "lr_command q")
    case None
    then show ?thesis using True by (simp add: handleAuthorizedForClient_def)
  next
    case (Some envelope)
    then have "snd (handleAuthorizedForClient env rs w fb q client ls) = snd (handleCommand env rs w (lr_task q) envelope client ls)"
      using True by (simp add: handleAuthorizedForClient_def split: prod.splits)
    then show ?thesis by blast
  qed
qed (use reading_changes_nothing in blast)

lemma start_server_shape:
  "start_server rs st disk = Some ls \<Longrightarrow> ls_disk ls = disk \<and> ls_receipts ls = disk_receipts ls \<and> ls_store ls = st"
  by (auto simp: start_server_def loadState_def disk_receipts_def split: option.splits if_splits)

lemma started_remembers: "start_server rs st disk = Some ls \<Longrightarrow> remembered ls"
  by (drule start_server_shape) (simp add: remembered_def)

lemma step_grows: "receipts_grow ls (server_step env rs op ls)"
proof (cases op)
  case (Command_Op w task envelope client)
  then show ?thesis by (simp add: command_grows)
next
  case (Terminal_Op t)
  then show ?thesis by (auto intro: remembered_same split: prod.splits)
next
  case (Request_Op w fb q client)
  then show ?thesis using request_effect [of env rs w fb q client ls]
    by (auto intro: remembered_same simp: command_grows)
next
  case Restart_Op
  show ?thesis
  proof (cases "start_server rs (ls_store ls) (ls_disk ls)")
    case None
    then show ?thesis by (simp add: Restart_Op remembered_same)
  next
    case (Some ls')
    then have "ls_disk ls' = ls_disk ls" "ls_receipts ls' = disk_receipts ls" "remembered ls'"
      using start_server_shape [OF Some] started_remembers [OF Some] by (simp_all add: disk_receipts_def)
    then show ?thesis using Some by (simp add: Restart_Op receipts_grow_def remembered_def)
  qed
qed

lemma receipts_grow_trans: "receipts_grow s t \<Longrightarrow> receipts_grow t u \<Longrightarrow> receipts_grow s u"
  using map_le_trans by (fastforce simp: receipts_grow_def)

interpretation receipts: monotone_machine "server_step env rs" receipts_grow
  by unfold_locales (auto intro: receipts_grow_trans step_grows remembered_same)

lemma run_remembers: "start_server rs st disk = Some ls \<Longrightarrow> remembered (fold (server_step env rs) ops ls)"
  using receipts.rel_run started_remembers by (fastforce simp: receipts_grow_def)

lemma digest_of_task:
  "task \<noteq> [] \<Longrightarrow> idempotencyDigest env rs ls' task command obj client = idempotencyDigest env rs ls task command obj client"
  by (simp add: idempotencyDigest_def effective_task_def)

text \<open>A command is answered from memory as long as its receipt, or the one of its key, is remembered.\<close>

lemma answered_from_memory:
  assumes "ValidateCommandEnvelope envelope = None" "decode_object (ce_command envelope) = Some obj"
    and "map_of (ls_receipts ls) (ce_key envelope) = Some (d, r)"
  shows "handleCommand env rs w task envelope client ls
    = (if d \<noteq> idempotencyDigest env rs ls task (ce_command envelope) obj client
       then rejectedReceipt (ce_key envelope) ''idempotency_conflict'' else r, ls)"
  using assms by (simp add: handleCommand_def)

lemma not_a_command:
  assumes "ValidateCommandEnvelope envelope \<noteq> None \<or> decode_object (ce_command envelope) = None"
  shows "handleCommand env rs w task envelope client ls
    = (rejectedReceipt (ce_key envelope) ''invalid_command_envelope'', ls)"
  using assms by (auto simp: handleCommand_def Let_def split: option.splits)

text \<open>C15: a command whose state could be saved has an effect once. Whatever happens to the server afterwards, other
  commands and requests, output and end of its terminals, other operations on the store and restarts, the same command sent again by
  the same client under the same task gets the receipt of the first time, and changes nothing.\<close>

theorem repeated_command_has_no_effect:
  assumes "start_server rs st disk = Some ls0" "task \<noteq> []" "wo_saved w = Saved"
    and first: "handleCommand env rs w task envelope client (fold (server_step env rs) ops ls0) = (r, ls1)"
  shows "handleCommand env rs w2 task envelope client (fold (server_step env rs) ops2 ls1)
    = (r, fold (server_step env rs) ops2 ls1)"
proof (cases "ValidateCommandEnvelope envelope = None \<and> decode_object (ce_command envelope) \<noteq> None")
  case False
  then show ?thesis using first by (simp add: not_a_command)
next
  case True
  then obtain obj where obj: "decode_object (ce_command envelope) = Some obj" by blast
  let ?ls = "fold (server_step env rs) ops ls0" and ?later = "fold (server_step env rs) ops2 ls1"
  let ?dig = "\<lambda>ls. idempotencyDigest env rs ls task (ce_command envelope) obj client"
  have "\<exists>d r'. map_of (ls_receipts ls1) (ce_key envelope) = Some (d, r')
    \<and> r = (if d \<noteq> ?dig ls1 then rejectedReceipt (ce_key envelope) ''idempotency_conflict'' else r')"
  proof (cases "map_of (ls_receipts ?ls) (ce_key envelope)")
    case (Some x)
    obtain d r' where "x = (d, r')" by (rule prod.exhaust)
    then show ?thesis using True obj Some first answered_from_memory [of envelope obj ?ls d r' env rs w task client]
      by auto
  next
    case None
    from first show ?thesis
    proof (cases rule: handleCommand_cases [of env rs w task envelope client ?ls])
      case (answered r')
      then show ?thesis using True None by simp
    next
      case (stored obj' r' ls')
      then show ?thesis using first obj digest_of_task [OF assms(2), of env rs ls1 "ce_command envelope" obj client ?ls]
        by (auto simp: AList.update_conv')
    qed (use assms(3) in simp_all)
  qed
  then obtain d r' where m: "map_of (ls_receipts ls1) (ce_key envelope) = Some (d, r')"
    and r: "r = (if d \<noteq> ?dig ls1 then rejectedReceipt (ce_key envelope) ''idempotency_conflict'' else r')" by blast
  have "remembered ls1"
    using command_grows [of ?ls env rs w task envelope client] run_remembers [OF assms(1), of env ops] first
    by (simp add: receipts_grow_def)
  then have "map_of (ls_receipts ls1) \<subseteq>\<^sub>m map_of (ls_receipts ?later)"
    using receipts.rel_run by (fastforce simp: receipts_grow_def)
  then have "map_of (ls_receipts ?later) (ce_key envelope) = Some (d, r')"
    using m by (metis domI map_le_def)
  then show ?thesis
    using True obj r digest_of_task [OF assms(2), of env rs ?later "ce_command envelope" obj client ls1]
    by (simp add: answered_from_memory)
qed

section \<open>What is saved can be loaded\<close>

text \<open>What a server has in memory or on disk passes the checks of \<open>loadState\<close>; the number of the next task is at most \<open>n\<close>.\<close>

definition good_receipts :: "receipts \<Rightarrow> bool" where
  "good_receipts rc \<longleftrightarrow> list_all (\<lambda>(key, x). valid_stored key x) rc"

definition loadable :: "runtime_server \<Rightarrow> int \<Rightarrow> local_server \<Rightarrow> bool" where
  "loadable rs n ls \<longleftrightarrow> 0 \<le> ls_next ls \<and> ls_next ls \<le> n \<and> good_receipts (ls_receipts ls)
     \<and> (case ls_disk ls of None \<Rightarrow> True | Some s \<Rightarrow>
          ss_runtime s = sm_runtime (rs_source rs) \<and> 0 \<le> ss_next s \<and> ss_next s \<le> n \<and> good_receipts (ss_receipts s))"

lemma good_update: "good_receipts rc \<Longrightarrow> valid_stored k x \<Longrightarrow> good_receipts (AList.update k x rc)"
  unfolding good_receipts_def by (induction rc) auto

lemma good_delete: "good_receipts rc \<Longrightarrow> good_receipts (AList.delete k rc)"
  unfolding good_receipts_def by (induction rc) auto

lemma good_delete_update: "good_receipts rc \<Longrightarrow> good_receipts (AList.delete k (AList.update k v rc))"
  using good_delete unfolding good_receipts_def by (induction rc) auto

lemma pause_envelope: "ValidateCommandEnvelope \<lparr>ce_key = key, ce_command = pause_command\<rparr> = (if validText key then None else Some Invalid_Command_Envelope)"
proof -
  have "TrimSpace pause_command \<noteq> []" by code_simp
  moreover have "(case decode_object pause_command of None \<Rightarrow> False | Some obj \<Rightarrow> valid_command obj)" by code_simp
  ultimately show ?thesis by (simp add: ValidateCommandEnvelope_def split: option.splits)
qed

lemma command_key: "ValidateCommandEnvelope envelope = None \<Longrightarrow> validText (ce_key envelope)"
  by (auto simp: ValidateCommandEnvelope_def split: if_splits)

lemma valid_receipt:
  assumes "validText key" "length d = 64" "dispatched key ls (r, ls1)"
  shows "valid_stored key (d, r)"
  using assms by (auto simp: valid_stored_def ValidateCommandReceipt_def pause_envelope dispatched_def
    acceptedReceipt_def rejectedReceipt_def)

lemma next_number: "0 \<le> n \<Longrightarrow> n < m \<Longrightarrow> m < 2 ^ 63 \<Longrightarrow> wrap64 (n + 1) = n + 1"
  by (simp add: wrap64_def)

lemma dispatched_loadable:
  assumes "dispatched key ls (r, ls1)" "loadable rs n ls" "n + 1 < 2 ^ 63"
  shows "loadable rs (n + 1) ls1"
proof -
  have "wrap64 (ls_next ls + 1) = ls_next ls + 1" using assms(2,3) by (intro next_number [of _ "n + 1"]) (auto simp: loadable_def)
  then show ?thesis using assms(1,2) by (auto simp: dispatched_def kept_def same_receipts_def loadable_def split: option.splits)
qed

lemma loadable_saved:
  "loadable rs n ls \<Longrightarrow> good_receipts rc \<Longrightarrow> good_receipts rc'
     \<Longrightarrow> loadable rs n (ls\<lparr>ls_receipts := rc, ls_disk := Some (saved_form rs (ls\<lparr>ls_receipts := rc'\<rparr>))\<rparr>)"
  by (simp add: loadable_def saved_form_def)

lemma command_loadable:
  assumes "\<And>x. length (re_sha env x) = 64" "loadable rs n ls" "n + 1 < 2 ^ 63"
  shows "loadable rs (n + 1) (snd (handleCommand env rs w task envelope client ls))"
proof -
  have digest: "length (idempotencyDigest env rs ls task (ce_command envelope) obj client) = 64" for obj
    by (simp add: idempotencyDigest_def assms(1))
  have rc: "good_receipts (ls_receipts ls)" using assms(2) by (simp add: loadable_def)
  have key: "validText (ce_key envelope)" if "ValidateCommandEnvelope envelope = None" using that by (rule command_key)
  show ?thesis
  proof (cases rule: handleCommand_cases [of env rs w task envelope client ls])
    case (answered r)
    then show ?thesis using assms(2) by (auto simp: loadable_def split: option.splits)
  next
    case (stored obj r ls1)
    have "loadable rs (n + 1) ls1" using dispatched_loadable stored(2) assms(2,3) by blast
    moreover have "valid_stored (ce_key envelope)
        (idempotencyDigest env rs ls task (ce_command envelope) obj client, r)"
      using valid_receipt digest key [OF stored(3)] stored(2) by blast
    ultimately show ?thesis using stored(7) rc by (simp add: loadable_saved good_update)
  next
    case (unsynced obj r ls1)
    have "loadable rs (n + 1) ls1" using dispatched_loadable unsynced(2) assms(2,3) by blast
    moreover have "valid_stored (ce_key envelope)
        (idempotencyDigest env rs ls task (ce_command envelope) obj client, r)"
      using valid_receipt digest key [OF unsynced(3)] unsynced(2) by blast
    ultimately show ?thesis using unsynced(6) rc by (simp add: loadable_saved good_update good_delete)
  next
    case (unsaved obj r ls1)
    have "loadable rs (n + 1) ls1" using dispatched_loadable unsaved(2) assms(2,3) by blast
    then show ?thesis using unsaved(5) rc good_delete_update by (simp add: loadable_def)
  qed
qed

lemma start_loadable:
  "start_server rs st disk = Some ls \<Longrightarrow> loadable rs (ls_next ls) ls"
  by (auto simp: start_server_def loadState_def loadable_def good_receipts_def split: option.splits if_splits)

lemma loadable_more: "loadable rs n ls \<Longrightarrow> n \<le> m \<Longrightarrow> loadable rs m ls"
  by (auto simp: loadable_def split: option.splits)

lemma loadable_loads:
  "loadable rs n ls \<Longrightarrow> loadState rs (ls_disk ls) \<noteq> None"
  by (auto simp: loadable_def loadState_def good_receipts_def split: option.splits)

lemma restart_loadable:
  assumes "loadable rs n ls" "start_server rs st (ls_disk ls) = Some ls'"
  shows "loadable rs n ls'"
proof -
  have "ls_next ls' \<le> n"
    using assms by (auto simp: start_server_def loadState_def loadable_def split: option.splits if_splits)
  then show ?thesis using start_loadable [OF assms(2)] loadable_more by blast
qed

lemma step_loadable:
  assumes "\<And>x. length (re_sha env x) = 64" "loadable rs n ls" "n + 1 < 2 ^ 63"
  shows "loadable rs (n + 1) (server_step env rs op ls)"
proof (cases op)
  case (Command_Op w task envelope client)
  then show ?thesis using command_loadable [OF assms] by simp
next
  case (Request_Op w fb q client)
  have "loadable rs (n + 1) ls'" if "same_receipts ls ls'" "ls_next ls' = ls_next ls" for ls'
    using that loadable_more [OF assms(2), of "n + 1"] by (auto simp: loadable_def same_receipts_def split: option.splits)
  then show ?thesis using request_effect [of env rs w fb q client ls] command_loadable [OF assms] Request_Op by auto
next
  case Restart_Op
  then show ?thesis using restart_loadable [OF assms(2)] loadable_more [OF assms(2)] loadable_more
    by (fastforce split: option.splits)
qed (use loadable_more [OF assms(2), of "n + 1"] in \<open>auto simp: loadable_def split: prod.splits option.splits\<close>)

lemma run_loadable:
  assumes "\<And>x. length (re_sha env x) = 64"
  shows "loadable rs n ls \<Longrightarrow> n + int (length ops) < 2 ^ 63
    \<Longrightarrow> loadable rs (n + int (length ops)) (fold (server_step env rs) ops ls)"
proof (induction ops arbitrary: n ls)
  case Nil
  then show ?case by simp
next
  case (Cons op ops)
  then have "loadable rs (n + 1) (server_step env rs op ls)" using step_loadable [OF assms] by simp
  then show ?case using Cons.IH [of "n + 1"] Cons.prems(2) by (simp add: algebra_simps)
qed

text \<open>C16: whatever a server goes through, failed saves included, its state file can be loaded, as long as the task
  numbers do not reach the bound of an \<open>int\<close>: a restart succeeds, on the same store and the same file, and the new
  server knows every receipt the old one remembers.\<close>

theorem saved_state_reloads:
  assumes "\<And>x. length (re_sha env x) = 64" "start_server rs st disk = Some ls0"
    and "ls_next ls0 + int (length ops) < 2 ^ 63" "ls = fold (server_step env rs) ops ls0"
  shows "\<exists>ls'. start_server rs (ls_store ls) (ls_disk ls) = Some ls' \<and> ls_disk ls' = ls_disk ls
    \<and> ls_store ls' = ls_store ls \<and> map_of (ls_receipts ls) \<subseteq>\<^sub>m map_of (ls_receipts ls')"
proof -
  have "loadable rs (ls_next ls0 + int (length ops)) ls"
    using run_loadable [OF assms(1) start_loadable [OF assms(2)] assms(3)] assms(4) by simp
  then obtain ls' where ls': "start_server rs (ls_store ls) (ls_disk ls) = Some ls'"
    using loadable_loads by (fastforce simp: start_server_def)
  moreover have "remembered ls" using run_remembers [OF assms(2)] assms(4) by simp
  ultimately show ?thesis using start_server_shape [OF ls'] by (auto simp: remembered_def disk_receipts_def)
qed

section \<open>A save that fails\<close>

text \<open>The command has run, the client is told that it was rejected, and the key is forgotten: sent again, the command
  runs again.\<close>

lemma failed_save_is_forgotten:
  assumes "ValidateCommandEnvelope envelope = None" "decode_object (ce_command envelope) = Some obj"
    and "map_of (ls_receipts ls) (ce_key envelope) = None" "wo_saved w = Not_Saved"
    and "dispatchCommand env rs w task (ce_key envelope) obj client ls = (r, ls1)"
  shows "\<exists>ls2. handleCommand env rs w task envelope client ls
      = (rejectedReceipt (ce_key envelope) ''persistence_failed'', ls2)
    \<and> ls_store ls2 = ls_store ls1 \<and> map_of (ls_receipts ls2) (ce_key envelope) = None"
  using assms by (simp add: handleCommand_def Let_def saveState_def AList.delete_conv' AList.update_conv')

text \<open>When only the directory could not be synced, the file already holds the receipt: the client is told that the
  command was rejected, and after a restart the same command gets the receipt of the dispatch.\<close>

lemma unsynced_save_comes_back:
  assumes "ValidateCommandEnvelope envelope = None" "decode_object (ce_command envelope) = Some obj"
    and "map_of (ls_receipts ls) (ce_key envelope) = None" "wo_saved w = Saved_Not_Synced" "task \<noteq> []"
    and "dispatchCommand env rs w task (ce_key envelope) obj client ls = (r, ls1)"
    and "handleCommand env rs w task envelope client ls = (r2, ls2)"
    and "start_server rs (ls_store ls2) (ls_disk ls2) = Some ls3"
  shows "r2 = rejectedReceipt (ce_key envelope) ''persistence_failed''"
    and "handleCommand env rs w2 task envelope client ls3 = (r, ls3)"
proof -
  have h: "r2 = rejectedReceipt (ce_key envelope) ''persistence_failed''"
    "map_of (disk_receipts ls2) (ce_key envelope)
       = Some (idempotencyDigest env rs ls task (ce_command envelope) obj client, r)"
    using assms(1-4,6,7)
    by (auto simp: handleCommand_def Let_def saveState_def disk_receipts_def saved_form_def AList.update_conv')
  then show "r2 = rejectedReceipt (ce_key envelope) ''persistence_failed''" by blast
  have "map_of (ls_receipts ls3) (ce_key envelope)
      = Some (idempotencyDigest env rs ls3 task (ce_command envelope) obj client, r)"
    using h(2) start_server_shape [OF assms(8)] digest_of_task [OF assms(5)] by (metis disk_receipts_def)
  then show "handleCommand env rs w2 task envelope client ls3 = (r, ls3)"
    using assms(1,2) by (simp add: answered_from_memory)
qed

end
