(* ===== verification/Runtime_Witnesses.thy ===== *)
theory Runtime_Witnesses
  imports Service_Witnesses Authority_Properties Editor_Properties Server_Properties
begin

text \<open>
  Runs of the runtime server on which its promises apply: a scope is confirmed and control taken; then a
  terminal is opened, or a draft is opened, saved and applied. SHA-256 is the identity, so a text of 64
  hexadecimal digits is its own digest.
\<close>

section \<open>Logs of events committed one by one\<close>

abbreviation sample_load :: "store \<Rightarrow> store_error + event list \<times> product_state" where
  "sample_load st \<equiv> fst (Load (\<lambda>s. s) (\<lambda>s. s) None ''t'' st)"

definition commit_op :: "event \<Rightarrow> store_op" where
  "commit_op e = Commit_Op Appended None \<lparr>de_task = ''t'', de_type = e_type e, de_time = ''2026-01-01T00:00:00Z'',
     de_source = e_source e, de_payload = Some (e_payload e)\<rparr> []"

lemma commit_loads:
  assumes load: "sample_load (interleave sample_env ops Map.empty) = Inr (es, s)"
    and event: "e = sample_event n agent t p"
    and e: "storable_event e" "n = ps_cursor s + 1" "\<not> list_ex (\<lambda>x. e_id x = e_id e) es"
    and project: "rejectEvidenceMutation s e = None" "Project s e = Inr (Projection_Applied s')"
  shows "sample_load (interleave sample_env (ops @ [commit_op e]) Map.empty) = Inr (es @ [e], s')"
proof -
  let ?st = "fold (store_step (\<lambda>s. s) (\<lambda>s. s)) ops Map.empty"
  have load': "fst (Load (\<lambda>s. s) (\<lambda>s. s) None (e_task e) ?st) = Inr (es, s)"
    using load event by (simp add: sample_interleave)
  have "fst (Commit (\<lambda>s. s) (\<lambda>s. s) Appended None \<lparr>de_task = e_task e, de_type = e_type e, de_time = e_time e,
    de_source = e_source e, de_payload = Some (e_payload e)\<rparr> [] ?st) = Inr (e, s')"
    by (rule Commit_accepted [OF load']) (use e project event in simp_all)
  then obtain st' where c: "Commit (\<lambda>s. s) (\<lambda>s. s) Appended None \<lparr>de_task = e_task e, de_type = e_type e,
    de_time = e_time e, de_source = e_source e, de_payload = Some (e_payload e)\<rparr> [] ?st = (Inr (e, s'), st')"
    by (metis prod.collapse)
  from sound_run c have "fst (Load (\<lambda>s. s) (\<lambda>s. s) None (e_task e) st') = Inr (es @ [e], s')"
  proof (cases rule: Commit_success)
    case (1 d es0 s0)
    then show ?thesis using load' by auto
  qed
  then show ?thesis using c event by (simp add: sample_interleave commit_op_def)
qed

section \<open>A scope and a lease\<close>

definition work_scope :: scope_snapshot where
  "work_scope = \<lparr>sc_id = ''s'', sc_principal = ''p'', sc_workspace = ''/w'', sc_validity = ''task'', sc_targets = [''/w''],
     sc_allowed = [''terminal.open'', ''editor.open'', ''editor.write''], sc_denied = [], sc_ceiling = ''low''\<rparr>"

definition confirmed_event :: event where
  "confirmed_event = sample_event 1 [] ''scope.confirmed''
     [(''scope'', JObj [(''allowedActions'', JArr [JStr ''terminal.open'', JStr ''editor.open'', JStr ''editor.write'']),
       (''deniedActions'', JArr []), (''id'', JStr ''s''), (''principal'', JStr ''p''), (''riskCeiling'', JStr ''low''),
       (''targets'', JArr [JStr ''/w'']), (''validity'', JStr ''task''), (''workspace'', JStr ''/w'')])]"

definition leased_event :: event where
  "leased_event = sample_event 2 [] ''control.acquired''
     [(''lease'', JObj [(''clientId'', JStr ''w''), (''revision'', JNum ''1'')])]"

lemmas storable_eval =
  storable_event_def well_formed_event_def sample_event_def example_event_def SchemaVersion_def max_safe_integer_def
  example_time known_event_types_def EventKindKnown_def rule_defs object_with_def has_string_def non_empty_string_def
  get_def sorted_keys_def string_with_def generatedEventID_def is_string_slice_def integer_with_def is_number_def
  safe_integer_def literal_eval exact_keys_def has_auditable_string_def runes_def IsControl_def

lemma work_storable: "storable_event confirmed_event" "storable_event leased_event"
  by (simp_all add: confirmed_event_def leased_event_def storable_eval valid_scope_def valid_lease_def)

lemma work_payloads:
  "payload confirmed_event ''scope'' dec_scope no_scope = Some work_scope"
  "payload leased_event ''lease'' dec_lease no_lease = Some \<lparr>cl_client = ''w'', cl_revision = 1\<rparr>"
  by (simp_all add: confirmed_event_def leased_event_def work_scope_def payload_eval dec_scope_def no_scope_def
      dec_lease_def no_lease_def)

lemma work_canons:
  obtains c1 c2 where "canon_event confirmed_event = Some c1" "canon_event leased_event = Some c2"
proof -
  have "\<exists>x. canon_event confirmed_event = Some x" "\<exists>x. canon_event leased_event = Some x"
    unfolding confirmed_event_def leased_event_def by (rule sample_canon; simp add: literal_eval)+
  then show thesis using that by blast
qed

lemma work_fields:
  "e_type confirmed_event = ''scope.confirmed''" "e_cursor confirmed_event = 1" "e_kind confirmed_event = ''known''"
  "e_type leased_event = ''control.acquired''" "e_cursor leased_event = 2" "e_kind leased_event = ''known''"
  by (simp_all add: confirmed_event_def leased_event_def)

lemma digit_eval:
  "digits 2 = ''2''" "digits 3 = ''3''" "digits 4 = ''4''" "digits 5 = ''5''" "digits 10 = ''10''" "digits 24 = ''24''"
  "digits 64 = ''64''" "digits 80 = ''80''"
  by code_simp+

lemmas id_eval = generatedEventID_def json_int_def int_text_def digit_one digit_eval

lemma work_ids: "e_id leased_event \<noteq> e_id confirmed_event" "e_id confirmed_event \<noteq> e_id leased_event"
  by (simp_all add: leased_event_def confirmed_event_def id_eval)

definition scoped_state :: product_state where
  "scoped_state = product_step confirmed_event Initial"

definition leased_state :: product_state where
  "leased_state = product_step leased_event scoped_state"

lemma scoped:
  "Project Initial confirmed_event = Inr (Projection_Applied scoped_state)" "ps_cursor scoped_state = 1"
  "ps_scope scoped_state = Some work_scope"
  by (rule work_canons, simp add: project_eval work_fields apply_scope_def work_payloads scoped_state_def)+

lemma leased:
  "Project scoped_state leased_event = Inr (Projection_Applied leased_state)" "ps_cursor leased_state = 2"
  "ps_scope leased_state = Some work_scope" "ps_lease leased_state = Some \<lparr>cl_client = ''w'', cl_revision = 1\<rparr>"
  by (rule work_canons, simp add: project_eval work_fields apply_scope_def apply_control_def work_payloads scoped_state_def
      leased_state_def decoded_def work_ids)+

abbreviation work_ops :: "store_op list" where
  "work_ops \<equiv> [commit_op confirmed_event, commit_op leased_event]"

lemma work_load: "sample_load (interleave sample_env work_ops Map.empty) = Inr ([confirmed_event, leased_event], leased_state)"
proof -
  have "sample_load (interleave sample_env [] Map.empty) = Inr ([], Initial)"
    using empty_loads by (auto simp: sample_interleave)
  then have "sample_load (interleave sample_env ([] @ [commit_op confirmed_event]) Map.empty) = Inr ([] @ [confirmed_event], scoped_state)"
    by (rule commit_loads [OF _ confirmed_event_def])
      (use scoped(1) work_storable(1) in \<open>simp_all add: work_fields Initial_def rejectEvidenceMutation_def\<close>)
  then have "sample_load (interleave sample_env (([] @ [commit_op confirmed_event]) @ [commit_op leased_event]) Map.empty)
      = Inr (([] @ [confirmed_event]) @ [leased_event], leased_state)"
    by (rule commit_loads [OF _ leased_event_def])
      (use leased(1) scoped(2) work_storable(2) in \<open>simp_all add: work_ids work_fields rejectEvidenceMutation_def\<close>)
  then show ?thesis by simp
qed

lemma work_confirmed: "scopeWasConfirmed [confirmed_event, leased_event] ''s''"
  by (simp add: scopeWasConfirmed_def work_fields work_payloads work_scope_def)

section \<open>A terminal\<close>

definition work_server :: runtime_server where
  "work_server = \<lparr>rs_service = sample_service, rs_role = ''operator'', rs_workspace = ''/w'',
     rs_source = \<lparr>sm_mode = Mode_Local, sm_runtime = ''r'', sm_principal = ''p'',
       sm_capabilities = Some [''terminal.input'', ''editor.read'', ''editor.write'']\<rparr>,
     rs_prefix = ''task-'', rs_profiles = [(''sh'', \<lparr>pf_id = ''sh'', pf_action = ''terminal.open'', pf_risk = ''low'',
       pf_approval = False, pf_program = ''/bin/sh'', pf_arguments = []\<rparr>)], rs_terminals = True, rs_editor = True\<rparr>"

definition open_shell :: terminal_open_command where
  "open_shell = \<lparr>to_session = ''x'', to_profile = ''sh'', to_directory = ''/w'', to_scope = ''s'', to_columns = 80, to_rows = 24,
     to_limit = 10, to_revision = 1\<rparr>"

abbreviation work_store :: store where
  "work_store \<equiv> interleave sample_env work_ops Map.empty"

lemma work_loaded:
  obtains st where "Load (\<lambda>s. s) (\<lambda>s. s) None ''t'' work_store = (Inr ([confirmed_event, leased_event], leased_state), st)"
    "sample_load st = Inr ([confirmed_event, leased_event], leased_state)"
proof -
  obtain st where st: "Load (\<lambda>s. s) (\<lambda>s. s) None ''t'' work_store = (Inr ([confirmed_event, leased_event], leased_state), st)"
    using work_load by (metis prod.collapse)
  moreover have "sample_load st = sample_load work_store"
    using Load_cong [OF Load_lines [of "\<lambda>s. s" "\<lambda>s. s" None "''t''" work_store], of "\<lambda>s. s" "\<lambda>s. s" "''t''"] st by simp
  ultimately show ?thesis using that work_load by simp
qed

lemma env_simps [simp]: "re_sha sample_env = (\<lambda>s. s)" "re_snap sample_env = (\<lambda>s. s)" "ca_ctx sample_call = None" "ca_stop sample_call = None"
  "ca_others sample_call = []" "interleave env [] st = st"
  by (simp_all add: sample_env_def sample_call_def interleave_def)

lemma shell_place: "pathWithinWorkspace sample_os sample_os ''/w'' ''/w''"
  by code_simp

lemma shell_allowed: "scopeAllows work_scope ''terminal.open'' ''/w'' ''low''" "scopeAllows work_scope ''editor.write'' ''/w'' ''low''"
  by (simp_all add: scopeAllows_def work_scope_def risk_levels_def)

lemma shell_authorized:
  "\<exists>st. authorizeTerminalOpen sample_env work_server sample_os sample_os [] None ''t'' ''w'' open_shell work_store = (None, st)"
proof -
  obtain st where st: "Load (\<lambda>s. s) (\<lambda>s. s) None ''t'' work_store = (Inr ([confirmed_event, leased_event], leased_state), st)"
    by (rule work_loaded)
  have "sc_id work_scope = ''s''" "sc_workspace work_scope = ''/w''" by (simp_all add: work_scope_def)
  then show ?thesis
    using leased(3,4) work_confirmed shell_place shell_allowed
    by (simp add: authorizeTerminalOpen_def st authorize_loaded_def open_shell_def work_server_def has_capability_def strings_def)
qed

theorem terminal_open_is_authorized_witness:
  "\<exists>es s profile. fst (Load (\<lambda>s. s) (\<lambda>s. s) None ''t'' work_store) = Inr (es, s) \<and> scopeWasConfirmed es ''s''
    \<and> ps_lease s = Some \<lparr>cl_client = ''w'', cl_revision = 1\<rparr> \<and> map_of (rs_profiles work_server) ''sh'' = Some profile"
proof -
  obtain st where st: "authorizeTerminalOpen sample_env work_server sample_os sample_os [] None ''t'' ''w'' open_shell work_store
    = (None, st)" using shell_authorized by blast
  have c: "to_scope open_shell = ''s''" "to_revision open_shell = 1" "to_profile open_shell = ''sh''"
    by (simp_all add: open_shell_def)
  show ?thesis using terminal_open_is_authorized [OF st sample_os_ok sample_os_ok] c by auto
qed

definition shell_event :: event where
  "shell_event = sample_event 3 [] ''terminal.opened''
     [(''session'', JObj [(''columns'', JNum ''80''), (''id'', JStr ''x''), (''leaseRevision'', JNum ''1''),
       (''outputLimitBytes'', JNum ''10''), (''ownerClientId'', JStr ''w''), (''processId'', JStr ''1''),
       (''profileId'', JStr ''sh''), (''rows'', JNum ''24''), (''scopeId'', JStr ''s''),
       (''workingDirectory'', JStr ''/w'')])]"

definition typed :: string where
  "typed = ''aaaaaaaaaaaaaaaaaaaaaaaaaaaaaaaaaaaaaaaaaaaaaaaaaaaaaaaaaaaaaaaa''"

definition typed_event :: event where
  "typed_event = sample_event 4 [] ''terminal.input.accepted''
     [(''byteLength'', JNum ''64''), (''sequence'', JNum ''1''), (''sessionId'', JStr ''x''), (''sha256'', JStr typed)]"

lemma typed_digest: "valid_sha256 typed" "length typed = 64"
  by (simp_all add: valid_sha256_def typed_def runes_def)

lemma shell_storable: "storable_event shell_event" "storable_event typed_event"
proof -
  show "storable_event shell_event"
    by (simp add: shell_event_def storable_eval valid_terminal_session_def valid_terminal_identifier_def
        valid_terminal_dimension_def)
  show "storable_event typed_event"
    using typed_digest(1) by (simp add: typed_event_def storable_eval positive_up_to_1m_def)
qed

definition shell_session :: terminal_session where
  "shell_session = \<lparr>ts_id = ''x'', ts_profile = ''sh'', ts_process = ''1'', ts_directory = ''/w'', ts_scope = ''s'',
     ts_owner = ''w'', ts_lease = 1, ts_columns = 80, ts_rows = 24, ts_limit = 10, ts_bytes = 0, ts_next_input = 0,
     ts_next_output = 0, ts_status = [], ts_output = [], ts_exit_code = None, ts_exit_reason = []\<rparr>"

lemma shell_payloads:
  "payload shell_event ''session'' dec_session no_session = Some shell_session"
  "p_string typed_event ''sessionId'' = Some ''x''" "p_int typed_event ''sequence'' = Some 1"
  by (simp_all add: shell_event_def typed_event_def shell_session_def payload_eval dec_session_def no_session_def)

lemma shell_canons:
  obtains c1 c2 where "canon_event shell_event = Some c1" "canon_event typed_event = Some c2"
proof -
  have "\<exists>x. canon_event shell_event = Some x" "\<exists>x. canon_event typed_event = Some x"
    unfolding shell_event_def typed_event_def by (rule sample_canon; simp add: literal_eval)+
  then show thesis using that by blast
qed

lemma shell_fields:
  "e_type shell_event = ''terminal.opened''" "e_cursor shell_event = 3" "e_kind shell_event = ''known''"
  "e_type typed_event = ''terminal.input.accepted''" "e_cursor typed_event = 4" "e_kind typed_event = ''known''"
  by (simp_all add: shell_event_def typed_event_def)

lemma shell_ids: "e_id shell_event \<noteq> e_id confirmed_event" "e_id shell_event \<noteq> e_id leased_event"
  "e_id typed_event \<noteq> e_id confirmed_event" "e_id typed_event \<noteq> e_id leased_event" "e_id typed_event \<noteq> e_id shell_event"
  by (simp_all add: leased_event_def confirmed_event_def shell_event_def typed_event_def id_eval)

definition shell_state :: product_state where
  "shell_state = product_step shell_event leased_state"

definition typed_state :: product_state where
  "typed_state = product_step typed_event shell_state"

lemmas work_eval =
  project_eval work_fields apply_scope_def apply_control_def work_payloads scoped_state_def leased_state_def decoded_def
  work_ids work_ids [symmetric]

lemmas shell_eval =
  work_eval shell_fields shell_payloads terminal_defs put_terminal_def open_session_def shell_ids shell_ids [symmetric]
  shell_state_def typed_state_def shell_session_def

lemma shelled:
  "Project leased_state shell_event = Inr (Projection_Applied shell_state)" "ps_cursor shell_state = 3"
  "ps_scope shell_state = Some work_scope" "ps_lease shell_state = Some \<lparr>cl_client = ''w'', cl_revision = 1\<rparr>"
  by (rule work_canons, rule shell_canons, simp add: shell_eval)+

lemma typed_applied: "Project shell_state typed_event = Inr (Projection_Applied typed_state)"
  by (rule work_canons, rule shell_canons, simp add: shell_eval)

text \<open>What an emission commits on a log that is loaded.\<close>

lemma sample_emits:
  assumes "sample_load st = Inr (es, s)" "e = sample_event n [] t p"
    and "storable_event e" "n = ps_cursor s + 1" "\<not> list_ex (\<lambda>x. e_id x = e_id e) es"
    and "rejectEvidenceMutation s e = None" "Project s e = Inr (Projection_Applied s')"
  obtains st' where "emit_later sample_env sample_service sample_call ''t'' t (JObj p) no_source st = (Inr e, st')"
proof -
  have "no_source\<lparr>es_agent := []\<rparr> = no_source" by (simp add: no_source_def)
  then show ?thesis
    using sample_emitted [OF assms(1), of n "[]" t p s'] assms that by (auto simp: emit_later_def)
qed

lemma shell_opened:
  obtains st where "terminal_Open sample_env sample_service sample_call (Some ''1'') ''t'' ''w'' open_shell
      (NewTerminalManager, work_store)
    = (None, (put_managed ''x'' (managed_session ''t'' ''w'' open_shell) NewTerminalManager)\<lparr>tm_used := {''x''}\<rparr>, st)"
proof -
  obtain st where "emit_later sample_env sample_service sample_call ''t'' ''terminal.opened''
      (JObj [(''session'', JObj [(''columns'', JNum ''80''), (''id'', JStr ''x''), (''leaseRevision'', JNum ''1''),
       (''outputLimitBytes'', JNum ''10''), (''ownerClientId'', JStr ''w''), (''processId'', JStr ''1''),
       (''profileId'', JStr ''sh''), (''rows'', JNum ''24''), (''scopeId'', JStr ''s''),
       (''workingDirectory'', JStr ''/w'')])]) no_source work_store = (Inr shell_event, st)"
    by (rule sample_emits [OF work_load shell_event_def])
      (use shelled(1) leased(2) shell_storable(1) shell_ids in \<open>simp_all add: shell_fields rejectEvidenceMutation_def\<close>)
  then show ?thesis
    using that by (simp add: terminal_Open_def NewTerminalManager_def open_shell_def object_def json_object_def id_eval)
qed

theorem session_opened_once_witness:
  "fst (terminal_Open sample_env sample_service sample_call (Some ''2'') ''t'' ''v'' open_shell
     (fold (terminal_step sample_env sample_service) [Close_Op]
       (snd (terminal_Open sample_env sample_service sample_call (Some ''1'') ''t'' ''w'' open_shell (NewTerminalManager, work_store)))))
   = Some ErrTerminalSessionExists"
proof -
  obtain m where m: "terminal_Open sample_env sample_service sample_call (Some ''1'') ''t'' ''w'' open_shell
    (NewTerminalManager, work_store) = (None, m)" using shell_opened by blast
  show ?thesis unfolding m snd_conv by (simp only: session_opened_once [OF m refl] fst_conv)
qed

lemma commit_limit: "mt_limit (fst (commitOutput env sv ca sid data t st)) = mt_limit t"
  by (auto simp: commitOutput_def emitOutputLocked_def stopped_def Let_def split: prod.splits sum.splits)

theorem terminal_output_bounded_witness:
  "\<exists>t. tm_sessions (fst (fold (terminal_step sample_env sample_service)
       [Open_Op sample_call (Some ''1'') ''t'' ''w'' open_shell, Output_Op sample_call ''x'' ''hello, world'']
       (NewTerminalManager, work_store))) ''x'' = Some t \<and> mt_limit t = 10 \<and> mt_received t \<le> 10 \<and> mt_emitted t \<le> mt_received t"
proof -
  let ?ops = "[Open_Op sample_call (Some ''1'') ''t'' ''w'' open_shell, Output_Op sample_call ''x'' ''hello, world'']"
  obtain st where m: "terminal_Open sample_env sample_service sample_call (Some ''1'') ''t'' ''w'' open_shell
      (NewTerminalManager, work_store)
    = (None, (put_managed ''x'' (managed_session ''t'' ''w'' open_shell) NewTerminalManager)\<lparr>tm_used := {''x''}\<rparr>, st)"
    by (rule shell_opened)
  let ?t = "fst (commitOutput sample_env sample_service sample_call ''x'' ''hello, world'' (managed_session ''t'' ''w'' open_shell) st)"
  have t: "tm_sessions (fst (fold (terminal_step sample_env sample_service) ?ops (NewTerminalManager, work_store))) ''x'' = Some ?t"
    using m by (simp add: on_session_def put_managed_def split: prod.splits)
  have l: "mt_limit ?t = 10" by (simp add: commit_limit managed_session_def open_shell_def)
  show ?thesis using terminal_output_bounded [OF t] t l by auto
qed

section \<open>Input\<close>

definition type_text :: terminal_input_command where
  "type_text = \<lparr>ti_session = ''x'', ti_sequence = 1, ti_data = base64_encode typed, ti_length = 64, ti_revision = 1\<rparr>"

definition shell_manager :: terminal_manager where
  "shell_manager = put_managed ''x'' (managed_session ''t'' ''w'' open_shell) NewTerminalManager"

abbreviation shell_store :: store where
  "shell_store \<equiv> interleave sample_env (work_ops @ [commit_op shell_event]) Map.empty"

lemma shell_load: "sample_load shell_store = Inr ([confirmed_event, leased_event] @ [shell_event], shell_state)"
  by (rule commit_loads [OF work_load shell_event_def])
    (use shelled(1) leased(2) shell_storable(1) shell_ids in \<open>simp_all add: shell_fields rejectEvidenceMutation_def\<close>)

lemma shell_confirmed: "scopeWasConfirmed [confirmed_event, leased_event, shell_event] ''s''"
  by (simp add: scopeWasConfirmed_def work_fields shell_fields work_payloads work_scope_def)

lemma text_typed:
  "\<exists>tm st. terminal_Input sample_env sample_service sample_call Wrote_All ''t'' ''w'' type_text (shell_manager, shell_store)
    = (None, (tm, st)) \<and> map_option mt_written (tm_sessions tm ''x'') = Some typed"
proof -
  let ?es = "[confirmed_event, leased_event] @ [shell_event]"
  obtain st where st: "Load (\<lambda>s. s) (\<lambda>s. s) None ''t'' shell_store = (Inr (?es, shell_state), st)"
    using shell_load by (metis prod.collapse)
  have load: "sample_load st = Inr (?es, shell_state)"
    using Load_cong [OF Load_lines [of "\<lambda>s. s" "\<lambda>s. s" None "''t''" shell_store], of "\<lambda>s. s" "\<lambda>s. s" "''t''"] st shell_load
    by simp
  obtain st' where "emit_later sample_env sample_service sample_call ''t'' ''terminal.input.accepted''
      (JObj [(''byteLength'', JNum ''64''), (''sequence'', JNum ''1''), (''sessionId'', JStr ''x''), (''sha256'', JStr typed)])
      no_source st = (Inr typed_event, st')"
    by (rule sample_emits [OF load typed_event_def])
      (use typed_applied shelled(2) shell_storable(2) shell_ids in \<open>simp_all add: shell_fields rejectEvidenceMutation_def\<close>)
  moreover have "base64_decode (base64_encode typed) = Some typed" by (rule base64_roundtrip)
  moreover have "sc_id work_scope = ''s''" by (simp add: work_scope_def)
  ultimately show ?thesis
    using st shelled(3,4) shell_confirmed typed_digest(2)
    by (simp add: terminal_Input_def session_of_def shell_manager_def put_managed_def type_text_def managed_session_def
        open_shell_def object_def json_object_def id_eval)
qed

theorem input_needs_authority_witness:
  "\<exists>es s e st. sample_load shell_store = Inr (es, s) \<and> commands_session es s ''w'' 1 (managed_session ''t'' ''w'' open_shell)
     \<and> (\<exists>more s'. sample_load st = Inr (es @ more @ [e], s')) \<and> e_type e = ''terminal.input.accepted''"
proof -
  obtain tm st t' where run: "terminal_Input sample_env sample_service sample_call Wrote_All ''t'' ''w'' type_text
      (shell_manager, shell_store) = (None, (tm, st))" and t': "tm_sessions tm ''x'' = Some t'" "mt_written t' = typed"
    using text_typed by auto
  have t: "tm_sessions shell_manager (ti_session type_text) = Some (managed_session ''t'' ''w'' open_shell)"
    "mt_written (managed_session ''t'' ''w'' open_shell) = []" "ti_session type_text = ''x''" "ti_revision type_text = 1"
    by (simp_all add: shell_manager_def put_managed_def type_text_def managed_session_def)
  have "typed \<noteq> []" by (simp add: typed_def)
  then obtain es s more e s' where "sample_load shell_store = Inr (es, s)"
      "commands_session es s ''w'' 1 (managed_session ''t'' ''w'' open_shell)"
      "sample_load st = Inr (es @ more @ [e], s')" "e_type e = ''terminal.input.accepted''"
    using input_needs_authority [OF run t(1)] t' t by auto
  then show ?thesis by blast
qed

section \<open>A draft\<close>

definition proposal :: string where
  "proposal = ''bbbbbbbbbbbbbbbbbbbbbbbbbbbbbbbbbbbbbbbbbbbbbbbbbbbbbbbbbbbbbbbb''"

lemma proposal_digest: "valid_sha256 proposal" "length proposal = 64" "proposal \<noteq> typed"
  by (simp_all add: valid_sha256_def proposal_def typed_def runes_def)

definition edit_opened :: event where
  "edit_opened = sample_event 3 [] ''editor.draft.opened''
     [(''draft'', JObj [(''baseByteLength'', JNum ''64''), (''baseSha256'', JStr typed), (''encoding'', JStr ''utf-8''),
       (''evidenceReferences'', JArr []), (''id'', JStr ''d''), (''leaseRevision'', JNum ''1''),
       (''ownerClientId'', JStr ''w''), (''path'', JStr ''/w/f''), (''scopeId'', JStr ''s'')])]"

definition edit_saved :: event where
  "edit_saved = sample_event 4 [] ''editor.draft.saved''
     [(''baseSha256'', JStr typed), (''draftId'', JStr ''d''), (''proposedByteLength'', JNum ''64''),
      (''proposedSha256'', JStr proposal), (''revision'', JNum ''1'')]"

definition edit_applied :: event where
  "edit_applied = sample_event 5 [] ''editor.patch.applied''
     [(''baseSha256'', JStr typed), (''draftId'', JStr ''d''), (''proposedSha256'', JStr proposal),
      (''resultSha256'', JStr proposal), (''reviewer'', JStr ''w''), (''revision'', JNum ''1'')]"

lemma edit_storable: "storable_event edit_opened" "storable_event edit_saved" "storable_event edit_applied"
proof -
  show "storable_event edit_opened"
    using typed_digest(1) by (simp add: edit_opened_def storable_eval valid_editor_draft_def valid_editor_byte_length_def)
  show "storable_event edit_saved"
    using typed_digest(1) proposal_digest(1) by (simp add: edit_saved_def storable_eval valid_editor_byte_length_def)
  show "storable_event edit_applied"
    using typed_digest(1) proposal_digest(1) by (simp add: edit_applied_def storable_eval)
qed

definition edit_draft :: editor_draft where
  "edit_draft = no_draft\<lparr>dr_id := ''d'', dr_path := ''/w/f'', dr_scope := ''s'', dr_owner := ''w'', dr_lease := 1,
     dr_base := typed, dr_base_length := 64, dr_encoding := ''utf-8''\<rparr>"

lemma edit_payloads:
  "payload edit_opened ''draft'' dec_draft no_draft = Some edit_draft"
  "p_string edit_saved ''draftId'' = Some ''d''" "p_int edit_saved ''revision'' = Some 1"
  "p_string edit_saved ''baseSha256'' = Some typed" "p_string edit_saved ''proposedSha256'' = Some proposal"
  "p_int edit_saved ''proposedByteLength'' = Some 64"
  "p_string edit_applied ''draftId'' = Some ''d''" "p_int edit_applied ''revision'' = Some 1"
  "p_string edit_applied ''baseSha256'' = Some typed" "p_string edit_applied ''proposedSha256'' = Some proposal"
  "p_string edit_applied ''resultSha256'' = Some proposal" "p_string edit_applied ''reviewer'' = Some ''w''"
  by (simp_all add: edit_opened_def edit_saved_def edit_applied_def edit_draft_def payload_eval dec_draft_def no_draft_def)

lemma edit_canons:
  obtains c1 c2 c3 where "canon_event edit_opened = Some c1" "canon_event edit_saved = Some c2" "canon_event edit_applied = Some c3"
proof -
  have "\<exists>x. canon_event edit_opened = Some x" "\<exists>x. canon_event edit_saved = Some x" "\<exists>x. canon_event edit_applied = Some x"
    unfolding edit_opened_def edit_saved_def edit_applied_def by (rule sample_canon; simp add: literal_eval)+
  then show thesis using that by blast
qed

lemma edit_fields:
  "e_type edit_opened = ''editor.draft.opened''" "e_cursor edit_opened = 3" "e_kind edit_opened = ''known''"
  "e_type edit_saved = ''editor.draft.saved''" "e_cursor edit_saved = 4" "e_kind edit_saved = ''known''"
  "e_type edit_applied = ''editor.patch.applied''" "e_cursor edit_applied = 5" "e_kind edit_applied = ''known''"
  by (simp_all add: edit_opened_def edit_saved_def edit_applied_def)

lemma edit_ids: "e_id edit_opened \<noteq> e_id confirmed_event" "e_id edit_opened \<noteq> e_id leased_event"
  "e_id edit_saved \<noteq> e_id confirmed_event" "e_id edit_saved \<noteq> e_id leased_event" "e_id edit_saved \<noteq> e_id edit_opened"
  "e_id edit_applied \<noteq> e_id confirmed_event" "e_id edit_applied \<noteq> e_id leased_event"
  "e_id edit_applied \<noteq> e_id edit_opened" "e_id edit_applied \<noteq> e_id edit_saved"
  by (simp_all add: leased_event_def confirmed_event_def edit_opened_def edit_saved_def edit_applied_def id_eval)

definition opened_state :: product_state where
  "opened_state = product_step edit_opened leased_state"

definition saved_state :: product_state where
  "saved_state = product_step edit_saved opened_state"

definition applied_state :: product_state where
  "applied_state = product_step edit_applied saved_state"

lemma edit_draft_fields: "dr_id edit_draft = ''d''" "dr_base edit_draft = typed" "dr_references edit_draft = []"
  by (simp_all add: edit_draft_def no_draft_def)

text \<open>What the next event meets in a snapshot after \<open>n\<close> events with the ids \<open>ids\<close>.\<close>

definition state_at :: "int \<Rightarrow> string set \<Rightarrow> (string \<Rightarrow> editor_draft option) \<Rightarrow> product_state \<Rightarrow> bool" where
  "state_at n ids drafts s \<longleftrightarrow> ps_cursor s = n \<and> dom (ps_canonical s) = ids \<and> ps_drafts s = drafts
     \<and> ps_scope s = Some work_scope \<and> ps_lease s = Some \<lparr>cl_client = ''w'', cl_revision = 1\<rparr>"

lemma sample_draft_step:
  assumes "\<exists>c. canon_event e = Some c" "e_kind e = ''known''" "e_id e \<notin> ids" "e_cursor e = n + 1"
    and "state_at n ids drafts s" "0 \<le> n" "n < 100"
    and handled: "\<And>s0. ps_drafts s0 = drafts \<Longrightarrow> apply_known_event e s0 = Inr (s0\<lparr>ps_drafts := drafts'\<rparr>)"
  shows "Project s e = Inr (Projection_Applied (product_step e s))"
    and "state_at (n + 1) (insert (e_id e) ids) drafts' (product_step e s)"
proof -
  obtain c where c: "canon_event e = Some c" using assms(1) by blast
  let ?s = "s\<lparr>ps_cursor := e_cursor e, ps_canonical := (ps_canonical s)(e_id e \<mapsto> c), ps_timeline := ps_timeline s @ [e]\<rparr>"
  have "ps_drafts ?s = drafts" "ps_canonical s (e_id e) = None" using assms(3,5) by (auto simp: state_at_def)
  then have p: "Project s e = Inr (Projection_Applied (?s\<lparr>ps_drafts := drafts'\<rparr>))"
    using c assms(2,4-7) handled [of ?s] by (simp add: Project_def EventKindUnknown_def state_at_def)
  then show "Project s e = Inr (Projection_Applied (product_step e s))" by (simp add: product_step_def)
  show "state_at (n + 1) (insert (e_id e) ids) drafts' (product_step e s)"
    using assms(4,5) p by (simp add: product_step_def state_at_def)
qed

lemma work_state: "state_at 2 {e_id confirmed_event, e_id leased_event} Map.empty leased_state"
  by (rule work_canons) (simp add: state_at_def work_eval insert_commute)

lemmas edit_eval =
  apply_known_event_def handlers_def edit_fields edit_payloads draft_defs put_draft_def editable_def decoded_def
  edit_draft_fields

definition first_draft :: editor_draft where
  "first_draft = edit_draft\<lparr>dr_status := ''open'', dr_next := 1\<rparr>"

definition saved_draft :: editor_draft where
  "saved_draft = first_draft\<lparr>dr_status := ''saved'', dr_next := 2, dr_proposed := proposal, dr_proposed_length := 64\<rparr>"

lemma draft_fields_at: "dr_id first_draft = ''d''" "dr_base first_draft = typed" "dr_next first_draft = 1"
  "dr_status first_draft = ''open''" "dr_id saved_draft = ''d''" "dr_base saved_draft = typed" "dr_next saved_draft = 2"
  "dr_status saved_draft = ''saved''" "dr_proposed saved_draft = proposal" "dr_path saved_draft = ''/w/f''"
  "dr_scope saved_draft = ''s''"
  by (simp_all add: first_draft_def saved_draft_def edit_draft_def no_draft_def)

lemma edit_applies:
  "ps_drafts s0 = Map.empty \<Longrightarrow> apply_known_event edit_opened s0 = Inr (s0\<lparr>ps_drafts := [''d'' \<mapsto> first_draft]\<rparr>)"
  "ps_drafts s0 = [''d'' \<mapsto> first_draft] \<Longrightarrow> apply_known_event edit_saved s0 = Inr (s0\<lparr>ps_drafts := [''d'' \<mapsto> saved_draft]\<rparr>)"
  by (simp_all add: edit_eval draft_fields_at) (simp_all add: first_draft_def saved_draft_def)

lemma applied_applies:
  "ps_drafts s0 = [''d'' \<mapsto> saved_draft] \<Longrightarrow> apply_known_event edit_applied s0
    = Inr (s0\<lparr>ps_drafts := [''d'' \<mapsto> saved_draft\<lparr>dr_status := ''applied'', dr_result := proposal, dr_reviewer := ''w''\<rparr>]\<rparr>)"
  by (simp add: edit_eval draft_fields_at wrap64_def)

lemma edited:
  "Project leased_state edit_opened = Inr (Projection_Applied opened_state)"
  "state_at 3 {e_id edit_opened, e_id confirmed_event, e_id leased_event} [''d'' \<mapsto> first_draft] opened_state"
  "Project opened_state edit_saved = Inr (Projection_Applied saved_state)"
  "state_at 4 {e_id edit_saved, e_id edit_opened, e_id confirmed_event, e_id leased_event} [''d'' \<mapsto> saved_draft] saved_state"
  "Project saved_state edit_applied = Inr (Projection_Applied applied_state)"
proof -
  have canons: "\<exists>c. canon_event edit_opened = Some c" "\<exists>c. canon_event edit_saved = Some c" "\<exists>c. canon_event edit_applied = Some c"
    using edit_canons by metis+
  note edit_opened = sample_draft_step [OF canons(1) _ _ _ work_state _ _ edit_applies(1)]
  show "Project leased_state edit_opened = Inr (Projection_Applied opened_state)"
    and s3: "state_at 3 {e_id edit_opened, e_id confirmed_event, e_id leased_event} [''d'' \<mapsto> first_draft] opened_state"
    using edit_opened edit_ids by (simp_all add: opened_state_def edit_fields)
  note edit_saved = sample_draft_step [OF canons(2) _ _ _ s3 _ _ edit_applies(2)]
  show "Project opened_state edit_saved = Inr (Projection_Applied saved_state)"
    and s4: "state_at 4 {e_id edit_saved, e_id edit_opened, e_id confirmed_event, e_id leased_event} [''d'' \<mapsto> saved_draft] saved_state"
    using edit_saved edit_ids by (simp_all add: saved_state_def edit_fields)
  show "Project saved_state edit_applied = Inr (Projection_Applied applied_state)"
    using sample_draft_step(1) [OF canons(3) _ _ _ s4 _ _ applied_applies] edit_ids by (simp add: applied_state_def edit_fields)
qed

abbreviation edit_store :: store where
  "edit_store \<equiv> interleave sample_env ((work_ops @ [commit_op edit_opened]) @ [commit_op edit_saved]) Map.empty"

abbreviation edit_log :: "event list" where
  "edit_log \<equiv> ([confirmed_event, leased_event] @ [edit_opened]) @ [edit_saved]"

lemma edit_load: "sample_load edit_store = Inr (edit_log, saved_state)"
proof -
  have "sample_load (interleave sample_env (work_ops @ [commit_op edit_opened]) Map.empty)
      = Inr ([confirmed_event, leased_event] @ [edit_opened], opened_state)"
    by (rule commit_loads [OF work_load edit_opened_def])
      (use edited(1) work_state edit_storable(1) edit_ids in \<open>simp_all add: edit_fields rejectEvidenceMutation_def state_at_def\<close>)
  then show ?thesis
    by (rule commit_loads [OF _ edit_saved_def])
      (use edited(2,3) edit_storable(2) edit_ids in \<open>simp_all add: edit_fields rejectEvidenceMutation_def state_at_def\<close>)
qed

definition work_access :: file_access where
  "work_access = \<lparr>fa_view = sample_view, fa_stat = (\<lambda>f. Some \<lparr>fi_regular = True, fi_mode = 420, fi_size = 64\<rparr>),
     fa_read = (\<lambda>f. if f = 7 then Some typed else None)\<rparr>"

definition work_editor :: editor_manager where
  "work_editor = remember ''t'' ''d'' proposal NewEditorManager"

definition apply_patch :: editor_apply_command where
  "apply_patch = \<lparr>ea_draft = ''d'', ea_revision = 1, ea_proposed = proposal, ea_lease = 1\<rparr>"

lemma work_base: "verifyBase sample_env work_access ''/w'' ''/w/f'' typed = Inr 420"
  using sample_opened typed_digest(2)
  by (simp add: verifyBase_def work_access_def read_limited_def maxEditorBytes_def)

lemma edit_confirmed: "scopeWasConfirmed edit_log ''s''"
  by (simp add: scopeWasConfirmed_def work_fields edit_fields work_payloads work_scope_def)

lemma patch_is_applied:
  obtains em st where "editor_Apply sample_env sample_service sample_call work_access True Replaced ''t'' ''w'' apply_patch
    (work_editor, edit_store) = (Inr edit_applied, (em, st))" "em_replaced em = [(''/w/f'', proposal)]"
proof -
  obtain st where st: "Load (\<lambda>s. s) (\<lambda>s. s) None ''t'' edit_store = (Inr (edit_log, saved_state), st)"
    using edit_load by (metis prod.collapse)
  have load: "sample_load st = Inr (edit_log, saved_state)"
    using Load_cong [OF Load_lines [of "\<lambda>s. s" "\<lambda>s. s" None "''t''" edit_store], of "\<lambda>s. s" "\<lambda>s. s" "''t''"] st edit_load
    by simp
  obtain st' where emitted: "emit_later sample_env sample_service sample_call ''t'' ''editor.patch.applied''
      (JObj [(''baseSha256'', JStr typed), (''draftId'', JStr ''d''), (''proposedSha256'', JStr proposal),
        (''resultSha256'', JStr proposal), (''reviewer'', JStr ''w''), (''revision'', JNum ''1'')])
      no_source st = (Inr edit_applied, st')"
    by (rule sample_emits [OF load edit_applied_def])
      (use edited(4,5) edit_storable(3) edit_ids in \<open>simp_all add: edit_fields rejectEvidenceMutation_def state_at_def\<close>)
  have at: "ps_drafts saved_state = [''d'' \<mapsto> saved_draft]" "ps_scope saved_state = Some work_scope"
    "ps_lease saved_state = Some \<lparr>cl_client = ''w'', cl_revision = 1\<rparr>" using edited(4) by (simp_all add: state_at_def)
  have scope: "sc_id work_scope = ''s''" "sc_workspace work_scope = ''/w''" by (simp_all add: work_scope_def)
  have authority: "authorizeEditor saved_state edit_log ''w'' ''s'' 1 ''editor.write'' = None"
    using at scope edit_confirmed shell_allowed(2) by (simp add: authorizeEditor_def)
  show ?thesis
    by (rule that [of "forget ''t'' ''d'' (work_editor\<lparr>em_replaced := [(''/w/f'', proposal)]\<rparr>)" st']) (use st at authority emitted work_base scope in
      \<open>simp_all add: editor_Apply_def with_draft_def apply_patch_def draft_fields_at work_editor_def remember_def
        NewEditorManager_def wrap64_def object_def json_object_def id_eval forget_def\<close>)
qed

theorem replaced_file_was_reviewed_witness:
  "\<exists>es s d. sample_load edit_store = Inr (es, s) \<and> ps_drafts s ''d'' = Some d \<and> dr_status d = ''saved''
    \<and> dr_proposed d = proposal \<and> base_in_place sample_env work_access ''/w'' ''/w/f'' typed"
proof -
  obtain em st where a: "editor_Apply sample_env sample_service sample_call work_access True Replaced ''t'' ''w'' apply_patch
    (work_editor, edit_store) = (Inr edit_applied, (em, st))" "em_replaced em = [(''/w/f'', proposal)]"
    by (rule patch_is_applied)
  have em: "em_replaced em \<noteq> em_replaced work_editor"
    using a(2) by (simp add: work_editor_def remember_def NewEditorManager_def)
  have os: "os_ok (ov_root (fa_view work_access))" "os_ok (ov_path (fa_view work_access))" "os_ok (ov_again (fa_view work_access))"
    using sample_os_ok by (simp_all add: work_access_def sample_view_def)
  have at: "ps_drafts saved_state = [''d'' \<mapsto> saved_draft]" "ps_scope saved_state = Some work_scope"
    using edited(4) by (simp_all add: state_at_def)
  show ?thesis
    using replaced_file_was_reviewed [OF a(1) em os] edit_load at
    by (auto simp: apply_patch_def draft_fields_at work_scope_def)
qed

section \<open>A command\<close>

definition pause :: command_envelope where
  "pause = \<lparr>ce_key = ''k'', ce_command = pause_command\<rparr>"

definition work_world :: world where
  "work_world = \<lparr>wo_call = sample_call, wo_second = sample_call, wo_os1 = sample_os, wo_os2 = sample_os, wo_order = [],
     wo_started = None, wo_wrote = Write_Failed 0, wo_resized = False, wo_killed = False, wo_access = work_access,
     wo_prepared = False, wo_replaced = Not_Replaced, wo_saved = Saved\<rparr>"

definition paused :: event where
  "paused = sample_event 3 [] ''task.paused'' []"

lemma paused_applied:
  obtains s' where "Project leased_state paused = Inr (Projection_Applied s')" "storable_event paused"
    "e_id paused \<noteq> e_id confirmed_event" "e_id paused \<noteq> e_id leased_event"
proof -
  have storable: "storable_event paused" by (simp add: paused_def storable_eval)
  have ids: "e_id paused \<noteq> e_id confirmed_event" "e_id paused \<noteq> e_id leased_event"
    by (simp_all add: paused_def leased_event_def confirmed_event_def id_eval)
  obtain c where c: "canon_event paused = Some c" unfolding paused_def using sample_canon [of 3 "[]"] by fastforce
  have f: "e_type paused = ''task.paused''" "e_cursor paused = 3" "e_kind paused = ''known''" by (simp_all add: paused_def)
  have "ps_canonical leased_state (e_id paused) = None" "ps_cursor leased_state = 2"
    using work_state ids by (auto simp: state_at_def)
  then have "\<exists>s'. Project leased_state paused = Inr (Projection_Applied s')"
    using c f by (cases "ps_task leased_state")
      (simp_all add: Project_def EventKindUnknown_def Let_def apply_known_event_def handlers_def apply_task_def wrap64_def)
  then show ?thesis using that storable ids by blast
qed

lemma pause_decoded: "decode_object pause_command = Some [(''type'', JStr ''task.pause'')]"
  by (simp add: pause_command_def parse_eval)

lemma server_started:
  obtains ls where "start_server work_server work_store None = Some ls" "ls_store ls = work_store" "ls_receipts ls = []" "ls_next ls = 0"
  by (simp add: start_server_def loadState_def)

lemma pause_accepted:
  assumes "ls_store ls = work_store" "ls_receipts ls = []"
  shows "fst (handleCommand sample_env work_server work_world ''t'' pause ''w'' ls) = acceptedReceipt ''k''"
proof -
  obtain s' where p: "Project leased_state paused = Inr (Projection_Applied s')" "storable_event paused"
    "e_id paused \<noteq> e_id confirmed_event" "e_id paused \<noteq> e_id leased_event" by (rule paused_applied)
  obtain st where "emit_later sample_env sample_service sample_call ''t'' ''task.paused'' (JObj []) no_source work_store
      = (Inr paused, st)"
    by (rule sample_emits [OF work_load paused_def]) (use p leased(2) in \<open>simp_all add: rejectEvidenceMutation_def paused_def\<close>)
  then have e: "emit sample_env sample_service sample_call ''t'' ''task.paused'' (object []) no_source work_store = (Inr paused, st)"
    by (simp add: emit_later_def object_def json_object_def)
  have t: "type_of_command [(''type'', JStr ''task.pause'')] = ''task.pause''"
    by (simp add: type_of_command_def dec_type_def payload_eval)
  have "validText ''k''" unfolding validText_def by code_simp
  then have v: "ValidateCommandEnvelope pause = None" by (simp add: pause_def pause_envelope)
  have "dispatchCommand sample_env work_server work_world ''t'' ''k'' [(''type'', JStr ''task.pause'')] ''w'' ls
      = (acceptedReceipt ''k'', ls\<lparr>ls_store := st\<rparr>)"
    using e assms(1) by (simp add: dispatchCommand_def Let_def t effective_task_def emit_plain_def emitted_def service_result_def
      receipt_for_def work_server_def work_world_def)
  then show ?thesis
    using v assms(2) by (simp add: handleCommand_def Let_def pause_def pause_decoded saveState_def work_world_def)
qed

theorem repeated_command_has_no_effect_witness:
  "\<exists>ls0. start_server work_server work_store None = Some ls0
    \<and> (let ls = fold (server_step sample_env work_server) [Restart_Op, Terminal_Op Close_Op]
          (snd (handleCommand sample_env work_server work_world ''t'' pause ''w'' ls0)) in
       handleCommand sample_env work_server work_world ''t'' pause ''w'' ls = (acceptedReceipt ''k'', ls))"
proof -
  obtain ls0 where start: "start_server work_server work_store None = Some ls0" "ls_store ls0 = work_store" "ls_receipts ls0 = []"
    by (rule server_started)
  obtain ls1 where first: "handleCommand sample_env work_server work_world ''t'' pause ''w'' (fold (server_step sample_env work_server) [] ls0)
      = (acceptedReceipt ''k'', ls1)"
    using pause_accepted [OF start(2,3)] by (metis fold_simps(1) prod.collapse)
  have "''t'' \<noteq> []" "wo_saved work_world = Saved" by (simp_all add: work_world_def)
  note again = repeated_command_has_no_effect [OF start(1) this first]
  have "snd (handleCommand sample_env work_server work_world ''t'' pause ''w'' ls0) = ls1" using first by simp
  then show ?thesis by (intro exI [of _ ls0] conjI start(1)) (simp only: Let_def again)
qed

definition digest_env :: "product_state runtime_env" where
  "digest_env = sample_env\<lparr>re_sha := \<lambda>_. typed\<rparr>"

theorem saved_state_reloads_witness:
  "\<exists>ls0. start_server work_server work_store None = Some ls0
    \<and> (let ls = fold (server_step digest_env work_server) [Command_Op work_world ''t'' pause ''w'', Restart_Op] ls0 in
       \<exists>ls'. start_server work_server (ls_store ls) (ls_disk ls) = Some ls'
         \<and> map_of (ls_receipts ls) \<subseteq>\<^sub>m map_of (ls_receipts ls'))"
proof -
  obtain ls0 where start: "start_server work_server work_store None = Some ls0" "ls_next ls0 = 0"
    by (rule server_started)
  have "length (re_sha digest_env x) = 64" for x by (simp add: digest_env_def typed_digest(2))
  from saved_state_reloads [OF this start(1) _ refl, of "[Command_Op work_world ''t'' pause ''w'', Restart_Op]"]
  have "\<exists>ls'. start_server work_server
      (ls_store (fold (server_step digest_env work_server) [Command_Op work_world ''t'' pause ''w'', Restart_Op] ls0))
      (ls_disk (fold (server_step digest_env work_server) [Command_Op work_world ''t'' pause ''w'', Restart_Op] ls0)) = Some ls'
    \<and> map_of (ls_receipts (fold (server_step digest_env work_server) [Command_Op work_world ''t'' pause ''w'', Restart_Op] ls0))
        \<subseteq>\<^sub>m map_of (ls_receipts ls')"
    using start(2) by auto
  then show ?thesis using start(1) by (auto simp: Let_def simp del: fold_simps)
qed

end
