(* ===== verification/Session_Message.thy ===== *)
theory Session_Message
  imports Json_Value "HOL-Library.Word"
begin

text \<open>
  Messages and events of a conversation (\<open>core/message.go\<close>, \<open>event.go\<close>, \<open>errors.go\<close>), what becomes of them when they are
  written as JSON and read back, and the copies and the compaction of \<open>session/compact.go\<close>. A nil slice and an
  empty one are both the empty list, except for the raw arguments of a call, which marshal differently. How
  deep the text of an event nests is computed, since the decoder takes 10,000 levels only.
\<close>

section \<open>Messages\<close>

record tool_call =
  tl_id :: string
  tl_name :: string
  tl_arguments :: "string option"

record file_diff =
  fd_path :: string
  fd_old :: string
  fd_new :: string

datatype content_block =
    Content_Block (cb_type: string) (cb_text: string) (cb_thinking: string) (cb_media: string) (cb_data: string)
      (cb_call: "tool_call option") (cb_result: "tool_result option")
  and tool_result =
    Tool_Result (rs_call: string) (rs_content: "content_block list") (rs_error: bool) (rs_diff: "file_diff option")

record chat_message =
  cm_role :: string
  cm_content :: "content_block list"

definition RoleSystem :: string where "RoleSystem = ''system''"
definition RoleUser :: string where "RoleUser = ''user''"
definition RoleTool :: string where "RoleTool = ''tool''"
definition ContentText :: string where "ContentText = ''text''"

section \<open>Events\<close>

record usage =
  us_input :: int
  us_output :: int
  us_cache_read :: int
  us_cache_creation :: int

text \<open>The cause of an error, any Go error, is represented by its text.\<close>

record core_error =
  er_kind :: string
  er_op :: string
  er_message :: string
  er_retryable :: bool
  er_cause :: "string option"

datatype core_event =
    Core_Event (et_type: string) (et_text: string) (et_message: "chat_message option") (et_call: "tool_call option")
      (et_call_id: string) (et_delta: string) (et_result: "tool_result option") (et_usage: "usage option")
      (et_finish: string) (et_covered: "64 word") (et_covered_messages: int) (et_error: "core_error option")
      (et_subagent: "subagent option")
  and subagent =
    Subagent (sa_task: string) (sa_agent: string) (sa_description: string) (sa_status: string)
      (sa_event: "core_event option") (sa_usage: "usage option") (sa_tool: string) (sa_truncated: bool)

definition EventCompacted :: string where "EventCompacted = ''compacted''"

section \<open>Written and read back\<close>

text \<open>\<open>None\<close>: the value cannot be marshalled, since the arguments of a call are not JSON.\<close>

definition inner :: "'a option option \<Rightarrow> 'a option option" where
  "inner x = (case x of None \<Rightarrow> Some None | Some None \<Rightarrow> None | Some (Some y) \<Rightarrow> Some (Some y))"

definition store_call :: "tool_call \<Rightarrow> tool_call option" where
  "store_call c =
     (case tl_arguments c of
        None \<Rightarrow> Some \<lparr>tl_id = json_text (tl_id c), tl_name = json_text (tl_name c), tl_arguments = Some ''null''\<rparr>
      | Some raw \<Rightarrow>
          if json_valid raw
          then Some \<lparr>tl_id = json_text (tl_id c), tl_name = json_text (tl_name c), tl_arguments = Some (json_compact raw)\<rparr>
          else None)"

primrec store_block :: "content_block \<Rightarrow> content_block option" and store_result :: "tool_result \<Rightarrow> tool_result option" where
  "store_block (Content_Block t x h m d c r) =
     (case (inner (map_option store_call c), inner (map_option store_result r)) of
        (Some c', Some r') \<Rightarrow> Some (Content_Block (json_text t) (json_text x) (json_text h) (json_text m) (json_text d) c' r')
      | _ \<Rightarrow> None)"
| "store_result (Tool_Result i bs e df) =
     map_option (\<lambda>bs'. Tool_Result (json_text i) bs' e None) (all_some (map store_block bs))"

definition store_message :: "chat_message \<Rightarrow> chat_message option" where
  "store_message m =
     map_option (\<lambda>bs. \<lparr>cm_role = json_text (cm_role m), cm_content = bs\<rparr>) (all_some (map store_block (cm_content m)))"

definition store_error_value :: "core_error \<Rightarrow> core_error" where
  "store_error_value e = \<lparr>er_kind = json_text (er_kind e), er_op = json_text (er_op e), er_message = json_text (er_message e),
     er_retryable = er_retryable e, er_cause = None\<rparr>"

primrec store_event :: "core_event \<Rightarrow> core_event option" and store_subagent :: "subagent \<Rightarrow> subagent option" where
  "store_event (Core_Event t x m c i d r u f cs cm e s) =
     (case (inner (map_option store_message m), inner (map_option store_call c), inner (map_option store_result r),
            inner (map_option store_subagent s)) of
        (Some m', Some c', Some r', Some s') \<Rightarrow>
          Some (Core_Event (json_text t) (json_text x) m' c' (json_text i) (json_text d) r' u (json_text f) cs cm
            (map_option store_error_value e) s')
      | _ \<Rightarrow> None)"
| "store_subagent (Subagent k a d st e u rt tr) =
     map_option (\<lambda>e'. Subagent (json_text k) (json_text a) (json_text d) (json_text st) e' u (json_text rt) tr)
       (inner (map_option store_event e))"

section \<open>Nesting\<close>

text \<open>How deep the JSON text of a value nests; raw JSON as the scanner counts it.\<close>

definition raw_levels :: "string \<Rightarrow> nat" where
  "raw_levels raw = snd (foldl (\<lambda>(s, n) c. let s' = js_step s c in (s', max n (length (js_stack s')))) (js_reset, 0) raw)"

definition deepest :: "nat list \<Rightarrow> nat" where
  "deepest ns = fold max ns 0"

definition levels_in :: "nat option \<Rightarrow> nat" where
  "levels_in x = (case x of None \<Rightarrow> 0 | Some n \<Rightarrow> n)"

definition call_levels :: "tool_call \<Rightarrow> nat" where
  "call_levels c = Suc (levels_in (map_option raw_levels (tl_arguments c)))"

primrec block_levels :: "content_block \<Rightarrow> nat" and result_levels :: "tool_result \<Rightarrow> nat" where
  "block_levels (Content_Block t x h m d c r) =
     Suc (max (levels_in (map_option call_levels c)) (levels_in (map_option result_levels r)))"
| "result_levels (Tool_Result i bs e df) = Suc (Suc (deepest (map block_levels bs)))"

definition message_levels :: "chat_message \<Rightarrow> nat" where
  "message_levels m = Suc (Suc (deepest (map block_levels (cm_content m))))"

primrec event_levels :: "core_event \<Rightarrow> nat" and subagent_levels :: "subagent \<Rightarrow> nat" where
  "event_levels (Core_Event t x m c i d r u f cs cm e s) =
     Suc (deepest [1, levels_in (map_option message_levels m), levels_in (map_option call_levels c),
       levels_in (map_option result_levels r), levels_in (map_option subagent_levels s)])"
| "subagent_levels (Subagent k a d st e u rt tr) = Suc (max 1 (levels_in (map_option event_levels e)))"

section \<open>Copies\<close>

definition clone_call :: "tool_call \<Rightarrow> tool_call" where
  "clone_call c = \<lparr>tl_id = tl_id c, tl_name = tl_name c,
     tl_arguments = (if tl_arguments c = Some [] then None else tl_arguments c)\<rparr>"

primrec clone_nested :: "content_block \<Rightarrow> content_block" and cloneSessionToolResult :: "tool_result \<Rightarrow> tool_result" where
  "clone_nested (Content_Block t x h m d c r) =
     Content_Block t x h [] [] None (map_option cloneSessionToolResult r)"
| "cloneSessionToolResult (Tool_Result i bs e df) = Tool_Result i (map clone_nested bs) e None"

definition clone_block :: "content_block \<Rightarrow> content_block" where
  "clone_block b = Content_Block (cb_type b) (cb_text b) (cb_thinking b) [] [] (map_option clone_call (cb_call b))
     (map_option cloneSessionToolResult (cb_result b))"

definition cloneSessionMessages :: "chat_message list \<Rightarrow> chat_message list" where
  "cloneSessionMessages = map (\<lambda>m. \<lparr>cm_role = cm_role m, cm_content = map clone_block (cm_content m)\<rparr>)"

section \<open>Compaction\<close>

text \<open>The loop runs on the index; a negative number of messages to keep would read past the end, which the
  constructor excludes.\<close>

fun back_over_tools :: "chat_message list \<Rightarrow> nat \<Rightarrow> nat" where
  "back_over_tools ms 0 = 0"
| "back_over_tools ms (Suc n) = (if cm_role (ms ! Suc n) = RoleTool then back_over_tools ms n else Suc n)"

definition compactBoundary :: "chat_message list \<Rightarrow> int \<Rightarrow> nat" where
  "compactBoundary ms keep =
     (let boundary = wrap64 (int (length ms) - keep) in
      if boundary \<le> 0 then 0 else back_over_tools ms (nat boundary))"

record token_count =
  tn_tokens :: int
  tn_exact :: bool

text \<open>The counter's answer is an argument: absent, failed or a number; so is the estimate.\<close>

definition CountRequestTokens :: "int option option \<Rightarrow> int \<Rightarrow> token_count" where
  "CountRequestTokens counter estimate =
     (case counter of
        Some (Some n) \<Rightarrow> if 0 \<le> n then \<lparr>tn_tokens = n, tn_exact = True\<rparr> else \<lparr>tn_tokens = max 0 estimate, tn_exact = False\<rparr>
      | _ \<Rightarrow> \<lparr>tn_tokens = max 0 estimate, tn_exact = False\<rparr>)"

record compactor =
  cp_threshold :: int
  cp_keep :: int
  cp_estimate_only :: bool

definition NewCompactor :: "int \<Rightarrow> int \<Rightarrow> bool \<Rightarrow> bool \<Rightarrow> compactor option" where
  "NewCompactor threshold keep estimate_only summarizer =
     (if threshold \<le> 0 then None
      else if \<not> summarizer then None
      else Some \<lparr>cp_threshold = threshold, cp_keep = (if keep \<le> 0 then 8 else keep), cp_estimate_only = estimate_only\<rparr>)"

record compact_result =
  ct_applied :: bool
  ct_messages :: "chat_message list"
  ct_summary :: "chat_message option"
  ct_covered :: nat
  ct_count :: token_count
  ct_warning :: bool

definition count_for :: "compactor \<Rightarrow> int option option \<Rightarrow> int \<Rightarrow> token_count" where
  "count_for cp counter estimate = CountRequestTokens (if cp_estimate_only cp then None else counter) estimate"

definition CanCompact :: "compactor \<Rightarrow> chat_message list \<Rightarrow> bool" where
  "CanCompact cp ms \<longleftrightarrow> 0 < compactBoundary ms (cp_keep cp)"

definition ShouldCompact :: "compactor \<Rightarrow> int option option \<Rightarrow> int \<Rightarrow> chat_message list \<Rightarrow> bool" where
  "ShouldCompact cp counter estimate ms \<longleftrightarrow>
     cp_threshold cp \<le> tn_tokens (count_for cp counter estimate) \<and> CanCompact cp ms"

text \<open>\<open>summarize\<close> is \<open>None\<close> where the summarizer fails.\<close>

definition compact_request ::
  "compactor \<Rightarrow> (chat_message list \<Rightarrow> string option) \<Rightarrow> int option option \<Rightarrow> int \<Rightarrow> bool \<Rightarrow> chat_message list \<Rightarrow> compact_result" where
  "compact_request cp summarize counter estimate force ms =
     (let original = cloneSessionMessages ms;
          count = count_for cp counter estimate;
          unchanged = \<lparr>ct_applied = False, ct_messages = original, ct_summary = None, ct_covered = 0, ct_count = count,
            ct_warning = False\<rparr>;
          boundary = compactBoundary original (cp_keep cp) in
      if \<not> force \<and> tn_tokens count < cp_threshold cp then unchanged
      else if boundary = 0 then unchanged
      else
        (case summarize (cloneSessionMessages (take boundary original)) of
           None \<Rightarrow> unchanged\<lparr>ct_warning := True\<rparr>
         | Some summaryText \<Rightarrow>
             if summaryText = [] then unchanged\<lparr>ct_warning := True\<rparr>
             else
               (let summary = \<lparr>cm_role = RoleSystem,
                      cm_content = [Content_Block ContentText summaryText [] [] [] None None]\<rparr> in
                \<lparr>ct_applied = True, ct_messages = summary # cloneSessionMessages (drop boundary original),
                  ct_summary = Some summary, ct_covered = boundary, ct_count = count, ct_warning = False\<rparr>)))"

definition Compact ::
  "compactor \<Rightarrow> (chat_message list \<Rightarrow> string option) \<Rightarrow> int option option \<Rightarrow> int \<Rightarrow> chat_message list \<Rightarrow> compact_result" where
  "Compact cp summarize counter estimate ms = compact_request cp summarize counter estimate False ms"

definition CompactNow ::
  "compactor \<Rightarrow> (chat_message list \<Rightarrow> string option) \<Rightarrow> int option option \<Rightarrow> int \<Rightarrow> chat_message list \<Rightarrow> compact_result" where
  "CompactNow cp summarize counter estimate ms = compact_request cp summarize counter estimate True ms"

end
