(* ===== verification/Session_Store.thy ===== *)
theory Session_Store
  imports Session_Message Product_Store
begin

text \<open>
  The session store (\<open>session/store.go\<close>, \<open>eventlog.go\<close>, \<open>snapshot.go\<close>, \<open>graph.go\<close>): a directory per session with an event
  log, a snapshot with its metadata, a graph of checkpoints and the snapshots of the checkpoints, under a lock per
  session and leases. An operation holds the session's mutex and lock throughout and is one step
  (no operation waits for a session while it is deleted); whether another
  process holds the lock, what reading and writing do to a file, the clock and the contexts are arguments.
  Snapshots nest less deeply than the decoder allows. The clock's readings are in the years that RFC 3339 can write, and not the zero time. SHA-256 as
  hexadecimal text and the redactor of secrets are parameters. Paths are represented by session and file.
\<close>

section \<open>Files\<close>

record event_record =
  sr_sequence :: "64 word"
  sr_session :: string
  sr_time :: instant
  sr_event :: core_event

text \<open>A line holds a record, or does not decode (\<open>None\<close>); a torn log ends in a line without its end.\<close>

record session_log =
  sl_lines :: "event_record option list"
  sl_torn :: bool

record session_snapshot =
  sn_session :: string
  sn_last :: "64 word"
  sn_updated :: instant
  sn_history :: "chat_message list"
  sn_summary :: string

record snapshot_metadata =
  sm_session :: string
  sm_last :: "64 word"
  sm_updated :: instant
  sm_count :: int
  sm_summary :: string

record checkpoint =
  ck_id :: string
  ck_session :: string
  ck_name :: string
  ck_sequence :: "64 word"
  ck_created :: instant

record branch_info =
  br_session :: string
  br_parent :: string
  br_checkpoint :: string
  br_created :: instant

record session_graph =
  sg_version :: int
  sg_session :: string
  sg_parent :: string
  sg_parent_checkpoint :: string
  sg_checkpoints :: "checkpoint list"

record session_dir =
  sd_log :: session_log
  sd_snapshot :: "session_snapshot option"
  sd_metadata :: "snapshot_metadata option"
  sd_graph :: "session_graph option"
  sd_checkpoints :: "string \<Rightarrow> session_snapshot option"

definition empty_dir :: session_dir where
  "empty_dir = \<lparr>sd_log = \<lparr>sl_lines = [], sl_torn = False\<rparr>, sd_snapshot = None, sd_metadata = None, sd_graph = None,
     sd_checkpoints = Map.empty\<rparr>"

text \<open>The directories by storage key, and the sessions this store holds a lease on.\<close>

record session_store =
  st_dirs :: "string \<Rightarrow> session_dir option"
  st_leases :: "string set"

datatype session_failure =
    Session_Context ctx_error | Invalid_Session | ErrSessionActive | ErrSessionNotFound | ErrCheckpointNotFound
  | Session_IO | Session_Invalid | Invalid_Checkpoint_Name | Branch_Exists

text \<open>What can go wrong when an operation reads its files: \<open>os.ReadFile\<close> fails on the first, or on the graph of
  checkpoints, other than because the file does not exist; the context has ended after the reading.\<close>

datatype read_stop = Unread | Graph_Unread | Ended_After ctx_error

type_synonym reading = "read_stop option"

text \<open>What writing a file anew does: replaced; replaced, with an error from syncing; not replaced.\<close>

datatype write_outcome = Written | Written_Not_Synced | Not_Replaced_File

datatype lock_outcome = Lock_Free | Lock_Held | Lock_Failed

definition sessionStorageKey :: "(string \<Rightarrow> string) \<Rightarrow> string \<Rightarrow> string" where
  "sessionStorageKey sha sid = sha sid"

definition dir_of :: "(string \<Rightarrow> string) \<Rightarrow> session_store \<Rightarrow> string \<Rightarrow> session_dir" where
  "dir_of sha st sid = (case st_dirs st (sessionStorageKey sha sid) of Some d \<Rightarrow> d | None \<Rightarrow> empty_dir)"

definition put_dir :: "(string \<Rightarrow> string) \<Rightarrow> string \<Rightarrow> session_dir \<Rightarrow> session_store \<Rightarrow> session_store" where
  "put_dir sha sid d st = st\<lparr>st_dirs := (st_dirs st)(sessionStorageKey sha sid \<mapsto> d)\<rparr>"

definition validateSessionID :: "string \<Rightarrow> bool" where
  "validateSessionID sid \<longleftrightarrow> TrimSpace sid \<noteq> [] \<and> length sid \<le> 512 \<and> valid_utf8 sid"

definition lockSession :: "lock_outcome \<Rightarrow> session_store \<Rightarrow> string \<Rightarrow> session_failure option" where
  "lockSession lk st sid =
     (if sid \<in> st_leases st then None
      else (case lk of Lock_Free \<Rightarrow> None | Lock_Held \<Rightarrow> Some ErrSessionActive | Lock_Failed \<Rightarrow> Some Session_IO))"

definition AcquireLease :: "lock_outcome \<Rightarrow> string \<Rightarrow> session_store \<Rightarrow> session_failure option \<times> session_store" where
  "AcquireLease lk sid st =
     (if \<not> validateSessionID sid then (Some Invalid_Session, st)
      else if sid \<in> st_leases st then (Some ErrSessionActive, st)
      else
        (case lk of
           Lock_Free \<Rightarrow> (None, st\<lparr>st_leases := insert sid (st_leases st)\<rparr>)
         | Lock_Held \<Rightarrow> (Some ErrSessionActive, st)
         | Lock_Failed \<Rightarrow> (Some Session_IO, st)))"

definition close_lease :: "string \<Rightarrow> session_store \<Rightarrow> session_store" where
  "close_lease sid st = st\<lparr>st_leases := st_leases st - {sid}\<rparr>"

text \<open>The beginning of the operations: the context, the identifier, the lock.\<close>

definition enter :: "ctx \<Rightarrow> lock_outcome \<Rightarrow> session_store \<Rightarrow> string \<Rightarrow> session_failure option" where
  "enter ctx lk st sid =
     (case ctx of
        Some err \<Rightarrow> Some (Session_Context err)
      | None \<Rightarrow> if \<not> validateSessionID sid then Some Invalid_Session else lockSession lk st sid)"

section \<open>The event log\<close>

definition valid_record :: "string \<Rightarrow> nat \<Rightarrow> event_record \<Rightarrow> bool" where
  "valid_record sid n r \<longleftrightarrow>
     sr_sequence r = of_nat (n + 1) \<and> sr_session r = sid \<and> sr_time r \<noteq> 0 \<and> et_type (sr_event r) \<noteq> []"

fun read_lines :: "string \<Rightarrow> event_record list \<Rightarrow> event_record option list \<Rightarrow> event_record list option" where
  "read_lines sid records [] = Some records"
| "read_lines sid records (l # ls) =
     (case l of
        None \<Rightarrow> None
      | Some r \<Rightarrow> if valid_record sid (length records) r then read_lines sid (records @ [r]) ls else None)"

definition readEventLog :: "string \<Rightarrow> session_log \<Rightarrow> event_record list option" where
  "readEventLog sid lg = read_lines sid [] (sl_lines lg)"

definition stored_record :: "event_record \<Rightarrow> event_record option" where
  "stored_record r = map_option (\<lambda>e. r\<lparr>sr_session := json_text (sr_session r), sr_event := e\<rparr>) (store_event (sr_event r))"

text \<open>A record is read again if its line nests no deeper than the decoder goes.\<close>

definition record_levels :: "event_record \<Rightarrow> nat" where
  "record_levels r = Suc (event_levels (sr_event r))"

definition line_of :: "event_record \<Rightarrow> event_record option" where
  "line_of r = (if record_levels r \<le> max_nesting_depth then Some r else None)"

definition append_record :: "append_outcome \<Rightarrow> event_record \<Rightarrow> session_log \<Rightarrow> session_log" where
  "append_record out r lg =
     (case out of
        Appended \<Rightarrow> lg\<lparr>sl_lines := sl_lines lg @ [line_of r]\<rparr>
      | Not_Synced \<Rightarrow> lg\<lparr>sl_lines := sl_lines lg @ [line_of r]\<rparr>
      | Cut_Short \<Rightarrow> lg\<lparr>sl_torn := True\<rparr>
      | Not_Written \<Rightarrow> lg)"

definition compacted_event :: "64 word \<Rightarrow> core_event \<Rightarrow> core_event" where
  "compacted_event n e =
     (case e of Core_Event t x m c i d r u f cs cm er s \<Rightarrow>
        if t = EventCompacted \<and> cs = 0 \<and> 1 < n then Core_Event t x m c i d r u f (n - 1) cm er s else e)"

text \<open>The record that follows the ones of the log.\<close>

definition next_record :: "string \<Rightarrow> instant \<Rightarrow> core_event \<Rightarrow> event_record list \<Rightarrow> event_record" where
  "next_record sid now e records = (let n = of_nat (length records + 1) in
     \<lparr>sr_sequence = n, sr_session = sid, sr_time = now, sr_event = compacted_event n e\<rparr>)"

text \<open>\<open>dir\<close> and \<open>readable\<close>: the directory could be made; the log could be read and its torn end, if any, cut off.\<close>

definition session_Append ::
  "(string \<Rightarrow> string) \<Rightarrow> ctx \<Rightarrow> lock_outcome \<Rightarrow> bool \<Rightarrow> bool \<Rightarrow> append_outcome \<Rightarrow> instant \<Rightarrow> string \<Rightarrow> core_event \<Rightarrow> session_store
     \<Rightarrow> (session_failure + event_record) \<times> session_store" where
  "session_Append sha ctx lk dir readable out now sid event st =
     (case enter ctx lk st sid of
        Some err \<Rightarrow> (Inl err, st)
      | None \<Rightarrow>
          if \<not> dir then (Inl Session_IO, st)
          else
            (let d = dir_of sha st sid; st1 = put_dir sha sid d st in
             if \<not> readable then (Inl Session_IO, st1)
             else
             case readEventLog sid (sd_log d) of
               None \<Rightarrow> (Inl Session_Invalid, st1)
             | Some records \<Rightarrow>
                   (let lg = (sd_log d)\<lparr>sl_torn := False\<rparr>;
                        r = next_record sid now event records in
                    case stored_record r of
                      None \<Rightarrow> (Inl Session_Invalid, put_dir sha sid (d\<lparr>sd_log := lg\<rparr>) st)
                    | Some r' \<Rightarrow>
                        (if out = Appended then Inr r else Inl Session_IO,
                         put_dir sha sid (d\<lparr>sd_log := append_record out r' lg\<rparr>) st))))"

definition session_Events ::
  "(string \<Rightarrow> string) \<Rightarrow> ctx \<Rightarrow> reading \<Rightarrow> lock_outcome \<Rightarrow> string \<Rightarrow> session_store \<Rightarrow> session_failure + event_record list" where
  "session_Events sha ctx rd lk sid st =
     (case enter ctx lk st sid of
        Some err \<Rightarrow> Inl err
      | None \<Rightarrow>
          if rd = Some Unread then Inl Session_IO
          else
          (case readEventLog sid (sd_log (dir_of sha st sid)) of
             None \<Rightarrow> Inl Session_Invalid
           | Some records \<Rightarrow> (case rd of Some (Ended_After err) \<Rightarrow> Inl (Session_Context err) | _ \<Rightarrow> Inr records)))"

section \<open>Snapshots\<close>

function fields_from :: "string \<Rightarrow> string \<Rightarrow> string list" where
  "fields_from word [] = (if word = [] then [] else [word])"
| "fields_from word (c # r) =
     (case first_prefix space_runes (c # r) of
        Some w \<Rightarrow> (if word = [] then [] else [word]) @ fields_from [] (drop (length w) (c # r))
      | None \<Rightarrow> fields_from (word @ [c]) r)"
  by pat_completeness auto
termination
proof (relation "measure (\<lambda>(_, s). length s)")
  fix word c r w
  assume "first_prefix space_runes (c # r) = Some w"
  then have "w \<noteq> []" using first_prefix_Some by blast
  then show "(([], drop (length w) (c # r)), (word, c # r)) \<in> measure (\<lambda>(_, s). length s)" by (cases w) auto
qed auto

definition Fields :: "string \<Rightarrow> string list" where
  "Fields s = fields_from [] s"

fun join_words :: "string list \<Rightarrow> string" where
  "join_words [] = []"
| "join_words [w] = w"
| "join_words (w # ws) = w @ '' '' @ join_words ws"

text \<open>The first runes of a text whose invalid bytes have been replaced.\<close>

fun take_runes :: "nat \<Rightarrow> string \<Rightarrow> string" where
  "take_runes 0 s = []"
| "take_runes (Suc n) s =
     (case decode_rune s of Some (_, k) \<Rightarrow> take k s @ take_runes n (drop k s) | None \<Rightarrow> [])"

definition MaxSessionSummaryRunes :: nat where
  "MaxSessionSummaryRunes = 160"

definition boundedSummary :: "(string \<Rightarrow> string) \<Rightarrow> string \<Rightarrow> string" where
  "boundedSummary redact s =
     (let v = redact (join_words (Fields s)) in
      if MaxSessionSummaryRunes < length (decode v)
      then take_runes (MaxSessionSummaryRunes - 1) (json_text v) @ [CHR 0xE2, CHR 0x80, CHR 0xA6]
      else v)"

definition snapshotSummary :: "(string \<Rightarrow> string) \<Rightarrow> chat_message list \<Rightarrow> string" where
  "snapshotSummary redact ms =
     (case find (\<lambda>m. cm_role m = RoleUser) ms of
        None \<Rightarrow> []
      | Some m \<Rightarrow> boundedSummary redact (join_words (map cb_text
          (filter (\<lambda>b. cb_type b = ContentText \<and> TrimSpace (cb_text b) \<noteq> []) (cm_content m)))))"

definition store_snapshot :: "session_snapshot \<Rightarrow> session_snapshot option" where
  "store_snapshot s = map_option (\<lambda>h. s\<lparr>sn_session := json_text (sn_session s), sn_history := h,
     sn_summary := json_text (sn_summary s)\<rparr>) (all_some (map store_message (sn_history s)))"

definition metadata_of :: "session_snapshot \<Rightarrow> snapshot_metadata" where
  "metadata_of s = \<lparr>sm_session = json_text (sn_session s), sm_last = sn_last s, sm_updated = sn_updated s,
     sm_count = int (length (sn_history s)), sm_summary = json_text (sn_summary s)\<rparr>"

definition written :: "write_outcome \<Rightarrow> 'a \<Rightarrow> 'a option \<Rightarrow> 'a option" where
  "written out v old = (if out = Not_Replaced_File then old else Some v)"

text \<open>\<open>prepared\<close>, \<open>replaced\<close>, \<open>meta\<close>, \<open>synced\<close>: the outcomes of the steps of \<open>SaveSnapshot\<close>.\<close>

definition SaveSnapshot ::
  "(string \<Rightarrow> string) \<Rightarrow> (string \<Rightarrow> string) \<Rightarrow> ctx \<Rightarrow> ctx \<Rightarrow> lock_outcome \<Rightarrow> bool \<Rightarrow> bool \<Rightarrow> bool \<Rightarrow> write_outcome \<Rightarrow> bool \<Rightarrow> instant
     \<Rightarrow> session_snapshot \<Rightarrow> session_store \<Rightarrow> session_failure option \<times> session_store" where
  "SaveSnapshot sha redact ctx ctx2 lk dir prepared replaced meta synced now snapshot st =
     (let sid = sn_session snapshot in
      case enter ctx lk st sid of
        Some err \<Rightarrow> (Some err, st)
      | None \<Rightarrow>
          if \<not> dir then (Some Session_IO, st)
          else
            (let d = dir_of sha st sid;
                 st1 = put_dir sha sid d st;
                 timed = (if sn_updated snapshot = 0 then snapshot\<lparr>sn_updated := now\<rparr> else snapshot);
                 s = timed\<lparr>sn_summary := (if sn_summary timed = [] then snapshotSummary redact (sn_history timed)
                       else boundedSummary redact (sn_summary timed))\<rparr> in
             case store_snapshot s of
               None \<Rightarrow> (Some Session_Invalid, st1)
             | Some file \<Rightarrow>
                 if \<not> prepared then (Some Session_IO, st1)
                 else
                   (case ctx2 of
                      Some err \<Rightarrow> (Some (Session_Context err), st1)
                    | None \<Rightarrow>
                        if \<not> replaced then (Some Session_IO, st1)
                        else (if meta = Written \<and> synced then None else Some Session_IO,
                              put_dir sha sid (d\<lparr>sd_snapshot := Some file,
                                sd_metadata := written meta (metadata_of s) (sd_metadata d)\<rparr>) st))))"

definition loadSnapshot :: "(string \<Rightarrow> string) \<Rightarrow> reading \<Rightarrow> string \<Rightarrow> session_store \<Rightarrow> session_failure + session_snapshot" where
  "loadSnapshot sha rd sid st =
     (if rd = Some Unread then Inl Session_IO
      else
      case sd_snapshot (dir_of sha st sid) of
        None \<Rightarrow> Inl ErrSessionNotFound
      | Some s \<Rightarrow>
          (case rd of
             Some (Ended_After err) \<Rightarrow> Inl (Session_Context err)
           | _ \<Rightarrow> if sn_session s \<noteq> sid \<or> sn_updated s = 0 then Inl Session_Invalid else Inr s))"

definition Resume ::
  "(string \<Rightarrow> string) \<Rightarrow> ctx \<Rightarrow> reading \<Rightarrow> lock_outcome \<Rightarrow> string \<Rightarrow> session_store \<Rightarrow> session_failure + session_snapshot" where
  "Resume sha ctx rd lk sid st =
     (case enter ctx lk st sid of Some err \<Rightarrow> Inl err | None \<Rightarrow> loadSnapshot sha rd sid st)"

definition SnapshotMetadata :: "(string \<Rightarrow> string) \<Rightarrow> ctx \<Rightarrow> reading \<Rightarrow> string \<Rightarrow> session_store \<Rightarrow> session_failure + snapshot_metadata" where
  "SnapshotMetadata sha ctx rd sid st =
     (case ctx of
        Some err \<Rightarrow> Inl (Session_Context err)
      | None \<Rightarrow>
          if \<not> validateSessionID sid then Inl Invalid_Session
          else if rd = Some Unread then Inl Session_IO
          else
            (case sd_metadata (dir_of sha st sid) of
               None \<Rightarrow> Inl ErrSessionNotFound
             | Some m \<Rightarrow>
                 (case rd of
                    Some (Ended_After err) \<Rightarrow> Inl (Session_Context err)
                  | _ \<Rightarrow>
                      if sm_session m \<noteq> sid \<or> sm_updated m = 0 \<or> sm_count m < 0 then Inl Session_Invalid else Inr m)))"

section \<open>Checkpoints and branches\<close>

definition cloneSnapshot :: "session_snapshot \<Rightarrow> session_snapshot" where
  "cloneSnapshot s = s\<lparr>sn_history := cloneSessionMessages (sn_history s)\<rparr>"

text \<open>Nanoseconds from the zero time to 1970.\<close>

definition unix_epoch :: instant where
  "unix_epoch = 62135596800 * 10 ^ 9"

definition decimal_text :: "int \<Rightarrow> string" where
  "decimal_text i = (case json_int i of JNum t \<Rightarrow> t | _ \<Rightarrow> [])"

definition checkpointID :: "(string \<Rightarrow> string) \<Rightarrow> string \<Rightarrow> string \<Rightarrow> 64 word \<Rightarrow> instant \<Rightarrow> string" where
  "checkpointID sha sid name sequence created =
     ''cp-'' @ take 24 (sha (sid @ [CHR 0x00] @ name @ [CHR 0x00] @ decimal_text (uint sequence) @ [CHR 0x00]
       @ decimal_text (wrap64 (created - unix_epoch))))"

definition hex_char :: "char \<Rightarrow> bool" where
  "hex_char c \<longleftrightarrow> code c \<in> {48..57} \<or> code c \<in> {65..70} \<or> code c \<in> {97..102}"

definition validCheckpointID :: "string \<Rightarrow> bool" where
  "validCheckpointID cid \<longleftrightarrow> HasPrefix cid ''cp-'' \<and> length cid = 27 \<and> list_all hex_char (drop 3 cid)"

definition valid_graph :: "string \<Rightarrow> session_graph \<Rightarrow> bool" where
  "valid_graph sid g \<longleftrightarrow> sg_version g = 1 \<and> sg_session g = sid
     \<and> list_all (\<lambda>c. ck_session c = sid \<and> validCheckpointID (ck_id c) \<and> ck_created c \<noteq> 0) (sg_checkpoints g)
     \<and> distinct (map ck_id (sg_checkpoints g))"

definition new_graph :: "string \<Rightarrow> session_graph" where
  "new_graph sid = \<lparr>sg_version = 1, sg_session = sid, sg_parent = [], sg_parent_checkpoint = [], sg_checkpoints = []\<rparr>"

definition loadGraph :: "(string \<Rightarrow> string) \<Rightarrow> string \<Rightarrow> session_store \<Rightarrow> session_failure + session_graph" where
  "loadGraph sha sid st =
     (case sd_graph (dir_of sha st sid) of
        None \<Rightarrow> Inr (new_graph sid)
      | Some g \<Rightarrow> if valid_graph sid g then Inr g else Inl Session_Invalid)"

definition read_graph :: "reading \<Rightarrow> session_failure + 'a \<Rightarrow> session_failure + 'a" where
  "read_graph rd r = (if rd = Some Graph_Unread then Inl Session_IO else r)"

text \<open>A graph as it is written and read back.\<close>

definition stored_checkpoint :: "checkpoint \<Rightarrow> checkpoint" where
  "stored_checkpoint c = c\<lparr>ck_id := json_text (ck_id c), ck_session := json_text (ck_session c), ck_name := json_text (ck_name c)\<rparr>"

definition stored_graph :: "session_graph \<Rightarrow> session_graph" where
  "stored_graph g = g\<lparr>sg_session := json_text (sg_session g), sg_parent := json_text (sg_parent g),
     sg_parent_checkpoint := json_text (sg_parent_checkpoint g), sg_checkpoints := map stored_checkpoint (sg_checkpoints g)\<rparr>"

text \<open>\<open>removed\<close>: the file of a checkpoint that could not be entered in the graph could be removed.\<close>

definition CreateCheckpoint ::
  "(string \<Rightarrow> string) \<Rightarrow> ctx \<Rightarrow> reading \<Rightarrow> lock_outcome \<Rightarrow> write_outcome \<Rightarrow> write_outcome \<Rightarrow> bool \<Rightarrow> instant \<Rightarrow> string \<Rightarrow> string
     \<Rightarrow> session_store \<Rightarrow> (session_failure + checkpoint) \<times> session_store" where
  "CreateCheckpoint sha ctx rd lk file graph removed now sid name0 st =
     (let name = TrimSpace name0 in
      if ctx = None \<and> validateSessionID sid \<and> (256 < length name \<or> \<not> valid_utf8 name)
      then (Inl Invalid_Checkpoint_Name, st)
      else
        (case enter ctx lk st sid of
           Some err \<Rightarrow> (Inl err, st)
         | None \<Rightarrow>
             (case loadSnapshot sha rd sid st of
                Inl err \<Rightarrow> (Inl err, st)
              | Inr s \<Rightarrow>
                  (case read_graph rd (loadGraph sha sid st) of
                     Inl err \<Rightarrow> (Inl err, st)
                   | Inr g \<Rightarrow>
                       (let d = dir_of sha st sid;
                            c = \<lparr>ck_id = checkpointID sha sid name (sn_last s) now, ck_session = sid, ck_name = name,
                                  ck_sequence = sn_last s, ck_created = now\<rparr>;
                            g' = g\<lparr>sg_checkpoints := sg_checkpoints g @ [c]\<rparr> in
                        case store_snapshot (cloneSnapshot s) of
                          None \<Rightarrow> (Inl Session_Invalid, st)
                        | Some copy \<Rightarrow>
                            (let d1 = d\<lparr>sd_checkpoints := (sd_checkpoints d)
                                   (ck_id c := written file copy (sd_checkpoints d (ck_id c)))\<rparr> in
                             if file \<noteq> Written then (Inl Session_IO, put_dir sha sid d1 st)
                             else
                               (let d2 = d1\<lparr>sd_graph := written graph (stored_graph g') (sd_graph d)\<rparr> in
                                if graph = Written then (Inr c, put_dir sha sid d2 st)
                                else
                                  (Inl Session_IO, put_dir sha sid
                                    (if removed then d2\<lparr>sd_checkpoints := (sd_checkpoints d2)(ck_id c := None)\<rparr> else d2)
                                    st))))))))"

definition ListCheckpoints ::
  "(string \<Rightarrow> string) \<Rightarrow> ctx \<Rightarrow> reading \<Rightarrow> lock_outcome \<Rightarrow> string \<Rightarrow> session_store \<Rightarrow> session_failure + checkpoint list" where
  "ListCheckpoints sha ctx rd lk sid st =
     (case enter ctx lk st sid of
        Some err \<Rightarrow> Inl err
      | None \<Rightarrow> (case read_graph rd (loadGraph sha sid st) of Inl err \<Rightarrow> Inl err | Inr g \<Rightarrow> Inr (sg_checkpoints g)))"

definition findCheckpoint :: "(string \<Rightarrow> string) \<Rightarrow> string \<Rightarrow> string \<Rightarrow> session_store \<Rightarrow> session_failure + checkpoint" where
  "findCheckpoint sha sid cid st =
     (case loadGraph sha sid st of
        Inl err \<Rightarrow> Inl err
      | Inr g \<Rightarrow>
          (case find (\<lambda>c. ck_id c = cid) (sg_checkpoints g) of None \<Rightarrow> Inl ErrCheckpointNotFound | Some c \<Rightarrow> Inr c))"

definition loadCheckpointSnapshot ::
  "(string \<Rightarrow> string) \<Rightarrow> reading \<Rightarrow> string \<Rightarrow> string \<Rightarrow> session_store \<Rightarrow> session_failure + session_snapshot" where
  "loadCheckpointSnapshot sha rd sid cid st =
     (if rd = Some Unread then Inl Session_IO
      else
      case sd_checkpoints (dir_of sha st sid) cid of
        None \<Rightarrow> Inl ErrCheckpointNotFound
      | Some s \<Rightarrow>
          (case rd of
             Some (Ended_After err) \<Rightarrow> Inl (Session_Context err)
           | _ \<Rightarrow> if sn_session s \<noteq> sid then Inl Session_Invalid else Inr (cloneSnapshot s)))"

definition Rewind ::
  "(string \<Rightarrow> string) \<Rightarrow> ctx \<Rightarrow> reading \<Rightarrow> lock_outcome \<Rightarrow> string \<Rightarrow> string \<Rightarrow> session_store \<Rightarrow> session_failure + session_snapshot" where
  "Rewind sha ctx rd lk sid cid st =
     (case enter ctx lk st sid of
        Some err \<Rightarrow> Inl err
      | None \<Rightarrow>
          (case read_graph rd (findCheckpoint sha sid cid st) of
             Inl err \<Rightarrow> Inl err
           | Inr _ \<Rightarrow> loadCheckpointSnapshot sha rd sid cid st))"

text \<open>What is left of a directory that should be removed.\<close>

datatype remove_outcome = Removed | Left_Over bool bool bool bool "string set"

fun left_over :: "remove_outcome \<Rightarrow> session_dir \<Rightarrow> session_dir option" where
  "left_over Removed d = None"
| "left_over (Left_Over lg sn md gr cks) d = Some \<lparr>sd_log = (if lg then sd_log d else sd_log empty_dir),
     sd_snapshot = (if sn then sd_snapshot d else None), sd_metadata = (if md then sd_metadata d else None),
     sd_graph = (if gr then sd_graph d else None), sd_checkpoints = (\<lambda>c. if c \<in> cks then sd_checkpoints d c else None)\<rparr>"

definition remove_dir :: "(string \<Rightarrow> string) \<Rightarrow> remove_outcome \<Rightarrow> string \<Rightarrow> session_store \<Rightarrow> session_store" where
  "remove_dir sha out sid st = st\<lparr>st_dirs := (\<lambda>k. if k = sessionStorageKey sha sid
     then (case st_dirs st k of None \<Rightarrow> None | Some d \<Rightarrow> left_over out d) else st_dirs st k)\<rparr>"

text \<open>The files of a new branch, from the snapshot of the checkpoint.\<close>

definition branch_files ::
  "(string \<Rightarrow> string) \<Rightarrow> bool \<Rightarrow> write_outcome \<Rightarrow> write_outcome \<Rightarrow> remove_outcome \<Rightarrow> instant \<Rightarrow> string \<Rightarrow> string \<Rightarrow> string
     \<Rightarrow> session_snapshot \<Rightarrow> session_store \<Rightarrow> (session_failure + branch_info) \<times> session_store" where
  "branch_files sha dir file graph removed now sid cid branch s0 st =
     (if \<not> dir then (Inl Session_IO, st)
      else
        (case store_snapshot (s0\<lparr>sn_session := branch, sn_last := 0\<rparr>) of
           None \<Rightarrow> (Inl Session_Invalid, put_dir sha branch empty_dir st)
         | Some s \<Rightarrow>
             (let d = empty_dir\<lparr>sd_snapshot := written file s None\<rparr> in
              if file \<noteq> Written then (Inl Session_IO, put_dir sha branch d st)
              else
                (let g = stored_graph ((new_graph branch)\<lparr>sg_parent := sid, sg_parent_checkpoint := cid\<rparr>);
                     st1 = put_dir sha branch (d\<lparr>sd_graph := written graph g None\<rparr>) st in
                 if graph = Written
                 then (Inr \<lparr>br_session = branch, br_parent = sid, br_checkpoint = cid, br_created = now\<rparr>, st1)
                 else (Inl Session_IO, remove_dir sha removed branch st1)))))"

text \<open>
  \<open>stat\<close>: the directory of the branch could be looked for. A session that is not leased and its own branch are
  locked twice, which fails.
\<close>

definition Branch ::
  "(string \<Rightarrow> string) \<Rightarrow> ctx \<Rightarrow> reading \<Rightarrow> lock_outcome \<Rightarrow> lock_outcome \<Rightarrow> bool \<Rightarrow> bool \<Rightarrow> write_outcome \<Rightarrow> write_outcome
     \<Rightarrow> remove_outcome \<Rightarrow> instant \<Rightarrow> string \<Rightarrow> string \<Rightarrow> string \<Rightarrow> session_store \<Rightarrow> (session_failure + branch_info) \<times> session_store" where
  "Branch sha ctx rd lk lk2 stat dir file graph removed now sid cid branch st =
     (if ctx = None \<and> \<not> validateSessionID branch then (Inl Invalid_Session, st)
      else
        (case enter ctx lk st sid of
           Some err \<Rightarrow> (Inl err, st)
         | None \<Rightarrow>
             (case lockSession (if branch = sid then Lock_Held else lk2) st branch of
                Some err \<Rightarrow> (Inl err, st)
              | None \<Rightarrow>
                  (case read_graph rd (findCheckpoint sha sid cid st) of
                     Inl err \<Rightarrow> (Inl err, st)
                   | Inr c \<Rightarrow>
                       if \<not> stat then (Inl Session_IO, st)
                       else if st_dirs st (sessionStorageKey sha branch) \<noteq> None then (Inl Branch_Exists, st)
                       else
                         (case loadCheckpointSnapshot sha rd sid (ck_id c) st of
                            Inl err \<Rightarrow> (Inl err, st)
                          | Inr s0 \<Rightarrow> branch_files sha dir file graph removed now sid (ck_id c) branch s0 st)))))"

definition Delete ::
  "(string \<Rightarrow> string) \<Rightarrow> ctx \<Rightarrow> ctx \<Rightarrow> lock_outcome \<Rightarrow> remove_outcome \<Rightarrow> string \<Rightarrow> session_store \<Rightarrow> session_failure option \<times> session_store" where
  "Delete sha ctx ctx2 lk out sid st =
     (case enter ctx lk st sid of
        Some err \<Rightarrow> (Some err, st)
      | None \<Rightarrow>
          (case ctx2 of
             Some err \<Rightarrow> (Some (Session_Context err), st)
           | None \<Rightarrow> (if out = Removed then None else Some Session_IO, remove_dir sha out sid st)))"

end
