(* ===== verification/Session_Properties.thy ===== *)
theory Session_Properties
  imports Session_Store
begin

text \<open>
  The session store over all runs: sessions do not touch each other, and the event log only grows and is replayed in
  order. The elimination rules say what each operation does to the store.
\<close>

section \<open>Runs\<close>

datatype session_op =
    Append_Op ctx lock_outcome bool bool append_outcome instant string core_event
  | Save_Op ctx ctx lock_outcome bool bool bool write_outcome bool instant session_snapshot
  | Checkpoint_Op ctx reading lock_outcome write_outcome write_outcome bool instant string string
  | Branch_Op ctx reading lock_outcome lock_outcome bool bool write_outcome write_outcome remove_outcome instant string string string
  | Delete_Op ctx ctx lock_outcome remove_outcome string
  | Lease_Op lock_outcome string
  | Release_Op string

fun session_step :: "(string \<Rightarrow> string) \<Rightarrow> (string \<Rightarrow> string) \<Rightarrow> session_op \<Rightarrow> session_store \<Rightarrow> session_store" where
  "session_step sha redact (Append_Op ctx lk dir tr out now sid e) st = snd (session_Append sha ctx lk dir tr out now sid e st)"
| "session_step sha redact (Save_Op ctx ctx2 lk dir p r m s now sn) st =
     snd (SaveSnapshot sha redact ctx ctx2 lk dir p r m s now sn st)"
| "session_step sha redact (Checkpoint_Op ctx ctx2 lk f g r now sid name) st =
     snd (CreateCheckpoint sha ctx ctx2 lk f g r now sid name st)"
| "session_step sha redact (Branch_Op ctx ctx2 lk lk2 stat dir f g r now sid cid branch) st =
     snd (Branch sha ctx ctx2 lk lk2 stat dir f g r now sid cid branch st)"
| "session_step sha redact (Delete_Op ctx ctx2 lk out sid) st = snd (Delete sha ctx ctx2 lk out sid st)"
| "session_step sha redact (Lease_Op lk sid) st = snd (AcquireLease lk sid st)"
| "session_step sha redact (Release_Op sid) st = close_lease sid st"

definition no_sessions :: session_store where
  "no_sessions = \<lparr>st_dirs = Map.empty, st_leases = {}\<rparr>"

text \<open>The session whose directory an operation may change.\<close>

fun op_target :: "session_op \<Rightarrow> string option" where
  "op_target (Append_Op ctx lk dir tr out now sid e) = Some sid"
| "op_target (Save_Op ctx ctx2 lk dir p r m s now sn) = Some (sn_session sn)"
| "op_target (Checkpoint_Op ctx ctx2 lk f g r now sid name) = Some sid"
| "op_target (Branch_Op ctx ctx2 lk lk2 stat dir f g r now sid cid branch) = Some branch"
| "op_target (Delete_Op ctx ctx2 lk out sid) = Some sid"
| "op_target (Lease_Op lk sid) = None"
| "op_target (Release_Op sid) = None"

definition elsewhere :: "(string \<Rightarrow> string) \<Rightarrow> string \<Rightarrow> session_op \<Rightarrow> bool" where
  "elsewhere sha sid op \<longleftrightarrow> (case op_target op of None \<Rightarrow> True | Some t \<Rightarrow> sha t \<noteq> sha sid)"

lemma put_dir_at [simp]:
  "st_dirs (put_dir sha sid d st) k = (if k = sha sid then Some d else st_dirs st k)"
  by (simp add: put_dir_def sessionStorageKey_def)

lemma remove_dir_at: "k \<noteq> sha sid \<Longrightarrow> st_dirs (remove_dir sha out sid st) k = st_dirs st k"
  by (simp add: remove_dir_def sessionStorageKey_def)

lemma Append_cases:
  obtains (refused) err where "session_Append sha ctx lk dir tr out now sid e st = (Inl err, st)"
    | (unreadable) "session_Append sha ctx lk dir tr out now sid e st
        = (Inl Session_Invalid, put_dir sha sid (dir_of sha st sid) st)" "readEventLog sid (sd_log (dir_of sha st sid)) = None"
    | (kept) err lg where "session_Append sha ctx lk dir tr out now sid e st
        = (Inl err, put_dir sha sid ((dir_of sha st sid)\<lparr>sd_log := lg\<rparr>) st)" "sl_lines lg = sl_lines (sd_log (dir_of sha st sid))"
    | (tried) rs r r' lg where "session_Append sha ctx lk dir tr out now sid e st
        = (if out = Appended then Inr r else Inl Session_IO, put_dir sha sid ((dir_of sha st sid)\<lparr>sd_log := append_record out r' lg\<rparr>) st)"
        "readEventLog sid (sd_log (dir_of sha st sid)) = Some rs" "sl_lines lg = sl_lines (sd_log (dir_of sha st sid))"
        "r = next_record sid now e rs" "stored_record r = Some r'" "enter ctx lk st sid = None"
proof (cases "enter ctx lk st sid = None \<and> dir")
  case False
  then have "\<exists>err. session_Append sha ctx lk dir tr out now sid e st = (Inl err, st)"
    by (auto simp: session_Append_def split: option.splits)
  then show ?thesis using refused by blast
next
  case entered: True
  let ?d = "dir_of sha st sid"
  have same: "?d\<lparr>sd_log := sd_log ?d\<rparr> = ?d" by simp
  show ?thesis
  proof (cases tr)
    case False
    then have "session_Append sha ctx lk dir tr out now sid e st = (Inl Session_IO, put_dir sha sid (?d\<lparr>sd_log := sd_log ?d\<rparr>) st)"
      using entered unfolding same by (simp add: session_Append_def Let_def)
    then show ?thesis using kept by blast
  next
    case readable: True
    show ?thesis
    proof (cases "readEventLog sid (sd_log ?d)")
      case None
      then show ?thesis using entered readable unreadable by (simp add: session_Append_def Let_def)
    next
      case (Some rs)
      define r where "r = next_record sid now e rs"
      note a = session_Append_def Let_def r_def
      show ?thesis
      proof (cases "stored_record r")
        case None
        then have "session_Append sha ctx lk dir tr out now sid e st
            = (Inl Session_Invalid, put_dir sha sid (?d\<lparr>sd_log := (sd_log ?d)\<lparr>sl_torn := False\<rparr>\<rparr>) st)"
          using entered readable Some by (simp add: a)
        then show ?thesis by (rule kept) simp
      next
        case (Some r')
        then show ?thesis
          using entered readable \<open>readEventLog sid (sd_log ?d) = Some rs\<close>
          by (intro tried [of r r' "(sd_log ?d)\<lparr>sl_torn := False\<rparr>" rs]) (auto simp: a)
      qed
    qed
  qed
qed

lemma enter_valid: "enter ctx lk st sid = None \<Longrightarrow> ctx = None \<and> validateSessionID sid"
  by (auto simp: enter_def split: option.splits if_splits)

lemma Branch_cases:
  obtains (refused) err where "Branch sha ctx ctx2 lk lk2 stat dir f g r now sid cid branch st = (Inl err, st)"
    | (files) c s0 where "Branch sha ctx ctx2 lk lk2 stat dir f g r now sid cid branch st
        = branch_files sha dir f g r now sid (ck_id c) branch s0 st"
        "validateSessionID branch" "st_dirs st (sha branch) = None" "findCheckpoint sha sid cid st = Inr c"
        "loadCheckpointSnapshot sha ctx2 sid (ck_id c) st = Inr s0" "enter ctx lk st sid = None"
proof -
  let ?b = "Branch sha ctx ctx2 lk lk2 stat dir f g r now sid cid branch st"
  show ?thesis
  proof (cases "\<exists>err. ?b = (Inl err, st)")
    case True
    then show ?thesis using refused by blast
  next
    case False
    have no: "?b \<noteq> (Inl err, st)" for err using False by blast
    have b: "ctx = None \<longrightarrow> validateSessionID branch"
    proof (rule impI, rule ccontr)
      assume "ctx = None" "\<not> validateSessionID branch"
      then have "?b = (Inl Invalid_Session, st)" by (simp add: Branch_def)
      then show False using no by simp
    qed
    have e: "enter ctx lk st sid = None"
    proof (rule ccontr)
      assume "enter ctx lk st sid \<noteq> None"
      then obtain err where "enter ctx lk st sid = Some err" by blast
      then have "?b = (Inl err, st)" using b by (auto simp: Branch_def)
      then show False using no by simp
    qed
    then have v: "validateSessionID branch" using b enter_valid [OF e] by simp
    have l: "lockSession (if branch = sid then Lock_Held else lk2) st branch = None"
    proof (cases "lockSession (if branch = sid then Lock_Held else lk2) st branch")
      case (Some err)
      then show ?thesis using no [of err] e v by (simp add: Branch_def)
    qed
    obtain c where c: "read_graph ctx2 (findCheckpoint sha sid cid st) = Inr c"
    proof (cases "read_graph ctx2 (findCheckpoint sha sid cid st)")
      case (Inl err)
      then show ?thesis using no [of err] e v l by (simp add: Branch_def)
    qed
    then have found: "findCheckpoint sha sid cid st = Inr c" by (simp add: read_graph_def split: if_splits)
    have n: "stat" "st_dirs st (sha branch) = None"
      using no [of Session_IO] no [of Branch_Exists] e v l c by (auto simp: Branch_def sessionStorageKey_def split: if_splits)
    obtain s0 where "loadCheckpointSnapshot sha ctx2 sid (ck_id c) st = Inr s0"
    proof (cases "loadCheckpointSnapshot sha ctx2 sid (ck_id c) st")
      case (Inl err)
      then show ?thesis using no [of err] e v l c n by (simp add: Branch_def sessionStorageKey_def)
    qed
    then show ?thesis using e v l c n found by (intro files [of c s0]) (simp_all add: Branch_def sessionStorageKey_def)
  qed
qed

lemma session_dir_swap: "d\<lparr>sd_graph := y, sd_checkpoints := x\<rparr> = d\<lparr>sd_checkpoints := x, sd_graph := y\<rparr>"
  by (cases d) simp

lemma Checkpoint_cases:
  obtains (refused) err where "CreateCheckpoint sha ctx ctx2 lk f gr rm now sid name st = (Inl err, st)"
    | (tried) s g copy c x y where
      "loadSnapshot sha None sid st = Inr s" "loadGraph sha sid st = Inr g" "store_snapshot (cloneSnapshot s) = Some copy"
      "c = \<lparr>ck_id = checkpointID sha sid (TrimSpace name) (sn_last s) now, ck_session = sid, ck_name = TrimSpace name,
         ck_sequence = sn_last s, ck_created = now\<rparr>"
      "snd (CreateCheckpoint sha ctx ctx2 lk f gr rm now sid name st)
         = put_dir sha sid ((dir_of sha st sid)\<lparr>sd_checkpoints := (sd_checkpoints (dir_of sha st sid))(ck_id c := x), sd_graph := y\<rparr>) st"
      "y = sd_graph (dir_of sha st sid) \<or> y = Some (stored_graph (g\<lparr>sg_checkpoints := sg_checkpoints g @ [c]\<rparr>))"
      "fst (CreateCheckpoint sha ctx ctx2 lk f gr rm now sid name st) \<in> range Inl
         \<or> fst (CreateCheckpoint sha ctx ctx2 lk f gr rm now sid name st) = Inr c \<and> x = Some copy
           \<and> y = Some (stored_graph (g\<lparr>sg_checkpoints := sg_checkpoints g @ [c]\<rparr>))"
      "validateSessionID sid" "valid_utf8 (TrimSpace name)"
proof -
  let ?r = "CreateCheckpoint sha ctx ctx2 lk f gr rm now sid name st" and ?d = "dir_of sha st sid"
  show ?thesis
  proof (cases "\<exists>err. ?r = (Inl err, st)")
    case True
    then show ?thesis using refused by blast
  next
    case False
    have no: "?r \<noteq> (Inl err, st)" for err using False by blast
    have e: "enter ctx lk st sid = None"
    proof (rule ccontr)
      assume "enter ctx lk st sid \<noteq> None"
      then obtain err where "enter ctx lk st sid = Some err" by blast
      moreover have "\<exists>err. ?r = (Inl err, st)"
        using calculation by (cases "ctx = None \<and> validateSessionID sid \<and> (256 < length (TrimSpace name) \<or> \<not> valid_utf8 (TrimSpace name))")
          (simp_all add: CreateCheckpoint_def Let_def)
      ultimately show False using no by blast
    qed
    then have v: "ctx = None" "validateSessionID sid" using enter_valid by blast+
    have n: "\<not> (256 < length (TrimSpace name) \<or> \<not> valid_utf8 (TrimSpace name))"
    proof
      assume "256 < length (TrimSpace name) \<or> \<not> valid_utf8 (TrimSpace name)"
      then have "?r = (Inl Invalid_Checkpoint_Name, st)" using v by (simp add: CreateCheckpoint_def Let_def)
      then show False using no by blast
    qed
    obtain s where s: "loadSnapshot sha ctx2 sid st = Inr s"
    proof (cases "loadSnapshot sha ctx2 sid st")
      case (Inl err)
      then show ?thesis using no [of err] e n by (simp add: CreateCheckpoint_def Let_def)
    qed
    then have s0: "loadSnapshot sha None sid st = Inr s"
      by (auto simp: loadSnapshot_def split: option.splits if_splits read_stop.splits)
    obtain g where read: "read_graph ctx2 (loadGraph sha sid st) = Inr g"
    proof (cases "read_graph ctx2 (loadGraph sha sid st)")
      case (Inl err)
      then show ?thesis using no [of err] e n s by (simp add: CreateCheckpoint_def Let_def)
    qed
    then have g: "loadGraph sha sid st = Inr g" by (simp add: read_graph_def split: if_splits)
    obtain copy where copy: "store_snapshot (cloneSnapshot s) = Some copy"
    proof (cases "store_snapshot (cloneSnapshot s)")
      case None
      then show ?thesis using no [of Session_Invalid] e n s read by (simp add: CreateCheckpoint_def Let_def)
    qed
    define c where "c = \<lparr>ck_id = checkpointID sha sid (TrimSpace name) (sn_last s) now, ck_session = sid, ck_name = TrimSpace name,
         ck_sequence = sn_last s, ck_created = now\<rparr>"
    define g' where "g' = stored_graph (g\<lparr>sg_checkpoints := sg_checkpoints g @ [c]\<rparr>)"
    define d1 where "d1 = ?d\<lparr>sd_checkpoints := (sd_checkpoints ?d)(ck_id c := written f copy (sd_checkpoints ?d (ck_id c)))\<rparr>"
    define d2 where "d2 = d1\<lparr>sd_graph := written gr g' (sd_graph ?d)\<rparr>"
    have r: "?r = (if f \<noteq> Written then (Inl Session_IO, put_dir sha sid d1 st)
        else if gr = Written then (Inr c, put_dir sha sid d2 st)
        else (Inl Session_IO, put_dir sha sid (if rm then d2\<lparr>sd_checkpoints := (sd_checkpoints d2)(ck_id c := None)\<rparr> else d2) st))"
      using e n s read copy by (simp add: CreateCheckpoint_def Let_def c_def d1_def d2_def g'_def)
    show ?thesis
    proof (cases "f = Written")
      case False
      show ?thesis
        by (rule tried [OF s0 g copy c_def, where x = "written f copy (sd_checkpoints ?d (ck_id c))" and y = "sd_graph ?d"])
          (use False r v n in \<open>simp_all add: d1_def\<close>)
    next
      case True
      show ?thesis
        by (rule tried [OF s0 g copy c_def, where x = "if gr = Written \<or> \<not> rm then Some copy else None" and y = "written gr g' (sd_graph ?d)"])
          (use True r v n in \<open>auto simp: d1_def d2_def g'_def written_def session_dir_swap\<close>)
    qed
  qed
qed

definition snapshot_frame :: "(string \<Rightarrow> string) \<Rightarrow> string \<Rightarrow> session_store \<Rightarrow> session_store \<Rightarrow> bool" where
  "snapshot_frame sha sid st st' \<longleftrightarrow>
     st' = st \<or> (\<exists>x y. st' = put_dir sha sid ((dir_of sha st sid)\<lparr>sd_snapshot := x, sd_metadata := y\<rparr>) st)"

lemma snapshot_frame_intros:
  "snapshot_frame sha sid st st"
  "snapshot_frame sha sid st (put_dir sha sid ((dir_of sha st sid)\<lparr>sd_snapshot := x, sd_metadata := y\<rparr>) st)"
  by (auto simp: snapshot_frame_def)

lemma snapshot_frame_same: "snapshot_frame sha sid st (put_dir sha sid (dir_of sha st sid) st)"
  unfolding snapshot_frame_def
  by (intro disjI2 exI [of _ "sd_snapshot (dir_of sha st sid)"] exI [of _ "sd_metadata (dir_of sha st sid)"]) simp

lemma Save_frame: "snapshot_frame sha (sn_session sn) st (snd (SaveSnapshot sha redact ctx ctx2 lk dir p r m s now sn st))"
  by (simp add: SaveSnapshot_def Let_def snapshot_frame_intros snapshot_frame_same split: option.split)

lemma Save_cases:
  obtains "snd (SaveSnapshot sha redact ctx ctx2 lk dir p r m s now sn st) = st"
    | x y where "snd (SaveSnapshot sha redact ctx ctx2 lk dir p r m s now sn st)
        = put_dir sha (sn_session sn) ((dir_of sha st (sn_session sn))\<lparr>sd_snapshot := x, sd_metadata := y\<rparr>) st"
  using Save_frame [of sha sn st redact ctx ctx2 lk dir p r m s now] unfolding snapshot_frame_def by blast

lemma branch_files_at: "k \<noteq> sha branch \<Longrightarrow> st_dirs (snd (branch_files sha dir f g r now sid cid branch s0 st)) k = st_dirs st k"
  by (cases "store_snapshot (s0\<lparr>sn_session := branch, sn_last := 0\<rparr>)") (simp_all add: branch_files_def Let_def remove_dir_at)

text \<open>An operation leaves every other session's directory alone.\<close>

lemma step_elsewhere:
  assumes "elsewhere sha sid op"
  shows "st_dirs (session_step sha redact op st) (sha sid) = st_dirs st (sha sid)"
proof (cases op)
  case (Append_Op ctx lk dir tr out now t e)
  then have "sha t \<noteq> sha sid" using assms by (simp add: elsewhere_def)
  then show ?thesis
    using Append_Op by (cases rule: Append_cases [of sha ctx lk dir tr out now t e st]) simp_all
next
  case (Save_Op ctx ctx2 lk dir p r m s now sn)
  then have "sha (sn_session sn) \<noteq> sha sid" using assms by (simp add: elsewhere_def)
  then show ?thesis unfolding Save_Op session_step.simps
    by (cases rule: Save_cases [of sha redact ctx ctx2 lk dir p r m s now sn st]) simp_all
next
  case (Checkpoint_Op ctx ctx2 lk f g r now t name)
  then have "sha t \<noteq> sha sid" using assms by (simp add: elsewhere_def)
  then show ?thesis unfolding Checkpoint_Op session_step.simps
    by (cases rule: Checkpoint_cases [of sha ctx ctx2 lk f g r now t name st]) simp_all
next
  case (Branch_Op ctx ctx2 lk lk2 stat dir f g r now t cid branch)
  then have "sha branch \<noteq> sha sid" using assms by (simp add: elsewhere_def)
  then have "sha sid \<noteq> sha branch" by simp
  then show ?thesis
    unfolding Branch_Op session_step.simps
    by (cases rule: Branch_cases [of sha ctx ctx2 lk lk2 stat dir f g r now t cid branch st]) (simp_all add: branch_files_at)
next
  case (Delete_Op ctx ctx2 lk out t)
  then have "sha t \<noteq> sha sid" using assms by (simp add: elsewhere_def)
  then show ?thesis by (simp add: Delete_Op Delete_def remove_dir_at split: option.split)
qed (simp_all add: AcquireLease_def close_lease_def split: lock_outcome.split)

lemma dir_of_cong: "st_dirs st (sha sid) = st_dirs st' (sha sid) \<Longrightarrow> dir_of sha st sid = dir_of sha st' sid"
  by (simp add: dir_of_def sessionStorageKey_def)

lemma dir_of_put [simp]: "dir_of sha (put_dir sha sid d st) sid = d"
  by (simp add: dir_of_def sessionStorageKey_def)

section \<open>The event log\<close>

lemma read_lines_append:
  "read_lines sid records (ls @ [l]) = (case read_lines sid records ls of None \<Rightarrow> None | Some rs \<Rightarrow> read_lines sid rs [l])"
  by (induction ls arbitrary: records) (auto split: option.split)

lemma read_lines_values: "read_lines sid records ls = Some rs \<Longrightarrow> rs = records @ map the ls"
proof (induction ls arbitrary: records)
  case (Cons l ls)
  then obtain r where "l = Some r" "read_lines sid (records @ [r]) ls = Some rs" by (auto split: option.splits if_splits)
  then show ?case using Cons.IH by fastforce
qed simp

lemma read_lines_valid:
  "read_lines sid records ls = Some rs \<Longrightarrow> length records \<le> i \<Longrightarrow> i < length rs \<Longrightarrow> valid_record sid i (rs ! i)"
proof (induction ls arbitrary: records)
  case (Cons l ls)
  obtain r where l: "l = Some r" "valid_record sid (length records) r" "read_lines sid (records @ [r]) ls = Some rs"
    using Cons.prems(1) by (auto split: option.splits if_splits)
  have rs: "rs = (records @ [r]) @ map the ls" using read_lines_values [OF l(3)] .
  show ?case
  proof (cases "i = length records")
    case True
    then show ?thesis using l(2) rs by (simp add: nth_append)
  next
    case False
    then show ?thesis using Cons.IH [OF l(3)] Cons.prems(2,3) by simp
  qed
qed simp

lemma et_type_compacted [simp]: "et_type (compacted_event n e) = et_type e"
  by (cases e) (simp add: compacted_event_def)

lemma store_event_type: "store_event e = Some e' \<Longrightarrow> et_type e' = json_text (et_type e)"
  by (cases e) (auto split: option.splits)

lemma stored_next:
  assumes "stored_record (next_record sid now e rs) = Some r'" "valid_utf8 sid" "now \<noteq> 0" "et_type e \<noteq> []"
  shows "valid_record sid (length rs) r'"
  using assms
  by (auto simp: stored_record_def next_record_def Let_def valid_record_def json_text_valid dest!: store_event_type)

text \<open>
  What runs of the session may contain for its log to stay readable: no event without a type or whose record nests
  deeper than the decoder goes, no reading of the clock at the zero time, no deletion of the session, and no other
  session with the same digest.
\<close>

definition readable_event :: "core_event \<Rightarrow> bool" where
  "readable_event e \<longleftrightarrow> et_type e \<noteq> []
     \<and> (case store_event e of None \<Rightarrow> True | Some e' \<Rightarrow> Suc (event_levels e') \<le> max_nesting_depth)"

definition orderly :: "(string \<Rightarrow> string) \<Rightarrow> string \<Rightarrow> session_op \<Rightarrow> bool" where
  "orderly sha sid op \<longleftrightarrow> elsewhere sha sid op \<or> op_target op = Some sid \<and>
     (case op of
        Append_Op ctx lk dir tr out now t e \<Rightarrow> now \<noteq> 0 \<and> readable_event e
      | Delete_Op ctx ctx2 lk out t \<Rightarrow> False
      | _ \<Rightarrow> True)"

definition session_records :: "(string \<Rightarrow> string) \<Rightarrow> string \<Rightarrow> session_store \<Rightarrow> event_record list option" where
  "session_records sha sid st = readEventLog sid (sd_log (dir_of sha st sid))"

definition log_kept :: "(string \<Rightarrow> string) \<Rightarrow> string \<Rightarrow> session_store \<Rightarrow> session_store \<Rightarrow> bool" where
  "log_kept sha sid st st' \<longleftrightarrow> (\<forall>rs. session_records sha sid st = Some rs \<longrightarrow> (\<exists>more. session_records sha sid st' = Some (rs @ more)))"

lemma log_kept_same: "sl_lines (sd_log (dir_of sha st' sid)) = sl_lines (sd_log (dir_of sha st sid)) \<Longrightarrow> log_kept sha sid st st'"
  by (simp add: log_kept_def session_records_def readEventLog_def)

lemma store_compacted:
  assumes "store_event (compacted_event n e) = Some e1"
  obtains e2 where "store_event e = Some e2" "event_levels e1 = event_levels e2"
proof (cases e)
  case (Core_Event t x m c i d r u f cs cm er s)
  then show ?thesis
    using assms that by (auto simp: compacted_event_def split: option.splits if_splits)
qed

lemma stored_line:
  assumes "stored_record (next_record sid now e rs) = Some r'" "readable_event e"
  shows "line_of r' = Some r'"
proof -
  obtain e1 where e1: "store_event (compacted_event (of_nat (length rs + 1)) e) = Some e1" "sr_event r' = e1"
    using assms(1) by (auto simp: stored_record_def next_record_def Let_def)
  obtain e2 where "store_event e = Some e2" "event_levels e1 = event_levels e2"
    using e1(1) by (rule store_compacted)
  then show ?thesis using assms(2) e1(2) by (simp add: line_of_def record_levels_def readable_event_def)
qed

lemma append_grows:
  assumes "now \<noteq> 0" "readable_event e"
  shows "log_kept sha sid st (snd (session_Append sha ctx lk dir tr out now sid e st))"
proof (cases rule: Append_cases [of sha ctx lk dir tr out now sid e st])
  case (tried rs r r' lg)
  have v: "valid_record sid (length rs) r'"
    using stored_next tried(4,5) enter_valid [OF tried(6)] assms by (metis readable_event_def validateSessionID_def)
  have "line_of r' = Some r'" using stored_line tried(4,5) assms(2) by metis
  then have lines: "sl_lines (append_record out r' lg) \<in> {sl_lines lg, sl_lines lg @ [Some r']}"
    by (cases out) (simp_all add: append_record_def)
  show ?thesis
    using tried(1,2,3) lines v
    by (auto simp: log_kept_def session_records_def readEventLog_def read_lines_append)
qed (simp_all add: log_kept_same)

lemma branch_keeps_log:
  "sl_lines (sd_log (dir_of sha (snd (Branch sha ctx ctx2 lk lk2 stat dir f g r now t cid sid st)) sid))
     = sl_lines (sd_log (dir_of sha st sid))"
proof (cases rule: Branch_cases [of sha ctx ctx2 lk lk2 stat dir f g r now t cid sid st])
  case (files c s0)
  then have "sl_lines (sd_log (dir_of sha st sid)) = []" by (simp add: dir_of_def sessionStorageKey_def empty_dir_def)
  moreover have "sl_lines (sd_log (dir_of sha (snd (branch_files sha dir f g r now t (ck_id c) sid s0 st)) sid)) = []"
    using files(3)
    by (cases "store_snapshot (s0\<lparr>sn_session := sid, sn_last := 0\<rparr>)"; cases r)
      (simp_all add: branch_files_def Let_def empty_dir_def remove_dir_def sessionStorageKey_def dir_of_def)
  ultimately show ?thesis using files(1) by simp
qed simp

lemma step_keeps_log:
  assumes "orderly sha sid op"
  shows "log_kept sha sid st (session_step sha redact op st)"
proof (cases "elsewhere sha sid op")
  case True
  then have "dir_of sha (session_step sha redact op st) sid = dir_of sha st sid"
    by (intro dir_of_cong step_elsewhere)
  then show ?thesis by (simp add: log_kept_same)
next
  case False
  then have t: "op_target op = Some sid" using assms by (simp add: orderly_def)
  show ?thesis
  proof (cases op)
    case (Append_Op ctx lk dir tr out now t' e)
    then show ?thesis using t False assms append_grows by (simp add: orderly_def)
  next
    case (Save_Op ctx ctx2 lk dir p r m s now sn)
    then have "sn_session sn = sid" using t by simp
    then show ?thesis unfolding Save_Op session_step.simps
      by (cases rule: Save_cases [of sha redact ctx ctx2 lk dir p r m s now sn st]) (simp_all add: log_kept_same)
  next
    case (Checkpoint_Op ctx ctx2 lk f g r now t' name)
    then have "t' = sid" using t by simp
    then show ?thesis unfolding Checkpoint_Op session_step.simps
      by (cases rule: Checkpoint_cases [of sha ctx ctx2 lk f g r now t' name st]) (simp_all add: log_kept_same)
  next
    case (Branch_Op ctx ctx2 lk lk2 stat dir f g r now t' cid branch)
    then show ?thesis using t by (auto intro!: log_kept_same branch_keeps_log)
  next
    case (Delete_Op ctx ctx2 lk out t')
    then show ?thesis using False assms by (simp add: orderly_def)
  qed (use t in simp_all)
qed

lemma log_kept_trans: "log_kept sha sid st st1 \<Longrightarrow> log_kept sha sid st1 st2 \<Longrightarrow> log_kept sha sid st st2"
  unfolding log_kept_def by (metis append.assoc)

lemma run_keeps_log:
  "list_all (orderly sha sid) ops \<Longrightarrow> log_kept sha sid st (fold (session_step sha redact) ops st)"
proof (induction ops arbitrary: st)
  case Nil
  then show ?case by (simp add: log_kept_same)
next
  case (Cons op ops)
  then show ?case using log_kept_trans step_keeps_log by fastforce
qed

text \<open>C23: an event that was appended is kept and replayed. If the session is not deleted, every event appended to it has a
  type and nests no deeper than the JSON decoder reads, its clock is never at the zero time and no other session has
  its digest (\<open>orderly\<close>), then after any further operations on this and other sessions, by this and other processes,
  with any failures of reads and writes, the log is readable, its records are numbered from one, and the event stands
  at its number as it was written. \<open>untyped_event_ruins_log\<close> and \<open>nested_event_ruins_log\<close> show what an event
  without a type or one that nests too deeply does.\<close>

theorem appended_event_is_replayed:
  assumes before: "list_all (orderly sha sid) ops"
    and append: "session_Append sha ctx lk dir tr out now sid e (fold (session_step sha redact) ops no_sessions) = (Inr r, st)"
    and e: "now \<noteq> 0" "readable_event e"
    and after: "list_all (orderly sha sid) ops2"
  shows "\<exists>rs i r'. session_Events sha None None Lock_Free sid (fold (session_step sha redact) ops2 st) = Inr rs
    \<and> i < length rs \<and> rs ! i = r' \<and> stored_record r = Some r' \<and> r = next_record sid now e (take i rs)
    \<and> (\<forall>j < length rs. sr_sequence (rs ! j) = of_nat (j + 1) \<and> sr_session (rs ! j) = sid)"
proof -
  let ?st = "fold (session_step sha redact) ops no_sessions" and ?later = "fold (session_step sha redact) ops2 st"
  have "session_records sha sid no_sessions = Some []"
    by (simp add: session_records_def no_sessions_def dir_of_def empty_dir_def readEventLog_def)
  then obtain rs where rs: "session_records sha sid ?st = Some rs" using run_keeps_log [OF before] unfolding log_kept_def by fastforce
  from append obtain r' lg where a: "st = put_dir sha sid ((dir_of sha ?st sid)\<lparr>sd_log := append_record Appended r' lg\<rparr>) ?st"
      "sl_lines lg = sl_lines (sd_log (dir_of sha ?st sid))" "r = next_record sid now e rs" "stored_record r = Some r'"
      "enter ctx lk ?st sid = None"
    using rs by (cases rule: Append_cases [of sha ctx lk dir tr out now sid e ?st])
      (auto simp: session_records_def split: if_splits)
  have id: "validateSessionID sid" using enter_valid [OF a(5)] by blast
  have "valid_record sid (length rs) r'"
    using stored_next a(3,4) e id by (metis readable_event_def validateSessionID_def)
  moreover have "line_of r' = Some r'" using stored_line a(3,4) e(2) by metis
  ultimately have "session_records sha sid st = Some (rs @ [r'])"
    using rs a(2) by (simp add: a(1) session_records_def readEventLog_def append_record_def read_lines_append)
  then obtain more where later: "session_records sha sid ?later = Some (rs @ [r'] @ more)"
    using run_keeps_log [OF after] unfolding log_kept_def by fastforce
  have "session_Events sha None None Lock_Free sid ?later = Inr (rs @ [r'] @ more)"
    using later id by (simp add: session_Events_def enter_def lockSession_def session_records_def)
  moreover have "\<forall>j < length (rs @ [r'] @ more). sr_sequence ((rs @ [r'] @ more) ! j) = of_nat (j + 1)
      \<and> sr_session ((rs @ [r'] @ more) ! j) = sid"
    using read_lines_valid [of sid "[]" _ "rs @ [r'] @ more"] later
    by (auto simp: session_records_def readEventLog_def valid_record_def)
  ultimately show ?thesis
    using a(3,4) by (intro exI [of _ "rs @ [r'] @ more"] exI [of _ "length rs"] exI [of _ r']) simp
qed

end
