(* ===== verification/Session_Checkpoints.thy ===== *)
theory Session_Checkpoints
  imports Session_Properties Go_Base64
begin

text \<open>
  Checkpoints over all runs: a copy of the snapshot a checkpoint was taken from, with its messages but without the media of
  images, is given back by \<open>Rewind\<close> and starts every branch, as long as the session is not deleted and no later checkpoint
  gets the same identifier. And compaction: what it covers and what it keeps.
\<close>

section \<open>Identifiers\<close>

lemma hex_char_ascii: "hex_char c \<Longrightarrow> code c < 0x80"
  by (auto simp: hex_char_def)

lemma checkpoint_id_text: "validCheckpointID cid \<Longrightarrow> json_text cid = cid"
proof (rule json_text_ascii)
  assume v: "validCheckpointID cid"
  then have "take 3 cid = ''cp-''" by (simp add: validCheckpointID_def HasPrefix_def numeral_3_eq_3)
  then obtain rest where rest: "cid = ''cp-'' @ rest" "drop 3 cid = rest" using append_take_drop_id [of 3 cid] by metis
  moreover have "list_all (\<lambda>c. code c < 0x80) (drop 3 cid)"
    using v hex_char_ascii unfolding validCheckpointID_def list_all_iff by blast
  ultimately show "list_all (\<lambda>c. code c < 0x80) cid" by simp
qed

definition hexadecimal :: "(string \<Rightarrow> string) \<Rightarrow> bool" where
  "hexadecimal sha \<longleftrightarrow> (\<forall>x. 24 \<le> length (sha x) \<and> list_all hex_char (sha x))"

lemma checkpointID_valid:
  assumes "hexadecimal sha"
  shows "validCheckpointID (checkpointID sha sid name n t)"
proof -
  have "list_all hex_char (take 24 (sha x))" "length (take 24 (sha x)) = 24" for x
    using assms by (auto simp: hexadecimal_def list_all_iff dest: in_set_takeD)
  then show ?thesis by (simp add: checkpointID_def validCheckpointID_def HasPrefix_def)
qed

section \<open>What a checkpoint that is held means\<close>

definition checkpoint_held :: "(string \<Rightarrow> string) \<Rightarrow> string \<Rightarrow> checkpoint \<Rightarrow> session_snapshot \<Rightarrow> session_store \<Rightarrow> bool" where
  "checkpoint_held sha sid c copy st \<longleftrightarrow>
     stored_checkpoint c = c \<and> sd_checkpoints (dir_of sha st sid) (ck_id c) = Some copy
     \<and> (\<exists>g. loadGraph sha sid st = Inr g \<and> c \<in> set (sg_checkpoints g))"

definition taken_ids :: "(string \<Rightarrow> string) \<Rightarrow> string \<Rightarrow> session_store \<Rightarrow> string list" where
  "taken_ids sha sid st = (case loadGraph sha sid st of Inl _ \<Rightarrow> [] | Inr g \<Rightarrow> map ck_id (sg_checkpoints g))"

text \<open>
  An operation on another session, or one on this session that does not delete it; a checkpoint is made at a time that
  is not the zero time, and its identifier is not taken.
\<close>

definition new_ids :: "(string \<Rightarrow> string) \<Rightarrow> string \<Rightarrow> session_op \<Rightarrow> session_store \<Rightarrow> bool" where
  "new_ids sha sid op st \<longleftrightarrow> elsewhere sha sid op \<or> op_target op = Some sid \<and>
     (case op of
        Checkpoint_Op ctx ctx2 lk f g r now t name \<Rightarrow> now \<noteq> 0 \<and>
          (case loadSnapshot sha None sid st of
             Inl _ \<Rightarrow> True
           | Inr s \<Rightarrow> checkpointID sha sid (TrimSpace name) (sn_last s) now \<notin> set (taken_ids sha sid st))
      | Delete_Op ctx ctx2 lk out t \<Rightarrow> False
      | _ \<Rightarrow> True)"

fun all_new_ids :: "(string \<Rightarrow> string) \<Rightarrow> (string \<Rightarrow> string) \<Rightarrow> string \<Rightarrow> session_op list \<Rightarrow> session_store \<Rightarrow> bool" where
  "all_new_ids sha redact sid [] st \<longleftrightarrow> True"
| "all_new_ids sha redact sid (op # ops) st \<longleftrightarrow> new_ids sha sid op st \<and> all_new_ids sha redact sid ops (session_step sha redact op st)"

lemma stored_checkpoint_id: "validCheckpointID (ck_id c) \<Longrightarrow> ck_id (stored_checkpoint c) = ck_id c"
  by (simp add: stored_checkpoint_def checkpoint_id_text)

lemma valid_graph_stored:
  assumes g: "valid_graph sid g" and sid: "valid_utf8 sid"
    and c: "ck_session c = sid" "validCheckpointID (ck_id c)" "ck_created c \<noteq> 0" "ck_id c \<notin> ck_id ` set (sg_checkpoints g)"
  shows "valid_graph sid (stored_graph (g\<lparr>sg_checkpoints := sg_checkpoints g @ [c]\<rparr>))"
proof -
  have old: "ck_session x = sid \<and> validCheckpointID (ck_id x) \<and> ck_created x \<noteq> 0" if "x \<in> set (sg_checkpoints g)" for x
    using that g by (auto simp: valid_graph_def list_all_iff)
  have "map (ck_id \<circ> stored_checkpoint) (sg_checkpoints g) = map ck_id (sg_checkpoints g)"
    using old stored_checkpoint_id by simp
  then have ids: "map ck_id (map stored_checkpoint (sg_checkpoints g @ [c])) = map ck_id (sg_checkpoints g @ [c])"
    using c(2) stored_checkpoint_id by simp
  have "distinct (map ck_id (sg_checkpoints g @ [c]))" using g c(4) by (simp add: valid_graph_def)
  then have "distinct (map ck_id (map stored_checkpoint (sg_checkpoints g @ [c])))" unfolding ids .
  then show ?thesis
    using g sid c old by (auto simp: valid_graph_def stored_graph_def list_all_iff json_text_valid stored_checkpoint_id)
      (auto simp: stored_checkpoint_def json_text_valid)
qed

lemma loadGraph_valid: "loadGraph sha sid st = Inr g \<Longrightarrow> valid_graph sid g"
  by (auto simp: loadGraph_def valid_graph_def new_graph_def split: option.splits if_splits)

lemma loadGraph_cong: "sd_graph (dir_of sha st sid) = sd_graph (dir_of sha st' sid) \<Longrightarrow> loadGraph sha sid st = loadGraph sha sid st'"
  by (simp add: loadGraph_def)

lemma held_cong:
  "sd_graph (dir_of sha st' sid) = sd_graph (dir_of sha st sid) \<Longrightarrow>
   sd_checkpoints (dir_of sha st' sid) = sd_checkpoints (dir_of sha st sid) \<Longrightarrow>
   checkpoint_held sha sid c copy st \<Longrightarrow> checkpoint_held sha sid c copy st'"
  by (simp add: checkpoint_held_def loadGraph_def)

section \<open>Keeping a checkpoint\<close>

lemma later_checkpoint_keeps:
  assumes "hexadecimal sha" "checkpoint_held sha sid c copy st" "new_ids sha sid (Checkpoint_Op ctx ctx2 lk f gr rm now sid name) st"
  shows "checkpoint_held sha sid c copy (snd (CreateCheckpoint sha ctx ctx2 lk f gr rm now sid name st))"
proof (cases rule: Checkpoint_cases [of sha ctx ctx2 lk f gr rm now sid name st])
  case (refused err)
  then show ?thesis using assms(2) by simp
next
  case (tried s g copy' c' x y)
  have g: "valid_graph sid g" using tried(2) by (rule loadGraph_valid)
  have c: "c \<in> set (sg_checkpoints g)" using assms(2) tried(2) by (auto simp: checkpoint_held_def)
  have n: "now \<noteq> 0" "ck_id c' \<notin> ck_id ` set (sg_checkpoints g)"
    using assms(3) tried(1,2) by (auto simp: new_ids_def elsewhere_def taken_ids_def tried(4))
  then have ne: "ck_id c \<noteq> ck_id c'" using c by (metis image_eqI)
  have stored: "valid_graph sid (stored_graph (g\<lparr>sg_checkpoints := sg_checkpoints g @ [c']\<rparr>))"
    using valid_graph_stored [OF g, of c'] n tried(4,8) checkpointID_valid [OF assms(1)] by (simp add: validateSessionID_def)
  have "c \<in> set (sg_checkpoints (stored_graph (g\<lparr>sg_checkpoints := sg_checkpoints g @ [c']\<rparr>)))"
    using c assms(2) by (force simp: stored_graph_def checkpoint_held_def)
  then show ?thesis
    using tried(2,6) assms(2) ne stored c unfolding tried(5) checkpoint_held_def
    by (auto simp: loadGraph_def)
qed

lemma step_keeps_checkpoint:
  assumes "hexadecimal sha" "checkpoint_held sha sid c copy st" "new_ids sha sid op st"
  shows "checkpoint_held sha sid c copy (session_step sha redact op st)"
proof (cases "elsewhere sha sid op")
  case True
  then have "dir_of sha (session_step sha redact op st) sid = dir_of sha st sid" by (intro dir_of_cong step_elsewhere)
  then show ?thesis using assms(2) by (intro held_cong [OF _ _ assms(2)]) simp_all
next
  case False
  then have t: "op_target op = Some sid" using assms by (simp add: new_ids_def)
  show ?thesis
  proof (cases op)
    case (Append_Op ctx lk dir tr out now t' e)
    then have "t' = sid" using t by simp
    then show ?thesis unfolding Append_Op session_step.simps
      by (cases rule: Append_cases [of sha ctx lk dir tr out now sid e st])
        (auto intro!: held_cong [OF _ _ assms(2)])
  next
    case (Save_Op ctx ctx2 lk dir p r m s now sn)
    then have "sn_session sn = sid" using t by simp
    then show ?thesis unfolding Save_Op session_step.simps
      by (cases rule: Save_cases [of sha redact ctx ctx2 lk dir p r m s now sn st])
        (use assms(2) in \<open>auto intro: held_cong\<close>)
  next
    case (Checkpoint_Op ctx ctx2 lk f g r now t' name)
    then show ?thesis using t assms later_checkpoint_keeps by simp
  next
    case (Branch_Op ctx ctx2 lk lk2 stat dir f g r now t' cid branch)
    then have b: "branch = sid" using t by simp
    have "st_dirs st (sha sid) \<noteq> None"
      using assms(2) by (auto simp: checkpoint_held_def dir_of_def sessionStorageKey_def empty_dir_def split: option.splits)
    then show ?thesis unfolding Branch_Op session_step.simps b
      by (cases rule: Branch_cases [of sha ctx ctx2 lk lk2 stat dir f g r now t' cid sid st]) (use assms(2) in simp_all)
  next
    case (Delete_Op ctx ctx2 lk out t')
    then show ?thesis using False assms by (simp add: new_ids_def)
  qed (use t in simp_all)
qed

lemma run_keeps_checkpoint:
  assumes "hexadecimal sha"
  shows "checkpoint_held sha sid c copy st \<Longrightarrow> all_new_ids sha redact sid ops st
    \<Longrightarrow> checkpoint_held sha sid c copy (fold (session_step sha redact) ops st)"
  by (induction ops arbitrary: st) (use step_keeps_checkpoint [OF assms] in auto)

section \<open>What a checkpoint gives back\<close>

lemma created_is_held:
  assumes "hexadecimal sha" "new_ids sha sid (Checkpoint_Op ctx ctx2 lk f gr rm now sid name) st"
    and create: "CreateCheckpoint sha ctx ctx2 lk f gr rm now sid name st = (Inr c, st1)"
  shows "\<exists>s copy. loadSnapshot sha None sid st = Inr s \<and> store_snapshot (cloneSnapshot s) = Some copy
    \<and> checkpoint_held sha sid c copy st1 \<and> validateSessionID sid"
proof (cases rule: Checkpoint_cases [of sha ctx ctx2 lk f gr rm now sid name st])
  case (refused err)
  then show ?thesis using create by simp
next
  case (tried s g copy c' x y)
  then have eq: "c' = c" "x = Some copy" "y = Some (stored_graph (g\<lparr>sg_checkpoints := sg_checkpoints g @ [c]\<rparr>))"
    and st1: "st1 = put_dir sha sid ((dir_of sha st sid)\<lparr>sd_checkpoints := (sd_checkpoints (dir_of sha st sid))(ck_id c := x), sd_graph := y\<rparr>) st"
    using create by auto
  have g: "valid_graph sid g" using tried(2) by (rule loadGraph_valid)
  have sid: "valid_utf8 sid" using tried(8) by (simp add: validateSessionID_def)
  have n: "now \<noteq> 0" "ck_id c \<notin> ck_id ` set (sg_checkpoints g)"
    using assms(2) tried(1,2,4) eq(1) by (auto simp: new_ids_def elsewhere_def taken_ids_def)
  have v: "ck_session c = sid" "validCheckpointID (ck_id c)" "ck_created c \<noteq> 0"
    using tried(4) eq(1) checkpointID_valid [OF assms(1)] n(1) by auto
  have sc: "stored_checkpoint c = c"
    using tried(4,9) eq(1) sid v by (cases c) (simp add: stored_checkpoint_def json_text_valid checkpoint_id_text)
  have "valid_graph sid (stored_graph (g\<lparr>sg_checkpoints := sg_checkpoints g @ [c]\<rparr>))"
    by (rule valid_graph_stored [OF g sid v n(2)])
  then have "loadGraph sha sid st1 = Inr (stored_graph (g\<lparr>sg_checkpoints := sg_checkpoints g @ [c]\<rparr>))"
    by (simp add: st1 eq(3) loadGraph_def)
  moreover have "c \<in> set (sg_checkpoints (stored_graph (g\<lparr>sg_checkpoints := sg_checkpoints g @ [c]\<rparr>)))"
    using sc by (simp add: stored_graph_def)
  ultimately have "checkpoint_held sha sid c copy st1"
    using sc by (auto simp: checkpoint_held_def st1 eq(2))
  then show ?thesis using tried(1,3,8) by blast
qed

lemma held_found: "checkpoint_held sha sid c copy st \<Longrightarrow> findCheckpoint sha sid (ck_id c) st = Inr c"
proof -
  assume h: "checkpoint_held sha sid c copy st"
  then obtain g where g: "loadGraph sha sid st = Inr g" "c \<in> set (sg_checkpoints g)" by (auto simp: checkpoint_held_def)
  have d: "distinct (map ck_id (sg_checkpoints g))" using loadGraph_valid [OF g(1)] by (simp add: valid_graph_def)
  have "find (\<lambda>x. ck_id x = ck_id c) cs = Some c" if "c \<in> set cs" "distinct (map ck_id cs)" for cs
    using that by (induction cs) (auto simp: image_iff)
  then show ?thesis using g d by (simp add: findCheckpoint_def)
qed

lemma stored_session: "store_snapshot s = Some s' \<Longrightarrow> valid_utf8 (sn_session s) \<Longrightarrow> sn_session s' = sn_session s \<and> sn_updated s' = sn_updated s"
  by (auto simp: store_snapshot_def json_text_valid)

text \<open>What the copy of a snapshot in a checkpoint keeps of it: texts come back as JSON yields them, raw arguments
  compactly, and the media type and data of images are gone.\<close>

definition copied_call :: "tool_call \<Rightarrow> tool_call \<Rightarrow> bool" where
  "copied_call c c' \<longleftrightarrow> tl_id c' = json_text (tl_id c) \<and> tl_name c' = json_text (tl_name c)
     \<and> tl_arguments c' = Some (case tl_arguments c of None \<Rightarrow> ''null''
          | Some raw \<Rightarrow> if raw = [] then ''null'' else json_compact raw)"

definition copied_result :: "tool_result \<Rightarrow> tool_result \<Rightarrow> bool" where
  "copied_result r r' \<longleftrightarrow> rs_call r' = json_text (rs_call r) \<and> rs_error r' = rs_error r
     \<and> map cb_type (rs_content r') = map (json_text \<circ> cb_type) (rs_content r)
     \<and> map cb_text (rs_content r') = map (json_text \<circ> cb_text) (rs_content r)"

definition copied_block :: "content_block \<Rightarrow> content_block \<Rightarrow> bool" where
  "copied_block b b' \<longleftrightarrow> cb_type b' = json_text (cb_type b) \<and> cb_text b' = json_text (cb_text b)
     \<and> cb_thinking b' = json_text (cb_thinking b) \<and> cb_media b' = [] \<and> cb_data b' = []
     \<and> rel_option copied_call (cb_call b) (cb_call b') \<and> rel_option copied_result (cb_result b) (cb_result b')"

definition copied_message :: "chat_message \<Rightarrow> chat_message \<Rightarrow> bool" where
  "copied_message m m' \<longleftrightarrow> cm_role m' = json_text (cm_role m) \<and> list_all2 copied_block (cm_content m) (cm_content m')"

definition copied_snapshot :: "session_snapshot \<Rightarrow> session_snapshot \<Rightarrow> bool" where
  "copied_snapshot s s' \<longleftrightarrow> sn_session s' = json_text (sn_session s) \<and> sn_last s' = sn_last s \<and> sn_updated s' = sn_updated s
     \<and> sn_summary s' = json_text (sn_summary s) \<and> list_all2 copied_message (sn_history s) (sn_history s')"

lemma all_some_all2: "all_some xs = Some ys \<longleftrightarrow> list_all2 (\<lambda>x y. x = Some y) xs ys"
proof (induction xs arbitrary: ys)
  case (Cons x xs)
  then show ?case by (cases x) (auto simp: list_all2_Cons1)
qed auto

lemma compact_blank: "compact_from s 0 data = [] \<Longrightarrow> list_all js_space data"
  by (induction data arbitrary: s) (auto simp: json_escape_def split: option.splits if_splits)

lemma json_compact_nonempty:
  assumes "json_valid raw"
  shows "json_compact raw \<noteq> []"
proof
  assume "json_compact raw = []"
  then have "list_all js_space raw" unfolding json_compact_def by (rule compact_blank)
  then have "foldl js_step js_reset raw = js_reset"
    by (induction raw) (auto simp: js_step_def js_reset_def js_begin_value_def)
  then show False using assms json_invalid_empty by (simp add: json_valid_def)
qed

lemma store_call_copied: "store_call (clone_call c) = Some c1 \<Longrightarrow> copied_call c (clone_call c1)"
  by (auto simp: store_call_def clone_call_def copied_call_def json_invalid_empty json_compact_nonempty split: option.splits if_splits)

lemma stored_nested:
  "store_block (clone_nested b) = Some b1 \<Longrightarrow>
     cb_type (clone_nested b1) = json_text (cb_type b) \<and> cb_text (clone_nested b1) = json_text (cb_text b)"
  by (cases b) (auto split: option.splits)

lemma store_result_copied:
  assumes "store_result (cloneSessionToolResult r) = Some r1"
  shows "copied_result r (cloneSessionToolResult r1)"
proof (cases r)
  case (Tool_Result i bs e df)
  then obtain bs1 where bs1: "list_all2 (\<lambda>x y. store_block (clone_nested x) = Some y) bs bs1"
    and r1: "r1 = Tool_Result (json_text i) bs1 e None"
    using assms by (auto simp: all_some_all2 list.rel_map)
  have "map (cb_type \<circ> clone_nested) bs1 = map (json_text \<circ> cb_type) bs
      \<and> map (cb_text \<circ> clone_nested) bs1 = map (json_text \<circ> cb_text) bs"
    using bs1 by (induction rule: list_all2_induct) (auto dest: stored_nested)
  then show ?thesis unfolding Tool_Result r1 copied_result_def by simp
qed

lemma inner_Some: "inner x = Some y \<longleftrightarrow> (x = None \<and> y = None) \<or> (\<exists>v. x = Some (Some v) \<and> y = Some v)"
  by (auto simp: inner_def split: option.splits)

lemma store_block_copied:
  assumes "store_block (clone_block b) = Some b1"
  shows "copied_block b (clone_block b1)"
proof -
  obtain t x h m d c r where b: "b = Content_Block t x h m d c r" by (cases b)
  obtain c1 r1 where "inner (map_option store_call (map_option clone_call c)) = Some c1"
      "inner (map_option store_result (map_option cloneSessionToolResult r)) = Some r1"
      "b1 = Content_Block (json_text t) (json_text x) (json_text h) [] [] c1 r1"
    using assms unfolding b clone_block_def by (auto split: option.splits)
  then show ?thesis
    unfolding b copied_block_def clone_block_def
    by (auto simp: inner_Some store_call_copied store_result_copied)
qed

lemma copied_back:
  assumes "store_snapshot (cloneSnapshot s) = Some copy"
  shows "copied_snapshot s (cloneSnapshot copy)"
proof -
  obtain h where h: "list_all2 (\<lambda>m m1. store_message \<lparr>cm_role = cm_role m, cm_content = map clone_block (cm_content m)\<rparr> = Some m1)
      (sn_history s) h"
    and copy: "copy = (cloneSnapshot s)\<lparr>sn_session := json_text (sn_session s), sn_history := h,
      sn_summary := json_text (sn_summary s)\<rparr>"
    using assms by (auto simp: store_snapshot_def cloneSnapshot_def all_some_all2 cloneSessionMessages_def list.rel_map)
  have message: "copied_message m \<lparr>cm_role = cm_role m1, cm_content = map clone_block (cm_content m1)\<rparr>"
    if stored: "store_message \<lparr>cm_role = cm_role m, cm_content = map clone_block (cm_content m)\<rparr> = Some m1" for m m1
  proof -
    obtain bs where bs: "list_all2 (\<lambda>b b1. store_block (clone_block b) = Some b1) (cm_content m) bs"
      and m1: "m1 = \<lparr>cm_role = json_text (cm_role m), cm_content = bs\<rparr>"
      using stored by (auto simp: store_message_def all_some_all2 list.rel_map)
    have "list_all2 copied_block (cm_content m) (map clone_block bs)"
      using bs unfolding list.rel_map by (rule list_all2_mono) (rule store_block_copied)
    then show ?thesis by (simp add: copied_message_def m1)
  qed
  have "list_all2 copied_message (sn_history s) (cloneSessionMessages h)"
    using h unfolding cloneSessionMessages_def list.rel_map by (rule list_all2_mono) (rule message)
  then show ?thesis by (simp add: copied_snapshot_def copy cloneSnapshot_def)
qed


section \<open>Compaction\<close>

lemma clone_call_again [simp]: "clone_call (clone_call c) = clone_call c"
  by (simp add: clone_call_def)

lemma clone_nested_again:
  "clone_nested (clone_nested b) = clone_nested b"
  "cloneSessionToolResult (cloneSessionToolResult r) = cloneSessionToolResult r"
  by (induction b and r) (auto simp: option.map_comp comp_def intro!: option.map_cong)

lemma cloneSessionMessages_again [simp]: "cloneSessionMessages (cloneSessionMessages ms) = cloneSessionMessages ms"
  by (auto simp: cloneSessionMessages_def clone_block_def clone_nested_again option.map_comp comp_def)

lemma cloneSessionMessages_simps [simp]:
  "length (cloneSessionMessages ms) = length ms"
  "take n (cloneSessionMessages ms) = cloneSessionMessages (take n ms)"
  "drop n (cloneSessionMessages ms) = cloneSessionMessages (drop n ms)"
  "i < length ms \<Longrightarrow> cm_role (cloneSessionMessages ms ! i) = cm_role (ms ! i)"
  by (simp_all add: cloneSessionMessages_def take_map drop_map)

lemma back_over_tools_spec:
  "back_over_tools ms n \<le> n"
  "0 < back_over_tools ms n \<Longrightarrow> cm_role (ms ! back_over_tools ms n) \<noteq> RoleTool"
  "back_over_tools ms n < i \<Longrightarrow> i \<le> n \<Longrightarrow> cm_role (ms ! i) = RoleTool"
  by (induction n) (auto simp: le_Suc_eq split: if_splits)

lemma compactBoundary_spec:
  assumes "0 < keep" "keep < 2 ^ 63" "length ms < 2 ^ 63" "compactBoundary ms keep = n" "0 < n"
  shows "int n + keep \<le> int (length ms)" "cm_role (ms ! n) \<noteq> RoleTool"
    "n < i \<Longrightarrow> int i + keep \<le> int (length ms) \<Longrightarrow> cm_role (ms ! i) = RoleTool"
proof -
  have w: "wrap64 (int (length ms) - keep) = int (length ms) - keep"
    using assms(1-3) by (intro wrap64_id) auto
  have n: "0 < int (length ms) - keep" "n = back_over_tools ms (nat (int (length ms) - keep))"
    using assms(4,5) unfolding compactBoundary_def w Let_def by (auto split: if_splits)
  show "int n + keep \<le> int (length ms)" using n back_over_tools_spec(1) [of ms "nat (int (length ms) - keep)"] by linarith
  show "cm_role (ms ! n) \<noteq> RoleTool" using n assms(5) back_over_tools_spec(2) by blast
  show "n < i \<Longrightarrow> int i + keep \<le> int (length ms) \<Longrightarrow> cm_role (ms ! i) = RoleTool"
    unfolding n(2) by (erule back_over_tools_spec(3)) linarith
qed

text \<open>C31: compaction covers a beginning of the conversation and keeps the rest. If it applies, the summarizer was given
  exactly the covered messages, the result is its non-empty summary followed by the others in order, as copies; at
  least the number of recent messages to keep is kept; the kept ones do not begin with the result of a tool, whose call
  would be covered, and no more is kept for that than the tool results before; and the tokens had reached the threshold, unless it was
  forced. If it does not apply, for any reason, nothing is covered.\<close>

theorem compaction_keeps_recent:
  assumes new: "NewCompactor threshold keep estimate_only True = Some cp" "keep < 2 ^ 63"
    and len: "length ms < 2 ^ 63"
    and r: "r = compact_request cp summarize counter estimate force ms"
  shows "if ct_applied r
    then \<exists>n summary.
      0 < n \<and> ct_covered r = n \<and> summarize (cloneSessionMessages (take n ms)) = Some summary \<and> summary \<noteq> []
      \<and> ct_messages r = \<lparr>cm_role = RoleSystem, cm_content = [Content_Block ContentText summary [] [] [] None None]\<rparr>
          # cloneSessionMessages (drop n ms)
      \<and> (if keep \<le> 0 then 8 else keep) \<le> int (length (drop n ms))
      \<and> cm_role (hd (drop n ms)) \<noteq> RoleTool
      \<and> list_all (\<lambda>m. cm_role m = RoleTool) (take (length (drop n ms) - nat (if keep \<le> 0 then 8 else keep)) (tl (drop n ms)))
      \<and> (force \<or> threshold \<le> tn_tokens (ct_count r))
    else ct_messages r = cloneSessionMessages ms \<and> ct_covered r = 0 \<and> ct_summary r = None"
proof -
  define k where "k = (if keep \<le> 0 then 8 else keep)"
  have cp: "cp_keep cp = k" "cp_threshold cp = threshold" and k: "0 < k" "k < 2 ^ 63"
    using new by (auto simp: NewCompactor_def k_def split: if_splits)
  define n where "n = compactBoundary (cloneSessionMessages ms) k"
  define count where "count = count_for cp counter estimate"
  let ?covered = "summarize (cloneSessionMessages (take n ms))"
  define summary where "summary = the ?covered"
  note eqs = r compact_request_def Let_def cp n_def [symmetric] count_def [symmetric] cloneSessionMessages_simps
    cloneSessionMessages_again
  have applied: "ct_applied r \<longleftrightarrow> (force \<or> threshold \<le> tn_tokens count) \<and> 0 < n \<and> ?covered = Some summary \<and> summary \<noteq> []"
    unfolding eqs by (cases ?covered) (auto simp: summary_def)
  show ?thesis
  proof (cases "ct_applied r")
    case False
    show ?thesis
    proof (cases "(\<not> force \<and> tn_tokens count < threshold) \<or> n = 0")
      case True
      then show ?thesis using False unfolding eqs by auto
    next
      case t: False
      show ?thesis
      proof (cases ?covered)
        case None
        then show ?thesis using t False unfolding eqs by auto
      next
        case (Some x)
        then have "x = []" using applied False t by (auto simp: summary_def)
        then show ?thesis using t False Some unfolding eqs by auto
      qed
    qed
  next
    case True
    then have n0: "0 < n" and t: "force \<or> threshold \<le> tn_tokens count"
      and summary: "?covered = Some summary" "summary \<noteq> []" unfolding applied by auto
    have res: "r = \<lparr>ct_applied = True, ct_messages = \<lparr>cm_role = RoleSystem, cm_content = [Content_Block ContentText summary [] [] [] None None]\<rparr>
          # cloneSessionMessages (drop n ms),
        ct_summary = Some \<lparr>cm_role = RoleSystem, cm_content = [Content_Block ContentText summary [] [] [] None None]\<rparr>,
        ct_covered = n, ct_count = count, ct_warning = False\<rparr>"
      using n0 t summary unfolding eqs by auto
    have spec: "int n + k \<le> int (length ms)" "cm_role (ms ! n) \<noteq> RoleTool"
        "n < i \<Longrightarrow> int i + k \<le> int (length ms) \<Longrightarrow> cm_role (ms ! i) = RoleTool" for i
    proof -
      note spec = compactBoundary_spec [OF k, of "cloneSessionMessages ms" n, OF _ n_def [symmetric] n0]
      show l: "int n + k \<le> int (length ms)" using spec(1) len by simp
      show "cm_role (ms ! n) \<noteq> RoleTool" using spec(2) len l k by simp
      show "n < i \<Longrightarrow> int i + k \<le> int (length ms) \<Longrightarrow> cm_role (ms ! i) = RoleTool"
        using spec(3) [of i] len k by simp
    qed
    have lt: "n < length ms" using spec(1) k by linarith
    have "list_all (\<lambda>m. cm_role m = RoleTool) (take (length (drop n ms) - nat k) (tl (drop n ms)))"
      unfolding list_all_length
    proof (intro allI impI)
      fix j assume "j < length (take (length (drop n ms) - nat k) (tl (drop n ms)))"
      then have j: "j < length (drop n ms) - nat k" "Suc j < length (drop n ms)" by auto
      then have "n + Suc j + nat k \<le> length ms" using lt by simp
      then have "int (n + Suc j) + k \<le> int (length ms)" using k(1) by linarith
      then have "cm_role (ms ! (n + Suc j)) = RoleTool" by (intro spec(3)) simp_all
      then show "cm_role (take (length (drop n ms) - nat k) (tl (drop n ms)) ! j) = RoleTool"
        using j by (simp add: nth_tl)
    qed
    moreover have "cm_role (hd (drop n ms)) \<noteq> RoleTool" using lt spec(2) by (simp add: hd_drop_conv_nth)
    ultimately show ?thesis
      using n0 t summary spec(1) lt by (simp add: res k_def [symmetric])
  qed
qed

section \<open>Behaviours one would not expect\<close>

text \<open>What the provider's codec demands of an image (\<open>provider/anthropic/codec.go\<close>).\<close>

definition validateImageBlock :: "content_block \<Rightarrow> bool" where
  "validateImageBlock b \<longleftrightarrow>
     cb_media b \<in> {''image/png'', ''image/jpeg'', ''image/gif'', ''image/webp''}
     \<and> (case base64_decode (cb_data b) of None \<Rightarrow> False | Some d \<Rightarrow> d \<noteq> [])"

text \<open>
  The copies of compaction, snapshots and checkpoints leave out the media type and the data of an image: a recent image that
  compaction keeps can no longer be sent, and every later request of the conversation fails to encode.
\<close>

theorem copied_image_is_refused: "\<not> validateImageBlock (clone_block b)"
  by (simp add: validateImageBlock_def clone_block_def)

text \<open>
  An event without a type is appended with success, and from then on the log cannot be read: nothing can be appended
  and no events are returned.
\<close>

theorem untyped_event_ruins_log:
  assumes "session_Append sha ctx lk dir tr Appended now sid e st = (Inr r, st1)" "et_type e = []"
  shows "session_records sha sid st1 = None"
proof (cases rule: Append_cases [of sha ctx lk dir tr Appended now sid e st])
  case (tried rs r1 r' lg)
  have "et_type (sr_event r') = []"
    using tried(4,5) assms(2) by (auto simp: stored_record_def next_record_def Let_def json_text_ascii dest!: store_event_type)
  moreover have "st1 = put_dir sha sid ((dir_of sha st sid)\<lparr>sd_log := append_record Appended r' lg\<rparr>) st"
    using tried(1) assms(1) by simp
  ultimately show ?thesis
    using tried(3)
    by (auto simp: session_records_def readEventLog_def append_record_def read_lines_append valid_record_def line_of_def
        split: option.split)
qed (use assms(1) in simp_all)

text \<open>
  So is an event whose record nests deeper than the decoder reads, as that of a tool call with arguments of 9,998
  levels does: marshalling checks the arguments alone.
\<close>

theorem nested_event_ruins_log:
  assumes "session_Append sha ctx lk dir tr Appended now sid e st = (Inr r, st1)"
    and "store_event e = Some e'" and "max_nesting_depth \<le> event_levels e'"
  shows "session_records sha sid st1 = None"
proof (cases rule: Append_cases [of sha ctx lk dir tr Appended now sid e st])
  case (tried rs r1 r' lg)
  obtain e1 where e1: "store_event (compacted_event (of_nat (length rs + 1)) e) = Some e1" "sr_event r' = e1"
    using tried(4,5) by (auto simp: stored_record_def next_record_def Let_def)
  obtain e2 where "store_event e = Some e2" "event_levels e1 = event_levels e2"
    using e1(1) by (rule store_compacted)
  then have "line_of r' = None" using assms(2,3) e1(2) by (simp add: line_of_def record_levels_def)
  moreover have "st1 = put_dir sha sid ((dir_of sha st sid)\<lparr>sd_log := append_record Appended r' lg\<rparr>) st"
    using tried(1) assms(1) by simp
  ultimately show ?thesis
    using tried(3) by (auto simp: session_records_def readEventLog_def append_record_def read_lines_append split: option.split)
qed (use assms(1) in simp_all)

lemma nested_arguments:
  assumes "raw_levels (json_compact raw) = 9998" "json_valid raw"
  shows "\<exists>e e'. store_event e = Some e' \<and> max_nesting_depth \<le> event_levels e'"
proof -
  let ?e = "Core_Event ''tool_call'' [] None (Some \<lparr>tl_id = [], tl_name = [], tl_arguments = Some raw\<rparr>) [] [] None None [] 0 0 None None"
  have "\<exists>e'. store_event ?e = Some e' \<and> max_nesting_depth \<le> event_levels e'"
    using assms
    by (simp add: inner_def store_call_def call_levels_def levels_in_def deepest_def max_nesting_depth_def)
  then show ?thesis by blast
qed

text \<open>A branch whose snapshot could not be written leaves its directory behind, and cannot be made again.\<close>

theorem failed_branch_stays:
  assumes "branch_files sha True f g rm now sid cid branch s0 st = (Inl err, st1)" "f \<noteq> Written"
  shows "st_dirs st1 (sha branch) \<noteq> None"
  using assms by (auto simp: branch_files_def Let_def split: option.splits)

end
