(* ===== verification/Session_Witnesses.thy ===== *)
theory Session_Witnesses
  imports Session_Checkpoints
begin

text \<open>Witnesses of the properties of sessions: a log with one event, a checkpoint of a one-message session, a compaction.\<close>

definition sample_sha :: "string \<Rightarrow> string" where
  "sample_sha x = replicate 24 (if x = ''b'' then CHR ''b'' else CHR ''0'')"

lemma sample_sha_hex: "hexadecimal sample_sha"
  by (simp add: hexadecimal_def sample_sha_def hex_char_def list_all_iff)

definition sample_event :: core_event where
  "sample_event = Core_Event ''text'' ''hi'' None None [] [] None None [] 0 0 None None"

definition sample_record :: event_record where
  "sample_record = \<lparr>sr_sequence = 1, sr_session = ''s'', sr_time = 1, sr_event = sample_event\<rparr>"

lemma sample_id: "validateSessionID ''s''" "validateSessionID ''b''"
  by code_simp+

lemma enter_sample: "enter None Lock_Free st ''s'' = None" "enter None Lock_Free st ''b'' = None"
  by (simp_all add: enter_def lockSession_def sample_id)

lemma sample_event_stored: "stored_record sample_record = Some sample_record"
  by (simp add: stored_record_def sample_record_def sample_event_def json_text_ascii inner_def)

lemma sample_next: "next_record ''s'' 1 sample_event [] = sample_record"
  by (simp add: next_record_def sample_record_def sample_event_def compacted_event_def EventCompacted_def)

definition logged :: session_store where
  "logged = put_dir sample_sha ''s'' (empty_dir\<lparr>sd_log := \<lparr>sl_lines = [Some sample_record], sl_torn = False\<rparr>\<rparr>) no_sessions"

lemma sample_readable: "readable_event sample_event" "line_of sample_record = Some sample_record"
  by (simp_all add: readable_event_def line_of_def record_levels_def sample_record_def sample_event_def inner_def
      deepest_def levels_in_def max_nesting_depth_def)

lemma sample_append:
  "session_Append sample_sha None Lock_Free True True Appended 1 ''s'' sample_event no_sessions = (Inr sample_record, logged)"
  by (simp add: session_Append_def enter_sample no_sessions_def dir_of_def empty_dir_def readEventLog_def sample_next sample_event_stored
      append_record_def logged_def Let_def sample_readable)

theorem appended_event_is_replayed_witness:
  "\<exists>rs i r'. session_Events sample_sha None None Lock_Free ''s'' logged = Inr rs
    \<and> i < length rs \<and> rs ! i = r' \<and> stored_record sample_record = Some r' \<and> sample_record = next_record ''s'' 1 sample_event (take i rs)
    \<and> (\<forall>j < length rs. sr_sequence (rs ! j) = of_nat (j + 1) \<and> sr_session (rs ! j) = ''s'')"
  using appended_event_is_replayed [of sample_sha "''s''" "[]" None Lock_Free True True Appended 1 sample_event id sample_record logged "[]"]
  by (simp add: sample_append sample_readable)

definition sample_message :: chat_message where
  "sample_message = \<lparr>cm_role = RoleUser, cm_content = [Content_Block ContentText ''hi'' [] [] [] None None]\<rparr>"

definition sample_snapshot :: session_snapshot where
  "sample_snapshot = \<lparr>sn_session = ''s'', sn_last = 1, sn_updated = 5, sn_history = [sample_message], sn_summary = ''hi''\<rparr>"

definition saved :: session_store where
  "saved = put_dir sample_sha ''s'' (empty_dir\<lparr>sd_snapshot := Some sample_snapshot\<rparr>) no_sessions"

definition sample_checkpoint :: checkpoint where
  "sample_checkpoint = \<lparr>ck_id = checkpointID sample_sha ''s'' [] 1 7, ck_session = ''s'', ck_name = [], ck_sequence = 1, ck_created = 7\<rparr>"

definition kept_copy :: session_store where
  "kept_copy = put_dir sample_sha ''s'' (empty_dir\<lparr>sd_snapshot := Some sample_snapshot,
     sd_checkpoints := Map.empty(ck_id sample_checkpoint \<mapsto> sample_snapshot),
     sd_graph := Some (stored_graph ((new_graph ''s'')\<lparr>sg_checkpoints := [sample_checkpoint]\<rparr>))\<rparr>) saved"

lemma sample_snapshot_stored: "cloneSnapshot sample_snapshot = sample_snapshot" "store_snapshot sample_snapshot = Some sample_snapshot"
  by (simp_all add: cloneSnapshot_def store_snapshot_def sample_snapshot_def sample_message_def cloneSessionMessages_def clone_block_def
      store_message_def json_text_ascii inner_def RoleUser_def ContentText_def)

lemma session_sample_load: "loadSnapshot sample_sha None ''s'' saved = Inr sample_snapshot" "loadGraph sample_sha ''s'' saved = Inr (new_graph ''s'')"
  by (simp_all add: loadSnapshot_def loadGraph_def saved_def sample_snapshot_def empty_dir_def)

lemma sample_create:
  "CreateCheckpoint sample_sha None None Lock_Free Written Written True 7 ''s'' [] saved = (Inr sample_checkpoint, kept_copy)"
proof -
  have "TrimSpace [] = []" "valid_utf8 []" by code_simp+
  moreover have "sd_checkpoints empty_dir = Map.empty" by (simp add: empty_dir_def)
  moreover have "sn_last sample_snapshot = 1" by (simp add: sample_snapshot_def)
  moreover have "dir_of sample_sha saved ''s'' = empty_dir\<lparr>sd_snapshot := Some sample_snapshot\<rparr>" by (simp add: saved_def)
  ultimately show ?thesis
    by (simp add: CreateCheckpoint_def enter_sample session_sample_load sample_snapshot_stored sample_id sample_checkpoint_def kept_copy_def read_graph_def
        written_def Let_def new_graph_def)
qed

lemma sample_new:
  "all_new_ids sample_sha id ''s'' [Checkpoint_Op None None Lock_Free Written Written True 7 ''s'' [],
     Append_Op None Lock_Free True True Appended 1 ''s'' sample_event] saved"
  by (simp add: new_ids_def session_sample_load taken_ids_def new_graph_def)


theorem compaction_keeps_recent_witness:
  "\<exists>n summary. ct_covered (Compact \<lparr>cp_threshold = 10, cp_keep = 1, cp_estimate_only = True\<rparr> (\<lambda>_. Some ''sum'') None 20
       [sample_message, sample_message]) = n \<and> 0 < n \<and> summary = ''sum''"
proof -
  let ?r = "compact_request \<lparr>cp_threshold = 10, cp_keep = 1, cp_estimate_only = True\<rparr> (\<lambda>_. Some ''sum'') None 20 False [sample_message, sample_message]"
  have new: "NewCompactor 10 1 True True = Some \<lparr>cp_threshold = 10, cp_keep = 1, cp_estimate_only = True\<rparr>"
    by (simp add: NewCompactor_def)
  have "ct_applied ?r" by code_simp
  then show ?thesis
    using compaction_keeps_recent [OF new, of "[sample_message, sample_message]" ?r "\<lambda>_. Some ''sum''" None 20 False]
    by (auto simp: Compact_def)
qed

end
