(* ===== verification/Tool_Runner.thy ===== *)
theory Tool_Runner
  imports Session_Message Json_Parser Permission_Broker
begin

text \<open>
  The registry of tools and the runner that executes them (\<open>tool/registry.go\<close>, \<open>runner.go\<close>): a tool runs after its
  arguments have been checked against its schema, it has said what permission it needs, and the broker has allowed that;
  hooks may refuse it or change its arguments, which are then checked and authorized anew; the text of its result is
  bounded. A tool, an interface in Go, is a value of any type \<open>'t\<close>, an authorizer one of any type \<open>'b\<close>; what they,
  the hooks and the gate answer is a function of everything that happened before. A run yields its result and the
  list of what happened.
\<close>

section \<open>Registry\<close>

record tool_spec =
  ts_name :: string
  ts_description :: string
  ts_schema :: string
  ts_read_only :: bool
  ts_concurrent :: bool

text \<open>The registrations by name, in the order of the names.\<close>

type_synonym 't tool_registry = "(string \<times> 't \<times> tool_spec) list"

text \<open>\<open>json.Unmarshal\<close> into a \<open>map[string]any\<close>: a map, which is nil for \<open>null\<close>, or an error.\<close>

definition unmarshal_map :: "string \<Rightarrow> (string \<times> json) list option option" where
  "unmarshal_map raw =
     (case decode_json raw of
        Some JNull \<Rightarrow> Some None
      | Some (JObj kvs) \<Rightarrow> if canonical (JObj kvs) = None then None else Some (Some kvs)
      | _ \<Rightarrow> None)"

definition validateSchemaDefinition :: "string \<Rightarrow> bool" where
  "validateSchemaDefinition schema \<longleftrightarrow>
     (case unmarshal_map schema of
        None \<Rightarrow> False
      | Some definition_map \<Rightarrow>
          (let m = (case definition_map of None \<Rightarrow> [] | Some kvs \<Rightarrow> kvs) in
           map_of m ''type'' = Some (JStr ''object'')
           \<and> (case map_of m ''required'' of None \<Rightarrow> True | Some v \<Rightarrow> (case v of JArr _ \<Rightarrow> True | _ \<Rightarrow> False))
           \<and> (case map_of m ''properties'' of None \<Rightarrow> True | Some v \<Rightarrow> (case v of JObj _ \<Rightarrow> True | _ \<Rightarrow> False))))"

datatype register_error = Tool_Nil | Name_Required | Bad_Schema | Already_Registered

definition Register :: "('t \<times> tool_spec) option \<Rightarrow> 't tool_registry \<Rightarrow> register_error + 't tool_registry" where
  "Register tool reg =
     (case tool of
        None \<Rightarrow> Inl Tool_Nil
      | Some (t, spec) \<Rightarrow>
          if TrimSpace (ts_name spec) = [] then Inl Name_Required
          else if \<not> validateSchemaDefinition (ts_schema spec) then Inl Bad_Schema
          else if map_of reg (ts_name spec) \<noteq> None then Inl Already_Registered
          else Inr (put_key (ts_name spec) (t, spec) reg))"

definition registry_Get :: "string \<Rightarrow> 't tool_registry \<Rightarrow> 't option" where
  "registry_Get name reg = map_option fst (map_of reg name)"

definition Specs :: "'t tool_registry \<Rightarrow> tool_spec list" where
  "Specs reg = map (snd \<circ> snd) reg"

text \<open>\<open>None\<close>: the registry is nil.\<close>

definition Clone :: "'t tool_registry option \<Rightarrow> 't tool_registry" where
  "Clone reg = (case reg of None \<Rightarrow> [] | Some r \<Rightarrow> r)"

fun subset_from :: "'t tool_registry \<Rightarrow> 't tool_registry \<Rightarrow> string list \<Rightarrow> 't tool_registry option" where
  "subset_from reg acc [] = Some acc"
| "subset_from reg acc (n # ns) =
     (let name = TrimSpace n in
      if map_of acc name \<noteq> None then None
      else (case map_of reg name of None \<Rightarrow> None | Some r \<Rightarrow> subset_from reg (put_key name r acc) ns))"

definition Subset :: "'t tool_registry option \<Rightarrow> string list \<Rightarrow> 't tool_registry option" where
  "Subset reg names =
     (case reg of None \<Rightarrow> if names = [] then Some [] else None | Some r \<Rightarrow> subset_from r [] names)"

section \<open>Arguments\<close>

fun matchesJSONType :: "json \<Rightarrow> string \<Rightarrow> bool" where
  "matchesJSONType v expected =
     (if expected = ''string'' then (case v of JStr _ \<Rightarrow> True | _ \<Rightarrow> False)
      else if expected = ''boolean'' then (case v of JBool _ \<Rightarrow> True | _ \<Rightarrow> False)
      else if expected = ''number'' \<or> expected = ''integer'' then (case v of JNum _ \<Rightarrow> True | _ \<Rightarrow> False)
      else if expected = ''object'' then (case v of JObj _ \<Rightarrow> True | _ \<Rightarrow> False)
      else if expected = ''array'' then (case v of JArr _ \<Rightarrow> True | _ \<Rightarrow> False)
      else True)"

definition required_present :: "(string \<times> json) list \<Rightarrow> json \<Rightarrow> bool" where
  "required_present m r \<longleftrightarrow> (case r of JStr name \<Rightarrow> map_of m name \<noteq> None | _ \<Rightarrow> False)"

definition property_ok :: "(string \<times> json) list \<Rightarrow> string \<times> json \<Rightarrow> bool" where
  "property_ok properties kv \<longleftrightarrow>
     (case map_of properties (fst kv) of
        Some (JObj property) \<Rightarrow>
          (case map_of property ''type'' of Some (JStr expected) \<Rightarrow> matchesJSONType (snd kv) expected | _ \<Rightarrow> True)
      | _ \<Rightarrow> True)"

definition valid_input :: "(string \<times> json) list \<Rightarrow> (string \<times> json) list \<Rightarrow> bool" where
  "valid_input m arguments \<longleftrightarrow>
     (let properties = (case map_of m ''properties'' of Some (JObj ps) \<Rightarrow> ps | _ \<Rightarrow> []) in
      (case map_of m ''required'' of Some (JArr rs) \<Rightarrow> list_all (required_present arguments) rs | _ \<Rightarrow> True)
      \<and> (map_of m ''additionalProperties'' = Some (JBool False) \<longrightarrow> list_all (\<lambda>kv. map_of properties (fst kv) \<noteq> None) arguments)
      \<and> list_all (property_ok properties) arguments)"

definition validateArguments :: "string \<Rightarrow> string \<Rightarrow> bool" where
  "validateArguments schema arguments \<longleftrightarrow>
     (case unmarshal_map schema of
        None \<Rightarrow> False
      | Some m \<Rightarrow>
          (case unmarshal_map arguments of
             Some (Some kvs) \<Rightarrow> valid_input (case m of None \<Rightarrow> [] | Some d \<Rightarrow> d) kvs
           | _ \<Rightarrow> False))"

section \<open>Bounded results\<close>

definition RuneStart :: "char \<Rightarrow> bool" where
  "RuneStart c \<longleftrightarrow> \<not> (0x80 \<le> code c \<and> code c < 0xC0)"

fun cut_point :: "string \<Rightarrow> nat \<Rightarrow> nat" where
  "cut_point s 0 = 0"
| "cut_point s (Suc n) = (if RuneStart (s ! Suc n) then Suc n else cut_point s n)"

definition ContentThinking :: string where "ContentThinking = ''thinking''"

definition cut_text :: "string \<Rightarrow> nat \<Rightarrow> string \<times> nat" where
  "cut_text s remaining =
     (if length s \<le> remaining then (s, remaining - length s) else (take (cut_point s remaining) s, 0))"

fun truncate_block :: "content_block \<Rightarrow> nat \<Rightarrow> content_block \<times> nat"
  and truncateBlocks :: "content_block list \<Rightarrow> nat \<Rightarrow> content_block list \<times> nat"
  and truncate_nested :: "tool_result option \<Rightarrow> nat \<Rightarrow> tool_result option \<times> nat" where
  "truncate_block (Content_Block t x h m d c r) remaining =
     (let (r', left) = truncate_nested r remaining in
      if t = ContentText then (let (x', rest) = cut_text x left in (Content_Block t x' h m d c r', rest))
      else if t = ContentThinking then (let (h', rest) = cut_text h left in (Content_Block t x h' m d c r', rest))
      else (Content_Block t x h m d c r', left))"
| "truncateBlocks [] remaining = ([], remaining)"
| "truncateBlocks (b # bs) remaining =
     (let (b', left) = truncate_block b remaining; (bs', rest) = truncateBlocks bs left in (b' # bs', rest))"
| "truncate_nested None remaining = (None, remaining)"
| "truncate_nested (Some (Tool_Result i bs e df)) remaining =
     (let (bs', left) = truncateBlocks bs remaining in (Some (Tool_Result i bs' e df), left))"

definition truncateResult :: "tool_result \<Rightarrow> nat \<Rightarrow> tool_result" where
  "truncateResult r maximum =
     (case r of Tool_Result i bs e df \<Rightarrow> Tool_Result i (fst (truncateBlocks bs maximum)) e df)"

section \<open>The runner\<close>

datatype hook_point = Pre_Tool_Use | Post_Tool_Use | Post_Tool_Use_Failure

text \<open>The changed input of a hook is its text as JSON, \<open>None\<close> where it cannot be marshalled.\<close>

record hook_result =
  hk_denied :: bool
  hk_context :: "string list"
  hk_changed :: "string option option"

text \<open>What happened, with the answers; an answer \<open>None\<close> is an error.\<close>

datatype ('t, 'b) tool_event =
    Asked_Tool 't string "request option"
  | Asked_Broker 'b request "decision option"
  | Ran_Hooks hook_point string "hook_result option"
  | Gate_Refused request
  | Tool_Ran 't string "tool_result option"

text \<open>A gate runs the action once, and returns its result or an error of its own, or refuses.\<close>

datatype gate_plan = Gate_Refuses | Gate_Runs bool

record ('t, 'b) tool_world =
  tw_authorize :: "('t, 'b) tool_event list \<Rightarrow> 't \<Rightarrow> string \<Rightarrow> request option"
  tw_decide :: "('t, 'b) tool_event list \<Rightarrow> 'b \<Rightarrow> request \<Rightarrow> decision option"
  tw_hooks :: "('t, 'b) tool_event list \<Rightarrow> hook_point \<Rightarrow> string \<Rightarrow> hook_result option"
  tw_gate :: "('t, 'b) tool_event list \<Rightarrow> request \<Rightarrow> gate_plan"
  tw_run :: "('t, 'b) tool_event list \<Rightarrow> 't \<Rightarrow> string \<Rightarrow> tool_result option"

record ('t, 'b) runner =
  rn_registry :: "'t tool_registry option"
  rn_authorizer :: "'b option"
  rn_max :: int
  rn_hooks :: bool
  rn_gate :: bool

definition NewRunner :: "'t tool_registry option \<Rightarrow> 'b option \<Rightarrow> int \<Rightarrow> bool \<Rightarrow> bool \<Rightarrow> ('t, 'b) runner" where
  "NewRunner reg authorizer max_bytes hooks gate =
     \<lparr>rn_registry = reg, rn_authorizer = authorizer, rn_max = (if max_bytes \<le> 0 then 2 ^ 20 else max_bytes), rn_hooks = hooks,
       rn_gate = gate\<rparr>"

definition WithAuthorizer :: "'b option \<Rightarrow> ('t, 'b) runner option \<Rightarrow> ('t, 'b) runner option" where
  "WithAuthorizer authorizer rn = map_option (\<lambda>r. r\<lparr>rn_authorizer := authorizer\<rparr>) rn"

datatype tool_error =
    Registry_Unavailable | Tool_Not_Found | Invalid_Arguments | Authorize_Failed | Broker_Unavailable | Decide_Failed
  | Permission_Denied | Hook_Input_Invalid | Hook_Failed | Hook_Denied | Encode_Failed | Run_Failed | Hook_Denied_After

text \<open>Arguments are checked, the tool says what it needs, the broker decides; \<open>Inr\<close> is a request that is allowed.\<close>

definition permit ::
  "('t, 'b) tool_world \<Rightarrow> ('t, 'b) runner \<Rightarrow> 't \<Rightarrow> tool_spec \<Rightarrow> string \<Rightarrow> ('t, 'b) tool_event list
     \<Rightarrow> (tool_error + request) \<times> ('t, 'b) tool_event list" where
  "permit w rn t spec arguments tr =
     (if \<not> validateArguments (ts_schema spec) arguments then (Inl Invalid_Arguments, tr)
      else
        (let ans = tw_authorize w tr t arguments; tr1 = tr @ [Asked_Tool t arguments ans] in
         case ans of
           None \<Rightarrow> (Inl Authorize_Failed, tr1)
         | Some req \<Rightarrow>
             (case rn_authorizer rn of
                None \<Rightarrow> (Inl Broker_Unavailable, tr1)
              | Some b \<Rightarrow>
                  (let dec = tw_decide w tr1 b req; tr2 = tr1 @ [Asked_Broker b req dec] in
                   case dec of
                     None \<Rightarrow> (Inl Decide_Failed, tr2)
                   | Some d \<Rightarrow> if d_behavior d \<noteq> PermissionBehaviorAllow then (Inl Permission_Denied, tr2) else (Inr req, tr2)))))"

text \<open>The hooks before the tool: the request and the arguments to go on with, and the context they add.\<close>

definition pre_tool ::
  "('t, 'b) tool_world \<Rightarrow> ('t, 'b) runner \<Rightarrow> 't \<Rightarrow> tool_spec \<Rightarrow> string \<Rightarrow> request \<Rightarrow> ('t, 'b) tool_event list
     \<Rightarrow> (tool_error + request \<times> string \<times> string list) \<times> ('t, 'b) tool_event list" where
  "pre_tool w rn t spec arguments req tr =
     (if \<not> rn_hooks rn then (Inr (req, arguments, []), tr)
      else if unmarshal_map arguments = None then (Inl Hook_Input_Invalid, tr)
      else
        (let ans = tw_hooks w tr Pre_Tool_Use arguments; tr1 = tr @ [Ran_Hooks Pre_Tool_Use arguments ans] in
         case ans of
           None \<Rightarrow> (Inl Hook_Failed, tr1)
         | Some h \<Rightarrow>
             if hk_denied h then (Inl Hook_Denied, tr1)
             else
               (case hk_changed h of
                  None \<Rightarrow> (Inr (req, arguments, hk_context h), tr1)
                | Some None \<Rightarrow> (Inl Encode_Failed, tr1)
                | Some (Some changed) \<Rightarrow>
                    (case permit w rn t spec changed tr1 of
                       (Inl err, tr2) \<Rightarrow> (Inl err, tr2)
                     | (Inr req', tr2) \<Rightarrow> (Inr (req', changed, hk_context h), tr2)))))"

definition run_action ::
  "('t, 'b) tool_world \<Rightarrow> ('t, 'b) runner \<Rightarrow> 't \<Rightarrow> string \<Rightarrow> request \<Rightarrow> ('t, 'b) tool_event list
     \<Rightarrow> tool_result option \<times> ('t, 'b) tool_event list" where
  "run_action w rn t arguments req tr =
     (let ran = tw_run w tr t arguments; tr1 = tr @ [Tool_Ran t arguments ran] in
      if \<not> rn_gate rn then (ran, tr1)
      else
        (case tw_gate w tr req of
           Gate_Refuses \<Rightarrow> (None, tr @ [Gate_Refused req])
         | Gate_Runs ok \<Rightarrow> (if ok then ran else None, tr1)))"

definition add_context :: "string list \<Rightarrow> tool_result \<Rightarrow> tool_result" where
  "add_context texts r =
     (case r of Tool_Result i bs e df \<Rightarrow>
        Tool_Result i (bs @ map (\<lambda>x. Content_Block ContentText x [] [] [] None None) texts) e df)"

definition post_tool ::
  "('t, 'b) tool_world \<Rightarrow> ('t, 'b) runner \<Rightarrow> string \<Rightarrow> string list \<Rightarrow> tool_result \<Rightarrow> ('t, 'b) tool_event list
     \<Rightarrow> (tool_error + tool_result) \<times> ('t, 'b) tool_event list" where
  "post_tool w rn arguments texts r tr =
     (let finish = (\<lambda>xs. truncateResult (add_context xs r) (nat (rn_max rn))) in
      if \<not> rn_hooks rn then (Inr (finish texts), tr)
      else
        (let ans = tw_hooks w tr Post_Tool_Use arguments; tr1 = tr @ [Ran_Hooks Post_Tool_Use arguments ans] in
         case ans of
           None \<Rightarrow> (Inl Hook_Failed, tr1)
         | Some h \<Rightarrow> if hk_denied h then (Inl Hook_Denied_After, tr1) else (Inr (finish (texts @ hk_context h)), tr1)))"

definition runFailureHook ::
  "('t, 'b) tool_world \<Rightarrow> ('t, 'b) runner \<Rightarrow> string \<Rightarrow> ('t, 'b) tool_event list \<Rightarrow> ('t, 'b) tool_event list" where
  "runFailureHook w rn arguments tr =
     (if rn_hooks rn then tr @ [Ran_Hooks Post_Tool_Use_Failure arguments (tw_hooks w tr Post_Tool_Use_Failure arguments)] else tr)"

definition execute ::
  "('t, 'b) tool_world \<Rightarrow> ('t, 'b) runner \<Rightarrow> 't \<Rightarrow> string \<Rightarrow> request \<Rightarrow> string list \<Rightarrow> ('t, 'b) tool_event list
     \<Rightarrow> (tool_error + tool_result) \<times> ('t, 'b) tool_event list" where
  "execute w rn t arguments req texts tr =
     (case run_action w rn t arguments req tr of
        (None, tr1) \<Rightarrow> (Inl Run_Failed, runFailureHook w rn arguments tr1)
      | (Some r, tr1) \<Rightarrow> post_tool w rn arguments texts r tr1)"

definition run_tool ::
  "('t, 'b) tool_world \<Rightarrow> ('t, 'b) runner \<Rightarrow> string \<Rightarrow> string \<Rightarrow> (tool_error + tool_result) \<times> ('t, 'b) tool_event list" where
  "run_tool w rn name arguments =
     (case rn_registry rn of
        None \<Rightarrow> (Inl Registry_Unavailable, [])
      | Some reg \<Rightarrow>
          (case map_of reg name of
             None \<Rightarrow> (Inl Tool_Not_Found, [])
           | Some (t, spec) \<Rightarrow>
               (case permit w rn t spec arguments [] of
                  (Inl err, tr) \<Rightarrow> (Inl err, tr)
                | (Inr req, tr) \<Rightarrow>
                    (case pre_tool w rn t spec arguments req tr of
                       (Inl err, tr1) \<Rightarrow> (Inl err, tr1)
                     | (Inr (req', arguments', texts), tr1) \<Rightarrow> execute w rn t arguments' req' texts tr1))))"

end
