(* ===== verification/Tool_Properties.thy ===== *)
theory Tool_Properties
  imports Tool_Runner Broker_Properties
begin

text \<open>
  The runner of tools: a tool runs only with arguments that fit its schema and that the broker has just allowed, also
  where a hook has changed them; so a request that a denial rule matches never runs; and the text of a result is
  bounded.
\<close>

section \<open>What precedes a tool\<close>

text \<open>The events of a successful \<open>permit\<close>.\<close>

definition grant :: "('t, 'b) tool_world \<Rightarrow> ('t, 'b) runner \<Rightarrow> 't \<Rightarrow> tool_spec \<Rightarrow> string \<Rightarrow> request \<Rightarrow> ('t, 'b) tool_event list \<Rightarrow> bool" where
  "grant w rn t spec arguments req evs \<longleftrightarrow>
     validateArguments (ts_schema spec) arguments
     \<and> (\<exists>b d tr. rn_authorizer rn = Some b \<and> tw_decide w tr b req = Some d \<and> d_behavior d = PermissionBehaviorAllow
          \<and> evs = [Asked_Tool t arguments (Some req), Asked_Broker b req (Some d)])"

fun is_run :: "('t, 'b) tool_event \<Rightarrow> bool" where
  "is_run (Tool_Ran t a r) = True"
| "is_run _ = False"

lemma permit_cases:
  obtains (refused) err evs where "permit w rn t spec arguments tr = (Inl err, tr @ evs)" "list_all (\<lambda>e. \<not> is_run e) evs"
    | (granted) req evs where "permit w rn t spec arguments tr = (Inr req, tr @ evs)" "grant w rn t spec arguments req evs"
proof -
  let ?p = "permit w rn t spec arguments tr"
  have "(\<exists>err evs. ?p = (Inl err, tr @ evs) \<and> list_all (\<lambda>e. \<not> is_run e) evs)
      \<or> (\<exists>req evs. ?p = (Inr req, tr @ evs) \<and> grant w rn t spec arguments req evs)"
    unfolding permit_def Let_def grant_def by (fastforce split: option.split)
  then show ?thesis using refused granted by blast
qed

text \<open>The events between the first grant and the run: nothing, hooks that change nothing, or hooks and a new grant.\<close>

inductive prepared ::
  "('t, 'b) tool_world \<Rightarrow> ('t, 'b) runner \<Rightarrow> 't \<Rightarrow> tool_spec \<Rightarrow> string \<Rightarrow> request \<Rightarrow> string \<Rightarrow> request \<Rightarrow> ('t, 'b) tool_event list \<Rightarrow> bool"
  for w rn t spec where
  no_hooks: "grant w rn t spec a req evs \<Longrightarrow> prepared w rn t spec a req a req evs"
| unchanged: "grant w rn t spec a req evs \<Longrightarrow> \<not> hk_denied h \<Longrightarrow> hk_changed h = None
    \<Longrightarrow> prepared w rn t spec a req a req (evs @ [Ran_Hooks Pre_Tool_Use a (Some h)])"
| changed: "grant w rn t spec a req evs \<Longrightarrow> \<not> hk_denied h \<Longrightarrow> hk_changed h = Some (Some a') \<Longrightarrow> grant w rn t spec a' req' evs'
    \<Longrightarrow> prepared w rn t spec a req a' req' (evs @ [Ran_Hooks Pre_Tool_Use a (Some h)] @ evs')"

inductive_cases preparedE: "prepared w rn t spec a req a' req' evs"

lemma pre_tool_cases:
  assumes "grant w rn t spec a req evs"
  obtains (refused) err evs' where "pre_tool w rn t spec a req evs = (Inl err, evs @ evs')" "list_all (\<lambda>e. \<not> is_run e) evs'"
    | (ready) req' a' texts evs' where "pre_tool w rn t spec a req evs = (Inr (req', a', texts), evs')"
        "prepared w rn t spec a req a' req' evs'"
proof (cases "rn_hooks rn \<and> unmarshal_map a \<noteq> None")
  case False
  then show ?thesis
    using refused [of Hook_Input_Invalid "[]"] ready [of req a "[]" evs] prepared.no_hooks [OF assms]
    by (cases "rn_hooks rn") (auto simp: pre_tool_def)
next
  case True
  let ?ans = "tw_hooks w evs Pre_Tool_Use a"
  show ?thesis
  proof (cases ?ans)
    case None
    then show ?thesis using True refused [of Hook_Failed "[Ran_Hooks Pre_Tool_Use a None]"] by (simp add: pre_tool_def)
  next
    case (Some h)
    let ?tr = "evs @ [Ran_Hooks Pre_Tool_Use a (Some h)]"
    show ?thesis
    proof (cases "hk_denied h")
      case True
      then show ?thesis
        using Some \<open>rn_hooks rn \<and> _\<close> refused [of Hook_Denied "[Ran_Hooks Pre_Tool_Use a (Some h)]"] by (simp add: pre_tool_def)
    next
      case ok: False
      note s = pre_tool_def Some ok
      show ?thesis
      proof (cases "hk_changed h")
        case None
        then show ?thesis
          using True ready [of req a "hk_context h" ?tr] prepared.unchanged [OF assms ok None] by (simp add: s)
      next
        case c: (Some ch)
        show ?thesis
        proof (cases ch)
          case None
          then show ?thesis
            using True c refused [of Encode_Failed "[Ran_Hooks Pre_Tool_Use a (Some h)]"] by (simp add: s)
        next
          case a': (Some a')
          show ?thesis
          proof (cases rule: permit_cases [of w rn t spec a' ?tr])
            case (refused err evs')
            then show ?thesis
              using True c a' that(1) [of err "Ran_Hooks Pre_Tool_Use a (Some h) # evs'"] by (simp add: s)
          next
            case (granted req' evs')
            then show ?thesis
              using True c a' ready [of req' a' "hk_context h" "?tr @ evs'"]
                prepared.changed [OF assms ok, of a' req' evs'] by (simp add: s)
          qed
        qed
      qed
    qed
  qed
qed

lemma execute_trace:
  "\<exists>evs. snd (execute w rn t a req texts tr) = tr @ evs
     \<and> (list_all (\<lambda>e. \<not> is_run e) evs \<or> (\<exists>r more. evs = Tool_Ran t a r # more \<and> list_all (\<lambda>e. \<not> is_run e) more))"
  by (cases "run_action w rn t a req tr")
    (auto simp: execute_def run_action_def post_tool_def runFailureHook_def Let_def split: option.split gate_plan.splits if_splits)

lemma run_tool_trace:
  obtains (never) "list_all (\<lambda>e. \<not> is_run e) (snd (run_tool w rn name a))"
    | (ran) reg t spec req a' req' pre r more where
        "rn_registry rn = Some reg" "map_of reg name = Some (t, spec)" "prepared w rn t spec a req a' req' pre"
        "snd (run_tool w rn name a) = pre @ Tool_Ran t a' r # more" "list_all (\<lambda>e. \<not> is_run e) more"
proof -
  have gr: "list_all (\<lambda>e. \<not> is_run e) evs" if "grant w rn t spec b req evs" for t spec b req evs
    using that by (auto simp: grant_def)
  have pr: "list_all (\<lambda>e. \<not> is_run e) evs" if "prepared w rn t spec b req b' req' evs" for t spec b req b' req' evs
    using that gr by (auto elim!: preparedE)
  show ?thesis
  proof (cases "\<exists>reg. rn_registry rn = Some reg \<and> map_of reg name \<noteq> None")
    case False
    then show ?thesis
      using never by (cases "rn_registry rn"; cases "map_of (the (rn_registry rn)) name") (auto simp: run_tool_def)
  next
    case True
    then obtain reg t spec where reg: "rn_registry rn = Some reg" "map_of reg name = Some (t, spec)" by auto
    show ?thesis
    proof (cases rule: permit_cases [of w rn t spec a "[]"])
      case (refused err evs)
      then show ?thesis using reg never by (simp add: run_tool_def)
    next
      case (granted req evs)
      from granted(2) show ?thesis
      proof (cases rule: pre_tool_cases [where w = w])
        case (refused err evs')
        then show ?thesis using reg granted never gr [OF granted(2)] by (simp add: run_tool_def)
      next
        case (ready req' a' texts evs')
        then have "snd (run_tool w rn name a) = snd (execute w rn t a' req' texts evs')"
          using reg granted by (simp add: run_tool_def)
        then show ?thesis
          using execute_trace [of w rn t a' req' texts evs'] pr [OF ready(2)] ran [OF reg ready(2)] never by auto
      qed
    qed
  qed
qed

text \<open>C40: a tool runs only if it was allowed. Whatever the tools, the broker, the hooks and the gate answer: if a tool ran with
  some arguments, it is the one registered under the name that was called, the arguments fit its schema, and right
  before, or with only hooks that changed nothing in between, the tool named the request for these very arguments and the broker
  allowed it. It ran at most once; and no event before was a denial of the broker or of a hook.\<close>

theorem tool_runs_only_when_allowed:
  assumes "run_tool w rn name arguments = (result, before @ Tool_Ran t a r # after)"
  shows "\<exists>reg spec b req d front hooks. rn_registry rn = Some reg \<and> map_of reg name = Some (t, spec)
    \<and> validateArguments (ts_schema spec) a \<and> rn_authorizer rn = Some b \<and> d_behavior d = PermissionBehaviorAllow
    \<and> before = front @ [Asked_Tool t a (Some req), Asked_Broker b req (Some d)] @ hooks
    \<and> hooks \<in> {[]} \<union> {[Ran_Hooks Pre_Tool_Use a (Some h)] | h. \<not> hk_denied h \<and> hk_changed h = None}
    \<and> list_all (\<lambda>e. \<not> is_run e) (before @ after)
    \<and> (\<forall>b' req' ans. Asked_Broker b' req' ans \<in> set before \<longrightarrow> map_option d_behavior ans = Some PermissionBehaviorAllow)
    \<and> (\<forall>p a' ans. Ran_Hooks p a' ans \<in> set before \<longrightarrow> map_option hk_denied ans = Some False)"
proof -
  have tr: "snd (run_tool w rn name arguments) = before @ Tool_Ran t a r # after" using assms by simp
  show ?thesis
  proof (cases rule: run_tool_trace [of w rn name arguments])
    case never
    then show ?thesis unfolding tr by simp
  next
    case (ran reg t' spec req0 a' req pre r' more)
    have quiet: "list_all (\<lambda>e. \<not> is_run e) pre" using ran(3) by (auto elim!: preparedE simp: grant_def)
    have "before = pre \<and> Tool_Ran t a r # after = Tool_Ran t' a' r' # more"
      using ran(4,5) quiet tr by (auto simp: append_eq_append_conv2 append_eq_Cons_conv Cons_eq_append_conv list_all_iff)
    then have eq: "before = pre" "t' = t" "a' = a" "after = more" by auto
    from ran(3) [unfolded eq] show ?thesis
    proof (cases rule: prepared.cases)
      case no_hooks
      then obtain b d where g: "validateArguments (ts_schema spec) a" "rn_authorizer rn = Some b" "d_behavior d = PermissionBehaviorAllow"
          "pre = [Asked_Tool t a (Some req), Asked_Broker b req (Some d)]" by (auto simp: grant_def eq)
      show ?thesis
        by (rule exI [of _ reg], rule exI [of _ spec], rule exI [of _ b], rule exI [of _ req], rule exI [of _ d], rule exI [of _ "[]"],
            rule exI [of _ "[]"]) (use g ran(1,2,5) eq in simp)
    next
      case (unchanged evs h)
      then obtain b d where g: "validateArguments (ts_schema spec) a" "rn_authorizer rn = Some b" "d_behavior d = PermissionBehaviorAllow"
          "pre = [Asked_Tool t a (Some req), Asked_Broker b req (Some d)] @ [Ran_Hooks Pre_Tool_Use a (Some h)]"
        by (auto simp: grant_def eq)
      show ?thesis
        by (rule exI [of _ reg], rule exI [of _ spec], rule exI [of _ b], rule exI [of _ req], rule exI [of _ d], rule exI [of _ "[]"],
            rule exI [of _ "[Ran_Hooks Pre_Tool_Use a (Some h)]"]) (use g ran(1,2,5) eq unchanged in auto)
    next
      case (changed evs h evs')
      then obtain b d b0 d0 where g: "validateArguments (ts_schema spec) a" "rn_authorizer rn = Some b" "d_behavior d = PermissionBehaviorAllow"
          "d_behavior d0 = PermissionBehaviorAllow"
          "pre = [Asked_Tool t arguments (Some req0), Asked_Broker b0 req0 (Some d0), Ran_Hooks Pre_Tool_Use arguments (Some h)]
            @ [Asked_Tool t a (Some req), Asked_Broker b req (Some d)]"
        by (auto simp: grant_def eq)
      show ?thesis
        by (rule exI [of _ reg], rule exI [of _ spec], rule exI [of _ b], rule exI [of _ req], rule exI [of _ d],
            rule exI [of _ "[Asked_Tool t arguments (Some req0), Asked_Broker b0 req0 (Some d0), Ran_Hooks Pre_Tool_Use arguments (Some h)]"],
            rule exI [of _ "[]"]) (use g ran(1,2,5) eq changed in auto)
    qed
  qed
qed

section \<open>Denials\<close>

text \<open>C34: what a denial rule matches never runs. If every decision of the authorizer is one of a chain of brokers that has a
  certain denial rule, in any state and with any answers of the user, then whatever tool runs, whatever mode, session
  approvals and hooks there are, the request that it named for its arguments is not matched by the rule.\<close>

theorem denied_request_never_runs:
  assumes brokers: "\<And>tr b req d. tw_decide w tr b req = Some d \<Longrightarrow>
      \<exists>os sink c now answers chain chain' broker. broker \<in> set chain \<and> rule \<in> set (b_rules broker)
        \<and> Decide os sink c now req answers chain = Some (chain', Inr d)"
    and deny: "r_behavior rule = PermissionBehaviorDeny"
    and ran: "Tool_Ran t a r \<in> set (snd (run_tool w rn name arguments))"
  shows "\<exists>req. Asked_Tool t a (Some req) \<in> set (snd (run_tool w rn name arguments)) \<and> \<not> ruleMatches rule req"
proof (cases rule: run_tool_trace [of w rn name arguments])
  case never
  then show ?thesis using ran by (force simp: list_all_iff)
next
  case (ran reg t' spec req0 a' req pre r' more)
  have "list_all (\<lambda>e. \<not> is_run e) pre" using ran(3) by (auto elim!: preparedE simp: grant_def)
  then have eq: "t' = t" "a' = a" using assms(3) ran(4,5) by (auto simp: list_all_iff)
  have "\<exists>evs. grant w rn t spec a req evs \<and> set evs \<subseteq> set pre"
    using ran(3) unfolding eq by (cases rule: prepared.cases) auto
  then obtain evs where g: "grant w rn t spec a req evs" "set evs \<subseteq> set pre" by blast
  from g obtain b d tr where d: "tw_decide w tr b req = Some d" "d_behavior d = PermissionBehaviorAllow"
      "Asked_Tool t a (Some req) \<in> set pre"
    by (auto simp: grant_def)
  have "\<not> ruleMatches rule req"
    using brokers [OF d(1)] denial_denies deny d(2) by fastforce
  then show ?thesis using d(3) ran(4) by auto
qed

section \<open>Bounded results\<close>

fun text_bytes :: "content_block list \<Rightarrow> nat"
  and block_bytes :: "content_block \<Rightarrow> nat"
  and nested_bytes :: "tool_result option \<Rightarrow> nat" where
  "text_bytes [] = 0"
| "text_bytes (b # bs) = block_bytes b + text_bytes bs"
| "block_bytes (Content_Block t x h m d c r) =
     (if t = ContentText then length x else if t = ContentThinking then length h else 0) + nested_bytes r"
| "nested_bytes None = 0"
| "nested_bytes (Some (Tool_Result i bs e df)) = text_bytes bs"

lemma cut_point_le: "cut_point s n \<le> n"
  by (induction n) (auto split: if_splits)

lemma cut_text_spec:
  "length (fst (cut_text s n)) + snd (cut_text s n) \<le> n"
  "length s \<le> n \<Longrightarrow> cut_text s n = (s, n - length s)"
  using cut_point_le [of s n] by (auto simp: cut_text_def)

lemma truncate_bound:
  "block_bytes (fst (truncate_block b n)) + snd (truncate_block b n) \<le> n"
  "text_bytes (fst (truncateBlocks bs n)) + snd (truncateBlocks bs n) \<le> n"
  "nested_bytes (fst (truncate_nested r n)) + snd (truncate_nested r n) \<le> n"
proof (induction b n and bs n and r n rule: truncate_block_truncateBlocks_truncate_nested.induct)
  case (1 t x h m d c r n)
  then show ?case
    using cut_text_spec(1) [of x "snd (truncate_nested r n)"] cut_text_spec(1) [of h "snd (truncate_nested r n)"]
    by (auto simp: Let_def split: prod.splits)
next
  case (3 b bs n)
  obtain b' left where b: "truncate_block b n = (b', left)" by (rule prod.exhaust)
  obtain bs' rest where bs: "truncateBlocks bs left = (bs', rest)" by (rule prod.exhaust)
  have "block_bytes b' + left \<le> n" "text_bytes bs' + rest \<le> left" using 3(1) 3(2) [of "(b', left)" b' left] b bs by auto
  then show ?case using b bs by simp
qed (auto simp: Let_def split: prod.splits)

lemma truncate_small:
  "block_bytes b \<le> n \<Longrightarrow> truncate_block b n = (b, n - block_bytes b)"
  "text_bytes bs \<le> n \<Longrightarrow> truncateBlocks bs n = (bs, n - text_bytes bs)"
  "nested_bytes r \<le> n \<Longrightarrow> truncate_nested r n = (r, n - nested_bytes r)"
  by (induction b n and bs n and r n rule: truncate_block_truncateBlocks_truncate_nested.induct)
    (auto simp: Let_def cut_text_spec(2))

lemma truncateResult_bytes: "text_bytes (rs_content (truncateResult r n)) \<le> n"
  using truncate_bound(2) [of "rs_content r" n] by (cases r) (simp add: truncateResult_def)

lemma truncateResult_small: "text_bytes (rs_content r) \<le> n \<Longrightarrow> truncateResult r n = r"
  by (cases r) (simp add: truncateResult_def truncate_small)

lemma execute_result:
  assumes "execute w rn t a req texts tr = (Inr result, tr')"
  shows "\<exists>r xs. Tool_Ran t a (Some r) \<in> set tr' \<and> result = truncateResult (add_context xs r) (nat (rn_max rn))"
proof -
  obtain r tr1 where ran: "run_action w rn t a req tr = (Some r, tr1)" "post_tool w rn a texts r tr1 = (Inr result, tr')"
    using assms by (auto simp: execute_def split: prod.splits option.splits)
  have "Tool_Ran t a (Some r) \<in> set tr1"
    using ran(1) by (auto simp: run_action_def Let_def split: gate_plan.splits if_splits)
  moreover have "set tr1 \<subseteq> set tr' \<and> (\<exists>xs. result = truncateResult (add_context xs r) (nat (rn_max rn)))"
    using ran(2) by (auto simp: post_tool_def Let_def split: option.splits if_splits)
  ultimately show ?thesis by blast
qed

text \<open>C32: the text of a result is bounded. A runner returns the result of a tool that ran, with the context of hooks added, and
  at most the configured number of bytes of text and thinking in all, nested results included; and exactly that where it is
  small enough.\<close>

theorem tool_result_bounded:
  assumes "run_tool w (NewRunner reg authorizer max_bytes hooks gate) name arguments = (Inr result, tr)"
  shows "\<exists>t a r texts. Tool_Ran t a (Some r) \<in> set tr
    \<and> text_bytes (rs_content result) \<le> nat (if max_bytes \<le> 0 then 2 ^ 20 else max_bytes)
    \<and> rs_call result = rs_call r \<and> rs_error result = rs_error r
    \<and> (text_bytes (rs_content (add_context texts r)) \<le> nat (if max_bytes \<le> 0 then 2 ^ 20 else max_bytes)
        \<longrightarrow> result = add_context texts r)"
proof -
  let ?rn = "NewRunner reg authorizer max_bytes hooks gate"
  obtain t a req texts tr0 where "execute w ?rn t a req texts tr0 = (Inr result, tr)"
    using assms by (auto simp: run_tool_def split: option.splits prod.splits sum.splits)
  then obtain r xs where r: "Tool_Ran t a (Some r) \<in> set tr" "result = truncateResult (add_context xs r) (nat (rn_max ?rn))"
    using execute_result [of w ?rn t a req texts tr0 result tr] by blast
  have m: "rn_max ?rn = (if max_bytes \<le> 0 then 2 ^ 20 else max_bytes)" by (simp add: NewRunner_def)
  have "rs_call result = rs_call r" "rs_error result = rs_error r"
    unfolding r(2) by (cases r; simp add: truncateResult_def add_context_def)+
  then show ?thesis
    using r(1) truncateResult_bytes [of "add_context xs r" "nat (rn_max ?rn)"] truncateResult_small [of "add_context xs r" "nat (rn_max ?rn)"]
    unfolding r(2) m by blast
qed

section \<open>Registries\<close>

lemma subset_from_sub:
  "subset_from reg acc names = Some sub \<Longrightarrow> map_of acc \<subseteq>\<^sub>m map_of reg \<Longrightarrow>
     map_of sub \<subseteq>\<^sub>m map_of reg \<and> dom (map_of sub) = dom (map_of acc) \<union> set (map TrimSpace names)"
proof (induction names arbitrary: acc)
  case (Cons n names)
  then obtain r where r: "map_of reg (TrimSpace n) = Some r" "subset_from reg (put_key (TrimSpace n) r acc) names = Some sub"
    by (auto simp: Let_def split: if_splits option.splits)
  have "map_of (put_key (TrimSpace n) r acc) \<subseteq>\<^sub>m map_of reg" using Cons.prems(2) r(1) by (simp add: map_le_def)
  note sub = Cons.IH [OF r(2) this]
  have "dom (map_of (put_key (TrimSpace n) r acc)) = insert (TrimSpace n) (dom (map_of acc))"
    by (simp only: map_of_put_key dom_fun_upd) simp
  then show ?case using sub by (metis list.simps(15) list.simps(9) Un_insert_left Un_insert_right)
qed simp

text \<open>A subset of a registry has the named tools, with the registrations they had, and no others.\<close>

lemma Subset_exact:
  "Subset (Some reg) names = Some sub \<Longrightarrow> map_of sub \<subseteq>\<^sub>m map_of reg \<and> dom (map_of sub) = set (map TrimSpace names)"
  using subset_from_sub [of reg "[]" names sub] by (simp add: Subset_def)

end
