(* ===== verification/Tool_Witnesses.thy ===== *)
theory Tool_Witnesses
  imports Tool_Properties
begin

text \<open>A run of a tool under a chain of brokers that denies edits: the tool reads, a broker in bypass mode allows it.\<close>

definition sample_schema :: string where
  "sample_schema = [CHR ''{'', CHR 0x22] @ ''type'' @ [CHR 0x22, CHR '':'', CHR 0x22] @ ''object'' @ [CHR 0x22, CHR ''}'']"

definition sample_spec :: tool_spec where
  "sample_spec = \<lparr>ts_name = ''read'', ts_description = [], ts_schema = sample_schema, ts_read_only = True, ts_concurrent = True\<rparr>"

definition guarded_chain :: "broker list" where
  "guarded_chain = [broker_in PermissionModeBypass [deny_edit]]"

definition view_request :: request where
  "view_request = \<lparr>rq_tool = ''Read'', rq_action = ActionExecute, rq_workspace = ''/w'', rq_command = ''ls'',
     rq_paths = [], rq_network = []\<rparr>"

definition chain_decision :: "request \<Rightarrow> decision option" where
  "chain_decision req =
     (case Decide sample_os (\<lambda>_. None) None 0 req [] guarded_chain of Some (_, Inr d) \<Rightarrow> Some d | _ \<Rightarrow> None)"

definition view_result :: tool_result where
  "view_result = Tool_Result [] [Content_Block ContentText ''ok'' [] [] [] None None] False None"

definition sample_tool_world :: "(unit, unit) tool_world" where
  "sample_tool_world = \<lparr>tw_authorize = \<lambda>_ _ _. Some view_request, tw_decide = \<lambda>_ _ req. chain_decision req,
     tw_hooks = \<lambda>_ _ _. None, tw_gate = \<lambda>_ _. Gate_Refuses, tw_run = \<lambda>_ _ _. Some view_result\<rparr>"

definition sample_runner :: "(unit, unit) runner" where
  "sample_runner = NewRunner (Some [(''read'', (), sample_spec)]) (Some ()) 0 False False"

lemma sample_arguments: "validateArguments sample_schema ''{}''"
  by code_simp

lemma sample_allowed: "\<exists>d. chain_decision view_request = Some d \<and> d_behavior d = PermissionBehaviorAllow"
  by (simp add: chain_decision_def guarded_chain_def view_request_def sample_broker_defs)

lemma chain_decision_chain:
  "chain_decision req = Some d \<Longrightarrow> \<exists>chain'. Decide sample_os (\<lambda>_. None) None 0 req [] guarded_chain = Some (chain', Inr d)"
  unfolding chain_decision_def by (auto split: option.splits prod.splits sum.splits)

lemma sample_bytes: "truncateResult (add_context [] view_result) n = (if 2 \<le> n then view_result else truncateResult view_result n)"
  by (simp add: truncateResult_small add_context_def view_result_def ContentText_def)

lemma sample_tool_run:
  "\<exists>d. run_tool sample_tool_world sample_runner ''read'' ''{}'' = (Inr view_result,
     [Asked_Tool () ''{}'' (Some view_request), Asked_Broker () view_request (Some d), Tool_Ran () ''{}'' (Some view_result)])"
proof -
  obtain d where d: "chain_decision view_request = Some d" "d_behavior d = PermissionBehaviorAllow" using sample_allowed by blast
  then show ?thesis
    by (simp add: run_tool_def sample_runner_def NewRunner_def permit_def sample_spec_def sample_arguments sample_tool_world_def
        pre_tool_def execute_def run_action_def post_tool_def Let_def sample_bytes)
qed

theorem tool_runs_only_when_allowed_witness:
  "\<exists>spec :: tool_spec. \<exists>d req. map_of [(''read'', (), sample_spec)] ''read'' = Some ((), spec) \<and> validateArguments (ts_schema spec) ''{}''
     \<and> d_behavior d = PermissionBehaviorAllow
     \<and> run_tool sample_tool_world sample_runner ''read'' ''{}'' = (Inr view_result,
         [Asked_Tool () ''{}'' (Some req), Asked_Broker () req (Some d), Tool_Ran () ''{}'' (Some view_result)])"
proof -
  obtain d where d: "run_tool sample_tool_world sample_runner ''read'' ''{}'' = (Inr view_result,
     [Asked_Tool () ''{}'' (Some view_request), Asked_Broker () view_request (Some d)] @ Tool_Ran () ''{}'' (Some view_result) # [])"
    using sample_tool_run by auto
  show ?thesis
    using tool_runs_only_when_allowed [OF d] d by (auto simp: sample_runner_def NewRunner_def append_eq_Cons_conv)
qed

theorem denied_request_never_runs_witness:
  "Tool_Ran () ''{}'' (Some view_result) \<in> set (snd (run_tool sample_tool_world sample_runner ''read'' ''{}''))
   \<and> (\<exists>req. Asked_Tool () ''{}'' (Some req) \<in> set (snd (run_tool sample_tool_world sample_runner ''read'' ''{}''))
        \<and> \<not> ruleMatches deny_edit req)"
proof -
  have ran: "Tool_Ran () ''{}'' (Some view_result) \<in> set (snd (run_tool sample_tool_world sample_runner ''read'' ''{}''))"
    using sample_tool_run by auto
  have brokers: "\<exists>os sink c now answers chain chain' broker. broker \<in> set chain \<and> deny_edit \<in> set (b_rules broker)
      \<and> Decide os sink c now req answers chain = Some (chain', Inr d)"
    if dec: "tw_decide sample_tool_world tr b req = Some d" for tr b req d
  proof -
    obtain chain' where "Decide sample_os (\<lambda>_. None) None 0 req [] guarded_chain = Some (chain', Inr d)"
      using dec chain_decision_chain by (auto simp: sample_tool_world_def)
    moreover have "broker_in PermissionModeBypass [deny_edit] \<in> set guarded_chain"
        "deny_edit \<in> set (b_rules (broker_in PermissionModeBypass [deny_edit]))"
      by (simp_all add: guarded_chain_def broker_in_def)
    ultimately show ?thesis by blast
  qed
  have deny: "r_behavior deny_edit = PermissionBehaviorDeny" by (simp add: deny_edit_def)
  show ?thesis using ran denied_request_never_runs [OF brokers deny ran] by simp
qed

theorem tool_result_bounded_witness:
  "\<exists>t a r texts. Tool_Ran t a (Some r) \<in> set (snd (run_tool sample_tool_world sample_runner ''read'' ''{}''))
     \<and> text_bytes (rs_content view_result) \<le> 2 ^ 20"
proof -
  obtain tr where tr: "run_tool sample_tool_world (NewRunner (Some [(''read'', (), sample_spec)]) (Some ()) 0 False False) ''read'' ''{}''
      = (Inr view_result, tr)"
    using sample_tool_run by (auto simp: sample_runner_def)
  show ?thesis using tool_result_bounded [OF tr] tr by (auto simp: sample_runner_def)
qed

end
