(* ===== verification/Spec2Isabelle.thy ===== *)
theory Spec2Isabelle
  imports Vim_Properties Lru_Cache Queue_Properties Queue_Worker Permission_Properties Broker_Properties
    Authorization_Snapshot Mailbox_Properties Workspace_Lease Sanitizer_Properties Contract_Properties Runtime_Witnesses
    Session_Witnesses Tool_Witnesses
begin

text \<open>
  Cyber-code is a terminal agent written in Go: a runtime drives model providers and tools, a permission
  broker decides which actions of an agent may run, a durable queue carries background work, agents
  coordinate through shared files, a policy authorizes the members of an organization, and a terminal
  interface has a Vim mode. This development models the parts that hold the program's own decisions and
  state, from the sources under \<open>internal/\<close>, and proves what makes them correct.

  \<^bold>\<open>Conventions.\<close> A Go string is a list of bytes. A \<open>time.Time\<close> is an \<open>int\<close> of nanoseconds whose zero is the
  zero time; comparisons are by instant. A \<open>time.Duration\<close> and an \<open>int\<close> are written as \<open>int\<close>, with
  \<open>wrap64\<close> where the code's arithmetic can wrap around; a \<open>uint64\<close> is a \<open>64 word\<close>. Every raise, early
  return and panic is a value: an error of the component's own datatype, \<open>Inl\<close>, or \<open>None\<close> for a panic or
  a loop that does not return. What the environment decides (contexts, clocks, random bytes, the
  outcome of reading and writing files, the file system, the user's answers, audit sinks) is an
  argument of the operation. An operation that holds its component's mutex or file lock is one step, and
  a run is a fold of steps over any list of operations, which covers every interleaving of goroutines
  and, for the shared files, of processes. SHA-256, the RFC 3339 format and the redactor of secrets are
  parameters.

  \<^bold>\<open>Shared ground.\<close> Go_Prelude: instants, contexts, byte strings, \<open>strings.TrimSpace\<close>, and the contracts
  \<open>invariant_machine\<close> and \<open>monotone_machine\<close>. Go_Regexp: UTF-8 decoding and the fragment of \<open>regexp\<close> that
  permission patterns compile to. Go_Json: \<open>json.Valid\<close> as the scanner of the standard library, and what
  a string and a raw message become when they are written as JSON and read back. Go_Path: the functions
  of \<open>path/filepath\<close>.

  \<^bold>\<open>Task queue\<close> (\<open>tasks/queue.go\<close>). Task_Queue models the queue, its state file (by the items it decodes to and the
  length of its text, on which \<open>OpenQueue\<close> sets a limit)
  and every operation: \<open>Enqueue\<close>, \<open>Claim\<close>, \<open>Complete\<close>, \<open>Fail\<close>, \<open>CancelByKey\<close>, \<open>Reconcile\<close>, \<open>CleanupTerminal\<close>,
  \<open>Close\<close>, \<open>OpenQueue\<close>. Every mutation follows the pattern \<open>commit\<close>, whose contract is the locale
  \<open>write_through\<close>. Queue_Properties: the invariant over all runs, agreement of memory and file, which
  item a claim takes, leases, finality, the closed form of the backoff, idempotent enqueueing, and
  reopening, with the three cases in which the queue refuses its own file. Queue_Worker: the worker loop
  (\<open>QueueWorker.run\<close>) interleaved with other clients, and bounded delivery. A run is a finite list of
  events, so no fuel is needed; the worker's loop is followed round by round.

  \<^bold>\<open>Permissions\<close> (\<open>permissions/*.go\<close>). Permission_Manager and Permission_Properties: rules per source, wildcard
  patterns with their cache, parsing and formatting of rules, updates. Permission_Path: the workspace
  boundary; the walk up to an existing ancestor is a \<open>partial_function\<close>, and it is proved to return.
  Permission_Broker and Broker_Properties: modes, rules, session approvals, confirmation, children that
  are intersected with their ancestors, enterprise trust, auditing. The in-memory audit log is not
  modelled.

  \<^bold>\<open>Authorization\<close> (\<open>authorization/policy.go\<close>, \<open>snapshot.go\<close>). Authorization: members, invitations, sessions,
  step-up and emergency access, provisioning, and the hash chain of decisions; the three maps share the
  contract \<open>keyed_table\<close>. \<open>Authorize\<close> reads the clock up to four times under its mutex; the model uses one
  instant. Authorization_Properties: the exact condition of an approval over the written-out tables of capabilities, the
  log and its tampering, which no one can hide short of a collision of the hash.
  Authorization_Access: tenants, revocation, invitations, revisions, emergency access.
  Authorization_Snapshot: the round trip. Stores, HTTP handlers and bundles around the policy are not
  modelled.

  \<^bold>\<open>Collaboration\<close> (\<open>collaboration/board.go\<close>, \<open>mailbox.go\<close>, \<open>coordinator.go\<close>). Collaboration models board and
  mailbox as operations on a shared JSON file; Board_Properties states the contract \<open>document\<close> of such a
  file and the life of tasks, Mailbox_Properties that a mailbox is a queue per recipient. Workspace_Lease
  is the write lease as a step relation over goroutines, with mutual exclusion by rule induction.
  \<open>sort.Slice\<close> is the place where Go leaves an order open and the model does not follow.
  Identifiers of tasks are assumed to be UTF-8 where uniqueness is claimed. Agent definitions are not modelled.

  \<^bold>\<open>Vim mode\<close> (\<open>vim/types.go\<close>, \<open>transitions.go\<close>). Vim_Mode and Vim_Properties: the key-driven state machine,
  counts, operators, insert sessions, and its dead ends.

  \<^bold>\<open>LRU cache\<close> (\<open>utils/lru_cache.go\<close>). Lru_Cache: the cache over its list and map, refinement of a
  recency-ordered association list, and transparency of \<open>MemoizeWithLRU\<close>; \<open>MemoizeAsyncWithLRU\<close>, which starts
  goroutines, is not modelled.

  \<^bold>\<open>Product protocol\<close> (\<open>productprotocol/types.go\<close>, \<open>validate.go\<close>). Json_Value is JSON as a data type, with the number
  and canonical forms the code compares; Json_Parser reads text into it under the fuel \<open>length raw + 1\<close>,
  which \<open>parse_value_fuel\<close> shows to be enough; Json_Decoding is \<open>json.Unmarshal\<close> into structs, whose
  keys match up to case. Go_Formats: RFC 3339 times, base64, and \<open>unicode.IsControl\<close>. Product_Types has the
  structs, Product_Validate the validation of an event, rule by rule.

  \<^bold>\<open>Product state\<close> (\<open>productstate/state.go\<close>, \<open>project.go\<close>). Product_State is the snapshot and the projection of
  every type of event. Product_Effects classifies what an event may change; Product_Properties,
  Draft_Properties and Terminal_Properties prove the promises of the projection over all runs: replay,
  approvals, leases, drafts, assets, terminals. Product_Witnesses holds concrete runs and the cases in which
  validation and projection disagree.

  \<^bold>\<open>Product event store\<close> (\<open>runtimeapi/store.go\<close>). Product_Store: a log of lines per task, \<open>Load\<close>, \<open>Commit\<close>,
  \<open>CommitExternal\<close>, with the outcome of the append and what stops a load (contexts, failed reads) as arguments.
  Store_Properties and Store_Runs: what is written is read back, over any runs of the three operations with any
  outcomes. Store_Nesting adds the limit of \<open>encoding/json\<close> on the nesting of what is read: every log loads while
  payloads have at most 9,996 levels, 10000 less the four above them in a record, and a log with a deeper one is
  lost. All other statements on stores, services and the server are about such payloads. Store_Witnesses has the
  concrete runs.

  \<^bold>\<open>Runtime service and contract\<close> (\<open>runtimeapi/service.go\<close>, \<open>contract.go\<close>). Runtime_Service: each operation loads,
  decides and commits, with any operations of other goroutines between the load and the commit (\<open>ca_others\<close>).
  Service_Properties: control is taken once, a resolution is final, and how the scopes are read from the
  log; Service_Witnesses. Runtime_Contract and Contract_Properties: the handshake and the command envelope.
  Strings are assumed to be valid UTF-8 where they are marshalled.

  \<^bold>\<open>Terminal output\<close> (\<open>runtimeapi/terminal_sanitize.go\<close>). Terminal_Sanitizer is the filter byte by byte, with a length
  measure for the rune loop; Sanitizer_Properties: it does not depend on how the output is cut into reads,
  what passes, and what passes that should not.

  \<^bold>\<open>Runtime server\<close> (\<open>runtimeapi/local.go\<close>, \<open>terminal_authority.go\<close>, \<open>terminal_manager.go\<close>, \<open>editor_manager.go\<close>,
  \<open>security/safefile.go\<close>). Verified_File opens a file inside a root, with one view of the file system per call, and
  holds the proof that the opened file lay inside. Runtime_Authority decides who may open a terminal or work on
  a file. Terminal_Manager has the sessions, their commands and their goroutines; Manager_Properties runs them in
  any order, with writes that processes take in part, and bounds the output, the input and the identifiers. Editor_Manager has the drafts;
  Editor_Properties shows what a replaced file went through. Go_Base64 is the encoding of terminal bytes.
  Local_Server dispatches commands, stores their receipts and saves its state, Local_Requests constructs a server and
  answers requests; Server_Properties shows, over any runs with failed saves and restarts, that a command has one
  effect and that the saved state loads. What the world answers during one command (clocks, files, processes,
  outcomes of writes) is the record \<open>world\<close>. Runtime_Witnesses has the runs: a terminal, a draft, a command. The
  framing of messages (\<open>Serve\<close>) and the remote transport are not modelled.

  \<^bold>\<open>Sessions\<close> (\<open>session/\<close>, \<open>core/message.go\<close>, \<open>event.go\<close>). Session_Message has messages and events, what becomes of
  them as JSON, their copies and compaction. Session_Store is the store: the event log with its recovery, snapshots,
  checkpoints, branches, leases. Session_Properties runs it with any failures of reads and writes and shows that the log only
  grows and is replayed as long as events have types and nest no deeper than can be read; Session_Checkpoints shows
  that a checkpoint gives back a copy of what it was taken from, without the media of images, and starts its
  branches, what compaction keeps, and behaviours one would not expect. Session_Witnesses has small sessions.

  \<^bold>\<open>Tools\<close> (\<open>tool/registry.go\<close>, \<open>runner.go\<close>). Tool_Runner has the registry, the check of arguments against a schema,
  the runner with its permissions, hooks and gate, and the bound on results; a run yields the list of what happened.
  Tool_Properties shows that nothing runs that was not allowed for the arguments it runs with, that a denial rule of
  the broker (Permission_Broker) holds whatever hooks do, and the bound. Tool_Witnesses has a run under a denial rule.

  \<^bold>\<open>Not modelled.\<close> Shell parsing and security (\<open>utils/bash_*.go\<close>, \<open>shell_ast.go\<close>), the agent
  runtime, services, the single tools, providers, MCP and LSP clients, plugins, the command line and the terminal
  interface. Most of these act on the network, processes or the terminal; shell analysis
  holds logic of its own.
\<close>

end
